(* ===== verification/Prelude.thy ===== *)
theory Prelude
  imports Main "HOL-Library.Word" "HOL-Library.AList"
begin

text \<open>
  Shared ground of the development: the outcome of an operation that may return, fail with an
  error value or panic; hash maps and hash sets as the program uses them; the collections of
  facts the component theories fill.

  A \<open>HashMap\<close> is an association list in some iteration order with distinct keys. The
  iteration order of Rust's hash maps is unspecified, so every theorem about a loop over a map
  holds for every order. A \<open>HashSet\<close> is a list without duplicates in the same sense.
\<close>

named_theorems outcome_simps \<open>elimination of outcomes by case analysis\<close>
named_theorems codec_simps \<open>round trips of the file formats\<close>
named_theorems frame_simps \<open>fields an operation leaves alone\<close>

section \<open>Outcomes\<close>

text \<open>\<open>Result<T, E>\<close> together with the third way out of a Rust function, a panic.\<close>

datatype ('e, 'a) outcome = Ok 'a | Err 'e | Panic

fun is_Ok :: "('e, 'a) outcome \<Rightarrow> bool" where
  "is_Ok (Ok _) = True"
| "is_Ok _ = False"

section \<open>Hash maps\<close>

type_synonym ('k, 'v) hmap = "('k \<times> 'v) list"

definition hm_wf :: "('k, 'v) hmap \<Rightarrow> bool" where
  "hm_wf m \<longleftrightarrow> distinct (map fst m)"

definition hm_get :: "('k, 'v) hmap \<Rightarrow> 'k \<Rightarrow> 'v option" where
  "hm_get m k = map_of m k"

definition hm_insert :: "'k \<Rightarrow> 'v \<Rightarrow> ('k, 'v) hmap \<Rightarrow> ('k, 'v) hmap" where
  "hm_insert k v m = AList.update k v m"

definition hm_remove :: "'k \<Rightarrow> ('k, 'v) hmap \<Rightarrow> ('k, 'v) hmap" where
  "hm_remove k m = AList.delete k m"

definition hm_keys :: "('k, 'v) hmap \<Rightarrow> 'k list" where
  "hm_keys m = map fst m"

text \<open>The laws every client of a map relies on.\<close>

locale map_api =
  fixes get :: "'m \<Rightarrow> 'k \<Rightarrow> 'v option"
    and ins :: "'k \<Rightarrow> 'v \<Rightarrow> 'm \<Rightarrow> 'm"
    and rem :: "'k \<Rightarrow> 'm \<Rightarrow> 'm"
    and emp :: "'m"
    and wf :: "'m \<Rightarrow> bool"
  assumes get_emp: "get emp k = None"
    and get_ins: "get (ins k v m) j = (if j = k then Some v else get m j)"
    and get_rem: "wf m \<Longrightarrow> get (rem k m) j = (if j = k then None else get m j)"
    and wf_emp: "wf emp"
    and wf_ins: "wf m \<Longrightarrow> wf (ins k v m)"
    and wf_rem: "wf m \<Longrightarrow> wf (rem k m)"
begin

lemma get_ins_same: "get (ins k v m) k = Some v"
  by (simp add: get_ins)

lemma get_ins_other: "j \<noteq> k \<Longrightarrow> get (ins k v m) j = get m j"
  by (simp add: get_ins)

lemma ins_ins: "get (ins k v (ins k u m)) = get (ins k v m)"
  by (rule ext) (simp add: get_ins)

lemma rem_ins: "wf m \<Longrightarrow> get m k = None \<Longrightarrow> get (rem k (ins k v m)) j = get m j"
  by (simp add: get_rem wf_ins get_ins)

lemma dom_ins: "dom (get (ins k v m)) = insert k (dom (get m))"
  by (auto simp: get_ins dom_def)

lemma dom_rem: "wf m \<Longrightarrow> dom (get (rem k m)) = dom (get m) - {k}"
  by (auto simp: get_rem dom_def split: if_splits)

end

lemma hm_get_insert [simp]: "hm_get (hm_insert k v m) j = (if j = k then Some v else hm_get m j)"
  by (simp add: hm_get_def hm_insert_def update_conv')

lemma hm_get_remove [simp]: "hm_get (hm_remove k m) j = (if j = k then None else hm_get m j)"
  by (simp add: hm_get_def hm_remove_def delete_conv')

lemma hm_get_Nil [simp]: "hm_get [] k = None"
  by (simp add: hm_get_def)

lemma hm_get_Cons [simp]: "hm_get ((a, b) # m) k = (if k = a then Some b else hm_get m k)"
  by (simp add: hm_get_def)

lemma hm_wf_Nil [simp]: "hm_wf []"
  by (simp add: hm_wf_def)

lemma hm_wf_Cons [simp]: "hm_wf ((k, v) # m) \<longleftrightarrow> hm_get m k = None \<and> hm_wf m"
  by (auto simp: hm_wf_def hm_get_def map_of_eq_None_iff)

lemma hm_wf_insert [intro, simp]: "hm_wf m \<Longrightarrow> hm_wf (hm_insert k v m)"
  by (simp add: hm_wf_def hm_insert_def distinct_update)

lemma hm_wf_remove [intro, simp]: "hm_wf m \<Longrightarrow> hm_wf (hm_remove k m)"
  by (simp add: hm_wf_def hm_remove_def distinct_delete)

interpretation hm: map_api hm_get hm_insert hm_remove "[]" hm_wf
  by unfold_locales auto

lemma hm_get_in_set: "hm_get m k = Some v \<Longrightarrow> (k, v) \<in> set m"
  by (simp add: hm_get_def map_of_SomeD)

lemma hm_get_eqI: "hm_wf m \<Longrightarrow> (k, v) \<in> set m \<Longrightarrow> hm_get m k = Some v"
  by (simp add: hm_wf_def hm_get_def)

lemma hm_get_iff: "hm_wf m \<Longrightarrow> hm_get m k = Some v \<longleftrightarrow> (k, v) \<in> set m"
  by (auto intro: hm_get_eqI dest: hm_get_in_set)

lemma hm_get_None_iff: "hm_get m k = None \<longleftrightarrow> k \<notin> set (hm_keys m)"
  by (simp add: hm_get_def hm_keys_def map_of_eq_None_iff)

text \<open>Mapping a function over the values of a map (\<open>iter().map(..).collect()\<close>).\<close>

definition hm_map :: "('k \<Rightarrow> 'v \<Rightarrow> 'w) \<Rightarrow> ('k, 'v) hmap \<Rightarrow> ('k, 'w) hmap" where
  "hm_map f m = map (\<lambda>(k, v). (k, f k v)) m"

lemma hm_get_map [simp]: "hm_get (hm_map f m) k = map_option (f k) (hm_get m k)"
  by (induction m) (auto simp: hm_map_def)

lemma hm_map_Nil [simp]: "hm_map f [] = []"
  by (simp add: hm_map_def)

lemma hm_map_Cons [simp]: "hm_map f ((k, v) # m) = (k, f k v) # hm_map f m"
  by (simp add: hm_map_def)

lemma hm_keys_map [simp]: "hm_keys (hm_map f m) = hm_keys m"
  by (simp add: hm_keys_def hm_map_def comp_def case_prod_unfold)

lemma hm_wf_map [simp]: "hm_wf (hm_map f m) \<longleftrightarrow> hm_wf m"
  using hm_keys_map [of f m] by (simp add: hm_wf_def hm_keys_def)

section \<open>Hash sets\<close>

type_synonym 'a hset = "'a list"

definition hs_insert :: "'a \<Rightarrow> 'a hset \<Rightarrow> 'a hset" where
  "hs_insert x s = (if x \<in> set s then s else x # s)"

definition hs_remove :: "'a \<Rightarrow> 'a hset \<Rightarrow> 'a hset" where
  "hs_remove x s = filter (\<lambda>y. y \<noteq> x) s"

lemma set_hs_insert [simp]: "set (hs_insert x s) = insert x (set s)"
  by (auto simp: hs_insert_def)

lemma set_hs_remove [simp]: "set (hs_remove x s) = set s - {x}"
  by (auto simp: hs_remove_def)

lemma distinct_hs_insert [intro, simp]: "distinct s \<Longrightarrow> distinct (hs_insert x s)"
  by (simp add: hs_insert_def)

lemma distinct_hs_remove [intro, simp]: "distinct s \<Longrightarrow> distinct (hs_remove x s)"
  by (simp add: hs_remove_def)

section \<open>File formats\<close>

text \<open>
  Every persisted type has a \<open>Spec\<close> type with a \<open>parse\<close> and a \<open>build\<close>. What the
  program relies on is that building and parsing again gives the same model value, for the
  values that can occur (\<open>ok\<close>).
\<close>

locale file_codec =
  fixes build :: "'m \<Rightarrow> 's"
    and parse :: "'s \<Rightarrow> 'm"
    and ok :: "'m \<Rightarrow> bool"
  assumes parse_build: "ok m \<Longrightarrow> parse (build m) = m"
    and parse_ok: "ok (parse s)"
begin

lemma build_inj: "ok m \<Longrightarrow> ok m' \<Longrightarrow> build m = build m' \<Longrightarrow> m = m'"
  by (metis parse_build)

lemma reparse: "parse (build (parse s)) = parse s"
  by (rule parse_build) (rule parse_ok)

lemma ok_iff: "ok m \<longleftrightarrow> (\<exists>s. m = parse s)"
  using parse_build parse_ok by metis

end

text \<open>A format that also loses nothing of the file.\<close>

locale exact_codec = file_codec +
  assumes build_parse: "build (parse s) = s"
begin

lemma parse_inj: "parse s = parse s' \<Longrightarrow> s = s'"
  by (metis build_parse)

lemma build_surj: "\<exists>m. ok m \<and> build m = s"
  using build_parse parse_ok by blast

end

end
