(* ===== verification/Net_Types.thy ===== *)
theory Net_Types
  imports Prelude
begin

text \<open>
  Types of the standard library and of the \<open>domain\<close> crate that the program passes around:
  names, addresses, serials, times and paths. They carry no logic of the program.

  A \<open>Name<Bytes>\<close> is its canonical (lower-case) presentation, so that equality of names is
  equality here. A \<open>Duration\<close> and an \<open>Instant\<close> count nanoseconds. A \<open>Serial\<close>
  is a 32-bit word; its ordering belongs to the \<open>domain\<close> crate and is a parameter of the
  definitions that use it, described by \<open>serial_order\<close>.
\<close>

section \<open>Names and addresses\<close>

type_synonym dname = string
type_synonym utf8path = string

datatype ip_addr = V4 "32 word" | V6 "128 word"

datatype socket_addr =
    SocketAddrV4 "32 word" "16 word"
  | SocketAddrV6 "128 word" "16 word" "32 word" "32 word"

fun SocketAddr_new :: "ip_addr \<Rightarrow> 16 word \<Rightarrow> socket_addr" where
  "SocketAddr_new (V4 a) p = SocketAddrV4 a p"
| "SocketAddr_new (V6 a) p = SocketAddrV6 a p 0 0"

fun SocketAddr_ip :: "socket_addr \<Rightarrow> ip_addr" where
  "SocketAddr_ip (SocketAddrV4 a p) = V4 a"
| "SocketAddr_ip (SocketAddrV6 a p f s) = V6 a"

fun SocketAddr_port :: "socket_addr \<Rightarrow> 16 word" where
  "SocketAddr_port (SocketAddrV4 a p) = p"
| "SocketAddr_port (SocketAddrV6 a p f s) = p"

lemma SocketAddr_ip_new [simp]: "SocketAddr_ip (SocketAddr_new ip p) = ip"
  by (cases ip) auto

lemma SocketAddr_port_new [simp]: "SocketAddr_port (SocketAddr_new ip p) = p"
  by (cases ip) auto

section \<open>Time\<close>

type_synonym duration = nat
type_synonym instant = nat

definition nanos_per_sec :: nat where
  "nanos_per_sec = 1000000000"

definition Duration_from_secs :: "64 word \<Rightarrow> duration" where
  "Duration_from_secs s = unat s * nanos_per_sec"

definition Duration_as_secs :: "duration \<Rightarrow> 64 word" where
  "Duration_as_secs d = word_of_nat (d div nanos_per_sec)"

definition whole_secs :: "duration \<Rightarrow> bool" where
  "whole_secs d \<longleftrightarrow> d mod nanos_per_sec = 0 \<and> d div nanos_per_sec < 2 ^ 64"

lemma as_secs_from_secs [simp]: "Duration_as_secs (Duration_from_secs s) = s"
  by (simp add: Duration_as_secs_def Duration_from_secs_def nanos_per_sec_def)

lemma unat_less_2_64 [simp]: "unat (s :: 64 word) < 18446744073709551616"
  using unsigned_less [of s] by simp

lemma from_secs_as_secs [simp]: "whole_secs d \<Longrightarrow> Duration_from_secs (Duration_as_secs d) = d"
  by (auto simp: whole_secs_def Duration_as_secs_def Duration_from_secs_def unat_of_nat
      nanos_per_sec_def)

lemma whole_secs_from_secs [simp]: "whole_secs (Duration_from_secs s)"
  by (simp add: whole_secs_def Duration_from_secs_def nanos_per_sec_def)

lemma from_secs_eq_iff [simp]: "Duration_from_secs s = Duration_from_secs t \<longleftrightarrow> s = t"
  by (metis as_secs_from_secs)

section \<open>Serials\<close>

type_synonym serial = "32 word"

text \<open>RFC 1982 serial arithmetic: \<open>s\<close> comes before \<open>t\<close> when \<open>t\<close> lies in the half
  of the circle after \<open>s\<close>.\<close>

definition rfc1982_less :: "serial \<Rightarrow> serial \<Rightarrow> bool" where
  "rfc1982_less s t \<longleftrightarrow> s \<noteq> t \<and> t - s < 2 ^ 31"

text \<open>The documented behaviour of \<open>domain::base::Serial\<close>'s \<open>PartialOrd\<close>.\<close>

definition serial_order :: "(serial \<Rightarrow> serial \<Rightarrow> bool) \<Rightarrow> bool" where
  "serial_order slt \<longleftrightarrow> (\<forall>s t. slt s t \<longleftrightarrow> rfc1982_less s t)"

lemma serial_order_rfc1982 [simp]: "serial_order rfc1982_less"
  by (simp add: serial_order_def)

lemma serial_orderD: "serial_order slt \<Longrightarrow> slt s t = rfc1982_less s t"
  by (simp add: serial_order_def)

lemma rfc1982_irrefl [simp]: "\<not> rfc1982_less s s"
  by (simp add: rfc1982_less_def)

lemma rfc1982_asym: "rfc1982_less s t \<Longrightarrow> \<not> rfc1982_less t s"
proof
  assume st: "rfc1982_less s t" and ts: "rfc1982_less t s"
  define d where "d = t - s"
  have n: "s - t = - d" by (simp add: d_def)
  have d0: "d \<noteq> 0" and b: "unat d < 2 ^ 31"
    using st by (auto simp: rfc1982_less_def d_def word_less_nat_alt)
  have a: "unat (- d) < 2 ^ 31"
    using ts n by (simp add: rfc1982_less_def word_less_nat_alt)
  have "unat (d + - d) = (unat d + unat (- d)) mod 2 ^ 32"
    by (simp only: unat_word_ariths) simp
  also have "\<dots> = unat d + unat (- d)"
    using a b by simp
  finally have "unat d = 0" by simp
  with d0 show False by (simp add: unat_eq_0)
qed

section \<open>Paths\<close>

text \<open>\<open>Path::file_stem\<close> and \<open>Path::extension\<close> on a file name: the part before and the
  part after the last dot; a name without a dot, or whose only dot is its first character, has
  no extension.\<close>

definition last_dot :: "string \<Rightarrow> nat option" where
  "last_dot s = (case filter (\<lambda>i. s ! i = CHR ''.'') (rev [0..<length s]) of [] \<Rightarrow> None | i # _ \<Rightarrow> Some i)"

definition Path_extension :: "string \<Rightarrow> string option" where
  "Path_extension s = (case last_dot s of
      None \<Rightarrow> None
    | Some i \<Rightarrow> if i = 0 then None else Some (drop (Suc i) s))"

definition Path_file_stem :: "string \<Rightarrow> string" where
  "Path_file_stem s = (case last_dot s of
      None \<Rightarrow> s
    | Some i \<Rightarrow> if i = 0 then s else take i s)"

definition to_ascii_lower :: "char \<Rightarrow> char" where
  "to_ascii_lower c = (let n = of_char c :: nat in if 65 \<le> n \<and> n \<le> 90 then char_of (n + 32) else c)"

definition eq_ignore_ascii_case :: "string \<Rightarrow> string \<Rightarrow> bool" where
  "eq_ignore_ascii_case s t \<longleftrightarrow> map to_ascii_lower s = map to_ascii_lower t"

lemma Path_examples:
  "Path_extension ''a.toml'' = Some ''toml''" "Path_file_stem ''a.toml'' = ''a''"
  "Path_extension ''.toml'' = None" "Path_extension ''a.b.TOML'' = Some ''TOML''"
  "Path_file_stem ''a.b.TOML'' = ''a.b''" "eq_ignore_ascii_case ''TOML'' ''toml''"
  by code_simp+

end
