(* ===== verification/Config.thy ===== *)
theory Config
  imports Net_Types
begin

text \<open>
  The configuration: \<open>src/config/mod.rs\<close> (the types, the layered \<open>Setting\<close>s),
  \<open>args.rs\<close> and \<open>env.rs\<close> (command-line arguments and environment variables) and
  \<open>file/v1.rs\<close> (the configuration file). The argument parser, the TOML reader and the
  parsing of a socket address are parameters; what they give is merged here.
\<close>

section \<open>Strings\<close>

text \<open>\<open>str::split_once\<close>, \<open>str::strip_prefix\<close>, \<open>str::split\<close> on a character and
  \<open>u32::from_str\<close>.\<close>

fun strip_prefix :: "string \<Rightarrow> string \<Rightarrow> string option" where
  "strip_prefix [] s = Some s"
| "strip_prefix (p # ps) [] = None"
| "strip_prefix (p # ps) (c # cs) = (if p = c then strip_prefix ps cs else None)"

fun split_once :: "string \<Rightarrow> string \<Rightarrow> (string \<times> string) option" where
  "split_once sep [] = (case strip_prefix sep [] of Some rest \<Rightarrow> Some ([], rest) | None \<Rightarrow> None)"
| "split_once sep (c # cs) = (case strip_prefix sep (c # cs) of
      Some rest \<Rightarrow> Some ([], rest)
    | None \<Rightarrow> (case split_once sep cs of Some (a, b) \<Rightarrow> Some (c # a, b) | None \<Rightarrow> None))"

fun split_char :: "char \<Rightarrow> string \<Rightarrow> string list" where
  "split_char d [] = [[]]"
| "split_char d (c # cs) = (if c = d then [] # split_char d cs
     else (case split_char d cs of [] \<Rightarrow> [[c]] | w # ws \<Rightarrow> (c # w) # ws))"

lemma split_char_app: "d \<notin> set a \<Longrightarrow> split_char d (a @ d # b) = a # split_char d b"
  by (induction a) auto

lemma split_char_none: "d \<notin> set a \<Longrightarrow> split_char d a = [a]"
  by (induction a) auto

datatype int_error = Empty | InvalidDigit | PosOverflow

definition digit_val :: "char \<Rightarrow> nat option" where
  "digit_val c = (let n = of_char c in if 48 \<le> n \<and> n \<le> 57 then Some (n - 48) else None)"

fun parse_digits :: "nat \<Rightarrow> string \<Rightarrow> int_error + nat" where
  "parse_digits acc [] = Inr acc"
| "parse_digits acc (c # cs) = (case digit_val c of
      None \<Rightarrow> Inl InvalidDigit
    | Some d \<Rightarrow> if acc * 10 + d \<ge> 2 ^ 32 then Inl PosOverflow else parse_digits (acc * 10 + d) cs)"

definition u32_from_str :: "string \<Rightarrow> int_error + 32 word" where
  "u32_from_str s =
    (if s = [] then Inl Empty
     else if s = ''+'' \<or> s = ''-'' then Inl InvalidDigit
     else case parse_digits 0 (if hd s = CHR ''+'' then tl s else s) of
       Inl e \<Rightarrow> Inl e | Inr n \<Rightarrow> Inr (word_of_nat n))"

section \<open>Settings\<close>

record 'a Setting =
  set_default :: 'a
  set_file :: "'a option"
  set_env :: "'a option"
  set_args :: "'a option"

datatype SettingSource = Default | File | Env | Args

definition Setting_new :: "'a \<Rightarrow> 'a Setting" where
  "Setting_new d = \<lparr> set_default = d, set_file = None, set_env = None, set_args = None \<rparr>"

definition Setting_value :: "'a Setting \<Rightarrow> 'a" where
  "Setting_value s = (case set_args s of Some v \<Rightarrow> v
    | None \<Rightarrow> (case set_env s of Some v \<Rightarrow> v
    | None \<Rightarrow> (case set_file s of Some v \<Rightarrow> v
    | None \<Rightarrow> set_default s)))"

definition Setting_setting :: "'a Setting \<Rightarrow> SettingSource" where
  "Setting_setting s = (case set_args s of Some _ \<Rightarrow> Args
    | None \<Rightarrow> (case set_env s of Some _ \<Rightarrow> Env
    | None \<Rightarrow> (case set_file s of Some _ \<Rightarrow> File
    | None \<Rightarrow> Default)))"

definition Setting_eq :: "'a Setting \<Rightarrow> 'a Setting \<Rightarrow> bool" where
  "Setting_eq s t \<longleftrightarrow> Setting_value s = Setting_value t"

section \<open>The configuration\<close>

datatype LogLevel = Trace | Debug | Info | Warning | Error | Critical

fun LogLevel_as_str :: "LogLevel \<Rightarrow> string" where
  "LogLevel_as_str Trace = ''trace''"
| "LogLevel_as_str Debug = ''debug''"
| "LogLevel_as_str Info = ''info''"
| "LogLevel_as_str Warning = ''warning''"
| "LogLevel_as_str Error = ''error''"
| "LogLevel_as_str Critical = ''critical''"

datatype LogTarget = File utf8path | Syslog

datatype UserId = Numeric "32 word" | Named string

datatype GroupId = Numeric "32 word" | Named string

datatype SocketConfig = UDP socket_addr | TCP socket_addr | TCPUDP socket_addr

record LoggingConfig =
  lg_level :: "LogLevel Setting"
  lg_target :: "LogTarget Setting"
  lg_trace_targets :: "string set Setting"

record DaemonConfig =
  dm_state_file :: "utf8path Setting"
  dm_logging :: LoggingConfig
  dm_config_file :: "utf8path Setting"
  dm_daemonize :: "bool Setting"
  dm_pid_file :: "utf8path option"
  dm_chroot :: "utf8path option"
  dm_identity :: "(UserId \<times> GroupId) option"

record ReviewConfig =
  rc_servers :: "SocketConfig list"

record LoaderConfig =
  lc_notif_listeners :: "SocketConfig list"
  lc_review :: ReviewConfig

record SignerConfig =
  sc_review :: ReviewConfig

type_synonym KeyManagerConfig = unit

record ServerConfig =
  svc_servers :: "SocketConfig list"

record Config =
  cfg_policy_dir :: utf8path
  cfg_zone_state_dir :: utf8path
  cfg_tsig_store_path :: utf8path
  cfg_daemon :: DaemonConfig
  cfg_loader :: LoaderConfig
  cfg_signer :: SignerConfig
  cfg_key_manager :: KeyManagerConfig
  cfg_server :: ServerConfig

definition LoggingConfig_default :: LoggingConfig where
  "LoggingConfig_default = \<lparr>
     lg_level = Setting_new LogLevel.Info,
     lg_target = Setting_new (LogTarget.File ''/dev/stdout''),
     lg_trace_targets = Setting_new {} \<rparr>"

definition DaemonConfig_default :: DaemonConfig where
  "DaemonConfig_default = \<lparr>
     dm_state_file = Setting_new ''/var/db/cascade/state.db'',
     dm_logging = LoggingConfig_default,
     dm_config_file = Setting_new ''/etc/cascade/config.toml'',
     dm_daemonize = Setting_new False,
     dm_pid_file = None, dm_chroot = None, dm_identity = None \<rparr>"

definition Config_default :: Config where
  "Config_default = \<lparr>
     cfg_policy_dir = ''/etc/cascade/policies'',
     cfg_zone_state_dir = ''/var/db/cascade/zone-state.db'',
     cfg_tsig_store_path = ''/var/db/cascade/tsig-keys.db'',
     cfg_daemon = DaemonConfig_default,
     cfg_loader = \<lparr> lc_notif_listeners = [], lc_review = \<lparr> rc_servers = [] \<rparr> \<rparr>,
     cfg_signer = \<lparr> sc_review = \<lparr> rc_servers = [] \<rparr> \<rparr>,
     cfg_key_manager = (),
     cfg_server = \<lparr> svc_servers = [] \<rparr> \<rparr>"

section \<open>Command-line arguments\<close>

datatype ArgsLogTargetSpec = File utf8path | Syslog

fun ArgsLogTargetSpec_build :: "ArgsLogTargetSpec \<Rightarrow> LogTarget" where
  "ArgsLogTargetSpec_build (ArgsLogTargetSpec.File path) = LogTarget.File path"
| "ArgsLogTargetSpec_build ArgsLogTargetSpec.Syslog = LogTarget.Syslog"

text \<open>\<open>None\<close> is a refusal by the argument parser.\<close>

definition ArgsLogTargetSpec_parse_ref :: "string \<Rightarrow> ArgsLogTargetSpec option" where
  "ArgsLogTargetSpec_parse_ref s =
    (if s = ''stdout'' then Some (ArgsLogTargetSpec.File ''/dev/stdout'')
     else if s = ''stderr'' then Some (ArgsLogTargetSpec.File ''/dev/stderr'')
     else case strip_prefix ''file:'' s of
       Some p \<Rightarrow> Some (ArgsLogTargetSpec.File p)
     | None \<Rightarrow> if s = ''syslog'' then Some ArgsLogTargetSpec.Syslog else None)"

record ArgsSpec =
  ar_state :: "utf8path option"
  ar_config :: "utf8path option"
  ar_log_level :: "LogLevel option"
  ar_log_target :: "ArgsLogTargetSpec option"
  ar_daemonize :: bool

definition ArgsSpec_merge :: "ArgsSpec \<Rightarrow> Config \<Rightarrow> Config" where
  "ArgsSpec_merge a config = (let
      daemon = cfg_daemon config;
      logging = dm_logging daemon;
      logging' = logging \<lparr>
        lg_level := (lg_level logging) \<lparr> set_args := ar_log_level a \<rparr>,
        lg_target := (lg_target logging) \<lparr> set_args := map_option ArgsLogTargetSpec_build (ar_log_target a) \<rparr> \<rparr>
    in config \<lparr> cfg_daemon := daemon \<lparr>
        dm_state_file := (dm_state_file daemon) \<lparr> set_args := ar_state a \<rparr>,
        dm_logging := logging',
        dm_config_file := (dm_config_file daemon) \<lparr> set_args := ar_config a \<rparr>,
        dm_daemonize := (dm_daemonize daemon) \<lparr> set_args := (if ar_daemonize a then Some True else None) \<rparr> \<rparr> \<rparr>)"

section \<open>Environment variables\<close>

datatype EnvError =
    NonUtf8 string
  | InvalidLogLevel string
  | InvalidLogTarget string

datatype EnvLogTargetSpec = File utf8path | Syslog

fun EnvLogTargetSpec_build :: "EnvLogTargetSpec \<Rightarrow> LogTarget" where
  "EnvLogTargetSpec_build (EnvLogTargetSpec.File path) = LogTarget.File path"
| "EnvLogTargetSpec_build EnvLogTargetSpec.Syslog = LogTarget.Syslog"

definition EnvLogTargetSpec_parse :: "string \<Rightarrow> EnvError + EnvLogTargetSpec" where
  "EnvLogTargetSpec_parse s =
    (if s = ''stdout'' then Inr (EnvLogTargetSpec.File ''/dev/stdout'')
     else if s = ''stderr'' then Inr (EnvLogTargetSpec.File ''/dev/stderr'')
     else case strip_prefix ''file:'' s of
       Some p \<Rightarrow> Inr (EnvLogTargetSpec.File p)
     | None \<Rightarrow> if s = ''syslog'' then Inr EnvLogTargetSpec.Syslog else Inl (InvalidLogTarget s))"

definition env_log_level :: "string \<Rightarrow> EnvError + LogLevel" where
  "env_log_level v =
    (if v = ''trace'' then Inr LogLevel.Trace
     else if v = ''debug'' then Inr LogLevel.Debug
     else if v = ''info'' then Inr LogLevel.Info
     else if v = ''warning'' then Inr LogLevel.Warning
     else if v = ''error'' then Inr LogLevel.Error
     else if v = ''critical'' then Inr LogLevel.Critical
     else Inl (InvalidLogLevel v))"

record EnvSpec =
  ev_state :: "utf8path option"
  ev_config :: "utf8path option"
  ev_log_level :: "LogLevel option"
  ev_log_target :: "EnvLogTargetSpec option"
  ev_log_trace_targets :: "string set option"

text \<open>The environment: a variable is unset, not UTF-8 (\<open>Some None\<close>), or a string.\<close>

type_synonym environment = "string \<Rightarrow> string option option"

definition env_var :: "environment \<Rightarrow> string \<Rightarrow> EnvError + string option" where
  "env_var env v = (case env v of
      None \<Rightarrow> Inr None | Some None \<Rightarrow> Inl (NonUtf8 v) | Some (Some s) \<Rightarrow> Inr (Some s))"

text \<open>\<open>opt.map(f).transpose()\<close>.\<close>

fun transpose_map :: "('a \<Rightarrow> 'e + 'b) \<Rightarrow> 'a option \<Rightarrow> 'e + 'b option" where
  "transpose_map f None = Inr None"
| "transpose_map f (Some a) = (case f a of Inl e \<Rightarrow> Inl e | Inr b \<Rightarrow> Inr (Some b))"

definition bind_res :: "'e + 'a \<Rightarrow> ('a \<Rightarrow> 'e + 'b) \<Rightarrow> 'e + 'b" where
  "bind_res r f = (case r of Inl e \<Rightarrow> Inl e | Inr a \<Rightarrow> f a)"

definition EnvSpec_process :: "environment \<Rightarrow> EnvError + EnvSpec" where
  "EnvSpec_process env =
    bind_res (env_var env ''CASCADE_STATE_PATH'') (\<lambda>state.
    bind_res (env_var env ''CASCADE_CONFIG_PATH'') (\<lambda>config.
    bind_res (bind_res (env_var env ''CASCADE_LOG_LEVEL'') (transpose_map env_log_level)) (\<lambda>log_level.
    bind_res (bind_res (env_var env ''CASCADE_LOG'') (transpose_map EnvLogTargetSpec_parse)) (\<lambda>log_target.
    bind_res (env_var env ''CASCADE_LOG_TRACE_TARGETS'') (\<lambda>trace.
      Inr \<lparr> ev_state = state, ev_config = config, ev_log_level = log_level,
            ev_log_target = log_target,
            ev_log_trace_targets = map_option (\<lambda>v. set (split_char (CHR '','') v)) trace \<rparr>)))))"

definition EnvSpec_merge :: "EnvSpec \<Rightarrow> Config \<Rightarrow> Config" where
  "EnvSpec_merge e config = (let
      daemon = cfg_daemon config;
      logging = dm_logging daemon;
      logging' = logging \<lparr>
        lg_level := (lg_level logging) \<lparr> set_env := ev_log_level e \<rparr>,
        lg_target := (lg_target logging) \<lparr> set_env := map_option EnvLogTargetSpec_build (ev_log_target e) \<rparr>,
        lg_trace_targets := (lg_trace_targets logging) \<lparr> set_env := ev_log_trace_targets e \<rparr> \<rparr>
    in config \<lparr> cfg_daemon := daemon \<lparr>
        dm_state_file := (dm_state_file daemon) \<lparr> set_env := ev_state e \<rparr>,
        dm_logging := logging',
        dm_config_file := (dm_config_file daemon) \<lparr> set_env := ev_config e \<rparr> \<rparr> \<rparr>)"

text \<open>\<open>Config::init\<close>; the arguments have been parsed by \<open>clap\<close>.\<close>

definition Config_init :: "environment \<Rightarrow> ArgsSpec \<Rightarrow> EnvError + Config" where
  "Config_init env args = (case EnvSpec_process env of
      Inl e \<Rightarrow> Inl e
    | Inr env \<Rightarrow> Inr (EnvSpec_merge env (ArgsSpec_merge args Config_default)))"

end
