(* ===== verification/Policy.thy ===== *)
theory Policy
  imports Net_Types
begin

text \<open>
  Zone policies: the model types of \<open>src/policy/mod.rs\<close>. An \<open>Arc<PolicyVersion>\<close> is
  its (immutable) value; the comparisons in the code compare the values too. Loading the policy
  directory (\<open>reload_all\<close>) is in \<open>Policy_File\<close>, beside the file format it reads.
\<close>

datatype Nsec3OptOutPolicy = Disabled | FlagOnly | Enabled

datatype SignerDenialPolicy = NSec | NSec3 Nsec3OptOutPolicy

datatype SignerSerialPolicy = Keep | Counter | UnixTime | DateCounter

record ReviewPolicy =
  rv_required :: bool
  rv_cmd_hook :: "string option"

record SignerPolicy =
  sg_serial_policy :: SignerSerialPolicy
  sg_sig_inception_offset :: duration
  sg_sig_validity_time :: duration
  sg_denial :: SignerDenialPolicy
  sg_review :: ReviewPolicy

record LoaderPolicy =
  ld_review :: ReviewPolicy

type_synonym KeyManagerPolicy = unit

type_synonym ServerPolicy = unit

record PolicyVersion =
  pv_name :: string
  pv_loader :: LoaderPolicy
  pv_key_manager :: KeyManagerPolicy
  pv_signer :: SignerPolicy
  pv_server :: ServerPolicy

record Policy =
  po_latest :: PolicyVersion
  po_mid_deletion :: bool
  po_zones :: "dname hset"

type_synonym policies = "(string, Policy) hmap"

text \<open>The durations of a policy that came from a file are whole numbers of seconds.\<close>

definition SignerPolicy_ok :: "SignerPolicy \<Rightarrow> bool" where
  "SignerPolicy_ok p \<longleftrightarrow> whole_secs (sg_sig_inception_offset p) \<and> whole_secs (sg_sig_validity_time p)"

definition PolicyVersion_ok :: "PolicyVersion \<Rightarrow> bool" where
  "PolicyVersion_ok p \<longleftrightarrow> SignerPolicy_ok (pv_signer p)"

end
