(* ===== verification/Policy_File.thy ===== *)
theory Policy_File
  imports Policy
begin

text \<open>
  The policy file: \<open>src/policy/file/v1.rs\<close> and \<open>src/policy/file/mod.rs\<close>, and the
  loading of the policy directory, \<open>Policy::reload\<close> and \<open>reload_all\<close> of
  \<open>src/policy/mod.rs\<close>. The TOML reader is third-party code, so reading a file of the
  policy directory is a parameter \<open>load\<close> of the definitions: it gives the \<open>Spec\<close> of the
  file or an I/O error. The lemmas show that the format loses nothing, and what a reload does
  to every policy.
\<close>

section \<open>Version 1 of the file\<close>

datatype PfNsec3OptOutSpec = Disabled | FlagOnly | Enabled

fun PfNsec3OptOutSpec_parse :: "PfNsec3OptOutSpec \<Rightarrow> Nsec3OptOutPolicy" where
  "PfNsec3OptOutSpec_parse PfNsec3OptOutSpec.Disabled = Nsec3OptOutPolicy.Disabled"
| "PfNsec3OptOutSpec_parse PfNsec3OptOutSpec.FlagOnly = Nsec3OptOutPolicy.FlagOnly"
| "PfNsec3OptOutSpec_parse PfNsec3OptOutSpec.Enabled = Nsec3OptOutPolicy.Enabled"

fun PfNsec3OptOutSpec_build :: "Nsec3OptOutPolicy \<Rightarrow> PfNsec3OptOutSpec" where
  "PfNsec3OptOutSpec_build Nsec3OptOutPolicy.Disabled = PfNsec3OptOutSpec.Disabled"
| "PfNsec3OptOutSpec_build Nsec3OptOutPolicy.FlagOnly = PfNsec3OptOutSpec.FlagOnly"
| "PfNsec3OptOutSpec_build Nsec3OptOutPolicy.Enabled = PfNsec3OptOutSpec.Enabled"

datatype PfSignerDenialSpec = NSec | NSec3 PfNsec3OptOutSpec

definition PfSignerDenialSpec_default :: PfSignerDenialSpec where
  "PfSignerDenialSpec_default = PfSignerDenialSpec.NSec3 PfNsec3OptOutSpec.Disabled"

fun PfSignerDenialSpec_parse :: "PfSignerDenialSpec \<Rightarrow> SignerDenialPolicy" where
  "PfSignerDenialSpec_parse PfSignerDenialSpec.NSec = SignerDenialPolicy.NSec"
| "PfSignerDenialSpec_parse (PfSignerDenialSpec.NSec3 opt_out) = SignerDenialPolicy.NSec3 (PfNsec3OptOutSpec_parse opt_out)"

fun PfSignerDenialSpec_build :: "SignerDenialPolicy \<Rightarrow> PfSignerDenialSpec" where
  "PfSignerDenialSpec_build SignerDenialPolicy.NSec = PfSignerDenialSpec.NSec"
| "PfSignerDenialSpec_build (SignerDenialPolicy.NSec3 opt_out) = PfSignerDenialSpec.NSec3 (PfNsec3OptOutSpec_build opt_out)"

datatype PfSignerSerialPolicySpec = Keep | Counter | UnixTime | DateCounter

fun PfSignerSerialPolicySpec_parse :: "PfSignerSerialPolicySpec \<Rightarrow> SignerSerialPolicy" where
  "PfSignerSerialPolicySpec_parse PfSignerSerialPolicySpec.Keep = SignerSerialPolicy.Keep"
| "PfSignerSerialPolicySpec_parse PfSignerSerialPolicySpec.Counter = SignerSerialPolicy.Counter"
| "PfSignerSerialPolicySpec_parse PfSignerSerialPolicySpec.UnixTime = SignerSerialPolicy.UnixTime"
| "PfSignerSerialPolicySpec_parse PfSignerSerialPolicySpec.DateCounter = SignerSerialPolicy.DateCounter"

fun PfSignerSerialPolicySpec_build :: "SignerSerialPolicy \<Rightarrow> PfSignerSerialPolicySpec" where
  "PfSignerSerialPolicySpec_build SignerSerialPolicy.Keep = PfSignerSerialPolicySpec.Keep"
| "PfSignerSerialPolicySpec_build SignerSerialPolicy.Counter = PfSignerSerialPolicySpec.Counter"
| "PfSignerSerialPolicySpec_build SignerSerialPolicy.UnixTime = PfSignerSerialPolicySpec.UnixTime"
| "PfSignerSerialPolicySpec_build SignerSerialPolicy.DateCounter = PfSignerSerialPolicySpec.DateCounter"

record PfReviewSpec =
  pf_rv_required :: bool
  pf_rv_cmd_hook :: "string option"

definition PfReviewSpec_parse :: "PfReviewSpec \<Rightarrow> ReviewPolicy" where
  "PfReviewSpec_parse s = \<lparr> rv_required = pf_rv_required s, rv_cmd_hook = pf_rv_cmd_hook s \<rparr>"

definition PfReviewSpec_build :: "ReviewPolicy \<Rightarrow> PfReviewSpec" where
  "PfReviewSpec_build p = \<lparr> pf_rv_required = rv_required p, pf_rv_cmd_hook = rv_cmd_hook p \<rparr>"

record PfSignerSpec =
  pf_sg_serial_policy :: PfSignerSerialPolicySpec
  pf_sg_sig_inception_offset :: "64 word"
  pf_sg_sig_validity_time :: "64 word"
  pf_sg_denial :: PfSignerDenialSpec
  pf_sg_review :: PfReviewSpec

definition PfSignerSpec_parse :: "PfSignerSpec \<Rightarrow> SignerPolicy" where
  "PfSignerSpec_parse s = \<lparr>
     sg_serial_policy = PfSignerSerialPolicySpec_parse (pf_sg_serial_policy s),
     sg_sig_inception_offset = Duration_from_secs (pf_sg_sig_inception_offset s),
     sg_sig_validity_time = Duration_from_secs (pf_sg_sig_validity_time s),
     sg_denial = PfSignerDenialSpec_parse (pf_sg_denial s),
     sg_review = PfReviewSpec_parse (pf_sg_review s) \<rparr>"

definition PfSignerSpec_build :: "SignerPolicy \<Rightarrow> PfSignerSpec" where
  "PfSignerSpec_build p = \<lparr>
     pf_sg_serial_policy = PfSignerSerialPolicySpec_build (sg_serial_policy p),
     pf_sg_sig_inception_offset = Duration_as_secs (sg_sig_inception_offset p),
     pf_sg_sig_validity_time = Duration_as_secs (sg_sig_validity_time p),
     pf_sg_denial = PfSignerDenialSpec_build (sg_denial p),
     pf_sg_review = PfReviewSpec_build (sg_review p) \<rparr>"

record PfLoaderSpec =
  pf_ld_review :: PfReviewSpec

definition PfLoaderSpec_parse :: "PfLoaderSpec \<Rightarrow> LoaderPolicy" where
  "PfLoaderSpec_parse s = \<lparr> ld_review = PfReviewSpec_parse (pf_ld_review s) \<rparr>"

definition PfLoaderSpec_build :: "LoaderPolicy \<Rightarrow> PfLoaderSpec" where
  "PfLoaderSpec_build p = \<lparr> pf_ld_review = PfReviewSpec_build (ld_review p) \<rparr>"

type_synonym PfKeyManagerSpec = unit
type_synonym PfServerSpec = unit

definition PfKeyManagerSpec_parse :: "PfKeyManagerSpec \<Rightarrow> KeyManagerPolicy" where
  "PfKeyManagerSpec_parse s = ()"

definition PfKeyManagerSpec_build :: "KeyManagerPolicy \<Rightarrow> PfKeyManagerSpec" where
  "PfKeyManagerSpec_build p = ()"

definition PfServerSpec_parse :: "PfServerSpec \<Rightarrow> ServerPolicy" where
  "PfServerSpec_parse s = ()"

definition PfServerSpec_build :: "ServerPolicy \<Rightarrow> PfServerSpec" where
  "PfServerSpec_build p = ()"

record PfSpec =
  pf_loader :: PfLoaderSpec
  pf_key_manager :: PfKeyManagerSpec
  pf_signer :: PfSignerSpec
  pf_server :: PfServerSpec

definition PfSpec_parse :: "PfSpec \<Rightarrow> string \<Rightarrow> PolicyVersion" where
  "PfSpec_parse s name = \<lparr>
     pv_name = name,
     pv_loader = PfLoaderSpec_parse (pf_loader s),
     pv_key_manager = PfKeyManagerSpec_parse (pf_key_manager s),
     pv_signer = PfSignerSpec_parse (pf_signer s),
     pv_server = PfServerSpec_parse (pf_server s) \<rparr>"

definition PfSpec_build :: "PolicyVersion \<Rightarrow> PfSpec" where
  "PfSpec_build p = \<lparr>
     pf_loader = PfLoaderSpec_build (pv_loader p),
     pf_key_manager = PfKeyManagerSpec_build (pv_key_manager p),
     pf_signer = PfSignerSpec_build (pv_signer p),
     pf_server = PfServerSpec_build (pv_server p) \<rparr>"

text \<open>What a file that sets nothing means (\<open>#[serde(default)]\<close> and the \<open>Default\<close>s).\<close>

definition PfReviewSpec_default :: PfReviewSpec where
  "PfReviewSpec_default = \<lparr> pf_rv_required = False, pf_rv_cmd_hook = None \<rparr>"

definition PfSignerSpec_default :: PfSignerSpec where
  "PfSignerSpec_default = \<lparr>
     pf_sg_serial_policy = PfSignerSerialPolicySpec.Counter,
     pf_sg_sig_inception_offset = 0,
     pf_sg_sig_validity_time = 0,
     pf_sg_denial = PfSignerDenialSpec_default,
     pf_sg_review = PfReviewSpec_default \<rparr>"

definition PfSpec_default :: PfSpec where
  "PfSpec_default = \<lparr>
     pf_loader = \<lparr> pf_ld_review = PfReviewSpec_default \<rparr>,
     pf_key_manager = (),
     pf_signer = PfSignerSpec_default,
     pf_server = () \<rparr>"

section \<open>Round trips\<close>

lemma PfNsec3OptOutSpec_parse_build [simp, codec_simps]: "PfNsec3OptOutSpec_parse (PfNsec3OptOutSpec_build p) = p"
  by (cases p) simp_all

lemma PfNsec3OptOutSpec_build_parse [simp, codec_simps]: "PfNsec3OptOutSpec_build (PfNsec3OptOutSpec_parse s) = s"
  by (cases s) simp_all

lemma PfSignerDenialSpec_parse_build [simp, codec_simps]: "PfSignerDenialSpec_parse (PfSignerDenialSpec_build p) = p"
  by (cases p) simp_all

lemma PfSignerDenialSpec_build_parse [simp, codec_simps]: "PfSignerDenialSpec_build (PfSignerDenialSpec_parse s) = s"
  by (cases s) simp_all

lemma PfSignerSerialPolicySpec_parse_build [simp, codec_simps]: "PfSignerSerialPolicySpec_parse (PfSignerSerialPolicySpec_build p) = p"
  by (cases p) simp_all

lemma PfSignerSerialPolicySpec_build_parse [simp, codec_simps]: "PfSignerSerialPolicySpec_build (PfSignerSerialPolicySpec_parse s) = s"
  by (cases s) simp_all

lemma PfReviewSpec_parse_build [simp, codec_simps]: "PfReviewSpec_parse (PfReviewSpec_build p) = p"
  by (simp add: PfReviewSpec_parse_def PfReviewSpec_build_def)

lemma PfReviewSpec_build_parse [simp, codec_simps]: "PfReviewSpec_build (PfReviewSpec_parse s) = s"
  by (simp add: PfReviewSpec_parse_def PfReviewSpec_build_def)

lemma PfLoaderSpec_parse_build [simp, codec_simps]: "PfLoaderSpec_parse (PfLoaderSpec_build p) = p"
  by (simp add: PfLoaderSpec_parse_def PfLoaderSpec_build_def)

lemma PfLoaderSpec_build_parse [simp, codec_simps]: "PfLoaderSpec_build (PfLoaderSpec_parse s) = s"
  by (simp add: PfLoaderSpec_parse_def PfLoaderSpec_build_def)

lemma PfSignerSpec_parse_build [simp, codec_simps]: "SignerPolicy_ok p \<Longrightarrow> PfSignerSpec_parse (PfSignerSpec_build p) = p"
  by (simp add: PfSignerSpec_parse_def PfSignerSpec_build_def SignerPolicy_ok_def)

lemma PfSignerSpec_build_parse [simp, codec_simps]: "PfSignerSpec_build (PfSignerSpec_parse s) = s"
  by (simp add: PfSignerSpec_parse_def PfSignerSpec_build_def)

lemma PfSignerSpec_parse_ok [simp, codec_simps]: "SignerPolicy_ok (PfSignerSpec_parse s)"
  by (simp add: PfSignerSpec_parse_def SignerPolicy_ok_def)

lemma PfSpec_parse_build [simp, codec_simps]:
  "PolicyVersion_ok p \<Longrightarrow> pv_name p = n \<Longrightarrow> PfSpec_parse (PfSpec_build p) n = p"
  by (simp add: PfSpec_parse_def PfSpec_build_def PolicyVersion_ok_def)

lemma PfSpec_build_parse [simp, codec_simps]: "PfSpec_build (PfSpec_parse s n) = s"
  by (simp add: PfSpec_parse_def PfSpec_build_def)

lemma PfSpec_parse_ok [simp, codec_simps]: "PolicyVersion_ok (PfSpec_parse s n)"
  by (simp add: PfSpec_parse_def PolicyVersion_ok_def)

lemma pv_name_PfSpec_parse [simp]: "pv_name (PfSpec_parse s n) = n"
  by (simp add: PfSpec_parse_def)

interpretation pf_v1: exact_codec PfSpec_build "\<lambda>s. PfSpec_parse s n"
  "\<lambda>p. PolicyVersion_ok p \<and> pv_name p = n" for n
  by unfold_locales auto

section \<open>The policy file\<close>

datatype PfFile = V1 PfSpec

fun PfFile_parse :: "PfFile \<Rightarrow> string \<Rightarrow> Policy" where
  "PfFile_parse (V1 spec) name =
     \<lparr> po_latest = PfSpec_parse spec name, po_mid_deletion = False, po_zones = [] \<rparr>"

fun PfFile_parse_into :: "PfFile \<Rightarrow> Policy \<Rightarrow> Policy" where
  "PfFile_parse_into (V1 spec) existing =
     (let latest = po_latest existing;
          new = PfSpec_parse spec (pv_name latest)
      in if latest = new then existing else existing \<lparr> po_latest := new \<rparr>)"

definition PfFile_build :: "Policy \<Rightarrow> PfFile" where
  "PfFile_build policy = V1 (PfSpec_build (po_latest policy))"

lemma PfFile_parse_into_eq:
  "PfFile_parse_into (V1 spec) p = p \<lparr> po_latest := PfSpec_parse spec (pv_name (po_latest p)) \<rparr>"
  by (simp add: Let_def)

lemma PfFile_parse_into_frame [simp, frame_simps]:
  "po_zones (PfFile_parse_into f p) = po_zones p"
  "po_mid_deletion (PfFile_parse_into f p) = po_mid_deletion p"
  "pv_name (po_latest (PfFile_parse_into f p)) = pv_name (po_latest p)"
  by (cases f; simp add: PfFile_parse_into_eq del: PfFile_parse_into.simps)+

lemma PfFile_parse_fields [simp]:
  "po_zones (PfFile_parse f n) = []"
  "po_mid_deletion (PfFile_parse f n) = False"
  "pv_name (po_latest (PfFile_parse f n)) = n"
  by (cases f; simp)+

section \<open>Loading policies\<close>

datatype io_error = NotFound | IsADirectory | InvalidData | OtherIo string

type_synonym policy_loader = "string \<Rightarrow> io_error + PfFile"

text \<open>\<open>Policy::reload\<close>; \<open>load\<close> reads a file of \<open>config.policy_dir\<close>.\<close>

definition Policy_reload :: "policy_loader \<Rightarrow> Policy \<Rightarrow> (io_error, unit) outcome \<times> Policy" where
  "Policy_reload load p = (case load (pv_name (po_latest p) @ ''.toml'') of
      Inl e \<Rightarrow> (Err e, p)
    | Inr spec \<Rightarrow> (Ok (), PfFile_parse_into spec p))"

text \<open>An entry of the directory: an error, a file name that is not UTF-8, or a file name.\<close>

type_synonym dir_entry = "io_error + string option"

definition is_toml :: "string \<Rightarrow> bool" where
  "is_toml f = (case Path_extension f of None \<Rightarrow> False | Some e \<Rightarrow> eq_ignore_ascii_case e ''toml'')"

definition is_hidden :: "string \<Rightarrow> bool" where
  "is_hidden f = (f \<noteq> [] \<and> hd f = CHR ''.'')"

fun reload_entries ::
  "policy_loader \<Rightarrow> dir_entry list \<Rightarrow> policies \<Rightarrow> policies \<Rightarrow> (io_error, policies) outcome \<times> policies"
where
  "reload_entries load [] policies new_policies = (Ok new_policies, policies)"
| "reload_entries load (Inl e # es) policies new_policies = (Err e, policies)"
| "reload_entries load (Inr None # es) policies new_policies = reload_entries load es policies new_policies"
| "reload_entries load (Inr (Some f) # es) policies new_policies =
    (if is_hidden f then reload_entries load es policies new_policies
     else if \<not> is_toml f then reload_entries load es policies new_policies
     else case load f of
       Inl IsADirectory \<Rightarrow> reload_entries load es policies new_policies
     | Inl e \<Rightarrow> (Err e, policies)
     | Inr spec \<Rightarrow>
         let name = Path_file_stem f;
             policy = (case hm_get policies name of
                 Some p \<Rightarrow> PfFile_parse_into spec p
               | None \<Rightarrow> PfFile_parse spec name);
             policies' = hm_remove name policies
         in if hm_get new_policies name \<noteq> None then (Panic, policies')
            else reload_entries load es policies' (hm_insert name policy new_policies))"

fun reload_drain :: "policies \<Rightarrow> policies \<Rightarrow> (io_error, policies) outcome" where
  "reload_drain [] new_policies = Ok new_policies"
| "reload_drain ((name, policy) # rest) new_policies =
    (if po_zones policy \<noteq> [] then
       if hm_get new_policies name \<noteq> None then Panic
       else reload_drain rest (hm_insert name policy new_policies)
     else reload_drain rest new_policies)"

text \<open>
  \<open>reload_all\<close>: the result is what the function returns and what it leaves in
  \<open>policies\<close>, which it changes in place while it reads the directory.
\<close>

definition reload_all ::
  "io_error + dir_entry list \<Rightarrow> policy_loader \<Rightarrow> policies \<Rightarrow> (io_error, unit) outcome \<times> policies"
where
  "reload_all dir load policies = (case dir of
      Inl e \<Rightarrow> (Err e, policies)
    | Inr entries \<Rightarrow> (case reload_entries load entries policies [] of
        (Err e, rest) \<Rightarrow> (Err e, rest)
      | (Panic, rest) \<Rightarrow> (Panic, rest)
      | (Ok new_policies, rest) \<Rightarrow> (case reload_drain rest new_policies of
          Ok all \<Rightarrow> (Ok (), all)
        | Err e \<Rightarrow> (Err e, [])
        | Panic \<Rightarrow> (Panic, []))))"

section \<open>What a reload does\<close>

text \<open>The policy files of a directory listing: the name and the contents of each.\<close>

definition policy_file_of :: "policy_loader \<Rightarrow> dir_entry \<Rightarrow> (string \<times> PfFile) option" where
  "policy_file_of load e = (case e of
      Inr (Some f) \<Rightarrow>
        if is_hidden f \<or> \<not> is_toml f then None
        else (case load f of Inr spec \<Rightarrow> Some (Path_file_stem f, spec) | Inl _ \<Rightarrow> None)
    | _ \<Rightarrow> None)"

definition policy_files :: "policy_loader \<Rightarrow> dir_entry list \<Rightarrow> (string \<times> PfFile) list" where
  "policy_files load es = List.map_filter (policy_file_of load) es"

text \<open>The entries that a reload gets past: no I/O error but a directory named like a policy.\<close>

definition entry_readable :: "policy_loader \<Rightarrow> dir_entry \<Rightarrow> bool" where
  "entry_readable load e = (case e of
      Inl _ \<Rightarrow> False
    | Inr None \<Rightarrow> True
    | Inr (Some f) \<Rightarrow> is_hidden f \<or> \<not> is_toml f \<or>
        (case load f of Inl err \<Rightarrow> err = IsADirectory | Inr _ \<Rightarrow> True))"

definition merge_policy :: "policies \<Rightarrow> string \<Rightarrow> PfFile \<Rightarrow> Policy" where
  "merge_policy policies n spec = (case hm_get policies n of
      Some p \<Rightarrow> PfFile_parse_into spec p
    | None \<Rightarrow> PfFile_parse spec n)"

text \<open>The policies after a reload, by name: merged with their file, or kept because a zone
  still uses them, or forgotten.\<close>

definition reloaded :: "(string \<times> PfFile) list \<Rightarrow> policies \<Rightarrow> string \<Rightarrow> Policy option" where
  "reloaded files policies n = (case map_of files n of
      Some spec \<Rightarrow> Some (merge_policy policies n spec)
    | None \<Rightarrow> (case hm_get policies n of
        Some p \<Rightarrow> if po_zones p \<noteq> [] then Some p else None
      | None \<Rightarrow> None))"

lemma policy_files_simps [simp]:
  "policy_files load [] = []"
  "policy_files load (e # es) = (case policy_file_of load e of
      None \<Rightarrow> policy_files load es | Some x \<Rightarrow> x # policy_files load es)"
  by (simp_all add: policy_files_def map_filter_simps split: option.splits)

text \<open>One step of the loop over an entry: skipped, or a file that is recorded.\<close>

lemma reload_entries_skip:
  assumes "entry_readable load e" "policy_file_of load e = None"
  shows "reload_entries load (e # es) ps new = reload_entries load es ps new"
proof (cases e)
  case (Inl x)
  with assms show ?thesis by (simp add: entry_readable_def)
next
  case (Inr x)
  show ?thesis
  proof (cases x)
    case (Some f)
    with Inr assms show ?thesis
      by (cases "load f") (auto simp: entry_readable_def policy_file_of_def split: if_splits)
  qed (simp add: Inr)
qed

lemma reload_entries_file:
  assumes "policy_file_of load e = Some (n, spec)"
  shows "reload_entries load (e # es) ps new =
    (if hm_get new n \<noteq> None then (Panic, hm_remove n ps)
     else reload_entries load es (hm_remove n ps) (hm_insert n (merge_policy ps n spec) new))"
proof -
  obtain f where e: "e = Inr (Some f)" and t: "\<not> is_hidden f" "is_toml f"
    and l: "load f = Inr spec" and n: "n = Path_file_stem f"
    using assms by (auto simp: policy_file_of_def split: sum.splits option.splits if_splits)
  show ?thesis by (simp add: e t l n Let_def merge_policy_def)
qed

lemma reload_entries_bad:
  assumes "\<not> entry_readable load e"
  shows "\<exists>err. reload_entries load (e # es) ps new = (Err err, ps)"
proof (cases e)
  case (Inr x)
  with assms obtain f err where x: "x = Some f" and t: "\<not> is_hidden f" "is_toml f"
    and l: "load f = Inl err" "err \<noteq> IsADirectory"
    by (auto simp: entry_readable_def split: option.splits sum.splits)
  then show ?thesis by (cases err) (simp_all add: Inr)
qed simp

lemma policy_file_readable: "policy_file_of load e = Some x \<Longrightarrow> entry_readable load e"
  by (auto simp: policy_file_of_def entry_readable_def split: sum.splits option.splits if_splits)

lemma merge_policy_remove:
  "m \<noteq> n \<Longrightarrow> merge_policy (hm_remove n ps) m spec = merge_policy ps m spec"
  by (simp add: merge_policy_def)

text \<open>A prefix of the directory that can be read and whose names are new is processed fully.\<close>

lemma reload_entries_append:
  assumes "list_all (entry_readable load) es" "distinct (map fst (policy_files load es))"
    and "\<forall>n \<in> fst ` set (policy_files load es). hm_get new n = None" "hm_wf ps" "hm_wf new"
  shows "\<exists>new' rest. reload_entries load (es @ es') ps new = reload_entries load es' rest new'
    \<and> hm_wf new' \<and> hm_wf rest
    \<and> (\<forall>n. hm_get new' n = (case map_of (policy_files load es) n of
          Some spec \<Rightarrow> Some (merge_policy ps n spec) | None \<Rightarrow> hm_get new n))
    \<and> (\<forall>n. hm_get rest n = (if n \<in> fst ` set (policy_files load es) then None else hm_get ps n))"
  using assms
proof (induction es arbitrary: ps new)
  case (Cons e es)
  show ?case
  proof (cases "policy_file_of load e")
    case None
    with Cons.prems have "reload_entries load ((e # es) @ es') ps new = reload_entries load (es @ es') ps new"
      by (simp only: append_Cons) (rule reload_entries_skip; simp)
    with Cons.IH [of new ps] Cons.prems None show ?thesis by simp
  next
    case (Some x)
    obtain m spec where x: "x = (m, spec)" by (cases x)
    let ?ps = "hm_remove m ps" and ?new = "hm_insert m (merge_policy ps m spec) new"
    have m: "m \<notin> fst ` set (policy_files load es)" and fresh: "hm_get new m = None"
      using Cons.prems by (auto simp: Some x)
    have step: "reload_entries load ((e # es) @ es') ps new = reload_entries load (es @ es') ?ps ?new"
      using reload_entries_file [of load e m spec "es @ es'" ps new] Some x fresh by simp
    have mm: "map_of (policy_files load es) m = None"
      using m by (simp add: map_of_eq_None_iff)
    have "\<forall>n \<in> fst ` set (policy_files load es). hm_get ?new n = None"
      using Cons.prems m by (auto simp: Some x)
    with Cons.IH [of ?new ?ps] Cons.prems obtain new' rest where
      r: "reload_entries load (es @ es') ?ps ?new = reload_entries load es' rest new'"
        "hm_wf new'" "hm_wf rest"
      and g: "\<And>n. hm_get new' n = (case map_of (policy_files load es) n of
          Some sp \<Rightarrow> Some (merge_policy ?ps n sp) | None \<Rightarrow> hm_get ?new n)"
      and h: "\<And>n. hm_get rest n = (if n \<in> fst ` set (policy_files load es) then None else hm_get ?ps n)"
      by (auto simp: Some x)
    have "hm_get new' n = (case map_of (policy_files load (e # es)) n of
          Some spec \<Rightarrow> Some (merge_policy ps n spec) | None \<Rightarrow> hm_get new n)" for n
      using g [of n] mm by (cases "n = m") (simp_all add: Some x merge_policy_remove split: option.splits)
    moreover have "hm_get rest n
        = (if n \<in> fst ` set (policy_files load (e # es)) then None else hm_get ps n)" for n
      using h [of n] by (auto simp: Some x)
    ultimately show ?thesis using step r by (intro exI [of _ new'] exI [of _ rest]) simp
  qed
qed auto

lemma reload_drain_ok:
  assumes "hm_wf ps" "hm_wf new" "\<forall>n. hm_get ps n \<noteq> None \<longrightarrow> hm_get new n = None"
  shows "\<exists>all. reload_drain ps new = Ok all \<and> hm_wf all
    \<and> (\<forall>n. hm_get all n = (case hm_get ps n of
          Some p \<Rightarrow> if po_zones p \<noteq> [] then Some p else hm_get new n | None \<Rightarrow> hm_get new n))"
  using assms
proof (induction ps arbitrary: new)
  case (Cons x ps)
  obtain m p where x: "x = (m, p)" by (cases x)
  have fresh: "hm_get new m = None" and gone: "hm_get ps m = None"
    using Cons.prems by (auto simp: x)
  show ?case
  proof (cases "po_zones p = []")
    case True
    with Cons.IH [of new] Cons.prems gone fresh show ?thesis
      by (auto simp: x split: if_splits)
  next
    case False
    have "\<forall>n. hm_get ps n \<noteq> None \<longrightarrow> hm_get (hm_insert m p new) n = None"
      using Cons.prems gone by (auto simp: x)
    with Cons.IH [of "hm_insert m p new"] Cons.prems obtain all where
      d: "reload_drain ps (hm_insert m p new) = Ok all" "hm_wf all"
      and a: "\<And>n. hm_get all n = (case hm_get ps n of
          Some p' \<Rightarrow> if po_zones p' \<noteq> [] then Some p' else hm_get (hm_insert m p new) n
        | None \<Rightarrow> hm_get (hm_insert m p new) n)"
      by (auto simp: x)
    have "hm_get all n = (case hm_get (x # ps) n of
          Some p' \<Rightarrow> if po_zones p' \<noteq> [] then Some p' else hm_get new n | None \<Rightarrow> hm_get new n)" for n
      using a [of n] gone False by (cases "n = m") (auto simp: x split: option.splits)
    with d False fresh show ?thesis by (simp add: x)
  qed
qed simp

lemma reload_drain_no_err: "reload_drain ps new \<noteq> Err e"
  by (induction ps new rule: reload_drain.induct) auto

lemma reload_all_ok:
  assumes "list_all (entry_readable load) es" "distinct (map fst (policy_files load es))"
    and wf: "hm_wf ps"
  shows "\<exists>ps'. reload_all (Inr es) load ps = (Ok (), ps') \<and> hm_wf ps'
    \<and> (\<forall>n. hm_get ps' n = reloaded (policy_files load es) ps n)"
proof -
  obtain new rest where e: "reload_entries load es ps [] = (Ok new, rest)"
    and w: "hm_wf new" "hm_wf rest"
    and g: "\<And>n. hm_get new n = (case map_of (policy_files load es) n of
          Some spec \<Rightarrow> Some (merge_policy ps n spec) | None \<Rightarrow> None)"
    and h: "\<And>n. hm_get rest n = (if n \<in> fst ` set (policy_files load es) then None else hm_get ps n)"
    using reload_entries_append [of load es "[]" ps "[]"] assms by (simp cong: option.case_cong) blast
  have "\<forall>n. hm_get rest n \<noteq> None \<longrightarrow> hm_get new n = None"
    by (auto simp: g h map_of_eq_None_iff split: option.splits if_splits)
       (metis map_of_SomeD fst_conv image_eqI)
  with reload_drain_ok [OF w(2,1)] obtain all where d: "reload_drain rest new = Ok all" "hm_wf all"
    and a: "\<And>n. hm_get all n = (case hm_get rest n of
          Some p \<Rightarrow> if po_zones p \<noteq> [] then Some p else hm_get new n | None \<Rightarrow> hm_get new n)"
    by auto
  have "hm_get all n = reloaded (policy_files load es) ps n" for n
  proof (cases "map_of (policy_files load es) n")
    case None
    then have "n \<notin> fst ` set (policy_files load es)" by (simp add: map_of_eq_None_iff)
    with None show ?thesis by (simp add: a g h reloaded_def split: option.splits)
  next
    case (Some spec)
    then have "n \<in> fst ` set (policy_files load es)" by (metis map_of_SomeD fst_conv image_eqI)
    with Some show ?thesis by (simp add: a g h reloaded_def)
  qed
  with e d show ?thesis by (simp add: reload_all_def)
qed

lemma reload_entries_dup:
  assumes "list_all (entry_readable load) es" "\<not> distinct (map fst (policy_files load es))
      \<or> (\<exists>n \<in> fst ` set (policy_files load es). hm_get new n \<noteq> None)"
  shows "fst (reload_entries load es ps new) = Panic"
  using assms
proof (induction es arbitrary: ps new)
  case (Cons e es)
  show ?case
  proof (cases "policy_file_of load e")
    case None
    with Cons reload_entries_skip [of load e es ps new] show ?thesis by simp
  next
    case (Some x)
    obtain m spec where x: "x = (m, spec)" by (cases x)
    show ?thesis
    proof (cases "hm_get new m")
      case None
      have "fst (reload_entries load es (hm_remove m ps)
          (hm_insert m (merge_policy ps m spec) new)) = Panic"
        by (rule Cons.IH) (use Cons.prems None in \<open>auto simp: Some x\<close>)
      then show ?thesis
        using reload_entries_file [of load e m spec es ps new] Some x None by simp
    next
      case (Some p)
      then show ?thesis
        using reload_entries_file [of load e m spec es ps new] \<open>policy_file_of load e = Some x\<close> x
        by simp
    qed
  qed
qed auto

lemma reload_entries_no_ok:
  "\<not> list_all (entry_readable load) es \<Longrightarrow> fst (reload_entries load es ps new) \<noteq> Ok ps'"
proof (induction es arbitrary: ps new)
  case (Cons e es)
  show ?case
  proof (cases "entry_readable load e")
    case False
    with reload_entries_bad [of load e es ps new] show ?thesis by auto
  next
    case True
    show ?thesis
    proof (cases "policy_file_of load e")
      case None
      with Cons True show ?thesis by (simp add: reload_entries_skip)
    next
      case (Some x)
      obtain m spec where x: "x = (m, spec)" by (cases x)
      from Cons True show ?thesis
        by (simp add: reload_entries_file [OF Some [unfolded x]])
    qed
  qed
qed simp

lemma reload_all_ok_iff:
  assumes "hm_wf ps"
  shows "fst (reload_all (Inr es) load ps) = Ok ()
    \<longleftrightarrow> list_all (entry_readable load) es \<and> distinct (map fst (policy_files load es))"
proof -
  have "list_all (entry_readable load) es \<and> distinct (map fst (policy_files load es))"
    if "fst (reload_all (Inr es) load ps) = Ok ()"
  proof (rule ccontr)
    assume "\<not> ?thesis"
    then have "fst (reload_entries load es ps []) \<noteq> Ok x" for x
      using reload_entries_dup [of load es "[]" ps] reload_entries_no_ok [of load es ps "[]" x]
      by (cases "list_all (entry_readable load) es") auto
    with that show False
      by (auto simp: reload_all_def split: prod.splits outcome.splits)
  qed
  moreover have "fst (reload_all (Inr es) load ps) = Ok ()"
    if "list_all (entry_readable load) es" "distinct (map fst (policy_files load es))"
    using reload_all_ok [OF that assms] by auto
  ultimately show ?thesis by blast
qed

lemma reload_all_result:
  assumes "hm_wf ps" "fst (reload_all (Inr es) load ps) = Ok ()"
  shows "hm_get (snd (reload_all (Inr es) load ps)) n = reloaded (policy_files load es) ps n"
  using reload_all_ok [of load es ps] reload_all_ok_iff [OF assms(1), of es load] assms by auto

text \<open>C29: reloading the policy directory succeeds exactly when every entry can be read (a
  directory with a policy's name is skipped) and no two files give the same policy name; two
  files of one name, as \<open>a.toml\<close> and \<open>a.TOML\<close>, make it panic. When it succeeds, the
  policies are, name by name, the file merged into the old policy, or a new policy, or the old
  policy if a zone uses it, and nothing else.\<close>

theorem reload_all_refines:
  assumes "hm_wf ps"
  shows "(fst (reload_all (Inr es) load ps) = Ok ()
      \<longleftrightarrow> list_all (entry_readable load) es \<and> distinct (map fst (policy_files load es)))
    \<and> (list_all (entry_readable load) es \<and> \<not> distinct (map fst (policy_files load es))
      \<longrightarrow> fst (reload_all (Inr es) load ps) = Panic)
    \<and> (fst (reload_all (Inr es) load ps) = Ok ()
      \<longrightarrow> hm_get (snd (reload_all (Inr es) load ps)) n = reloaded (policy_files load es) ps n)"
proof (intro conjI impI)
  show "fst (reload_all (Inr es) load ps) = Panic"
    if "list_all (entry_readable load) es \<and> \<not> distinct (map fst (policy_files load es))"
    using reload_entries_dup [of load es "[]" ps] that
    by (auto simp: reload_all_def split: prod.splits outcome.splits)
qed (use assms reload_all_ok_iff reload_all_result in auto)

definition example_dir :: "dir_entry list" where
  "example_dir = [Inr (Some ''a.toml''), Inr None, Inr (Some ''.b.toml''), Inr (Some ''c.toml'')]"

definition example_load :: policy_loader where
  "example_load f = (if f = ''c.toml'' then Inl IsADirectory else Inr (V1 PfSpec_default))"

lemma example_files:
  "policy_files example_load example_dir = [(''a'', V1 PfSpec_default)]"
  "list_all (entry_readable example_load) example_dir"
  by code_simp+

theorem reload_all_refines_witness:
  "fst (reload_all (Inr example_dir) example_load []) = Ok ()
   \<and> hm_get (snd (reload_all (Inr example_dir) example_load [])) ''a''
      = Some (PfFile_parse (V1 PfSpec_default) ''a'')"
  using reload_all_refines [of "[]" example_dir example_load "''a''"]
  by (simp add: example_files reloaded_def merge_policy_def del: PfFile_parse.simps)

text \<open>A reload that succeeds keeps every policy that some zone uses, under its name, with
  the same zones and the same deletion mark, whether or not its file is still there.\<close>

theorem reload_all_keeps_used:
  assumes "hm_wf ps" "fst (reload_all (Inr es) load ps) = Ok ()"
    and "hm_get ps n = Some p" "po_zones p \<noteq> []"
  shows "\<exists>p'. hm_get (snd (reload_all (Inr es) load ps)) n = Some p' \<and> po_zones p' = po_zones p
    \<and> po_mid_deletion p' = po_mid_deletion p \<and> pv_name (po_latest p') = pv_name (po_latest p)"
  using assms reload_all_result [OF assms(1,2), of n]
  by (auto simp: reloaded_def merge_policy_def split: option.splits)

definition example_policy :: Policy where
  "example_policy = (PfFile_parse (V1 PfSpec_default) ''p'') \<lparr> po_zones := [''nl''] \<rparr>"

theorem reload_all_keeps_used_witness:
  "hm_get [(''p'', example_policy)] ''p'' = Some example_policy
   \<and> (\<exists>p'. hm_get (snd (reload_all (Inr example_dir) example_load [(''p'', example_policy)])) ''p'' = Some p'
        \<and> po_zones p' = [''nl''])"
  using reload_all_keeps_used [of "[(''p'', example_policy)]" example_dir example_load "''p''" example_policy]
    reload_all_ok_iff [of "[(''p'', example_policy)]" example_dir example_load]
  by (auto simp: example_files example_policy_def)

text \<open>C35: a reload that fails on some file has already taken every policy whose file came
  before it out of the policies, and does not put them back: those policies are lost, the ones
  zones use included; the others are untouched.\<close>

theorem reload_all_error_loses:
  assumes "hm_wf ps" "list_all (entry_readable load) es" "distinct (map fst (policy_files load es))"
    and "\<not> entry_readable load bad"
  shows "(\<exists>err. fst (reload_all (Inr (es @ bad # es')) load ps) = Err err)
    \<and> hm_get (snd (reload_all (Inr (es @ bad # es')) load ps)) n
      = (if n \<in> fst ` set (policy_files load es) then None else hm_get ps n)"
proof -
  obtain new rest where r: "reload_entries load (es @ bad # es') ps [] = reload_entries load (bad # es') rest new"
    and h: "\<And>n. hm_get rest n = (if n \<in> fst ` set (policy_files load es) then None else hm_get ps n)"
    using reload_entries_append [of load es "[]" ps "bad # es'"] assms by auto
  obtain err where b: "reload_entries load (bad # es') rest new = (Err err, rest)"
    using reload_entries_bad [OF assms(4)] by blast
  then show ?thesis
    by (simp add: reload_all_def r h)
qed

theorem reload_all_error_loses_witness:
  "hm_get [(''a'', example_policy)] ''a'' = Some example_policy
   \<and> hm_get (snd (reload_all (Inr ([Inr (Some ''a.toml'')] @ Inl NotFound # [])) example_load
        [(''a'', example_policy)])) ''a'' = None"
proof -
  have "policy_files example_load [Inr (Some ''a.toml'')] = [(''a'', V1 PfSpec_default)]"
    "list_all (entry_readable example_load) [Inr (Some ''a.toml'')]"
    by code_simp+
  then show ?thesis
    using reload_all_error_loses [of "[(''a'', example_policy)]" example_load
        "[Inr (Some ''a.toml'')]" "Inl NotFound" "[]" "''a''"]
    by (simp add: entry_readable_def)
qed

end
