(* ===== verification/Config_File.thy ===== *)
theory Config_File
  imports Config Policy_File
begin

text \<open>
  The configuration file, \<open>src/config/file/v1.rs\<close> and \<open>src/config/file/mod.rs\<close>, the
  strings it gives for identities and sockets, and its integration into the configuration
  (\<open>Config::init_from_file\<close>). The lemmas show which source each setting is taken from and
  that reading the file again changes nothing else.
\<close>

section \<open>Identities and sockets\<close>

datatype ParseIdentityError = NumericOverflow string

datatype UserIdSpec = Numeric "32 word" | Named string

datatype GroupIdSpec = Numeric "32 word" | Named string

definition UserIdSpec_from_str :: "string \<Rightarrow> ParseIdentityError + UserIdSpec" where
  "UserIdSpec_from_str s = (case u32_from_str s of
      Inr i \<Rightarrow> Inr (UserIdSpec.Numeric i)
    | Inl PosOverflow \<Rightarrow> Inl (NumericOverflow s)
    | Inl _ \<Rightarrow> Inr (UserIdSpec.Named s))"

definition GroupIdSpec_from_str :: "string \<Rightarrow> ParseIdentityError + GroupIdSpec" where
  "GroupIdSpec_from_str s = (case u32_from_str s of
      Inr i \<Rightarrow> Inr (GroupIdSpec.Numeric i)
    | Inl PosOverflow \<Rightarrow> Inl (NumericOverflow s)
    | Inl _ \<Rightarrow> Inr (GroupIdSpec.Named s))"

record IdentitySpec =
  id_user :: UserIdSpec
  id_group :: GroupIdSpec

definition IdentitySpec_from_str :: "string \<Rightarrow> ParseIdentityError + IdentitySpec" where
  "IdentitySpec_from_str s =
    (let (user, group) = (case split_once '':'' s of Some ug \<Rightarrow> ug | None \<Rightarrow> (s, s)) in
     bind_res (UserIdSpec_from_str user) (\<lambda>u.
     bind_res (GroupIdSpec_from_str group) (\<lambda>g.
       Inr \<lparr> id_user = u, id_group = g \<rparr>)))"

fun UserIdSpec_parse :: "UserIdSpec \<Rightarrow> UserId" where
  "UserIdSpec_parse (UserIdSpec.Numeric i) = UserId.Numeric i"
| "UserIdSpec_parse (UserIdSpec.Named n) = UserId.Named n"

fun GroupIdSpec_parse :: "GroupIdSpec \<Rightarrow> GroupId" where
  "GroupIdSpec_parse (GroupIdSpec.Numeric i) = GroupId.Numeric i"
| "GroupIdSpec_parse (GroupIdSpec.Named n) = GroupId.Named n"

definition IdentitySpec_parse :: "IdentitySpec \<Rightarrow> UserId \<times> GroupId" where
  "IdentitySpec_parse s = (UserIdSpec_parse (id_user s), GroupIdSpec_parse (id_group s))"

datatype SimpleSocketSpec = UDP socket_addr | TCP socket_addr | TCPUDP socket_addr

datatype ComplexSocketSpec = UDP socket_addr | TCP socket_addr | TCPUDP socket_addr

datatype SocketSpec = Simple SimpleSocketSpec | Complex ComplexSocketSpec

text \<open>\<open>AddrParseError\<close> carries nothing the program looks at.\<close>

datatype ParseSimpleSocketError = UnknownProtocol string | Address

definition SimpleSocketSpec_from_str ::
  "(string \<Rightarrow> socket_addr option) \<Rightarrow> string \<Rightarrow> ParseSimpleSocketError + SimpleSocketSpec"
where
  "SimpleSocketSpec_from_str parse_addr s = (case split_once ''://'' s of
      None \<Rightarrow> (case parse_addr s of
          None \<Rightarrow> Inl Address | Some addr \<Rightarrow> Inr (SimpleSocketSpec.TCPUDP addr))
    | Some (protocol, address) \<Rightarrow>
        if protocol = ''udp'' then (case parse_addr address of
          None \<Rightarrow> Inl Address | Some addr \<Rightarrow> Inr (SimpleSocketSpec.UDP addr))
        else if protocol = ''tcp'' then (case parse_addr address of
          None \<Rightarrow> Inl Address | Some addr \<Rightarrow> Inr (SimpleSocketSpec.TCP addr))
        else Inl (UnknownProtocol protocol))"

fun SimpleSocketSpec_parse :: "SimpleSocketSpec \<Rightarrow> SocketConfig" where
  "SimpleSocketSpec_parse (SimpleSocketSpec.UDP addr) = SocketConfig.UDP addr"
| "SimpleSocketSpec_parse (SimpleSocketSpec.TCP addr) = SocketConfig.TCP addr"
| "SimpleSocketSpec_parse (SimpleSocketSpec.TCPUDP addr) = SocketConfig.TCPUDP addr"

fun ComplexSocketSpec_parse :: "ComplexSocketSpec \<Rightarrow> SocketConfig" where
  "ComplexSocketSpec_parse (ComplexSocketSpec.UDP addr) = SocketConfig.UDP addr"
| "ComplexSocketSpec_parse (ComplexSocketSpec.TCP addr) = SocketConfig.TCP addr"
| "ComplexSocketSpec_parse (ComplexSocketSpec.TCPUDP addr) = SocketConfig.TCPUDP addr"

fun SocketSpec_parse :: "SocketSpec \<Rightarrow> SocketConfig" where
  "SocketSpec_parse (Simple spec) = SimpleSocketSpec_parse spec"
| "SocketSpec_parse (Complex spec) = ComplexSocketSpec_parse spec"

section \<open>The file\<close>

datatype LogLevelSpec = Trace | Debug | Info | Warning | Error | Critical

fun LogLevelSpec_parse :: "LogLevelSpec \<Rightarrow> LogLevel" where
  "LogLevelSpec_parse LogLevelSpec.Trace = LogLevel.Trace"
| "LogLevelSpec_parse LogLevelSpec.Debug = LogLevel.Debug"
| "LogLevelSpec_parse LogLevelSpec.Info = LogLevel.Info"
| "LogLevelSpec_parse LogLevelSpec.Warning = LogLevel.Warning"
| "LogLevelSpec_parse LogLevelSpec.Error = LogLevel.Error"
| "LogLevelSpec_parse LogLevelSpec.Critical = LogLevel.Critical"

datatype LogTargetSpec = File utf8path | Syslog

fun LogTargetSpec_parse :: "LogTargetSpec \<Rightarrow> LogTarget" where
  "LogTargetSpec_parse (LogTargetSpec.File path) = LogTarget.File path"
| "LogTargetSpec_parse LogTargetSpec.Syslog = LogTarget.Syslog"

record CfDaemonSpec =
  cf_log_level :: "LogLevelSpec option"
  cf_log_target :: "LogTargetSpec option"
  cf_daemonize :: "bool option"
  cf_pid_file :: "utf8path option"
  cf_chroot :: "utf8path option"
  cf_identity :: "IdentitySpec option"

definition CfDaemonSpec_parse_into :: "CfDaemonSpec \<Rightarrow> DaemonConfig \<Rightarrow> DaemonConfig" where
  "CfDaemonSpec_parse_into s config = (let
      logging = dm_logging config;
      logging' = logging \<lparr>
        lg_level := (lg_level logging) \<lparr> set_file := map_option LogLevelSpec_parse (cf_log_level s) \<rparr>,
        lg_target := (lg_target logging) \<lparr> set_file := map_option LogTargetSpec_parse (cf_log_target s) \<rparr> \<rparr>
    in config \<lparr>
        dm_logging := logging',
        dm_daemonize := (dm_daemonize config) \<lparr> set_file := cf_daemonize s \<rparr>,
        dm_pid_file := cf_pid_file s,
        dm_chroot := cf_chroot s,
        dm_identity := map_option IdentitySpec_parse (cf_identity s) \<rparr>)"

record CfReviewSpec =
  cf_rv_servers :: "SocketSpec list"

definition CfReviewSpec_parse_into :: "CfReviewSpec \<Rightarrow> ReviewConfig \<Rightarrow> ReviewConfig" where
  "CfReviewSpec_parse_into s config = config \<lparr> rc_servers := map SocketSpec_parse (cf_rv_servers s) \<rparr>"

record CfLoaderSpec =
  cf_notif_listeners :: "SocketSpec list"
  cf_ld_review :: CfReviewSpec

definition CfLoaderSpec_parse_into :: "CfLoaderSpec \<Rightarrow> LoaderConfig \<Rightarrow> LoaderConfig" where
  "CfLoaderSpec_parse_into s config = config \<lparr>
     lc_notif_listeners := map SocketSpec_parse (cf_notif_listeners s),
     lc_review := CfReviewSpec_parse_into (cf_ld_review s) (lc_review config) \<rparr>"

record CfSignerSpec =
  cf_sg_review :: CfReviewSpec

definition CfSignerSpec_parse_into :: "CfSignerSpec \<Rightarrow> SignerConfig \<Rightarrow> SignerConfig" where
  "CfSignerSpec_parse_into s config =
     config \<lparr> sc_review := CfReviewSpec_parse_into (cf_sg_review s) (sc_review config) \<rparr>"

type_synonym CfKeyManagerSpec = unit

definition CfKeyManagerSpec_parse_into :: "CfKeyManagerSpec \<Rightarrow> KeyManagerConfig \<Rightarrow> KeyManagerConfig" where
  "CfKeyManagerSpec_parse_into s config = config"

record CfServerSpec =
  cf_sv_servers :: "SocketSpec list"

definition CfServerSpec_parse_into :: "CfServerSpec \<Rightarrow> ServerConfig \<Rightarrow> ServerConfig" where
  "CfServerSpec_parse_into s config = config \<lparr> svc_servers := map SocketSpec_parse (cf_sv_servers s) \<rparr>"

record CfSpec =
  cf_policy_dir :: utf8path
  cf_zone_state_dir :: utf8path
  cf_tsig_store_path :: utf8path
  cf_daemon :: CfDaemonSpec
  cf_loader :: CfLoaderSpec
  cf_signer :: CfSignerSpec
  cf_key_manager :: CfKeyManagerSpec
  cf_server :: CfServerSpec

definition CfSpec_parse_into :: "CfSpec \<Rightarrow> Config \<Rightarrow> Config" where
  "CfSpec_parse_into s config = config \<lparr>
     cfg_policy_dir := cf_policy_dir s,
     cfg_zone_state_dir := cf_zone_state_dir s,
     cfg_tsig_store_path := cf_tsig_store_path s,
     cfg_daemon := CfDaemonSpec_parse_into (cf_daemon s) (cfg_daemon config),
     cfg_loader := CfLoaderSpec_parse_into (cf_loader s) (cfg_loader config),
     cfg_signer := CfSignerSpec_parse_into (cf_signer s) (cfg_signer config),
     cfg_key_manager := CfKeyManagerSpec_parse_into (cf_key_manager s) (cfg_key_manager config),
     cfg_server := CfServerSpec_parse_into (cf_server s) (cfg_server config) \<rparr>"

definition CfDaemonSpec_default :: CfDaemonSpec where
  "CfDaemonSpec_default = \<lparr> cf_log_level = None, cf_log_target = None, cf_daemonize = None,
     cf_pid_file = None, cf_chroot = None, cf_identity = None \<rparr>"

definition CfSpec_default :: CfSpec where
  "CfSpec_default = \<lparr>
     cf_policy_dir = ''/etc/cascade/policies'',
     cf_zone_state_dir = ''/var/db/cascade/zone-state'',
     cf_tsig_store_path = ''/var/db/cascade/tsig-keys.db'',
     cf_daemon = CfDaemonSpec_default,
     cf_loader = \<lparr> cf_notif_listeners = [], cf_ld_review = \<lparr> cf_rv_servers = [] \<rparr> \<rparr>,
     cf_signer = \<lparr> cf_sg_review = \<lparr> cf_rv_servers = [] \<rparr> \<rparr>,
     cf_key_manager = (),
     cf_server = \<lparr> cf_sv_servers = [] \<rparr> \<rparr>"

datatype CfFile = CfV1 CfSpec

fun CfFile_parse_into :: "CfFile \<Rightarrow> Config \<Rightarrow> Config" where
  "CfFile_parse_into (CfV1 spec) config = CfSpec_parse_into spec config"

datatype FileError = Load io_error | Parse string

datatype ConfigError = ConfigEnv EnvError | ConfigFile utf8path FileError

text \<open>\<open>Config::init_from_file\<close>; \<open>load\<close> reads and deserialises the TOML file at a path.\<close>

definition Config_init_from_file ::
  "(utf8path \<Rightarrow> FileError + CfFile) \<Rightarrow> Config \<Rightarrow> (ConfigError, unit) outcome \<times> Config"
where
  "Config_init_from_file load config =
    (let path = Setting_value (dm_config_file (cfg_daemon config)) in
     case load path of
       Inl e \<Rightarrow> (Err (ConfigFile path e), config)
     | Inr spec \<Rightarrow> (Ok (), CfFile_parse_into spec config))"

section \<open>Which source wins\<close>

lemma CfSpec_parse_into_frame [simp, frame_simps]:
  "dm_state_file (cfg_daemon (CfSpec_parse_into s c)) = dm_state_file (cfg_daemon c)"
  "dm_config_file (cfg_daemon (CfSpec_parse_into s c)) = dm_config_file (cfg_daemon c)"
  "lg_trace_targets (dm_logging (cfg_daemon (CfSpec_parse_into s c)))
     = lg_trace_targets (dm_logging (cfg_daemon c))"
  by (simp_all add: CfSpec_parse_into_def CfDaemonSpec_parse_into_def Let_def)

lemma CfSpec_parse_into_again [simp]:
  "CfSpec_parse_into s (CfSpec_parse_into s' c) = CfSpec_parse_into s c"
  by (simp add: CfSpec_parse_into_def CfDaemonSpec_parse_into_def CfLoaderSpec_parse_into_def
      CfSignerSpec_parse_into_def CfServerSpec_parse_into_def CfReviewSpec_parse_into_def
      CfKeyManagerSpec_parse_into_def Let_def)

text \<open>The layers a configuration holds after \<open>Config::init\<close> and the configuration file.\<close>

definition layered :: "'a \<Rightarrow> 'a option \<Rightarrow> 'a option \<Rightarrow> 'a option \<Rightarrow> 'a Setting" where
  "layered d f e a = \<lparr> set_default = d, set_file = f, set_env = e, set_args = a \<rparr>"

fun first_some :: "'a option list \<Rightarrow> 'a \<Rightarrow> 'a" where
  "first_some [] d = d"
| "first_some (None # vs) d = first_some vs d"
| "first_some (Some v # vs) d = v"

lemma Setting_value_layered [simp]: "Setting_value (layered d f e a) = first_some [a, e, f] d"
  by (simp add: Setting_value_def layered_def split: option.splits)

lemma Setting_value_first_some:
  "Setting_value s = first_some [set_args s, set_env s, set_file s] (set_default s)"
  by (simp add: Setting_value_def split: option.splits)

lemma startup_layers:
  assumes "EnvSpec_process env = Inr e" "Config_init env a = Inr c"
    and d: "d = cfg_daemon (CfSpec_parse_into s c)"
  shows "dm_state_file d = layered ''/var/db/cascade/state.db'' None (ev_state e) (ar_state a)"
    "dm_config_file d = layered ''/etc/cascade/config.toml'' None (ev_config e) (ar_config a)"
    "lg_level (dm_logging d) = layered LogLevel.Info
       (map_option LogLevelSpec_parse (cf_log_level (cf_daemon s))) (ev_log_level e) (ar_log_level a)"
    "lg_target (dm_logging d) = layered (LogTarget.File ''/dev/stdout'')
       (map_option LogTargetSpec_parse (cf_log_target (cf_daemon s)))
       (map_option EnvLogTargetSpec_build (ev_log_target e))
       (map_option ArgsLogTargetSpec_build (ar_log_target a))"
    "lg_trace_targets (dm_logging d) = layered {} None (ev_log_trace_targets e) None"
    "dm_daemonize d = layered False (cf_daemonize (cf_daemon s)) None
       (if ar_daemonize a then Some True else None)"
  using assms
  by (auto simp: Config_init_def EnvSpec_merge_def ArgsSpec_merge_def Config_default_def
      DaemonConfig_default_def LoggingConfig_default_def Setting_new_def layered_def
      CfSpec_parse_into_def CfDaemonSpec_parse_into_def Let_def)

text \<open>The settings of the loader, the signer and the server come from the file only.\<close>

lemma CfSpec_parse_into_servers:
  "lc_notif_listeners (cfg_loader (CfSpec_parse_into s c)) = map SocketSpec_parse (cf_notif_listeners (cf_loader s))"
  "rc_servers (lc_review (cfg_loader (CfSpec_parse_into s c))) = map SocketSpec_parse (cf_rv_servers (cf_ld_review (cf_loader s)))"
  "rc_servers (sc_review (cfg_signer (CfSpec_parse_into s c))) = map SocketSpec_parse (cf_rv_servers (cf_sg_review (cf_signer s)))"
  "svc_servers (cfg_server (CfSpec_parse_into s c)) = map SocketSpec_parse (cf_sv_servers (cf_server s))"
  by (simp_all add: CfSpec_parse_into_def CfLoaderSpec_parse_into_def CfSignerSpec_parse_into_def
      CfServerSpec_parse_into_def CfReviewSpec_parse_into_def)

text \<open>What the variables say: a variable that is not set has no value.\<close>

definition env_str :: "environment \<Rightarrow> string \<Rightarrow> string option" where
  "env_str env v = Option.bind (env v) id"

lemma env_var_str: "env_var env v = Inr x \<Longrightarrow> x = env_str env v"
  by (auto simp: env_var_def env_str_def split: option.splits)

lemma env_log_level_name: "env_log_level v = Inr l \<Longrightarrow> LogLevel_as_str l = v"
  by (auto simp: env_log_level_def split: if_splits)

lemma transpose_map_Inr: "transpose_map f x = Inr y \<longleftrightarrow> (case x of None \<Rightarrow> y = None | Some a \<Rightarrow> \<exists>b. f a = Inr b \<and> y = Some b)"
  by (cases x) (auto split: sum.splits)

lemma bind_res_Inr: "bind_res r f = Inr y \<longleftrightarrow> (\<exists>x. r = Inr x \<and> f x = Inr y)"
  by (cases r) (simp_all add: bind_res_def)

lemma EnvSpec_process_values:
  assumes "EnvSpec_process env = Inr e"
  shows "ev_state e = env_str env ''CASCADE_STATE_PATH''" "ev_config e = env_str env ''CASCADE_CONFIG_PATH''"
    "map_option LogLevel_as_str (ev_log_level e) = env_str env ''CASCADE_LOG_LEVEL''"
    "map_option Inr (ev_log_target e) = map_option EnvLogTargetSpec_parse (env_str env ''CASCADE_LOG'')"
    "ev_log_trace_targets e = map_option (\<lambda>v. set (split_char (CHR '','') v)) (env_str env ''CASCADE_LOG_TRACE_TARGETS'')"
proof -
  from assms obtain st cf ll lt tr level target where v: "env_var env ''CASCADE_STATE_PATH'' = Inr st"
    "env_var env ''CASCADE_CONFIG_PATH'' = Inr cf" "env_var env ''CASCADE_LOG_LEVEL'' = Inr ll"
    "transpose_map env_log_level ll = Inr level" "env_var env ''CASCADE_LOG'' = Inr lt"
    "transpose_map EnvLogTargetSpec_parse lt = Inr target" "env_var env ''CASCADE_LOG_TRACE_TARGETS'' = Inr tr"
    and e: "e = \<lparr> ev_state = st, ev_config = cf, ev_log_level = level, ev_log_target = target,
      ev_log_trace_targets = map_option (\<lambda>v. set (split_char (CHR '','') v)) tr \<rparr>"
    by (auto simp: EnvSpec_process_def bind_res_Inr)
  note s = env_var_str [OF v(1)] env_var_str [OF v(2)] env_var_str [OF v(3)] env_var_str [OF v(5)] env_var_str [OF v(7)]
  show "ev_state e = env_str env ''CASCADE_STATE_PATH''" "ev_config e = env_str env ''CASCADE_CONFIG_PATH''"
    "ev_log_trace_targets e = map_option (\<lambda>v. set (split_char (CHR '','') v)) (env_str env ''CASCADE_LOG_TRACE_TARGETS'')"
    using s by (simp_all add: e)
  show "map_option LogLevel_as_str (ev_log_level e) = env_str env ''CASCADE_LOG_LEVEL''"
    using v(4) s(3) by (auto simp: e transpose_map_Inr env_log_level_name split: option.splits)
  show "map_option Inr (ev_log_target e) = map_option EnvLogTargetSpec_parse (env_str env ''CASCADE_LOG'')"
    using v(6) s(4) by (auto simp: e transpose_map_Inr split: option.splits)
qed

text \<open>C36: after start-up from the configuration file every setting of the configuration has the value of
  its most specific source that is set: the command line over the environment over the configuration file
  over the built-in default, where the path of the configuration file and of the state file are decided by
  the command line and the environment, the trace targets by the environment, whether to detach by the
  command line and the file, and everything else than the log by the file.\<close>

theorem startup_precedence:
  assumes "Config_init env a = Inr c"
    and "load (first_some [ar_config a, env_str env ''CASCADE_CONFIG_PATH''] ''/etc/cascade/config.toml'') = Inr (CfV1 s)"
  shows "\<exists>c' level target. Config_init_from_file load c = (Ok (), c')
    \<and> map_option LogLevel_as_str level = env_str env ''CASCADE_LOG_LEVEL''
    \<and> map_option Inr target = map_option EnvLogTargetSpec_parse (env_str env ''CASCADE_LOG'') \<and>
    (let d = cfg_daemon c'; f = cf_daemon s in
      Setting_value (lg_level (dm_logging d)) = first_some
        [ar_log_level a, level, map_option LogLevelSpec_parse (cf_log_level f)] LogLevel.Info
    \<and> Setting_value (lg_target (dm_logging d)) = first_some
        [map_option ArgsLogTargetSpec_build (ar_log_target a), map_option EnvLogTargetSpec_build target,
         map_option LogTargetSpec_parse (cf_log_target f)] (LogTarget.File ''/dev/stdout'')
    \<and> Setting_value (lg_trace_targets (dm_logging d)) = (case env_str env ''CASCADE_LOG_TRACE_TARGETS'' of
         Some v \<Rightarrow> set (split_char (CHR '','') v) | None \<Rightarrow> {})
    \<and> Setting_value (dm_state_file d) = first_some [ar_state a, env_str env ''CASCADE_STATE_PATH''] ''/var/db/cascade/state.db''
    \<and> Setting_value (dm_config_file d) = first_some [ar_config a, env_str env ''CASCADE_CONFIG_PATH''] ''/etc/cascade/config.toml''
    \<and> Setting_value (dm_daemonize d) = (ar_daemonize a \<or> cf_daemonize f = Some True)
    \<and> dm_pid_file d = cf_pid_file f \<and> dm_chroot d = cf_chroot f
    \<and> dm_identity d = map_option IdentitySpec_parse (cf_identity f)
    \<and> cfg_policy_dir c' = cf_policy_dir s \<and> cfg_zone_state_dir c' = cf_zone_state_dir s
    \<and> cfg_tsig_store_path c' = cf_tsig_store_path s
    \<and> lc_notif_listeners (cfg_loader c') = map SocketSpec_parse (cf_notif_listeners (cf_loader s))
    \<and> rc_servers (lc_review (cfg_loader c')) = map SocketSpec_parse (cf_rv_servers (cf_ld_review (cf_loader s)))
    \<and> rc_servers (sc_review (cfg_signer c')) = map SocketSpec_parse (cf_rv_servers (cf_sg_review (cf_signer s)))
    \<and> svc_servers (cfg_server c') = map SocketSpec_parse (cf_sv_servers (cf_server s)))"
proof -
  obtain e where e: "EnvSpec_process env = Inr e" using assms(1) by (auto simp: Config_init_def split: sum.splits)
  note ev = EnvSpec_process_values [OF e] and layers = startup_layers [OF e assms(1) refl, of s]
  have two: "first_some [x, y, None] d = first_some [x, y] d" for x y and d :: utf8path
    by (cases x; cases y) simp_all
  have "Setting_value (dm_config_file (cfg_daemon c)) = first_some [ar_config a, env_str env ''CASCADE_CONFIG_PATH''] ''/etc/cascade/config.toml''"
    using layers(2) ev(2) by (simp add: two del: first_some.simps)
  then have l: "Config_init_from_file load c = (Ok (), CfSpec_parse_into s c)"
    using assms(2) by (simp add: Config_init_from_file_def del: first_some.simps)
  have dz: "first_some [if b then Some True else None, None, x] False = (b \<or> x = Some True)" for b x
    by (cases x) simp_all
  have tt: "first_some [None, map_option g x, None] {} = (case x of Some v \<Rightarrow> g v | None \<Rightarrow> {})" for g :: "string \<Rightarrow> string set" and x
    by (cases x) simp_all
  have fl: "dm_pid_file (cfg_daemon (CfSpec_parse_into s c)) = cf_pid_file (cf_daemon s)"
    "dm_chroot (cfg_daemon (CfSpec_parse_into s c)) = cf_chroot (cf_daemon s)"
    "dm_identity (cfg_daemon (CfSpec_parse_into s c)) = map_option IdentitySpec_parse (cf_identity (cf_daemon s))"
    "cfg_policy_dir (CfSpec_parse_into s c) = cf_policy_dir s" "cfg_zone_state_dir (CfSpec_parse_into s c) = cf_zone_state_dir s"
    "cfg_tsig_store_path (CfSpec_parse_into s c) = cf_tsig_store_path s"
    by (simp_all add: CfSpec_parse_into_def CfDaemonSpec_parse_into_def Let_def)
  show ?thesis unfolding Let_def
    by (rule exI [of _ "CfSpec_parse_into s c"], rule exI [of _ "ev_log_level e"], rule exI [of _ "ev_log_target e"])
      (simp only: l layers ev fl two dz tt Setting_value_layered CfSpec_parse_into_servers simp_thms)
qed

definition example_env :: environment where
  "example_env v = (if v = ''CASCADE_LOG_LEVEL'' then Some (Some ''debug'') else None)"

definition example_args :: ArgsSpec where
  "example_args = \<lparr> ar_state = None, ar_config = Some ''/c.toml'', ar_log_level = None,
     ar_log_target = Some ArgsLogTargetSpec.Syslog, ar_daemonize = False \<rparr>"

definition example_file :: CfSpec where
  "example_file = CfSpec_default \<lparr> cf_daemon := CfDaemonSpec_default \<lparr>
     cf_log_level := Some LogLevelSpec.Error, cf_daemonize := Some True \<rparr> \<rparr>"

theorem startup_precedence_witness:
  "\<exists>c c'. Config_init example_env example_args = Inr c
    \<and> Config_init_from_file (\<lambda>p. if p = ''/c.toml'' then Inr (CfV1 example_file) else Inl (Parse '''')) c = (Ok (), c')
    \<and> Setting_value (lg_level (dm_logging (cfg_daemon c'))) = LogLevel.Debug
    \<and> Setting_value (lg_target (dm_logging (cfg_daemon c'))) = LogTarget.Syslog
    \<and> Setting_value (dm_daemonize (cfg_daemon c'))"
proof -
  obtain c where c: "Config_init example_env example_args = Inr c"
    by (simp add: Config_init_def EnvSpec_process_def bind_res_def env_var_def example_env_def env_log_level_def)
  have debug: "LogLevel_as_str l = ''debug'' \<Longrightarrow> l = LogLevel.Debug" for l by (cases l) simp_all
  show ?thesis
    using startup_precedence [OF c, of "\<lambda>p. if p = ''/c.toml'' then Inr (CfV1 example_file) else Inl (Parse '''')" example_file]
      c debug by (auto simp: example_args_def example_file_def example_env_def env_str_def Let_def)
qed

text \<open>Reloading a configuration file touches only the file layer: what the command line,
  the environment and the defaults say stays, and reading one file after another is the same as
  reading the second only.\<close>

theorem config_reload_layers:
  "CfFile_parse_into (CfV1 s) (CfFile_parse_into f c) = CfFile_parse_into (CfV1 s) c
   \<and> (let l = \<lambda>c. lg_level (dm_logging (cfg_daemon c)); t = \<lambda>c. lg_target (dm_logging (cfg_daemon c));
         d = \<lambda>c. dm_daemonize (cfg_daemon c); c' = CfFile_parse_into f c
      in set_args (l c') = set_args (l c) \<and> set_env (l c') = set_env (l c) \<and> set_default (l c') = set_default (l c)
       \<and> set_args (t c') = set_args (t c) \<and> set_env (t c') = set_env (t c) \<and> set_default (t c') = set_default (t c)
       \<and> set_args (d c') = set_args (d c) \<and> set_env (d c') = set_env (d c) \<and> set_default (d c') = set_default (d c)
       \<and> dm_state_file (cfg_daemon c') = dm_state_file (cfg_daemon c)
       \<and> dm_config_file (cfg_daemon c') = dm_config_file (cfg_daemon c))"
proof (cases f)
  case (CfV1 s')
  show ?thesis
    unfolding CfV1 CfFile_parse_into.simps CfSpec_parse_into_again
    by (simp add: Let_def CfSpec_parse_into_def CfDaemonSpec_parse_into_def)
qed

section \<open>Identities\<close>

lemma digit_val_bound: "digit_val c = Some d \<Longrightarrow> d \<le> 9"
  by (auto simp: digit_val_def Let_def split: if_splits)

lemma parse_digits_bound: "acc < 2 ^ 32 \<Longrightarrow> parse_digits acc s = Inr n \<Longrightarrow> n < 2 ^ 32"
  by (induction acc s rule: parse_digits.induct) (auto split: option.splits if_splits)

text \<open>The number a string of digits stands for.\<close>

fun digits_val :: "nat \<Rightarrow> string \<Rightarrow> nat option" where
  "digits_val acc [] = Some acc"
| "digits_val acc (c # cs) = (case digit_val c of None \<Rightarrow> None | Some d \<Rightarrow> digits_val (acc * 10 + d) cs)"

lemma digits_val_mono: "digits_val acc s = Some n \<Longrightarrow> acc \<le> n"
  by (induction acc s rule: digits_val.induct) (force split: option.splits)+

lemma parse_digits_val:
  "digits_val acc s = Some n \<Longrightarrow> acc < 2 ^ 32 \<Longrightarrow>
    parse_digits acc s = (if n < 2 ^ 32 then Inr n else Inl PosOverflow)"
  by (induction acc s rule: digits_val.induct) (auto split: option.splits dest: digits_val_mono)

lemma parse_digits_nondigit:
  "parse_digits acc s = Inr n \<Longrightarrow> digits_val acc s = Some n"
  by (induction acc s rule: parse_digits.induct) (auto split: option.splits if_splits)

lemma u32_from_str_digits:
  assumes "s \<noteq> []" "digits_val 0 s = Some n"
  shows "u32_from_str s = (if n < 2 ^ 32 then Inr (word_of_nat n) else Inl PosOverflow)"
proof -
  obtain c cs d where s: "s = c # cs" and d: "digit_val c = Some d"
    using assms by (cases s) (auto split: option.splits)
  then have "c \<noteq> CHR ''+''" "c \<noteq> CHR ''-''"
    by (auto simp: digit_val_def)
  with s parse_digits_val [OF assms(2)] show ?thesis
    by (simp add: u32_from_str_def del: parse_digits.simps)
qed

lemma split_once_colon:
  "CHR '':'' \<notin> set u \<Longrightarrow> split_once '':'' (u @ CHR '':'' # g) = Some (u, g)"
  by (induction u) auto

lemma split_once_none: "CHR '':'' \<notin> set s \<Longrightarrow> split_once '':'' s = None"
  by (induction s) auto

lemma digits_val_no_colon: "digits_val acc s = Some n \<Longrightarrow> CHR '':'' \<notin> set s"
  by (induction acc s rule: digits_val.induct) (auto split: option.splits simp: digit_val_def)

text \<open>An identity \<open>user:group\<close> of two decimal numbers is the pair of numeric ids when
  both fit 32 bits and is refused, naming the part that is too large, otherwise; nothing wraps
  around. A single number stands for both.\<close>

theorem identity_numeric:
  assumes "u \<noteq> []" "digits_val 0 u = Some n" "g \<noteq> []" "digits_val 0 g = Some m"
  shows "IdentitySpec_from_str (u @ CHR '':'' # g) =
      (if n \<ge> 2 ^ 32 then Inl (NumericOverflow u)
       else if m \<ge> 2 ^ 32 then Inl (NumericOverflow g)
       else Inr \<lparr> id_user = UserIdSpec.Numeric (word_of_nat n), id_group = GroupIdSpec.Numeric (word_of_nat m) \<rparr>)
    \<and> IdentitySpec_from_str u = IdentitySpec_from_str (u @ CHR '':'' # u)"
  using assms digits_val_no_colon [OF assms(2)]
  by (simp add: IdentitySpec_from_str_def split_once_colon split_once_none UserIdSpec_from_str_def
      GroupIdSpec_from_str_def u32_from_str_digits bind_res_def Let_def)

theorem identity_numeric_witness:
  "IdentitySpec_from_str ''1000:100'' =
     Inr \<lparr> id_user = UserIdSpec.Numeric 1000, id_group = GroupIdSpec.Numeric 100 \<rparr>
   \<and> IdentitySpec_from_str ''1000:4294967296'' = Inl (NumericOverflow ''4294967296'')"
proof -
  have d: "digits_val 0 ''1000'' = Some 1000" "digits_val 0 ''100'' = Some 100"
    "digits_val 0 ''4294967296'' = Some 4294967296"
    by (simp_all add: digit_val_def)
  show ?thesis
    using identity_numeric [OF _ d(1) _ d(2), THEN conjunct1]
      identity_numeric [OF _ d(1) _ d(3), THEN conjunct1] by simp
qed

text \<open>Log levels in the environment are the names the program prints.\<close>

lemma env_log_level_as_str [simp, codec_simps]: "env_log_level (LogLevel_as_str l) = Inr l"
  by (cases l) (simp_all add: env_log_level_def)

lemma env_log_level_Inr: "env_log_level s = Inr l \<Longrightarrow> s = LogLevel_as_str l"
  by (auto simp: env_log_level_def split: if_splits)

end
