(* ===== verification/Zone_State_File.thy ===== *)
theory Zone_State_File
  imports Policy
begin

text \<open>
  The zone state file, version 1: \<open>src/zone/state/v1.rs\<close> and the merging of a loaded file
  with the global policies, \<open>sync_policy\<close> and \<open>parse_into\<close> of
  \<open>src/zone/state/mod.rs\<close>, together with the state of a zone, \<open>ZoneState\<close> of
  \<open>src/zone/mod.rs\<close>. The JSON reader and writer are third-party code: a file is its
  \<open>Spec\<close>. The lemmas show that the file keeps the zone's policy exactly and what a loaded
  zone does to the policies.
\<close>

section \<open>The state of a zone\<close>

text \<open>The handle of an enqueued save is the id of its task.\<close>

record ZoneState =
  zst_policy :: "PolicyVersion option"
  zst_enqueued_save :: "nat option"

definition ZoneState_default :: ZoneState where
  "ZoneState_default = \<lparr> zst_policy = None, zst_enqueued_save = None \<rparr>"

section \<open>Version 1 of the file\<close>

datatype ZsNsec3OptOutPolicySpec = Disabled | FlagOnly | Enabled

fun ZsNsec3OptOutPolicySpec_parse :: "ZsNsec3OptOutPolicySpec \<Rightarrow> Nsec3OptOutPolicy" where
  "ZsNsec3OptOutPolicySpec_parse ZsNsec3OptOutPolicySpec.Disabled = Nsec3OptOutPolicy.Disabled"
| "ZsNsec3OptOutPolicySpec_parse ZsNsec3OptOutPolicySpec.FlagOnly = Nsec3OptOutPolicy.FlagOnly"
| "ZsNsec3OptOutPolicySpec_parse ZsNsec3OptOutPolicySpec.Enabled = Nsec3OptOutPolicy.Enabled"

fun ZsNsec3OptOutPolicySpec_build :: "Nsec3OptOutPolicy \<Rightarrow> ZsNsec3OptOutPolicySpec" where
  "ZsNsec3OptOutPolicySpec_build Nsec3OptOutPolicy.Disabled = ZsNsec3OptOutPolicySpec.Disabled"
| "ZsNsec3OptOutPolicySpec_build Nsec3OptOutPolicy.FlagOnly = ZsNsec3OptOutPolicySpec.FlagOnly"
| "ZsNsec3OptOutPolicySpec_build Nsec3OptOutPolicy.Enabled = ZsNsec3OptOutPolicySpec.Enabled"

datatype ZsSignerDenialPolicySpec = NSec | NSec3 ZsNsec3OptOutPolicySpec

definition ZsSignerDenialPolicySpec_default :: ZsSignerDenialPolicySpec where
  "ZsSignerDenialPolicySpec_default = ZsSignerDenialPolicySpec.NSec3 ZsNsec3OptOutPolicySpec.Disabled"

fun ZsSignerDenialPolicySpec_parse :: "ZsSignerDenialPolicySpec \<Rightarrow> SignerDenialPolicy" where
  "ZsSignerDenialPolicySpec_parse ZsSignerDenialPolicySpec.NSec = SignerDenialPolicy.NSec"
| "ZsSignerDenialPolicySpec_parse (ZsSignerDenialPolicySpec.NSec3 opt_out) = SignerDenialPolicy.NSec3 (ZsNsec3OptOutPolicySpec_parse opt_out)"

fun ZsSignerDenialPolicySpec_build :: "SignerDenialPolicy \<Rightarrow> ZsSignerDenialPolicySpec" where
  "ZsSignerDenialPolicySpec_build SignerDenialPolicy.NSec = ZsSignerDenialPolicySpec.NSec"
| "ZsSignerDenialPolicySpec_build (SignerDenialPolicy.NSec3 opt_out) = ZsSignerDenialPolicySpec.NSec3 (ZsNsec3OptOutPolicySpec_build opt_out)"

datatype ZsSignerSerialPolicySpec = Keep | Counter | UnixTime | DateCounter

fun ZsSignerSerialPolicySpec_parse :: "ZsSignerSerialPolicySpec \<Rightarrow> SignerSerialPolicy" where
  "ZsSignerSerialPolicySpec_parse ZsSignerSerialPolicySpec.Keep = SignerSerialPolicy.Keep"
| "ZsSignerSerialPolicySpec_parse ZsSignerSerialPolicySpec.Counter = SignerSerialPolicy.Counter"
| "ZsSignerSerialPolicySpec_parse ZsSignerSerialPolicySpec.UnixTime = SignerSerialPolicy.UnixTime"
| "ZsSignerSerialPolicySpec_parse ZsSignerSerialPolicySpec.DateCounter = SignerSerialPolicy.DateCounter"

fun ZsSignerSerialPolicySpec_build :: "SignerSerialPolicy \<Rightarrow> ZsSignerSerialPolicySpec" where
  "ZsSignerSerialPolicySpec_build SignerSerialPolicy.Keep = ZsSignerSerialPolicySpec.Keep"
| "ZsSignerSerialPolicySpec_build SignerSerialPolicy.Counter = ZsSignerSerialPolicySpec.Counter"
| "ZsSignerSerialPolicySpec_build SignerSerialPolicy.UnixTime = ZsSignerSerialPolicySpec.UnixTime"
| "ZsSignerSerialPolicySpec_build SignerSerialPolicy.DateCounter = ZsSignerSerialPolicySpec.DateCounter"

record ZsReviewPolicySpec =
  zs_rv_required :: bool
  zs_rv_cmd_hook :: "string option"

definition ZsReviewPolicySpec_parse :: "ZsReviewPolicySpec \<Rightarrow> ReviewPolicy" where
  "ZsReviewPolicySpec_parse s = \<lparr> rv_required = zs_rv_required s, rv_cmd_hook = zs_rv_cmd_hook s \<rparr>"

definition ZsReviewPolicySpec_build :: "ReviewPolicy \<Rightarrow> ZsReviewPolicySpec" where
  "ZsReviewPolicySpec_build p = \<lparr> zs_rv_required = rv_required p, zs_rv_cmd_hook = rv_cmd_hook p \<rparr>"

record ZsSignerPolicySpec =
  zs_sg_serial_policy :: ZsSignerSerialPolicySpec
  zs_sg_sig_inception_offset :: "64 word"
  zs_sg_sig_validity_time :: "64 word"
  zs_sg_denial :: ZsSignerDenialPolicySpec
  zs_sg_review :: ZsReviewPolicySpec

definition ZsSignerPolicySpec_parse :: "ZsSignerPolicySpec \<Rightarrow> SignerPolicy" where
  "ZsSignerPolicySpec_parse s = \<lparr>
     sg_serial_policy = ZsSignerSerialPolicySpec_parse (zs_sg_serial_policy s),
     sg_sig_inception_offset = Duration_from_secs (zs_sg_sig_inception_offset s),
     sg_sig_validity_time = Duration_from_secs (zs_sg_sig_validity_time s),
     sg_denial = ZsSignerDenialPolicySpec_parse (zs_sg_denial s),
     sg_review = ZsReviewPolicySpec_parse (zs_sg_review s) \<rparr>"

definition ZsSignerPolicySpec_build :: "SignerPolicy \<Rightarrow> ZsSignerPolicySpec" where
  "ZsSignerPolicySpec_build p = \<lparr>
     zs_sg_serial_policy = ZsSignerSerialPolicySpec_build (sg_serial_policy p),
     zs_sg_sig_inception_offset = Duration_as_secs (sg_sig_inception_offset p),
     zs_sg_sig_validity_time = Duration_as_secs (sg_sig_validity_time p),
     zs_sg_denial = ZsSignerDenialPolicySpec_build (sg_denial p),
     zs_sg_review = ZsReviewPolicySpec_build (sg_review p) \<rparr>"

record ZsLoaderPolicySpec =
  zs_ld_review :: ZsReviewPolicySpec

definition ZsLoaderPolicySpec_parse :: "ZsLoaderPolicySpec \<Rightarrow> LoaderPolicy" where
  "ZsLoaderPolicySpec_parse s = \<lparr> ld_review = ZsReviewPolicySpec_parse (zs_ld_review s) \<rparr>"

definition ZsLoaderPolicySpec_build :: "LoaderPolicy \<Rightarrow> ZsLoaderPolicySpec" where
  "ZsLoaderPolicySpec_build p = \<lparr> zs_ld_review = ZsReviewPolicySpec_build (ld_review p) \<rparr>"

type_synonym ZsKeyManagerPolicySpec = unit
type_synonym ZsServerPolicySpec = unit

definition ZsKeyManagerPolicySpec_parse :: "ZsKeyManagerPolicySpec \<Rightarrow> KeyManagerPolicy" where
  "ZsKeyManagerPolicySpec_parse s = ()"

definition ZsKeyManagerPolicySpec_build :: "KeyManagerPolicy \<Rightarrow> ZsKeyManagerPolicySpec" where
  "ZsKeyManagerPolicySpec_build p = ()"

definition ZsServerPolicySpec_parse :: "ZsServerPolicySpec \<Rightarrow> ServerPolicy" where
  "ZsServerPolicySpec_parse s = ()"

definition ZsServerPolicySpec_build :: "ServerPolicy \<Rightarrow> ZsServerPolicySpec" where
  "ZsServerPolicySpec_build p = ()"

record ZsPolicySpec =
  zs_name :: string
  zs_loader :: ZsLoaderPolicySpec
  zs_key_manager :: ZsKeyManagerPolicySpec
  zs_signer :: ZsSignerPolicySpec
  zs_server :: ZsServerPolicySpec

definition ZsPolicySpec_parse :: "ZsPolicySpec \<Rightarrow> PolicyVersion" where
  "ZsPolicySpec_parse s = \<lparr>
     pv_name = zs_name s,
     pv_loader = ZsLoaderPolicySpec_parse (zs_loader s),
     pv_key_manager = ZsKeyManagerPolicySpec_parse (zs_key_manager s),
     pv_signer = ZsSignerPolicySpec_parse (zs_signer s),
     pv_server = ZsServerPolicySpec_parse (zs_server s) \<rparr>"

definition ZsPolicySpec_build :: "PolicyVersion \<Rightarrow> ZsPolicySpec" where
  "ZsPolicySpec_build p = \<lparr>
     zs_name = pv_name p,
     zs_loader = ZsLoaderPolicySpec_build (pv_loader p),
     zs_key_manager = ZsKeyManagerPolicySpec_build (pv_key_manager p),
     zs_signer = ZsSignerPolicySpec_build (pv_signer p),
     zs_server = ZsServerPolicySpec_build (pv_server p) \<rparr>"

record ZsSpec =
  zs_policy :: "ZsPolicySpec option"

definition ZsSpec_build :: "ZoneState \<Rightarrow> ZsSpec" where
  "ZsSpec_build zone = \<lparr> zs_policy = map_option ZsPolicySpec_build (zst_policy zone) \<rparr>"

datatype ZsFile = V1 ZsSpec

definition ZsFile_build :: "ZoneState \<Rightarrow> ZsFile" where
  "ZsFile_build zone = V1 (ZsSpec_build zone)"

text \<open>\<open>sync_policy\<close>: the policy version to use for the zone, and the policies.\<close>

definition sync_policy :: "PolicyVersion \<Rightarrow> policies \<Rightarrow> PolicyVersion \<times> policies" where
  "sync_policy policy policies = (case hm_get policies (pv_name policy) of
      Some entry \<Rightarrow>
        (let existing = po_latest entry
         in if existing = policy then (existing, policies) else (existing, policies))
    | None \<Rightarrow> (policy, hm_insert (pv_name policy)
        \<lparr> po_latest = policy, po_mid_deletion = False, po_zones = [] \<rparr> policies))"

fun ZsFile_parse_into :: "ZsFile \<Rightarrow> ZoneState \<Rightarrow> policies \<Rightarrow> ZoneState \<times> policies" where
  "ZsFile_parse_into (V1 spec) state policies = (case zs_policy spec of
      None \<Rightarrow> (state \<lparr> zst_policy := None \<rparr>, policies)
    | Some policy \<Rightarrow>
        (let (p, policies') = sync_policy (ZsPolicySpec_parse policy) policies
         in (state \<lparr> zst_policy := Some p \<rparr>, policies')))"

section \<open>Round trips\<close>

lemma ZsNsec3OptOutPolicySpec_parse_build [simp, codec_simps]: "ZsNsec3OptOutPolicySpec_parse (ZsNsec3OptOutPolicySpec_build p) = p"
  by (cases p) simp_all

lemma ZsNsec3OptOutPolicySpec_build_parse [simp, codec_simps]: "ZsNsec3OptOutPolicySpec_build (ZsNsec3OptOutPolicySpec_parse s) = s"
  by (cases s) simp_all

lemma ZsSignerDenialPolicySpec_parse_build [simp, codec_simps]: "ZsSignerDenialPolicySpec_parse (ZsSignerDenialPolicySpec_build p) = p"
  by (cases p) simp_all

lemma ZsSignerDenialPolicySpec_build_parse [simp, codec_simps]: "ZsSignerDenialPolicySpec_build (ZsSignerDenialPolicySpec_parse s) = s"
  by (cases s) simp_all

lemma ZsSignerSerialPolicySpec_parse_build [simp, codec_simps]: "ZsSignerSerialPolicySpec_parse (ZsSignerSerialPolicySpec_build p) = p"
  by (cases p) simp_all

lemma ZsSignerSerialPolicySpec_build_parse [simp, codec_simps]: "ZsSignerSerialPolicySpec_build (ZsSignerSerialPolicySpec_parse s) = s"
  by (cases s) simp_all

lemma ZsReviewPolicySpec_parse_build [simp, codec_simps]: "ZsReviewPolicySpec_parse (ZsReviewPolicySpec_build p) = p"
  by (simp add: ZsReviewPolicySpec_parse_def ZsReviewPolicySpec_build_def)

lemma ZsReviewPolicySpec_build_parse [simp, codec_simps]: "ZsReviewPolicySpec_build (ZsReviewPolicySpec_parse s) = s"
  by (simp add: ZsReviewPolicySpec_parse_def ZsReviewPolicySpec_build_def)

lemma ZsLoaderPolicySpec_parse_build [simp, codec_simps]: "ZsLoaderPolicySpec_parse (ZsLoaderPolicySpec_build p) = p"
  by (simp add: ZsLoaderPolicySpec_parse_def ZsLoaderPolicySpec_build_def)

lemma ZsLoaderPolicySpec_build_parse [simp, codec_simps]: "ZsLoaderPolicySpec_build (ZsLoaderPolicySpec_parse s) = s"
  by (simp add: ZsLoaderPolicySpec_parse_def ZsLoaderPolicySpec_build_def)

lemma ZsSignerPolicySpec_parse_build [simp, codec_simps]: "SignerPolicy_ok p \<Longrightarrow> ZsSignerPolicySpec_parse (ZsSignerPolicySpec_build p) = p"
  by (simp add: ZsSignerPolicySpec_parse_def ZsSignerPolicySpec_build_def SignerPolicy_ok_def)

lemma ZsSignerPolicySpec_build_parse [simp, codec_simps]: "ZsSignerPolicySpec_build (ZsSignerPolicySpec_parse s) = s"
  by (simp add: ZsSignerPolicySpec_parse_def ZsSignerPolicySpec_build_def)

lemma ZsSignerPolicySpec_parse_ok [simp, codec_simps]: "SignerPolicy_ok (ZsSignerPolicySpec_parse s)"
  by (simp add: ZsSignerPolicySpec_parse_def SignerPolicy_ok_def)

lemma ZsPolicySpec_parse_build [simp, codec_simps]:
  "PolicyVersion_ok p \<Longrightarrow> ZsPolicySpec_parse (ZsPolicySpec_build p) = p"
  by (simp add: ZsPolicySpec_parse_def ZsPolicySpec_build_def PolicyVersion_ok_def)

lemma ZsPolicySpec_build_parse [simp, codec_simps]: "ZsPolicySpec_build (ZsPolicySpec_parse s) = s"
  by (simp add: ZsPolicySpec_parse_def ZsPolicySpec_build_def)

lemma ZsPolicySpec_parse_ok [simp, codec_simps]: "PolicyVersion_ok (ZsPolicySpec_parse s)"
  by (simp add: ZsPolicySpec_parse_def PolicyVersion_ok_def)

interpretation zs_v1: exact_codec ZsPolicySpec_build ZsPolicySpec_parse PolicyVersion_ok
  by unfold_locales auto

section \<open>Loading a zone\<close>

lemma sync_policy_get:
  "sync_policy p ps = (q, ps') \<Longrightarrow>
    (\<exists>e. hm_get ps' (pv_name p) = Some e \<and> po_latest e = q)
    \<and> (hm_get ps (pv_name p) \<noteq> None \<longrightarrow> ps' = ps)
    \<and> (hm_get ps (pv_name p) = None \<longrightarrow> q = p)
    \<and> (n \<noteq> pv_name p \<longrightarrow> hm_get ps' n = hm_get ps n)"
  by (auto simp: sync_policy_def Let_def split: option.splits if_splits)

lemma sync_policy_keeps: "hm_get ps n = Some e \<Longrightarrow> hm_get (snd (sync_policy p ps)) n = Some e"
  by (auto simp: sync_policy_def Let_def split: option.splits)

text \<open>No loaded zone file is ever counted among the zones of its policy.\<close>

lemma sync_policy_zones:
  "hm_get (snd (sync_policy p ps)) n = Some e \<Longrightarrow> hm_get ps n = None \<Longrightarrow> po_zones e = []"
  by (auto simp: sync_policy_def Let_def split: option.splits if_splits)

lemma ZsFile_parse_into_wf: "hm_wf ps \<Longrightarrow> hm_wf (snd (ZsFile_parse_into f z ps))"
  by (cases f) (auto simp: sync_policy_def Let_def split: option.splits)

lemma ZsFile_parse_into_save [simp, frame_simps]:
  "zst_enqueued_save (fst (ZsFile_parse_into f z ps)) = zst_enqueued_save z"
  by (cases f) (auto simp: case_prod_unfold Let_def split: option.splits)

text \<open>C37: a zone whose state was saved and is loaded again uses the latest version of the policy
  it had when the policy is still known, and exactly the version it had, restored among the
  policies under its name with no zones attached, when it is not; other policies are untouched,
  and a zone without a policy stays without one.\<close>

theorem zone_state_reload:
  assumes "\<And>p. zst_policy z = Some p \<Longrightarrow> PolicyVersion_ok p"
  shows "case ZsFile_parse_into (ZsFile_build z) z0 ps of (z', ps') \<Rightarrow>
    zst_policy z' = (case zst_policy z of
        None \<Rightarrow> None
      | Some p \<Rightarrow> (case hm_get ps (pv_name p) of Some e \<Rightarrow> Some (po_latest e) | None \<Rightarrow> Some p))
    \<and> hm_get ps' n = (case zst_policy z of
        None \<Rightarrow> hm_get ps n
      | Some p \<Rightarrow> if n = pv_name p \<and> hm_get ps n = None
          then Some \<lparr> po_latest = p, po_mid_deletion = False, po_zones = [] \<rparr>
          else hm_get ps n)"
proof (cases "zst_policy z")
  case None
  then show ?thesis by (simp add: ZsFile_build_def ZsSpec_build_def)
next
  case (Some p)
  then have "ZsPolicySpec_parse (ZsPolicySpec_build p) = p" using assms by simp
  then show ?thesis
    by (auto simp: Some ZsFile_build_def ZsSpec_build_def sync_policy_def Let_def split: option.splits)
qed

definition example_version :: PolicyVersion where
  "example_version = \<lparr> pv_name = ''p'', pv_loader = \<lparr> ld_review = \<lparr> rv_required = True, rv_cmd_hook = None \<rparr> \<rparr>,
     pv_key_manager = (),
     pv_signer = \<lparr> sg_serial_policy = SignerSerialPolicy.Keep, sg_sig_inception_offset = 3600000000000,
       sg_sig_validity_time = 0, sg_denial = SignerDenialPolicy.NSec,
       sg_review = \<lparr> rv_required = False, rv_cmd_hook = Some ''hook'' \<rparr> \<rparr>,
     pv_server = () \<rparr>"

lemma example_version_ok: "PolicyVersion_ok example_version" "pv_name example_version = ''p''"
  by (simp_all add: example_version_def PolicyVersion_ok_def SignerPolicy_ok_def whole_secs_def nanos_per_sec_def)

theorem zone_state_reload_witness:
  "zst_policy (fst (ZsFile_parse_into (ZsFile_build \<lparr> zst_policy = Some example_version, zst_enqueued_save = None \<rparr>)
     ZoneState_default [])) = Some example_version"
  using zone_state_reload [where z = "\<lparr> zst_policy = Some example_version, zst_enqueued_save = None \<rparr>"
      and ?z0.0 = ZoneState_default and ps = "[]" and n = "''p''"]
    example_version_ok by (simp add: case_prod_unfold)

end
