(* ===== verification/Tsig_File.thy ===== *)
theory Tsig_File
  imports Net_Types
begin

text \<open>
  The TSIG key store and its file: \<open>TsigStore\<close> and \<open>TsigKey\<close> of
  \<open>src/tsig/mod.rs\<close>, \<open>src/tsig/file/v1.rs\<close> and \<open>src/tsig/file/mod.rs\<close>. A key of the
  \<open>domain\<close> crate is opaque (\<open>'k\<close>); how keys are made and what can be read from them is
  the parameter \<open>api\<close>, whose documented behaviour is \<open>key_api_ok\<close>. Zones that use a key are
  held by address, here the reference of the zone.
\<close>

section \<open>Keys\<close>

datatype Algorithm = Sha1 | Sha256 | Sha384 | Sha512

datatype NewKeyError = BadMinMacLen | BadSigningLen

type_synonym key_name = string
type_synonym bytes = "8 word list"

text \<open>\<open>tsig::Key::new(alg, material, name, None, None)\<close>, \<open>Key::name\<close> and
  \<open>Key::algorithm\<close>.\<close>

record 'k key_api =
  Key_new :: "Algorithm \<Rightarrow> bytes \<Rightarrow> key_name \<Rightarrow> NewKeyError + 'k"
  Key_name :: "'k \<Rightarrow> key_name"
  Key_algorithm :: "'k \<Rightarrow> Algorithm"

text \<open>Without explicit lengths a key can always be made, and it has the name and the algorithm it
  was made with.\<close>

definition key_api_ok :: "'k key_api \<Rightarrow> bool" where
  "key_api_ok api \<longleftrightarrow> (\<forall>a m n. \<exists>k. Key_new api a m n = Inr k \<and> Key_name api k = n \<and> Key_algorithm api k = a)"

definition example_api :: "(Algorithm \<times> bytes \<times> key_name) key_api" where
  "example_api = \<lparr> Key_new = (\<lambda>a m n. Inr (a, m, n)), Key_name = (\<lambda>(a, m, n). n), Key_algorithm = (\<lambda>(a, m, n). a) \<rparr>"

lemma example_api_ok [simp]: "key_api_ok example_api"
  by (simp add: key_api_ok_def example_api_def)

record 'k TsigKey =
  tk_inner :: 'k
  tk_material :: bytes
  tk_zones :: "nat hset"

record 'k TsigStore =
  ts_map :: "(key_name, 'k TsigKey) hmap"
  ts_enqueued_save :: "nat option"

definition TsigStore_new :: "'k TsigStore" where
  "TsigStore_new = \<lparr> ts_map = [], ts_enqueued_save = None \<rparr>"

section \<open>Version 1 of the file\<close>

datatype AlgSpec = Sha1 | Sha256 | Sha384 | Sha512

fun AlgSpec_parse :: "AlgSpec \<Rightarrow> Algorithm" where
  "AlgSpec_parse AlgSpec.Sha1 = Algorithm.Sha1"
| "AlgSpec_parse AlgSpec.Sha256 = Algorithm.Sha256"
| "AlgSpec_parse AlgSpec.Sha384 = Algorithm.Sha384"
| "AlgSpec_parse AlgSpec.Sha512 = Algorithm.Sha512"

fun AlgSpec_build :: "Algorithm \<Rightarrow> AlgSpec" where
  "AlgSpec_build Algorithm.Sha1 = AlgSpec.Sha1"
| "AlgSpec_build Algorithm.Sha256 = AlgSpec.Sha256"
| "AlgSpec_build Algorithm.Sha384 = AlgSpec.Sha384"
| "AlgSpec_build Algorithm.Sha512 = AlgSpec.Sha512"

record KeySpec =
  ks_alg :: AlgSpec
  ks_data :: bytes

text \<open>The \<open>unreachable!()\<close> arms are panics.\<close>

definition KeySpec_parse :: "'k key_api \<Rightarrow> KeySpec \<Rightarrow> key_name \<Rightarrow> (unit, 'k TsigKey) outcome" where
  "KeySpec_parse api s name = (case Key_new api (AlgSpec_parse (ks_alg s)) (ks_data s) name of
      Inr key \<Rightarrow> Ok \<lparr> tk_inner = key, tk_material = ks_data s, tk_zones = [] \<rparr>
    | Inl _ \<Rightarrow> Panic)"

definition KeySpec_parse_into :: "'k key_api \<Rightarrow> KeySpec \<Rightarrow> 'k TsigKey \<Rightarrow> (unit, 'k TsigKey) outcome" where
  "KeySpec_parse_into api s dest =
    (let name = Key_name api (tk_inner dest) in
     case Key_new api (AlgSpec_parse (ks_alg s)) (ks_data s) name of
       Inr key \<Rightarrow> Ok (dest \<lparr> tk_inner := key \<rparr>)
     | Inl _ \<Rightarrow> Panic)"

definition KeySpec_build :: "'k key_api \<Rightarrow> 'k TsigKey \<Rightarrow> KeySpec" where
  "KeySpec_build api key = \<lparr> ks_alg = AlgSpec_build (Key_algorithm api (tk_inner key)), ks_data = tk_material key \<rparr>"

record TsSpec =
  tss_map :: "(key_name, KeySpec) hmap"

fun TsSpec_load :: "'k key_api \<Rightarrow> (key_name, KeySpec) hmap \<Rightarrow> (key_name, 'k TsigKey) hmap
    \<Rightarrow> (key_name, 'k TsigKey) hmap \<Rightarrow> (unit, (key_name, 'k TsigKey) hmap \<times> (key_name, 'k TsigKey) hmap) outcome"
where
  "TsSpec_load api [] store new_keys = Ok (new_keys, store)"
| "TsSpec_load api ((name, spec) # rest) store new_keys =
    (case (case hm_get store name of
        Some key \<Rightarrow> KeySpec_parse_into api spec key
      | None \<Rightarrow> KeySpec_parse api spec name) of
      Ok key \<Rightarrow>
        (if hm_get new_keys name \<noteq> None then Panic
         else TsSpec_load api rest (hm_remove name store) (hm_insert name key new_keys))
    | Err e \<Rightarrow> Err e
    | Panic \<Rightarrow> Panic)"

fun TsSpec_drain :: "(key_name, 'k TsigKey) hmap \<Rightarrow> (key_name, 'k TsigKey) hmap
    \<Rightarrow> (unit, (key_name, 'k TsigKey) hmap) outcome"
where
  "TsSpec_drain [] new_keys = Ok new_keys"
| "TsSpec_drain ((name, key) # rest) new_keys =
    (if tk_zones key \<noteq> [] then
       if hm_get new_keys name \<noteq> None then Panic
       else TsSpec_drain rest (hm_insert name key new_keys)
     else TsSpec_drain rest new_keys)"

definition TsSpec_parse :: "'k key_api \<Rightarrow> TsSpec \<Rightarrow> 'k TsigStore \<Rightarrow> (unit, 'k TsigStore) outcome" where
  "TsSpec_parse api s store = (case TsSpec_load api (tss_map s) (ts_map store) [] of
      Ok (new_keys, rest) \<Rightarrow> (case TsSpec_drain rest new_keys of
          Ok all \<Rightarrow> Ok (store \<lparr> ts_map := all \<rparr>)
        | Err e \<Rightarrow> Err e
        | Panic \<Rightarrow> Panic)
    | Err e \<Rightarrow> Err e
    | Panic \<Rightarrow> Panic)"

definition TsSpec_build :: "'k key_api \<Rightarrow> 'k TsigStore \<Rightarrow> TsSpec" where
  "TsSpec_build api store = \<lparr> tss_map = hm_map (\<lambda>_. KeySpec_build api) (ts_map store) \<rparr>"

datatype TsFile = V1 TsSpec

fun TsFile_parse :: "'k key_api \<Rightarrow> TsFile \<Rightarrow> 'k TsigStore \<Rightarrow> (unit, 'k TsigStore) outcome" where
  "TsFile_parse api (V1 spec) store = TsSpec_parse api spec store"

definition TsFile_build :: "'k key_api \<Rightarrow> 'k TsigStore \<Rightarrow> TsFile" where
  "TsFile_build api store = V1 (TsSpec_build api store)"

section \<open>Loading the file\<close>

lemma AlgSpec_parse_build [simp, codec_simps]: "AlgSpec_parse (AlgSpec_build a) = a"
  by (cases a) simp_all

lemma AlgSpec_build_parse [simp, codec_simps]: "AlgSpec_build (AlgSpec_parse s) = s"
  by (cases s) simp_all

interpretation alg: exact_codec AlgSpec_build AlgSpec_parse "\<lambda>_. True"
  by unfold_locales simp_all

text \<open>The key made from a file entry, under the documented behaviour of \<open>Key::new\<close>.\<close>

definition made_key :: "'k key_api \<Rightarrow> KeySpec \<Rightarrow> key_name \<Rightarrow> 'k" where
  "made_key api s n = projr (Key_new api (AlgSpec_parse (ks_alg s)) (ks_data s) n)"

lemma Key_new_made:
  "key_api_ok api \<Longrightarrow> Key_new api (AlgSpec_parse (ks_alg s)) (ks_data s) n = Inr (made_key api s n)"
  unfolding key_api_ok_def made_key_def by (metis sum.sel(2))

lemma made_key_simps [simp]:
  assumes "key_api_ok api"
  shows "Key_name api (made_key api s n) = n" "Key_algorithm api (made_key api s n) = AlgSpec_parse (ks_alg s)"
  using assms unfolding key_api_ok_def made_key_def by (metis sum.sel(2))+

lemma KeySpec_parse_ok:
  "key_api_ok api \<Longrightarrow> KeySpec_parse api s n = Ok \<lparr> tk_inner = made_key api s n, tk_material = ks_data s, tk_zones = [] \<rparr>"
  by (simp add: KeySpec_parse_def Key_new_made)

lemma KeySpec_parse_into_ok:
  "key_api_ok api \<Longrightarrow> KeySpec_parse_into api s k = Ok (k \<lparr> tk_inner := made_key api s (Key_name api (tk_inner k)) \<rparr>)"
  by (simp add: KeySpec_parse_into_def Key_new_made Let_def)

text \<open>The key a file entry leaves under a name.\<close>

definition merged_key :: "'k key_api \<Rightarrow> (key_name, 'k TsigKey) hmap \<Rightarrow> key_name \<Rightarrow> KeySpec \<Rightarrow> 'k TsigKey" where
  "merged_key api m n s = (case hm_get m n of
      Some k \<Rightarrow> k \<lparr> tk_inner := made_key api s (Key_name api (tk_inner k)) \<rparr>
    | None \<Rightarrow> \<lparr> tk_inner = made_key api s n, tk_material = ks_data s, tk_zones = [] \<rparr>)"

lemma TsSpec_load_Cons:
  "key_api_ok api \<Longrightarrow> TsSpec_load api ((n, s) # rest) m new =
    (if hm_get new n \<noteq> None then Panic
     else TsSpec_load api rest (hm_remove n m) (hm_insert n (merged_key api m n s) new))"
  by (simp add: merged_key_def KeySpec_parse_ok KeySpec_parse_into_ok split: option.splits)

lemma TsSpec_load_ok:
  assumes "key_api_ok api" "hm_wf f" "\<forall>n. hm_get f n \<noteq> None \<longrightarrow> hm_get new n = None" "hm_wf m" "hm_wf new"
  shows "\<exists>new' rest. TsSpec_load api f m new = Ok (new', rest) \<and> hm_wf new' \<and> hm_wf rest
    \<and> (\<forall>n. hm_get new' n = (case hm_get f n of Some s \<Rightarrow> Some (merged_key api m n s) | None \<Rightarrow> hm_get new n))
    \<and> (\<forall>n. hm_get rest n = (case hm_get f n of Some _ \<Rightarrow> None | None \<Rightarrow> hm_get m n))"
  using assms(2-)
proof (induction f arbitrary: m new)
  case (Cons x f)
  obtain n s where x: "x = (n, s)" by (cases x)
  let ?m = "hm_remove n m" and ?new = "hm_insert n (merged_key api m n s) new"
  have fresh: "hm_get new n = None" and n: "hm_get f n = None" and wf: "hm_wf f"
    using Cons.prems by (auto simp: x)
  have "\<forall>j. hm_get f j \<noteq> None \<longrightarrow> hm_get ?new j = None"
    using Cons.prems n by (auto simp: x)
  with Cons.IH [OF wf, of ?new ?m] Cons.prems obtain new' rest where
    r: "TsSpec_load api f ?m ?new = Ok (new', rest)" "hm_wf new'" "hm_wf rest"
    and g: "\<And>j. hm_get new' j = (case hm_get f j of Some s \<Rightarrow> Some (merged_key api ?m j s) | None \<Rightarrow> hm_get ?new j)"
    and h: "\<And>j. hm_get rest j = (case hm_get f j of Some _ \<Rightarrow> None | None \<Rightarrow> hm_get ?m j)"
    by (auto simp: x)
  have "merged_key api ?m j s' = merged_key api m j s'" if "j \<noteq> n" for j s'
    using that by (simp add: merged_key_def)
  with g n have "hm_get new' j = (case hm_get (x # f) j of Some s \<Rightarrow> Some (merged_key api m j s) | None \<Rightarrow> hm_get new j)" for j
    by (cases "j = n") (simp_all add: x split: option.splits)
  moreover have "hm_get rest j = (case hm_get (x # f) j of Some _ \<Rightarrow> None | None \<Rightarrow> hm_get m j)" for j
    using h [of j] n by (cases "j = n") (simp_all add: x split: option.splits)
  moreover have "TsSpec_load api (x # f) m new = Ok (new', rest)"
    using r(1) fresh by (simp only: x TsSpec_load_Cons [OF assms(1)]) simp
  ultimately show ?case using r(2,3) by blast
qed simp

lemma TsSpec_drain_ok:
  assumes "hm_wf m" "hm_wf new" "\<forall>n. hm_get m n \<noteq> None \<longrightarrow> hm_get new n = None"
  shows "\<exists>all. TsSpec_drain m new = Ok all \<and> hm_wf all
    \<and> (\<forall>n. hm_get all n = (case hm_get m n of
          Some k \<Rightarrow> if tk_zones k \<noteq> [] then Some k else hm_get new n | None \<Rightarrow> hm_get new n))"
  using assms
proof (induction m arbitrary: new)
  case (Cons x m)
  obtain n k where x: "x = (n, k)" by (cases x)
  have fresh: "hm_get new n = None" and gone: "hm_get m n = None"
    using Cons.prems by (auto simp: x)
  show ?case
  proof (cases "tk_zones k = []")
    case True
    with Cons.IH [of new] Cons.prems gone fresh show ?thesis
      by (auto simp: x split: if_splits)
  next
    case False
    have "\<forall>j. hm_get m j \<noteq> None \<longrightarrow> hm_get (hm_insert n k new) j = None"
      using Cons.prems gone by (auto simp: x)
    with Cons.IH [of "hm_insert n k new"] Cons.prems obtain all where
      d: "TsSpec_drain m (hm_insert n k new) = Ok all" "hm_wf all"
      and a: "\<And>j. hm_get all j = (case hm_get m j of
          Some k' \<Rightarrow> if tk_zones k' \<noteq> [] then Some k' else hm_get (hm_insert n k new) j
        | None \<Rightarrow> hm_get (hm_insert n k new) j)"
      by (auto simp: x)
    have "hm_get all j = (case hm_get (x # m) j of
          Some k' \<Rightarrow> if tk_zones k' \<noteq> [] then Some k' else hm_get new j | None \<Rightarrow> hm_get new j)" for j
      using a [of j] gone False by (cases "j = n") (auto simp: x split: option.splits)
    with d False fresh show ?thesis by (simp add: x)
  qed
qed simp

text \<open>The keys after a load, by name.\<close>

definition loaded_key :: "'k key_api \<Rightarrow> TsSpec \<Rightarrow> (key_name, 'k TsigKey) hmap \<Rightarrow> key_name \<Rightarrow> 'k TsigKey option" where
  "loaded_key api s m n = (case hm_get (tss_map s) n of
      Some spec \<Rightarrow> Some (merged_key api m n spec)
    | None \<Rightarrow> (case hm_get m n of Some k \<Rightarrow> if tk_zones k \<noteq> [] then Some k else None | None \<Rightarrow> None))"

lemma TsSpec_parse_ok:
  assumes "key_api_ok api" "hm_wf (tss_map s)" "hm_wf (ts_map st)"
  shows "\<exists>m. TsSpec_parse api s st = Ok (st \<lparr> ts_map := m \<rparr>) \<and> hm_wf m
    \<and> (\<forall>n. hm_get m n = loaded_key api s (ts_map st) n)"
proof -
  obtain new rest where e: "TsSpec_load api (tss_map s) (ts_map st) [] = Ok (new, rest)"
    and w: "hm_wf new" "hm_wf rest"
    and g: "\<And>n. hm_get new n = (case hm_get (tss_map s) n of Some sp \<Rightarrow> Some (merged_key api (ts_map st) n sp) | None \<Rightarrow> None)"
    and h: "\<And>n. hm_get rest n = (case hm_get (tss_map s) n of Some _ \<Rightarrow> None | None \<Rightarrow> hm_get (ts_map st) n)"
    using TsSpec_load_ok [OF assms(1,2), of "[]" "ts_map st"] assms(3) by (simp cong: option.case_cong) blast
  have "\<forall>n. hm_get rest n \<noteq> None \<longrightarrow> hm_get new n = None"
    by (simp add: g h split: option.splits)
  with TsSpec_drain_ok [OF w(2,1)] obtain all where d: "TsSpec_drain rest new = Ok all" "hm_wf all"
    and a: "\<And>n. hm_get all n = (case hm_get rest n of
          Some k \<Rightarrow> if tk_zones k \<noteq> [] then Some k else hm_get new n | None \<Rightarrow> hm_get new n)"
    by auto
  have "hm_get all n = loaded_key api s (ts_map st) n" for n
    by (simp add: a g h loaded_key_def split: option.splits)
  with e d show ?thesis by (auto simp: TsSpec_parse_def)
qed

text \<open>A key whose saved material is the material it was made from.\<close>

definition key_consistent :: "'k key_api \<Rightarrow> key_name \<Rightarrow> 'k TsigKey \<Rightarrow> bool" where
  "key_consistent api n k \<longleftrightarrow> Key_new api (Key_algorithm api (tk_inner k)) (tk_material k) n = Inr (tk_inner k)
     \<and> Key_name api (tk_inner k) = n"

definition store_consistent :: "'k key_api \<Rightarrow> 'k TsigStore \<Rightarrow> bool" where
  "store_consistent api st \<longleftrightarrow> hm_wf (ts_map st) \<and> (\<forall>n k. hm_get (ts_map st) n = Some k \<longrightarrow> key_consistent api n k)"

lemma made_key_build:
  "key_consistent api n k \<Longrightarrow> made_key api (KeySpec_build api k) n = tk_inner k"
  by (simp add: key_consistent_def made_key_def KeySpec_build_def)

lemma key_consistent_made:
  "key_api_ok api \<Longrightarrow> key_consistent api n \<lparr> tk_inner = made_key api s n, tk_material = ks_data s, tk_zones = z \<rparr>"
  by (simp add: key_consistent_def Key_new_made)

lemma tsig_store_restored:
  assumes "key_api_ok api" "store_consistent api st"
  shows "\<exists>st'. TsFile_parse api (TsFile_build api st) TsigStore_new = Ok st' \<and> store_consistent api st'
    \<and> (\<forall>n. hm_get (ts_map st') n = map_option (\<lambda>k. k \<lparr> tk_zones := [] \<rparr>) (hm_get (ts_map st) n))"
proof -
  let ?s = "TsSpec_build api st"
  have wf: "hm_wf (tss_map ?s)" "hm_wf (ts_map TsigStore_new)"
    using assms(2) by (simp_all add: TsSpec_build_def store_consistent_def TsigStore_new_def)
  obtain m where p: "TsSpec_parse api ?s TsigStore_new = Ok (TsigStore_new \<lparr> ts_map := m \<rparr>)" "hm_wf m"
    and m: "\<And>n. hm_get m n = loaded_key api ?s (ts_map TsigStore_new) n"
    using TsSpec_parse_ok [OF assms(1) wf] by blast
  have g: "hm_get m n = map_option (\<lambda>k. k \<lparr> tk_zones := [] \<rparr>) (hm_get (ts_map st) n)" for n
  proof (cases "hm_get (ts_map st) n")
    case (Some k)
    then have "key_consistent api n k" using assms(2) by (simp add: store_consistent_def)
    then have "made_key api (KeySpec_build api k) n = tk_inner k" by (rule made_key_build)
    with Some show ?thesis
      by (simp add: m loaded_key_def TsSpec_build_def TsigStore_new_def merged_key_def KeySpec_build_def)
  qed (simp add: m loaded_key_def TsSpec_build_def TsigStore_new_def)
  have "store_consistent api (TsigStore_new \<lparr> ts_map := m \<rparr>)"
    using assms(2) p(2) by (auto simp: store_consistent_def g key_consistent_def)
  with p g show ?thesis by (auto simp: TsFile_build_def)
qed

text \<open>A consistent store of keys that is saved and loaded into an empty store comes back with
  the same keys and secrets under the same names, with no zones attached, and without panicking.\<close>

theorem tsig_store_restart:
  assumes "key_api_ok api" "store_consistent api st"
  shows "\<exists>st'. TsFile_parse api (TsFile_build api st) TsigStore_new = Ok st' \<and> store_consistent api st'
    \<and> (\<forall>n. hm_get (ts_map st') n = map_option (\<lambda>k. k \<lparr> tk_zones := [] \<rparr>) (hm_get (ts_map st) n))"
  by (rule tsig_store_restored [OF assms])

definition example_store :: "(Algorithm \<times> bytes \<times> key_name) TsigStore" where
  "example_store = \<lparr> ts_map = [(''k'', \<lparr> tk_inner = (Algorithm.Sha256, [1, 2], ''k''), tk_material = [1, 2], tk_zones = [7] \<rparr>)],
     ts_enqueued_save = None \<rparr>"

lemma example_store_ok [simp]: "store_consistent example_api example_store"
  by (auto simp: store_consistent_def example_store_def key_consistent_def example_api_def split: if_splits)

theorem tsig_store_restart_witness:
  "\<exists>st'. TsFile_parse example_api (TsFile_build example_api example_store) TsigStore_new = Ok st'
    \<and> hm_get (ts_map st') ''k'' = Some \<lparr> tk_inner = (Algorithm.Sha256, [1, 2], ''k''), tk_material = [1, 2], tk_zones = [] \<rparr>"
  using tsig_store_restart [OF example_api_ok example_store_ok] by (auto simp: example_store_def)

text \<open>Reloading the file of keys over a store gives every listed key the algorithm and secret
  of the file in memory but leaves the secret that will be saved as it was, so the next save
  writes the new algorithm with the old secret; zones stay attached, and keys the file no longer
  lists are kept exactly when a zone uses them.\<close>

theorem tsig_reload_saves_old_secret:
  assumes "key_api_ok api" "hm_wf (tss_map s)" "store_consistent api st"
    and "hm_get (ts_map st) n = Some k" "hm_get (tss_map s) n = Some spec"
  shows "\<exists>st' k'. TsFile_parse api (V1 s) st = Ok st' \<and> hm_get (ts_map st') n = Some k'
    \<and> Key_new api (AlgSpec_parse (ks_alg spec)) (ks_data spec) n = Inr (tk_inner k')
    \<and> tk_zones k' = tk_zones k
    \<and> KeySpec_build api k' = \<lparr> ks_alg = ks_alg spec, ks_data = tk_material k \<rparr>
    \<and> (\<forall>j u. hm_get (tss_map s) j = None \<and> hm_get (ts_map st) j = Some u \<longrightarrow>
         hm_get (ts_map st') j = (if tk_zones u = [] then None else Some u))"
proof -
  have wf: "hm_wf (ts_map st)" and name: "Key_name api (tk_inner k) = n"
    using assms(3,4) by (auto simp: store_consistent_def key_consistent_def)
  obtain m where p: "TsSpec_parse api s st = Ok (st \<lparr> ts_map := m \<rparr>)"
    and m: "\<And>n. hm_get m n = loaded_key api s (ts_map st) n"
    using TsSpec_parse_ok [OF assms(1,2) wf] by blast
  have "hm_get m n = Some (k \<lparr> tk_inner := made_key api spec n \<rparr>)"
    by (simp add: m loaded_key_def assms merged_key_def name)
  then show ?thesis
    using p by (intro exI [of _ "st \<lparr> ts_map := m \<rparr>"] exI [of _ "k \<lparr> tk_inner := made_key api spec n \<rparr>"])
       (auto simp: Key_new_made assms KeySpec_build_def m loaded_key_def)
qed

lemma example_store_get:
  "hm_get (ts_map example_store) ''k'' = Some \<lparr> tk_inner = (Algorithm.Sha256, [1, 2], ''k''), tk_material = [1, 2], tk_zones = [7] \<rparr>"
  by (simp add: example_store_def)

theorem tsig_reload_saves_old_secret_witness:
  "\<exists>st' k'. TsFile_parse example_api (V1 \<lparr> tss_map = [(''k'', \<lparr> ks_alg = AlgSpec.Sha512, ks_data = [9] \<rparr>)] \<rparr>) example_store = Ok st'
    \<and> hm_get (ts_map st') ''k'' = Some k' \<and> tk_inner k' = (Algorithm.Sha512, [9], ''k'')
    \<and> KeySpec_build example_api k' = \<lparr> ks_alg = AlgSpec.Sha512, ks_data = [1, 2] \<rparr>"
proof -
  have n: "Key_new example_api a m n = Inr (a, m, n)" for a m n
    by (simp add: example_api_def)
  show ?thesis
    using tsig_reload_saves_old_secret [OF example_api_ok _ example_store_ok example_store_get,
        of "\<lparr> tss_map = [(''k'', \<lparr> ks_alg = AlgSpec.Sha512, ks_data = [9] \<rparr>)] \<rparr>"
           "\<lparr> ks_alg = AlgSpec.Sha512, ks_data = [9] \<rparr>"]
    by (auto simp: n simp del: TsFile_parse.simps)
qed

end
