(* ===== verification/Global_State.thy ===== *)
theory Global_State
  imports Config_File Policy_File Zone_State_File Tsig_File
begin

text \<open>
  The types of the global state, \<open>State\<close> of \<open>src/center.rs\<close> and \<open>Zone\<close> of
  \<open>src/zone/mod.rs\<close>, and the messages they send, \<open>Change\<close> and \<open>Update\<close> of
  \<open>src/payload.rs\<close>.

  Zones are shared (\<open>Arc<Zone>\<close>): a save task keeps the zone it was made for even when the
  zone has left the set. So zones live in a heap, a list whose indices are the references; the
  set of zones by name maps each name to its reference. The contents of a zone
  (\<open>loaded\<close>, \<open>signed\<close>, \<open>published\<close>) are trees of the \<open>domain\<close> crate that no
  operation here reads.
\<close>

record Zone =
  zn_name :: dname
  zn_state :: ZoneState

type_synonym zref = nat
type_synonym zheap = "Zone list"

definition Zone_new :: "dname \<Rightarrow> Zone" where
  "Zone_new name = \<lparr> zn_name = name, zn_state = ZoneState_default \<rparr>"

text \<open>\<open>Arc::new\<close>.\<close>

definition zalloc :: "Zone \<Rightarrow> zheap \<Rightarrow> zref \<times> zheap" where
  "zalloc z h = (length h, h @ [z])"

definition zset :: "zref \<Rightarrow> ZoneState \<Rightarrow> zheap \<Rightarrow> zheap" where
  "zset r s h = h[r := (h ! r) \<lparr> zn_state := s \<rparr>]"

datatype Change =
    ConfigChanged
  | ZoneAdded dname
  | ZonePolicyChanged dname PolicyVersion
  | ZoneRemoved dname

datatype Update =
    Changed Change
  | RefreshZone dname "ip_addr option" "serial option"
  | UnsignedZoneUpdatedEvent dname serial
  | UnsignedZoneApprovedEvent dname serial
  | ZoneSignedEvent dname serial
  | SignedZoneApprovedEvent dname serial
  | ResignZoneEvent dname

record 'k State =
  st_config :: Config
  st_zones :: "(dname, zref) hmap"
  st_policies :: policies
  st_tsig_store :: "'k TsigStore"
  st_enqueued_save :: "nat option"

definition State_new :: "Config \<Rightarrow> 'k State" where
  "State_new config = \<lparr> st_config = config, st_zones = [], st_policies = [],
     st_tsig_store = TsigStore_new, st_enqueued_save = None \<rparr>"

lemma zset_length [simp]: "length (zset r s h) = length h"
  by (simp add: zset_def)

lemma zset_nth: "i < length h \<Longrightarrow> zset r s h ! i = (if i = r then (h ! r) \<lparr> zn_state := s \<rparr> else h ! i)"
  by (simp add: zset_def nth_list_update)

lemma zset_state [simp]: "r < length h \<Longrightarrow> zn_state (zset r s h ! r) = s"
  by (simp add: zset_nth)

lemma zset_name [simp]: "i < length h \<Longrightarrow> zn_name (zset r s h ! i) = zn_name (h ! i)"
  by (simp add: zset_nth)

lemma zset_other [simp]: "i \<noteq> r \<Longrightarrow> zset r s h ! i = h ! i"
  by (simp add: zset_def)

end
