(* ===== verification/Zm_Types.thy ===== *)
theory Zm_Types
  imports Net_Types
begin

text \<open>
  \<open>zonemaintenance/types.rs\<close>: the configuration of a maintained zone, the bookkeeping of its
  refreshes, timers, name servers, stored differences and the status report.

  Every function that calls \<open>Instant::now()\<close> takes the instant \<open>now\<close> as its first
  argument. A \<open>Ttl\<close> is its number of seconds, a \<open>Soa\<close> a record of its fields. The
  comparison of serials (\<open>slt\<close>), their canonical order (\<open>ccmp\<close>) and the formatting of
  serials and addresses belong to other crates and are parameters. Values of the \<open>domain\<close>
  crate that the program only hands on (the body of a difference, zone data, messages) are
  \<open>token\<close>s: numbers that stand for the values and have no structure of their own.
\<close>

type_synonym token = nat
type_synonym ttl = "32 word"
type_synonym dclass = "16 word"

section \<open>Values of the standard library and of the \<open>domain\<close> crate\<close>

datatype std_ordering = Less | Equal | Greater

record Soa =
  soa_mname :: dname
  soa_rname :: dname
  soa_serial :: serial
  soa_refresh :: ttl
  soa_retry :: ttl
  soa_expire :: ttl
  soa_minimum :: ttl

definition ttl_into_duration :: "ttl \<Rightarrow> duration" where
  "ttl_into_duration t = unat t * nanos_per_sec"

definition checked_duration_since :: "instant \<Rightarrow> instant \<Rightarrow> duration option" where
  "checked_duration_since a b = (if b \<le> a then Some (a - b) else None)"

text \<open>The documented behaviour of \<open>canonical_cmp\<close> on serials: they are compared as unsigned
  numbers.\<close>

definition canonical_order :: "(serial \<Rightarrow> serial \<Rightarrow> std_ordering) \<Rightarrow> bool" where
  "canonical_order ccmp \<longleftrightarrow>
     (\<forall>s t. ccmp s t = (if s < t then std_ordering.Less else if s = t then Equal else Greater))"

definition serial_ccmp :: "serial \<Rightarrow> serial \<Rightarrow> std_ordering" where
  "serial_ccmp s t = (if s < t then std_ordering.Less else if s = t then Equal else Greater)"

lemma canonical_order_ccmp [simp]: "canonical_order serial_ccmp"
  by (simp add: canonical_order_def serial_ccmp_def)

lemma canonical_orderD: "canonical_order ccmp \<Longrightarrow> ccmp = serial_ccmp"
  by (rule ext)+ (simp add: canonical_order_def serial_ccmp_def)

text \<open>Decimal numbers, as \<open>format!("{n}")\<close> prints them.\<close>

fun show_nat :: "nat \<Rightarrow> string" where
  "show_nat n = (if n < 10 then [char_of (48 + n)]
     else show_nat (n div 10) @ [char_of (48 + n mod 10)])"

declare show_nat.simps [simp del]

definition nl :: string where
  "nl = [CHR 0x0A]"

section \<open>Zone identifiers and address lists\<close>

definition IANA_DNS_PORT_NUMBER :: "16 word" where
  "IANA_DNS_PORT_NUMBER = 53"

definition MIN_DURATION_BETWEEN_ZONE_REFRESHES :: duration where
  "MIN_DURATION_BETWEEN_ZONE_REFRESHES = 0"

record ZoneId =
  zid_name :: dname
  zid_class :: dclass

definition ZoneId_new :: "dname \<Rightarrow> dclass \<Rightarrow> ZoneId" where
  "ZoneId_new n c = \<lparr>zid_name = n, zid_class = c\<rparr>"

record 'a SrcDstConfig =
  sdc_entries :: "(socket_addr, 'a) hmap"

definition SrcDstConfig_new :: "'a SrcDstConfig" where
  "SrcDstConfig_new = \<lparr>sdc_entries = []\<rparr>"

definition add_src :: "ip_addr \<Rightarrow> 'a \<Rightarrow> 'a SrcDstConfig \<Rightarrow> 'a SrcDstConfig" where
  "add_src ip v c =
     c\<lparr>sdc_entries := hm_insert (SocketAddr_new ip IANA_DNS_PORT_NUMBER) v (sdc_entries c)\<rparr>"

definition add_dst :: "socket_addr \<Rightarrow> 'a \<Rightarrow> 'a SrcDstConfig \<Rightarrow> 'a SrcDstConfig" where
  "add_dst a v c = c\<lparr>sdc_entries := hm_insert a v (sdc_entries c)\<rparr>"

definition sdc_addrs :: "'a SrcDstConfig \<Rightarrow> socket_addr list" where
  "sdc_addrs c = hm_keys (sdc_entries c)"

definition sdc_is_empty :: "'a SrcDstConfig \<Rightarrow> bool" where
  "sdc_is_empty c \<longleftrightarrow> sdc_entries c = []"

definition sdc_dst :: "'a SrcDstConfig \<Rightarrow> socket_addr \<Rightarrow> 'a option" where
  "sdc_dst c a = hm_get (sdc_entries c) a"

definition sdc_src :: "'a SrcDstConfig \<Rightarrow> ip_addr \<Rightarrow> 'a option" where
  "sdc_src c ip = hm_get (sdc_entries c) (SocketAddr_new ip IANA_DNS_PORT_NUMBER)"

definition sdc_has_dst :: "'a SrcDstConfig \<Rightarrow> socket_addr \<Rightarrow> bool" where
  "sdc_has_dst c a \<longleftrightarrow> hm_get (sdc_entries c) a \<noteq> None"

definition sdc_has_src :: "'a SrcDstConfig \<Rightarrow> ip_addr \<Rightarrow> bool" where
  "sdc_has_src c ip \<longleftrightarrow> hm_get (sdc_entries c) (SocketAddr_new ip IANA_DNS_PORT_NUMBER) \<noteq> None"

lemma sdc_new_simps [simp]:
  "sdc_is_empty SrcDstConfig_new" "sdc_addrs SrcDstConfig_new = []"
  "sdc_dst SrcDstConfig_new a = None" "sdc_src SrcDstConfig_new ip = None"
  by (simp_all add: sdc_is_empty_def sdc_addrs_def sdc_dst_def sdc_src_def SrcDstConfig_new_def
      hm_keys_def)

lemma SocketAddr_new_inj [simp]:
  "SocketAddr_new ip p = SocketAddr_new ip' p' \<longleftrightarrow> ip = ip' \<and> p = p'"
  by (cases ip; cases ip') auto

lemma sdc_src_add_src [simp]:
  "sdc_src (add_src ip v c) ip' = (if ip' = ip then Some v else sdc_src c ip')"
  by (simp add: sdc_src_def add_src_def)

lemma sdc_dst_add_dst [simp]: "sdc_dst (add_dst a v c) a' = (if a' = a then Some v else sdc_dst c a')"
  by (simp add: sdc_dst_def add_dst_def)

lemma sdc_src_dst: "sdc_src c ip = sdc_dst c (SocketAddr_new ip IANA_DNS_PORT_NUMBER)"
  by (simp add: sdc_src_def sdc_dst_def)

lemma sdc_dst_in_addrs: "sdc_dst c a \<noteq> None \<longleftrightarrow> a \<in> set (sdc_addrs c)"
  using hm_get_None_iff [of "sdc_entries c" a] by (auto simp: sdc_dst_def sdc_addrs_def)

lemma sdc_is_empty_addrs: "sdc_is_empty c \<longleftrightarrow> sdc_addrs c = []"
  by (simp add: sdc_is_empty_def sdc_addrs_def hm_keys_def)

section \<open>Zone configuration\<close>

datatype XfrStrategy = StrategyNone | AxfrOnly | IxfrOnly | IxfrWithAxfrFallback

datatype TransportStrategy = TransportNone | Udp | Tcp

fun TransportStrategy_fmt :: "TransportStrategy \<Rightarrow> string" where
  "TransportStrategy_fmt TransportNone = ''None''"
| "TransportStrategy_fmt Udp = ''UDP''"
| "TransportStrategy_fmt Tcp = ''TCP''"

datatype CompatibilityMode = Default | BackwardCompatible

type_synonym tsig_key_ref = "dname \<times> token"

record XfrConfig =
  xc_strategy :: XfrStrategy
  xc_ixfr_transport :: TransportStrategy
  xc_compatibility_mode :: CompatibilityMode
  xc_tsig_key :: "tsig_key_ref option"

definition XfrConfig_default :: XfrConfig where
  "XfrConfig_default = \<lparr>xc_strategy = IxfrWithAxfrFallback,
     xc_ixfr_transport = TransportNone, xc_compatibility_mode = Default,
     xc_tsig_key = None\<rparr>"

record NotifyConfig =
  nc_tsig_key :: "tsig_key_ref option"

definition NotifyConfig_default :: NotifyConfig where
  "NotifyConfig_default = \<lparr>nc_tsig_key = None\<rparr>"

datatype NotifyStrategy = NotifySourceFirstThenSequentialStoppingAtFirstNewerSerial

record ZoneConfig =
  zc_multi_primary_xfr_strategy :: NotifyStrategy
  zc_discover_notify_set :: bool
  zc_provide_xfr_to :: "XfrConfig SrcDstConfig"
  zc_send_notify_to :: "NotifyConfig SrcDstConfig"
  zc_allow_notify_from :: "NotifyConfig SrcDstConfig"
  zc_request_xfr_from :: "XfrConfig SrcDstConfig"

definition ZoneConfig_new :: ZoneConfig where
  "ZoneConfig_new = \<lparr>
     zc_multi_primary_xfr_strategy = NotifySourceFirstThenSequentialStoppingAtFirstNewerSerial,
     zc_discover_notify_set = False, zc_provide_xfr_to = SrcDstConfig_new,
     zc_send_notify_to = SrcDstConfig_new, zc_allow_notify_from = SrcDstConfig_new,
     zc_request_xfr_from = SrcDstConfig_new\<rparr>"

definition ZoneConfig_new_primary ::
    "XfrConfig SrcDstConfig \<Rightarrow> NotifyConfig SrcDstConfig \<Rightarrow> ZoneConfig" where
  "ZoneConfig_new_primary provide_xfr_to send_notify_to =
     ZoneConfig_new\<lparr>zc_provide_xfr_to := provide_xfr_to, zc_send_notify_to := send_notify_to\<rparr>"

definition ZoneConfig_new_secondary ::
    "NotifyConfig SrcDstConfig \<Rightarrow> XfrConfig SrcDstConfig \<Rightarrow> ZoneConfig" where
  "ZoneConfig_new_secondary allow_notify_from request_xfr_from =
     ZoneConfig_new\<lparr>zc_allow_notify_from := allow_notify_from,
       zc_request_xfr_from := request_xfr_from\<rparr>"

definition is_primary :: "ZoneConfig \<Rightarrow> bool" where
  "is_primary c \<longleftrightarrow> \<not> sdc_is_empty (zc_provide_xfr_to c)"

definition is_secondary :: "ZoneConfig \<Rightarrow> bool" where
  "is_secondary c \<longleftrightarrow> \<not> sdc_is_empty (zc_request_xfr_from c)"

lemma is_secondary_addrs: "is_secondary c \<longleftrightarrow> sdc_addrs (zc_request_xfr_from c) \<noteq> []"
  by (simp add: is_secondary_def sdc_is_empty_addrs)

section \<open>Stored differences\<close>

record ZoneDiffKey =
  dk_start_serial :: serial
  dk_end_serial :: serial

definition ZoneDiffKey_new :: "serial \<Rightarrow> serial \<Rightarrow> ZoneDiffKey" where
  "ZoneDiffKey_new s e = \<lparr>dk_start_serial = s, dk_end_serial = e\<rparr>"

text \<open>The order of the keys compares the start serials only.\<close>

definition ZoneDiffKey_cmp ::
    "(serial \<Rightarrow> serial \<Rightarrow> std_ordering) \<Rightarrow> ZoneDiffKey \<Rightarrow> ZoneDiffKey \<Rightarrow> std_ordering" where
  "ZoneDiffKey_cmp ccmp a b = ccmp (dk_start_serial a) (dk_start_serial b)"

text \<open>\<open>InMemoryZoneDiff\<close>: its two serials and the added and removed records.\<close>

record InMemoryZoneDiff =
  diff_start_serial :: serial
  diff_end_serial :: serial
  diff_body :: token

text \<open>A \<open>BTreeMap\<close> is the list of its entries in the order of the keys. \<open>insert\<close> keeps the
  old key when an equal one is there and replaces the value.\<close>

type_synonym ZoneDiffs = "(ZoneDiffKey \<times> InMemoryZoneDiff) list"

fun btm_insert :: "('k \<Rightarrow> 'k \<Rightarrow> std_ordering) \<Rightarrow> 'k \<Rightarrow> 'v \<Rightarrow> ('k \<times> 'v) list \<Rightarrow> ('k \<times> 'v) list" where
  "btm_insert cmp k v [] = [(k, v)]"
| "btm_insert cmp k v ((k', v') # m) = (case cmp k k' of
      std_ordering.Less \<Rightarrow> (k, v) # (k', v') # m
    | Equal \<Rightarrow> (k', v) # m
    | Greater \<Rightarrow> (k', v') # btm_insert cmp k v m)"

definition diffs_add ::
    "(serial \<Rightarrow> serial \<Rightarrow> std_ordering) \<Rightarrow> InMemoryZoneDiff \<Rightarrow> ZoneDiffs \<Rightarrow> ZoneDiffs" where
  "diffs_add ccmp diff diffs = (let k = ZoneDiffKey_new (diff_start_serial diff) (diff_end_serial diff)
     in btm_insert (ZoneDiffKey_cmp ccmp) k diff diffs)"

text \<open>The loop over the stored differences. The result \<open>None\<close> stands for the early
  \<open>return vec![]\<close>.\<close>

fun diffs_loop :: "(serial \<Rightarrow> serial \<Rightarrow> bool) \<Rightarrow> serial \<Rightarrow> serial \<Rightarrow> ZoneDiffs
    \<Rightarrow> InMemoryZoneDiff list \<Rightarrow> InMemoryZoneDiff list option" where
  "diffs_loop slt end_serial serial [] out = Some out"
| "diffs_loop slt end_serial serial ((key, diff) # diffs) out = (
     if slt (dk_start_serial key) serial then diffs_loop slt end_serial serial diffs out
     else if slt serial (dk_start_serial key) \<or> slt end_serial (dk_start_serial key)
       then None
     else if dk_start_serial key = end_serial then Some out
     else diffs_loop slt end_serial (dk_end_serial key) diffs (out @ [diff]))"

definition diffs_for_range :: "(serial \<Rightarrow> serial \<Rightarrow> bool) \<Rightarrow> ZoneDiffs \<Rightarrow> serial \<Rightarrow> serial
    \<Rightarrow> InMemoryZoneDiff list" where
  "diffs_for_range slt diffs start_serial end_serial =
     (case diffs_loop slt end_serial start_serial diffs [] of
        None \<Rightarrow> [] | Some out \<Rightarrow> out)"

section \<open>Refresh bookkeeping\<close>

datatype ZoneRefreshStatus =
    RefreshPending
  | RefreshInProgress nat
  | RetryPending
  | RetryInProgress
  | NotifyInProgress

fun ZoneRefreshStatus_fmt :: "ZoneRefreshStatus \<Rightarrow> string" where
  "ZoneRefreshStatus_fmt RefreshPending = ''refresh pending''"
| "ZoneRefreshStatus_fmt (RefreshInProgress n) =
     ''refresh in progress ('' @ show_nat n @ '' updates applied)''"
| "ZoneRefreshStatus_fmt RetryPending = ''retrying''"
| "ZoneRefreshStatus_fmt RetryInProgress = ''retry in progress''"
| "ZoneRefreshStatus_fmt NotifyInProgress = ''notify in progress''"

datatype ser_value = SerU64 nat | SerStr string

definition instant_to_duration_secs :: "instant \<Rightarrow> instant \<Rightarrow> nat" where
  "instant_to_duration_secs now i = (case checked_duration_since now i of
      Some d \<Rightarrow> d div nanos_per_sec | None \<Rightarrow> 0)"

definition serialize_instant_as_duration_secs :: "instant \<Rightarrow> instant \<Rightarrow> ser_value" where
  "serialize_instant_as_duration_secs now i = SerU64 (instant_to_duration_secs now i)"

definition serialize_opt_instant_as_duration_secs :: "instant \<Rightarrow> instant option \<Rightarrow> ser_value" where
  "serialize_opt_instant_as_duration_secs now i = (case i of
      Some v \<Rightarrow> serialize_instant_as_duration_secs now v | None \<Rightarrow> SerStr ''null'')"

definition serialize_duration_as_secs :: "duration \<Rightarrow> ser_value" where
  "serialize_duration_as_secs d = SerU64 (d div nanos_per_sec)"

definition serialize_opt_duration_as_secs :: "duration option \<Rightarrow> ser_value" where
  "serialize_opt_duration_as_secs d = (case d of
      Some v \<Rightarrow> serialize_duration_as_secs v | None \<Rightarrow> SerStr ''null'')"

record ZoneRefreshMetrics =
  zone_created_at :: instant
  last_refresh_phase_started_at :: "instant option"
  last_refresh_attempted_at :: "instant option"
  last_soa_serial_check_succeeded_at :: "instant option"
  last_soa_serial_check_serial :: "serial option"
  last_refreshed_at :: "instant option"
  last_refresh_succeeded_serial :: "serial option"

definition ZoneRefreshMetrics_default :: "instant \<Rightarrow> ZoneRefreshMetrics" where
  "ZoneRefreshMetrics_default now = \<lparr>zone_created_at = now,
     last_refresh_phase_started_at = None, last_refresh_attempted_at = None,
     last_soa_serial_check_succeeded_at = None, last_soa_serial_check_serial = None,
     last_refreshed_at = None, last_refresh_succeeded_serial = None\<rparr>"

record ZoneRefreshState =
  zrs_refresh :: ttl
  zrs_retry :: ttl
  zrs_expire :: ttl
  zrs_status :: ZoneRefreshStatus
  zrs_metrics :: ZoneRefreshMetrics

definition ZoneRefreshState_new :: "instant \<Rightarrow> Soa \<Rightarrow> ZoneRefreshState" where
  "ZoneRefreshState_new now soa = \<lparr>zrs_refresh = soa_refresh soa, zrs_retry = soa_retry soa,
     zrs_expire = soa_expire soa, zrs_status = RefreshPending,
     zrs_metrics = ZoneRefreshMetrics_default now\<rparr>"

definition ZoneRefreshState_default :: "instant \<Rightarrow> ZoneRefreshState" where
  "ZoneRefreshState_default now = \<lparr>zrs_refresh = 0, zrs_retry = 5 * 60, zrs_expire = 1 * 3600,
     zrs_status = RefreshPending, zrs_metrics = ZoneRefreshMetrics_default now\<rparr>"

definition set_status :: "ZoneRefreshStatus \<Rightarrow> ZoneRefreshState \<Rightarrow> ZoneRefreshState" where
  "set_status st z = z\<lparr>zrs_status := st\<rparr>"

definition is_expired :: "instant \<Rightarrow> instant \<Rightarrow> ZoneRefreshState \<Rightarrow> bool" where
  "is_expired now time_of_last_soa_check z =
     (case checked_duration_since now time_of_last_soa_check of
        Some d \<Rightarrow> d > ttl_into_duration (zrs_expire z)
      | None \<Rightarrow> False)"

definition refresh_succeeded :: "instant \<Rightarrow> Soa \<Rightarrow> ZoneRefreshState \<Rightarrow> ZoneRefreshState" where
  "refresh_succeeded now new_soa z =
     set_status RefreshPending
       (z\<lparr>zrs_refresh := soa_refresh new_soa, zrs_retry := soa_retry new_soa,
          zrs_expire := soa_expire new_soa,
          zrs_metrics := (zrs_metrics z)\<lparr>last_refreshed_at := Some now,
            last_refresh_succeeded_serial := Some (soa_serial new_soa)\<rparr>\<rparr>)"

definition soa_serial_check_succeeded ::
    "instant \<Rightarrow> serial option \<Rightarrow> ZoneRefreshState \<Rightarrow> ZoneRefreshState" where
  "soa_serial_check_succeeded now serial z =
     (let z' = (case serial of
          Some s \<Rightarrow> z\<lparr>zrs_metrics := (zrs_metrics z)\<lparr>last_soa_serial_check_serial := Some s\<rparr>\<rparr>
        | None \<Rightarrow> z)
      in z'\<lparr>zrs_metrics := (zrs_metrics z')\<lparr>last_soa_serial_check_succeeded_at := Some now\<rparr>\<rparr>)"

definition zrs_age :: "instant \<Rightarrow> ZoneRefreshState \<Rightarrow> duration option" where
  "zrs_age now z = Option.bind (last_refreshed_at (zrs_metrics z)) (checked_duration_since now)"

section \<open>Timers\<close>

datatype ZoneRefreshCause =
    ManualTrigger
  | NotifyFromPrimary ip_addr
  | SoaRefreshTimer
  | SoaRefreshTimerAfterStartup
  | SoaRefreshTimerAfterZoneAdded
  | SoaRetryTimer

fun ZoneRefreshCause_fmt :: "(ip_addr \<Rightarrow> string) \<Rightarrow> ZoneRefreshCause \<Rightarrow> string" where
  "ZoneRefreshCause_fmt show_ip ManualTrigger = ''manual trigger''"
| "ZoneRefreshCause_fmt show_ip (NotifyFromPrimary p) = ''NOTIFY from '' @ show_ip p"
| "ZoneRefreshCause_fmt show_ip SoaRefreshTimer = ''SOA REFRESH periodic timer expired''"
| "ZoneRefreshCause_fmt show_ip SoaRefreshTimerAfterStartup =
     ''SOA REFRESH timer (scheduled at startup) expired''"
| "ZoneRefreshCause_fmt show_ip SoaRefreshTimerAfterZoneAdded =
     ''SOA REFRESH timer (scheduled at zone addition) expired''"
| "ZoneRefreshCause_fmt show_ip SoaRetryTimer = ''SOA RETRY timer expired''"

record ZoneRefreshInstant =
  zri_cause :: ZoneRefreshCause
  zri_zone_id :: ZoneId
  zri_end_instant :: instant

text \<open>The sum of an instant and the 32-bit number of seconds of a \<open>Ttl\<close> does not overflow an
  \<open>Instant\<close>, so the \<open>unwrap\<close> of the code is not a branch here.\<close>

definition ZoneRefreshInstant_new ::
    "instant \<Rightarrow> ZoneId \<Rightarrow> ttl \<Rightarrow> ZoneRefreshCause \<Rightarrow> ZoneRefreshInstant" where
  "ZoneRefreshInstant_new now zone_id refresh cause = \<lparr>zri_cause = cause, zri_zone_id = zone_id,
     zri_end_instant = now + ttl_into_duration refresh\<rparr>"

text \<open>A timer is the instant it was made for and the deadline of its sleep.\<close>

record ZoneRefreshTimer =
  zrt_instant :: ZoneRefreshInstant
  zrt_deadline :: instant

definition ZoneRefreshTimer_new :: "ZoneRefreshInstant \<Rightarrow> ZoneRefreshTimer" where
  "ZoneRefreshTimer_new i = \<lparr>zrt_instant = i, zrt_deadline = zri_end_instant i\<rparr>"

definition ZoneRefreshTimer_replace ::
    "ZoneRefreshTimer \<Rightarrow> ZoneRefreshTimer \<Rightarrow> ZoneRefreshTimer" where
  "ZoneRefreshTimer_replace t new_timer =
     t\<lparr>zrt_instant := zrt_instant new_timer,
       zrt_deadline := zri_end_instant (zrt_instant new_timer)\<rparr>"

text \<open>\<open>poll\<close>: ready with the instant once the deadline has passed.\<close>

definition ZoneRefreshTimer_poll :: "instant \<Rightarrow> ZoneRefreshTimer \<Rightarrow> ZoneRefreshInstant option" where
  "ZoneRefreshTimer_poll now t = (if zrt_deadline t \<le> now then Some (zrt_instant t) else None)"

definition zrt_zone_id :: "ZoneRefreshTimer \<Rightarrow> ZoneId" where
  "zrt_zone_id t = zri_zone_id (zrt_instant t)"

section \<open>Name servers\<close>

record NameServerNameAddr =
  ns_name :: dname
  ns_addrs :: "socket_addr hset"

definition NameServerNameAddr_new :: "dname \<Rightarrow> socket_addr hset \<Rightarrow> NameServerNameAddr" where
  "NameServerNameAddr_new n addrs = \<lparr>ns_name = n, ns_addrs = remdups addrs\<rparr>"

record ZoneNameServers =
  zns_primary :: NameServerNameAddr
  zns_other :: "NameServerNameAddr list"

definition to_socket_addrs :: "ip_addr list \<Rightarrow> socket_addr hset" where
  "to_socket_addrs ips = remdups (map (\<lambda>ip. SocketAddr_new ip IANA_DNS_PORT_NUMBER) ips)"

definition ZoneNameServers_new :: "dname \<Rightarrow> ip_addr list \<Rightarrow> ZoneNameServers" where
  "ZoneNameServers_new primary_name ips =
     \<lparr>zns_primary = NameServerNameAddr_new primary_name (to_socket_addrs ips), zns_other = []\<rparr>"

definition add_ns :: "dname \<Rightarrow> ip_addr list \<Rightarrow> ZoneNameServers \<Rightarrow> ZoneNameServers" where
  "add_ns n ips z =
     z\<lparr>zns_other := zns_other z @ [NameServerNameAddr_new n (to_socket_addrs ips)]\<rparr>"

definition zns_addrs :: "ZoneNameServers \<Rightarrow> socket_addr list" where
  "zns_addrs z = ns_addrs (zns_primary z) @ concat (map ns_addrs (zns_other z))"

definition notify_set :: "ZoneNameServers \<Rightarrow> socket_addr list" where
  "notify_set z = concat (map (\<lambda>ns. filter (\<lambda>a. a \<notin> set (ns_addrs (zns_primary z))) (ns_addrs ns))
     (zns_other z))"

lemma set_to_socket_addrs [simp]:
  "set (to_socket_addrs ips) = (\<lambda>ip. SocketAddr_new ip IANA_DNS_PORT_NUMBER) ` set ips"
  by (simp add: to_socket_addrs_def)

lemma set_notify_set:
  "set (notify_set z) = set (zns_addrs z) - set (ns_addrs (zns_primary z))"
  by (auto simp: notify_set_def zns_addrs_def)

section \<open>Zone information and reports\<close>

record ZoneInfo =
  zi_catalog_member_id :: "dname option"
  zi_config :: ZoneConfig
  zi_diffs :: ZoneDiffs
  zi_nameservers :: "ZoneNameServers option"
  zi_expired :: bool

definition add_diff ::
    "(serial \<Rightarrow> serial \<Rightarrow> std_ordering) \<Rightarrow> InMemoryZoneDiff \<Rightarrow> ZoneInfo \<Rightarrow> ZoneInfo" where
  "add_diff ccmp diff i = i\<lparr>zi_diffs := diffs_add ccmp diff (zi_diffs i)\<rparr>"

definition set_expired :: "bool \<Rightarrow> ZoneInfo \<Rightarrow> ZoneInfo" where
  "set_expired e i = i\<lparr>zi_expired := e\<rparr>"

record ZoneChangedMsg =
  zcm_class :: dclass
  zcm_apex_name :: dname
  zcm_source :: "ip_addr option"

datatype ZoneReportDetails =
    Primary
  | PendingSecondary ZoneRefreshState
  | Secondary ZoneRefreshState

record ZoneReport =
  zr_zone_id :: ZoneId
  zr_details :: ZoneReportDetails
  zr_timers :: "ZoneRefreshInstant list"
  zr_zone_info :: ZoneInfo

text \<open>\<open>format!("{}s ago", ..)\<close> and its two alternatives, as the report prints an instant.\<close>

definition fmt_ago :: "instant \<Rightarrow> instant \<Rightarrow> string" where
  "fmt_ago now i = (case checked_duration_since now i of
      Some d \<Rightarrow> show_nat (d div nanos_per_sec) @ ''s ago''
    | None \<Rightarrow> ''unknown'')"

definition fmt_opt_ago :: "instant \<Rightarrow> instant option \<Rightarrow> string" where
  "fmt_opt_ago now i = (case i of Some at \<Rightarrow> fmt_ago now at | None \<Rightarrow> ''never'')"

text \<open>The two lines on SOA checks. Both read the instant of the last successful check; the
  serial is unwrapped.\<close>

definition fmt_soa_check ::
    "(serial \<Rightarrow> string) \<Rightarrow> instant \<Rightarrow> ZoneRefreshMetrics \<Rightarrow> (unit, string) outcome" where
  "fmt_soa_check show_serial now m = (case last_soa_serial_check_succeeded_at m of
      Some at \<Rightarrow> (case checked_duration_since now at of
          Some d \<Rightarrow> (case last_soa_serial_check_serial m of
              Some s \<Rightarrow> Ok (show_nat (d div nanos_per_sec) @ ''s ago (serial: '' @ show_serial s @ '')'')
            | None \<Rightarrow> Panic)
        | None \<Rightarrow> Ok ''unknown'')
    | None \<Rightarrow> Ok ''never'')"

definition fmt_secondary ::
    "(serial \<Rightarrow> string) \<Rightarrow> instant \<Rightarrow> ZoneRefreshState \<Rightarrow> (unit, string) outcome" where
  "fmt_secondary show_serial now s =
    (let m = zrs_metrics s;
         head = ''        type: secondary'' @ nl
           @ ''        created at: '' @ fmt_ago now (zone_created_at m) @ nl
           @ ''        state: '' @ ZoneRefreshStatus_fmt (zrs_status s) @ nl;
         tail = ''        last refresh phase started at: ''
             @ fmt_opt_ago now (last_refresh_phase_started_at m) @ nl
           @ ''        last refresh attempted at: ''
             @ fmt_opt_ago now (last_refresh_attempted_at m) @ nl;
         checks = (case fmt_soa_check show_serial now m of
             Ok a \<Rightarrow> Ok (''        last successful soa check at: '' @ a @ nl
               @ ''        last soa check attempted at: '' @ a @ nl)
           | Err e \<Rightarrow> Err e | Panic \<Rightarrow> Panic);
         refreshed = (case last_refreshed_at m of
             None \<Rightarrow> Ok []
           | Some r \<Rightarrow> (case last_refresh_succeeded_serial m of
               Some serial \<Rightarrow> Ok (''        serial: '' @ show_serial serial @ '' ('' @ fmt_ago now r @ '')'' @ nl)
             | None \<Rightarrow> Panic))
     in case refreshed of
          Ok r \<Rightarrow> (case checks of Ok c \<Rightarrow> Ok (head @ r @ tail @ c) | Err e \<Rightarrow> Err e | Panic \<Rightarrow> Panic)
        | Err e \<Rightarrow> Err e
        | Panic \<Rightarrow> Panic)"

fun ZoneReportDetails_fmt ::
    "(serial \<Rightarrow> string) \<Rightarrow> instant \<Rightarrow> ZoneReportDetails \<Rightarrow> (unit, string) outcome" where
  "ZoneReportDetails_fmt show_serial now Primary =
     Ok (''        type: primary'' @ nl @ ''        state: ok'' @ nl)"
| "ZoneReportDetails_fmt show_serial now (PendingSecondary s) = fmt_secondary show_serial now s"
| "ZoneReportDetails_fmt show_serial now (Secondary s) = fmt_secondary show_serial now s"

definition fmt_nameserver :: "(socket_addr \<Rightarrow> string) \<Rightarrow> string \<Rightarrow> NameServerNameAddr \<Rightarrow> string" where
  "fmt_nameserver show_addr suffix ns = ''           '' @ ns_name ns @ '':'' @ suffix
     @ (if ns_addrs ns = [] then '' unresolved''
        else concat (map (\<lambda>ip. '' '' @ show_addr ip) (ns_addrs ns))) @ nl"

definition fmt_timer :: "(ip_addr \<Rightarrow> string) \<Rightarrow> instant \<Rightarrow> ZoneRefreshInstant \<Rightarrow> string" where
  "fmt_timer show_ip now t = (case checked_duration_since (zri_end_instant t) now of
        Some d \<Rightarrow> ''            wait '' @ show_nat (d div nanos_per_sec) @ ''s''
      | None \<Rightarrow> ''            wait ?s'')
     @ '' until '' @ ZoneRefreshCause_fmt show_ip (zri_cause t) @ nl"

text \<open>The name servers are printed when their lock is free (\<open>try_lock\<close>).\<close>

definition ZoneReport_fmt :: "(serial \<Rightarrow> string) \<Rightarrow> (socket_addr \<Rightarrow> string) \<Rightarrow> (ip_addr \<Rightarrow> string)
    \<Rightarrow> bool \<Rightarrow> instant \<Rightarrow> ZoneReport \<Rightarrow> (unit, string) outcome" where
  "ZoneReport_fmt show_serial show_addr show_ip lock_free now r =
    (case ZoneReportDetails_fmt show_serial now (zr_details r) of
       Ok details \<Rightarrow> Ok (''zone:   '' @ zid_name (zr_zone_id r) @ nl @ details
         @ (if lock_free then (case zi_nameservers (zr_zone_info r) of
              Some ns \<Rightarrow> ''        nameservers:'' @ nl
                @ fmt_nameserver show_addr '' [PRIMARY]'' (zns_primary ns)
                @ concat (map (fmt_nameserver show_addr []) (zns_other ns))
            | None \<Rightarrow> []) else [])
         @ (if zr_timers r = [] then []
            else ''        timers:'' @ nl @ concat (map (fmt_timer show_ip now) (zr_timers r))))
     | Err e \<Rightarrow> Err e
     | Panic \<Rightarrow> Panic)"

datatype Event =
    ZoneRefreshRequested ZoneRefreshCause ZoneId "ttl option"
  | ZoneStatusRequested ZoneId token
  | ZoneChanged ZoneChangedMsg
  | ZoneAdded ZoneId

end
