(* ===== verification/Zm_Diffs.thy ===== *)
theory Zm_Diffs
  imports Zm_Types
begin

text \<open>
  The store of differences of a maintained zone (\<open>ZoneInfo::add_diff\<close> and
  \<open>ZoneInfo::diffs_for_range\<close>, from \<open>zonemaintenance/types.rs\<close>): what the loop over
  the ordered map returns, when that is the chain of differences a client needs, and when not.
\<close>

section \<open>Chains of differences\<close>

fun diff_chain :: "serial \<Rightarrow> InMemoryZoneDiff list \<Rightarrow> serial \<Rightarrow> bool" where
  "diff_chain s [] e \<longleftrightarrow> s = e"
| "diff_chain s (d # ds) e \<longleftrightarrow> diff_start_serial d = s \<and> diff_chain (diff_end_serial d) ds e"

definition rising :: "InMemoryZoneDiff list \<Rightarrow> bool" where
  "rising ds \<longleftrightarrow> (\<forall>d \<in> set ds. diff_start_serial d < diff_end_serial d)"

text \<open>Serials that are less than half the circle apart and do not wrap around.\<close>

definition serial_window :: "serial set \<Rightarrow> bool" where
  "serial_window S \<longleftrightarrow> (\<forall>s \<in> S. \<forall>t \<in> S. s < t \<longrightarrow> t - s < 2 ^ 31)"

definition diff_serials :: "InMemoryZoneDiff list \<Rightarrow> serial set" where
  "diff_serials ds = set (map diff_start_serial ds) \<union> set (map diff_end_serial ds)"

definition diffs_of ::
    "(serial \<Rightarrow> serial \<Rightarrow> std_ordering) \<Rightarrow> InMemoryZoneDiff list \<Rightarrow> ZoneDiffs" where
  "diffs_of ccmp ds = fold (diffs_add ccmp) ds []"

lemma window_slt:
  assumes "serial_order slt" "serial_window S" "s \<in> S" "t \<in> S"
  shows "slt s t \<longleftrightarrow> s < t"
proof -
  have *: "u < v \<Longrightarrow> u \<in> S \<Longrightarrow> v \<in> S \<Longrightarrow> rfc1982_less u v" for u v
    using assms(2) by (auto simp: serial_window_def rfc1982_less_def)
  show ?thesis
  proof (cases s t rule: linorder_cases)
    case less
    then show ?thesis using assms(3,4) *[of s t] by (simp add: serial_orderD [OF assms(1)])
  next
    case equal
    then show ?thesis by (simp add: serial_orderD [OF assms(1)])
  next
    case greater
    then have "\<not> rfc1982_less s t" using assms(3,4) * [of t s] rfc1982_asym by blast
    then show ?thesis using greater by (simp add: serial_orderD [OF assms(1)])
  qed
qed

lemma chain_rising:
  "diff_chain s c e \<Longrightarrow> rising c \<Longrightarrow>
   s \<le> e \<and> (\<forall>d \<in> set c. s \<le> diff_start_serial d \<and> diff_start_serial d < e) \<and> (c \<noteq> [] \<longrightarrow> s < e)"
proof (induction s c e rule: diff_chain.induct)
  case (1 s e)
  then show ?case by simp
next
  case (2 s d ds e)
  then have "diff_end_serial d \<le> e \<and> (\<forall>d' \<in> set ds. diff_end_serial d \<le> diff_start_serial d'
      \<and> diff_start_serial d' < e) \<and> (ds \<noteq> [] \<longrightarrow> diff_end_serial d < e)"
    by (simp add: rising_def)
  moreover have "s < diff_end_serial d" "diff_start_serial d = s"
    using 2 by (auto simp: rising_def)
  ultimately show ?case by (fastforce intro: less_imp_le order.trans)
qed

section \<open>The ordered map\<close>

definition starts :: "ZoneDiffs \<Rightarrow> serial list" where
  "starts D = map (\<lambda>(k, d). dk_start_serial k) D"

definition keyed :: "ZoneDiffs \<Rightarrow> bool" where
  "keyed D \<longleftrightarrow> (\<forall>(k, d) \<in> set D.
     k = ZoneDiffKey_new (diff_start_serial d) (diff_end_serial d))"

definition diffs_wf :: "ZoneDiffs \<Rightarrow> bool" where
  "diffs_wf D \<longleftrightarrow> sorted_wrt (<) (starts D)"

lemma starts_simps [simp]:
  "starts [] = []" "starts ((k, d) # D) = dk_start_serial k # starts D"
  by (simp_all add: starts_def)

definition zd_insert :: "ZoneDiffKey \<Rightarrow> InMemoryZoneDiff \<Rightarrow> ZoneDiffs \<Rightarrow> ZoneDiffs" where
  "zd_insert = btm_insert (ZoneDiffKey_cmp serial_ccmp)"

lemma zd_insert_simps [simp]:
  "zd_insert k v [] = [(k, v)]"
  "zd_insert k v ((k', v') # D) = (if dk_start_serial k < dk_start_serial k' then (k, v) # (k', v') # D
     else if dk_start_serial k = dk_start_serial k' then (k', v) # D
     else (k', v') # zd_insert k v D)"
  by (simp_all add: zd_insert_def ZoneDiffKey_cmp_def serial_ccmp_def)

lemma starts_zd_insert:
  "set (starts (zd_insert k d D)) =
     insert (dk_start_serial k) (set (starts D))"
  by (induction D) (auto split: if_splits)

lemma wf_zd_insert:
  "diffs_wf D \<Longrightarrow> diffs_wf (zd_insert k d D)"
proof (induction D)
  case Nil
  then show ?case by (simp add: diffs_wf_def)
next
  case (Cons x D)
  obtain k' d' where x: "x = (k', d')" by (cases x)
  have D: "diffs_wf D" and le: "\<forall>t \<in> set (starts D). dk_start_serial k' < t"
    using Cons.prems by (auto simp: x diffs_wf_def)
  show ?case
    using Cons.IH [OF D] le Cons.prems
    by (auto simp: x diffs_wf_def starts_zd_insert split: if_splits)
qed

lemma set_zd_insert:
  "dk_start_serial k \<notin> set (starts D) \<Longrightarrow>
   set (zd_insert k d D) = insert (k, d) (set D)"
  by (induction D) (auto split: if_splits)

lemma diffs_add_zd:
  "diffs_add serial_ccmp d D =
     zd_insert (ZoneDiffKey_new (diff_start_serial d) (diff_end_serial d)) d D"
  by (simp add: diffs_add_def zd_insert_def)

lemma wf_diffs_add: "diffs_wf D \<Longrightarrow> diffs_wf (diffs_add serial_ccmp d D)"
  by (simp add: diffs_add_zd wf_zd_insert)

lemma starts_diffs_add:
  "set (starts (diffs_add serial_ccmp d D)) = insert (diff_start_serial d) (set (starts D))"
  by (simp add: diffs_add_zd starts_zd_insert ZoneDiffKey_new_def)

lemma set_diffs_add:
  "diff_start_serial d \<notin> set (starts D) \<Longrightarrow>
   set (diffs_add serial_ccmp d D) =
     insert (ZoneDiffKey_new (diff_start_serial d) (diff_end_serial d), d) (set D)"
  by (simp add: diffs_add_zd set_zd_insert ZoneDiffKey_new_def)

lemma diffs_fold:
  assumes "diffs_wf D" "keyed D" "distinct (map diff_start_serial ds)"
    "set (map diff_start_serial ds) \<inter> set (starts D) = {}"
  shows "diffs_wf (fold (diffs_add serial_ccmp) ds D) \<and> keyed (fold (diffs_add serial_ccmp) ds D)
    \<and> snd ` set (fold (diffs_add serial_ccmp) ds D) = set ds \<union> snd ` set D"
  using assms
proof (induction ds arbitrary: D)
  case Nil
  then show ?case by simp
next
  case (Cons d ds)
  have n: "diff_start_serial d \<notin> set (starts D)" using Cons.prems by auto
  have "keyed (diffs_add serial_ccmp d D)"
    using Cons.prems(2) by (auto simp: keyed_def set_diffs_add [OF n])
  then show ?case
    using Cons.IH [of "diffs_add serial_ccmp d D"] Cons.prems
    by (auto simp: wf_diffs_add starts_diffs_add set_diffs_add [OF n])
qed

lemma diffs_of_facts:
  assumes "canonical_order ccmp" "distinct (map diff_start_serial ds)"
  shows "diffs_wf (diffs_of ccmp ds)" "keyed (diffs_of ccmp ds)"
    "snd ` set (diffs_of ccmp ds) = set ds"
  using diffs_fold [of "[]" ds] assms(2)
  by (auto simp: diffs_of_def canonical_orderD [OF assms(1)] diffs_wf_def keyed_def)

section \<open>The loop\<close>

lemma diffs_loop_chain:
  assumes "serial_order slt" "serial_window S"
  shows "diffs_wf D \<Longrightarrow> keyed D \<Longrightarrow> diff_chain s c x \<Longrightarrow> rising c \<Longrightarrow> set c \<subseteq> snd ` set D \<Longrightarrow>
    set (starts D) \<subseteq> S \<Longrightarrow> insert s (insert x (insert e S)) \<subseteq> S \<Longrightarrow> diff_serials c \<subseteq> S \<Longrightarrow>
    x \<le> e \<Longrightarrow> (\<forall>t \<in> set (starts D). t < x \<or> (t = x \<and> x = e)) \<Longrightarrow>
    diffs_loop slt e s D out = Some (out @ c)"
proof (induction D arbitrary: s c out)
  case Nil
  then show ?case by (cases c) auto
next
  case (Cons p D)
  obtain k d where p: "p = (k, d)" by (cases p)
  note IH = Cons.IH and chain = Cons.prems(3) and ris = Cons.prems(4) and sub = Cons.prems(5)
    and st = Cons.prems(6) and ser = Cons.prems(8) and xe = Cons.prems(9) and last = Cons.prems(10)
  let ?a = "dk_start_serial k"
  note sl = window_slt [OF assms]
  have k: "?a = diff_start_serial d" "dk_end_serial k = diff_end_serial d"
    using Cons.prems(2) by (auto simp: p keyed_def ZoneDiffKey_new_def)
  have rest: "diffs_wf D" "keyed D" and gt: "\<forall>t \<in> set (starts D). ?a < t"
    using Cons.prems(1,2) by (auto simp: p diffs_wf_def keyed_def)
  have mem: "diff_start_serial d' \<in> set (starts D)" if "d' \<in> snd ` set D" for d'
    using that rest(2) by (force simp: starts_def keyed_def ZoneDiffKey_new_def)
  note ch = chain_rising [OF Cons.prems(3,4)]
  have inS: "?a \<in> S" "s \<in> S" "e \<in> S" "x \<in> S"
    using Cons.prems(6,7) by (auto simp: p)
  consider (lt) "?a < s" | (eq) "?a = s" | (gt') "s < ?a" by (rule linorder_cases)
  then show ?case
  proof cases
    case lt
    have "set c \<subseteq> snd ` set D"
    proof
      fix d' assume d': "d' \<in> set c"
      then have "s \<le> diff_start_serial d'" using ch by blast
      then have "d' \<noteq> d" using lt k by auto
      then show "d' \<in> snd ` set D" using d' Cons.prems(5) by (auto simp: p)
    qed
    then have "diffs_loop slt e s D out = Some (out @ c)"
      using Cons.prems rest by (intro Cons.IH) (auto simp: p)
    then show ?thesis using lt inS by (simp add: p sl)
  next
    case eq
    have ns: "\<not> slt ?a s" "\<not> slt s ?a" using eq inS by (simp_all add: sl)
    have "?a \<le> x" using Cons.prems(10) by (auto simp: p)
    then have ne: "\<not> slt e ?a" using inS Cons.prems(9) by (auto simp: sl not_less)
    show ?thesis
    proof (cases c)
      case Nil
      then have "s = x" using Cons.prems(3) by simp
      then have "x = e" using Cons.prems(10) eq by (auto simp: p)
      then show ?thesis using ns ne eq Nil \<open>s = x\<close> by (simp add: p)
    next
      case (Cons d' c')
      have ds: "diff_start_serial d' = s" and c': "diff_chain (diff_end_serial d') c' x"
        using chain Cons by simp_all
      have d: "d' = d"
      proof (rule ccontr)
        assume "d' \<noteq> d"
        then have "d' \<in> snd ` set D" using sub Cons by (auto simp: p)
        then have "?a < s" using mem gt ds by metis
        then show False using eq by simp
      qed
      have sx: "s < x" using ch Cons by simp
      then have se: "s \<noteq> e" using xe by (auto simp: not_le)
      have r: "rising c'" "s < diff_end_serial d"
        using ris Cons d ds by (auto simp: rising_def)
      have sub': "set c' \<subseteq> snd ` set D"
      proof
        fix d'' assume d'': "d'' \<in> set c'"
        then have "diff_end_serial d \<le> diff_start_serial d''" using chain_rising [OF c' r(1)] d by blast
        then have "d'' \<noteq> d" using r(2) k eq by auto
        then show "d'' \<in> snd ` set D" using d'' sub Cons by (auto simp: p)
      qed
      have "diffs_loop slt e (diff_end_serial d) D (out @ [d]) = Some ((out @ [d]) @ c')"
      proof (rule IH)
        show "diff_chain (diff_end_serial d) c' x" using c' d by simp
        show "insert (diff_end_serial d) (insert x (insert e S)) \<subseteq> S"
          using ser Cons d inS by (auto simp: diff_serials_def)
        show "diff_serials c' \<subseteq> S" using ser Cons by (auto simp: diff_serials_def)
        show "\<forall>t \<in> set (starts D). t < x \<or> t = x \<and> x = e" using last by (auto simp: p)
      qed (use r sub' rest xe st in \<open>auto simp: p\<close>)
      then show ?thesis using ns ne se Cons d eq by (simp add: p k)
    qed
  next
    case gt'
    have "c \<noteq> []"
      using gt' chain last ch by (auto simp: p)
    then obtain d' c' where c: "c = d' # c'" by (cases c) auto
    then have d': "diff_start_serial d' = s" "d' \<in> snd ` set (p # D)"
      using chain sub by auto
    then have "d' \<noteq> d" using gt' k by auto
    then have "?a < s" using d' mem [of d'] gt by (auto simp: p)
    then show ?thesis using gt' by simp
  qed
qed

lemma diffs_loop_head:
  "D \<noteq> [] \<Longrightarrow> slt s (hd (starts D)) \<Longrightarrow> \<not> slt (hd (starts D)) s \<Longrightarrow> diffs_loop slt e s D out = None"
  by (cases D) auto

lemma hd_starts_least:
  "diffs_wf D \<Longrightarrow> t \<in> set (starts D) \<Longrightarrow> hd (starts D) \<le> t"
  by (cases "starts D") (auto simp: diffs_wf_def)

lemma starts_diffs_of:
  assumes "canonical_order ccmp" "distinct (map diff_start_serial ds)"
  shows "set (starts (diffs_of ccmp ds)) = set (map diff_start_serial ds)"
proof -
  note f = diffs_of_facts [OF assms]
  have "set (starts (diffs_of ccmp ds)) = diff_start_serial ` (snd ` set (diffs_of ccmp ds))"
    using f(2) by (force simp: starts_def keyed_def ZoneDiffKey_new_def image_iff)
  then show ?thesis by (simp add: f(3))
qed

text \<open>A chain from the requested serial to \<open>x\<close> is found when \<open>x\<close> is the end of what is stored.\<close>

lemma diffs_of_range:
  assumes "canonical_order ccmp" "serial_order slt"
    and "distinct (map diff_start_serial ds)"
    and "diff_chain s c x" "rising c" "set c \<subseteq> set ds" "x \<le> e"
    and "serial_window (insert s (insert x (insert e (diff_serials ds))))"
    and "\<forall>d \<in> set ds. diff_start_serial d < x \<or> diff_start_serial d = x \<and> x = e"
  shows "diffs_for_range slt (diffs_of ccmp ds) s e = c"
proof -
  let ?S = "insert s (insert x (insert e (diff_serials ds)))"
  note f = diffs_of_facts [OF assms(1,3)]
  have "diffs_loop slt e s (diffs_of ccmp ds) [] = Some ([] @ c)"
  proof (rule diffs_loop_chain [OF assms(2,8) f(1,2) assms(4,5)])
    show "set c \<subseteq> snd ` set (diffs_of ccmp ds)" using assms(6) f(3) by simp
    show "set (starts (diffs_of ccmp ds)) \<subseteq> ?S"
      by (auto simp: starts_diffs_of [OF assms(1,3)] diff_serials_def)
    show "diff_serials c \<subseteq> ?S" using assms(6) by (auto simp: diff_serials_def)
    show "\<forall>t \<in> set (starts (diffs_of ccmp ds)). t < x \<or> t = x \<and> x = e"
      using assms(9) by (auto simp: starts_diffs_of [OF assms(1,3)])
  qed (use assms(7) in auto)
  then show ?thesis by (simp add: diffs_for_range_def)
qed

section \<open>Properties\<close>

text \<open>A client that asks for the differences from its serial up to the serial of the zone gets
  exactly the chain of differences between the two, when the chain is stored, whatever else is
  stored and in whatever order the differences came, as long as the serials do not wrap around.\<close>

theorem diffs_for_range_chain:
  assumes "canonical_order ccmp" "serial_order slt"
    and "distinct (map diff_start_serial ds)"
    and "diff_chain s c e" "rising c" "set c \<subseteq> set ds"
    and "serial_window (insert s (insert e (diff_serials ds)))"
    and "\<forall>d \<in> set ds. diff_start_serial d \<le> e"
  shows "diffs_for_range slt (diffs_of ccmp ds) s e = c"
  by (rule diffs_of_range [OF assms(1-6) order.refl]) (use assms(7,8) in auto)

theorem diffs_for_range_chain_witness:
  "diffs_for_range rfc1982_less (diffs_of serial_ccmp
      [\<lparr>diff_start_serial = 5, diff_end_serial = 8, diff_body = 2\<rparr>,
       \<lparr>diff_start_serial = 3, diff_end_serial = 5, diff_body = 1\<rparr>,
       \<lparr>diff_start_serial = 1, diff_end_serial = 3, diff_body = 0\<rparr>]) 3 8
    = [\<lparr>diff_start_serial = 3, diff_end_serial = 5, diff_body = 1\<rparr>,
       \<lparr>diff_start_serial = 5, diff_end_serial = 8, diff_body = 2\<rparr>]"
  by (rule diffs_for_range_chain)
     (auto simp: rising_def serial_window_def diff_serials_def word_less_nat_alt)

text \<open>When the stored differences stop short of the serial of the zone, the code does not
  abort, as its comment says for differences it lacks: the client gets the chain up to the last
  stored serial.\<close>

theorem diffs_for_range_gap:
  assumes "canonical_order ccmp" "serial_order slt"
    and "distinct (map diff_start_serial ds)"
    and "diff_chain s c x" "rising c" "set c \<subseteq> set ds" "x < e"
    and "serial_window (insert s (insert x (insert e (diff_serials ds))))"
    and "\<forall>d \<in> set ds. diff_start_serial d < x"
  shows "diffs_for_range slt (diffs_of ccmp ds) s e = c"
  by (rule diffs_of_range [OF assms(1-6)]) (use assms(7-9) in auto)

theorem diffs_for_range_gap_witness:
  "diffs_for_range rfc1982_less (diffs_of serial_ccmp
      [\<lparr>diff_start_serial = 1, diff_end_serial = 3, diff_body = 0\<rparr>]) 1 8
    = [\<lparr>diff_start_serial = 1, diff_end_serial = 3, diff_body = 0\<rparr>]"
  by (rule diffs_for_range_gap [where x = 3])
     (auto simp: rising_def serial_window_def diff_serials_def word_less_nat_alt)

text \<open>The map orders the differences by their unsigned start serials while the loop compares
  them by serial arithmetic, so once the serial of a zone has wrapped around, a client that is
  still behind the wrap gets no differences, although the whole chain is stored.\<close>

theorem diffs_for_range_wrap:
  assumes "canonical_order ccmp" "serial_order slt"
    and "distinct (map diff_start_serial ds)"
    and "d \<in> set ds" "\<forall>d' \<in> set ds. diff_start_serial d \<le> diff_start_serial d'"
    and "rfc1982_less s (diff_start_serial d)"
  shows "diffs_for_range slt (diffs_of ccmp ds) s e = []"
proof -
  let ?D = "diffs_of ccmp ds"
  note st = starts_diffs_of [OF assms(1,3)] and wf = diffs_of_facts(1) [OF assms(1,3)]
  have ne: "starts ?D \<noteq> []" using st assms(4) by (metis empty_iff empty_set image_eqI set_map)
  then have "hd (starts ?D) \<in> set (map diff_start_serial ds)" using st hd_in_set by metis
  moreover have "hd (starts ?D) \<le> diff_start_serial d"
    using st assms(4) by (intro hd_starts_least [OF wf]) simp
  ultimately have "hd (starts ?D) = diff_start_serial d"
    using assms(5) by (auto intro: order.antisym)
  then have "slt s (hd (starts ?D))" "\<not> slt (hd (starts ?D)) s"
    using assms(6) rfc1982_asym by (auto simp: serial_orderD [OF assms(2)])
  then show ?thesis
    using ne by (subst diffs_for_range_def, subst diffs_loop_head) auto
qed

theorem diffs_for_range_wrap_witness:
  "diff_chain (- 1) [\<lparr>diff_start_serial = - 1, diff_end_serial = 1, diff_body = 0\<rparr>,
      \<lparr>diff_start_serial = 1, diff_end_serial = 3, diff_body = 1\<rparr>] 3 \<and>
   diffs_for_range rfc1982_less (diffs_of serial_ccmp
      [\<lparr>diff_start_serial = - 1, diff_end_serial = 1, diff_body = 0\<rparr>,
       \<lparr>diff_start_serial = 1, diff_end_serial = 3, diff_body = 1\<rparr>]) (- 1) 3 = []"
proof
  show "diffs_for_range rfc1982_less (diffs_of serial_ccmp
      [\<lparr>diff_start_serial = - 1, diff_end_serial = 1, diff_body = 0\<rparr>,
       \<lparr>diff_start_serial = 1, diff_end_serial = 3, diff_body = 1\<rparr>]) (- 1) 3 = []"
    by (rule diffs_for_range_wrap
          [where d = "\<lparr>diff_start_serial = 1, diff_end_serial = 3, diff_body = 1\<rparr>"])
       (auto simp: rfc1982_less_def)
qed simp

text \<open>The report of a zone panics exactly when it shows a refresh without its serial, or a
  successful SOA check (not in the future) without its serial. The latter is what the first check
  of a zone gives that finds nothing newer, when the zone was loaded with its data.\<close>

theorem report_panics:
  "(ZoneReportDetails_fmt show_serial now details = Panic \<longleftrightarrow>
     (\<exists>st. (details = PendingSecondary st \<or> details = Secondary st) \<and>
        (last_refreshed_at (zrs_metrics st) \<noteq> None
           \<and> last_refresh_succeeded_serial (zrs_metrics st) = None
         \<or> (\<exists>at. last_soa_serial_check_succeeded_at (zrs_metrics st) = Some at \<and> at \<le> now
           \<and> last_soa_serial_check_serial (zrs_metrics st) = None)))) \<and>
   (checked \<le> now \<longrightarrow> ZoneReportDetails_fmt show_serial now
      (Secondary (soa_serial_check_succeeded checked None (ZoneRefreshState_new created soa))) = Panic)"
proof -
  have s: "fmt_secondary show_serial now st = Panic \<longleftrightarrow>
        (last_refreshed_at (zrs_metrics st) \<noteq> None
           \<and> last_refresh_succeeded_serial (zrs_metrics st) = None
         \<or> (\<exists>at. last_soa_serial_check_succeeded_at (zrs_metrics st) = Some at \<and> at \<le> now
           \<and> last_soa_serial_check_serial (zrs_metrics st) = None))" for st
    by (auto simp: fmt_secondary_def Let_def fmt_soa_check_def checked_duration_since_def
        split: option.splits)
  have d: "ZoneReportDetails_fmt show_serial now details = Panic \<longleftrightarrow>
     (\<exists>st. (details = PendingSecondary st \<or> details = Secondary st) \<and>
        fmt_secondary show_serial now st = Panic)"
    by (cases details) auto
  show ?thesis
    unfolding d s by (auto simp: s soa_serial_check_succeeded_def ZoneRefreshState_new_def
        ZoneRefreshMetrics_default_def)
qed

theorem report_panics_witness:
  "ZoneReportDetails_fmt (\<lambda>s. []) 7
     (Secondary (soa_serial_check_succeeded 5 None (ZoneRefreshState_new 3
       \<lparr>soa_mname = ''ns'', soa_rname = ''m'', soa_serial = 1, soa_refresh = 2, soa_retry = 3,
        soa_expire = 4, soa_minimum = 5\<rparr>))) = Panic"
  using report_panics by simp

end
