(* ===== verification/Zm_World.thy ===== *)
theory Zm_World
  imports Zm_Diffs
begin

text \<open>
  The world of the zone maintainer (\<open>zonemaintenance/maintainer.rs\<close>): the values of the
  \<open>domain\<close> crate it works on, its own state, and the functions that read a zone.

  Zones are reference counted and shared, so a \<open>Zone\<close> is the address of a cell in
  \<open>zm_heap\<close>. A cell is a \<open>MaintainedZone\<close>: the wrapped store and the \<open>ZoneInfo\<close> with its
  shared parts (the stored differences, the name servers, the expired flag).

  What belongs to the \<open>domain\<close> crate is the record \<open>domain_api\<close> of functions: the
  comparison of serials, queries on a zone, the key store, the zone tree, the interpreter of
  transfer responses, the zone updater and the printing of addresses and keys. \<open>'t\<close> is the type of zone trees.
\<close>

section \<open>Results with state\<close>

text \<open>A fallible operation on the state: \<open>?\<close> is \<open>and_then\<close>. The changes made before an
  error stay.\<close>

fun and_then :: "('e, 'a) outcome \<times> 's \<Rightarrow> ('a \<Rightarrow> 's \<Rightarrow> ('e, 'b) outcome \<times> 's)
    \<Rightarrow> ('e, 'b) outcome \<times> 's" where
  "and_then (Ok a, s) f = f a s"
| "and_then (Err e, s) f = (Err e, s)"
| "and_then (Panic, s) f = (Panic, s)"

lemma and_then_PanicD:
  "fst (and_then p f) = Panic \<Longrightarrow> fst p = Panic \<or> (\<exists>a s. fst (f a s) = Panic)"
  by (cases p; cases "fst p") auto

lemma and_then_Ok_pairE:
  assumes "and_then p f = (Ok b, s')"
  obtains a where "fst p = Ok a" "f a (snd p) = (Ok b, s')"
  using assms by (cases p; cases "fst p") auto

fun map_err :: "('e \<Rightarrow> 'f) \<Rightarrow> ('e, 'a) outcome \<Rightarrow> ('f, 'a) outcome" where
  "map_err f (Ok a) = Ok a"
| "map_err f (Err e) = Err (f e)"
| "map_err f Panic = Panic"

section \<open>Values of the \<open>domain\<close> crate\<close>

datatype rtype =
    Rtype_A | Rtype_NS | Rtype_SOA | Rtype_AAAA | Rtype_AXFR | Rtype_IXFR | Rtype_other "16 word"

datatype zone_rdata = RdSoa Soa | RdA "32 word" | RdAaaa "128 word" | RdNs dname | RdOther token

record rrset =
  rr_ttl :: ttl
  rr_data :: "zone_rdata list"

datatype answer_content = AcData rrset | AcOther

text \<open>A response: its two predicates on the code, the code, and the records of the answer section
  seen as SOA records (\<open>None\<close> where parsing fails; the outer \<open>None\<close> when the section
  itself cannot be parsed).\<close>

record Message =
  msg_no_error :: bool
  msg_is_error :: bool
  msg_opt_rcode :: "16 word"
  msg_soa_answers :: "Soa option list option"
  msg_octets :: token

definition OptRcode_NOTIMP :: "16 word" where
  "OptRcode_NOTIMP = 4"

text \<open>What a writer of a zone does to its store: it writes, which readers may see at once (that is
  up to the store; \<open>Light_Weight_Zone\<close> is one where they do), and it commits, with the
  difference to the contents before, if one was captured. Either way the contents afterwards are
  given.\<close>

datatype zone_write = Written token | Committed token "InMemoryZoneDiff option"

text \<open>One call of \<open>ZoneUpdater::apply\<close>: the updater afterwards, what it did to the zone and its
  error, if any.\<close>

record apply_result =
  ar_updater :: token
  ar_writes :: "zone_write list"
  ar_error :: "token option"

datatype updater_error = UeIo token | UeUpdate token

datatype xfr_protocol_error = Malformed | XfrError token

record 't domain_api =
  d_slt :: "serial \<Rightarrow> serial \<Rightarrow> bool"
  d_ccmp :: "serial \<Rightarrow> serial \<Rightarrow> std_ordering"
  d_query :: "token \<Rightarrow> dname \<Rightarrow> rtype \<Rightarrow> unit + answer_content"
  d_get_key :: "dname \<Rightarrow> token \<Rightarrow> token option"
  d_tree_new :: 't
  d_tree_get :: "'t \<Rightarrow> dname \<Rightarrow> dclass \<Rightarrow> nat option"
  d_tree_find :: "'t \<Rightarrow> dname \<Rightarrow> dclass \<Rightarrow> nat option"
  d_tree_iter :: "'t \<Rightarrow> nat list"
  d_tree_insert :: "dname \<Rightarrow> dclass \<Rightarrow> nat \<Rightarrow> 't \<Rightarrow> unit + 't"
  d_tree_remove :: "dname \<Rightarrow> dclass \<Rightarrow> 't \<Rightarrow> unit + 't"
  d_interp_new :: token
  d_interpret :: "token \<Rightarrow> Message \<Rightarrow> xfr_protocol_error + (token \<times> token option list)"
  d_interp_finished :: "token \<Rightarrow> bool"
  d_updater_new :: "token \<Rightarrow> updater_error + token"
  d_updater_apply :: "token \<Rightarrow> token \<Rightarrow> token \<Rightarrow> apply_result"
  d_show_addr :: "socket_addr \<Rightarrow> string"
  d_show_key :: "token \<Rightarrow> string"

text \<open>The documented behaviour of \<open>ZoneTree\<close>: inserting fails exactly on an apex name and
  class that are there already, and adds the zone otherwise; removing fails exactly on a zone that
  is not there.\<close>

definition zone_tree_ok :: "'t domain_api \<Rightarrow> bool" where
  "zone_tree_ok D \<longleftrightarrow>
     (\<forall>n c. d_tree_get D (d_tree_new D) n c = None) \<and>
     (\<forall>t n c r. case d_tree_insert D n c r t of
          Inl _ \<Rightarrow> d_tree_get D t n c \<noteq> None
        | Inr t' \<Rightarrow> d_tree_get D t n c = None \<and>
            (\<forall>n' c'. d_tree_get D t' n' c' =
               (if n' = n \<and> c' = c then Some r else d_tree_get D t n' c'))) \<and>
     (\<forall>t n c. case d_tree_remove D n c t of
          Inl _ \<Rightarrow> d_tree_get D t n c = None
        | Inr t' \<Rightarrow> d_tree_get D t n c \<noteq> None \<and>
            (\<forall>n' c'. d_tree_get D t' n' c' =
               (if n' = n \<and> c' = c then None else d_tree_get D t n' c')))"

text \<open>\<open>iter_zones\<close> visits zones of the tree.\<close>

definition tree_iter_ok :: "'t domain_api \<Rightarrow> bool" where
  "tree_iter_ok D \<longleftrightarrow> (\<forall>t r. r \<in> set (d_tree_iter D t) \<longrightarrow> (\<exists>n c. d_tree_get D t n c = Some r))"

lemma tree_insert_fails:
  "zone_tree_ok D \<Longrightarrow> (\<exists>u. d_tree_insert D n c r t = Inl u) \<longleftrightarrow> d_tree_get D t n c \<noteq> None"
  by (cases "d_tree_insert D n c r t")
     (auto simp: zone_tree_ok_def dest!: spec [of _ t] spec [of _ n] spec [of _ c] spec [of _ r])

lemma tree_insert_get:
  "zone_tree_ok D \<Longrightarrow> d_tree_insert D n c r t = Inr t' \<Longrightarrow>
   d_tree_get D t' n' c' = (if n' = n \<and> c' = c then Some r else d_tree_get D t n' c')"
  unfolding zone_tree_ok_def by (drule conjunct2, drule conjunct1, drule spec [of _ t],
      drule spec [of _ n], drule spec [of _ c], drule spec [of _ r]) simp

lemma tree_remove_fails:
  "zone_tree_ok D \<Longrightarrow> (\<exists>u. d_tree_remove D n c t = Inl u) \<longleftrightarrow> d_tree_get D t n c = None"
  by (cases "d_tree_remove D n c t")
     (auto simp: zone_tree_ok_def dest!: spec [of _ t] spec [of _ n] spec [of _ c])

lemma tree_remove_get:
  "zone_tree_ok D \<Longrightarrow> d_tree_remove D n c t = Inr t' \<Longrightarrow>
   d_tree_get D t' n' c' = (if n' = n \<and> c' = c then None else d_tree_get D t n' c')"
  unfolding zone_tree_ok_def by (drule conjunct2, drule conjunct2, drule spec [of _ t],
      drule spec [of _ n], drule spec [of _ c]) simp

section \<open>The state\<close>

record MaintainedZone =
  mz_apex_name :: dname
  mz_class :: dclass
  mz_store :: token
  mz_info :: ZoneInfo

record TypedZone =
  tz_apex_name :: dname
  tz_class :: dclass
  tz_store :: token
  tz_zone_type :: ZoneConfig

definition mz_id :: "MaintainedZone \<Rightarrow> ZoneId" where
  "mz_id z = ZoneId_new (mz_apex_name z) (mz_class z)"

text \<open>A refresh that waits for the network: the cause, the zone, the address the NOTIFY came from
  and whether the zone was pending.\<close>

record refresh_job =
  rj_cause :: ZoneRefreshCause
  rj_zone :: nat
  rj_initial :: "socket_addr option"
  rj_is_pending :: bool

text \<open>The tasks \<open>tokio::spawn\<close> started, before they first run, with the zones they captured;
  and after they have started a refresh.\<close>

datatype 't zm_task =
    TimerTask ZoneRefreshInstant 't
  | NotifyTask ZoneChangedMsg 't
  | RefreshTask refresh_job

record 't ZoneMaintainer =
  zm_heap :: "MaintainedZone list"
  zm_pending_zones :: "(ZoneId, nat) hmap"
  zm_member_zones :: 't
  zm_loaded_arc :: 't
  zm_events :: "Event list"
  zm_running :: bool
  zm_time_tracking :: "(ZoneId, ZoneRefreshState) hmap"
  zm_timers :: "ZoneRefreshTimer list"
  zm_tasks :: "'t zm_task list"
  zm_sent :: "(dname \<times> socket_addr \<times> token option) list"
  zm_reports :: "(token \<times> ZoneReport) list"

definition ZoneMaintainer_new :: "'t domain_api \<Rightarrow> 't ZoneMaintainer" where
  "ZoneMaintainer_new D = \<lparr>zm_heap = [], zm_pending_zones = [], zm_member_zones = d_tree_new D,
     zm_loaded_arc = d_tree_new D, zm_events = [], zm_running = False, zm_time_tracking = [],
     zm_timers = [], zm_tasks = [], zm_sent = [], zm_reports = []\<rparr>"

definition with_zone_tree :: "'t \<Rightarrow> 't ZoneMaintainer \<Rightarrow> 't ZoneMaintainer" where
  "with_zone_tree tree m = m\<lparr>zm_member_zones := tree, zm_loaded_arc := tree\<rparr>"

definition zone_at :: "'t ZoneMaintainer \<Rightarrow> nat \<Rightarrow> MaintainedZone" where
  "zone_at m r = zm_heap m ! r"

definition zone_id_at :: "'t ZoneMaintainer \<Rightarrow> nat \<Rightarrow> ZoneId" where
  "zone_id_at m r = mz_id (zone_at m r)"

definition config_at :: "'t ZoneMaintainer \<Rightarrow> nat \<Rightarrow> ZoneConfig" where
  "config_at m r = zi_config (mz_info (zone_at m r))"

definition set_zone :: "nat \<Rightarrow> MaintainedZone \<Rightarrow> 't ZoneMaintainer \<Rightarrow> 't ZoneMaintainer" where
  "set_zone r z m = m\<lparr>zm_heap := (zm_heap m)[r := z]\<rparr>"

definition map_info :: "(ZoneInfo \<Rightarrow> ZoneInfo) \<Rightarrow> MaintainedZone \<Rightarrow> MaintainedZone" where
  "map_info f z = z\<lparr>mz_info := f (mz_info z)\<rparr>"

definition send_event :: "Event \<Rightarrow> 't ZoneMaintainer \<Rightarrow> 't ZoneMaintainer" where
  "send_event e m = m\<lparr>zm_events := zm_events m @ [e]\<rparr>"

definition set_tracking ::
    "ZoneId \<Rightarrow> ZoneRefreshState \<Rightarrow> 't ZoneMaintainer \<Rightarrow> 't ZoneMaintainer" where
  "set_tracking i z m = m\<lparr>zm_time_tracking := hm_insert i z (zm_time_tracking m)\<rparr>"

definition tracking :: "'t ZoneMaintainer \<Rightarrow> ZoneId \<Rightarrow> ZoneRefreshState option" where
  "tracking m i = hm_get (zm_time_tracking m) i"

definition is_active :: "MaintainedZone \<Rightarrow> bool" where
  "is_active z \<longleftrightarrow> \<not> zi_expired (mz_info z)"

definition mark_expired :: "nat \<Rightarrow> 't ZoneMaintainer \<Rightarrow> 't ZoneMaintainer" where
  "mark_expired r m = set_zone r (map_info (set_expired True) (zone_at m r)) m"

text \<open>\<open>wrap_zone\<close>: a new cell with nothing known about the zone yet.\<close>

definition wrap_zone :: "TypedZone \<Rightarrow> 't ZoneMaintainer \<Rightarrow> nat \<times> 't ZoneMaintainer" where
  "wrap_zone z m = (length (zm_heap m), m\<lparr>zm_heap := zm_heap m @ [
     \<lparr>mz_apex_name = tz_apex_name z, mz_class = tz_class z, mz_store = tz_store z,
      mz_info = \<lparr>zi_catalog_member_id = None, zi_config = tz_zone_type z, zi_diffs = [],
        zi_nameservers = None, zi_expired = False\<rparr>\<rparr>]\<rparr>)"

text \<open>\<open>WritableMaintainedZone::commit\<close> after the wrapped commit succeeded: the contents are
  visible, the difference is stored and the change is announced.\<close>

definition wmz_commit :: "'t domain_api \<Rightarrow> nat \<Rightarrow> token \<times> InMemoryZoneDiff option
    \<Rightarrow> 't ZoneMaintainer \<Rightarrow> 't ZoneMaintainer" where
  "wmz_commit D r c m =
    (let z = (zone_at m r)\<lparr>mz_store := fst c\<rparr>;
         z' = (case snd c of Some diff \<Rightarrow> map_info (add_diff (d_ccmp D) diff) z | None \<Rightarrow> z)
     in send_event (ZoneChanged \<lparr>zcm_class = mz_class z', zcm_apex_name = mz_apex_name z',
          zcm_source = None\<rparr>) (set_zone r z' m))"

fun apply_write :: "'t domain_api \<Rightarrow> nat \<Rightarrow> zone_write \<Rightarrow> 't ZoneMaintainer \<Rightarrow> 't ZoneMaintainer" where
  "apply_write D r (Written st) m = set_zone r ((zone_at m r)\<lparr>mz_store := st\<rparr>) m"
| "apply_write D r (Committed st diff) m = wmz_commit D r (st, diff) m"

section \<open>Reading a zone\<close>

definition read_soa :: "'t domain_api \<Rightarrow> token \<Rightarrow> dname \<Rightarrow> (unit, (Soa \<times> ttl) option) outcome" where
  "read_soa D st qname = (case d_query D st qname Rtype_SOA of
      Inl _ \<Rightarrow> Err ()
    | Inr (AcData rrs) \<Rightarrow> (case rr_data rrs of
          [] \<Rightarrow> Panic
        | RdSoa soa # _ \<Rightarrow> Ok (Some (soa, rr_ttl rrs))
        | _ # _ \<Rightarrow> Ok None)
    | Inr AcOther \<Rightarrow> Ok None)"

definition read_rrset ::
    "'t domain_api \<Rightarrow> token \<Rightarrow> dname \<Rightarrow> rtype \<Rightarrow> (unit, rrset option) outcome" where
  "read_rrset D st qname qtype = (case d_query D st qname qtype of
      Inl _ \<Rightarrow> Err ()
    | Inr (AcData rrs) \<Rightarrow> Ok (Some rrs)
    | Inr AcOther \<Rightarrow> Ok None)"

fun a_addrs :: "zone_rdata list \<Rightarrow> ip_addr list" where
  "a_addrs [] = []"
| "a_addrs (RdA a # ds) = V4 a # a_addrs ds"
| "a_addrs (_ # ds) = a_addrs ds"

fun aaaa_addrs :: "zone_rdata list \<Rightarrow> ip_addr list" where
  "aaaa_addrs [] = []"
| "aaaa_addrs (RdAaaa a # ds) = V6 a # aaaa_addrs ds"
| "aaaa_addrs (_ # ds) = aaaa_addrs ds"

text \<open>The addresses of a name: its A records, then its AAAA records, each out of zone an error.\<close>

definition name_addrs :: "'t domain_api \<Rightarrow> token \<Rightarrow> dname \<Rightarrow> (unit, ip_addr list) outcome" where
  "name_addrs D st n = (case read_rrset D st n Rtype_A of
      Ok a \<Rightarrow> (case read_rrset D st n Rtype_AAAA of
          Ok aaaa \<Rightarrow> Ok ((case a of Some rrs \<Rightarrow> a_addrs (rr_data rrs) | None \<Rightarrow> [])
            @ (case aaaa of Some rrs \<Rightarrow> aaaa_addrs (rr_data rrs) | None \<Rightarrow> []))
        | Err e \<Rightarrow> Err e | Panic \<Rightarrow> Panic)
    | Err e \<Rightarrow> Err e | Panic \<Rightarrow> Panic)"

text \<open>The loop over the NS records of the apex; \<open>while let\<close> ends at the first record of
  another type.\<close>

fun identify_ns :: "'t domain_api \<Rightarrow> token \<Rightarrow> zone_rdata list \<Rightarrow> ZoneNameServers
    \<Rightarrow> (unit, ZoneNameServers) outcome" where
  "identify_ns D st (RdNs n # ds) nameservers = (case name_addrs D st n of
      Ok addrs \<Rightarrow> identify_ns D st ds (add_ns n addrs nameservers)
    | Err e \<Rightarrow> Err e | Panic \<Rightarrow> Panic)"
| "identify_ns D st _ nameservers = Ok nameservers"

definition identify_nameservers ::
    "'t domain_api \<Rightarrow> MaintainedZone \<Rightarrow> (unit, ZoneNameServers) outcome" where
  "identify_nameservers D z = (case read_soa D (mz_store z) (mz_apex_name z) of
      Ok (Some (soa, _)) \<Rightarrow> (case name_addrs D (mz_store z) (soa_mname soa) of
          Ok addrs \<Rightarrow> (case read_rrset D (mz_store z) (mz_apex_name z) Rtype_NS of
              Ok (Some rrs) \<Rightarrow>
                identify_ns D (mz_store z) (rr_data rrs) (ZoneNameServers_new (soa_mname soa) addrs)
            | Ok None \<Rightarrow> Ok (ZoneNameServers_new (soa_mname soa) addrs)
            | Err e \<Rightarrow> Err e | Panic \<Rightarrow> Panic)
        | Err e \<Rightarrow> Err e | Panic \<Rightarrow> Panic)
    | Ok None \<Rightarrow> Err ()
    | Err e \<Rightarrow> Err e | Panic \<Rightarrow> Panic)"

definition set_nameservers ::
    "nat \<Rightarrow> ZoneNameServers \<Rightarrow> 't ZoneMaintainer \<Rightarrow> 't ZoneMaintainer" where
  "set_nameservers r ns m =
     set_zone r (map_info (\<lambda>i. i\<lparr>zi_nameservers := Some ns\<rparr>) (zone_at m r)) m"

definition update_known_nameservers_for_zone ::
    "'t domain_api \<Rightarrow> nat \<Rightarrow> 't ZoneMaintainer \<Rightarrow> (unit, unit) outcome \<times> 't ZoneMaintainer" where
  "update_known_nameservers_for_zone D r m =
    (if zc_discover_notify_set (config_at m r) then
       (case identify_nameservers D (zone_at m r) of
          Ok ns \<Rightarrow> (Ok (), set_nameservers r ns m)
        | Err _ \<Rightarrow> (Ok (), m)
        | Panic \<Rightarrow> (Panic, m))
     else (Ok (), m))"

text \<open>\<open>is_known_primary\<close>: on the list of the zone, or, when discovery is on, an address of a
  name server of the zone. The name servers found are kept.\<close>

definition known_server :: "ZoneNameServers \<Rightarrow> socket_addr \<Rightarrow> bool" where
  "known_server ns a \<longleftrightarrow> a \<in> set (ns_addrs (zns_primary ns))
     \<or> (\<exists>n \<in> set (zns_other ns). a \<in> set (ns_addrs n))"

definition is_known_primary :: "'t domain_api \<Rightarrow> NotifyConfig SrcDstConfig \<Rightarrow> ip_addr \<Rightarrow> nat
    \<Rightarrow> 't ZoneMaintainer \<Rightarrow> (unit, bool) outcome \<times> 't ZoneMaintainer" where
  "is_known_primary D acl source r m =
    (let source_addr = SocketAddr_new source IANA_DNS_PORT_NUMBER
     in if sdc_has_dst acl source_addr then (Ok True, m)
        else if \<not> zc_discover_notify_set (config_at m r) then (Ok False, m)
        else (case zi_nameservers (mz_info (zone_at m r)) of
            Some ns \<Rightarrow> (Ok (known_server ns source_addr), m)
          | None \<Rightarrow> (case identify_nameservers D (zone_at m r) of
                Ok ns \<Rightarrow> (Ok (known_server ns source_addr), set_nameservers r ns m)
              | Err _ \<Rightarrow> (Ok False, m)
              | Panic \<Rightarrow> (Panic, m))))"

text \<open>The documented behaviour of answers with data: the record set is not empty.\<close>

definition rrsets_nonempty :: "'t domain_api \<Rightarrow> bool" where
  "rrsets_nonempty D \<longleftrightarrow>
     (\<forall>st q t rrs. d_query D st q t = Inr (AcData rrs) \<longrightarrow> rr_data rrs \<noteq> [])"

lemma read_soa_no_panic: "rrsets_nonempty D \<Longrightarrow> read_soa D st q \<noteq> Panic"
  by (auto simp: read_soa_def rrsets_nonempty_def split: sum.splits answer_content.splits
      list.splits zone_rdata.splits)

lemma name_addrs_no_panic [simp]: "name_addrs D st n \<noteq> Panic"
  by (auto simp: name_addrs_def read_rrset_def split: outcome.splits sum.splits
      answer_content.splits)

lemma identify_ns_no_panic [simp]: "identify_ns D st ds ns \<noteq> Panic"
  by (induction D st ds ns rule: identify_ns.induct) (auto split: outcome.splits)

lemma identify_no_panic: "rrsets_nonempty D \<Longrightarrow> identify_nameservers D z \<noteq> Panic"
  using read_soa_no_panic [of D] by (auto simp: identify_nameservers_def read_rrset_def
      split: outcome.splits option.splits sum.splits answer_content.splits)

section \<open>Sending NOTIFY\<close>

definition send_notify_to_addrs :: "'t domain_api \<Rightarrow> dname \<Rightarrow> socket_addr list \<Rightarrow> ZoneInfo
    \<Rightarrow> 't ZoneMaintainer \<Rightarrow> 't ZoneMaintainer" where
  "send_notify_to_addrs D apex_name addrs zone_info m =
     m\<lparr>zm_sent := zm_sent m @ map (\<lambda>a. (apex_name, a,
        Option.bind (sdc_dst (zc_send_notify_to (zi_config zone_info)) a)
          (\<lambda>cfg. Option.bind (nc_tsig_key cfg) (\<lambda>(n, alg). d_get_key D n alg)))) addrs\<rparr>"

definition send_notify :: "'t domain_api \<Rightarrow> nat \<Rightarrow> NotifyConfig SrcDstConfig
    \<Rightarrow> 't ZoneMaintainer \<Rightarrow> 't ZoneMaintainer" where
  "send_notify D r notify m =
    (let z = zone_at m r;
         m1 = (case zi_nameservers (mz_info z) of
             Some ns \<Rightarrow> send_notify_to_addrs D (mz_apex_name z) (notify_set ns) (mz_info z) m
           | None \<Rightarrow> m)
     in if sdc_is_empty notify then m1
        else send_notify_to_addrs D (mz_apex_name z) (sdc_addrs notify) (mz_info z) m1)"

section \<open>Looking up zones\<close>

datatype ZoneError = TemporarilyUnavailable

definition active_zone :: "'t ZoneMaintainer \<Rightarrow> nat option \<Rightarrow> (ZoneError, nat option) outcome" where
  "active_zone m found = (case found of
      Some r \<Rightarrow> if is_active (zone_at m r) then Ok (Some r) else Err TemporarilyUnavailable
    | None \<Rightarrow> Ok None)"

definition get_zone ::
    "'t domain_api \<Rightarrow> dname \<Rightarrow> dclass \<Rightarrow> 't ZoneMaintainer \<Rightarrow> (ZoneError, nat option) outcome" where
  "get_zone D apex_name class m = active_zone m (d_tree_get D (zm_loaded_arc m) apex_name class)"

definition find_zone ::
    "'t domain_api \<Rightarrow> dname \<Rightarrow> dclass \<Rightarrow> 't ZoneMaintainer \<Rightarrow> (ZoneError, nat option) outcome" where
  "find_zone D qname class m = active_zone m (d_tree_find D (zm_loaded_arc m) qname class)"

section \<open>An instance of the parameters\<close>

text \<open>A small world that behaves as documented, for concrete runs: a zone tree that is a map,
  contents \<open>n\<close> whose SOA record has serial \<open>n\<close> (contents 0 are empty), a transfer of one
  response whose octets are the new contents.\<close>

definition demo_soa :: "nat \<Rightarrow> Soa" where
  "demo_soa n = \<lparr>soa_mname = ''ns'', soa_rname = ''admin'', soa_serial = word_of_nat n,
     soa_refresh = 3600, soa_retry = 600, soa_expire = 86400, soa_minimum = 60\<rparr>"

definition demo_query :: "token \<Rightarrow> dname \<Rightarrow> rtype \<Rightarrow> unit + answer_content" where
  "demo_query st n t = (if t = Rtype_SOA \<and> st \<noteq> 0
     then Inr (AcData \<lparr>rr_ttl = 60, rr_data = [RdSoa (demo_soa st)]\<rparr>) else Inr AcOther)"

type_synonym demo_tree = "(dname \<times> dclass, nat) hmap"

definition demo_iter :: "demo_tree \<Rightarrow> nat list" where
  "demo_iter t = map snd (filter (\<lambda>(k, r). hm_get t k = Some r) t)"

definition demo_api :: "demo_tree domain_api" where
  "demo_api = \<lparr>d_slt = rfc1982_less, d_ccmp = serial_ccmp, d_query = demo_query,
     d_get_key = (\<lambda>n a. None), d_tree_new = [],
     d_tree_get = (\<lambda>t n c. hm_get t (n, c)), d_tree_find = (\<lambda>t n c. hm_get t (n, c)),
     d_tree_iter = demo_iter,
     d_tree_insert = (\<lambda>n c r t. if hm_get t (n, c) = None then Inr (hm_insert (n, c) r t) else Inl ()),
     d_tree_remove = (\<lambda>n c t. if hm_get t (n, c) = None then Inl () else Inr (hm_remove (n, c) t)),
     d_interp_new = 0, d_interpret = (\<lambda>i msg. Inr (1, [Some (msg_octets msg)])),
     d_interp_finished = (\<lambda>i. i = 1), d_updater_new = (\<lambda>st. Inr 0),
     d_updater_apply = (\<lambda>u upd st. \<lparr>ar_updater = u, ar_writes = [Written upd, Committed upd None], ar_error = None\<rparr>),
     d_show_addr = (\<lambda>a. ''addr''), d_show_key = (\<lambda>k. ''key'')\<rparr>"

lemma demo_api_ok [simp]:
  "zone_tree_ok demo_api" "tree_iter_ok demo_api" "rrsets_nonempty demo_api" "serial_order (d_slt demo_api)"
  "canonical_order (d_ccmp demo_api)"
  by (auto simp: zone_tree_ok_def tree_iter_ok_def demo_iter_def rrsets_nonempty_def demo_api_def
      demo_query_def) blast

text \<open>One zone, with a configuration and contents, tracked with the state \<open>z\<close>.\<close>

definition demo_zone :: "ZoneConfig \<Rightarrow> token \<Rightarrow> MaintainedZone" where
  "demo_zone cfg st = \<lparr>mz_apex_name = ''example'', mz_class = 1, mz_store = st,
     mz_info = \<lparr>zi_catalog_member_id = None, zi_config = cfg, zi_diffs = [], zi_nameservers = None,
       zi_expired = False\<rparr>\<rparr>"

definition demo_id :: ZoneId where
  "demo_id = \<lparr>zid_name = ''example'', zid_class = 1\<rparr>"

definition demo_maintainer :: "ZoneConfig \<Rightarrow> token \<Rightarrow> ZoneRefreshState \<Rightarrow> demo_tree ZoneMaintainer" where
  "demo_maintainer cfg st z = (ZoneMaintainer_new demo_api)\<lparr>zm_heap := [demo_zone cfg st],
     zm_member_zones := [((''example'', 1), 0)], zm_loaded_arc := [((''example'', 1), 0)],
     zm_running := True, zm_time_tracking := [(demo_id, z)]\<rparr>"

definition demo_primary :: socket_addr where
  "demo_primary = SocketAddr_new (V4 7) IANA_DNS_PORT_NUMBER"

definition demo_config :: ZoneConfig where
  "demo_config = ZoneConfig_new_secondary
     (add_dst demo_primary NotifyConfig_default SrcDstConfig_new)
     (add_dst demo_primary XfrConfig_default SrcDstConfig_new)"

lemma demo_config_simps [simp]:
  "is_secondary demo_config"
  "zc_request_xfr_from demo_config = \<lparr>sdc_entries = [(demo_primary, XfrConfig_default)]\<rparr>"
  "zc_allow_notify_from demo_config = \<lparr>sdc_entries = [(demo_primary, NotifyConfig_default)]\<rparr>"
  "\<not> zc_discover_notify_set demo_config"
  by (simp_all add: demo_config_def ZoneConfig_new_secondary_def is_secondary_def sdc_is_empty_def
      add_dst_def SrcDstConfig_new_def ZoneConfig_new_def hm_insert_def)

lemma demo_maintainer_simps [simp]:
  "zone_at (demo_maintainer cfg st z) 0 = demo_zone cfg st"
  "zone_id_at (demo_maintainer cfg st z) 0 = demo_id"
  "config_at (demo_maintainer cfg st z) 0 = cfg"
  "zm_heap (demo_maintainer cfg st z) = [demo_zone cfg st]"
  "tracking (demo_maintainer cfg st z) demo_id = Some z"
  by (simp_all add: demo_maintainer_def zone_at_def zone_id_at_def config_at_def demo_zone_def
      demo_id_def mz_id_def ZoneId_new_def tracking_def)

end
