(* ===== verification/Commands.thy ===== *)
theory Commands
  imports Global_State Zm_World
begin

text \<open>
  The messages between the units (\<open>comms.rs\<close>, \<open>api.rs\<close>), listen addresses
  (\<open>common/net.rs\<close>), the three collections of zones of the center, and the routing of
  messages (\<open>targets/central_command.rs\<close>, \<open>forward_app_cmds\<close> of \<open>manager.rs\<close>).

  The sender of an answer that a command carries (\<open>http_tx\<close>) is a number.
\<close>

section \<open>Zone sources\<close>

datatype ZoneSource = Zonefile utf8path | Server socket_addr

record ZoneAdd =
  za_name :: dname
  za_source :: ZoneSource
  za_policy :: string

definition DEFAULT_AXFR_PORT :: "16 word" where
  "DEFAULT_AXFR_PORT = 53"

text \<open>The parsers of the standard library: socket addresses and IP addresses.\<close>

record addr_parsers =
  ap_socket :: "string \<Rightarrow> socket_addr option"
  ap_ip :: "string \<Rightarrow> ip_addr option"

definition ZoneSource_from :: "addr_parsers \<Rightarrow> string \<Rightarrow> ZoneSource" where
  "ZoneSource_from ap s = (case ap_socket ap s of
      Some addr \<Rightarrow> Server addr
    | None \<Rightarrow> (case ap_ip ap s of
        Some addr \<Rightarrow> Server (SocketAddr_new addr DEFAULT_AXFR_PORT)
      | None \<Rightarrow> Zonefile s))"

section \<open>Listen addresses\<close>

datatype ListenAddr = ListenUdp socket_addr | ListenTcp socket_addr

fun ListenAddr_fmt :: "(socket_addr \<Rightarrow> string) \<Rightarrow> ListenAddr \<Rightarrow> string" where
  "ListenAddr_fmt show_addr (ListenUdp addr) = ''Udp('' @ show_addr addr @ '')''"
| "ListenAddr_fmt show_addr (ListenTcp addr) = ''Tcp('' @ show_addr addr @ '')''"

definition quoted :: "string \<Rightarrow> string" where
  "quoted s = [CHR 0x27] @ s @ [CHR 0x27]"

definition ListenAddr_from_str :: "addr_parsers \<Rightarrow> string \<Rightarrow> string + ListenAddr" where
  "ListenAddr_from_str ap value = (case split_once '':'' value of
      None \<Rightarrow> Inl (''expected string '' @ quoted ''<protocol>:<addr>'')
    | Some (protocol, addr) \<Rightarrow>
       (case ap_socket ap addr of
          None \<Rightarrow> Inl (''invalid listen address '' @ quoted addr)
        | Some addr \<Rightarrow>
            if protocol = ''udp'' then Inr (ListenUdp addr)
            else if protocol = ''tcp'' then Inr (ListenTcp addr)
            else Inl (''unknown protocol '' @ quoted protocol)))"

section \<open>Commands\<close>

text \<open>The error with which a unit ends.\<close>

datatype Terminated = Terminated

datatype ApplicationCommand =
    CmdChanged Change
  | CmdTerminate
  | HandleZoneReviewApi dname serial string string token
  | HandleZoneReviewApiStatus token
  | SeekApprovalForUnsignedZone dname serial
  | CmdRefreshZone dname "ip_addr option" "serial option"
  | SignZone dname "serial option"
  | SeekApprovalForSignedZone dname serial
  | PublishSignedZone dname serial
  | RegisterZone ZoneAdd

section \<open>Routing\<close>

text \<open>\<open>direct_update\<close>: the commands sent to the units for an event, with the name of the unit.\<close>

fun direct_update :: "Update \<Rightarrow> (string \<times> ApplicationCommand) list" where
  "direct_update (Changed change) =
     map (\<lambda>name. (name, CmdChanged change)) [''ZL'', ''RS'', ''KM'', ''ZS'', ''RS2'', ''PS'']"
| "direct_update (RefreshZone n source s) = [(''ZL'', CmdRefreshZone n source s)]"
| "direct_update (UnsignedZoneUpdatedEvent n s) = [(''RS'', SeekApprovalForUnsignedZone n s)]"
| "direct_update (UnsignedZoneApprovedEvent n s) = [(''ZS'', SignZone n (Some s))]"
| "direct_update (ResignZoneEvent n) = [(''ZS'', SignZone n None)]"
| "direct_update (ZoneSignedEvent n s) = [(''RS2'', SeekApprovalForSignedZone n s)]"
| "direct_update (SignedZoneApprovedEvent n s) = [(''PS'', PublishSignedZone n s)]"

text \<open>The command queues of the units; \<open>None\<close> is a queue whose unit has ended. A command
  for a name without a unit is dropped; one for a unit that has ended panics, and with it the
  main loop of the program, which does the forwarding.\<close>

type_synonym unit_txs = "(string, ApplicationCommand list option) hmap"

fun forward_app_cmds :: "(string \<times> ApplicationCommand) list \<Rightarrow> unit_txs
    \<Rightarrow> (unit, unit) outcome \<times> unit_txs" where
  "forward_app_cmds [] txs = (Ok (), txs)"
| "forward_app_cmds ((unit_name, data) # rx) txs = (case hm_get txs unit_name of
      None \<Rightarrow> forward_app_cmds rx txs
    | Some None \<Rightarrow> (Panic, txs)
    | Some (Some q) \<Rightarrow> forward_app_cmds rx (hm_insert unit_name (Some (q @ [data])) txs))"

section \<open>The zones of the center\<close>

text \<open>The three trees of zones. A zone is an address, as in \<open>Zm_World\<close>.\<close>

record 't zone_trees =
  zt_unsigned_zones :: 't
  zt_signed_zones :: 't
  zt_published_zones :: 't

definition Class_IN :: dclass where
  "Class_IN = 1"

end
