(* ===== verification/State_File.thy ===== *)
theory State_File
  imports Global_State
begin

text \<open>
  The global state file, version 1: \<open>src/state/v1.rs\<close>, \<open>src/state/mod.rs\<close> and
  \<open>update_value\<close> of \<open>src/util.rs\<close>. The file is its \<open>Spec\<close>, the JSON reader and
  writer being third-party code. The lemmas say what a restart keeps, what a reload reports as
  changed, and that the zones a policy had are not part of the file.
\<close>

text \<open>\<open>update_value\<close>: the new value of the destination and of the flag.\<close>

definition update_value :: "'a \<Rightarrow> 'a \<Rightarrow> bool \<Rightarrow> 'a \<times> bool" where
  "update_value dst v changed = (if dst \<noteq> v then (v, True) else (dst, changed))"

section \<open>Configuration\<close>

datatype SfLogLevel = Trace | Debug | Info | Warning | Error | Critical

fun SfLogLevel_from :: "LogLevel \<Rightarrow> SfLogLevel" where
  "SfLogLevel_from LogLevel.Trace = SfLogLevel.Trace"
| "SfLogLevel_from LogLevel.Debug = SfLogLevel.Debug"
| "SfLogLevel_from LogLevel.Info = SfLogLevel.Info"
| "SfLogLevel_from LogLevel.Warning = SfLogLevel.Warning"
| "SfLogLevel_from LogLevel.Error = SfLogLevel.Error"
| "SfLogLevel_from LogLevel.Critical = SfLogLevel.Critical"

fun SfLogLevel_into :: "SfLogLevel \<Rightarrow> LogLevel" where
  "SfLogLevel_into SfLogLevel.Trace = LogLevel.Trace"
| "SfLogLevel_into SfLogLevel.Debug = LogLevel.Debug"
| "SfLogLevel_into SfLogLevel.Info = LogLevel.Info"
| "SfLogLevel_into SfLogLevel.Warning = LogLevel.Warning"
| "SfLogLevel_into SfLogLevel.Error = LogLevel.Error"
| "SfLogLevel_into SfLogLevel.Critical = LogLevel.Critical"

datatype SfLogTarget = File utf8path | Syslog

fun SfLogTarget_from :: "LogTarget \<Rightarrow> SfLogTarget" where
  "SfLogTarget_from (LogTarget.File path) = SfLogTarget.File path"
| "SfLogTarget_from LogTarget.Syslog = SfLogTarget.Syslog"

fun SfLogTarget_into :: "SfLogTarget \<Rightarrow> LogTarget" where
  "SfLogTarget_into (SfLogTarget.File path) = LogTarget.File path"
| "SfLogTarget_into SfLogTarget.Syslog = LogTarget.Syslog"

datatype SfUserId = Numeric "32 word" | Named string

fun SfUserId_from :: "UserId \<Rightarrow> SfUserId" where
  "SfUserId_from (UserId.Numeric v) = SfUserId.Numeric v"
| "SfUserId_from (UserId.Named v) = SfUserId.Named v"

fun SfUserId_into :: "SfUserId \<Rightarrow> UserId" where
  "SfUserId_into (SfUserId.Numeric v) = UserId.Numeric v"
| "SfUserId_into (SfUserId.Named v) = UserId.Named v"

datatype SfGroupId = Numeric "32 word" | Named string

fun SfGroupId_from :: "GroupId \<Rightarrow> SfGroupId" where
  "SfGroupId_from (GroupId.Numeric v) = SfGroupId.Numeric v"
| "SfGroupId_from (GroupId.Named v) = SfGroupId.Named v"

fun SfGroupId_into :: "SfGroupId \<Rightarrow> GroupId" where
  "SfGroupId_into (SfGroupId.Numeric v) = GroupId.Numeric v"
| "SfGroupId_into (SfGroupId.Named v) = GroupId.Named v"

datatype SfSocketConfigSpec = Udp socket_addr | Tcp socket_addr | TcpUdp socket_addr

fun SfSocketConfigSpec_from :: "SocketConfig \<Rightarrow> SfSocketConfigSpec" where
  "SfSocketConfigSpec_from (SocketConfig.UDP addr) = Udp addr"
| "SfSocketConfigSpec_from (SocketConfig.TCP addr) = Tcp addr"
| "SfSocketConfigSpec_from (SocketConfig.TCPUDP addr) = TcpUdp addr"

fun SfSocketConfigSpec_into :: "SfSocketConfigSpec \<Rightarrow> SocketConfig" where
  "SfSocketConfigSpec_into (Udp addr) = SocketConfig.UDP addr"
| "SfSocketConfigSpec_into (Tcp addr) = SocketConfig.TCP addr"
| "SfSocketConfigSpec_into (TcpUdp addr) = SocketConfig.TCPUDP addr"

record SfReviewConfigSpec =
  sf_rc_servers :: "SfSocketConfigSpec list"

definition SfReviewConfigSpec_parse :: "SfReviewConfigSpec \<Rightarrow> ReviewConfig" where
  "SfReviewConfigSpec_parse s = \<lparr> rc_servers = map SfSocketConfigSpec_into (sf_rc_servers s) \<rparr>"

definition SfReviewConfigSpec_build :: "ReviewConfig \<Rightarrow> SfReviewConfigSpec" where
  "SfReviewConfigSpec_build c = \<lparr> sf_rc_servers = map SfSocketConfigSpec_from (rc_servers c) \<rparr>"

record SfLoaderConfigSpec =
  sf_lc_notif_listeners :: "SfSocketConfigSpec list"
  sf_lc_review :: SfReviewConfigSpec

definition SfLoaderConfigSpec_parse :: "SfLoaderConfigSpec \<Rightarrow> LoaderConfig" where
  "SfLoaderConfigSpec_parse s = \<lparr>
     lc_notif_listeners = map SfSocketConfigSpec_into (sf_lc_notif_listeners s),
     lc_review = SfReviewConfigSpec_parse (sf_lc_review s) \<rparr>"

definition SfLoaderConfigSpec_build :: "LoaderConfig \<Rightarrow> SfLoaderConfigSpec" where
  "SfLoaderConfigSpec_build c = \<lparr>
     sf_lc_notif_listeners = map SfSocketConfigSpec_from (lc_notif_listeners c),
     sf_lc_review = SfReviewConfigSpec_build (lc_review c) \<rparr>"

record SfSignerConfigSpec =
  sf_sc_review :: SfReviewConfigSpec

definition SfSignerConfigSpec_parse :: "SfSignerConfigSpec \<Rightarrow> SignerConfig" where
  "SfSignerConfigSpec_parse s = \<lparr> sc_review = SfReviewConfigSpec_parse (sf_sc_review s) \<rparr>"

definition SfSignerConfigSpec_build :: "SignerConfig \<Rightarrow> SfSignerConfigSpec" where
  "SfSignerConfigSpec_build c = \<lparr> sf_sc_review = SfReviewConfigSpec_build (sc_review c) \<rparr>"

type_synonym SfKeyManagerConfigSpec = unit

definition SfKeyManagerConfigSpec_parse :: "SfKeyManagerConfigSpec \<Rightarrow> KeyManagerConfig" where
  "SfKeyManagerConfigSpec_parse s = ()"

definition SfKeyManagerConfigSpec_build :: "KeyManagerConfig \<Rightarrow> SfKeyManagerConfigSpec" where
  "SfKeyManagerConfigSpec_build c = ()"

record SfServerConfigSpec =
  sf_svc_servers :: "SfSocketConfigSpec list"

definition SfServerConfigSpec_parse :: "SfServerConfigSpec \<Rightarrow> ServerConfig" where
  "SfServerConfigSpec_parse s = \<lparr> svc_servers = map SfSocketConfigSpec_into (sf_svc_servers s) \<rparr>"

definition SfServerConfigSpec_build :: "ServerConfig \<Rightarrow> SfServerConfigSpec" where
  "SfServerConfigSpec_build c = \<lparr> sf_svc_servers = map SfSocketConfigSpec_from (svc_servers c) \<rparr>"

record SfLoggingConfigSpec =
  sf_level :: "SfLogLevel option"
  sf_target :: "SfLogTarget option"
  sf_trace_targets :: "string set option"

definition SfLoggingConfigSpec_parse_into ::
  "SfLoggingConfigSpec \<Rightarrow> LoggingConfig \<Rightarrow> bool \<Rightarrow> LoggingConfig \<times> bool"
where
  "SfLoggingConfigSpec_parse_into s c changed =
    (let (level, changed) = update_value (set_file (lg_level c)) (map_option SfLogLevel_into (sf_level s)) changed;
         (target, changed) = update_value (set_file (lg_target c)) (map_option SfLogTarget_into (sf_target s)) changed;
         (trace, changed) = update_value (set_file (lg_trace_targets c)) (sf_trace_targets s) changed
     in (c \<lparr> lg_level := (lg_level c) \<lparr> set_file := level \<rparr>,
             lg_target := (lg_target c) \<lparr> set_file := target \<rparr>,
             lg_trace_targets := (lg_trace_targets c) \<lparr> set_file := trace \<rparr> \<rparr>, changed))"

definition SfLoggingConfigSpec_build :: "LoggingConfig \<Rightarrow> SfLoggingConfigSpec" where
  "SfLoggingConfigSpec_build c = \<lparr>
     sf_level = map_option SfLogLevel_from (set_file (lg_level c)),
     sf_target = map_option SfLogTarget_from (set_file (lg_target c)),
     sf_trace_targets = set_file (lg_trace_targets c) \<rparr>"

record SfDaemonConfigSpec =
  sf_logging :: SfLoggingConfigSpec
  sf_config_file :: "utf8path option"
  sf_daemonize :: "bool option"
  sf_pid_file :: "utf8path option"
  sf_chroot :: "utf8path option"
  sf_identity :: "(SfUserId \<times> SfGroupId) option"

definition SfDaemonConfigSpec_parse_into ::
  "SfDaemonConfigSpec \<Rightarrow> DaemonConfig \<Rightarrow> bool \<Rightarrow> DaemonConfig \<times> bool"
where
  "SfDaemonConfigSpec_parse_into s c changed =
    (let (logging, changed) = SfLoggingConfigSpec_parse_into (sf_logging s) (dm_logging c) changed;
         (config_file, changed) = update_value (set_file (dm_config_file c)) (sf_config_file s) changed;
         (daemonize, changed) = update_value (set_file (dm_daemonize c)) (sf_daemonize s) changed;
         (pid_file, changed) = update_value (dm_pid_file c) (sf_pid_file s) changed;
         (chroot, changed) = update_value (dm_chroot c) (sf_chroot s) changed;
         (identity, changed) = update_value (dm_identity c)
            (map_option (map_prod SfUserId_into SfGroupId_into) (sf_identity s)) changed
     in (c \<lparr> dm_logging := logging,
             dm_config_file := (dm_config_file c) \<lparr> set_file := config_file \<rparr>,
             dm_daemonize := (dm_daemonize c) \<lparr> set_file := daemonize \<rparr>,
             dm_pid_file := pid_file, dm_chroot := chroot, dm_identity := identity \<rparr>, changed))"

definition SfDaemonConfigSpec_build :: "DaemonConfig \<Rightarrow> SfDaemonConfigSpec" where
  "SfDaemonConfigSpec_build c = \<lparr>
     sf_logging = SfLoggingConfigSpec_build (dm_logging c),
     sf_config_file = set_file (dm_config_file c),
     sf_daemonize = set_file (dm_daemonize c),
     sf_pid_file = dm_pid_file c,
     sf_chroot = dm_chroot c,
     sf_identity = map_option (map_prod SfUserId_from SfGroupId_from) (dm_identity c) \<rparr>"

record SfConfigSpec =
  sf_policy_dir :: utf8path
  sf_zone_state_dir :: utf8path
  sf_tsig_store_path :: utf8path
  sf_daemon :: SfDaemonConfigSpec
  sf_loader_config :: SfLoaderConfigSpec
  sf_signer_config :: SfSignerConfigSpec
  sf_key_manager_config :: SfKeyManagerConfigSpec
  sf_server_config :: SfServerConfigSpec

definition SfConfigSpec_parse_into :: "SfConfigSpec \<Rightarrow> Config \<Rightarrow> bool \<Rightarrow> Config \<times> bool" where
  "SfConfigSpec_parse_into s c changed =
    (let (policy_dir, changed) = update_value (cfg_policy_dir c) (sf_policy_dir s) changed;
         (zone_state_dir, changed) = update_value (cfg_zone_state_dir c) (sf_zone_state_dir s) changed;
         (tsig_store_path, changed) = update_value (cfg_tsig_store_path c) (sf_tsig_store_path s) changed;
         (daemon, changed) = SfDaemonConfigSpec_parse_into (sf_daemon s) (cfg_daemon c) changed;
         (loader, changed) = update_value (cfg_loader c) (SfLoaderConfigSpec_parse (sf_loader_config s)) changed;
         (signer, changed) = update_value (cfg_signer c) (SfSignerConfigSpec_parse (sf_signer_config s)) changed;
         (key_manager, changed) = update_value (cfg_key_manager c) (SfKeyManagerConfigSpec_parse (sf_key_manager_config s)) changed;
         (server, changed) = update_value (cfg_server c) (SfServerConfigSpec_parse (sf_server_config s)) changed
     in (c \<lparr> cfg_policy_dir := policy_dir, cfg_zone_state_dir := zone_state_dir,
             cfg_tsig_store_path := tsig_store_path, cfg_daemon := daemon, cfg_loader := loader,
             cfg_signer := signer, cfg_key_manager := key_manager, cfg_server := server \<rparr>, changed))"

definition SfConfigSpec_build :: "Config \<Rightarrow> SfConfigSpec" where
  "SfConfigSpec_build c = \<lparr>
     sf_policy_dir = cfg_policy_dir c,
     sf_zone_state_dir = cfg_zone_state_dir c,
     sf_tsig_store_path = cfg_tsig_store_path c,
     sf_daemon = SfDaemonConfigSpec_build (cfg_daemon c),
     sf_loader_config = SfLoaderConfigSpec_build (cfg_loader c),
     sf_signer_config = SfSignerConfigSpec_build (cfg_signer c),
     sf_key_manager_config = SfKeyManagerConfigSpec_build (cfg_key_manager c),
     sf_server_config = SfServerConfigSpec_build (cfg_server c) \<rparr>"

section \<open>Policies\<close>

datatype SfNsec3OptOutPolicySpec = Disabled | FlagOnly | Enabled

fun SfNsec3OptOutPolicySpec_parse :: "SfNsec3OptOutPolicySpec \<Rightarrow> Nsec3OptOutPolicy" where
  "SfNsec3OptOutPolicySpec_parse SfNsec3OptOutPolicySpec.Disabled = Nsec3OptOutPolicy.Disabled"
| "SfNsec3OptOutPolicySpec_parse SfNsec3OptOutPolicySpec.FlagOnly = Nsec3OptOutPolicy.FlagOnly"
| "SfNsec3OptOutPolicySpec_parse SfNsec3OptOutPolicySpec.Enabled = Nsec3OptOutPolicy.Enabled"

fun SfNsec3OptOutPolicySpec_build :: "Nsec3OptOutPolicy \<Rightarrow> SfNsec3OptOutPolicySpec" where
  "SfNsec3OptOutPolicySpec_build Nsec3OptOutPolicy.Disabled = SfNsec3OptOutPolicySpec.Disabled"
| "SfNsec3OptOutPolicySpec_build Nsec3OptOutPolicy.FlagOnly = SfNsec3OptOutPolicySpec.FlagOnly"
| "SfNsec3OptOutPolicySpec_build Nsec3OptOutPolicy.Enabled = SfNsec3OptOutPolicySpec.Enabled"

datatype SfSignerDenialPolicySpec = NSec | NSec3 SfNsec3OptOutPolicySpec

fun SfSignerDenialPolicySpec_parse :: "SfSignerDenialPolicySpec \<Rightarrow> SignerDenialPolicy" where
  "SfSignerDenialPolicySpec_parse SfSignerDenialPolicySpec.NSec = SignerDenialPolicy.NSec"
| "SfSignerDenialPolicySpec_parse (SfSignerDenialPolicySpec.NSec3 opt_out) = SignerDenialPolicy.NSec3 (SfNsec3OptOutPolicySpec_parse opt_out)"

fun SfSignerDenialPolicySpec_build :: "SignerDenialPolicy \<Rightarrow> SfSignerDenialPolicySpec" where
  "SfSignerDenialPolicySpec_build SignerDenialPolicy.NSec = SfSignerDenialPolicySpec.NSec"
| "SfSignerDenialPolicySpec_build (SignerDenialPolicy.NSec3 opt_out) = SfSignerDenialPolicySpec.NSec3 (SfNsec3OptOutPolicySpec_build opt_out)"

datatype SfSignerSerialPolicySpec = Keep | Counter | UnixTime | DateCounter

fun SfSignerSerialPolicySpec_parse :: "SfSignerSerialPolicySpec \<Rightarrow> SignerSerialPolicy" where
  "SfSignerSerialPolicySpec_parse SfSignerSerialPolicySpec.Keep = SignerSerialPolicy.Keep"
| "SfSignerSerialPolicySpec_parse SfSignerSerialPolicySpec.Counter = SignerSerialPolicy.Counter"
| "SfSignerSerialPolicySpec_parse SfSignerSerialPolicySpec.UnixTime = SignerSerialPolicy.UnixTime"
| "SfSignerSerialPolicySpec_parse SfSignerSerialPolicySpec.DateCounter = SignerSerialPolicy.DateCounter"

fun SfSignerSerialPolicySpec_build :: "SignerSerialPolicy \<Rightarrow> SfSignerSerialPolicySpec" where
  "SfSignerSerialPolicySpec_build SignerSerialPolicy.Keep = SfSignerSerialPolicySpec.Keep"
| "SfSignerSerialPolicySpec_build SignerSerialPolicy.Counter = SfSignerSerialPolicySpec.Counter"
| "SfSignerSerialPolicySpec_build SignerSerialPolicy.UnixTime = SfSignerSerialPolicySpec.UnixTime"
| "SfSignerSerialPolicySpec_build SignerSerialPolicy.DateCounter = SfSignerSerialPolicySpec.DateCounter"

record SfReviewPolicySpec =
  sf_rv_required :: bool
  sf_rv_cmd_hook :: "string option"

definition SfReviewPolicySpec_parse :: "SfReviewPolicySpec \<Rightarrow> ReviewPolicy" where
  "SfReviewPolicySpec_parse s = \<lparr> rv_required = sf_rv_required s, rv_cmd_hook = sf_rv_cmd_hook s \<rparr>"

definition SfReviewPolicySpec_build :: "ReviewPolicy \<Rightarrow> SfReviewPolicySpec" where
  "SfReviewPolicySpec_build p = \<lparr> sf_rv_required = rv_required p, sf_rv_cmd_hook = rv_cmd_hook p \<rparr>"

record SfSignerPolicySpec =
  sf_sg_serial_policy :: SfSignerSerialPolicySpec
  sf_sg_sig_inception_offset :: "64 word"
  sf_sg_sig_validity_time :: "64 word"
  sf_sg_denial :: SfSignerDenialPolicySpec
  sf_sg_review :: SfReviewPolicySpec

definition SfSignerPolicySpec_parse :: "SfSignerPolicySpec \<Rightarrow> SignerPolicy" where
  "SfSignerPolicySpec_parse s = \<lparr>
     sg_serial_policy = SfSignerSerialPolicySpec_parse (sf_sg_serial_policy s),
     sg_sig_inception_offset = Duration_from_secs (sf_sg_sig_inception_offset s),
     sg_sig_validity_time = Duration_from_secs (sf_sg_sig_validity_time s),
     sg_denial = SfSignerDenialPolicySpec_parse (sf_sg_denial s),
     sg_review = SfReviewPolicySpec_parse (sf_sg_review s) \<rparr>"

definition SfSignerPolicySpec_build :: "SignerPolicy \<Rightarrow> SfSignerPolicySpec" where
  "SfSignerPolicySpec_build p = \<lparr>
     sf_sg_serial_policy = SfSignerSerialPolicySpec_build (sg_serial_policy p),
     sf_sg_sig_inception_offset = Duration_as_secs (sg_sig_inception_offset p),
     sf_sg_sig_validity_time = Duration_as_secs (sg_sig_validity_time p),
     sf_sg_denial = SfSignerDenialPolicySpec_build (sg_denial p),
     sf_sg_review = SfReviewPolicySpec_build (sg_review p) \<rparr>"

record SfLoaderPolicySpec =
  sf_ld_review :: SfReviewPolicySpec

definition SfLoaderPolicySpec_parse :: "SfLoaderPolicySpec \<Rightarrow> LoaderPolicy" where
  "SfLoaderPolicySpec_parse s = \<lparr> ld_review = SfReviewPolicySpec_parse (sf_ld_review s) \<rparr>"

definition SfLoaderPolicySpec_build :: "LoaderPolicy \<Rightarrow> SfLoaderPolicySpec" where
  "SfLoaderPolicySpec_build p = \<lparr> sf_ld_review = SfReviewPolicySpec_build (ld_review p) \<rparr>"

type_synonym SfKeyManagerPolicySpec = unit
type_synonym SfServerPolicySpec = unit

definition SfKeyManagerPolicySpec_parse :: "SfKeyManagerPolicySpec \<Rightarrow> KeyManagerPolicy" where
  "SfKeyManagerPolicySpec_parse s = ()"

definition SfKeyManagerPolicySpec_build :: "KeyManagerPolicy \<Rightarrow> SfKeyManagerPolicySpec" where
  "SfKeyManagerPolicySpec_build p = ()"

definition SfServerPolicySpec_parse :: "SfServerPolicySpec \<Rightarrow> ServerPolicy" where
  "SfServerPolicySpec_parse s = ()"

definition SfServerPolicySpec_build :: "ServerPolicy \<Rightarrow> SfServerPolicySpec" where
  "SfServerPolicySpec_build p = ()"

record SfPolicyVersionSpec =
  sf_loader :: SfLoaderPolicySpec
  sf_key_manager :: SfKeyManagerPolicySpec
  sf_signer :: SfSignerPolicySpec
  sf_server :: SfServerPolicySpec

definition SfPolicyVersionSpec_parse :: "SfPolicyVersionSpec \<Rightarrow> string \<Rightarrow> PolicyVersion" where
  "SfPolicyVersionSpec_parse s name = \<lparr>
     pv_name = name,
     pv_loader = SfLoaderPolicySpec_parse (sf_loader s),
     pv_key_manager = SfKeyManagerPolicySpec_parse (sf_key_manager s),
     pv_signer = SfSignerPolicySpec_parse (sf_signer s),
     pv_server = SfServerPolicySpec_parse (sf_server s) \<rparr>"

definition SfPolicyVersionSpec_build :: "PolicyVersion \<Rightarrow> SfPolicyVersionSpec" where
  "SfPolicyVersionSpec_build p = \<lparr>
     sf_loader = SfLoaderPolicySpec_build (pv_loader p),
     sf_key_manager = SfKeyManagerPolicySpec_build (pv_key_manager p),
     sf_signer = SfSignerPolicySpec_build (pv_signer p),
     sf_server = SfServerPolicySpec_build (pv_server p) \<rparr>"

record SfPolicySpec =
  sf_latest :: SfPolicyVersionSpec
  sf_mid_deletion :: bool

definition SfPolicySpec_parse :: "SfPolicySpec \<Rightarrow> string \<Rightarrow> Policy" where
  "SfPolicySpec_parse s name = \<lparr>
     po_latest = SfPolicyVersionSpec_parse (sf_latest s) name,
     po_mid_deletion = sf_mid_deletion s,
     po_zones = [] \<rparr>"

definition SfPolicySpec_parse_into :: "SfPolicySpec \<Rightarrow> Policy \<Rightarrow> bool \<Rightarrow> Policy \<times> bool" where
  "SfPolicySpec_parse_into s policy changed =
    (let name = pv_name (po_latest policy);
         (latest, changed) = update_value (po_latest policy) (SfPolicyVersionSpec_parse (sf_latest s) name) changed
     in (policy \<lparr> po_latest := latest, po_mid_deletion := po_mid_deletion policy \<or> sf_mid_deletion s \<rparr>, changed))"

definition SfPolicySpec_build :: "Policy \<Rightarrow> SfPolicySpec" where
  "SfPolicySpec_build policy = \<lparr>
     sf_latest = SfPolicyVersionSpec_build (po_latest policy),
     sf_mid_deletion = po_mid_deletion policy \<rparr>"

section \<open>The file\<close>

record SfSpec =
  sf_config :: SfConfigSpec
  sf_zones :: "dname hset"
  sf_policies :: "(string, SfPolicySpec) hmap"

text \<open>The loop over the policies of the file: the new policies, the old ones not met, the changes.\<close>

fun SfSpec_policies :: "(string, SfPolicySpec) hmap \<Rightarrow> policies \<Rightarrow> policies \<Rightarrow> Change list
    \<Rightarrow> policies \<times> policies \<times> Change list"
where
  "SfSpec_policies [] policies new_policies changes = (new_policies, policies, changes)"
| "SfSpec_policies ((name, spec) # rest) policies new_policies changes =
    (case hm_get policies name of
      Some policy \<Rightarrow>
        (let (policy, changed) = SfPolicySpec_parse_into spec policy False;
             changes = (if changed then changes @ map (\<lambda>zone. ZonePolicyChanged zone (po_latest policy)) (po_zones policy)
                        else changes)
         in SfSpec_policies rest (hm_remove name policies) (hm_insert name policy new_policies) changes)
    | None \<Rightarrow> SfSpec_policies rest policies (hm_insert name (SfPolicySpec_parse spec name) new_policies) changes)"

fun SfSpec_drain :: "policies \<Rightarrow> policies \<Rightarrow> policies" where
  "SfSpec_drain [] new_policies = new_policies"
| "SfSpec_drain ((name, policy) # rest) new_policies =
    SfSpec_drain rest (if po_zones policy \<noteq> [] then hm_insert name policy new_policies else new_policies)"

text \<open>The loop over the zones of the file: the new set, the old zones not met, the heap.\<close>

fun SfSpec_zones :: "dname list \<Rightarrow> (dname, zref) hmap \<Rightarrow> (dname, zref) hmap \<Rightarrow> zheap
    \<Rightarrow> (dname, zref) hmap \<times> (dname, zref) hmap \<times> zheap"
where
  "SfSpec_zones [] zones new_zones heap = (new_zones, zones, heap)"
| "SfSpec_zones (name # rest) zones new_zones heap =
    (case hm_get zones name of
      Some zone \<Rightarrow> SfSpec_zones rest (hm_remove name zones) (hm_insert name zone new_zones) heap
    | None \<Rightarrow>
        (let (zone, heap) = zalloc (Zone_new name) heap
         in SfSpec_zones rest zones (hm_insert name zone new_zones) heap))"

definition SfSpec_parse_into :: "SfSpec \<Rightarrow> 'k State \<Rightarrow> zheap \<Rightarrow> Change list \<Rightarrow> 'k State \<times> zheap \<times> Change list" where
  "SfSpec_parse_into s state heap changes =
    (let (config, changed) = SfConfigSpec_parse_into (sf_config s) (st_config state) False;
         changes = (if changed then changes @ [ConfigChanged] else changes);
         (new_policies, rest, changes) = SfSpec_policies (sf_policies s) (st_policies state) [] changes;
         new_policies = SfSpec_drain rest new_policies;
         (new_zones, gone, heap) = SfSpec_zones (sf_zones s) (st_zones state) [] heap;
         changes = changes @ map ZoneRemoved (hm_keys gone)
     in (state \<lparr> st_config := config, st_policies := new_policies, st_zones := new_zones \<rparr>, heap, changes))"

definition SfSpec_build :: "'k State \<Rightarrow> SfSpec" where
  "SfSpec_build state = \<lparr>
     sf_config = SfConfigSpec_build (st_config state),
     sf_zones = hm_keys (st_zones state),
     sf_policies = hm_map (\<lambda>_. SfPolicySpec_build) (st_policies state) \<rparr>"

datatype SfFile = V1 SfSpec

fun SfFile_parse_into :: "SfFile \<Rightarrow> 'k State \<Rightarrow> zheap \<Rightarrow> Change list \<Rightarrow> 'k State \<times> zheap \<times> Change list" where
  "SfFile_parse_into (V1 spec) state heap changes = SfSpec_parse_into spec state heap changes"

definition SfFile_build :: "'k State \<Rightarrow> SfFile" where
  "SfFile_build state = V1 (SfSpec_build state)"

text \<open>\<open>State::init_from_file\<close>; \<open>load\<close> reads a state file.\<close>

definition State_init_from_file ::
  "(utf8path \<Rightarrow> io_error + SfFile) \<Rightarrow> 'k State \<Rightarrow> zheap \<Rightarrow> (io_error, unit) outcome \<times> 'k State \<times> zheap"
where
  "State_init_from_file load state heap =
    (case load (Setting_value (dm_state_file (cfg_daemon (st_config state)))) of
      Inl e \<Rightarrow> (Err e, state, heap)
    | Inr spec \<Rightarrow> (let (state, heap, changes) = SfFile_parse_into spec state heap [] in (Ok (), state, heap)))"

section \<open>Round trips\<close>

lemma SfNsec3OptOutPolicySpec_parse_build [simp, codec_simps]: "SfNsec3OptOutPolicySpec_parse (SfNsec3OptOutPolicySpec_build p) = p"
  by (cases p) simp_all

lemma SfNsec3OptOutPolicySpec_build_parse [simp, codec_simps]: "SfNsec3OptOutPolicySpec_build (SfNsec3OptOutPolicySpec_parse s) = s"
  by (cases s) simp_all

lemma SfSignerDenialPolicySpec_parse_build [simp, codec_simps]: "SfSignerDenialPolicySpec_parse (SfSignerDenialPolicySpec_build p) = p"
  by (cases p) simp_all

lemma SfSignerDenialPolicySpec_build_parse [simp, codec_simps]: "SfSignerDenialPolicySpec_build (SfSignerDenialPolicySpec_parse s) = s"
  by (cases s) simp_all

lemma SfSignerSerialPolicySpec_parse_build [simp, codec_simps]: "SfSignerSerialPolicySpec_parse (SfSignerSerialPolicySpec_build p) = p"
  by (cases p) simp_all

lemma SfSignerSerialPolicySpec_build_parse [simp, codec_simps]: "SfSignerSerialPolicySpec_build (SfSignerSerialPolicySpec_parse s) = s"
  by (cases s) simp_all

lemma SfReviewPolicySpec_parse_build [simp, codec_simps]: "SfReviewPolicySpec_parse (SfReviewPolicySpec_build p) = p"
  by (simp add: SfReviewPolicySpec_parse_def SfReviewPolicySpec_build_def)

lemma SfReviewPolicySpec_build_parse [simp, codec_simps]: "SfReviewPolicySpec_build (SfReviewPolicySpec_parse s) = s"
  by (simp add: SfReviewPolicySpec_parse_def SfReviewPolicySpec_build_def)

lemma SfLoaderPolicySpec_parse_build [simp, codec_simps]: "SfLoaderPolicySpec_parse (SfLoaderPolicySpec_build p) = p"
  by (simp add: SfLoaderPolicySpec_parse_def SfLoaderPolicySpec_build_def)

lemma SfLoaderPolicySpec_build_parse [simp, codec_simps]: "SfLoaderPolicySpec_build (SfLoaderPolicySpec_parse s) = s"
  by (simp add: SfLoaderPolicySpec_parse_def SfLoaderPolicySpec_build_def)

lemma SfSignerPolicySpec_parse_build [simp, codec_simps]: "SignerPolicy_ok p \<Longrightarrow> SfSignerPolicySpec_parse (SfSignerPolicySpec_build p) = p"
  by (simp add: SfSignerPolicySpec_parse_def SfSignerPolicySpec_build_def SignerPolicy_ok_def)

lemma SfSignerPolicySpec_build_parse [simp, codec_simps]: "SfSignerPolicySpec_build (SfSignerPolicySpec_parse s) = s"
  by (simp add: SfSignerPolicySpec_parse_def SfSignerPolicySpec_build_def)

lemma SfSignerPolicySpec_parse_ok [simp, codec_simps]: "SignerPolicy_ok (SfSignerPolicySpec_parse s)"
  by (simp add: SfSignerPolicySpec_parse_def SignerPolicy_ok_def)

lemma SfPolicyVersionSpec_parse_build [simp, codec_simps]:
  "PolicyVersion_ok p \<Longrightarrow> pv_name p = n \<Longrightarrow> SfPolicyVersionSpec_parse (SfPolicyVersionSpec_build p) n = p"
  by (simp add: SfPolicyVersionSpec_parse_def SfPolicyVersionSpec_build_def PolicyVersion_ok_def)

lemma SfPolicyVersionSpec_build_parse [simp, codec_simps]:
  "SfPolicyVersionSpec_build (SfPolicyVersionSpec_parse s n) = s"
  by (simp add: SfPolicyVersionSpec_parse_def SfPolicyVersionSpec_build_def)

lemma SfPolicyVersionSpec_parse_ok [simp, codec_simps]: "PolicyVersion_ok (SfPolicyVersionSpec_parse s n)"
  by (simp add: SfPolicyVersionSpec_parse_def PolicyVersion_ok_def)

lemma pv_name_SfPolicyVersionSpec_parse [simp]: "pv_name (SfPolicyVersionSpec_parse s n) = n"
  by (simp add: SfPolicyVersionSpec_parse_def)

interpretation sf_v1: exact_codec SfPolicyVersionSpec_build "\<lambda>s. SfPolicyVersionSpec_parse s n"
  "\<lambda>p. PolicyVersion_ok p \<and> pv_name p = n" for n
  by unfold_locales auto

lemma SfLogLevel_into_from [simp, codec_simps]: "SfLogLevel_into (SfLogLevel_from x) = x"
  by (cases x) simp_all

lemma SfLogTarget_into_from [simp, codec_simps]: "SfLogTarget_into (SfLogTarget_from x) = x"
  by (cases x) simp_all

lemma SfUserId_into_from [simp, codec_simps]: "SfUserId_into (SfUserId_from x) = x"
  by (cases x) simp_all

lemma SfGroupId_into_from [simp, codec_simps]: "SfGroupId_into (SfGroupId_from x) = x"
  by (cases x) simp_all

lemma SfSocketConfigSpec_into_from [simp, codec_simps]: "SfSocketConfigSpec_into (SfSocketConfigSpec_from x) = x"
  by (cases x) simp_all

lemma map_option_inverse [simp]: "(\<And>x. g (f x) = x) \<Longrightarrow> map_option g (map_option f v) = v"
  by (cases v) simp_all

lemma map_inverse [simp]: "(\<And>x. g (f x) = x) \<Longrightarrow> map g (map f xs) = xs"
  by (induction xs) simp_all

lemma SfReviewConfigSpec_parse_build [simp, codec_simps]: "SfReviewConfigSpec_parse (SfReviewConfigSpec_build c) = c"
  by (simp add: SfReviewConfigSpec_parse_def SfReviewConfigSpec_build_def del: map_map)

lemma SfLoaderConfigSpec_parse_build [simp, codec_simps]: "SfLoaderConfigSpec_parse (SfLoaderConfigSpec_build c) = c"
  by (simp add: SfLoaderConfigSpec_parse_def SfLoaderConfigSpec_build_def del: map_map)

lemma SfSignerConfigSpec_parse_build [simp, codec_simps]: "SfSignerConfigSpec_parse (SfSignerConfigSpec_build c) = c"
  by (simp add: SfSignerConfigSpec_parse_def SfSignerConfigSpec_build_def)

lemma SfServerConfigSpec_parse_build [simp, codec_simps]: "SfServerConfigSpec_parse (SfServerConfigSpec_build c) = c"
  by (simp add: SfServerConfigSpec_parse_def SfServerConfigSpec_build_def del: map_map)

section \<open>What is reported as changed\<close>

lemma update_value_eq [simp]: "update_value d v ch = (v, ch \<or> v \<noteq> d)"
  by (auto simp add: update_value_def)

lemma set_file_id [simp]: "s \<lparr> set_file := v \<rparr> = s \<longleftrightarrow> v = set_file s"
  by (cases s) auto

lemma set_file_id' [simp]: "s = s \<lparr> set_file := v \<rparr> \<longleftrightarrow> v = set_file s"
  by (cases s) auto

lemma LoggingConfig_update_id:
  "c \<lparr> lg_level := a, lg_target := b, lg_trace_targets := t \<rparr> = c
    \<longleftrightarrow> a = lg_level c \<and> b = lg_target c \<and> t = lg_trace_targets c"
  by (cases c) auto

lemma DaemonConfig_update_id:
  "c \<lparr> dm_logging := a, dm_config_file := b, dm_daemonize := d, dm_pid_file := e, dm_chroot := f, dm_identity := g \<rparr> = c
    \<longleftrightarrow> a = dm_logging c \<and> b = dm_config_file c \<and> d = dm_daemonize c \<and> e = dm_pid_file c
      \<and> f = dm_chroot c \<and> g = dm_identity c"
  by (cases c) auto

lemma Config_update_id:
  "c \<lparr> cfg_policy_dir := a, cfg_zone_state_dir := b, cfg_tsig_store_path := d, cfg_daemon := e,
       cfg_loader := f, cfg_signer := g, cfg_key_manager := h, cfg_server := i \<rparr> = c
    \<longleftrightarrow> a = cfg_policy_dir c \<and> b = cfg_zone_state_dir c \<and> d = cfg_tsig_store_path c \<and> e = cfg_daemon c
      \<and> f = cfg_loader c \<and> g = cfg_signer c \<and> h = cfg_key_manager c \<and> i = cfg_server c"
  by (cases c) auto

text \<open>The new value does not depend on the flag, and the flag says whether it is new.\<close>

lemma SfLoggingConfigSpec_changed:
  "\<exists>c'. \<forall>ch. SfLoggingConfigSpec_parse_into s c ch = (c', ch \<or> c' \<noteq> c)"
  unfolding SfLoggingConfigSpec_parse_into_def
  by (auto simp: LoggingConfig_update_id)

lemma SfDaemonConfigSpec_changed:
  "\<exists>c'. \<forall>ch. SfDaemonConfigSpec_parse_into s c ch = (c', ch \<or> c' \<noteq> c)"
proof -
  obtain l where l: "\<And>ch. SfLoggingConfigSpec_parse_into (sf_logging s) (dm_logging c) ch = (l, ch \<or> l \<noteq> dm_logging c)"
    using SfLoggingConfigSpec_changed by blast
  show ?thesis
    unfolding SfDaemonConfigSpec_parse_into_def
    by (auto simp: l DaemonConfig_update_id)
qed

lemma SfConfigSpec_changed:
  "\<exists>c'. \<forall>ch. SfConfigSpec_parse_into s c ch = (c', ch \<or> c' \<noteq> c)"
proof -
  obtain d where d: "\<And>ch. SfDaemonConfigSpec_parse_into (sf_daemon s) (cfg_daemon c) ch = (d, ch \<or> d \<noteq> cfg_daemon c)"
    using SfDaemonConfigSpec_changed by blast
  show ?thesis
    unfolding SfConfigSpec_parse_into_def
    by (auto simp: d Config_update_id)
qed

lemma SfConfigSpec_snd: "snd (SfConfigSpec_parse_into s c ch) \<longleftrightarrow> ch \<or> fst (SfConfigSpec_parse_into s c ch) \<noteq> c"
  using SfConfigSpec_changed [of s c] by auto

lemma SfPolicySpec_changed:
  "snd (SfPolicySpec_parse_into s p ch) \<longleftrightarrow> ch \<or> po_latest (fst (SfPolicySpec_parse_into s p ch)) \<noteq> po_latest p"
  by (auto simp: SfPolicySpec_parse_into_def Let_def)

lemma SfPolicySpec_parse_into_frame [simp, frame_simps]:
  "po_zones (fst (SfPolicySpec_parse_into s p ch)) = po_zones p"
  "pv_name (po_latest (fst (SfPolicySpec_parse_into s p ch))) = pv_name (po_latest p)"
  "po_mid_deletion (fst (SfPolicySpec_parse_into s p ch)) = (po_mid_deletion p \<or> sf_mid_deletion s)"
  by (simp_all add: SfPolicySpec_parse_into_def Let_def)

section \<open>The loops\<close>

definition sf_merge :: "policies \<Rightarrow> string \<Rightarrow> SfPolicySpec \<Rightarrow> Policy" where
  "sf_merge policies n spec = (case hm_get policies n of
      Some p \<Rightarrow> fst (SfPolicySpec_parse_into spec p False)
    | None \<Rightarrow> SfPolicySpec_parse spec n)"

lemma SfSpec_policies_get:
  assumes "hm_wf specs" "hm_wf ps" "hm_wf new" "\<forall>n. hm_get specs n \<noteq> None \<longrightarrow> hm_get new n = None"
    and "SfSpec_policies specs ps new ch = (new', rest, ch')"
  shows "hm_wf new' \<and> hm_wf rest
    \<and> (\<forall>n. hm_get new' n = (case hm_get specs n of Some s \<Rightarrow> Some (sf_merge ps n s) | None \<Rightarrow> hm_get new n))
    \<and> (\<forall>n. hm_get rest n = (case hm_get specs n of Some _ \<Rightarrow> None | None \<Rightarrow> hm_get ps n))"
  using assms
proof (induction specs arbitrary: ps new ch)
  case (Cons x specs)
  obtain m s where x: "x = (m, s)" by (cases x)
  define ps2 where "ps2 = (if hm_get ps m = None then ps else hm_remove m ps)"
  define new2 where "new2 = hm_insert m (sf_merge ps m s) new"
  have m: "hm_get specs m = None" "hm_get new m = None" and wf: "hm_wf specs"
    using Cons.prems by (auto simp: x)
  have w2: "hm_wf ps2" "hm_wf new2" using Cons.prems by (auto simp: ps2_def new2_def)
  have p2: "hm_get ps2 n = (if n = m then None else hm_get ps n)" for n
    by (auto simp: ps2_def)
  have dis: "\<forall>n. hm_get specs n \<noteq> None \<longrightarrow> hm_get new2 n = None"
    using Cons.prems m by (auto simp: x new2_def)
  obtain ch2 where step: "SfSpec_policies specs ps2 new2 ch2 = (new', rest, ch')"
    using Cons.prems(5)
    by (cases "hm_get ps m") (auto simp: x ps2_def new2_def sf_merge_def Let_def case_prod_unfold)
  have "hm_wf new' \<and> hm_wf rest
    \<and> (\<forall>n. hm_get new' n = (case hm_get specs n of Some s \<Rightarrow> Some (sf_merge ps2 n s) | None \<Rightarrow> hm_get new2 n))
    \<and> (\<forall>n. hm_get rest n = (case hm_get specs n of Some _ \<Rightarrow> None | None \<Rightarrow> hm_get ps2 n))"
    by (rule Cons.IH [OF wf w2 dis step])
  moreover have "sf_merge ps2 n s' = sf_merge ps n s'" if "n \<noteq> m" for n s'
    using that by (simp add: sf_merge_def p2)
  ultimately show ?case
    using m by (auto simp: x p2 new2_def split: option.splits)
qed auto

lemma SfSpec_drain_get:
  assumes "hm_wf ps" "hm_wf new"
  shows "hm_wf (SfSpec_drain ps new) \<and> hm_get (SfSpec_drain ps new) n = (case hm_get ps n of
      Some p \<Rightarrow> if po_zones p \<noteq> [] then Some p else hm_get new n | None \<Rightarrow> hm_get new n)"
  using assms
proof (induction ps new rule: SfSpec_drain.induct)
  case (2 m p rest new)
  then show ?case by (auto split: option.splits if_splits)
qed auto

lemma SfSpec_zones_get:
  assumes "distinct names" "hm_wf zones" "\<forall>n \<in> set names. hm_get new n = None"
    and "SfSpec_zones names zones new heap = (new', gone, heap')"
  shows "(\<exists>zs. heap' = heap @ zs)
    \<and> (\<forall>n. hm_get gone n = (if n \<in> set names then None else hm_get zones n))
    \<and> (\<forall>n. n \<notin> set names \<longrightarrow> hm_get new' n = hm_get new n)
    \<and> (\<forall>n \<in> set names. case hm_get zones n of
          Some r \<Rightarrow> hm_get new' n = Some r
        | None \<Rightarrow> (\<exists>r. hm_get new' n = Some r \<and> length heap \<le> r \<and> r < length heap' \<and> heap' ! r = Zone_new n))"
  using assms
proof (induction names arbitrary: zones new heap)
  case (Cons m names)
  show ?case
  proof (cases "hm_get zones m")
    case (Some r)
    have step: "SfSpec_zones names (hm_remove m zones) (hm_insert m r new) heap = (new', gone, heap')"
      using Cons.prems Some by simp
    have fresh: "\<forall>n \<in> set names. hm_get (hm_insert m r new) n = None" "m \<notin> set names"
      and wf: "distinct names" "hm_wf (hm_remove m zones)"
      using Cons.prems by auto
    have ih: "(\<exists>zs. heap' = heap @ zs)
      \<and> (\<forall>n. hm_get gone n = (if n \<in> set names then None else hm_get (hm_remove m zones) n))
      \<and> (\<forall>n. n \<notin> set names \<longrightarrow> hm_get new' n = hm_get (hm_insert m r new) n)
      \<and> (\<forall>n \<in> set names. case hm_get (hm_remove m zones) n of
            Some r \<Rightarrow> hm_get new' n = Some r
          | None \<Rightarrow> (\<exists>r. hm_get new' n = Some r \<and> length heap \<le> r \<and> r < length heap' \<and> heap' ! r = Zone_new n))"
      by (rule Cons.IH [OF wf fresh(1) step])
    have "case hm_get zones n of
          Some r \<Rightarrow> hm_get new' n = Some r
        | None \<Rightarrow> (\<exists>r. hm_get new' n = Some r \<and> length heap \<le> r \<and> r < length heap' \<and> heap' ! r = Zone_new n)"
      if "n \<in> set (m # names)" for n
      using that ih Some fresh by (cases "n = m") auto
    with ih show ?thesis by auto
  next
    case None
    have step: "SfSpec_zones names zones (hm_insert m (length heap) new) (heap @ [Zone_new m]) = (new', gone, heap')"
      using Cons.prems None by (simp add: zalloc_def)
    have fresh: "\<forall>n \<in> set names. hm_get (hm_insert m (length heap) new) n = None"
      and wf: "distinct names" "hm_wf zones"
      using Cons.prems by auto
    obtain zs where
      h: "heap' = (heap @ [Zone_new m]) @ zs"
      and g: "\<And>n. hm_get gone n = (if n \<in> set names then None else hm_get zones n)"
      and o: "\<And>n. n \<notin> set names \<Longrightarrow> hm_get new' n = hm_get (hm_insert m (length heap) new) n"
      and z: "\<And>n. n \<in> set names \<Longrightarrow> (case hm_get zones n of
          Some r \<Rightarrow> hm_get new' n = Some r
        | None \<Rightarrow> (\<exists>r. hm_get new' n = Some r \<and> length (heap @ [Zone_new m]) \<le> r \<and> r < length heap' \<and> heap' ! r = Zone_new n))"
      using Cons.IH [OF wf fresh step] by blast
    have m: "m \<notin> set names" using Cons.prems by simp
    have "case hm_get zones n of
          Some r \<Rightarrow> hm_get new' n = Some r
        | None \<Rightarrow> (\<exists>r. hm_get new' n = Some r \<and> length heap \<le> r \<and> r < length heap' \<and> heap' ! r = Zone_new n)"
      if "n \<in> set (m # names)" for n
    proof (cases "n = m")
      case True
      then show ?thesis using o [OF m] None h by simp
    next
      case False
      with that z [of n] show ?thesis by (auto split: option.splits)
    qed
    moreover have "hm_get gone n = (if n \<in> set (m # names) then None else hm_get zones n)" for n
      using g [of n] None by auto
    moreover have "hm_get new' n = hm_get new n" if "n \<notin> set (m # names)" for n
      using o [of n] that by simp
    moreover have "\<exists>zs. heap' = heap @ zs" using h by simp
    ultimately show ?thesis by blast
  qed
qed auto

section \<open>Reloading and restarting\<close>

definition policies_ok :: "policies \<Rightarrow> bool" where
  "policies_ok ps \<longleftrightarrow> hm_wf ps \<and>
     (\<forall>n p. hm_get ps n = Some p \<longrightarrow> pv_name (po_latest p) = n \<and> PolicyVersion_ok (po_latest p))"

text \<open>The configuration that comes back: what a configuration file says, directories and servers are those
  that were saved; the defaults, the environment and the command line are those of the present, and so is
  the state file.\<close>

definition with_file :: "'a Setting \<Rightarrow> 'a Setting \<Rightarrow> 'a Setting" where
  "with_file saved now = \<lparr>set_default = set_default now, set_file = set_file saved, set_env = set_env now, set_args = set_args now\<rparr>"

definition restored_config :: "Config \<Rightarrow> Config \<Rightarrow> Config" where
  "restored_config saved c = \<lparr>
     cfg_policy_dir = cfg_policy_dir saved, cfg_zone_state_dir = cfg_zone_state_dir saved,
     cfg_tsig_store_path = cfg_tsig_store_path saved,
     cfg_daemon = \<lparr>
       dm_state_file = dm_state_file (cfg_daemon c),
       dm_logging = \<lparr>
         lg_level = with_file (lg_level (dm_logging (cfg_daemon saved))) (lg_level (dm_logging (cfg_daemon c))),
         lg_target = with_file (lg_target (dm_logging (cfg_daemon saved))) (lg_target (dm_logging (cfg_daemon c))),
         lg_trace_targets = with_file (lg_trace_targets (dm_logging (cfg_daemon saved))) (lg_trace_targets (dm_logging (cfg_daemon c)))\<rparr>,
       dm_config_file = with_file (dm_config_file (cfg_daemon saved)) (dm_config_file (cfg_daemon c)),
       dm_daemonize = with_file (dm_daemonize (cfg_daemon saved)) (dm_daemonize (cfg_daemon c)),
       dm_pid_file = dm_pid_file (cfg_daemon saved), dm_chroot = dm_chroot (cfg_daemon saved),
       dm_identity = dm_identity (cfg_daemon saved)\<rparr>,
     cfg_loader = cfg_loader saved, cfg_signer = cfg_signer saved,
     cfg_key_manager = cfg_key_manager saved, cfg_server = cfg_server saved\<rparr>"

lemma SfConfigSpec_restored: "fst (SfConfigSpec_parse_into (SfConfigSpec_build saved) c False) = restored_config saved c"
proof -
  have spec: "map_option (map_prod SfUserId_into SfGroupId_into) (map_option (map_prod SfUserId_from SfGroupId_from) i) = i" for i
    by (simp add: option.map_comp option.map_ident comp_def map_prod_def case_prod_unfold)
  have setting: "now\<lparr>set_file := set_file s\<rparr> = with_file s now" for s now :: "'x Setting"
    by (cases now) (simp add: with_file_def)
  have log: "map_option SfLogLevel_into (map_option SfLogLevel_from l) = l" "map_option SfLogTarget_into (map_option SfLogTarget_from t) = t" for l t
    by (simp_all add: option.map_comp option.map_ident comp_def)
  show ?thesis
    by (simp add: SfConfigSpec_parse_into_def SfConfigSpec_build_def SfDaemonConfigSpec_parse_into_def
        SfDaemonConfigSpec_build_def SfLoggingConfigSpec_parse_into_def SfLoggingConfigSpec_build_def
        SfKeyManagerConfigSpec_parse_def restored_config_def Let_def spec setting log)
qed

lemma with_file_self [simp]: "with_file s s = s"
  by (cases s) (simp add: with_file_def)

lemma restored_config_self [simp]: "restored_config c c = c"
  by (cases c; cases "cfg_daemon c"; cases "dm_logging (cfg_daemon c)") (simp add: restored_config_def)

lemma SfConfigSpec_parse_own [simp]: "SfConfigSpec_parse_into (SfConfigSpec_build c) c False = (c, False)"
  using SfConfigSpec_restored [of c c] SfConfigSpec_snd [of "SfConfigSpec_build c" c False]
  by (simp add: prod_eq_iff)

lemma sf_merge_build:
  "pv_name (po_latest p) = n \<Longrightarrow> PolicyVersion_ok (po_latest p) \<Longrightarrow> hm_get ps n = None \<Longrightarrow>
    sf_merge ps n (SfPolicySpec_build p) = p \<lparr> po_zones := [] \<rparr>"
  by (simp add: sf_merge_def SfPolicySpec_parse_def SfPolicySpec_build_def)

lemma SfSpec_policies_fresh:
  "SfSpec_policies specs [] new ch = (fst (SfSpec_policies specs [] new []), [], ch)"
proof (induction specs arbitrary: new)
  case (Cons x specs)
  show ?case by (cases x) (simp, rule Cons.IH)
qed simp

lemma SfSpec_zones_fresh: "\<exists>new' heap'. SfSpec_zones names [] new heap = (new', [], heap')"
  by (induction names arbitrary: new heap) (auto simp: zalloc_def)

lemma SfSpec_parse_into_fresh:
  assumes "hm_wf (sf_policies s)" "distinct (sf_zones s)"
  shows "\<exists>new zones heap. SfSpec_parse_into s (State_new c :: 'k State) [] []
      = ((State_new c) \<lparr> st_config := fst (SfConfigSpec_parse_into (sf_config s) c False), st_policies := new, st_zones := zones \<rparr>,
         heap, if fst (SfConfigSpec_parse_into (sf_config s) c False) \<noteq> c then [ConfigChanged] else [])
    \<and> (\<forall>n. hm_get new n = map_option (\<lambda>s. SfPolicySpec_parse s n) (hm_get (sf_policies s) n))
    \<and> (\<forall>z. if z \<in> set (sf_zones s) then \<exists>r. hm_get zones z = Some r \<and> r < length heap \<and> heap ! r = Zone_new z
           else hm_get zones z = None)"
proof -
  define new where "new = fst (SfSpec_policies (sf_policies s) [] [] [])"
  have p: "SfSpec_policies (sf_policies s) [] [] ch = (new, [], ch)" for ch
    unfolding new_def by (rule SfSpec_policies_fresh)
  obtain zones heap where z: "SfSpec_zones (sf_zones s) [] [] [] = (zones, [], heap)"
    using SfSpec_zones_fresh by blast
  have n: "hm_get new n = map_option (\<lambda>s. SfPolicySpec_parse s n) (hm_get (sf_policies s) n)" for n
    using SfSpec_policies_get [OF assms(1) _ _ _ p]
    by (auto simp: sf_merge_def split: option.splits)
  have "if z \<in> set (sf_zones s) then \<exists>r. hm_get zones z = Some r \<and> r < length heap \<and> heap ! r = Zone_new z
        else hm_get zones z = None" for z
    using SfSpec_zones_get [OF assms(2) _ _ z] by auto
  with n show ?thesis
    using SfConfigSpec_snd [of "sf_config s" c False]
    by (simp add: SfSpec_parse_into_def State_new_def p z case_prod_unfold Let_def hm_keys_def)
qed

lemma state_restored:
  fixes st :: "'k State"
  assumes "policies_ok (st_policies st)" "hm_wf (st_zones st)"
  shows "case SfFile_parse_into (SfFile_build st) (State_new c :: 'k State) [] [] of (st', heap, changes) \<Rightarrow>
    st_config st' = restored_config (st_config st) c
    \<and> hm_get (st_policies st') n = map_option (\<lambda>p. p \<lparr> po_zones := [] \<rparr>) (hm_get (st_policies st) n)
    \<and> (case hm_get (st_zones st) z of
         Some _ \<Rightarrow> (\<exists>r. hm_get (st_zones st') z = Some r \<and> r < length heap \<and> heap ! r = Zone_new z)
       | None \<Rightarrow> hm_get (st_zones st') z = None)
    \<and> changes = (if restored_config (st_config st) c \<noteq> c then [ConfigChanged] else [])"
proof -
  have wf: "hm_wf (sf_policies (SfSpec_build st))" "distinct (sf_zones (SfSpec_build st))"
    using assms by (simp_all add: SfSpec_build_def policies_ok_def hm_wf_def [of "st_zones st"] hm_keys_def)
  have pol: "map_option (\<lambda>s. SfPolicySpec_parse s n) (map_option SfPolicySpec_build (hm_get (st_policies st) n))
      = map_option (\<lambda>p. p \<lparr> po_zones := [] \<rparr>) (hm_get (st_policies st) n)"
  proof (cases "hm_get (st_policies st) n")
    case (Some p)
    then have "pv_name (po_latest p) = n" "PolicyVersion_ok (po_latest p)"
      using assms(1) by (auto simp: policies_ok_def)
    then show ?thesis by (simp add: Some SfPolicySpec_parse_def SfPolicySpec_build_def)
  qed simp
  have mem: "z \<in> set (hm_keys (st_zones st)) \<longleftrightarrow> hm_get (st_zones st) z \<noteq> None"
    by (simp add: hm_get_None_iff)
  show ?thesis
    using SfSpec_parse_into_fresh [OF wf, of c, where 'k = 'k] pol mem
    by (auto simp: SfFile_build_def SfSpec_build_def SfConfigSpec_restored split: option.splits if_splits)
qed

text \<open>C30: a state that is saved and loaded into a fresh one comes back with the configuration of
  the file under the present command line and environment, with the same zone names, each a new
  zone without a policy, and with every policy and its deletion mark, but with no policy
  recording any of the zones that use it.\<close>

theorem state_restart:
  fixes st :: "'k State"
  assumes "policies_ok (st_policies st)" "hm_wf (st_zones st)"
  shows "case SfFile_parse_into (SfFile_build st) (State_new c :: 'k State) [] [] of (st', heap, changes) \<Rightarrow>
    st_config st' = restored_config (st_config st) c
    \<and> hm_get (st_policies st') n = map_option (\<lambda>p. p \<lparr> po_zones := [] \<rparr>) (hm_get (st_policies st) n)
    \<and> (case hm_get (st_zones st) z of
         Some _ \<Rightarrow> (\<exists>r. hm_get (st_zones st') z = Some r \<and> r < length heap \<and> heap ! r = Zone_new z)
       | None \<Rightarrow> hm_get (st_zones st') z = None)
    \<and> changes = (if restored_config (st_config st) c \<noteq> c then [ConfigChanged] else [])"
  by (rule state_restored [OF assms])

definition example_state :: "(Algorithm \<times> bytes \<times> key_name) State" where
  "example_state = (State_new Config_default) \<lparr>
     st_policies := [(''p'', \<lparr> po_latest = example_version, po_mid_deletion = True, po_zones = [''nl''] \<rparr>)],
     st_zones := [(''nl'', 0)] \<rparr>"

lemma example_state_ok: "policies_ok (st_policies example_state)" "hm_wf (st_zones example_state)"
  by (auto simp: policies_ok_def example_state_def example_version_ok split: if_splits)

lemma example_state_get:
  "hm_get (st_policies example_state) ''p'' = Some \<lparr> po_latest = example_version, po_mid_deletion = True, po_zones = [''nl''] \<rparr>"
  "hm_get (st_zones example_state) ''nl'' = Some 0" "st_config example_state = Config_default"
  by (simp_all add: example_state_def State_new_def)

theorem state_restart_witness:
  "case SfFile_parse_into (SfFile_build example_state) (State_new Config_default :: (Algorithm \<times> bytes \<times> key_name) State) [] [] of (st', heap, changes) \<Rightarrow>
     st_config st' = Config_default \<and> changes = []
   \<and> hm_get (st_policies st') ''p'' = Some \<lparr> po_latest = example_version, po_mid_deletion = True, po_zones = [] \<rparr>
   \<and> (\<exists>r. hm_get (st_zones st') ''nl'' = Some r \<and> heap ! r = Zone_new ''nl'')"
proof -
  show ?thesis
    using state_restart [OF example_state_ok, where c = Config_default and n = "''p''" and z = "''nl''"]
    by (auto simp: example_state_get)
qed

text \<open>What the loop over the policies reports for a policy that existed before.\<close>

lemma SfSpec_policies_changes:
  assumes "SfSpec_policies specs ps new ch = (new', rest, ch')"
  shows "\<exists>more. ch' = ch @ more \<and> (\<forall>c \<in> set more. \<exists>n p spec z. hm_get ps n = Some p \<and> (n, spec) \<in> set specs
    \<and> c = ZonePolicyChanged z (po_latest (fst (SfPolicySpec_parse_into spec p False))) \<and> z \<in> set (po_zones p)
    \<and> po_latest (fst (SfPolicySpec_parse_into spec p False)) \<noteq> po_latest p)"
  using assms
proof (induction specs arbitrary: ps new ch)
  case (Cons x specs)
  obtain m s where x: "x = (m, s)" by (cases x)
  show ?case
  proof (cases "hm_get ps m")
    case None
    with Cons.prems x have "SfSpec_policies specs ps (hm_insert m (SfPolicySpec_parse s m) new) ch = (new', rest, ch')"
      by simp
    from Cons.IH [OF this] obtain more where more: "ch' = ch @ more"
      "\<forall>c \<in> set more. \<exists>n p spec z. hm_get ps n = Some p \<and> (n, spec) \<in> set specs
        \<and> c = ZonePolicyChanged z (po_latest (fst (SfPolicySpec_parse_into spec p False))) \<and> z \<in> set (po_zones p)
        \<and> po_latest (fst (SfPolicySpec_parse_into spec p False)) \<noteq> po_latest p"
      by blast
    show ?thesis
      by (rule exI [of _ more]) (use more in \<open>meson list.set_intros(2)\<close>)
  next
    case (Some p)
    define q where "q = fst (SfPolicySpec_parse_into s p False)"
    define here where "here = (if po_latest q \<noteq> po_latest p then map (\<lambda>zone. ZonePolicyChanged zone (po_latest q)) (po_zones p) else [])"
    have "SfSpec_policies specs (hm_remove m ps) (hm_insert m q new) (ch @ here) = (new', rest, ch')"
      using Cons.prems Some SfPolicySpec_changed [of s p False]
      by (simp add: x q_def here_def case_prod_unfold Let_def split: if_splits)
    from Cons.IH [OF this] obtain more where more: "ch' = (ch @ here) @ more"
      "\<forall>c \<in> set more. \<exists>n p spec z. hm_get (hm_remove m ps) n = Some p \<and> (n, spec) \<in> set specs
        \<and> c = ZonePolicyChanged z (po_latest (fst (SfPolicySpec_parse_into spec p False))) \<and> z \<in> set (po_zones p)
        \<and> po_latest (fst (SfPolicySpec_parse_into spec p False)) \<noteq> po_latest p"
      by blast
    have "\<exists>n p spec z. hm_get ps n = Some p \<and> (n, spec) \<in> set (x # specs)
        \<and> c = ZonePolicyChanged z (po_latest (fst (SfPolicySpec_parse_into spec p False))) \<and> z \<in> set (po_zones p)
        \<and> po_latest (fst (SfPolicySpec_parse_into spec p False)) \<noteq> po_latest p" if "c \<in> set (here @ more)" for c
    proof (cases "c \<in> set here")
      case True
      then obtain z where "c = ZonePolicyChanged z (po_latest q)" "z \<in> set (po_zones p)" "po_latest q \<noteq> po_latest p"
        by (auto simp: here_def split: if_splits)
      with Some x show ?thesis by (auto simp: q_def)
    next
      case False
      with that more(2) obtain n p' spec z where "hm_get (hm_remove m ps) n = Some p'" "(n, spec) \<in> set specs"
        "c = ZonePolicyChanged z (po_latest (fst (SfPolicySpec_parse_into spec p' False)))" "z \<in> set (po_zones p')"
        "po_latest (fst (SfPolicySpec_parse_into spec p' False)) \<noteq> po_latest p'"
        by auto
      then show ?thesis by (intro exI [of _ n] exI [of _ p'] exI [of _ spec] exI [of _ z]) (auto split: if_splits)
    qed
    then show ?thesis using more(1) by (intro exI [of _ "here @ more"]) simp
  qed
qed simp

text \<open>Loading a state file reports a changed configuration exactly when the configuration
  really changes, and reports a zone's policy as changed only for a zone that uses a policy whose
  version really changes, with the version it changes to; loading the file that a configuration
  was saved to changes nothing.\<close>

theorem state_reload_reports:
  assumes "SfSpec_policies (sf_policies s) (st_policies st) [] ch = (new, rest, ch')"
  shows "(snd (SfConfigSpec_parse_into (sf_config s) c False) \<longleftrightarrow> fst (SfConfigSpec_parse_into (sf_config s) c False) \<noteq> c)
   \<and> SfConfigSpec_parse_into (SfConfigSpec_build c) c False = (c, False)
   \<and> (\<exists>more. ch' = ch @ more \<and> (\<forall>change \<in> set more. \<exists>n p spec z.
        hm_get (st_policies st) n = Some p \<and> (n, spec) \<in> set (sf_policies s)
        \<and> change = ZonePolicyChanged z (po_latest (fst (SfPolicySpec_parse_into spec p False))) \<and> z \<in> set (po_zones p)
        \<and> po_latest (fst (SfPolicySpec_parse_into spec p False)) \<noteq> po_latest p))"
proof (intro conjI)
  show "snd (SfConfigSpec_parse_into (sf_config s) c False) \<longleftrightarrow> fst (SfConfigSpec_parse_into (sf_config s) c False) \<noteq> c"
    using SfConfigSpec_snd [of "sf_config s" c False] by simp
qed (simp, rule SfSpec_policies_changes [OF assms])

theorem state_reload_reports_witness:
  "\<exists>new rest ch'. SfSpec_policies (sf_policies (SfSpec_build example_state)) (st_policies example_state) [] [] = (new, rest, ch')
    \<and> ch' = []"
proof -
  obtain new rest ch' where r: "SfSpec_policies (sf_policies (SfSpec_build example_state)) (st_policies example_state) [] [] = (new, rest, ch')"
    by (metis prod_cases3)
  have "po_latest (fst (SfPolicySpec_parse_into spec p False)) = po_latest p"
    if "hm_get (st_policies example_state) n = Some p" "(n, spec) \<in> set (sf_policies (SfSpec_build example_state))" for n p spec
    using that example_version_ok
    by (auto simp: example_state_def SfSpec_build_def SfPolicySpec_parse_into_def SfPolicySpec_build_def hm_map_def Let_def split: if_splits)
  with state_reload_reports [OF r, where c = Config_default] have "ch' = []"
    by (metis append_Nil list.set_intros(1) neq_Nil_conv)
  with r show ?thesis by blast
qed

end
