(* ===== verification/Center.thy ===== *)
theory Center
  imports State_File
begin

text \<open>
  The shared \<open>Center\<close> of \<open>src/center.rs\<close> and the three save mechanisms: the enqueued save
  of the global state (\<open>State::mark_dirty\<close>, \<open>state::save_now\<close>), of a zone
  (\<open>Zone::mark_dirty\<close>, \<open>save_state_now\<close>) and of the TSIG store
  (\<open>TsigStore::mark_dirty\<close>, \<open>tsig::save_now\<close>).

  A spawned save task is an entry of \<open>ce_tasks\<close>; it acts, after its delay, in one step under the
  lock (\<open>run_save\<close>). Writes to the disk are the list \<open>ce_writes\<close>. A panic while the state is
  locked poisons the lock, after which every \<open>lock().unwrap()\<close> panics. What the three mechanisms
  promise is the locale \<open>saver\<close>, interpreted for each of them.
\<close>

section \<open>The center\<close>

datatype save_job = SaveState | SaveZone zref | SaveTsig

datatype saved_file =
    StateFile utf8path SfFile
  | ZoneFile utf8path dname ZsFile
  | TsigFile utf8path TsFile

record 'k Center =
  ce_state :: "'k State"
  ce_heap :: zheap
  ce_poisoned :: bool
  ce_update_open :: bool
  ce_updates :: "Update list"
  ce_tasks :: "(nat \<times> save_job) list"
  ce_next_task :: nat
  ce_writes :: "saved_file list"

text \<open>\<open>tokio::spawn\<close>.\<close>

definition spawn :: "save_job \<Rightarrow> 'k Center \<Rightarrow> nat \<times> 'k Center" where
  "spawn job c = (ce_next_task c, c \<lparr> ce_tasks := ce_tasks c @ [(ce_next_task c, job)], ce_next_task := Suc (ce_next_task c) \<rparr>)"

text \<open>\<open>JoinHandle::abort\<close> of a task that has not run.\<close>

definition abort_task :: "nat option \<Rightarrow> 'k Center \<Rightarrow> 'k Center" where
  "abort_task t c = (case t of None \<Rightarrow> c | Some t \<Rightarrow> c \<lparr> ce_tasks := filter (\<lambda>(i, _). i \<noteq> t) (ce_tasks c) \<rparr>)"

abbreviation zone_at :: "'k Center \<Rightarrow> zref \<Rightarrow> Zone" where
  "zone_at c r \<equiv> ce_heap c ! r"

abbreviation zstate_at :: "'k Center \<Rightarrow> zref \<Rightarrow> ZoneState" where
  "zstate_at c r \<equiv> zn_state (ce_heap c ! r)"

definition set_zstate :: "zref \<Rightarrow> ZoneState \<Rightarrow> 'k Center \<Rightarrow> 'k Center" where
  "set_zstate r z c = c \<lparr> ce_heap := zset r z (ce_heap c) \<rparr>"

section \<open>Marking dirty\<close>

definition State_mark_dirty :: "'k Center \<Rightarrow> 'k Center" where
  "State_mark_dirty c =
    (if st_enqueued_save (ce_state c) \<noteq> None then c
     else let (task, c) = spawn SaveState c
          in c \<lparr> ce_state := (ce_state c) \<lparr> st_enqueued_save := Some task \<rparr> \<rparr>)"

definition Zone_mark_dirty :: "zref \<Rightarrow> 'k Center \<Rightarrow> 'k Center" where
  "Zone_mark_dirty r c =
    (if zst_enqueued_save (zstate_at c r) \<noteq> None then c
     else let (task, c) = spawn (SaveZone r) c
          in set_zstate r ((zstate_at c r) \<lparr> zst_enqueued_save := Some task \<rparr>) c)"

definition TsigStore_mark_dirty :: "'k Center \<Rightarrow> 'k Center" where
  "TsigStore_mark_dirty c =
    (if ts_enqueued_save (st_tsig_store (ce_state c)) \<noteq> None then c
     else let (task, c) = spawn SaveTsig c
          in c \<lparr> ce_state := (ce_state c)
               \<lparr> st_tsig_store := (st_tsig_store (ce_state c)) \<lparr> ts_enqueued_save := Some task \<rparr> \<rparr> \<rparr>)"

section \<open>Saving\<close>

definition write_to :: "bool \<Rightarrow> saved_file \<Rightarrow> 'k Center \<Rightarrow> 'k Center" where
  "write_to io f c = (if io then c \<lparr> ce_writes := ce_writes c @ [f] \<rparr> else c)"

definition state_content :: "'k Center \<Rightarrow> saved_file" where
  "state_content c = StateFile (Setting_value (dm_state_file (cfg_daemon (st_config (ce_state c))))) (SfFile_build (ce_state c))"

definition zone_content :: "zref \<Rightarrow> 'k Center \<Rightarrow> saved_file" where
  "zone_content r c = ZoneFile (cfg_zone_state_dir (st_config (ce_state c))) (zn_name (zone_at c r)) (ZsFile_build (zstate_at c r))"

definition tsig_content :: "'k key_api \<Rightarrow> 'k Center \<Rightarrow> saved_file" where
  "tsig_content api c = TsigFile (cfg_tsig_store_path (st_config (ce_state c))) (TsFile_build api (st_tsig_store (ce_state c)))"

text \<open>The task bodies; \<open>io\<close> is whether writing the file succeeds. A failure is only logged.\<close>

definition run_state_save :: "nat \<Rightarrow> bool \<Rightarrow> 'k Center \<Rightarrow> 'k Center" where
  "run_state_save task io c =
    (if st_enqueued_save (ce_state c) = Some task
     then let c = c \<lparr> ce_state := (ce_state c) \<lparr> st_enqueued_save := None \<rparr> \<rparr>
          in write_to io (state_content c) c
     else c)"

definition run_zone_save :: "zref \<Rightarrow> nat \<Rightarrow> bool \<Rightarrow> 'k Center \<Rightarrow> 'k Center" where
  "run_zone_save r task io c =
    (if zst_enqueued_save (zstate_at c r) = Some task
     then let c = set_zstate r ((zstate_at c r) \<lparr> zst_enqueued_save := None \<rparr>) c
          in write_to io (zone_content r c) c
     else c)"

definition run_tsig_save :: "'k key_api \<Rightarrow> nat \<Rightarrow> bool \<Rightarrow> 'k Center \<Rightarrow> 'k Center" where
  "run_tsig_save api task io c =
    (if ts_enqueued_save (st_tsig_store (ce_state c)) = Some task
     then let c = c \<lparr> ce_state := (ce_state c)
               \<lparr> st_tsig_store := (st_tsig_store (ce_state c)) \<lparr> ts_enqueued_save := None \<rparr> \<rparr> \<rparr>
          in write_to io (tsig_content api c) c
     else c)"

text \<open>A pending task runs and is gone; with the lock poisoned it panics without any effect.\<close>

definition run_save :: "'k key_api \<Rightarrow> nat \<Rightarrow> bool \<Rightarrow> 'k Center \<Rightarrow> 'k Center" where
  "run_save api task io c = (case map_of (ce_tasks c) task of
      None \<Rightarrow> c
    | Some job \<Rightarrow>
        (let c = c \<lparr> ce_tasks := filter (\<lambda>(i, _). i \<noteq> task) (ce_tasks c) \<rparr>
         in if ce_poisoned c then c
            else case job of
                SaveState \<Rightarrow> run_state_save task io c
              | SaveZone r \<Rightarrow> run_zone_save r task io c
              | SaveTsig \<Rightarrow> run_tsig_save api task io c))"

text \<open>Saving at once; the outcome is a panic when the lock is poisoned.\<close>

definition state_save_now :: "bool \<Rightarrow> 'k Center \<Rightarrow> (unit, unit) outcome \<times> 'k Center" where
  "state_save_now io c =
    (if ce_poisoned c then (Panic, c)
     else let c = abort_task (st_enqueued_save (ce_state c)) c;
              c = c \<lparr> ce_state := (ce_state c) \<lparr> st_enqueued_save := None \<rparr> \<rparr>
          in (Ok (), write_to io (state_content c) c))"

definition zone_save_state_now :: "zref \<Rightarrow> bool \<Rightarrow> 'k Center \<Rightarrow> (unit, unit) outcome \<times> 'k Center" where
  "zone_save_state_now r io c =
    (if ce_poisoned c then (Panic, c)
     else let c = abort_task (zst_enqueued_save (zstate_at c r)) c;
              c = set_zstate r ((zstate_at c r) \<lparr> zst_enqueued_save := None \<rparr>) c
          in (Ok (), write_to io (zone_content r c) c))"

definition tsig_save_now :: "'k key_api \<Rightarrow> bool \<Rightarrow> 'k Center \<Rightarrow> (unit, unit) outcome \<times> 'k Center" where
  "tsig_save_now api io c =
    (if ce_poisoned c then (Panic, c)
     else let c = abort_task (ts_enqueued_save (st_tsig_store (ce_state c))) c;
              c = c \<lparr> ce_state := (ce_state c)
                  \<lparr> st_tsig_store := (st_tsig_store (ce_state c)) \<lparr> ts_enqueued_save := None \<rparr> \<rparr> \<rparr>
          in (Ok (), write_to io (tsig_content api c) c))"

section \<open>The contract of the savers\<close>

text \<open>
  \<open>slot\<close> is the handle the owner holds, \<open>pending t\<close> says that task \<open>t\<close> has not run,
  \<open>content\<close> is what a save writes now. A marked owner holds a task that has not run.
\<close>

locale saver =
  fixes slot :: "'c \<Rightarrow> nat option"
    and pending :: "nat \<Rightarrow> 'c \<Rightarrow> bool"
    and content :: "'c \<Rightarrow> 'f"
    and written :: "'c \<Rightarrow> 'f list"
    and mark :: "'c \<Rightarrow> 'c"
    and run :: "nat \<Rightarrow> bool \<Rightarrow> 'c \<Rightarrow> 'c"
    and save_now :: "bool \<Rightarrow> 'c \<Rightarrow> 'c"
    and ok :: "'c \<Rightarrow> bool"
  assumes slot_pending: "ok c \<Longrightarrow> slot c = Some t \<Longrightarrow> pending t c"
    and mark_ok: "ok c \<Longrightarrow> ok (mark c)"
    and mark_slot: "ok c \<Longrightarrow> slot (mark c) \<noteq> None"
    and mark_again: "slot c \<noteq> None \<Longrightarrow> mark c = c"
    and mark_frame: "ok c \<Longrightarrow> content (mark c) = content c" "ok c \<Longrightarrow> written (mark c) = written c"
    and run_current: "ok c \<Longrightarrow> slot c = Some t \<Longrightarrow> slot (run t io c) = None
      \<and> content (run t io c) = content c
      \<and> written (run t io c) = (if io then written c @ [content c] else written c)"
    and run_stale: "ok c \<Longrightarrow> pending t c \<Longrightarrow> slot c \<noteq> Some t \<Longrightarrow>
      slot (run t io c) = slot c \<and> content (run t io c) = content c \<and> written (run t io c) = written c"
    and now: "ok c \<Longrightarrow> slot (save_now io c) = None \<and> content (save_now io c) = content c
      \<and> written (save_now io c) = (if io then written c @ [content c] else written c)"
begin

text \<open>A change that was marked is saved: the enqueued task is waiting, and when it runs it writes
  the content of that time.\<close>

lemma marked_is_saved:
  assumes "ok c"
  shows "\<exists>t. slot (mark c) = Some t \<and> pending t (mark c)
    \<and> written (run t True (mark c)) = written c @ [content c] \<and> slot (run t True (mark c)) = None"
proof -
  obtain t where t: "slot (mark c) = Some t" using mark_slot [OF assms] by auto
  show ?thesis
    using t slot_pending [OF mark_ok [OF assms] t] run_current [OF mark_ok [OF assms] t, of True] mark_frame [OF assms]
    by auto
qed

lemma mark_mark: "ok c \<Longrightarrow> mark (mark c) = mark c"
  using mark_again mark_slot by blast

text \<open>A task that lost its slot writes nothing.\<close>

lemma stale_writes_nothing:
  "ok c \<Longrightarrow> pending t c \<Longrightarrow> slot c \<noteq> Some t \<Longrightarrow> written (run t io c) = written c"
  using run_stale by blast

lemma now_then_nothing: "ok c \<Longrightarrow> written (save_now True c) = written c @ [content c]"
  using now by simp

end

section \<open>The bookkeeping of tasks\<close>

text \<open>Task ids are fresh and unique, and every handle held is a waiting task of its owner.\<close>

fun handle_of :: "'k Center \<Rightarrow> save_job \<Rightarrow> nat option" where
  "handle_of c SaveState = st_enqueued_save (ce_state c)"
| "handle_of c SaveTsig = ts_enqueued_save (st_tsig_store (ce_state c))"
| "handle_of c (SaveZone r) = (if r < length (ce_heap c) then zst_enqueued_save (zstate_at c r) else None)"

definition tasks_wf :: "(nat \<times> save_job) list \<Rightarrow> nat \<Rightarrow> bool" where
  "tasks_wf ts n \<longleftrightarrow> distinct (map fst ts) \<and> (\<forall>t \<in> fst ` set ts. t < n)"

definition tasks_ok :: "'k Center \<Rightarrow> bool" where
  "tasks_ok c \<longleftrightarrow> tasks_wf (ce_tasks c) (ce_next_task c)
    \<and> (\<forall>job t. handle_of c job = Some t \<longrightarrow> (t, job) \<in> set (ce_tasks c))"

lemma set_zstate_simps [simp]:
  "ce_state (set_zstate r z c) = ce_state c" "ce_heap (set_zstate r z c) = zset r z (ce_heap c)"
  "ce_tasks (set_zstate r z c) = ce_tasks c" "ce_next_task (set_zstate r z c) = ce_next_task c"
  "ce_writes (set_zstate r z c) = ce_writes c" "ce_poisoned (set_zstate r z c) = ce_poisoned c"
  "ce_updates (set_zstate r z c) = ce_updates c" "ce_update_open (set_zstate r z c) = ce_update_open c"
  by (simp_all add: set_zstate_def)

lemma write_to_simps [simp]:
  "ce_state (write_to io f c) = ce_state c" "ce_heap (write_to io f c) = ce_heap c"
  "ce_tasks (write_to io f c) = ce_tasks c" "ce_next_task (write_to io f c) = ce_next_task c"
  "ce_poisoned (write_to io f c) = ce_poisoned c" "ce_updates (write_to io f c) = ce_updates c"
  "ce_writes (write_to io f c) = (if io then ce_writes c @ [f] else ce_writes c)"
  by (simp_all add: write_to_def)

lemma abort_task_simps [simp]:
  "ce_state (abort_task t c) = ce_state c" "ce_heap (abort_task t c) = ce_heap c"
  "ce_next_task (abort_task t c) = ce_next_task c" "ce_writes (abort_task t c) = ce_writes c"
  "ce_poisoned (abort_task t c) = ce_poisoned c" "ce_updates (abort_task t c) = ce_updates c"
  by (simp_all add: abort_task_def split: option.splits)

lemma tasks_okD: "tasks_ok c \<Longrightarrow> handle_of c job = Some t \<Longrightarrow> (t, job) \<in> set (ce_tasks c)"
  by (simp add: tasks_ok_def)

lemma map_of_task: "tasks_ok c \<Longrightarrow> (t, job) \<in> set (ce_tasks c) \<Longrightarrow> map_of (ce_tasks c) t = Some job"
  by (simp add: tasks_ok_def tasks_wf_def)

lemma task_job: "tasks_ok c \<Longrightarrow> (t, job) \<in> set (ce_tasks c) \<Longrightarrow> (t, job') \<in> set (ce_tasks c) \<Longrightarrow> job = job'"
  using map_of_task [of c t job] map_of_task [of c t job'] by simp

lemma tasks_wf_snoc: "tasks_wf ts n \<Longrightarrow> tasks_wf (ts @ [(n, job)]) (Suc n)"
  by (fastforce simp: tasks_wf_def)

lemma tasks_wf_filter: "tasks_wf ts n \<Longrightarrow> tasks_wf (filter P ts) n"
  by (auto simp: tasks_wf_def distinct_map_filter)

lemma tasks_ok_spawn:
  assumes "tasks_ok c" "ce_tasks c' = ce_tasks c @ [(ce_next_task c, job)]" "ce_next_task c' = Suc (ce_next_task c)"
    and "\<And>j t. handle_of c' j = Some t \<Longrightarrow> handle_of c j = Some t \<or> (j = job \<and> t = ce_next_task c)"
  shows "tasks_ok c'"
  using assms tasks_wf_snoc [of "ce_tasks c" "ce_next_task c" job]
  by (fastforce simp: tasks_ok_def)

text \<open>A step that drops one task, and with it the handle of that task.\<close>

lemma tasks_ok_drop:
  assumes "tasks_ok c" "ce_tasks c' = filter (\<lambda>(i, _). i \<noteq> t) (ce_tasks c)" "ce_next_task c' = ce_next_task c"
    and "\<And>j u. handle_of c' j = Some u \<Longrightarrow> handle_of c j = Some u \<and> u \<noteq> t"
  shows "tasks_ok c'"
  using assms by (auto simp: tasks_ok_def tasks_wf_filter)

lemma tasks_ok_frame:
  assumes "tasks_ok c" "ce_tasks c' = ce_tasks c" "ce_next_task c' = ce_next_task c"
    and "\<And>j t. handle_of c' j = Some t \<Longrightarrow> handle_of c j = Some t"
  shows "tasks_ok c'"
  using assms by (auto simp: tasks_ok_def)

lemma tasks_ok_State_mark_dirty: "tasks_ok c \<Longrightarrow> tasks_ok (State_mark_dirty c)"
proof (cases "st_enqueued_save (ce_state c)")
  case None
  assume ok: "tasks_ok c"
  have "handle_of (State_mark_dirty c) j = Some t \<Longrightarrow> handle_of c j = Some t \<or> (j = SaveState \<and> t = ce_next_task c)" for j t
    by (cases j) (auto simp: State_mark_dirty_def spawn_def None split: if_splits)
  then show ?thesis
    by (intro tasks_ok_spawn [OF ok, where job = "SaveState"]) (simp_all add: State_mark_dirty_def spawn_def None)
qed (simp add: State_mark_dirty_def)

lemma tasks_ok_TsigStore_mark_dirty: "tasks_ok c \<Longrightarrow> tasks_ok (TsigStore_mark_dirty c)"
proof (cases "ts_enqueued_save (st_tsig_store (ce_state c))")
  case None
  assume ok: "tasks_ok c"
  have "handle_of (TsigStore_mark_dirty c) j = Some t \<Longrightarrow> handle_of c j = Some t \<or> (j = SaveTsig \<and> t = ce_next_task c)" for j t
    by (cases j) (auto simp: TsigStore_mark_dirty_def spawn_def None split: if_splits)
  then show ?thesis
    by (intro tasks_ok_spawn [OF ok, where job = "SaveTsig"]) (simp_all add: TsigStore_mark_dirty_def spawn_def None)
qed (simp add: TsigStore_mark_dirty_def)

lemma tasks_ok_Zone_mark_dirty: "tasks_ok c \<Longrightarrow> tasks_ok (Zone_mark_dirty r c)"
proof (cases "zst_enqueued_save (zstate_at c r)")
  case None
  assume ok: "tasks_ok c"
  have "handle_of (Zone_mark_dirty r c) j = Some t \<Longrightarrow> handle_of c j = Some t \<or> (j = SaveZone r \<and> t = ce_next_task c)" for j t
    by (cases j) (auto simp: Zone_mark_dirty_def spawn_def None zset_nth split: if_splits)
  then show ?thesis
    by (intro tasks_ok_spawn [OF ok, where job = "SaveZone r"]) (simp_all add: Zone_mark_dirty_def spawn_def None)
qed (simp add: Zone_mark_dirty_def)

section \<open>Running the tasks\<close>

lemma handle_of_job:
  "tasks_ok c \<Longrightarrow> handle_of c j = Some t \<Longrightarrow> handle_of c j' = Some t \<Longrightarrow> j = j'"
  using tasks_okD task_job by blast

lemma tasks_ok_release:
  assumes ok: "tasks_ok c" and t: "handle_of c job = Some t \<or> (t, job) \<in> set (ce_tasks c)"
    and c': "ce_tasks c' = filter (\<lambda>(i, _). i \<noteq> t) (ce_tasks c)" "ce_next_task c' = ce_next_task c"
    and h: "\<And>j. handle_of c' j = (if j = job \<and> handle_of c job = Some t then None else handle_of c j)"
  shows "tasks_ok c'"
proof (rule tasks_ok_drop [OF ok c'])
  fix j u assume u: "handle_of c' j = Some u"
  then have c: "handle_of c j = Some u" using h [of j] by (auto split: if_splits)
  moreover have "u \<noteq> t"
  proof
    assume "u = t"
    with c t ok have "j = job"
      using task_job [OF ok] tasks_okD [OF ok] by blast
    with u h [of j] c \<open>u = t\<close> show False by simp
  qed
  ultimately show "handle_of c j = Some u \<and> u \<noteq> t" by simp
qed

lemma run_save_state:
  assumes "tasks_ok c" "(t, SaveState) \<in> set (ce_tasks c)" "\<not> ce_poisoned c"
  shows "run_save api t io c = run_state_save t io (c \<lparr> ce_tasks := filter (\<lambda>(i, _). i \<noteq> t) (ce_tasks c) \<rparr>)"
  using assms by (simp add: run_save_def map_of_task)

lemma run_save_zone:
  assumes "tasks_ok c" "(t, SaveZone r) \<in> set (ce_tasks c)" "\<not> ce_poisoned c"
  shows "run_save api t io c = run_zone_save r t io (c \<lparr> ce_tasks := filter (\<lambda>(i, _). i \<noteq> t) (ce_tasks c) \<rparr>)"
  using assms by (simp add: run_save_def map_of_task)

lemma run_save_tsig:
  assumes "tasks_ok c" "(t, SaveTsig) \<in> set (ce_tasks c)" "\<not> ce_poisoned c"
  shows "run_save api t io c = run_tsig_save api t io (c \<lparr> ce_tasks := filter (\<lambda>(i, _). i \<noteq> t) (ce_tasks c) \<rparr>)"
  using assms by (simp add: run_save_def map_of_task)

lemmas run_job_defs = run_state_save_def run_zone_save_def run_tsig_save_def

lemma tasks_ok_run_save:
  assumes ok: "tasks_ok c" and np: "\<not> ce_poisoned c"
  shows "tasks_ok (run_save api t io c)"
proof (cases "map_of (ce_tasks c) t")
  case (Some job)
  then have t: "(t, job) \<in> set (ce_tasks c)" by (rule map_of_SomeD)
  show ?thesis
  proof (rule tasks_ok_release [OF ok, of job t])
    fix j
    show "handle_of (run_save api t io c) j = (if j = job \<and> handle_of c job = Some t then None else handle_of c j)"
      using Some np by (cases job; cases j) (auto simp: run_save_def run_job_defs zset_nth Let_def)
  qed (use t Some np in \<open>auto simp: run_save_def run_job_defs Let_def split: save_job.splits\<close>)
qed (simp add: run_save_def ok)

lemma SfFile_build_frame [simp]:
  "SfFile_build (s \<lparr> st_enqueued_save := x \<rparr>) = SfFile_build s"
  "SfFile_build (s \<lparr> st_tsig_store := y \<rparr>) = SfFile_build s"
  by (simp_all add: SfFile_build_def SfSpec_build_def)

lemma ZsFile_build_frame [simp]: "ZsFile_build (z \<lparr> zst_enqueued_save := x \<rparr>) = ZsFile_build z"
  by (simp add: ZsFile_build_def ZsSpec_build_def)

lemma TsFile_build_frame [simp]: "TsFile_build api (s \<lparr> ts_enqueued_save := x \<rparr>) = TsFile_build api s"
  by (simp add: TsFile_build_def TsSpec_build_def)

lemma mark_dirty_heap_length [simp]:
  "length (ce_heap (State_mark_dirty c)) = length (ce_heap c)"
  "length (ce_heap (Zone_mark_dirty r c)) = length (ce_heap c)"
  by (simp_all add: State_mark_dirty_def Zone_mark_dirty_def spawn_def)

definition center_ok :: "'k Center \<Rightarrow> bool" where
  "center_ok c \<longleftrightarrow> tasks_ok c \<and> \<not> ce_poisoned c"

lemma mark_dirty_poison [simp]:
  "ce_poisoned (State_mark_dirty c) = ce_poisoned c"
  "ce_poisoned (Zone_mark_dirty r c) = ce_poisoned c"
  "ce_poisoned (TsigStore_mark_dirty c) = ce_poisoned c"
  by (simp_all add: State_mark_dirty_def Zone_mark_dirty_def TsigStore_mark_dirty_def spawn_def)

lemma center_ok_mark_dirty [simp]:
  "center_ok c \<Longrightarrow> center_ok (State_mark_dirty c)"
  "center_ok c \<Longrightarrow> center_ok (Zone_mark_dirty r c)"
  "center_ok c \<Longrightarrow> center_ok (TsigStore_mark_dirty c)"
  by (simp_all add: center_ok_def tasks_ok_State_mark_dirty tasks_ok_Zone_mark_dirty tasks_ok_TsigStore_mark_dirty)

lemma center_ok_state_task:
  "center_ok c \<Longrightarrow> st_enqueued_save (ce_state c) = Some t \<Longrightarrow> (t, SaveState) \<in> set (ce_tasks c)"
  using tasks_okD [of c SaveState t] by (simp add: center_ok_def)

lemma center_ok_zone_task:
  "center_ok c \<Longrightarrow> r < length (ce_heap c) \<Longrightarrow> zst_enqueued_save (zstate_at c r) = Some t \<Longrightarrow> (t, SaveZone r) \<in> set (ce_tasks c)"
  using tasks_okD [of c "SaveZone r" t] by (simp add: center_ok_def)

lemma center_ok_tsig_task:
  "center_ok c \<Longrightarrow> ts_enqueued_save (st_tsig_store (ce_state c)) = Some t \<Longrightarrow> (t, SaveTsig) \<in> set (ce_tasks c)"
  using tasks_okD [of c SaveTsig t] by (simp add: center_ok_def)

interpretation state_saver: saver "\<lambda>c. st_enqueued_save (ce_state c)"
  "\<lambda>t c. (t, SaveState) \<in> set (ce_tasks c)" state_content ce_writes State_mark_dirty "run_save api"
  "\<lambda>io c. snd (state_save_now io c)" center_ok for api
proof (unfold_locales, goal_cases)
  case (2 c)
  then show ?case by simp
next
  case (7 c t io)
  then show ?case
    using center_ok_state_task [OF 7]
    by (simp add: run_save_state center_ok_def run_state_save_def Let_def state_content_def)
next
  case (8 c t io)
  then show ?case
    by (simp add: run_save_state center_ok_def run_state_save_def state_content_def)
qed (auto simp: center_ok_state_task State_mark_dirty_def spawn_def state_content_def state_save_now_def
    center_ok_def Let_def)

interpretation zone_saver: saver "\<lambda>c. zst_enqueued_save (zstate_at c r)"
  "\<lambda>t c. (t, SaveZone r) \<in> set (ce_tasks c)" "zone_content r" ce_writes "Zone_mark_dirty r" "run_save api"
  "\<lambda>io c. snd (zone_save_state_now r io c)" "\<lambda>c. center_ok c \<and> r < length (ce_heap c)" for r api
proof (unfold_locales, goal_cases)
  case (1 c t)
  then show ?case using center_ok_zone_task by blast
next
  case (2 c)
  then show ?case by simp
next
  case (7 c t io)
  then show ?case
    using center_ok_zone_task [of c r t]
    by (simp add: run_save_zone center_ok_def run_zone_save_def Let_def zone_content_def)
next
  case (8 c t io)
  then show ?case
    by (simp add: run_save_zone center_ok_def run_zone_save_def zone_content_def)
qed (auto simp: Zone_mark_dirty_def spawn_def zone_content_def zone_save_state_now_def center_ok_def Let_def)

interpretation tsig_saver: saver "\<lambda>c. ts_enqueued_save (st_tsig_store (ce_state c))"
  "\<lambda>t c. (t, SaveTsig) \<in> set (ce_tasks c)" "tsig_content api" ce_writes TsigStore_mark_dirty "run_save api"
  "\<lambda>io c. snd (tsig_save_now api io c)" center_ok for api
proof (unfold_locales, goal_cases)
  case (2 c)
  then show ?case by simp
next
  case (7 c t io)
  then show ?case
    using center_ok_tsig_task [OF 7]
    by (simp add: run_save_tsig center_ok_def run_tsig_save_def Let_def tsig_content_def)
next
  case (8 c t io)
  then show ?case
    by (simp add: run_save_tsig center_ok_def run_tsig_save_def tsig_content_def)
qed (auto simp: center_ok_tsig_task TsigStore_mark_dirty_def spawn_def tsig_content_def tsig_save_now_def
    center_ok_def Let_def)

end
