(* ===== verification/Light_Weight_Zone.thy ===== *)
theory Light_Weight_Zone
  imports Zm_World
begin

text \<open>
  The light-weight store of a zone (\<open>common/light_weight_zone.rs\<close>): a tree of the record sets
  of each name, without versions. Its contract as a store of record sets by name and type is a
  locale; the operations are proved to meet it, so that a sequence of writes leaves exactly the
  record sets an abstract map would hold.

  All handles of a store (readers, writers and the nodes of a writer) share one tree and one
  counter, which are the state. Making the name of a child node and the order of the names, in which
  a walk goes through the tree, belong to the \<open>domain\<close> crate; here a walk goes through the
  list that represents the tree.
\<close>

section \<open>Record sets\<close>

record SharedRrset =
  sr_rtype :: rtype
  sr_ttl :: ttl
  sr_data :: "zone_rdata list"

definition Rtype_DNSKEY :: rtype where "Rtype_DNSKEY = Rtype_other 48"
definition Rtype_RRSIG :: rtype where "Rtype_RRSIG = Rtype_other 46"
definition Rtype_NSEC :: rtype where "Rtype_NSEC = Rtype_other 47"
definition Rtype_NSEC3 :: rtype where "Rtype_NSEC3 = Rtype_other 50"
definition Rtype_NSEC3PARAM :: rtype where "Rtype_NSEC3PARAM = Rtype_other 51"
definition Rtype_CDS :: rtype where "Rtype_CDS = Rtype_other 59"
definition Rtype_CDNSKEY :: rtype where "Rtype_CDNSKEY = Rtype_other 60"

lemmas rtype_defs = Rtype_DNSKEY_def Rtype_RRSIG_def Rtype_NSEC_def Rtype_NSEC3_def
  Rtype_NSEC3PARAM_def Rtype_CDS_def Rtype_CDNSKEY_def

text \<open>A set in which elements of the same type count as equal (\<open>HashedByRtypeSharedRrset\<close>):
  a list with at most one element of a type. \<open>HashSet::replace\<close> puts the new element in the
  place of the equal one.\<close>

fun rrsets_replace :: "SharedRrset \<Rightarrow> SharedRrset list \<Rightarrow> SharedRrset list" where
  "rrsets_replace rrset [] = [rrset]"
| "rrsets_replace rrset (r # rs) =
    (if sr_rtype r = sr_rtype rrset then rrset # rs else r # rrsets_replace rrset rs)"

section \<open>The store\<close>

record LightWeightZone =
  lw_root :: dname
  lw_tree :: "(dname, SharedRrset list) hmap"
  lw_skipped :: "64 word"
  lw_skip_signed :: bool

definition LightWeightZone_new :: "dname \<Rightarrow> bool \<Rightarrow> LightWeightZone" where
  "LightWeightZone_new root skip_signed =
    \<lparr>lw_root = root, lw_tree = [], lw_skipped = 0, lw_skip_signed = skip_signed\<rparr>"

text \<open>A question about a name that is not there has an empty answer; no name is out of the zone.\<close>

definition lw_query :: "LightWeightZone \<Rightarrow> dname \<Rightarrow> rtype \<Rightarrow> unit + answer_content" where
  "lw_query z qname qtype = Inr (case hm_get (lw_tree z) qname of
      None \<Rightarrow> AcOther
    | Some rrsets \<Rightarrow> (case find (\<lambda>rrset. sr_rtype rrset = qtype) rrsets of
        None \<Rightarrow> AcOther
      | Some rrset \<Rightarrow> AcData \<lparr>rr_ttl = sr_ttl rrset, rr_data = sr_data rrset\<rparr>))"

definition lw_walk :: "LightWeightZone \<Rightarrow> (dname \<times> SharedRrset) list" where
  "lw_walk z = concat (map (\<lambda>(n, rrsets). map (Pair n) rrsets) (lw_tree z))"

text \<open>Opening resets the counter of skipped records and gives the node of the apex; committing
  does nothing and captures no difference.\<close>

definition lw_open :: "LightWeightZone \<Rightarrow> dname \<times> LightWeightZone" where
  "lw_open z = (lw_root z, z\<lparr>lw_skipped := 0\<rparr>)"

definition lw_commit :: "bool \<Rightarrow> LightWeightZone \<Rightarrow> InMemoryZoneDiff option \<times> LightWeightZone" where
  "lw_commit bump_soa_serial z = (None, z)"

text \<open>The child of a node; a name that gets too long panics.\<close>

definition lw_update_child :: "(string \<Rightarrow> dname \<Rightarrow> dname option) \<Rightarrow> string \<Rightarrow> dname
    \<Rightarrow> (unit, dname) outcome" where
  "lw_update_child append_origin lbl name =
    (case append_origin lbl name of None \<Rightarrow> Panic | Some child \<Rightarrow> Ok child)"

definition lw_get_rrset :: "dname \<Rightarrow> rtype \<Rightarrow> LightWeightZone \<Rightarrow> SharedRrset option" where
  "lw_get_rrset name t z = Option.bind (hm_get (lw_tree z) name) (find (\<lambda>rrset. sr_rtype rrset = t))"

definition skipped_types :: "rtype list" where
  "skipped_types = [Rtype_DNSKEY, Rtype_RRSIG, Rtype_NSEC, Rtype_NSEC3, Rtype_NSEC3PARAM]"

definition lw_update_rrset :: "dname \<Rightarrow> SharedRrset \<Rightarrow> LightWeightZone \<Rightarrow> LightWeightZone" where
  "lw_update_rrset name rrset z =
    (if sr_rtype rrset \<in> set skipped_types \<and> lw_skip_signed z
     then z\<lparr>lw_skipped := lw_skipped z + 1\<rparr>
     else z\<lparr>lw_tree := (case hm_get (lw_tree z) name of
         None \<Rightarrow> hm_insert name [rrset] (lw_tree z)
       | Some rrsets \<Rightarrow> hm_insert name (rrsets_replace rrset rrsets) (lw_tree z))\<rparr>)"

definition lw_remove_rrset :: "dname \<Rightarrow> rtype \<Rightarrow> LightWeightZone \<Rightarrow> LightWeightZone" where
  "lw_remove_rrset name t z = (case hm_get (lw_tree z) name of
      None \<Rightarrow> z
    | Some rrsets \<Rightarrow> z\<lparr>lw_tree := hm_insert name (filter (\<lambda>rrset. sr_rtype rrset \<noteq> t) rrsets) (lw_tree z)\<rparr>)"

text \<open>On any node, the whole tree is cleared.\<close>

definition lw_remove_all :: "dname \<Rightarrow> LightWeightZone \<Rightarrow> LightWeightZone" where
  "lw_remove_all name z = z\<lparr>lw_tree := []\<rparr>"

definition lw_make_regular :: "dname \<Rightarrow> LightWeightZone \<Rightarrow> LightWeightZone" where
  "lw_make_regular name z = z"

definition lw_make_zone_cut :: "dname \<Rightarrow> 'c \<Rightarrow> LightWeightZone \<Rightarrow> LightWeightZone" where
  "lw_make_zone_cut name zone_cut z = z"

definition lw_make_cname :: "dname \<Rightarrow> 'r \<Rightarrow> LightWeightZone \<Rightarrow> LightWeightZone" where
  "lw_make_cname name cname z = z"

section \<open>The contract of a store\<close>

text \<open>What a writer does to a store, and to the map it stands for when some types are refused.\<close>

datatype node_write = UpdateRrset dname SharedRrset | RemoveRrset dname rtype | RemoveAll dname

type_synonym rrset_map = "dname \<times> rtype \<rightharpoonup> SharedRrset"

fun map_write :: "(rtype \<Rightarrow> bool) \<Rightarrow> node_write \<Rightarrow> rrset_map \<Rightarrow> rrset_map" where
  "map_write refused (UpdateRrset n r) m = (if refused (sr_rtype r) then m else m((n, sr_rtype r) \<mapsto> r))"
| "map_write refused (RemoveRrset n t) m = m((n, t) := None)"
| "map_write refused (RemoveAll n) m = Map.empty"

text \<open>A store of record sets by name and type, some types of which it may refuse.\<close>

locale rrset_store =
  fixes get :: "dname \<Rightarrow> rtype \<Rightarrow> 'z \<Rightarrow> SharedRrset option"
    and upd :: "dname \<Rightarrow> SharedRrset \<Rightarrow> 'z \<Rightarrow> 'z"
    and del :: "dname \<Rightarrow> rtype \<Rightarrow> 'z \<Rightarrow> 'z"
    and clear :: "dname \<Rightarrow> 'z \<Rightarrow> 'z"
    and refuses :: "'z \<Rightarrow> rtype \<Rightarrow> bool"
    and wf :: "'z \<Rightarrow> bool"
  assumes get_upd: "wf z \<Longrightarrow> get n t (upd m r z) =
        (if n = m \<and> t = sr_rtype r \<and> \<not> refuses z t then Some r else get n t z)"
    and get_del: "wf z \<Longrightarrow> get n t (del m u z) = (if n = m \<and> t = u then None else get n t z)"
    and get_clear: "get n t (clear m z) = None"
    and wf_upd: "wf z \<Longrightarrow> wf (upd m r z)"
    and wf_del: "wf z \<Longrightarrow> wf (del m u z)"
    and wf_clear: "wf (clear m z)"
    and refuses_upd: "refuses (upd m r z) = refuses z"
    and refuses_del: "refuses (del m u z) = refuses z"
    and refuses_clear: "refuses (clear m z) = refuses z"
begin

text \<open>One write on the store, and what it stands for.\<close>

fun store_write :: "node_write \<Rightarrow> 'z \<Rightarrow> 'z" where
  "store_write (UpdateRrset n r) = upd n r"
| "store_write (RemoveRrset n t) = del n t"
| "store_write (RemoveAll n) = clear n"

definition contents :: "'z \<Rightarrow> rrset_map" where
  "contents z = (\<lambda>(n, t). get n t z)"

lemma write_step:
  assumes "wf z"
  shows "wf (store_write w z)" "refuses (store_write w z) = refuses z"
    "contents (store_write w z) = map_write (refuses z) w (contents z)"
  using assms by (cases w; auto simp: contents_def fun_eq_iff get_upd get_del get_clear wf_upd wf_del wf_clear
    refuses_upd refuses_del refuses_clear)+

lemma writes_refine:
  "wf z \<Longrightarrow> wf (fold store_write ws z) \<and> refuses (fold store_write ws z) = refuses z
     \<and> contents (fold store_write ws z) = fold (map_write (refuses z)) ws (contents z)"
proof (induction ws arbitrary: z)
  case (Cons w ws)
  then show ?case using write_step [OF Cons.prems, of w] Cons.IH [of "store_write w z"] by simp
qed simp

end

section \<open>The light-weight store meets it\<close>

text \<open>Names and types occur once.\<close>

definition lw_wf :: "LightWeightZone \<Rightarrow> bool" where
  "lw_wf z \<longleftrightarrow> hm_wf (lw_tree z) \<and> (\<forall>(n, rs) \<in> set (lw_tree z). distinct (map sr_rtype rs))"

definition lw_refuses :: "LightWeightZone \<Rightarrow> rtype \<Rightarrow> bool" where
  "lw_refuses z t \<longleftrightarrow> t \<in> set skipped_types \<and> lw_skip_signed z"

lemma find_replace:
  "find (\<lambda>r. sr_rtype r = t) (rrsets_replace rrset rs) =
     (if t = sr_rtype rrset then Some rrset else find (\<lambda>r. sr_rtype r = t) rs)"
  by (induction rs) auto

lemma types_replace:
  "map sr_rtype (rrsets_replace rrset rs) =
     (if sr_rtype rrset \<in> sr_rtype ` set rs then map sr_rtype rs else map sr_rtype rs @ [sr_rtype rrset])"
  by (induction rs) auto

lemma find_filter:
  "find (\<lambda>r. sr_rtype r = t) (filter (\<lambda>r. sr_rtype r \<noteq> u) rs) =
     (if t = u then None else find (\<lambda>r. sr_rtype r = t) rs)"
  by (induction rs) auto

lemma hm_insert_set: "(k, v) \<in> set (hm_insert a b m) \<Longrightarrow> (k, v) = (a, b) \<or> (k, v) \<in> set m"
  unfolding hm_insert_def by (induction m) (auto split: if_splits)

lemma lw_wfD: "lw_wf z \<Longrightarrow> hm_get (lw_tree z) n = Some rs \<Longrightarrow> distinct (map sr_rtype rs)"
  unfolding lw_wf_def by (auto dest!: hm_get_in_set)

lemma lw_wf_insert:
  assumes "lw_wf z" "distinct (map sr_rtype rs)"
  shows "lw_wf (z\<lparr>lw_tree := hm_insert n rs (lw_tree z)\<rparr>)"
  using assms hm_insert_set unfolding lw_wf_def by fastforce

lemma lw_wf_skipped [simp]: "lw_wf (z\<lparr>lw_skipped := k\<rparr>) = lw_wf z"
  by (simp add: lw_wf_def)

interpretation lw: rrset_store lw_get_rrset lw_update_rrset lw_remove_rrset lw_remove_all lw_refuses lw_wf
proof
  fix z n t m r
  show "lw_get_rrset n t (lw_update_rrset m r z) =
      (if n = m \<and> t = sr_rtype r \<and> \<not> lw_refuses z t then Some r else lw_get_rrset n t z)"
    by (auto simp: lw_get_rrset_def lw_update_rrset_def lw_refuses_def find_replace split: option.splits)
next
  fix z n t m u
  show "lw_get_rrset n t (lw_remove_rrset m u z) = (if n = m \<and> t = u then None else lw_get_rrset n t z)"
    by (auto simp: lw_get_rrset_def lw_remove_rrset_def find_filter split: option.splits)
next
  fix z m r assume "lw_wf z"
  then show "lw_wf (lw_update_rrset m r z)"
    using lw_wfD [of z m] lw_wf_insert [of z] unfolding lw_update_rrset_def
    by (auto simp: types_replace split: option.splits)
next
  fix z m u assume "lw_wf z"
  then show "lw_wf (lw_remove_rrset m u z)"
    using lw_wfD [of z m] lw_wf_insert [of z] unfolding lw_remove_rrset_def
    by (auto simp: distinct_map_filter split: option.splits)
qed (auto simp: lw_get_rrset_def lw_remove_all_def lw_wf_def lw_refuses_def lw_update_rrset_def
    lw_remove_rrset_def fun_eq_iff split: option.splits)

section \<open>Properties\<close>

text \<open>The handle of a writer at a node is its name, so a write names the node.\<close>

fun lw_write :: "node_write \<Rightarrow> LightWeightZone \<Rightarrow> LightWeightZone" where
  "lw_write (UpdateRrset n r) z = lw_update_rrset n r z"
| "lw_write (RemoveRrset n t) z = lw_remove_rrset n t z"
| "lw_write (RemoveAll n) z = lw_remove_all n z"

lemma lw_store_write: "lw.store_write = lw_write"
proof (intro ext)
  fix w z show "lw.store_write w z = lw_write w z" by (cases w) simp_all
qed

lemma set_lw_walk: "set (lw_walk z) = (\<Union>(n, rs) \<in> set (lw_tree z). Pair n ` set rs)"
  by (auto simp: lw_walk_def)

lemma find_type_iff:
  "distinct (map sr_rtype rs) \<Longrightarrow> find (\<lambda>r. sr_rtype r = t) rs = Some r \<longleftrightarrow> r \<in> set rs \<and> sr_rtype r = t"
  by (induction rs) auto

lemma walk_iff:
  assumes "lw_wf z"
  shows "(n, r) \<in> set (lw_walk z) \<longleftrightarrow> lw_get_rrset n (sr_rtype r) z = Some r" "distinct (lw_walk z)"
proof -
  have wf: "hm_wf (lw_tree z)" using assms by (simp add: lw_wf_def)
  show "(n, r) \<in> set (lw_walk z) \<longleftrightarrow> lw_get_rrset n (sr_rtype r) z = Some r"
    using lw_wfD [OF assms, of n]
    by (fastforce simp: set_lw_walk lw_get_rrset_def bind_eq_Some_conv find_type_iff hm_get_iff [OF wf] split: prod.splits)
  have "distinct (concat (map (\<lambda>(n, rs). map (Pair n) rs) t))"
    if "hm_wf t" "\<forall>(n, rs) \<in> set t. distinct (map sr_rtype rs)" for t
    using that
  proof (induction t)
    case (Cons a t)
    obtain n rs where a: "a = (n, rs)" by fastforce
    have "distinct rs" "n \<notin> fst ` set t"
      using Cons.prems by (auto simp: a distinct_map hm_get_None_iff hm_keys_def)
    then show ?case using Cons by (auto simp: a distinct_map inj_on_def image_iff)
  qed simp
  from this [of "lw_tree z"] assms show "distinct (lw_walk z)" unfolding lw_walk_def lw_wf_def by simp
qed

text \<open>C31: after any sequence of writes, a light-weight zone holds exactly what a map from names and
  types to record sets would hold, and answers, walks and single look-ups all agree with that map:
  a walk lists each of its record sets once.\<close>

theorem light_weight_zone_refines:
  "let z = fold lw_write ws (LightWeightZone_new root skip_signed);
       m = fold (map_write (\<lambda>t. skip_signed \<and> t \<in> set skipped_types)) ws Map.empty
   in (\<forall>n t. lw_get_rrset n t z = m (n, t))
    \<and> (\<forall>n t. lw_query z n t = Inr (case m (n, t) of None \<Rightarrow> AcOther
         | Some r \<Rightarrow> AcData \<lparr>rr_ttl = sr_ttl r, rr_data = sr_data r\<rparr>))
    \<and> set (lw_walk z) = {(n, r). m (n, sr_rtype r) = Some r} \<and> distinct (lw_walk z)"
proof -
  let ?new = "LightWeightZone_new root skip_signed"
  let ?z = "fold lw_write ws ?new" and ?m = "fold (map_write (\<lambda>t. skip_signed \<and> t \<in> set skipped_types)) ws Map.empty"
  have f: "fold lw.store_write ws ?new = ?z"
    by (simp only: lw_store_write)
  have "lw_wf ?new" "lw.contents ?new = Map.empty" "lw_refuses ?new = (\<lambda>t. skip_signed \<and> t \<in> set skipped_types)"
    by (auto simp: lw_wf_def LightWeightZone_new_def lw.contents_def lw_get_rrset_def lw_refuses_def fun_eq_iff)
  with lw.writes_refine [of ?new ws] have wf: "lw_wf ?z" and c: "lw.contents ?z = ?m"
    by (simp_all add: f)
  have g: "lw_get_rrset n t ?z = ?m (n, t)" for n t
    using c by (auto simp: lw.contents_def fun_eq_iff)
  have q: "lw_query ?z n t = Inr (case ?m (n, t) of None \<Rightarrow> AcOther
         | Some r \<Rightarrow> AcData \<lparr>rr_ttl = sr_ttl r, rr_data = sr_data r\<rparr>)" for n t
    unfolding g [symmetric] by (auto simp: lw_query_def lw_get_rrset_def split: option.splits)
  have "set (lw_walk ?z) = {(n, r). ?m (n, sr_rtype r) = Some r}"
    using walk_iff(1) [OF wf] g by auto
  then show ?thesis using g q walk_iff(2) [OF wf] by (simp only: Let_def) blast
qed

end
