(* ===== verification/Zone_Signer.thy ===== *)
theory Zone_Signer
  imports Commands Center Light_Weight_Zone
begin

text \<open>
  The zone signer (\<open>units/zone_signer.rs\<close>): its record of recent signing operations, the
  division of the work among threads, and one signing operation from the look-up of the zone to
  the event that it is signed.

  Generating denial records and signatures, sorting records, reading keys and building a store
  belong to the \<open>domain\<close> crate and to files; they are parameters. Signatures and records keep
  no internal structure that the code does not look at. Connections to HSMs are in \<open>Hsm\<close>. The
  semaphore of concurrent operations (commands are handled one at a time) and the logging are
  left out.
\<close>

section \<open>The status of a signing operation\<close>

record RequestedStatus =
  rq_requested_at :: instant

record InProgressStatus =
  ip_requested_at :: instant
  ip_zone_serial :: serial
  ip_started_at :: instant
  ip_unsigned_rr_count :: "nat option"
  ip_walk_time :: "duration option"
  ip_sort_time :: "duration option"
  ip_denial_rr_count :: "64 word option"
  ip_denial_time :: "duration option"
  ip_rrsig_count :: "nat option"
  ip_rrsig_reused_count :: "nat option"
  ip_rrsig_time :: "duration option"
  ip_insertion_time :: "duration option"
  ip_total_time :: "duration option"
  ip_threads_used :: "nat option"

record FinishedStatus =
  fi_requested_at :: instant
  fi_started_at :: instant
  fi_zone_serial :: serial
  fi_unsigned_rr_count :: nat
  fi_walk_time :: duration
  fi_sort_time :: duration
  fi_denial_rr_count :: "64 word"
  fi_denial_time :: duration
  fi_rrsig_count :: nat
  fi_rrsig_reused_count :: nat
  fi_rrsig_time :: duration
  fi_insertion_time :: duration
  fi_total_time :: duration
  fi_threads_used :: nat
  fi_finished_at :: instant

datatype ZoneSigningStatus =
    Requested RequestedStatus
  | InProgress InProgressStatus
  | Finished FinishedStatus

definition RequestedStatus_new :: "instant \<Rightarrow> RequestedStatus" where
  "RequestedStatus_new now = \<lparr>rq_requested_at = now\<rparr>"

definition InProgressStatus_new :: "instant \<Rightarrow> RequestedStatus \<Rightarrow> serial \<Rightarrow> InProgressStatus" where
  "InProgressStatus_new now requested_status zone_serial =
    \<lparr>ip_requested_at = rq_requested_at requested_status, ip_zone_serial = zone_serial,
     ip_started_at = now, ip_unsigned_rr_count = None, ip_walk_time = None, ip_sort_time = None,
     ip_denial_rr_count = None, ip_denial_time = None, ip_rrsig_count = None,
     ip_rrsig_reused_count = None, ip_rrsig_time = None, ip_insertion_time = None,
     ip_total_time = None, ip_threads_used = None\<rparr>"

text \<open>The fields that \<open>FinishedStatus::new\<close> unwraps are all there.\<close>

definition ip_complete :: "InProgressStatus \<Rightarrow> bool" where
  "ip_complete s \<longleftrightarrow> ip_unsigned_rr_count s \<noteq> None \<and> ip_walk_time s \<noteq> None
     \<and> ip_sort_time s \<noteq> None \<and> ip_denial_rr_count s \<noteq> None \<and> ip_denial_time s \<noteq> None
     \<and> ip_rrsig_count s \<noteq> None \<and> ip_rrsig_reused_count s \<noteq> None \<and> ip_rrsig_time s \<noteq> None
     \<and> ip_insertion_time s \<noteq> None \<and> ip_total_time s \<noteq> None \<and> ip_threads_used s \<noteq> None"

text \<open>\<open>started_at\<close> is set to the time of finishing.\<close>

definition FinishedStatus_new :: "instant \<Rightarrow> InProgressStatus \<Rightarrow> (unit, FinishedStatus) outcome" where
  "FinishedStatus_new now s = (if ip_complete s then Ok
    \<lparr>fi_requested_at = ip_requested_at s, fi_started_at = now, fi_zone_serial = ip_zone_serial s,
     fi_unsigned_rr_count = the (ip_unsigned_rr_count s), fi_walk_time = the (ip_walk_time s),
     fi_sort_time = the (ip_sort_time s), fi_denial_rr_count = the (ip_denial_rr_count s),
     fi_denial_time = the (ip_denial_time s), fi_rrsig_count = the (ip_rrsig_count s),
     fi_rrsig_reused_count = the (ip_rrsig_reused_count s), fi_rrsig_time = the (ip_rrsig_time s),
     fi_insertion_time = the (ip_insertion_time s), fi_total_time = the (ip_total_time s),
     fi_threads_used = the (ip_threads_used s), fi_finished_at = now\<rparr>
   else Panic)"

definition ZoneSigningStatus_new :: "instant \<Rightarrow> ZoneSigningStatus" where
  "ZoneSigningStatus_new now = Requested (RequestedStatus_new now)"

fun ZoneSigningStatus_start :: "instant \<Rightarrow> serial \<Rightarrow> ZoneSigningStatus
    \<Rightarrow> (unit, ZoneSigningStatus) outcome" where
  "ZoneSigningStatus_start now zone_serial (Requested s) = Ok (InProgress (InProgressStatus_new now s zone_serial))"
| "ZoneSigningStatus_start now zone_serial (InProgress s) = Ok (InProgress s)"
| "ZoneSigningStatus_start now zone_serial (Finished s) = Panic"

fun ZoneSigningStatus_finish :: "instant \<Rightarrow> ZoneSigningStatus \<Rightarrow> (unit, ZoneSigningStatus) outcome" where
  "ZoneSigningStatus_finish now (Requested s) = Panic"
| "ZoneSigningStatus_finish now (InProgress s) = (case FinishedStatus_new now s of
     Ok f \<Rightarrow> Ok (Finished f) | Err e \<Rightarrow> Err e | Panic \<Rightarrow> Panic)"
| "ZoneSigningStatus_finish now (Finished s) = Ok (Finished s)"

section \<open>The record of recent operations\<close>

record NamedZoneSigningStatus =
  nz_zone_name :: dname
  nz_status :: ZoneSigningStatus

text \<open>A \<open>VecDeque\<close>, oldest first, with the capacity it was allocated with.\<close>

record ZoneSignerStatus =
  zss_capacity :: nat
  zss_zones_being_signed :: "NamedZoneSigningStatus list"

definition MAX_SIGNING_HISTORY :: nat where
  "MAX_SIGNING_HISTORY = 100"

definition ZoneSignerStatus_default :: ZoneSignerStatus where
  "ZoneSignerStatus_default = \<lparr>zss_capacity = MAX_SIGNING_HISTORY, zss_zones_being_signed = []\<rparr>"

text \<open>\<open>rfind\<close>: the newest entry of a zone; and changing it in place.\<close>

definition zss_get :: "dname \<Rightarrow> ZoneSignerStatus \<Rightarrow> NamedZoneSigningStatus option" where
  "zss_get wanted st = find (\<lambda>v. nz_zone_name v = wanted) (rev (zss_zones_being_signed st))"

fun set_first :: "('a \<Rightarrow> bool) \<Rightarrow> 'a \<Rightarrow> 'a list \<Rightarrow> 'a list" where
  "set_first p y [] = []"
| "set_first p y (x # xs) = (if p x then y # xs else x # set_first p y xs)"

definition zss_set :: "dname \<Rightarrow> ZoneSigningStatus \<Rightarrow> ZoneSignerStatus \<Rightarrow> ZoneSignerStatus" where
  "zss_set wanted s st = st\<lparr>zss_zones_being_signed := rev (set_first (\<lambda>v. nz_zone_name v = wanted)
     \<lparr>nz_zone_name = wanted, nz_status = s\<rparr> (rev (zss_zones_being_signed st)))\<rparr>"

definition zss_enqueue :: "instant \<Rightarrow> dname \<Rightarrow> ZoneSignerStatus \<Rightarrow> ZoneSignerStatus" where
  "zss_enqueue now zone_name st =
    (let kept = (if length (zss_zones_being_signed st) = zss_capacity st
           then tl (zss_zones_being_signed st) else zss_zones_being_signed st)
     in st\<lparr>zss_zones_being_signed :=
       kept @ [\<lparr>nz_zone_name = zone_name, nz_status = ZoneSigningStatus_new now\<rparr>]\<rparr>)"

definition zss_start :: "instant \<Rightarrow> dname \<Rightarrow> serial \<Rightarrow> ZoneSignerStatus \<Rightarrow> ZoneSignerStatus" where
  "zss_start now zone_name zone_serial st = (case map_option nz_status (zss_get zone_name st) of
      Some (Requested s) \<Rightarrow>
        (case ZoneSigningStatus_start now zone_serial (Requested s) of
           Ok s' \<Rightarrow> zss_set zone_name s' st | _ \<Rightarrow> st)
    | _ \<Rightarrow> st)"

definition zss_update ::
    "dname \<Rightarrow> (InProgressStatus \<Rightarrow> InProgressStatus) \<Rightarrow> ZoneSignerStatus \<Rightarrow> ZoneSignerStatus" where
  "zss_update zone_name cb st = (case map_option nz_status (zss_get zone_name st) of
      Some (InProgress s) \<Rightarrow> zss_set zone_name (InProgress (cb s)) st
    | _ \<Rightarrow> st)"

definition zss_finish :: "instant \<Rightarrow> dname \<Rightarrow> ZoneSignerStatus \<Rightarrow> (unit, unit) outcome \<times> ZoneSignerStatus" where
  "zss_finish now zone_name st = (case map_option nz_status (zss_get zone_name st) of
      Some (InProgress s) \<Rightarrow>
        (case ZoneSigningStatus_finish now (InProgress s) of
           Ok s' \<Rightarrow> (Ok (), zss_set zone_name s' st)
         | Err e \<Rightarrow> (Err e, st)
         | Panic \<Rightarrow> (Panic, st))
    | _ \<Rightarrow> (Ok (), st))"

section \<open>Threads and chunks\<close>

text \<open>The number of threads and of owners per thread; the division panics without threads.\<close>

definition determine_signing_concurrency :: "nat \<Rightarrow> nat \<Rightarrow> (unit, nat \<times> nat) outcome" where
  "determine_signing_concurrency max_concurrent rr_count =
    (let parallelism = (if rr_count < 1024 then (if rr_count \<ge> 2 then 2 else 1) else max_concurrent);
         parallelism = min parallelism max_concurrent
     in if parallelism = 0 then Panic else Ok (parallelism, rr_count div parallelism))"

text \<open>Skipping the owners of the threads before; \<open>None\<close> when the data ends.\<close>

fun skip_owners :: "nat \<Rightarrow> 'o list \<Rightarrow> 'o list option" where
  "skip_owners 0 owners = Some owners"
| "skip_owners (Suc k) [] = None"
| "skip_owners (Suc k) (_ # owners) = skip_owners k owners"

text \<open>The loop of a thread, which has signed \<open>n\<close> owners: the signatures it sent and its result.\<close>

fun chunk_loop :: "bool \<Rightarrow> nat \<Rightarrow> ('o \<Rightarrow> string + 'g list) \<Rightarrow> nat \<Rightarrow> 'o list
    \<Rightarrow> 'g list list \<times> (string + unit)" where
  "chunk_loop is_last_chunk chunk_size sign n [] = ([], Inr ())"
| "chunk_loop is_last_chunk chunk_size sign n (owner_rrs # owners) =
    (if \<not> is_last_chunk \<and> n = chunk_size then ([], Inr ())
     else case sign owner_rrs of
       Inl err \<Rightarrow> ([], Inl err)
     | Inr rrsigs \<Rightarrow>
        (let (sent, res) = chunk_loop is_last_chunk chunk_size sign (n + 1) owners
         in (if rrsigs = [] then sent else rrsigs # sent, res)))"

definition sign_rr_chunk :: "bool \<Rightarrow> nat \<Rightarrow> ('o \<Rightarrow> string + 'g list) \<Rightarrow> 'o list \<Rightarrow> nat
    \<Rightarrow> 'g list list \<times> (string + unit)" where
  "sign_rr_chunk is_last_chunk chunk_size sign owners thread_idx =
    (case skip_owners (thread_idx * chunk_size) owners of
       None \<Rightarrow> ([], Inr ())
     | Some rest \<Rightarrow> chunk_loop is_last_chunk chunk_size sign 0 rest)"

text \<open>All threads: what each sent, and whether all succeeded.\<close>

definition generate_rrsigs :: "nat \<Rightarrow> nat \<Rightarrow> ('o \<Rightarrow> string + 'g list) \<Rightarrow> 'o list \<Rightarrow> 'g list list list \<times> bool" where
  "generate_rrsigs parallelism chunk_size sign owners =
    (let res = map (\<lambda>thread_idx. sign_rr_chunk (thread_idx = parallelism - 1) chunk_size sign owners thread_idx)
       [0..<parallelism]
     in (map fst res, \<forall>r \<in> set res. snd r = Inr ()))"

text \<open>The keys every owner is signed with.\<close>

definition chunk_zsks :: "bool \<Rightarrow> 'k list \<Rightarrow> 'k list" where
  "chunk_zsks treat_single_keys_as_csks keys =
    (let zsks = keys in if treat_single_keys_as_csks \<and> zsks = [] then zsks @ keys else zsks)"

section \<open>Records\<close>

record zone_record =
  zr_owner :: dname
  zr_rtype :: rtype
  zr_ttl :: ttl
  zr_rdata :: zone_rdata

text \<open>\<open>collect_zone\<close>, from the record sets in the order of \<open>walk\<close>.\<close>

definition collect_zone :: "(dname \<times> SharedRrset) list \<Rightarrow> zone_record list" where
  "collect_zone walk = concat (map (\<lambda>(owner, rrset).
     if sr_rtype rrset \<in> {Rtype_DNSKEY, Rtype_RRSIG, Rtype_NSEC, Rtype_NSEC3, Rtype_CDS, Rtype_CDNSKEY}
     then []
     else map (\<lambda>rdata. \<lparr>zr_owner = owner, zr_rtype = sr_rtype rrset, zr_ttl = sr_ttl rrset, zr_rdata = rdata\<rparr>)
       (sr_data rrset)) walk)"

section \<open>The signing configuration\<close>

datatype nsec3_ttl_mode = TtlModeSoa

record nsec3_config =
  n3_opt_out_flag :: bool
  n3_ttl_mode :: nsec3_ttl_mode
  n3_exclude_unsigned_delegations :: bool

datatype DenialConfig = DenialNsec | DenialNsec3 nsec3_config

record SigningConfig =
  sc_denial :: DenialConfig
  sc_inception :: "32 word"
  sc_expiration :: "32 word"

text \<open>\<open>GenerateNsec3Config::new\<close> leaves unsigned delegations out of opt-out zones, unless told
  otherwise.\<close>

definition parse_nsec3_config :: "Nsec3OptOutPolicy \<Rightarrow> nsec3_config" where
  "parse_nsec3_config opt_out = \<lparr>n3_opt_out_flag = (opt_out = Nsec3OptOutPolicy.FlagOnly \<or> opt_out = Nsec3OptOutPolicy.Enabled),
     n3_ttl_mode = TtlModeSoa, n3_exclude_unsigned_delegations = (opt_out \<noteq> Nsec3OptOutPolicy.FlagOnly)\<rparr>"

definition signing_config :: "32 word \<Rightarrow> PolicyVersion \<Rightarrow> SigningConfig" where
  "signing_config now policy =
    \<lparr>sc_denial = (case sg_denial (pv_signer policy) of
         SignerDenialPolicy.NSec \<Rightarrow> DenialNsec
       | SignerDenialPolicy.NSec3 opt_out \<Rightarrow> DenialNsec3 (parse_nsec3_config opt_out)),
     sc_inception = now - ucast (Duration_as_secs (sg_sig_inception_offset (pv_signer policy))),
     sc_expiration = now + ucast (Duration_as_secs (sg_sig_validity_time (pv_signer policy)))\<rparr>"

section \<open>Keys\<close>

text \<open>The key set of \<open>dnst keyset\<close>: the DNSKEY records, as far as they can be parsed, and the
  keys: the URL of the public key, whether it signs zone data, and the URL of the private key.\<close>

record keyset_key =
  kk_pub_key_name :: string
  kk_signs_zone :: bool
  kk_privref :: "string option"

record KeySetState =
  ks_dnskeys :: "zone_record option list"
  ks_keys :: "keyset_key list"

text \<open>What loading keys needs: URLs (scheme and path), the files of a key pair, KMIP URLs (with the
  identifier of the server) and pools, and key pairs.\<close>

record key_env =
  ke_url :: "string \<Rightarrow> (string \<times> string) option"
  ke_private :: "string \<Rightarrow> token option"
  ke_public :: "string \<Rightarrow> token option"
  ke_from_bytes :: "token \<Rightarrow> token \<Rightarrow> string + token"
  ke_kmip_url :: "string \<Rightarrow> string + string"
  ke_kmip_pool :: "string \<Rightarrow> bool"
  ke_kmip_pair :: "string \<Rightarrow> string \<Rightarrow> string + token"

definition load_file_key :: "key_env \<Rightarrow> dname \<Rightarrow> string \<Rightarrow> string \<Rightarrow> string + token" where
  "load_file_key ke zone_name priv_key_path pub_key_path = (case ke_private ke priv_key_path of
      None \<Rightarrow> Inl (''Failed to load private key from '' @ quoted priv_key_path)
    | Some private_key \<Rightarrow>
       (case ke_public ke pub_key_path of
          None \<Rightarrow> Inl (''Failed to load public key from '' @ quoted pub_key_path)
        | Some public_key \<Rightarrow>
           (case ke_from_bytes ke private_key public_key of
              Inl err \<Rightarrow> Inl (''Failed to create key pair for zone '' @ zone_name @ '' using key files ''
                @ pub_key_path @ '' and '' @ priv_key_path @ '': '' @ err)
            | Inr pair \<Rightarrow> Inr pair)))"

definition load_kmip_key :: "key_env \<Rightarrow> string \<Rightarrow> string \<Rightarrow> string + token" where
  "load_kmip_key ke priv_url pub_url = (case ke_kmip_url ke priv_url of
      Inl err \<Rightarrow> Inl (''Invalid KMIP URL for private key: '' @ err)
    | Inr server_id \<Rightarrow>
       (case ke_kmip_url ke pub_url of
          Inl err \<Rightarrow> Inl (''Invalid KMIP URL for public key: '' @ err)
        | Inr _ \<Rightarrow>
           (if \<not> ke_kmip_pool ke server_id
            then Inl (''No connection pool available for KMIP server '' @ quoted server_id)
            else (case ke_kmip_pair ke priv_url pub_url of
                Inl err \<Rightarrow> Inl (''Failed to create keypair for KMIP key IDs: '' @ err)
              | Inr pair \<Rightarrow> Inr pair))))"

text \<open>The loop over the keys: only keys that sign zone data and have a private key. A URL that
  cannot be parsed panics.\<close>

fun load_signing_keys :: "key_env \<Rightarrow> dname \<Rightarrow> keyset_key list \<Rightarrow> (string, token list) outcome" where
  "load_signing_keys ke zone_name [] = Ok []"
| "load_signing_keys ke zone_name (k # ks) =
    (if \<not> kk_signs_zone k then load_signing_keys ke zone_name ks
     else case kk_privref k of
       None \<Rightarrow> load_signing_keys ke zone_name ks
     | Some priv_key_name \<Rightarrow>
        (case (ke_url ke priv_key_name, ke_url ke (kk_pub_key_name k)) of
           (Some (priv_scheme, priv_path), Some (pub_scheme, pub_path)) \<Rightarrow>
             (case (if priv_scheme = ''file'' \<and> pub_scheme = ''file''
                    then load_file_key ke zone_name priv_path pub_path
                    else if priv_scheme = ''kmip'' \<and> pub_scheme = ''kmip''
                    then load_kmip_key ke priv_key_name (kk_pub_key_name k)
                    else Inl (''Using different key URI schemes ('' @ priv_scheme @ '' vs '' @ pub_scheme
                      @ '') for a public/private key pair is not supported.'')) of
                Inl err \<Rightarrow> Err err
              | Inr key \<Rightarrow> (case load_signing_keys ke zone_name ks of
                  Ok keys \<Rightarrow> Ok (key # keys) | Err e \<Rightarrow> Err e | Panic \<Rightarrow> Panic))
         | _ \<Rightarrow> Panic))"

section \<open>Signing a zone\<close>

text \<open>What signing needs from elsewhere: walking a store, empty stores, sorting and removing
  duplicates, denial records, the owners of sorted records, the signatures of one owner under keys
  and a validity period, and the contents of a store after everything was deleted, after signatures
  were added, and after records were added and the update was finished.\<close>

record 't signer_params =
  si_api :: "'t domain_api"
  si_walk :: "token \<Rightarrow> (dname \<times> SharedRrset) list"
  si_empty :: "bool \<Rightarrow> dname \<Rightarrow> token"
  si_sort :: "zone_record list \<Rightarrow> zone_record list"
  si_denial :: "dname \<Rightarrow> SigningConfig \<Rightarrow> zone_record list \<Rightarrow> string + zone_record list"
  si_owners :: "zone_record list \<Rightarrow> zone_record list list"
  si_sign :: "token list \<Rightarrow> 32 word \<Rightarrow> 32 word \<Rightarrow> zone_record list \<Rightarrow> string + zone_record list"
  si_clear :: "token \<Rightarrow> token"
  si_insert :: "token \<Rightarrow> zone_record list \<Rightarrow> token"
  si_finish :: "token \<Rightarrow> zone_record list \<Rightarrow> Soa \<times> ttl \<Rightarrow> token"

record ZoneSigner =
  zs_use_lightweight_zone_tree :: bool
  zs_max_concurrent_rrsig_generation_tasks :: nat
  zs_treat_single_keys_as_csks :: bool

text \<open>The environment of one operation: instants, durations, the clock of DNSSEC, the key set file
  (an error, or a state when it is valid JSON) and the keys.\<close>

record sign_env =
  sn_requested_at :: instant
  sn_started_at :: instant
  sn_finished_at :: instant
  sn_durations :: "nat \<Rightarrow> duration"
  sn_timestamp :: "32 word"
  sn_keyset :: "string + KeySetState option"
  sn_keys :: key_env

record ('t, 'k) sign_world =
  gw_center :: "'k Center"
  gw_trees :: "'t zone_trees"
  gw_stores :: "token list"
  gw_status :: ZoneSignerStatus
  gw_updates :: "Update list"

definition set_store :: "nat \<Rightarrow> token \<Rightarrow> ('t, 'k) sign_world \<Rightarrow> ('t, 'k) sign_world" where
  "set_store r st w = w\<lparr>gw_stores := (gw_stores w)[r := st]\<rparr>"

definition map_status :: "(ZoneSignerStatus \<Rightarrow> ZoneSignerStatus) \<Rightarrow> ('t, 'k) sign_world \<Rightarrow> ('t, 'k) sign_world" where
  "map_status f w = w\<lparr>gw_status := f (gw_status w)\<rparr>"

definition get_zone_soa :: "'t domain_api \<Rightarrow> token \<Rightarrow> dname \<Rightarrow> string + (Soa \<times> ttl)" where
  "get_zone_soa D st zone_name =
    (let err = Inl (''SOA not found for zone '' @ quoted zone_name)
     in case d_query D st zone_name Rtype_SOA of
          Inl _ \<Rightarrow> err
        | Inr AcOther \<Rightarrow> err
        | Inr (AcData rrs) \<Rightarrow> (case rr_data rrs of
              RdSoa soa # _ \<Rightarrow> Inr (soa, rr_ttl rrs)
            | _ \<Rightarrow> err))"

text \<open>The zone whose contents are signed: the unsigned one, or the published one when re-signing.\<close>

definition zone_to_sign :: "'t domain_api \<Rightarrow> dname \<Rightarrow> bool \<Rightarrow> 't zone_trees \<Rightarrow> nat option" where
  "zone_to_sign D zone_name resign trees =
    (if resign then d_tree_get D (zt_published_zones trees) zone_name Class_IN
     else d_tree_get D (zt_unsigned_zones trees) zone_name Class_IN)"

definition get_or_insert_signed_zone :: "'t signer_params \<Rightarrow> ZoneSigner \<Rightarrow> dname \<Rightarrow> ('t, 'k) sign_world
    \<Rightarrow> (string, nat) outcome \<times> ('t, 'k) sign_world" where
  "get_or_insert_signed_zone P zs zone_name w =
    (case d_tree_get (si_api P) (zt_signed_zones (gw_trees w)) zone_name Class_IN of
       Some r \<Rightarrow> (Ok r, w)
     | None \<Rightarrow>
        (let r = length (gw_stores w)
         in case d_tree_insert (si_api P) zone_name Class_IN r (zt_signed_zones (gw_trees w)) of
              Inl _ \<Rightarrow> (Panic, w)
            | Inr t \<Rightarrow> (Ok r, w\<lparr>gw_stores := gw_stores w @ [si_empty P (zs_use_lightweight_zone_tree zs) zone_name],
                gw_trees := (gw_trees w)\<lparr>zt_signed_zones := t\<rparr>\<rparr>)))"

text \<open>The policy of the zone in the global state. A poisoned lock panics; a zone that is not there
  panics with the lock held, which poisons it; a zone without a policy panics afterwards.\<close>

definition policy_of_zone :: "dname \<Rightarrow> ('t, 'k) sign_world
    \<Rightarrow> (string, PolicyVersion) outcome \<times> ('t, 'k) sign_world" where
  "policy_of_zone zone_name w =
    (let c = gw_center w
     in if ce_poisoned c then (Panic, w)
     else case hm_get (st_zones (ce_state c)) zone_name of
       None \<Rightarrow> (Panic, w\<lparr>gw_center := c\<lparr>ce_poisoned := True\<rparr>\<rparr>)
     | Some r \<Rightarrow> (case zst_policy (zn_state (ce_heap c ! r)) of None \<Rightarrow> (Panic, w) | Some p \<Rightarrow> (Ok p, w)))"

text \<open>From the collected records to the records with denial records: the keys and the records;
  \<open>None\<close> when there are no keys, which ends the operation without an error.\<close>

definition prepare_records :: "'t signer_params \<Rightarrow> sign_env \<Rightarrow> dname \<Rightarrow> SigningConfig \<Rightarrow> zone_record list
    \<Rightarrow> ('t, 'k) sign_world \<Rightarrow> (string, (token list \<times> zone_record list) option) outcome \<times> ('t, 'k) sign_world" where
  "prepare_records P env zone_name config records w =
    (case sn_keyset env of
       Inl err \<Rightarrow> (Err err, w)
     | Inr None \<Rightarrow> (Panic, w)
     | Inr (Some ks) \<Rightarrow>
        (let dnskeys = concat (map (\<lambda>r. case r of Some x \<Rightarrow> [x] | None \<Rightarrow> []) (ks_dnskeys ks))
         in and_then (load_signing_keys (sn_keys env) zone_name (ks_keys ks), w) (\<lambda>signing_keys w.
            if signing_keys = [] then (Ok None, w)
            else
              let w1 = map_status (zss_update zone_name
                    (\<lambda>s. s\<lparr>ip_sort_time := Some (sn_durations env 1)\<rparr>)) w
              in case si_denial P zone_name config (si_sort P (records @ dnskeys)) of
                   Inl err \<Rightarrow> (Err (''Failed to generate denial RRs for zone '' @ quoted zone_name @ '': '' @ err), w1)
                 | Inr unsigned_records \<Rightarrow> (Ok (Some (signing_keys, unsigned_records)),
                     map_status (zss_update zone_name (\<lambda>s. s\<lparr>
                       ip_denial_rr_count := Some (word_of_nat (length unsigned_records) - word_of_nat (length records)),
                       ip_denial_time := Some (sn_durations env 2)\<rparr>)) w1))))"

text \<open>Signing the prepared records into zone \<open>r\<close>: the threads write signatures into the cleared
  store (here in the order of the threads), also when some fail; when all succeed the records are added and the operation is finished and announced.\<close>

definition finish_signed :: "'t signer_params \<Rightarrow> sign_env \<Rightarrow> dname \<Rightarrow> nat \<Rightarrow> Soa \<times> ttl
    \<Rightarrow> zone_record list \<Rightarrow> zone_record list \<Rightarrow> ('t, 'k) sign_world \<Rightarrow> (string, unit) outcome \<times> ('t, 'k) sign_world" where
  "finish_signed P env zone_name r soa rrsigs unsigned_records w =
    (let w1 = map_status (zss_update zone_name (\<lambda>s. s\<lparr>ip_rrsig_count := Some (length rrsigs),
           ip_rrsig_reused_count := Some 0, ip_rrsig_time := Some (sn_durations env 3)\<rparr>)) w;
         w2 = set_store r (si_finish P (si_insert P (gw_stores w1 ! r) rrsigs) unsigned_records soa) w1;
         w3 = map_status (zss_update zone_name (\<lambda>s. s\<lparr>ip_insertion_time := Some (sn_durations env 4),
           ip_total_time := Some (sn_durations env 5)\<rparr>)) w2
     in case zss_finish (sn_finished_at env) zone_name (gw_status w3) of
          (Ok _, st) \<Rightarrow> (Ok (), w3\<lparr>gw_status := st,
            gw_updates := gw_updates w3 @ [ZoneSignedEvent zone_name (soa_serial (fst soa))]\<rparr>)
        | (_, st) \<Rightarrow> (Panic, w3\<lparr>gw_status := st\<rparr>))"

definition write_signed :: "'t signer_params \<Rightarrow> ZoneSigner \<Rightarrow> sign_env \<Rightarrow> dname \<Rightarrow> nat \<Rightarrow> Soa \<times> ttl
    \<Rightarrow> SigningConfig \<Rightarrow> token list \<Rightarrow> zone_record list \<Rightarrow> ('t, 'k) sign_world
    \<Rightarrow> (string, unit) outcome \<times> ('t, 'k) sign_world" where
  "write_signed P zs env zone_name r soa config keys unsigned_records w =
    (case determine_signing_concurrency (zs_max_concurrent_rrsig_generation_tasks zs)
        (length (si_owners P unsigned_records)) of
       Ok (parallelism, chunk_size) \<Rightarrow>
        (let w1 = set_store r (si_clear P (gw_stores w ! r)) (map_status
               (zss_update zone_name (\<lambda>s. s\<lparr>ip_threads_used := Some parallelism\<rparr>)) w);
             sign = si_sign P (chunk_zsks (zs_treat_single_keys_as_csks zs) keys)
               (sc_inception config) (sc_expiration config);
             (sent, signing_ok) = generate_rrsigs parallelism chunk_size sign (si_owners P unsigned_records)
         in if \<not> signing_ok then (Err ''RRSIG generation error'',
              set_store r (si_insert P (gw_stores w1 ! r) (concat (concat sent))) w1)
            else finish_signed P env zone_name r soa (concat (concat sent)) unsigned_records w1)
     | _ \<Rightarrow> (Panic, w))"

definition sign_zone :: "'t signer_params \<Rightarrow> ZoneSigner \<Rightarrow> sign_env \<Rightarrow> dname \<Rightarrow> bool
    \<Rightarrow> ('t, 'k) sign_world \<Rightarrow> (string, unit) outcome \<times> ('t, 'k) sign_world" where
  "sign_zone P zs env zone_name resign w =
    (let w1 = map_status (zss_enqueue (sn_requested_at env) zone_name) w
     in case zone_to_sign (si_api P) zone_name resign (gw_trees w1) of
          None \<Rightarrow> (Err (''Unknown zone '' @ quoted zone_name), w1)
        | Some src \<Rightarrow>
           (case get_zone_soa (si_api P) (gw_stores w1 ! src) zone_name of
              Inl err \<Rightarrow> (Err err, w1)
            | Inr soa \<Rightarrow>
               and_then (get_or_insert_signed_zone P zs zone_name
                 (map_status (zss_start (sn_started_at env) zone_name (soa_serial (fst soa))) w1)) (\<lambda>r w2.
               and_then (policy_of_zone zone_name w2) (\<lambda>policy w2.
               let config = signing_config (sn_timestamp env) policy;
                   records = collect_zone (si_walk P (gw_stores w2 ! src));
                   w3 = map_status (zss_update zone_name (\<lambda>s. s\<lparr>
                     ip_unsigned_rr_count := Some (length records), ip_walk_time := Some (sn_durations env 0)\<rparr>)) w2
               in and_then (prepare_records P env zone_name config records w3) (\<lambda>prepared w4.
                  case prepared of
                    None \<Rightarrow> (Ok (), w4)
                  | Some (keys, unsigned_records) \<Rightarrow>
                      write_signed P zs env zone_name r soa config keys unsigned_records w4)))))"

text \<open>The commands of the signer. An error of the operation is only logged; a panic ends the
  signer.\<close>

fun signer_command :: "'t signer_params \<Rightarrow> ZoneSigner \<Rightarrow> sign_env \<Rightarrow> ApplicationCommand
    \<Rightarrow> ('t, 'k) sign_world \<Rightarrow> (unit, bool) outcome \<times> ('t, 'k) sign_world" where
  "signer_command P zs env CmdTerminate w = (Ok False, w)"
| "signer_command P zs env (SignZone zone_name zone_serial) w =
    (case sign_zone P zs env zone_name (zone_serial = None) w of
       (Panic, w') \<Rightarrow> (Panic, w')
     | (_, w') \<Rightarrow> (Ok True, w'))"
| "signer_command P zs env _ w = (Ok True, w)"

section \<open>Default numbers\<close>

definition default_max_concurrent_operations :: nat where
  "default_max_concurrent_operations = 1"

text \<open>One less than the number of processors, which the environment gives (at least 1).\<close>

definition default_max_concurrent_rrsig_generation_tasks :: "nat \<Rightarrow> nat" where
  "default_max_concurrent_rrsig_generation_tasks available_parallelism = available_parallelism - 1"

end
