(* ===== verification/Zone_Server.thy ===== *)
theory Zone_Server
  imports Commands
begin

text \<open>
  The review servers and the publication server (\<open>units/zone_server.rs\<close>): seeking approval
  of a new version of a zone by running hooks, the review requests that answer them, publishing,
  the status page, and the questions, transfers and NOTIFY messages served over DNS.

  A server handles one command at a time, so a handler is one step. The tokens of \<open>Uuid::new_v4\<close>
  and whether a hook could be started are the environment of a handler; parsing a token is a
  parameter. The sockets, the DNS middleware and the logging are not modelled.
\<close>

section \<open>The server\<close>

datatype server_mode = Prepublish | Publish

datatype Source = UnsignedZones | SignedZones | PublishedZones

fun unit_name :: "server_mode \<Rightarrow> Source \<Rightarrow> string option" where
  "unit_name Prepublish UnsignedZones = Some ''RS''"
| "unit_name Prepublish SignedZones = Some ''RS2''"
| "unit_name Publish PublishedZones = Some ''PS''"
| "unit_name _ _ = None"

type_synonym review_key = "dname \<times> serial"

record ZoneServer =
  sv_mode :: server_mode
  sv_source :: Source
  sv_hooks :: "string list"
  sv_listen :: "ListenAddr list"
  sv_pending_approvals :: "(review_key, token list) hmap"
  sv_last_approvals :: "(review_key, instant) hmap"

definition ZoneServer_new :: "server_mode \<Rightarrow> Source \<Rightarrow> string list \<Rightarrow> ListenAddr list \<Rightarrow> ZoneServer" where
  "ZoneServer_new mode source hooks listen = \<lparr>sv_mode = mode, sv_source = source, sv_hooks = hooks,
     sv_listen = listen, sv_pending_approvals = [], sv_last_approvals = []\<rparr>"

text \<open>What the handlers share with the rest of the program: the trees of the center, the events
  sent to the central command, and the answers to HTTP requests.\<close>

record 't server_world =
  sw_trees :: "'t zone_trees"
  sw_updates :: "Update list"
  sw_replies :: "(token \<times> bool) list"
  sw_pages :: "(token \<times> string) list"

definition send_update :: "Update \<Rightarrow> 't server_world \<Rightarrow> 't server_world" where
  "send_update u w = w\<lparr>sw_updates := sw_updates w @ [u]\<rparr>"

section \<open>Seeking approval\<close>

definition approved_event :: "Source \<Rightarrow> dname \<Rightarrow> serial \<Rightarrow> (unit, Update) outcome" where
  "approved_event source n s = (case source of
      UnsignedZones \<Rightarrow> Ok (UnsignedZoneApprovedEvent n s)
    | SignedZones \<Rightarrow> Ok (SignedZoneApprovedEvent n s)
    | PublishedZones \<Rightarrow> Panic)"

text \<open>The loop over the hooks: each has a new token; a hook that cannot be started removes all
  pending approvals of the version, those of the hooks before it included.\<close>

fun run_hooks :: "(nat \<Rightarrow> token \<times> bool) \<Rightarrow> nat \<Rightarrow> string list \<Rightarrow> review_key
    \<Rightarrow> (review_key, token list) hmap \<Rightarrow> (review_key, token list) hmap" where
  "run_hooks env i [] key pending = pending"
| "run_hooks env i (hook # hooks) key pending =
    (let (approval_token, started) = env i;
         pending1 = hm_insert key (case hm_get pending key of
             Some e \<Rightarrow> e @ [approval_token] | None \<Rightarrow> [approval_token]) pending;
         pending2 = (if started then pending1 else hm_remove key pending1)
     in run_hooks env (i + 1) hooks key pending2)"

definition on_seek_approval_for_zone_cmd :: "(nat \<Rightarrow> token \<times> bool) \<Rightarrow> dname \<Rightarrow> serial
    \<Rightarrow> ZoneServer \<Rightarrow> 't server_world \<Rightarrow> (unit, unit) outcome \<times> ZoneServer \<times> 't server_world" where
  "on_seek_approval_for_zone_cmd env n s sv w =
    (if hm_get (sv_last_approvals sv) (n, s) \<noteq> None then (Ok (), sv, w)
     else if sv_hooks sv = [] then
       (case approved_event (sv_source sv) n s of
          Ok event \<Rightarrow> (Ok (), sv, send_update event w)
        | _ \<Rightarrow> (Panic, sv, w))
     else (Ok (), sv\<lparr>sv_pending_approvals :=
       run_hooks env 0 (sv_hooks sv) (n, s) (sv_pending_approvals sv)\<rparr>, w))"

section \<open>Review requests\<close>

text \<open>\<open>process_request\<close>. Any operation but the two panics; the HTTP server lets only them pass.\<close>

definition process_request :: "(string \<Rightarrow> token option) \<Rightarrow> instant \<Rightarrow> dname \<Rightarrow> serial \<Rightarrow> string
    \<Rightarrow> string \<Rightarrow> ZoneServer \<Rightarrow> 't server_world
    \<Rightarrow> (unit, bool) outcome \<times> ZoneServer \<times> 't server_world" where
  "process_request uuid now n s given_approval_token operation sv w =
    (case hm_get (sv_pending_approvals sv) (n, s) of
       None \<Rightarrow> (Ok False, sv, w)
     | Some pending \<Rightarrow>
        (case uuid given_approval_token of
           None \<Rightarrow> (Ok False, sv, w)
         | Some given \<Rightarrow>
            (if given \<notin> set pending then (Ok False, sv, w)
             else if operation = ''approve'' then
               (let rest = remove1 given pending in
                if rest = [] then
                  (case approved_event (sv_source sv) n s of
                     Ok event \<Rightarrow> (Ok True,
                       sv\<lparr>sv_last_approvals := hm_insert (n, s) now (sv_last_approvals sv),
                          sv_pending_approvals := hm_remove (n, s) (sv_pending_approvals sv)\<rparr>,
                       send_update event w)
                   | _ \<Rightarrow> (Panic, sv\<lparr>sv_pending_approvals := hm_insert (n, s) rest (sv_pending_approvals sv)\<rparr>, w))
                else (Ok True,
                  sv\<lparr>sv_pending_approvals := hm_insert (n, s) rest (sv_pending_approvals sv)\<rparr>, w))
             else if operation = ''reject'' then
               (Ok True, sv\<lparr>sv_pending_approvals := hm_remove (n, s) (sv_pending_approvals sv)\<rparr>, w)
             else (Panic, sv, w))))"

text \<open>The answer goes back to the HTTP request; when the client has gone by then, sending it panics.\<close>

definition on_zone_review_api_cmd :: "(string \<Rightarrow> token option) \<Rightarrow> instant \<Rightarrow> bool \<Rightarrow> dname \<Rightarrow> serial \<Rightarrow> string
    \<Rightarrow> string \<Rightarrow> token \<Rightarrow> ZoneServer \<Rightarrow> 't server_world
    \<Rightarrow> (unit, unit) outcome \<times> ZoneServer \<times> 't server_world" where
  "on_zone_review_api_cmd uuid now http_open n s given operation http_tx sv w =
    (case process_request uuid now n s given operation sv w of
       (Ok ok, sv1, w1) \<Rightarrow> if http_open
           then (Ok (), sv1, w1\<lparr>sw_replies := sw_replies w1 @ [(http_tx, ok)]\<rparr>)
           else (Panic, sv1, w1)
     | (Err e, sv1, w1) \<Rightarrow> (Err e, sv1, w1)
     | (Panic, sv1, w1) \<Rightarrow> (Panic, sv1, w1))"

section \<open>The status page\<close>

text \<open>What printing needs: serials, addresses, and the apex name of a zone.\<close>

record printers =
  pr_serial :: "serial \<Rightarrow> string"
  pr_addr :: "socket_addr \<Rightarrow> string"
  pr_apex :: "nat \<Rightarrow> dname"

fun review_intro :: "server_mode \<Rightarrow> Source \<Rightarrow> string" where
  "review_intro Prepublish UnsignedZones = ''Pre-publication review server for unsigned zones''"
| "review_intro Prepublish SignedZones = ''Pre-publication review server for signed zones''"
| "review_intro Prepublish PublishedZones = ''Pre-publication review server for published zones''"
| "review_intro Publish UnsignedZones = ''Publication server for unsigned zones''"
| "review_intro Publish SignedZones = ''Publication server for signed zones''"
| "review_intro Publish PublishedZones = ''Publication server for published zones''"

definition dquoted :: "string \<Rightarrow> string" where
  "dquoted s = [CHR 0x22] @ s @ [CHR 0x22]"

definition build_response_header :: "ZoneServer \<Rightarrow> string" where
  "build_response_header sv = ''<!DOCTYPE html>'' @ nl @ ''<html lang='' @ dquoted ''en'' @ ''>'' @ nl
     @ ''    <head>'' @ nl @ ''      <meta charset='' @ dquoted ''UTF-8'' @ ''>'' @ nl
     @ ''    </head>'' @ nl @ ''    <body>'' @ nl
     @ ''    <pre>'' @ review_intro (sv_mode sv) (sv_source sv) @ nl @ nl"

definition status_zone :: "printers \<Rightarrow> ZoneServer \<Rightarrow> nat \<Rightarrow> string" where
  "status_zone pr sv r = ''zone:   '' @ pr_apex pr r @ nl
     @ (if sv_mode sv = Prepublish
        then concat (map (\<lambda>((_, s), pending). ''        pending approvals for serial '' @ pr_serial pr s
            @ '': '' @ show_nat (length pending) @ nl)
          (filter (\<lambda>((n, _), _). n = pr_apex pr r) (sv_pending_approvals sv)))
        else [])"

definition build_status_response_body :: "printers \<Rightarrow> nat list \<Rightarrow> ZoneServer \<Rightarrow> string" where
  "build_status_response_body pr zones sv =
     ''Serving '' @ show_nat (length zones) @ '' zones on:'' @ nl
     @ concat (map (\<lambda>a. ''  - '' @ ListenAddr_fmt (pr_addr pr) a @ nl) (sv_listen sv)) @ nl
     @ concat (map (status_zone pr sv) zones)"

definition build_response_footer :: string where
  "build_response_footer = ''    </pre>'' @ nl @ ''  </body>'' @ nl @ ''</html>'' @ nl"

definition server_tree :: "Source \<Rightarrow> 't zone_trees \<Rightarrow> 't" where
  "server_tree source trees = (case source of
      UnsignedZones \<Rightarrow> zt_unsigned_zones trees
    | SignedZones \<Rightarrow> zt_signed_zones trees
    | PublishedZones \<Rightarrow> zt_published_zones trees)"

definition build_status_response :: "'t domain_api \<Rightarrow> printers \<Rightarrow> 't zone_trees \<Rightarrow> ZoneServer \<Rightarrow> string" where
  "build_status_response D pr trees sv = build_response_header sv
     @ build_status_response_body pr (d_tree_iter D (server_tree (sv_source sv) trees)) sv
     @ build_response_footer"

definition on_zone_review_api_status_cmd :: "'t domain_api \<Rightarrow> printers \<Rightarrow> bool \<Rightarrow> token \<Rightarrow> ZoneServer
    \<Rightarrow> 't server_world \<Rightarrow> (unit, unit) outcome \<times> 't server_world" where
  "on_zone_review_api_status_cmd D pr http_open http_tx sv w = (if http_open
     then (Ok (), w\<lparr>sw_pages := sw_pages w @ [(http_tx, build_status_response D pr (sw_trees w) sv)]\<rparr>)
     else (Panic, w))"

section \<open>Publishing\<close>

text \<open>The zone moves from the signed to the published zones. The serial is only logged. The trees
  know a zone by its apex name and class, so these are \<open>n\<close> and \<open>IN\<close>.\<close>

definition on_publish_signed_zone_cmd :: "'t domain_api \<Rightarrow> dname \<Rightarrow> 't zone_trees
    \<Rightarrow> (unit, unit) outcome \<times> 't zone_trees" where
  "on_publish_signed_zone_cmd D n trees =
    (case d_tree_get D (zt_signed_zones trees) n Class_IN of
       None \<Rightarrow> (Ok (), trees)
     | Some r \<Rightarrow>
        (let without = (case d_tree_remove D n Class_IN (zt_published_zones trees) of
               Inl _ \<Rightarrow> zt_published_zones trees | Inr t \<Rightarrow> t)
         in case d_tree_insert D n Class_IN r without of
              Inl _ \<Rightarrow> (Panic, trees)
            | Inr published1 \<Rightarrow>
               (let trees1 = trees\<lparr>zt_published_zones := published1\<rparr>
                in case d_tree_remove D n Class_IN (zt_signed_zones trees) of
                     Inl _ \<Rightarrow> (Panic, trees1)
                   | Inr signed1 \<Rightarrow> (Ok (), trees1\<lparr>zt_signed_zones := signed1\<rparr>))))"

section \<open>Commands\<close>

text \<open>The parameters of the handlers and their environment.\<close>

record 't server_params =
  sp_api :: "'t domain_api"
  sp_uuid :: "string \<Rightarrow> token option"
  sp_printers :: printers

record server_env =
  se_hooks :: "nat \<Rightarrow> token \<times> bool"
  se_now :: instant
  se_http_open :: bool

fun handle_command :: "'t server_params \<Rightarrow> server_env \<Rightarrow> ApplicationCommand \<Rightarrow> ZoneServer
    \<Rightarrow> 't server_world \<Rightarrow> (Terminated, unit) outcome \<times> ZoneServer \<times> 't server_world" where
  "handle_command P env CmdTerminate sv w = (Err Terminated, sv, w)"
| "handle_command P env (HandleZoneReviewApi n s token operation http_tx) sv w =
    (case on_zone_review_api_cmd (sp_uuid P) (se_now env) (se_http_open env) n s token operation http_tx sv w of
       (Ok _, sv1, w1) \<Rightarrow> (Ok (), sv1, w1)
     | (_, sv1, w1) \<Rightarrow> (Panic, sv1, w1))"
| "handle_command P env (HandleZoneReviewApiStatus http_tx) sv w =
    (case on_zone_review_api_status_cmd (sp_api P) (sp_printers P) (se_http_open env) http_tx sv w of
       (Ok _, w1) \<Rightarrow> (Ok (), sv, w1)
     | (_, w1) \<Rightarrow> (Panic, sv, w1))"
| "handle_command P env (SeekApprovalForUnsignedZone n s) sv w =
    (case on_seek_approval_for_zone_cmd (se_hooks env) n s sv w of
       (Ok _, sv1, w1) \<Rightarrow> (Ok (), sv1, w1)
     | (_, sv1, w1) \<Rightarrow> (Panic, sv1, w1))"
| "handle_command P env (SeekApprovalForSignedZone n s) sv w =
    (case on_seek_approval_for_zone_cmd (se_hooks env) n s sv w of
       (Ok _, sv1, w1) \<Rightarrow> (Ok (), sv1, w1)
     | (_, sv1, w1) \<Rightarrow> (Panic, sv1, w1))"
| "handle_command P env (PublishSignedZone n s) sv w =
    (case on_publish_signed_zone_cmd (sp_api P) n (sw_trees w) of
       (Ok _, trees) \<Rightarrow> (Ok (), sv, w\<lparr>sw_trees := trees\<rparr>)
     | (_, trees) \<Rightarrow> (Panic, sv, w\<lparr>sw_trees := trees\<rparr>))"
| "handle_command P env _ sv w = (Ok (), sv, w)"

text \<open>\<open>ZoneServer::run\<close>: one command after the other, until a handler fails or the queue ends.\<close>

fun server_run :: "'t server_params \<Rightarrow> (ApplicationCommand \<times> server_env) list \<Rightarrow> ZoneServer
    \<Rightarrow> 't server_world \<Rightarrow> (Terminated, unit) outcome \<times> ZoneServer \<times> 't server_world" where
  "server_run P [] sv w = (Ok (), sv, w)"
| "server_run P ((cmd, env) # cmds) sv w =
    (case handle_command P env cmd sv w of
       (Ok _, sv1, w1) \<Rightarrow> server_run P cmds sv1 w1
     | res \<Rightarrow> res)"

section \<open>Serving DNS\<close>

datatype server_xfr_error = XfrParseError | XfrNoSuchZone

text \<open>The transfer provider of the servers: every client may transfer every zone.\<close>

definition server_xfr_request :: "'t domain_api \<Rightarrow> 't \<Rightarrow> (dname \<times> dclass) option
    \<Rightarrow> server_xfr_error + (nat \<times> InMemoryZoneDiff list \<times> bool)" where
  "server_xfr_request D zones question = (case question of
      None \<Rightarrow> Inl XfrParseError
    | Some (qname, qclass) \<Rightarrow> (case d_tree_find D zones qname qclass of
        Some r \<Rightarrow> Inr (r, [], False)
      | None \<Rightarrow> Inl XfrNoSuchZone))"

definition server_get_key :: "'t domain_api \<Rightarrow> dname \<Rightarrow> token \<Rightarrow> token option" where
  "server_get_key D n alg = d_get_key D n alg"

datatype service_answer = NxDomain | ServiceAnswer answer_content

definition zone_server_service :: "'t domain_api \<Rightarrow> (nat \<Rightarrow> token) \<Rightarrow> 't
    \<Rightarrow> (dname \<times> dclass \<times> rtype) option \<Rightarrow> (unit, service_answer) outcome" where
  "zone_server_service D store_of zones question = (case question of
      None \<Rightarrow> Panic
    | Some (qname, qclass, qtype) \<Rightarrow> (case d_tree_find D zones qname qclass of
        None \<Rightarrow> Ok NxDomain
      | Some r \<Rightarrow> (case d_query D (store_of r) qname qtype of
          Inl _ \<Rightarrow> Panic
        | Inr answer \<Rightarrow> Ok (ServiceAnswer answer))))"

text \<open>\<open>LoaderNotifier\<close>: the events a NOTIFY message causes.\<close>

definition loader_notify_zone_changed :: "bool \<Rightarrow> dclass \<Rightarrow> dname \<Rightarrow> serial option \<Rightarrow> ip_addr \<Rightarrow> Update list" where
  "loader_notify_zone_changed enabled class apex_name serial source =
    (if enabled \<and> class = Class_IN then [RefreshZone apex_name (Some source) serial] else [])"

definition notifier_enabled :: "ZoneServer \<Rightarrow> bool" where
  "notifier_enabled sv \<longleftrightarrow> sv_source sv = PublishedZones"

end
