(* ===== verification/Zone_Review.thy ===== *)
theory Zone_Review
  imports Zone_Server
begin

text \<open>
  What an approval means: which hooks have answered when a server sends the event that a version
  of a zone is approved.
\<close>

section \<open>The hooks\<close>

lemma run_hooks_other: "k \<noteq> key \<Longrightarrow> hm_get (run_hooks env i hooks key p) k = hm_get p k"
  by (induction env i hooks key p rule: run_hooks.induct) (auto simp: Let_def split: prod.splits)

text \<open>All hooks from the \<open>j\<close>-th on were started.\<close>

definition started_from :: "(nat \<Rightarrow> token \<times> bool) \<Rightarrow> nat \<Rightarrow> nat \<Rightarrow> bool" where
  "started_from env j n \<longleftrightarrow> (\<forall>j'. j \<le> j' \<and> j' < n \<longrightarrow> snd (env j'))"

lemma run_hooks_keep:
  "hm_get p key = Some e \<Longrightarrow> (\<forall>j. i \<le> j \<and> j < i + length hooks \<longrightarrow> snd (env j)) \<Longrightarrow>
   \<exists>ts. hm_get (run_hooks env i hooks key p) key = Some (e @ ts)"
proof (induction hooks arbitrary: i p e)
  case (Cons h hs)
  obtain t ok where t: "env i = (t, ok)" by (cases "env i")
  have ok: ok using Cons.prems(2) t by (auto dest: spec [of _ i])
  have "\<forall>j. i + 1 \<le> j \<and> j < i + 1 + length hs \<longrightarrow> snd (env j)" using Cons.prems(2) by auto
  from Cons.IH [OF _ this, of "hm_insert key (e @ [t]) p" "e @ [t]"]
  show ?case using t ok Cons.prems(1) by auto
qed auto

lemma run_hooks_pending:
  "hm_get (run_hooks env i hooks key p) key = Some ts \<Longrightarrow> hooks \<noteq> [] \<Longrightarrow>
   ts \<noteq> [] \<and> snd (env (i + length hooks - 1)) \<and>
   (\<forall>j < length hooks. started_from env (i + j) (i + length hooks) \<longrightarrow> fst (env (i + j)) \<in> set ts)"
proof (induction hooks arbitrary: i p ts)
  case (Cons h hs)
  obtain t ok where t: "env i = (t, ok)" by (cases "env i")
  let ?p = "if ok then hm_insert key (case hm_get p key of Some e \<Rightarrow> e @ [t] | None \<Rightarrow> [t]) p
    else hm_remove key (hm_insert key (case hm_get p key of Some e \<Rightarrow> e @ [t] | None \<Rightarrow> [t]) p)"
  have run: "run_hooks env i (h # hs) key p = run_hooks env (i + 1) hs key ?p"
    using t by simp
  show ?case
  proof (cases "hs = []")
    case True
    then show ?thesis using Cons.prems t run
      by (auto simp: started_from_def split: if_splits option.splits)
  next
    case False
    note ih = Cons.IH [of "i + 1" ?p ts, OF _ False]
    have rest: "ts \<noteq> []" "snd (env (i + length (h # hs) - 1))"
      "\<And>j. j < length hs \<Longrightarrow> started_from env (i + 1 + j) (i + 1 + length hs) \<Longrightarrow> fst (env (i + 1 + j)) \<in> set ts"
      using ih Cons.prems(1) run by (auto simp: add.assoc)
    have first: "fst (env i) \<in> set ts" if s: "started_from env i (i + length (h # hs))"
    proof -
      have ok: ok using s t by (auto simp: started_from_def dest: spec [of _ i])
      have later: "\<forall>j. i + 1 \<le> j \<and> j < i + 1 + length hs \<longrightarrow> snd (env j)" using s by (auto simp: started_from_def)
      obtain e where e: "hm_get ?p key = Some (e @ [t])"
        using ok by (cases "hm_get p key") auto
      from run_hooks_keep [OF e later] show ?thesis using Cons.prems(1) run t by auto
    qed
    show ?thesis
    proof (intro conjI allI impI)
      fix j assume j: "j < length (h # hs)" "started_from env (i + j) (i + length (h # hs))"
      show "fst (env (i + j)) \<in> set ts"
      proof (cases j)
        case 0
        then show ?thesis using first j by simp
      next
        case (Suc k)
        then show ?thesis using rest(3) [of k] j by (simp add: add.assoc [symmetric])
      qed
    qed (use rest in auto)
  qed
qed simp

section \<open>Runs\<close>

definition seeks :: "ApplicationCommand \<Rightarrow> review_key \<Rightarrow> bool" where
  "seeks c key \<longleftrightarrow> c = SeekApprovalForUnsignedZone (fst key) (snd key)
     \<or> c = SeekApprovalForSignedZone (fst key) (snd key)"

text \<open>The tokens that review requests of a run approve.\<close>

definition approved_tokens ::
    "(string \<Rightarrow> token option) \<Rightarrow> (ApplicationCommand \<times> server_env) list \<Rightarrow> review_key \<Rightarrow> token set" where
  "approved_tokens uuid cs key = {u. \<exists>str tx env. uuid str = Some u
     \<and> (HandleZoneReviewApi (fst key) (snd key) str ''approve'' tx, env) \<in> set cs}"

text \<open>A command of the run sought approval, its last hook was started, and the tokens of its hooks
  after the last one that could not be started are among the given ones.\<close>

definition sought :: "string list \<Rightarrow> (ApplicationCommand \<times> server_env) list \<Rightarrow> review_key \<Rightarrow> token set \<Rightarrow> bool" where
  "sought hooks cs key T \<longleftrightarrow> (\<exists>(c, env) \<in> set cs. seeks c key
     \<and> snd (se_hooks env (length hooks - 1))
     \<and> (\<forall>j < length hooks. started_from (se_hooks env) j (length hooks) \<longrightarrow> fst (se_hooks env j) \<in> T))"

definition review_inv :: "'t server_params \<Rightarrow> Update list \<Rightarrow> Source \<Rightarrow> string list
    \<Rightarrow> (ApplicationCommand \<times> server_env) list \<Rightarrow> ZoneServer \<Rightarrow> Update list \<Rightarrow> bool" where
  "review_inv P us0 source hooks cs sv us \<longleftrightarrow>
     sv_source sv = source \<and> sv_hooks sv = hooks \<and>
     (\<forall>key ts. hm_get (sv_pending_approvals sv) key = Some ts \<longrightarrow> ts \<noteq> []
        \<and> sought hooks cs key (approved_tokens (sp_uuid P) cs key \<union> set ts)) \<and>
     (\<forall>key ev. approved_event source (fst key) (snd key) = Ok ev \<longrightarrow> ev \<in> set us \<longrightarrow> ev \<notin> set us0 \<longrightarrow>
        sought hooks cs key (approved_tokens (sp_uuid P) cs key))"

lemma approved_event_inj:
  "approved_event source n s = Ok ev \<Longrightarrow> approved_event source n' s' = Ok ev \<Longrightarrow> n = n' \<and> s = s'"
  by (auto simp: approved_event_def split: Source.splits)

lemma review_invD:
  assumes "review_inv P us0 source hooks cs sv us"
  shows "sv_source sv = source" "sv_hooks sv = hooks"
    and "hm_get (sv_pending_approvals sv) key = Some ts \<Longrightarrow> ts \<noteq> []
      \<and> sought hooks cs key (approved_tokens (sp_uuid P) cs key \<union> set ts)"
    and "approved_event source (fst key) (snd key) = Ok ev \<Longrightarrow> ev \<in> set us \<Longrightarrow> ev \<notin> set us0 \<Longrightarrow>
      sought hooks cs key (approved_tokens (sp_uuid P) cs key)"
  using assms unfolding review_inv_def by blast+

text \<open>A step that leaves the pending approvals of the other versions alone.\<close>

lemma review_inv_step:
  assumes "review_inv P us0 source hooks cs sv us"
    and "sv_source sv' = sv_source sv" "sv_hooks sv' = sv_hooks sv"
    and "\<And>k. k \<noteq> key \<Longrightarrow> hm_get (sv_pending_approvals sv') k = hm_get (sv_pending_approvals sv) k"
    and "\<And>ts. hm_get (sv_pending_approvals sv') key = Some ts \<Longrightarrow> ts \<noteq> []
      \<and> sought hooks cs key (approved_tokens (sp_uuid P) cs key \<union> set ts)"
    and "us' = us \<or> (\<exists>ev. us' = us @ [ev] \<and> approved_event source (fst key) (snd key) = Ok ev
      \<and> sought hooks cs key (approved_tokens (sp_uuid P) cs key))"
  shows "review_inv P us0 source hooks cs sv' us'"
proof -
  note i = review_invD [OF assms(1)]
  have "ts \<noteq> [] \<and> sought hooks cs k (approved_tokens (sp_uuid P) cs k \<union> set ts)"
    if "hm_get (sv_pending_approvals sv') k = Some ts" for k ts
    using that assms(4,5) i(3) by (cases "k = key") auto
  moreover have "sought hooks cs k (approved_tokens (sp_uuid P) cs k)"
    if e: "approved_event source (fst k) (snd k) = Ok e" "e \<in> set us'" "e \<notin> set us0" for k e
  proof (cases "e \<in> set us")
    case False
    then obtain ev where "us' = us @ [ev]" "approved_event source (fst key) (snd key) = Ok ev"
      "sought hooks cs key (approved_tokens (sp_uuid P) cs key)" using assms(6) e(2) by auto
    moreover from this have "k = key" using False e approved_event_inj by (auto intro: prod_eqI)
    ultimately show ?thesis by simp
  qed (use i(4) e in blast)
  ultimately show ?thesis using i(1,2) assms(2,3) unfolding review_inv_def by metis
qed

lemma sought_mono: "sought hooks cs key T \<Longrightarrow> set cs \<subseteq> set cs' \<Longrightarrow> T \<subseteq> T' \<Longrightarrow> sought hooks cs' key T'"
  unfolding sought_def by fast

lemma approved_mono: "set cs \<subseteq> set cs' \<Longrightarrow> approved_tokens uuid cs key \<subseteq> approved_tokens uuid cs' key"
  unfolding approved_tokens_def by fast

lemma inv_mono:
  assumes "review_inv P us0 source hooks cs sv us" "set cs \<subseteq> set cs'"
  shows "review_inv P us0 source hooks cs' sv us"
proof -
  have a: "sought hooks cs' key (approved_tokens (sp_uuid P) cs' key \<union> T)"
    if "sought hooks cs key (approved_tokens (sp_uuid P) cs key \<union> T)" for key T
    using sought_mono [OF that assms(2)] approved_mono [OF assms(2), of "sp_uuid P" key] by blast
  note i = review_invD [OF assms(1)]
  have "ts \<noteq> [] \<and> sought hooks cs' key (approved_tokens (sp_uuid P) cs' key \<union> set ts)"
    if "hm_get (sv_pending_approvals sv) key = Some ts" for key ts
    using a i(3) [OF that] by blast
  moreover have "sought hooks cs' key (approved_tokens (sp_uuid P) cs' key)"
    if "approved_event source (fst key) (snd key) = Ok ev" "ev \<in> set us" "ev \<notin> set us0" for key ev
    using a [of key "{}"] i(4) [OF that] by simp
  ultimately show ?thesis using i(1,2) unfolding review_inv_def by metis
qed

lemma inv_seek:
  assumes inv: "review_inv P us0 source hooks cs sv (sw_updates w)" and ne: "hooks \<noteq> []"
    and c: "(c, env) \<in> set cs" "seeks c (n, s)"
    and res: "on_seek_approval_for_zone_cmd (se_hooks env) n s sv w = (out, sv', w')"
  shows "review_inv P us0 source hooks cs sv' (sw_updates w') \<and> out = Ok ()"
proof (cases "hm_get (sv_last_approvals sv) (n, s) \<noteq> None")
  case True
  then show ?thesis using assms by (auto simp: on_seek_approval_for_zone_cmd_def)
next
  case False
  let ?p = "run_hooks (se_hooks env) 0 hooks (n, s) (sv_pending_approvals sv)"
  have sv': "sv' = sv\<lparr>sv_pending_approvals := ?p\<rparr>" "w' = w" "out = Ok ()"
    using False res ne inv by (auto simp: on_seek_approval_for_zone_cmd_def review_inv_def)
  have "ts \<noteq> [] \<and> sought hooks cs (n, s) (approved_tokens (sp_uuid P) cs (n, s) \<union> set ts)"
    if g: "hm_get ?p (n, s) = Some ts" for ts
  proof -
    have "ts \<noteq> []" "sought hooks cs (n, s) (set ts)"
      using run_hooks_pending [OF g ne] c unfolding sought_def by auto
    then show ?thesis using sought_mono by (metis order_refl sup_ge2)
  qed
  then have "review_inv P us0 source hooks cs sv' (sw_updates w')"
    by (intro review_inv_step [OF inv, where key = "(n, s)"]) (simp_all add: sv' run_hooks_other)
  then show ?thesis using sv' by simp
qed

lemma inv_review:
  assumes inv: "review_inv P us0 source hooks cs sv (sw_updates w)"
    and c: "(HandleZoneReviewApi n s given operation tx, env) \<in> set cs"
    and res: "process_request (sp_uuid P) now n s given operation sv w = (Ok b, sv', w')"
  shows "review_inv P us0 source hooks cs sv' (sw_updates w')"
proof (cases "sv' = sv \<and> w' = w")
  case True
  then show ?thesis using inv by simp
next
  case False
  then obtain ts u where g: "hm_get (sv_pending_approvals sv) (n, s) = Some ts"
      "sp_uuid P given = Some u" "u \<in> set ts"
    using res by (auto simp: process_request_def split: option.splits if_splits)
  let ?A = "approved_tokens (sp_uuid P) cs"
  have so: "sought hooks cs (n, s) (?A (n, s) \<union> set ts)" using inv g(1) by (auto simp: review_inv_def)
  have source: "sv_source sv = source" using review_invD(1) [OF inv] .
  show ?thesis
  proof (cases "operation = ''approve''")
    case ap: True
    have u: "u \<in> ?A (n, s)" using c g(2) ap by (auto simp: approved_tokens_def)
    have "set ts \<subseteq> insert u (set (remove1 u ts))" using in_set_remove1 [of _ u ts] by blast
    then have so': "sought hooks cs (n, s) (?A (n, s) \<union> set (remove1 u ts))"
      by (intro sought_mono [OF so order_refl]) (use u in blast)
    show ?thesis
    proof (cases "remove1 u ts = []")
      case False
      then have "sv' = sv\<lparr>sv_pending_approvals := hm_insert (n, s) (remove1 u ts) (sv_pending_approvals sv)\<rparr>"
        "w' = w" using res ap g by (simp_all add: process_request_def Let_def)
      then show ?thesis
        by (intro review_inv_step [OF inv, where key = "(n, s)"]) (use False so' in auto)
    next
      case True
      then obtain ev where ev: "approved_event source n s = Ok ev" "w' = send_update ev w"
          "sv' = sv\<lparr>sv_last_approvals := hm_insert (n, s) now (sv_last_approvals sv),
             sv_pending_approvals := hm_remove (n, s) (sv_pending_approvals sv)\<rparr>"
        using res ap g source by (auto simp: process_request_def Let_def split: outcome.splits)
      show ?thesis
        by (rule review_inv_step [OF inv, where key = "(n, s)"])
           (use ev True so' in \<open>auto simp: send_update_def\<close>)
    qed
  next
    case False
    then have rej: "operation = ''reject''" using res g by (auto simp: process_request_def split: if_splits)
    then have "sv' = sv\<lparr>sv_pending_approvals := hm_remove (n, s) (sv_pending_approvals sv)\<rparr>" "w' = w"
      using res g by (simp_all add: process_request_def)
    then show ?thesis by (intro review_inv_step [OF inv, where key = "(n, s)"]) auto
  qed
qed

lemma inv_command:
  assumes inv: "review_inv P us0 source hooks cs sv (sw_updates w)" and ne: "hooks \<noteq> []"
    and c: "(cmd, env) \<in> set cs" and res: "handle_command P env cmd sv w = (out, sv', w')"
  shows "review_inv P us0 source hooks cs sv' (sw_updates w') \<or> out \<noteq> Ok () \<and> sw_updates w' = sw_updates w"
proof (cases cmd)
  case (SeekApprovalForUnsignedZone n s)
  obtain o1 sv1 w1 where r: "on_seek_approval_for_zone_cmd (se_hooks env) n s sv w = (o1, sv1, w1)"
    using prod_cases3 by blast
  note i = inv_seek [OF inv ne c _ r]
  have "seeks cmd (n, s)" by (simp add: seeks_def SeekApprovalForUnsignedZone)
  then show ?thesis using i res r SeekApprovalForUnsignedZone by auto
next
  case (SeekApprovalForSignedZone n s)
  obtain o1 sv1 w1 where r: "on_seek_approval_for_zone_cmd (se_hooks env) n s sv w = (o1, sv1, w1)"
    using prod_cases3 by blast
  note i = inv_seek [OF inv ne c _ r]
  have "seeks cmd (n, s)" by (simp add: seeks_def SeekApprovalForSignedZone)
  then show ?thesis using i res r SeekApprovalForSignedZone by auto
next
  case (HandleZoneReviewApi n s given operation tx)
  obtain o1 sv1 w1 where r: "process_request (sp_uuid P) (se_now env) n s given operation sv w = (o1, sv1, w1)"
    using prod_cases3 by blast
  show ?thesis
  proof (cases o1)
    case (Ok b)
    note i = inv_review [OF inv c [unfolded HandleZoneReviewApi] r [unfolded Ok]]
    show ?thesis using i res r Ok HandleZoneReviewApi
      by (auto simp: on_zone_review_api_cmd_def split: if_splits)
  qed (use res r HandleZoneReviewApi in \<open>auto simp: on_zone_review_api_cmd_def process_request_def Let_def
    split: option.splits if_splits outcome.splits\<close>)
qed (use inv res in \<open>auto simp: on_zone_review_api_status_cmd_def split: outcome.splits prod.splits if_splits\<close>)

lemma run_events:
  assumes "review_inv P us0 source hooks cs sv (sw_updates w)" "hooks \<noteq> []" "set cmds \<subseteq> set cs"
    and "server_run P cmds sv w = (out, sv', w')"
    and "approved_event source (fst key) (snd key) = Ok ev" "ev \<in> set (sw_updates w')" "ev \<notin> set us0"
  shows "sought hooks cs key (approved_tokens (sp_uuid P) cs key)"
  using assms
proof (induction cmds arbitrary: sv w)
  case Nil
  then show ?case using review_invD(4) by fastforce
next
  case (Cons c cmds)
  obtain cmd env where c: "c = (cmd, env)" by (cases c)
  obtain o1 sv1 w1 where h: "handle_command P env cmd sv w = (o1, sv1, w1)" using prod_cases3 by blast
  have "review_inv P us0 source hooks cs sv1 (sw_updates w1) \<or> o1 \<noteq> Ok () \<and> sw_updates w1 = sw_updates w"
    using inv_command [OF Cons.prems(1,2) _ h] Cons.prems(3) c by simp
  then consider (go) "o1 = Ok ()" "review_inv P us0 source hooks cs sv1 (sw_updates w1)"
    | (stop) "o1 \<noteq> Ok ()" "w' = w1"
        "review_inv P us0 source hooks cs sv1 (sw_updates w1) \<or> sw_updates w1 = sw_updates w"
    using Cons.prems(4) c h by (cases o1) auto
  then show ?case
  proof cases
    case go
    then show ?thesis using Cons.IH [OF go(2)] Cons.prems c h by simp
  next
    case stop
    then show ?thesis
      using review_invD(4) [OF Cons.prems(1)] review_invD(4) [of P us0 source hooks cs sv1 "sw_updates w1"]
        Cons.prems(5-7) by metis
  qed
qed

section \<open>Property\<close>

text \<open>C6: a server with hooks sends the event that a version of a zone is approved only when it has
  handled a request for approval of that version for which the last hook could be started, and an
  approving review with the token that was given to each of the hooks after the last one that could
  not be started: of every hook, when all could be started. A hook that was started before one that
  could not be is not waited for: its approval is not needed and nothing is said of it.\<close>

theorem approved_by_hooks:
  assumes "hooks \<noteq> []" "server_run P cmds (ZoneServer_new mode source hooks listen) w = (out, sv, w')"
    and "approved_event source n s = Ok ev" "ev \<in> set (sw_updates w')" "ev \<notin> set (sw_updates w)"
  shows "\<exists>cmd env. (cmd, env) \<in> set cmds
    \<and> (cmd = SeekApprovalForUnsignedZone n s \<or> cmd = SeekApprovalForSignedZone n s)
    \<and> snd (se_hooks env (length hooks - 1))
    \<and> (\<forall>i < length hooks. (\<forall>j. i \<le> j \<and> j < length hooks \<longrightarrow> snd (se_hooks env j)) \<longrightarrow>
         (\<exists>str tx e. sp_uuid P str = Some (fst (se_hooks env i))
            \<and> (HandleZoneReviewApi n s str ''approve'' tx, e) \<in> set cmds))"
proof -
  have "review_inv P (sw_updates w) source hooks cmds (ZoneServer_new mode source hooks listen) (sw_updates w)"
    by (simp add: review_inv_def ZoneServer_new_def)
  from run_events [OF this assms(1) order_refl assms(2), of "(n, s)"] assms(3-5)
  show ?thesis by (auto simp: sought_def seeks_def approved_tokens_def started_from_def)
qed

definition demo_params :: "demo_tree server_params" where
  "demo_params = \<lparr>sp_api = demo_api, sp_uuid = (\<lambda>s. Some (length s)),
     sp_printers = \<lparr>pr_serial = (\<lambda>s. show_nat (unat s)), pr_addr = (\<lambda>a. ''addr''), pr_apex = (\<lambda>r. ''example'')\<rparr>\<rparr>"

definition demo_server_world :: "demo_tree server_world" where
  "demo_server_world = \<lparr>sw_trees = \<lparr>zt_unsigned_zones = [], zt_signed_zones = [], zt_published_zones = []\<rparr>,
     sw_updates = [], sw_replies = [], sw_pages = []\<rparr>"

definition demo_server_env :: "bool \<Rightarrow> server_env" where
  "demo_server_env ok = \<lparr>se_hooks = (\<lambda>i. (i + 1, i > 0 \<or> ok)), se_now = 0, se_http_open = True\<rparr>"

text \<open>Two hooks, of which the first could not be started: the approval of the second is enough.\<close>

theorem approved_by_hooks_witness:
  "\<exists>sv w'. server_run demo_params
      [(SeekApprovalForSignedZone ''example'' 5, demo_server_env False),
       (HandleZoneReviewApi ''example'' 5 ''bb'' ''approve'' 0, demo_server_env True)]
      (ZoneServer_new Prepublish SignedZones [''h1'', ''h2''] []) demo_server_world = (Ok (), sv, w')
    \<and> SignedZoneApprovedEvent ''example'' 5 \<in> set (sw_updates w')
    \<and> (\<exists>str tx e. sp_uuid demo_params str = Some 2
         \<and> (HandleZoneReviewApi ''example'' 5 str ''approve'' tx, e) \<in> set
             [(SeekApprovalForSignedZone ''example'' 5, demo_server_env False),
              (HandleZoneReviewApi ''example'' 5 ''bb'' ''approve'' 0, demo_server_env True)])"
  (is "\<exists>sv w'. ?run = (Ok (), sv, w') \<and> ?ev \<in> set (sw_updates w') \<and> ?P")
proof -
  obtain sv w' where run: "?run = (Ok (), sv, w')" and ev: "?ev \<in> set (sw_updates w')"
    by (simp add: on_seek_approval_for_zone_cmd_def on_zone_review_api_cmd_def process_request_def
        ZoneServer_new_def demo_server_env_def demo_params_def hm_insert_def hm_remove_def approved_event_def
        send_update_def Let_def demo_server_world_def)
  from approved_by_hooks [OF _ run _ ev] obtain cmd env where c:
      "(cmd, env) \<in> set [(SeekApprovalForSignedZone ''example'' 5, demo_server_env False),
         (HandleZoneReviewApi ''example'' 5 ''bb'' ''approve'' 0, demo_server_env True)]"
      "cmd = SeekApprovalForUnsignedZone ''example'' 5 \<or> cmd = SeekApprovalForSignedZone ''example'' 5"
      "\<forall>i < 2. (\<forall>j. i \<le> j \<and> j < 2 \<longrightarrow> snd (se_hooks env j)) \<longrightarrow>
         (\<exists>str tx e. sp_uuid demo_params str = Some (fst (se_hooks env i))
            \<and> (HandleZoneReviewApi ''example'' 5 str ''approve'' tx, e) \<in> set
             [(SeekApprovalForSignedZone ''example'' 5, demo_server_env False),
              (HandleZoneReviewApi ''example'' 5 ''bb'' ''approve'' 0, demo_server_env True)])"
    by (auto simp: approved_event_def demo_server_world_def numeral_2_eq_2)
  have "env = demo_server_env False" using c(1,2) by auto
  with c(3) [rule_format, of 1] have ?P by (auto simp: demo_server_env_def)
  with run ev show ?thesis by blast
qed

end
