(* ===== verification/Center_Ops.thy ===== *)
theory Center_Ops
  imports Center
begin

text \<open>
  The operations on zones and policies: \<open>add_zone\<close> and \<open>remove_zone\<close> of
  \<open>src/center.rs\<close>, \<open>change_policy\<close> of \<open>src/zone/mod.rs\<close> and \<open>config::reload\<close> of
  \<open>src/config/mod.rs\<close>. Every zone names its policy and every policy lists its zones; the code
  asserts that the two agree, and \<open>links_ok\<close> is that agreement. The lemmas show that the
  operations keep it and never panic while it holds, what each does to the assignment of
  policies to zones, and how they save.
\<close>

datatype ZoneAddError = AlreadyExists
datatype ZoneRemoveError = NotFound
datatype ChangePolicyError = NoSuchZone | NoSuchPolicy | PolicyMidDeletion

definition poison :: "'k Center \<Rightarrow> 'k Center" where
  "poison c = c \<lparr> ce_poisoned := True \<rparr>"

text \<open>\<open>update_tx.send(Update::Changed(..)).unwrap()\<close> when the receiver is there.\<close>

definition send_change :: "Change \<Rightarrow> 'k Center \<Rightarrow> 'k Center" where
  "send_change ch c = c \<lparr> ce_updates := ce_updates c @ [Changed ch] \<rparr>"

definition set_zones :: "(dname, zref) hmap \<Rightarrow> 'k Center \<Rightarrow> 'k Center" where
  "set_zones zs c = c \<lparr> ce_state := (ce_state c) \<lparr> st_zones := zs \<rparr> \<rparr>"

definition set_policies :: "policies \<Rightarrow> 'k Center \<Rightarrow> 'k Center" where
  "set_policies ps c = c \<lparr> ce_state := (ce_state c) \<lparr> st_policies := ps \<rparr> \<rparr>"

abbreviation zones_of :: "'k Center \<Rightarrow> (dname, zref) hmap" where
  "zones_of c \<equiv> st_zones (ce_state c)"

abbreviation policies_of :: "'k Center \<Rightarrow> policies" where
  "policies_of c \<equiv> st_policies (ce_state c)"

section \<open>Operations\<close>

definition add_zone :: "dname \<Rightarrow> 'k Center \<Rightarrow> (ZoneAddError, unit) outcome \<times> 'k Center" where
  "add_zone name c =
    (let (zone, heap) = zalloc (Zone_new name) (ce_heap c);
         c = c \<lparr> ce_heap := heap \<rparr>
     in if ce_poisoned c then (Panic, c)
        else if hm_get (zones_of c) name \<noteq> None then (Err AlreadyExists, c)
        else let c = set_zones (hm_insert name zone (zones_of c)) c
             in if \<not> ce_update_open c then (Panic, poison c)
                else let c = send_change (ZoneAdded name) c;
                         c = State_mark_dirty c
                     in (Ok (), Zone_mark_dirty zone c))"

text \<open>
  Taking a zone's policy away from it and the zone out of the policy, as both operations below do
  with the state locked; the result says whether the zone had a policy.
\<close>

definition unlink_policy :: "dname \<Rightarrow> zref \<Rightarrow> 'k Center \<Rightarrow> (unit, bool) outcome \<times> 'k Center" where
  "unlink_policy name zone c = (case zst_policy (zstate_at c zone) of
      None \<Rightarrow> (Ok False, c)
    | Some version \<Rightarrow>
        (let c = set_zstate zone ((zstate_at c zone) \<lparr> zst_policy := None \<rparr>) c
         in case hm_get (policies_of c) (pv_name version) of
              None \<Rightarrow> (Panic, poison c)
            | Some policy \<Rightarrow>
                if name \<in> set (po_zones policy)
                then (Ok True, set_policies (hm_insert (pv_name version)
                       (policy \<lparr> po_zones := hs_remove name (po_zones policy) \<rparr>) (policies_of c)) c)
                else (Panic, poison c)))"

definition remove_zone :: "dname \<Rightarrow> 'k Center \<Rightarrow> (ZoneRemoveError, unit) outcome \<times> 'k Center" where
  "remove_zone name c =
    (if \<not> ce_update_open c then (Panic, c)
     else let c = send_change (ZoneRemoved name) c
          in if ce_poisoned c then (Panic, c)
             else case hm_get (zones_of c) name of
                 None \<Rightarrow> (Err NotFound, c)
               | Some zone \<Rightarrow>
                   (let c = set_zones (hm_remove name (zones_of c)) c
                    in case unlink_policy name zone c of
                         (Ok had, c) \<Rightarrow> (Ok (), if had then State_mark_dirty c else c)
                       | (Err e, c) \<Rightarrow> (Panic, c)
                       | (Panic, c) \<Rightarrow> (Panic, c)))"

definition change_policy :: "dname \<Rightarrow> string \<Rightarrow> 'k Center \<Rightarrow> (ChangePolicyError, unit) outcome \<times> 'k Center" where
  "change_policy name policy c =
    (if ce_poisoned c then (Panic, c)
     else case hm_get (zones_of c) name of
         None \<Rightarrow> (Err NoSuchZone, c)
       | Some zone \<Rightarrow> (case hm_get (policies_of c) policy of
           None \<Rightarrow> (Err NoSuchPolicy, c)
         | Some p \<Rightarrow>
             if po_mid_deletion p then (Err PolicyMidDeletion, c)
             else case unlink_policy name zone c of
                 (Err e, c) \<Rightarrow> (Panic, c)
               | (Panic, c) \<Rightarrow> (Panic, c)
               | (Ok had, c) \<Rightarrow> (case hm_get (policies_of c) policy of
                   None \<Rightarrow> (Err NoSuchPolicy, c)
                 | Some p \<Rightarrow>
                     if po_mid_deletion p then (Err PolicyMidDeletion, c)
                     else
                       (let c = set_zstate zone ((zstate_at c zone) \<lparr> zst_policy := Some (po_latest p) \<rparr>) c;
                            c = set_policies (hm_insert policy (p \<lparr> po_zones := hs_insert name (po_zones p) \<rparr>) (policies_of c)) c
                        in if \<not> ce_update_open c then (Panic, poison c)
                           else let c = send_change (ZonePolicyChanged name (po_latest p)) c
                                in (Ok (), Zone_mark_dirty zone c)))))"

text \<open>\<open>config::reload\<close>.\<close>

definition config_reload :: "(utf8path \<Rightarrow> FileError + CfFile) \<Rightarrow> 'k Center \<Rightarrow> (FileError, unit) outcome \<times> 'k Center" where
  "config_reload load c =
    (if ce_poisoned c then (Panic, c)
     else case load (Setting_value (dm_config_file (cfg_daemon (st_config (ce_state c))))) of
         Inl e \<Rightarrow> (Err e, c)
       | Inr spec \<Rightarrow>
           (let c = c \<lparr> ce_state := (ce_state c) \<lparr> st_config := CfFile_parse_into spec (st_config (ce_state c)) \<rparr> \<rparr>
            in if \<not> ce_update_open c then (Panic, poison c) else (Ok (), send_change ConfigChanged c)))"

text \<open>What the signer reads (\<open>sign_zone\<close> in \<open>units/zone_signer.rs\<close>): the policy of the zone, with the
  state locked. A poisoned lock panics; a zone that is not there panics with the lock held, which
  poisons it; a zone without a policy panics afterwards.\<close>

definition signing_policy :: "dname \<Rightarrow> 'k Center \<Rightarrow> (unit, PolicyVersion) outcome \<times> 'k Center" where
  "signing_policy zone_name c =
    (if ce_poisoned c then (Panic, c)
     else case hm_get (zones_of c) zone_name of
         None \<Rightarrow> (Panic, poison c)
       | Some zone \<Rightarrow> (case zst_policy (zstate_at c zone) of
           None \<Rightarrow> (Panic, c) | Some policy \<Rightarrow> (Ok policy, c)))"

section \<open>The agreement of zones and policies\<close>

text \<open>The name of the policy of a zone, and the zones a policy lists.\<close>

definition zone_policy :: "'k Center \<Rightarrow> dname \<Rightarrow> string option" where
  "zone_policy c n = (case hm_get (zones_of c) n of
      None \<Rightarrow> None | Some r \<Rightarrow> map_option pv_name (zst_policy (zstate_at c r)))"

definition policy_zones :: "'k Center \<Rightarrow> string \<Rightarrow> dname set" where
  "policy_zones c p = (case hm_get (policies_of c) p of None \<Rightarrow> {} | Some policy \<Rightarrow> set (po_zones policy))"

definition zones_ok :: "'k Center \<Rightarrow> bool" where
  "zones_ok c \<longleftrightarrow> hm_wf (zones_of c) \<and> hm_wf (policies_of c)
    \<and> (\<forall>n r. hm_get (zones_of c) n = Some r \<longrightarrow> r < length (ce_heap c) \<and> zn_name (zone_at c r) = n)
    \<and> (\<forall>n p. hm_get (policies_of c) n = Some p \<longrightarrow> pv_name (po_latest p) = n)"

definition links_ok :: "'k Center \<Rightarrow> bool" where
  "links_ok c \<longleftrightarrow> zones_ok c \<and> (\<forall>n p. zone_policy c n = Some p \<longleftrightarrow> n \<in> policy_zones c p)"

definition alive :: "'k Center \<Rightarrow> bool" where
  "alive c \<longleftrightarrow> \<not> ce_poisoned c \<and> ce_update_open c"

lemma zones_okD:
  "zones_ok c \<Longrightarrow> hm_get (zones_of c) n = Some r \<Longrightarrow> r < length (ce_heap c)"
  "zones_ok c \<Longrightarrow> hm_get (zones_of c) n = Some r \<Longrightarrow> zn_name (zone_at c r) = n"
  "zones_ok c \<Longrightarrow> hm_get (policies_of c) p = Some q \<Longrightarrow> pv_name (po_latest q) = p"
  "zones_ok c \<Longrightarrow> hm_wf (zones_of c)" "zones_ok c \<Longrightarrow> hm_wf (policies_of c)"
  by (simp_all add: zones_ok_def)

text \<open>Two names never share a zone.\<close>

lemma zones_ok_inj: "zones_ok c \<Longrightarrow> hm_get (zones_of c) n = Some r \<Longrightarrow> hm_get (zones_of c) m = Some r \<Longrightarrow> n = m"
  using zones_okD(2) by metis

lemma mark_dirty_frame [simp, frame_simps]:
  "zones_of (State_mark_dirty c) = zones_of c" "policies_of (State_mark_dirty c) = policies_of c"
  "ce_heap (State_mark_dirty c) = ce_heap c" "ce_updates (State_mark_dirty c) = ce_updates c"
  "ce_update_open (State_mark_dirty c) = ce_update_open c" "ce_writes (State_mark_dirty c) = ce_writes c"
  "zones_of (Zone_mark_dirty r c) = zones_of c" "policies_of (Zone_mark_dirty r c) = policies_of c"
  "ce_updates (Zone_mark_dirty r c) = ce_updates c" "ce_update_open (Zone_mark_dirty r c) = ce_update_open c"
  "ce_writes (Zone_mark_dirty r c) = ce_writes c"
  "st_enqueued_save (ce_state (Zone_mark_dirty r c)) = st_enqueued_save (ce_state c)"
  by (simp_all add: State_mark_dirty_def Zone_mark_dirty_def spawn_def)

lemma Zone_mark_dirty_zone [simp, frame_simps]:
  assumes "i < length (ce_heap c)"
  shows "zn_name (ce_heap (Zone_mark_dirty r c) ! i) = zn_name (ce_heap c ! i)"
    "zst_policy (zn_state (ce_heap (Zone_mark_dirty r c) ! i)) = zst_policy (zn_state (ce_heap c ! i))"
  using assms by (auto simp: Zone_mark_dirty_def spawn_def zset_nth)

lemma send_change_simps [simp, frame_simps]:
  "ce_state (send_change x c) = ce_state c" "ce_heap (send_change x c) = ce_heap c"
  "ce_poisoned (send_change x c) = ce_poisoned c" "ce_update_open (send_change x c) = ce_update_open c"
  "ce_tasks (send_change x c) = ce_tasks c" "ce_next_task (send_change x c) = ce_next_task c"
  "ce_writes (send_change x c) = ce_writes c" "ce_updates (send_change x c) = ce_updates c @ [Changed x]"
  by (simp_all add: send_change_def)

lemma set_zones_simps [simp, frame_simps]:
  "zones_of (set_zones z c) = z" "policies_of (set_zones z c) = policies_of c" "ce_heap (set_zones z c) = ce_heap c"
  "ce_poisoned (set_zones z c) = ce_poisoned c" "ce_update_open (set_zones z c) = ce_update_open c"
  "ce_tasks (set_zones z c) = ce_tasks c" "ce_next_task (set_zones z c) = ce_next_task c"
  "ce_updates (set_zones z c) = ce_updates c" "ce_writes (set_zones z c) = ce_writes c"
  "st_enqueued_save (ce_state (set_zones z c)) = st_enqueued_save (ce_state c)"
  "st_tsig_store (ce_state (set_zones z c)) = st_tsig_store (ce_state c)"
  "st_config (ce_state (set_zones z c)) = st_config (ce_state c)"
  by (simp_all add: set_zones_def)

lemma set_policies_simps [simp, frame_simps]:
  "zones_of (set_policies p c) = zones_of c" "policies_of (set_policies p c) = p" "ce_heap (set_policies p c) = ce_heap c"
  "ce_poisoned (set_policies p c) = ce_poisoned c" "ce_update_open (set_policies p c) = ce_update_open c"
  "ce_tasks (set_policies p c) = ce_tasks c" "ce_next_task (set_policies p c) = ce_next_task c"
  "ce_updates (set_policies p c) = ce_updates c" "ce_writes (set_policies p c) = ce_writes c"
  "st_enqueued_save (ce_state (set_policies p c)) = st_enqueued_save (ce_state c)"
  "st_tsig_store (ce_state (set_policies p c)) = st_tsig_store (ce_state c)"
  "st_config (ce_state (set_policies p c)) = st_config (ce_state c)"
  by (simp_all add: set_policies_def)

lemma poison_simps [simp]:
  "ce_poisoned (poison c) = True" "ce_state (poison c) = ce_state c" "ce_heap (poison c) = ce_heap c"
  by (simp_all add: poison_def)

text \<open>\<open>zones_ok\<close>, \<open>zone_policy\<close> and \<open>policy_zones\<close> look at zones, policies and the heap only.\<close>

lemma links_cong:
  assumes "zones_of c' = zones_of c" "policies_of c' = policies_of c"
    and "length (ce_heap c') = length (ce_heap c)"
    and "\<And>i. i < length (ce_heap c) \<Longrightarrow> zn_name (ce_heap c' ! i) = zn_name (ce_heap c ! i)
      \<and> zst_policy (zn_state (ce_heap c' ! i)) = zst_policy (zn_state (ce_heap c ! i))"
  shows "zones_ok c' = zones_ok c" "zones_ok c \<Longrightarrow> zone_policy c' = zone_policy c" "policy_zones c' = policy_zones c"
proof -
  have "(r < length (ce_heap c) \<and> zn_name (ce_heap c' ! r) = n) = (r < length (ce_heap c) \<and> zn_name (ce_heap c ! r) = n)" for r n
    using assms(4) by auto
  then show "zones_ok c' = zones_ok c"
    unfolding zones_ok_def assms(1-3) by simp
  show "zone_policy c' = zone_policy c" if "zones_ok c"
    using assms that by (auto simp: zone_policy_def zones_okD(1) split: option.splits)
  show "policy_zones c' = policy_zones c"
    using assms by (auto simp: policy_zones_def)
qed

lemma links_mark_dirty [simp]:
  "zones_ok (State_mark_dirty c) = zones_ok c" "zones_ok (Zone_mark_dirty r c) = zones_ok c"
  "zones_ok c \<Longrightarrow> zone_policy (State_mark_dirty c) = zone_policy c"
  "zones_ok c \<Longrightarrow> zone_policy (Zone_mark_dirty r c) = zone_policy c"
  "policy_zones (State_mark_dirty c) = policy_zones c" "policy_zones (Zone_mark_dirty r c) = policy_zones c"
  by (rule links_cong; simp)+

lemma links_send_change [simp]:
  "zones_ok (send_change x c) = zones_ok c" "zone_policy (send_change x c) = zone_policy c"
  "policy_zones (send_change x c) = policy_zones c"
  by (simp_all add: zones_ok_def fun_eq_iff zone_policy_def policy_zones_def split: option.splits)

lemma links_okD:
  "links_ok c \<Longrightarrow> zones_ok c"
  "links_ok c \<Longrightarrow> n \<in> policy_zones c p \<longleftrightarrow> zone_policy c n = Some p"
  by (simp_all add: links_ok_def)

lemma alive_frame [simp]:
  "alive (State_mark_dirty c) = alive c" "alive (Zone_mark_dirty r c) = alive c" "alive (send_change x c) = alive c"
  by (simp_all add: alive_def)

section \<open>Unlinking\<close>

lemma zone_policy_at:
  "hm_get (zones_of c) n = Some r \<Longrightarrow> zone_policy c n = map_option pv_name (zst_policy (zstate_at c r))"
  by (simp add: zone_policy_def)

text \<open>Giving one zone another state.\<close>

lemma zone_policy_set_policies [simp]: "zone_policy (set_policies ps c) = zone_policy c"
  by (simp add: fun_eq_iff zone_policy_def split: option.splits)

lemma policy_zones_set_policies:
  "policy_zones (set_policies ps c) p = (case hm_get ps p of None \<Rightarrow> {} | Some policy \<Rightarrow> set (po_zones policy))"
  by (simp add: policy_zones_def)

lemma policy_zones_set_zstate [simp]: "policy_zones (set_zstate r z c) = policy_zones c"
  by (simp add: fun_eq_iff policy_zones_def)

lemma zones_ok_set_zstate [simp]: "zones_ok (set_zstate r z c) = zones_ok c"
proof -
  have "(i < length (ce_heap c) \<and> zn_name (zset r z (ce_heap c) ! i) = n)
      = (i < length (ce_heap c) \<and> zn_name (ce_heap c ! i) = n)" for i n
    by auto
  then show ?thesis by (simp add: zones_ok_def)
qed

lemma zones_ok_insert_policy:
  assumes "zones_ok c" "ps = hm_insert p q (policies_of c)" "pv_name (po_latest q) = p"
  shows "zones_ok (set_policies ps c)"
  using assms by (auto simp: zones_ok_def)

lemma zone_policy_set:
  assumes "zones_ok c" "hm_get (zones_of c) n = Some r"
  shows "zone_policy (set_zstate r z c) = (zone_policy c)(n := map_option pv_name (zst_policy z))"
proof
  fix m
  have r: "r < length (ce_heap c)" using zones_okD(1) [OF assms] .
  show "zone_policy (set_zstate r z c) m = ((zone_policy c)(n := map_option pv_name (zst_policy z))) m"
  proof (cases "hm_get (zones_of c) m")
    case None
    then have "m \<noteq> n" using assms(2) by auto
    with None show ?thesis by (simp add: zone_policy_def)
  next
    case (Some s)
    show ?thesis
    proof (cases "m = n")
      case True
      with assms(2) r show ?thesis by (simp add: zone_policy_def)
    next
      case False
      then have "s \<noteq> r" using zones_ok_inj [OF assms(1) Some] assms(2) by auto
      with Some False show ?thesis by (simp add: zone_policy_def)
    qed
  qed
qed

text \<open>What taking the policy of \<open>n\<close> away changes and what it leaves alone.\<close>

definition unlinked :: "dname \<Rightarrow> 'k Center \<Rightarrow> 'k Center \<Rightarrow> bool" where
  "unlinked n c c' \<longleftrightarrow> zones_ok c' \<and> zones_of c' = zones_of c \<and> length (ce_heap c') = length (ce_heap c)
    \<and> zone_policy c' = (zone_policy c)(n := None)
    \<and> (\<forall>p. policy_zones c' p = policy_zones c p - {n})
    \<and> (\<forall>p. map_option (\<lambda>q. q \<lparr> po_zones := [] \<rparr>) (hm_get (policies_of c') p)
          = map_option (\<lambda>q. q \<lparr> po_zones := [] \<rparr>) (hm_get (policies_of c) p))
    \<and> alive c' = alive c \<and> ce_updates c' = ce_updates c \<and> ce_writes c' = ce_writes c
    \<and> ce_tasks c' = ce_tasks c \<and> ce_next_task c' = ce_next_task c \<and> handle_of c' = handle_of c
    \<and> st_config (ce_state c') = st_config (ce_state c)"

lemma unlink_ok:
  assumes "links_ok c" "hm_get (zones_of c) n = Some r"
  shows "\<exists>c'. unlink_policy n r c = (Ok (zone_policy c n \<noteq> None), c') \<and> unlinked n c c'"
proof (cases "zst_policy (zstate_at c r)")
  case None
  then have n: "zone_policy c n = None" using assms(2) by (simp add: zone_policy_at)
  then have "n \<notin> policy_zones c p" for p using assms(1) by (simp add: links_okD)
  moreover have "(zone_policy c)(n := None) = zone_policy c" using n by (simp add: fun_upd_idem)
  moreover have "unlink_policy n r c = (Ok (zone_policy c n \<noteq> None), c)"
    using None n by (simp add: unlink_policy_def)
  moreover have "zones_ok c" using assms(1) by (simp add: links_ok_def)
  ultimately show ?thesis by (intro exI [of _ c]) (simp add: unlinked_def)
next
  case (Some v)
  have zok: "zones_ok c" using assms(1) by (simp add: links_ok_def)
  have r: "r < length (ce_heap c)" using zones_okD(1) [OF zok assms(2)] .
  have zp: "zone_policy c n = Some (pv_name v)" using assms(2) Some by (simp add: zone_policy_at)
  then have mem: "n \<in> policy_zones c p \<longleftrightarrow> p = pv_name v" for p
    by (auto simp: links_okD(2) [OF assms(1)] zp)
  then obtain q where q: "hm_get (policies_of c) (pv_name v) = Some q" "n \<in> set (po_zones q)"
    unfolding policy_zones_def by (metis empty_iff option.case_eq_if option.collapse)
  define q' where "q' = q \<lparr> po_zones := hs_remove n (po_zones q) \<rparr>"
  define c' where "c' = set_policies (hm_insert (pv_name v) q' (policies_of c))
      (set_zstate r ((zstate_at c r) \<lparr> zst_policy := None \<rparr>) c)"
  have u: "unlink_policy n r c = (Ok (zone_policy c n \<noteq> None), c')"
    by (simp add: unlink_policy_def Some q zp c'_def q'_def)
  have zok': "zones_ok c'"
    unfolding c'_def q'_def
    by (rule zones_ok_insert_policy [where p = "pv_name v" and q = "q \<lparr> po_zones := hs_remove n (po_zones q) \<rparr>"])
       (simp_all add: zok zones_okD(3) [OF zok q(1)])
  have zp': "zone_policy c' = (zone_policy c)(n := None)"
    by (simp add: c'_def zone_policy_set [OF zok assms(2)])
  have pz: "policy_zones c' p = policy_zones c p - {n}" for p
    using mem [of p] by (auto simp: policy_zones_def c'_def q'_def q split: option.splits)
  have h: "handle_of c' = handle_of c"
  proof
    fix j show "handle_of c' j = handle_of c j"
      by (cases j) (auto simp: c'_def zset_nth)
  qed
  show ?thesis
    by (rule exI [of _ c'], unfold unlinked_def, intro conjI allI)
       (rule u zok' zp' pz h | simp add: c'_def q'_def q alive_def)+
qed

section \<open>What the operations do\<close>

definition mid_deletion_of :: "'k Center \<Rightarrow> string \<Rightarrow> bool option" where
  "mid_deletion_of c p = map_option po_mid_deletion (hm_get (policies_of c) p)"

definition version_of :: "'k Center \<Rightarrow> string \<Rightarrow> PolicyVersion option" where
  "version_of c p = map_option po_latest (hm_get (policies_of c) p)"

lemma add_zone_result:
  assumes "alive c" "links_ok c"
  shows "hm_get (zones_of c) n \<noteq> None \<Longrightarrow> fst (add_zone n c) = Err AlreadyExists"
    and "hm_get (zones_of c) n = None \<Longrightarrow> fst (add_zone n c) = Ok ()"
  using assms by (simp_all add: add_zone_def zalloc_def alive_def Let_def)

lemma add_zone_links:
  assumes "alive c" "links_ok c"
  shows "links_ok (snd (add_zone n c)) \<and> alive (snd (add_zone n c))
    \<and> zone_policy (snd (add_zone n c)) = zone_policy c
    \<and> dom (hm_get (zones_of (snd (add_zone n c)))) = insert n (dom (hm_get (zones_of c)))"
proof -
  have zok: "zones_ok c" using assms(2) by (rule links_okD)
  define c1 where "c1 = c \<lparr> ce_heap := ce_heap c @ [Zone_new n] \<rparr>"
  have c1: "zones_ok c1" "zone_policy c1 = zone_policy c" "policy_zones c1 = policy_zones c" "alive c1 = alive c"
  proof -
    show "zones_ok c1" using zok by (auto simp: zones_ok_def c1_def nth_append intro: less_SucI)
    show "zone_policy c1 = zone_policy c"
      by (rule ext) (auto simp: zone_policy_def c1_def nth_append zones_okD(1) [OF zok] split: option.splits)
    show "policy_zones c1 = policy_zones c" by (rule ext) (simp add: policy_zones_def c1_def)
    show "alive c1 = alive c" by (simp add: alive_def c1_def)
  qed
  show ?thesis
  proof (cases "hm_get (zones_of c) n")
    case (Some r)
    then have "add_zone n c = (Err AlreadyExists, c1)"
      using assms by (simp add: add_zone_def zalloc_def alive_def Let_def c1_def)
    with c1 assms Some show ?thesis by (auto simp: links_ok_def c1_def)
  next
    case None
    define c2 where "c2 = set_zones (hm_insert n (length (ce_heap c)) (zones_of c)) c1"
    have r: "length (ce_heap c) < length (ce_heap c2)" by (simp add: c2_def c1_def)
    have z2: "zones_ok c2"
      using c1(1) by (auto simp: zones_ok_def c2_def c1_def Zone_new_def)
    have p2: "zone_policy c2 = zone_policy c"
    proof
      fix m show "zone_policy c2 m = zone_policy c m"
        using None zones_okD(1) [OF zok]
        by (auto simp: zone_policy_def c2_def c1_def nth_append Zone_new_def ZoneState_default_def split: option.splits)
    qed
    have q2: "policy_zones c2 = policy_zones c" using c1(3) by (simp add: policy_zones_def [abs_def] c2_def c1_def)
    have "add_zone n c = (Ok (), Zone_mark_dirty (length (ce_heap c)) (State_mark_dirty (send_change (ZoneAdded n) c2)))"
      using assms None by (simp add: add_zone_def zalloc_def alive_def Let_def c1_def c2_def)
    moreover have "alive c2" using assms(1) by (simp add: alive_def c2_def c1_def)
    moreover have "zones_of c2 = hm_insert n (length (ce_heap c)) (zones_of c)" by (simp add: c2_def)
    ultimately show ?thesis
      using z2 p2 q2 assms(2) hm.dom_ins [of n "length (ce_heap c)" "zones_of c"]
      by (simp add: links_ok_def)
  qed
qed

text \<open>Removing a zone from the set once it has no policy.\<close>

lemma remove_from_set:
  assumes "zones_ok c" "\<And>p. n \<notin> policy_zones c p" "\<And>m p. m \<noteq> n \<Longrightarrow> m \<in> policy_zones c p \<longleftrightarrow> zone_policy c m = Some p"
  shows "links_ok (set_zones (hm_remove n (zones_of c)) c)"
    and "zone_policy (set_zones (hm_remove n (zones_of c)) c) = (zone_policy c)(n := None)"
proof -
  show zp: "zone_policy (set_zones (hm_remove n (zones_of c)) c) = (zone_policy c)(n := None)"
    by (rule ext) (simp add: zone_policy_def split: option.splits)
  have "zones_ok (set_zones (hm_remove n (zones_of c)) c)"
    using assms(1) by (auto simp: zones_ok_def split: if_splits)
  moreover have "policy_zones (set_zones (hm_remove n (zones_of c)) c) = policy_zones c"
    by (rule ext) (simp add: policy_zones_def)
  ultimately show "links_ok (set_zones (hm_remove n (zones_of c)) c)"
    using assms(2,3) by (auto simp: links_ok_def zp)
qed

lemma remove_zone_unknown:
  assumes "alive c" "hm_get (zones_of c) n = None"
  shows "remove_zone n c = (Err NotFound, send_change (ZoneRemoved n) c)"
  using assms by (simp add: remove_zone_def alive_def Let_def)

lemma set_zones_commute:
  "unlink_policy n r (set_zones zs c) = map_prod id (set_zones zs) (unlink_policy n r c)"
  by (simp add: unlink_policy_def set_zones_def set_zstate_def set_policies_def poison_def Let_def split: option.splits)

lemma remove_zone_known:
  assumes "alive c" "links_ok c" "hm_get (zones_of c) n = Some r"
  shows "\<exists>c'. remove_zone n c = (Ok (), c') \<and> links_ok c' \<and> alive c'
    \<and> zone_policy c' = (zone_policy c)(n := None)
    \<and> dom (hm_get (zones_of c')) = dom (hm_get (zones_of c)) - {n}
    \<and> ce_updates c' = ce_updates c @ [Changed (ZoneRemoved n)]
    \<and> (zone_policy c n = None \<longrightarrow> st_enqueued_save (ce_state c') = st_enqueued_save (ce_state c) \<and> ce_tasks c' = ce_tasks c)
    \<and> (center_ok c \<longrightarrow> center_ok c')"
proof -
  define c0 where "c0 = send_change (ZoneRemoved n) c"
  have c0: "links_ok c0" "alive c0" "hm_get (zones_of c0) n = Some r" "zone_policy c0 = zone_policy c"
    "zones_of c0 = zones_of c" "ce_updates c0 = ce_updates c @ [Changed (ZoneRemoved n)]"
    using assms by (simp_all add: c0_def links_ok_def)
  obtain c1 where u: "unlink_policy n r c0 = (Ok (zone_policy c0 n \<noteq> None), c1)" and "unlinked n c0 c1"
    using unlink_ok [OF c0(1,3)] by blast
  then have c1: "zones_ok c1" "zones_of c1 = zones_of c0" "zone_policy c1 = (zone_policy c0)(n := None)"
      "\<And>p. policy_zones c1 p = policy_zones c0 p - {n}"
    and fr: "alive c1 = alive c0" "ce_updates c1 = ce_updates c0" "handle_of c1 = handle_of c0"
      "ce_tasks c1 = ce_tasks c0" "ce_next_task c1 = ce_next_task c0"
    unfolding unlinked_def by auto
  define c2 where "c2 = set_zones (hm_remove n (zones_of c1)) c1"
  have mem: "m \<in> policy_zones c1 p \<longleftrightarrow> zone_policy c1 m = Some p" for m p
    using links_okD(2) [OF c0(1), of m p] c1(3,4) by auto
  have c2: "links_ok c2" "zone_policy c2 = (zone_policy c)(n := None)"
    using remove_from_set [OF c1(1), of n] mem c1(3) c0(4) by (simp_all add: c2_def)
  have "remove_zone n c = (Ok (), if zone_policy c n \<noteq> None then State_mark_dirty c2 else c2)"
    using assms(1,3) u c1(2) c0
    by (simp add: remove_zone_def alive_def Let_def set_zones_commute c2_def flip: c0_def)
  moreover have "alive c2" using fr(1) c0(2) by (simp add: c2_def alive_def)
  moreover have "dom (hm_get (zones_of c2)) = dom (hm_get (zones_of c)) - {n}"
    using c1(2) c0(5) by (auto simp: c2_def split: if_splits)
  moreover have "center_ok c2" if "center_ok c"
  proof -
    have "handle_of c2 = handle_of c1" "handle_of c0 = handle_of c"
      by (rule ext, case_tac x; simp add: c2_def c0_def)+
    with fr(3) have h: "handle_of c2 = handle_of c" by simp
    have "tasks_ok c2"
      by (rule tasks_ok_frame [of c]) (use that fr h in \<open>simp_all add: c2_def c0_def center_ok_def\<close>)
    then show ?thesis using \<open>alive c2\<close> by (simp add: center_ok_def alive_def)
  qed
  moreover have "ce_updates c2 = ce_updates c @ [Changed (ZoneRemoved n)]" "ce_tasks c2 = ce_tasks c"
    using fr c0 by (simp_all add: c2_def c0_def)
  moreover have "st_enqueued_save (ce_state c2) = st_enqueued_save (ce_state c)"
    using fun_cong [OF fr(3), of SaveState] by (simp add: c2_def c0_def)
  moreover have "links_ok (State_mark_dirty c2)" "zone_policy (State_mark_dirty c2) = zone_policy c2"
    using c2(1) links_okD(1) [OF c2(1)] by (simp_all add: links_ok_def)
  ultimately show ?thesis using c2 by simp
qed

lemma change_policy_known:
  assumes "alive c" "links_ok c" "hm_get (zones_of c) n = Some r" "hm_get (policies_of c) pol = Some p" "\<not> po_mid_deletion p"
  shows "\<exists>c'. change_policy n pol c = (Ok (), c') \<and> links_ok c' \<and> alive c'
    \<and> zone_policy c' = (zone_policy c)(n \<mapsto> pol) \<and> zones_of c' = zones_of c
    \<and> zst_policy (zstate_at c' r) = Some (po_latest p)
    \<and> ce_updates c' = ce_updates c @ [Changed (ZonePolicyChanged n (po_latest p))]
    \<and> (center_ok c \<longrightarrow> center_ok c' \<and> zst_enqueued_save (zstate_at c' r) \<noteq> None)"
proof -
  obtain c1 where u: "unlink_policy n r c = (Ok (zone_policy c n \<noteq> None), c1)" and "unlinked n c c1"
    using unlink_ok [OF assms(2,3)] by blast
  then have c1: "zones_ok c1" "zones_of c1 = zones_of c" "zone_policy c1 = (zone_policy c)(n := None)"
      "\<And>p. policy_zones c1 p = policy_zones c p - {n}" "length (ce_heap c1) = length (ce_heap c)"
    and fr: "alive c1 = alive c" "ce_updates c1 = ce_updates c" "handle_of c1 = handle_of c"
      "ce_tasks c1 = ce_tasks c" "ce_next_task c1 = ce_next_task c"
    and pl: "\<And>p. map_option (\<lambda>q. q \<lparr> po_zones := [] \<rparr>) (hm_get (policies_of c1) p)
          = map_option (\<lambda>q. q \<lparr> po_zones := [] \<rparr>) (hm_get (policies_of c) p)"
    unfolding unlinked_def by auto
  from pl [of pol] assms(4) obtain q where q: "hm_get (policies_of c1) pol = Some q" "q \<lparr> po_zones := [] \<rparr> = p \<lparr> po_zones := [] \<rparr>"
    by auto
  then have q': "po_latest q = po_latest p" "po_mid_deletion q = po_mid_deletion p"
    by (cases q; cases p; simp)+
  have r: "r < length (ce_heap c1)" using zones_okD(1) [OF c1(1), of n r] assms(3) c1(2) by simp
  have name: "pv_name (po_latest p) = pol" using zones_okD(3) links_okD(1) assms by metis
  have al: "\<not> ce_poisoned c" "ce_update_open c1" using assms(1) fr(1) by (simp_all add: alive_def)
  define c2 where "c2 = set_policies (hm_insert pol (q \<lparr> po_zones := hs_insert n (po_zones q) \<rparr>) (policies_of c1))
      (set_zstate r ((zstate_at c1 r) \<lparr> zst_policy := Some (po_latest p) \<rparr>) c1)"
  define c3 where "c3 = send_change (ZonePolicyChanged n (po_latest p)) c2"
  have res: "change_policy n pol c = (Ok (), Zone_mark_dirty r c3)"
    using assms al u q q' by (simp add: change_policy_def c2_def c3_def Let_def)
  have zok: "zones_ok c2"
    unfolding c2_def
    by (rule zones_ok_insert_policy [where p = pol and q = "q \<lparr> po_zones := hs_insert n (po_zones q) \<rparr>"])
       (simp_all add: c1 q' name)
  have n1: "hm_get (zones_of c1) n = Some r" using assms(3) c1(2) by simp
  have zp: "zone_policy c2 = (zone_policy c)(n \<mapsto> pol)"
    by (simp add: c2_def zone_policy_set [OF c1(1) n1] c1(3) name)
  have pz: "policy_zones c2 x = (if x = pol then insert n (policy_zones c x) else policy_zones c x - {n})" for x
  proof (cases "x = pol")
    case True
    have "set (po_zones q) = policy_zones c pol - {n}" using c1(4) [of pol] q(1) by (simp add: policy_zones_def)
    then show ?thesis by (simp add: True c2_def policy_zones_def)
  next
    case False
    then show ?thesis using c1(4) [of x] by (simp add: c2_def policy_zones_def)
  qed
  have links: "links_ok c2"
    unfolding links_ok_def using zok links_okD(2) [OF assms(2)] by (auto simp: zp pz)
  have h: "handle_of c2 = handle_of c"
  proof -
    have "handle_of c2 j = handle_of c1 j" for j
      by (cases j) (auto simp: c2_def zset_nth)
    then show ?thesis using fr(3) by (simp add: fun_eq_iff)
  qed
  have alive3: "alive c3" using assms(1) fr(1) by (simp add: c3_def c2_def alive_def)
  have tasks: "tasks_ok c3" if "center_ok c"
  proof -
    have "handle_of c3 = handle_of c2" by (rule ext, case_tac x; simp add: c3_def)
    with h have h3: "handle_of c3 = handle_of c" by simp
    show ?thesis
      by (rule tasks_ok_frame [of c]) (use that fr h3 in \<open>simp_all add: c3_def c2_def center_ok_def\<close>)
  qed
  have "center_ok (Zone_mark_dirty r c3) \<and> zst_enqueued_save (zstate_at (Zone_mark_dirty r c3) r) \<noteq> None" if "center_ok c"
  proof -
    have ok3: "center_ok c3" using tasks [OF that] alive3 by (simp add: center_ok_def alive_def)
    have "r < length (ce_heap c3)" using r by (simp add: c3_def c2_def)
    with ok3 show ?thesis using zone_saver.mark_slot [of c3 r] by simp
  qed
  moreover have "links_ok (Zone_mark_dirty r c3)" "zone_policy (Zone_mark_dirty r c3) = zone_policy c2"
    using links zok by (simp_all add: links_ok_def c3_def)
  moreover have "zst_policy (zstate_at (Zone_mark_dirty r c3) r) = Some (po_latest p)"
    using r by (simp add: c3_def c2_def)
  ultimately show ?thesis
    using res zp alive3 c1(2) fr(2) by (simp add: c3_def c2_def)
qed

lemma change_policy_errors:
  assumes "alive c"
  shows "hm_get (zones_of c) n = None \<Longrightarrow> change_policy n pol c = (Err NoSuchZone, c)"
    and "hm_get (zones_of c) n = Some r \<Longrightarrow> hm_get (policies_of c) pol = None \<Longrightarrow> change_policy n pol c = (Err NoSuchPolicy, c)"
    and "hm_get (zones_of c) n = Some r \<Longrightarrow> hm_get (policies_of c) pol = Some p \<Longrightarrow> po_mid_deletion p
      \<Longrightarrow> change_policy n pol c = (Err PolicyMidDeletion, c)"
  using assms by (simp_all add: change_policy_def alive_def)

text \<open>The center of a program without a state file.\<close>

definition new_center :: "'k Center" where
  "new_center = \<lparr>ce_state = State_new Config_default, ce_heap = [], ce_poisoned = False, ce_update_open = True,
     ce_updates = [], ce_tasks = [], ce_next_task = 0, ce_writes = []\<rparr>"

lemma new_center_ok [simp]: "alive new_center" "links_ok new_center" "hm_get (zones_of new_center) n = None"
  "hm_get (policies_of new_center) p = None"
  by (simp_all add: alive_def new_center_def links_ok_def zones_ok_def zone_policy_def policy_zones_def State_new_def)

end
