(* ===== verification/Zone_Signing.thy ===== *)
theory Zone_Signing
  imports Zone_Signer Zone_Review Center_Ops
begin

text \<open>
  Properties of signing: the threads together do what one pass over all owners does, and what
  becomes of a zone that is signed again.
\<close>

section \<open>Chunks\<close>

text \<open>One pass over the owners, without threads: the signatures that are not empty, or nothing when
  signing one owner fails.\<close>

fun sign_all :: "('o \<Rightarrow> string + 'g list) \<Rightarrow> 'o list \<Rightarrow> 'g list list option" where
  "sign_all sign [] = Some []"
| "sign_all sign (x # owners) = (case sign x of
      Inl _ \<Rightarrow> None
    | Inr rrsigs \<Rightarrow> map_option (\<lambda>r. if rrsigs = [] then r else rrsigs # r) (sign_all sign owners))"

lemma sign_all_append:
  "sign_all sign (xs @ ys) = (case sign_all sign xs of
      None \<Rightarrow> None | Some a \<Rightarrow> map_option (\<lambda>b. a @ b) (sign_all sign ys))"
  by (induction xs) (auto split: sum.splits option.splits, (cases "sign_all sign ys"; simp)+)

lemma sign_all_concat:
  "sign_all sign (concat xss) =
     (if \<forall>xs \<in> set xss. sign_all sign xs \<noteq> None then Some (concat (map (\<lambda>xs. the (sign_all sign xs)) xss)) else None)"
  by (induction xss) (auto simp: sign_all_append split: option.splits)

lemma skip_owners_drop:
  "skip_owners k owners = (if k \<le> length owners then Some (drop k owners) else None)"
  by (induction k owners rule: skip_owners.induct) auto

text \<open>What a result of a thread says of the owners it had to sign.\<close>

definition signs :: "('o \<Rightarrow> string + 'g list) \<Rightarrow> 'o list \<Rightarrow> 'g list list \<times> (string + unit) \<Rightarrow> bool" where
  "signs sign owners res \<longleftrightarrow> sign_all sign owners = (if snd res = Inr () then Some (fst res) else None)"

lemma chunk_loop_last: "signs sign owners (chunk_loop True c sign n owners)"
proof (induction owners arbitrary: n)
  case (Cons x owners)
  show ?case using Cons.IH [of "n + 1"]
    by (cases "chunk_loop True c sign (n + 1) owners") (auto simp: signs_def split: sum.splits if_splits)
qed (simp add: signs_def)

lemma chunk_loop_chunk: "n \<le> c \<Longrightarrow> signs sign (take (c - n) owners) (chunk_loop False c sign n owners)"
proof (induction owners arbitrary: n)
  case (Cons x owners)
  show ?case
  proof (cases "n = c")
    case False
    then have "signs sign (take (c - Suc n) owners) (chunk_loop False c sign (Suc n) owners)"
      "c - n = Suc (c - Suc n)" using Cons by simp_all
    then show ?thesis using False
      by (auto simp: signs_def Let_def split: sum.splits prod.splits if_splits)
  qed (simp add: signs_def)
qed (simp add: signs_def)

definition chunk :: "nat \<Rightarrow> nat \<Rightarrow> 'o list \<Rightarrow> nat \<Rightarrow> 'o list" where
  "chunk p c owners i = (if i = p - 1 then drop (i * c) owners else take c (drop (i * c) owners))"

lemma chunks_prefix:
  "concat (map (\<lambda>i. take c (drop (i * c) owners)) [0..<k]) = take (k * c) owners"
  by (induction k) (simp_all add: take_add add.commute [of c])

lemma chunks_all:
  assumes "p > 0"
  shows "concat (map (chunk p c owners) [0..<p]) = owners"
proof -
  obtain k where p: "p = Suc k" using assms by (cases p) auto
  have "concat (map (chunk p c owners) [0..<k]) = concat (map (\<lambda>i. take c (drop (i * c) owners)) [0..<k])"
    by (rule arg_cong [where f = concat]) (auto simp: chunk_def p)
  then show ?thesis by (simp add: p chunks_prefix) (simp add: chunk_def)
qed

lemma thread_signs:
  assumes "i * c \<le> length owners"
  shows "signs sign (chunk p c owners i) (sign_rr_chunk (i = p - 1) c sign owners i)"
  using assms chunk_loop_last [of sign "drop (i * c) owners" c 0] chunk_loop_chunk [of 0 c sign "drop (i * c) owners"]
  by (auto simp: sign_rr_chunk_def skip_owners_drop chunk_def)

lemma concurrency_bounds:
  assumes "determine_signing_concurrency m n = Ok (p, c)"
  shows "p > 0" "p \<le> m" "c = n div p"
  using assms by (auto simp: determine_signing_concurrency_def Let_def split: if_splits)

text \<open>C16: whatever the number of records and the allowed number of threads, the threads together
  sign every owner exactly once, in the order of one pass, and report success exactly when signing
  succeeds for every owner. Only with no thread allowed does the division of the work panic.\<close>

theorem threads_sign_all:
  assumes "m > 0"
  shows "\<exists>p c sent ok. determine_signing_concurrency m (length owners) = Ok (p, c) \<and> p \<le> m
    \<and> generate_rrsigs p c sign owners = (sent, ok)
    \<and> sign_all sign owners = (if ok then Some (concat sent) else None)"
proof -
  have "determine_signing_concurrency m (length owners) \<noteq> Panic"
    using assms by (simp add: determine_signing_concurrency_def Let_def)
  then obtain p c where d: "determine_signing_concurrency m (length owners) = Ok (p, c)"
    by (cases "determine_signing_concurrency m (length owners)")
       (auto simp: determine_signing_concurrency_def Let_def split: if_splits)
  note b = concurrency_bounds [OF d]
  have fits: "i * c \<le> length owners" if "i < p" for i
  proof -
    have "i * c \<le> p * c" using that by simp
    also have "\<dots> \<le> length owners" by (simp add: b(3))
    finally show ?thesis .
  qed
  let ?r = "\<lambda>i. sign_rr_chunk (i = p - 1) c sign owners i"
  have s: "sign_all sign (chunk p c owners i) = (if snd (?r i) = Inr () then Some (fst (?r i)) else None)"
    if "i < p" for i
    using thread_signs [OF fits [OF that], of sign p] by (simp add: signs_def)
  let ?ok = "\<forall>i < p. snd (?r i) = Inr ()" and ?sent = "map (\<lambda>i. fst (?r i)) [0..<p]"
  have g: "generate_rrsigs p c sign owners = (?sent, ?ok)"
    by (auto simp: generate_rrsigs_def Let_def comp_def)
  have "sign_all sign owners = sign_all sign (concat (map (chunk p c owners) [0..<p]))"
    by (simp only: chunks_all [OF b(1)])
  also have "\<dots> = (if ?ok then Some (concat ?sent) else None)"
  proof (cases ?ok)
    case True
    then have all: "\<forall>xs \<in> set (map (chunk p c owners) [0..<p]). sign_all sign xs \<noteq> None"
      using s by auto
    have m: "map (\<lambda>i. the (sign_all sign (chunk p c owners i))) [0..<p] = ?sent"
      using True s by simp
    show ?thesis unfolding sign_all_concat if_P [OF all] if_P [OF True] map_map comp_def m ..
  next
    case False
    then obtain i where "i < p" "snd (?r i) \<noteq> Inr ()" by blast
    then have "sign_all sign (chunk p c owners i) = None" "i \<in> set [0..<p]" using s by simp_all
    then have no: "\<not> (\<forall>xs \<in> set (map (chunk p c owners) [0..<p]). sign_all sign xs \<noteq> None)"
      by (metis image_eqI list.set_map)
    show ?thesis unfolding sign_all_concat using no False by (simp only: if_False)
  qed
  finally show ?thesis using d g b(2) by blast
qed

theorem threads_sign_all_witness:
  "sign_all (\<lambda>x. Inr [x]) [1, 2, 3 :: nat] = Some [[1], [2], [3]] \<and>
   (\<exists>p c sent ok. determine_signing_concurrency 32 3 = Ok (p, c) \<and> p \<le> 32
     \<and> generate_rrsigs p c (\<lambda>x. Inr [x]) [1, 2, 3 :: nat] = (sent, ok) \<and> (ok, concat sent) = (True, [[1], [2], [3]]))"
proof -
  let ?sign = "\<lambda>x :: nat. (Inr [x] :: string + nat list)"
  have len: "length [1, 2, 3 :: nat] = 3" by simp
  have "sign_all ?sign [1, 2, 3] = Some [[1], [2], [3]]" by simp
  moreover obtain p c sent ok where "determine_signing_concurrency 32 3 = Ok (p, c)" "p \<le> 32"
      "generate_rrsigs p c ?sign [1, 2, 3] = (sent, ok)"
      "sign_all ?sign [1, 2, 3] = (if ok then Some (concat sent) else None)"
    using threads_sign_all [of 32 "[1, 2, 3]" ?sign, unfolded len] by auto
  ultimately show ?thesis by (auto split: if_splits)
qed

section \<open>What an operation changes\<close>

lemma map_status_simps [simp]:
  "gw_center (map_status f w) = gw_center w" "gw_trees (map_status f w) = gw_trees w" "gw_stores (map_status f w) = gw_stores w"
  "gw_updates (map_status f w) = gw_updates w" "gw_status (map_status f w) = f (gw_status w)"
  by (simp_all add: map_status_def)

lemma set_store_simps [simp]:
  "gw_trees (set_store r st w) = gw_trees w" "gw_updates (set_store r st w) = gw_updates w"
  "gw_status (set_store r st w) = gw_status w" "gw_stores (set_store r st w) = (gw_stores w)[r := st]"
  by (simp_all add: set_store_def)

lemma insert_signed_frame:
  "get_or_insert_signed_zone P zs n w = (res, w') \<Longrightarrow> gw_updates w' = gw_updates w
     \<and> zt_published_zones (gw_trees w') = zt_published_zones (gw_trees w)
     \<and> zt_unsigned_zones (gw_trees w') = zt_unsigned_zones (gw_trees w)"
  by (auto simp: get_or_insert_signed_zone_def Let_def split: option.splits sum.splits)

text \<open>Only the store of zone \<open>r\<close> is written.\<close>

definition writes_at :: "nat \<Rightarrow> ('t, 'k) sign_world \<Rightarrow> ('t, 'k) sign_world \<Rightarrow> bool" where
  "writes_at r w w' \<longleftrightarrow> gw_trees w' = gw_trees w \<and> length (gw_stores w') = length (gw_stores w)
     \<and> (\<forall>i. i \<noteq> r \<longrightarrow> gw_stores w' ! i = gw_stores w ! i)"

lemma writes_refl: "gw_trees w' = gw_trees w \<Longrightarrow> gw_stores w' = gw_stores w \<Longrightarrow> writes_at r w w'"
  by (simp add: writes_at_def)

lemma writes_trans: "writes_at r a b \<Longrightarrow> writes_at r b c \<Longrightarrow> writes_at r a c"
  by (simp add: writes_at_def)

lemma writes_set_store: "gw_trees w' = gw_trees w \<Longrightarrow> gw_stores w' = gw_stores w \<Longrightarrow> writes_at r w (set_store r st w')"
  by (simp add: writes_at_def)

lemma prepare_frame:
  "prepare_records P env n config records w = (res, w') \<Longrightarrow> gw_updates w' = gw_updates w
     \<and> gw_trees w' = gw_trees w \<and> gw_stores w' = gw_stores w"
  by (cases "load_signing_keys (sn_keys env) n (ks_keys (the (projr (sn_keyset env))))")
     (auto simp: prepare_records_def Let_def split: sum.splits option.splits if_splits)

lemma finish_frame:
  "finish_signed P env n r soa rrsigs records w = (Ok (), w') \<Longrightarrow>
     gw_updates w' = gw_updates w @ [ZoneSignedEvent n (soa_serial (fst soa))] \<and> writes_at r w w'"
  by (auto simp: finish_signed_def Let_def writes_at_def split: outcome.splits prod.splits)

lemma write_signed_frame:
  "write_signed P zs env n r soa config keys records w = (Ok (), w') \<Longrightarrow>
     gw_updates w' = gw_updates w @ [ZoneSignedEvent n (soa_serial (fst soa))] \<and> writes_at r w w'"
proof -
  assume w: "write_signed P zs env n r soa config keys records w = (Ok (), w')"
  then obtain p c where d: "determine_signing_concurrency (zs_max_concurrent_rrsig_generation_tasks zs)
      (length (si_owners P records)) = Ok (p, c)"
    by (auto simp: write_signed_def split: outcome.splits)
  obtain sent ok where g: "generate_rrsigs p c (si_sign P (chunk_zsks (zs_treat_single_keys_as_csks zs) keys)
      (sc_inception config) (sc_expiration config)) (si_owners P records) = (sent, ok)" by fastforce
  let ?w1 = "set_store r (si_clear P (gw_stores w ! r)) (map_status (zss_update n (\<lambda>s. s\<lparr>ip_threads_used := Some p\<rparr>)) w)"
  have "finish_signed P env n r soa (concat (concat sent)) records ?w1 = (Ok (), w')"
    using w d g by (auto simp: write_signed_def Let_def split: if_splits)
  note f = finish_frame [OF this]
  have "writes_at r w ?w1" by (rule writes_set_store) simp_all
  with f show ?thesis using writes_trans by auto
qed

lemma prepared_Ok:
  assumes "and_then (prepare_records P env n config records w) (\<lambda>prepared w4.
       case prepared of None \<Rightarrow> (Ok (), w4)
       | Some (keys, unsigned_records) \<Rightarrow> write_signed P zs env n r soa config keys unsigned_records w4)
     = (Ok (), w')"
  shows "(gw_updates w' = gw_updates w \<or> gw_updates w' = gw_updates w @ [ZoneSignedEvent n (soa_serial (fst soa))])
    \<and> writes_at r w w'"
proof (cases "prepare_records P env n config records w")
  case (Pair o4 w4)
  note f = prepare_frame [OF Pair]
  from assms Pair obtain prepared where o4: "o4 = Ok prepared" by (cases o4) simp_all
  show ?thesis
  proof (cases prepared)
    case None
    then show ?thesis using assms Pair o4 f by (simp add: writes_refl)
  next
    case (Some q)
    obtain keys us where q: "q = (keys, us)" by fastforce
    have "write_signed P zs env n r soa config keys us w4 = (Ok (), w')"
      using assms Pair o4 Some q by simp
    from write_signed_frame [OF this] f writes_trans [OF writes_refl, of w4 w r w'] show ?thesis by simp
  qed
qed

section \<open>Published contents\<close>

text \<open>Every reference is to a store, no published zone shares its store with a signed one, and no
  two signed zones share one.\<close>

definition refs_apart :: "('x \<Rightarrow> nat option) \<Rightarrow> ('x \<Rightarrow> nat option) \<Rightarrow> nat \<Rightarrow> bool" where
  "refs_apart p s k \<longleftrightarrow> (\<forall>x i. p x = Some i \<longrightarrow> i < k \<and> (\<forall>y. s y \<noteq> Some i))
     \<and> (\<forall>x i. s x = Some i \<longrightarrow> i < k) \<and> (\<forall>x y i. s x = Some i \<longrightarrow> s y = Some i \<longrightarrow> y = x)"

definition stores_apart :: "'t domain_api \<Rightarrow> 't zone_trees \<Rightarrow> nat \<Rightarrow> bool" where
  "stores_apart D trees k \<longleftrightarrow> refs_apart (\<lambda>(m, c). d_tree_get D (zt_published_zones trees) m c)
     (\<lambda>(m, c). d_tree_get D (zt_signed_zones trees) m c) k"

lemma refs_apart_mono: "refs_apart p s k \<Longrightarrow> k \<le> l \<Longrightarrow> refs_apart p s l"
  unfolding refs_apart_def by (meson order_less_le_trans)

lemma refs_apart_new: "refs_apart p s k \<Longrightarrow> refs_apart p (s(x := Some k)) (Suc k)"
  unfolding refs_apart_def by (auto simp: less_Suc_eq)

lemma refs_apart_publish: "refs_apart p s k \<Longrightarrow> s x = Some r \<Longrightarrow> refs_apart (p(x := Some r)) (s(x := None)) k"
  unfolding refs_apart_def by (simp, safe) (blast | simp split: if_splits)+

lemma refs_apart_published: "refs_apart p s k \<Longrightarrow> p x = Some i \<Longrightarrow> i < k \<and> s y \<noteq> Some i"
  by (simp add: refs_apart_def)

text \<open>The zone that is written to: a signed zone, and if it is new a new store.\<close>

definition signs_into :: "'t domain_api \<Rightarrow> dname \<Rightarrow> nat \<Rightarrow> ('t, 'k) sign_world \<Rightarrow> ('t, 'k) sign_world \<Rightarrow> bool" where
  "signs_into D n r w w' \<longleftrightarrow> zt_published_zones (gw_trees w') = zt_published_zones (gw_trees w)
     \<and> length (gw_stores w) \<le> length (gw_stores w')
     \<and> (\<forall>i < length (gw_stores w). i \<noteq> r \<longrightarrow> gw_stores w' ! i = gw_stores w ! i)
     \<and> (gw_trees w' = gw_trees w \<and> d_tree_get D (zt_signed_zones (gw_trees w)) n Class_IN = Some r
        \<or> r = length (gw_stores w) \<and> length (gw_stores w') = Suc r
          \<and> (\<forall>m c. d_tree_get D (zt_signed_zones (gw_trees w')) m c =
               (if m = n \<and> c = Class_IN then Some r else d_tree_get D (zt_signed_zones (gw_trees w)) m c)))"

lemma insert_signed_into:
  assumes "zone_tree_ok (si_api P)" "get_or_insert_signed_zone P zs n w = (Ok r, w')"
  shows "signs_into (si_api P) n r w w'"
  using assms(2) tree_insert_get [OF assms(1)]
  by (auto simp: get_or_insert_signed_zone_def signs_into_def Let_def nth_append split: option.splits sum.splits)

lemma signs_into_start: "gw_trees w1 = gw_trees w \<Longrightarrow> gw_stores w1 = gw_stores w \<Longrightarrow>
    signs_into D n r w1 w' = signs_into D n r w w'"
  by (simp only: signs_into_def)

lemma signs_into_writes: "signs_into D n r w w1 \<Longrightarrow> writes_at r w1 w' \<Longrightarrow> signs_into D n r w w'"
  by (auto simp: signs_into_def writes_at_def)

lemma signs_into_apart:
  assumes s: "signs_into D n r w w'" and a: "stores_apart D (gw_trees w) (length (gw_stores w))"
  shows "stores_apart D (gw_trees w') (length (gw_stores w'))"
    and "d_tree_get D (zt_published_zones (gw_trees w)) m c = Some i \<Longrightarrow> gw_stores w' ! i = gw_stores w ! i"
proof -
  let ?p = "\<lambda>(m, c). d_tree_get D (zt_published_zones (gw_trees w)) m c"
  let ?s = "\<lambda>(m, c). d_tree_get D (zt_signed_zones (gw_trees w)) m c"
  have apart: "refs_apart ?p ?s (length (gw_stores w))" using a by (simp add: stores_apart_def)
  have l: "length (gw_stores w) \<le> length (gw_stores w')"
    and p: "zt_published_zones (gw_trees w') = zt_published_zones (gw_trees w)" using s by (simp_all add: signs_into_def)
  consider (old) "gw_trees w' = gw_trees w" "?s (n, Class_IN) = Some r"
    | (new) "r = length (gw_stores w)" "length (gw_stores w') = Suc r"
      "(\<lambda>(m, c). d_tree_get D (zt_signed_zones (gw_trees w')) m c) = ?s((n, Class_IN) := Some r)"
    using s by (force simp: signs_into_def)
  note alt = this
  show "stores_apart D (gw_trees w') (length (gw_stores w'))"
  proof (cases rule: alt)
    case old
    then show ?thesis using refs_apart_mono [OF apart l] by (simp add: stores_apart_def)
  next
    case new
    then show ?thesis using refs_apart_new [OF apart, of "(n, Class_IN)"] p by (simp add: stores_apart_def)
  qed
  show "gw_stores w' ! i = gw_stores w ! i" if g: "d_tree_get D (zt_published_zones (gw_trees w)) m c = Some i"
  proof -
    have i: "i < length (gw_stores w) \<and> ?s (n, Class_IN) \<noteq> Some i"
      using refs_apart_published [OF apart, of "(m, c)" i "(n, Class_IN)"] g by simp
    then have "i \<noteq> r" by (cases rule: alt) auto
    then show ?thesis using s i by (simp add: signs_into_def)
  qed
qed

text \<open>Publishing moves a zone with its store, and keeps the stores apart.\<close>

lemma publish_keeps_apart:
  assumes D: "zone_tree_ok D" and pub: "on_publish_signed_zone_cmd D n t = (res, t')" and a: "stores_apart D t k"
  shows "stores_apart D t' k"
proof (cases "d_tree_get D (zt_signed_zones t) n Class_IN")
  case None
  then show ?thesis using pub a by (simp add: on_publish_signed_zone_cmd_def)
next
  case (Some r)
  define p0 where "p0 = (case d_tree_remove D n Class_IN (zt_published_zones t) of Inl _ \<Rightarrow> zt_published_zones t | Inr t \<Rightarrow> t)"
  have p0: "d_tree_get D p0 m c = (if m = n \<and> c = Class_IN then None
      else d_tree_get D (zt_published_zones t) m c)" for m c
    using tree_remove_get [OF D, of n Class_IN "zt_published_zones t"]
      tree_remove_fails [OF D, of n Class_IN "zt_published_zones t"] by (auto simp: p0_def split: sum.splits)
  obtain p1 where p1: "d_tree_insert D n Class_IN r p0 = Inr p1"
    using tree_insert_fails [OF D, of n Class_IN r p0] p0 [of n Class_IN] by (cases "d_tree_insert D n Class_IN r p0") auto
  obtain s1 where s1: "d_tree_remove D n Class_IN (zt_signed_zones t) = Inr s1"
    using tree_remove_fails [OF D, of n Class_IN "zt_signed_zones t"] Some
    by (cases "d_tree_remove D n Class_IN (zt_signed_zones t)") auto
  have t': "zt_published_zones t' = p1" "zt_signed_zones t' = s1"
    using pub Some p1 s1 by (auto simp: on_publish_signed_zone_cmd_def p0_def [symmetric] Let_def)
  have "(\<lambda>(m, c). d_tree_get D p1 m c) = (\<lambda>(m, c). d_tree_get D (zt_published_zones t) m c)((n, Class_IN) := Some r)"
    "(\<lambda>(m, c). d_tree_get D s1 m c) = (\<lambda>(m, c). d_tree_get D (zt_signed_zones t) m c)((n, Class_IN) := None)"
    using tree_insert_get [OF D p1] tree_remove_get [OF D s1] p0 by force+
  then show ?thesis
    using refs_apart_publish [of _ _ k "(n, Class_IN)" r] a Some unfolding stores_apart_def t' by simp
qed

lemma sign_zone_Ok:
  assumes "sign_zone P zs env n resign w = (Ok (), w')" "zone_tree_ok (si_api P)"
  obtains src soa tt r where "zone_to_sign (si_api P) n resign (gw_trees w) = Some src"
    "get_zone_soa (si_api P) (gw_stores w ! src) n = Inr (soa, tt)"
    "gw_updates w' = gw_updates w \<or> gw_updates w' = gw_updates w @ [ZoneSignedEvent n (soa_serial soa)]"
    "signs_into (si_api P) n r w w'"
proof -
  from assms(1) obtain src soa tt where src: "zone_to_sign (si_api P) n resign (gw_trees w) = Some src"
      "get_zone_soa (si_api P) (gw_stores w ! src) n = Inr (soa, tt)"
    by (auto simp: sign_zone_def Let_def split: option.splits sum.splits)
  define w1 where "w1 = map_status (zss_start (sn_started_at env) n (soa_serial soa))
      (map_status (zss_enqueue (sn_requested_at env) n) w)"
  let ?F = "\<lambda>r w2. and_then (policy_of_zone n w2) (\<lambda>policy w2.
        let config = signing_config (sn_timestamp env) policy;
            records = collect_zone (si_walk P (gw_stores w2 ! src));
            w3 = map_status (zss_update n (\<lambda>s. s\<lparr>ip_unsigned_rr_count := Some (length records),
              ip_walk_time := Some (sn_durations env 0)\<rparr>)) w2
        in and_then (prepare_records P env n config records w3) (\<lambda>prepared w4.
           case prepared of None \<Rightarrow> (Ok (), w4)
           | Some (keys, unsigned_records) \<Rightarrow>
               write_signed P zs env n r (soa, tt) config keys unsigned_records w4))"
  have "and_then (get_or_insert_signed_zone P zs n w1) ?F = (Ok (), w')"
    using assms(1) src by (simp add: sign_zone_def Let_def w1_def)
  then obtain r where "fst (get_or_insert_signed_zone P zs n w1) = Ok r"
    "?F r (snd (get_or_insert_signed_zone P zs n w1)) = (Ok (), w')" by (rule and_then_Ok_pairE)
  then obtain w2 where g: "get_or_insert_signed_zone P zs n w1 = (Ok r, w2)" and rest: "?F r w2 = (Ok (), w')"
    by (cases "get_or_insert_signed_zone P zs n w1") simp
  note f2 = insert_signed_frame [OF g]
  from rest obtain policy where pol: "policy_of_zone n w2 = (Ok policy, w2)"
    by (auto simp: policy_of_zone_def Let_def split: if_splits option.splits)
  define w3 where "w3 = map_status (zss_update n (\<lambda>s. s\<lparr>ip_unsigned_rr_count :=
      Some (length (collect_zone (si_walk P (gw_stores w2 ! src)))), ip_walk_time := Some (sn_durations env 0)\<rparr>)) w2"
  have "and_then (prepare_records P env n (signing_config (sn_timestamp env) policy)
      (collect_zone (si_walk P (gw_stores w2 ! src))) w3) (\<lambda>prepared w4.
           case prepared of None \<Rightarrow> (Ok (), w4)
           | Some (keys, unsigned_records) \<Rightarrow>
               write_signed P zs env n r (soa, tt) (signing_config (sn_timestamp env) policy) keys unsigned_records w4)
      = (Ok (), w')"
    using rest pol unfolding w3_def by (simp add: Let_def)
  note f3 = prepared_Ok [OF this]
  have w31: "gw_updates w3 = gw_updates w2" "writes_at r w2 w3" "gw_updates w1 = gw_updates w"
    "gw_trees w1 = gw_trees w" "gw_stores w1 = gw_stores w"
    by (simp_all add: w3_def w1_def writes_refl)
  have "signs_into (si_api P) n r w w2"
    using insert_signed_into [OF assms(2) g] signs_into_start [OF w31(4,5)] by blast
  then have "signs_into (si_api P) n r w w'"
    using signs_into_writes writes_trans w31(2) f3 by blast
  moreover have "gw_updates w' = gw_updates w \<or> gw_updates w' = gw_updates w @ [ZoneSignedEvent n (soa_serial soa)]"
    using f3 f2 w31 by simp
  ultimately show thesis using that src by blast
qed

section \<open>Signing and the global state\<close>

text \<open>Reading the policy is \<open>signing_policy\<close>, and the only thing a signing operation does to the
  global state.\<close>

lemma policy_of_zone_center:
  "gw_center (snd (policy_of_zone n w)) = snd (signing_policy n (gw_center w))"
  "fst (policy_of_zone n w) = Ok p \<longleftrightarrow> fst (signing_policy n (gw_center w)) = Ok p"
  by (auto simp: policy_of_zone_def signing_policy_def poison_def Let_def split: option.split)

lemma and_then_snd: "Q (snd p) \<Longrightarrow> (\<And>a. fst p = Ok a \<Longrightarrow> Q (snd (f a (snd p)))) \<Longrightarrow> Q (snd (and_then p f))"
  by (cases p; cases "fst p") auto

lemma center_prepare: "gw_center (snd (prepare_records P env n config records w)) = gw_center w"
  by (cases "load_signing_keys (sn_keys env) n (ks_keys (the (projr (sn_keyset env))))")
     (auto simp: prepare_records_def Let_def split: sum.splits option.splits)

lemma center_finish: "gw_center (snd (finish_signed P env n r soa rrsigs records w)) = gw_center w"
  by (auto simp: finish_signed_def Let_def set_store_def split: prod.split outcome.split)

lemma center_write: "gw_center (snd (write_signed P zs env n r soa config keys records w)) = gw_center w"
proof (cases "determine_signing_concurrency (zs_max_concurrent_rrsig_generation_tasks zs) (length (si_owners P records))")
  case (Ok pc)
  obtain p c where pc: "pc = (p, c)" by fastforce
  obtain sent ok where "generate_rrsigs p c (si_sign P (chunk_zsks (zs_treat_single_keys_as_csks zs) keys)
      (sc_inception config) (sc_expiration config)) (si_owners P records) = (sent, ok)" by fastforce
  then show ?thesis using Ok pc by (simp add: write_signed_def Let_def center_finish) (simp add: set_store_def)
qed (simp_all add: write_signed_def)

lemma sign_zone_center:
  "gw_center (snd (sign_zone P zs env n resign w)) \<in> {gw_center w, snd (signing_policy n (gw_center w))}"
proof -
  let ?Q = "\<lambda>w'. gw_center w' \<in> {gw_center w, snd (signing_policy n (gw_center w))}"
  have ins: "gw_center (snd (get_or_insert_signed_zone P zs n w1)) = gw_center w1" for w1
    by (auto simp: get_or_insert_signed_zone_def Let_def split: option.split sum.split)
  have ok: "fst (signing_policy n (gw_center w)) = Ok p \<Longrightarrow>
      snd (signing_policy n (gw_center w)) = gw_center w" for p
    by (auto simp: signing_policy_def split: if_splits option.splits)
  have rest: "?Q (snd (and_then (prepare_records P env n config records w3) (\<lambda>prepared w4. case prepared of
        None \<Rightarrow> (Ok (), w4)
      | Some (keys, us) \<Rightarrow> write_signed P zs env n r soa config keys us w4)))"
    if "gw_center w3 = gw_center w" for config records w3 r soa
  proof (rule and_then_snd [where Q = ?Q])
    let ?p = "prepare_records P env n config records w3"
    have c: "gw_center (snd ?p) = gw_center w" using that by (simp add: center_prepare)
    then show "?Q (snd ?p)" by simp
    show "?Q (snd (case a of None \<Rightarrow> (Ok (), snd ?p)
        | Some (keys, us) \<Rightarrow> write_signed P zs env n r soa config keys us (snd ?p)))" for a
      using c by (cases a) (auto simp: center_write)
  qed
  let ?w1 = "map_status (zss_enqueue (sn_requested_at env) n) w"
  show ?thesis
  proof (cases "zone_to_sign (si_api P) n resign (gw_trees w)")
    case None
    then show ?thesis by (simp add: sign_zone_def Let_def)
  next
    case (Some src)
    show ?thesis
    proof (cases "get_zone_soa (si_api P) (gw_stores w ! src) n")
      case (Inl e)
      then show ?thesis using Some by (simp add: sign_zone_def Let_def)
    next
      case (Inr soa)
      let ?g = "get_or_insert_signed_zone P zs n (map_status (zss_start (sn_started_at env) n (soa_serial (fst soa))) ?w1)"
      have g: "gw_center (snd ?g) = gw_center w" by (simp add: ins)
      have "?Q (snd (and_then ?g (\<lambda>r w2. and_then (policy_of_zone n w2) (\<lambda>policy w2.
               let config = signing_config (sn_timestamp env) policy;
                   records = collect_zone (si_walk P (gw_stores w2 ! src));
                   w3 = map_status (zss_update n (\<lambda>s. s\<lparr>
                     ip_unsigned_rr_count := Some (length records), ip_walk_time := Some (sn_durations env 0)\<rparr>)) w2
               in and_then (prepare_records P env n config records w3) (\<lambda>prepared w4.
                  case prepared of
                    None \<Rightarrow> (Ok (), w4)
                  | Some (keys, us) \<Rightarrow> write_signed P zs env n r soa config keys us w4)))))"
      proof (rule and_then_snd [where Q = ?Q])
        show "?Q (snd ?g)" using g by simp
        fix r
        let ?p = "policy_of_zone n (snd ?g)"
        have c: "gw_center (snd ?p) = snd (signing_policy n (gw_center w))"
          using policy_of_zone_center(1) [of n "snd ?g"] g by simp
        show "?Q (snd (and_then ?p (\<lambda>policy w2.
               let config = signing_config (sn_timestamp env) policy;
                   records = collect_zone (si_walk P (gw_stores w2 ! src));
                   w3 = map_status (zss_update n (\<lambda>s. s\<lparr>
                     ip_unsigned_rr_count := Some (length records), ip_walk_time := Some (sn_durations env 0)\<rparr>)) w2
               in and_then (prepare_records P env n config records w3) (\<lambda>prepared w4.
                  case prepared of
                    None \<Rightarrow> (Ok (), w4)
                  | Some (keys, us) \<Rightarrow> write_signed P zs env n r soa config keys us w4))))"
        proof (rule and_then_snd [where Q = ?Q])
          show "?Q (snd ?p)" using c by simp
          fix policy assume "fst ?p = Ok policy"
          then have "gw_center (snd ?p) = gw_center w"
            using policy_of_zone_center(2) [of n "snd ?g" policy] ok c g by simp
          then show "?Q (snd (let config = signing_config (sn_timestamp env) policy;
                   records = collect_zone (si_walk P (gw_stores (snd ?p) ! src));
                   w3 = map_status (zss_update n (\<lambda>s. s\<lparr>
                     ip_unsigned_rr_count := Some (length records), ip_walk_time := Some (sn_durations env 0)\<rparr>)) (snd ?p)
               in and_then (prepare_records P env n config records w3) (\<lambda>prepared w4.
                  case prepared of
                    None \<Rightarrow> (Ok (), w4)
                  | Some (keys, us) \<Rightarrow> write_signed P zs env n r soa config keys us w4)))"
            unfolding Let_def by (intro rest) simp
        qed
      qed
      then show ?thesis using Some Inr by (simp add: sign_zone_def Let_def)
    qed
  qed
qed

section \<open>Signing again\<close>

text \<open>C22: signing a published zone again keeps its serial, and the review server has approved that
  serial already when the zone was published by its hooks, so it ignores the request for approval:
  nothing comes of the new signatures, and every zone stays published with the contents it had,
  since signing writes to another store than any published zone has (\<open>stores_apart\<close>, which signing
  keeps, and publishing by \<open>publish_keeps_apart\<close>).\<close>

theorem resigned_not_published:
  assumes "sign_zone P zs env n True w = (Ok (), w')"
    and "d_tree_get (si_api P) (zt_published_zones (gw_trees w)) n Class_IN = Some src"
    and "get_zone_soa (si_api P) (gw_stores w ! src) n = Inr (soa, tt)"
    and "hm_get (sv_last_approvals sv) (n, soa_serial soa) \<noteq> None"
    and "zone_tree_ok (si_api P)" "stores_apart (si_api P) (gw_trees w) (length (gw_stores w))"
  shows "\<exists>new. gw_updates w' = gw_updates w @ new
    \<and> (\<forall>u \<in> set new. \<forall>(unit, cmd) \<in> set (direct_update u).
         unit = ''RS2'' \<and> handle_command SP e cmd sv sw = (Ok (), sv, sw))
    \<and> zt_published_zones (gw_trees w') = zt_published_zones (gw_trees w)
    \<and> (\<forall>m c i. d_tree_get (si_api P) (zt_published_zones (gw_trees w)) m c = Some i \<longrightarrow>
         i < length (gw_stores w) \<and> gw_stores w' ! i = gw_stores w ! i)
    \<and> stores_apart (si_api P) (gw_trees w') (length (gw_stores w'))"
proof -
  from sign_zone_Ok [OF assms(1,5)] obtain src' soa' tt' r where o:
      "zone_to_sign (si_api P) n True (gw_trees w) = Some src'"
      "get_zone_soa (si_api P) (gw_stores w ! src') n = Inr (soa', tt')"
      "gw_updates w' = gw_updates w \<or> gw_updates w' = gw_updates w @ [ZoneSignedEvent n (soa_serial soa')]"
      "signs_into (si_api P) n r w w'" .
  have pub: "zt_published_zones (gw_trees w') = zt_published_zones (gw_trees w)" using o(4) by (simp add: signs_into_def)
  have valid: "\<forall>m c i. d_tree_get (si_api P) (zt_published_zones (gw_trees w)) m c = Some i \<longrightarrow> i < length (gw_stores w)"
    using refs_apart_published [OF assms(6) [unfolded stores_apart_def], of "(m, c)" for m c] by simp
  from o(1) assms(2) have "src' = src" by (simp add: zone_to_sign_def)
  with o(2) assms(3) have "soa' = soa" by simp
  have "handle_command SP e (SeekApprovalForSignedZone n (soa_serial soa)) sv sw = (Ok (), sv, sw)"
    using assms(4) by (simp add: on_seek_approval_for_zone_cmd_def)
  moreover obtain new where "new = [] \<or> new = [ZoneSignedEvent n (soa_serial soa)]" "gw_updates w' = gw_updates w @ new"
    using o(3) \<open>soa' = soa\<close> by auto
  ultimately show ?thesis using pub valid signs_into_apart [OF o(4) assms(6)]
    by (intro exI [of _ new]) auto
qed

text \<open>A published zone with serial 5 and a policy, one key, and a server that approved serial 5.\<close>

definition demo_signer_params :: "demo_tree signer_params" where
  "demo_signer_params = \<lparr>si_api = demo_api, si_walk = (\<lambda>st. []), si_empty = (\<lambda>lw n. 0), si_sort = (\<lambda>rs. rs),
     si_denial = (\<lambda>n cfg rs. Inr rs), si_owners = (\<lambda>rs. map (\<lambda>r. [r]) rs), si_sign = (\<lambda>ks i e rs. Inr rs),
     si_clear = (\<lambda>st. 0), si_insert = (\<lambda>st rs. st), si_finish = (\<lambda>st rs soa. 5)\<rparr>"

definition demo_signer :: ZoneSigner where
  "demo_signer = \<lparr>zs_use_lightweight_zone_tree = False, zs_max_concurrent_rrsig_generation_tasks = 4,
     zs_treat_single_keys_as_csks = True\<rparr>"

definition demo_key_env :: key_env where
  "demo_key_env = \<lparr>ke_url = (\<lambda>s. Some (''file'', s)), ke_private = (\<lambda>s. Some 1), ke_public = (\<lambda>s. Some 2),
     ke_from_bytes = (\<lambda>a b. Inr 3), ke_kmip_url = (\<lambda>s. Inl s), ke_kmip_pool = (\<lambda>s. False),
     ke_kmip_pair = (\<lambda>a b. Inl a)\<rparr>"

definition demo_sign_env :: sign_env where
  "demo_sign_env = \<lparr>sn_requested_at = 1, sn_started_at = 2, sn_finished_at = 3, sn_durations = (\<lambda>i. 0),
     sn_timestamp = 1000, sn_keyset = Inr (Some \<lparr>ks_dnskeys = [],
       ks_keys = [\<lparr>kk_pub_key_name = ''pub'', kk_signs_zone = True, kk_privref = Some ''priv''\<rparr>]\<rparr>),
     sn_keys = demo_key_env\<rparr>"

definition demo_sign_policy :: PolicyVersion where
  "demo_sign_policy = \<lparr>pv_name = ''p'', pv_loader = \<lparr>ld_review = \<lparr>rv_required = False, rv_cmd_hook = None\<rparr>\<rparr>,
     pv_key_manager = (), pv_signer = \<lparr>sg_serial_policy = SignerSerialPolicy.Keep, sg_sig_inception_offset = 0,
       sg_sig_validity_time = 0, sg_denial = SignerDenialPolicy.NSec, sg_review = \<lparr>rv_required = False, rv_cmd_hook = None\<rparr>\<rparr>,
     pv_server = ()\<rparr>"

definition demo_sign_center :: "token Center" where
  "demo_sign_center = \<lparr>ce_state = (State_new Config_default)\<lparr>st_zones := [(''example'', 0)]\<rparr>,
     ce_heap = [\<lparr>zn_name = ''example'', zn_state = ZoneState_default\<lparr>zst_policy := Some demo_sign_policy\<rparr>\<rparr>],
     ce_poisoned = False, ce_update_open = True, ce_updates = [], ce_tasks = [], ce_next_task = 0, ce_writes = []\<rparr>"

definition demo_sign_world :: "(demo_tree, token) sign_world" where
  "demo_sign_world = \<lparr>gw_center = demo_sign_center, gw_trees = \<lparr>zt_unsigned_zones = [], zt_signed_zones = [],
       zt_published_zones = [((''example'', Class_IN), 0)]\<rparr>,
     gw_stores = [5], gw_status = ZoneSignerStatus_default, gw_updates = []\<rparr>"

definition demo_review_server :: ZoneServer where
  "demo_review_server = (ZoneServer_new Prepublish SignedZones [''h''] [])\<lparr>sv_last_approvals := [((''example'', 5), 0)]\<rparr>"

lemmas demo_sign_defs = demo_signer_params_def demo_signer_def demo_key_env_def demo_sign_env_def
  demo_sign_policy_def demo_sign_center_def demo_sign_world_def demo_api_def demo_query_def demo_soa_def

definition one_status :: "ZoneSigningStatus \<Rightarrow> ZoneSignerStatus" where
  "one_status s = \<lparr>zss_capacity = 100, zss_zones_being_signed = [\<lparr>nz_zone_name = ''example'', nz_status = s\<rparr>]\<rparr>"

lemma one_status_steps:
  "zss_enqueue t ''example'' ZoneSignerStatus_default = one_status (Requested \<lparr>rq_requested_at = t\<rparr>)"
  "zss_start t ''example'' s (one_status (Requested q)) = one_status (InProgress (InProgressStatus_new t q s))"
  "zss_update ''example'' f (one_status (InProgress p)) = one_status (InProgress (f p))"
  "ip_complete p \<Longrightarrow> fst (zss_finish t ''example'' (one_status (InProgress p))) = Ok ()"
  by (simp_all add: zss_enqueue_def ZoneSignerStatus_default_def MAX_SIGNING_HISTORY_def one_status_def zss_start_def
      zss_get_def zss_set_def zss_update_def zss_finish_def ZoneSigningStatus_new_def RequestedStatus_new_def
      FinishedStatus_new_def)

lemma demo_write_signed:
  assumes "gw_status w = one_status (InProgress p)" "ip_unsigned_rr_count p \<noteq> None" "ip_walk_time p \<noteq> None"
    "ip_sort_time p \<noteq> None" "ip_denial_rr_count p \<noteq> None" "ip_denial_time p \<noteq> None"
  shows "fst (write_signed demo_signer_params demo_signer env ''example'' r soa config keys [] w) = Ok ()"
proof -
  let ?q = "\<lambda>p n. p\<lparr>ip_threads_used := Some 1, ip_rrsig_count := Some n,
      ip_rrsig_reused_count := Some 0, ip_rrsig_time := Some (sn_durations env 3),
      ip_insertion_time := Some (sn_durations env 4), ip_total_time := Some (sn_durations env 5)\<rparr>"
  have "ip_complete (?q p n)" for n using assms(2-) by (simp add: ip_complete_def)
  note f = one_status_steps(4) [OF this, of "sn_finished_at env"]
  have d: "determine_signing_concurrency 4 0 = Ok (1, 0)" by (simp add: determine_signing_concurrency_def)
  have g: "generate_rrsigs 1 0 sign [] = ([[]], True)" for sign :: "'o \<Rightarrow> string + 'g list"
    by (simp add: generate_rrsigs_def sign_rr_chunk_def)
  obtain st where f0: "zss_finish (sn_finished_at env) ''example'' (one_status (InProgress (?q p 0))) = (Ok (), st)"
    using f [of 0] by (metis prod.collapse)
  show ?thesis
    by (simp add: Let_def f0 [simplified] write_signed_def finish_signed_def demo_signer_params_def demo_signer_def d [simplified] g [simplified] map_status_def
        set_store_def assms(1) one_status_steps(1,2,3))
qed

lemma demo_sign_soa: "get_zone_soa demo_api 5 ''example'' = Inr (demo_soa 5, 60)"
  by (simp add: get_zone_soa_def demo_api_def demo_query_def)

lemma demo_prepare:
  assumes "gw_status w = one_status (InProgress p)"
  shows "\<exists>w'. prepare_records demo_signer_params demo_sign_env ''example'' config [] w = (Ok (Some ([3], [])), w')
    \<and> gw_status w' = one_status (InProgress (p\<lparr>ip_sort_time := Some 0, ip_denial_rr_count := Some 0, ip_denial_time := Some 0\<rparr>))"
  by (simp add: prepare_records_def load_file_key_def map_status_def one_status_steps(3) assms Let_def
      demo_sign_env_def demo_key_env_def demo_signer_params_def)

lemma and_then_Ok_fst: "p = (Ok a, s) \<Longrightarrow> fst (f a s) = r \<Longrightarrow> fst (and_then p f) = r"
  by simp

lemma demo_sign_zone: "fst (sign_zone demo_signer_params demo_signer demo_sign_env
  ''example'' True demo_sign_world) = Ok ()"
proof -
  have t: "d_tree_get demo_api [((''example'', Class_IN), r)] ''example'' Class_IN = Some r"
    "d_tree_get demo_api [] ''example'' Class_IN = None"
    "d_tree_insert demo_api ''example'' Class_IN r [] = Inr (hm_insert (''example'', Class_IN) r [])" for r
    by (simp_all add: demo_api_def)
  have a: "si_api demo_signer_params = demo_api" by (simp add: demo_signer_params_def)
  have p: "policy_of_zone ''example'' w = (Ok demo_sign_policy, w)" if "gw_center w = demo_sign_center"
    for w :: "(demo_tree, token) sign_world"
    using that by (simp add: policy_of_zone_def demo_sign_center_def)
  define w1 where "w1 = map_status (zss_start 2 ''example'' (soa_serial (demo_soa 5)))
      (map_status (zss_enqueue 1 ''example'') demo_sign_world)"
  have w1: "gw_status w1 = one_status (InProgress (InProgressStatus_new 2 \<lparr>rq_requested_at = 1\<rparr> (soa_serial (demo_soa 5))))"
    "gw_trees w1 = gw_trees demo_sign_world" "gw_center w1 = demo_sign_center"
    by (simp_all add: w1_def one_status_steps(1,2) demo_sign_world_def)
  obtain r w2 where g: "get_or_insert_signed_zone demo_signer_params demo_signer ''example'' w1 = (Ok r, w2)"
      "gw_status w2 = gw_status w1" "gw_center w2 = demo_sign_center"
    by (simp add: w1(3) get_or_insert_signed_zone_def a w1(2) demo_sign_world_def t Let_def)
  define w3 where "w3 = map_status (zss_update ''example'' (\<lambda>s. s\<lparr>ip_unsigned_rr_count := Some 0,
      ip_walk_time := Some 0\<rparr>)) w2"
  obtain w4 where w4: "prepare_records demo_signer_params demo_sign_env ''example'' (signing_config 1000 demo_sign_policy) [] w3
        = (Ok (Some ([3], [])), w4)"
      "gw_status w4 = one_status (InProgress ((InProgressStatus_new 2 \<lparr>rq_requested_at = 1\<rparr> (soa_serial (demo_soa 5)))
        \<lparr>ip_unsigned_rr_count := Some 0, ip_walk_time := Some 0, ip_sort_time := Some 0,
         ip_denial_rr_count := Some 0, ip_denial_time := Some 0\<rparr>))"
    using demo_prepare [of w3] by (auto simp: w3_def g w1 one_status_steps(3))
  have "fst (write_signed demo_signer_params demo_signer demo_sign_env ''example'' r (demo_soa 5, 60)
      (signing_config 1000 demo_sign_policy) [3] [] w4) = Ok ()"
    by (rule demo_write_signed [OF w4(2)]) simp_all
  moreover have "zone_to_sign demo_api ''example'' True (gw_trees demo_sign_world) = Some 0"
    "gw_stores demo_sign_world = [5]"
    by (simp_all add: zone_to_sign_def demo_sign_world_def t)
  moreover have "collect_zone (si_walk demo_signer_params st) = []" for st
    by (simp add: demo_signer_params_def collect_zone_def)
  moreover have "sn_started_at demo_sign_env = 2" "sn_requested_at demo_sign_env = 1"
    "sn_durations demo_sign_env 0 = 0" "sn_timestamp demo_sign_env = 1000"
    by (simp_all add: demo_sign_env_def)
  ultimately show ?thesis
    by (simp add: sign_zone_def Let_def a demo_sign_soa w1_def [symmetric] g w3_def [symmetric] w4 p del: One_nat_def)
qed

theorem resigned_not_published_witness:
  "\<exists>w'. fst (sign_zone demo_signer_params demo_signer demo_sign_env
       ''example'' True demo_sign_world) = Ok ()
     \<and> snd (sign_zone demo_signer_params demo_signer demo_sign_env
       ''example'' True demo_sign_world) = w'
     \<and> (\<exists>new. gw_updates w' = gw_updates demo_sign_world @ new
       \<and> zt_published_zones (gw_trees w') = zt_published_zones (gw_trees demo_sign_world))
     \<and> gw_stores w' ! 0 = 5"
proof -
  obtain w' where run: "sign_zone demo_signer_params demo_signer demo_sign_env
       ''example'' True demo_sign_world = (Ok (), w')"
    using demo_sign_zone by (metis prod.collapse)
  have d: "d_tree_get (si_api demo_signer_params) (zt_published_zones (gw_trees demo_sign_world)) ''example'' Class_IN = Some 0"
    and h: "hm_get (sv_last_approvals demo_review_server) (''example'', soa_serial (demo_soa 5)) \<noteq> None"
    by (simp_all add: demo_signer_params_def demo_sign_world_def demo_api_def demo_soa_def demo_review_server_def)
  have g: "get_zone_soa (si_api demo_signer_params) (gw_stores demo_sign_world ! 0) ''example'' = Inr (demo_soa 5, 60)"
    using demo_sign_soa by (simp add: demo_signer_params_def demo_sign_world_def)
  have ok: "zone_tree_ok (si_api demo_signer_params)"
    and apart: "stores_apart (si_api demo_signer_params) (gw_trees demo_sign_world) (length (gw_stores demo_sign_world))"
    by (simp add: demo_signer_params_def)
      (simp add: stores_apart_def refs_apart_def demo_signer_params_def demo_sign_world_def demo_api_def)
  note r = resigned_not_published [OF run d g h ok apart, of demo_params "demo_server_env True" demo_server_world]
  then have "gw_stores w' ! 0 = gw_stores demo_sign_world ! 0" using d by blast
  then have "gw_stores w' ! 0 = 5" by (simp add: demo_sign_world_def)
  then show ?thesis using r run by auto
qed

end
