(* ===== verification/Http_Server.thy ===== *)
theory Http_Server
  imports Commands Center_Ops
begin

text \<open>
  The HTTP server (\<open>units/http_server.rs\<close>): adding and removing zones, the list of zones with
  their stages, and the requests that approve or reject a version of a zone, with the answers of
  the review servers. The routes, the values on the wire and the handlers that only echo or panic are
  in \<open>Http_Api\<close>.

  A request that is passed to a unit waits for the unit's answer; it is modelled as the command that
  is sent and the response made of the answer.
\<close>

section \<open>Zones\<close>

record ZoneAddResult =
  zar_name :: dname
  zar_status :: string

text \<open>The results of adding the zone and of setting its policy are not looked at; a panic of either
  ends the request. The commands for the units are returned.\<close>

definition http_zone_add :: "ZoneAdd \<Rightarrow> 'k Center
    \<Rightarrow> (unit, ZoneAddResult) outcome \<times> 'k Center \<times> (string \<times> ApplicationCommand) list" where
  "http_zone_add reg c = (case add_zone (za_name reg) c of
      (Panic, c1) \<Rightarrow> (Panic, c1, [])
    | (_, c1) \<Rightarrow> (case change_policy (za_name reg) (za_policy reg) c1 of
        (Panic, c2) \<Rightarrow> (Panic, c2, [])
      | (_, c2) \<Rightarrow> (Ok \<lparr>zar_name = za_name reg, zar_status = ''Submitted''\<rparr>, c2,
          [(''ZL'', RegisterZone reg)])))"

definition http_zone_remove :: "dname \<Rightarrow> 'k Center \<Rightarrow> (unit, unit) outcome \<times> 'k Center" where
  "http_zone_remove name c = (case remove_zone name c of
      (Panic, c1) \<Rightarrow> (Panic, c1)
    | (_, c1) \<Rightarrow> (Ok (), c1))"

section \<open>The list of zones\<close>

datatype ZoneStage = Unsigned | Signed | Published

record ZonesListEntry =
  zle_name :: dname
  zle_stage :: ZoneStage

text \<open>A \<open>BTreeMap\<close>: the list of its entries in the order \<open>lt\<close> of the keys.\<close>

fun bt_insert :: "('k \<Rightarrow> 'k \<Rightarrow> bool) \<Rightarrow> 'k \<Rightarrow> 'v \<Rightarrow> ('k \<times> 'v) list \<Rightarrow> ('k \<times> 'v) list" where
  "bt_insert lt k v [] = [(k, v)]"
| "bt_insert lt k v ((k', v') # m) =
    (if k = k' then (k, v) # m
     else if lt k k' then (k, v) # (k', v') # m
     else (k', v') # bt_insert lt k v m)"

fun insert_stage :: "(dname \<Rightarrow> dname \<Rightarrow> bool) \<Rightarrow> ZoneStage \<Rightarrow> dname list \<Rightarrow> (dname \<times> ZoneStage) list
    \<Rightarrow> (dname \<times> ZoneStage) list" where
  "insert_stage lt stage [] all_zones = all_zones"
| "insert_stage lt stage (n # ns) all_zones = insert_stage lt stage ns (bt_insert lt n stage all_zones)"

text \<open>\<open>apex\<close> is the apex name of a zone.\<close>

definition http_zones_list :: "'t domain_api \<Rightarrow> (dname \<Rightarrow> dname \<Rightarrow> bool) \<Rightarrow> (nat \<Rightarrow> dname) \<Rightarrow> 't zone_trees
    \<Rightarrow> ZonesListEntry list" where
  "http_zones_list D lt apex trees =
    (let all_zones = insert_stage lt Unsigned (map apex (d_tree_iter D (zt_unsigned_zones trees))) [];
         all_zones = insert_stage lt Signed (map apex (d_tree_iter D (zt_signed_zones trees))) all_zones;
         all_zones = insert_stage lt Published (map apex (d_tree_iter D (zt_published_zones trees))) all_zones
     in map (\<lambda>(name, stage). \<lparr>zle_name = name, zle_stage = stage\<rparr>) all_zones)"

section \<open>Reviews\<close>

datatype StatusCode = BAD_REQUEST | INTERNAL_SERVER_ERROR

text \<open>The parsers of the \<open>domain\<close> crate for names and serials.\<close>

record review_parsers =
  rp_name :: "string \<Rightarrow> dname option"
  rp_serial :: "string \<Rightarrow> serial option"

definition review_request :: "review_parsers \<Rightarrow> string \<Rightarrow> string \<Rightarrow> string \<Rightarrow> (string, string) hmap \<Rightarrow> token
    \<Rightarrow> StatusCode + (string \<times> ApplicationCommand)" where
  "review_request rp unit action approval_token params http_tx =
    (case hm_get params ''zone'' of
       None \<Rightarrow> Inl BAD_REQUEST
     | Some zone_name \<Rightarrow>
        (case hm_get params ''serial'' of
           None \<Rightarrow> Inl BAD_REQUEST
         | Some zone_serial \<Rightarrow>
            if approval_token = [] \<or> action \<notin> set [''approve'', ''reject''] then Inl BAD_REQUEST
            else (case rp_name rp zone_name of
                None \<Rightarrow> Inl BAD_REQUEST
              | Some n \<Rightarrow> (case rp_serial rp zone_serial of
                  None \<Rightarrow> Inl BAD_REQUEST
                | Some s \<Rightarrow> Inr (unit, HandleZoneReviewApi n s approval_token action http_tx)))))"

text \<open>The answer; \<open>None\<close> when the unit ended without one.\<close>

definition review_response :: "bool option \<Rightarrow> StatusCode + unit" where
  "review_response res = (case res of
      None \<Rightarrow> Inl INTERNAL_SERVER_ERROR
    | Some ok \<Rightarrow> if ok then Inr () else Inl BAD_REQUEST)"

definition status_request :: "string \<Rightarrow> token \<Rightarrow> string \<times> ApplicationCommand" where
  "status_request unit http_tx = (unit, HandleZoneReviewApiStatus http_tx)"

definition status_response :: "string option \<Rightarrow> StatusCode + string" where
  "status_response res = (case res of None \<Rightarrow> Inl INTERNAL_SERVER_ERROR | Some page \<Rightarrow> Inr page)"

text \<open>The handlers of the paths: the unit each stands for.\<close>

definition handle_ps where "handle_ps rp = review_request rp ''PS''"
definition handle_rs where "handle_rs rp = review_request rp ''RS''"
definition handle_rs2 where "handle_rs2 rp = review_request rp ''RS2''"
definition handle_ps_base where "handle_ps_base = status_request ''PS''"
definition handle_rs_base where "handle_rs_base = status_request ''RS''"
definition handle_rs2_base where "handle_rs2_base = status_request ''RS2''"

text \<open>The commands of the HTTP server itself: only the end matters.\<close>

fun http_command :: "ApplicationCommand option \<Rightarrow> (Terminated, unit) outcome" where
  "http_command None = Err Terminated"
| "http_command (Some CmdTerminate) = Err Terminated"
| "http_command (Some _) = Ok ()"

section \<open>The list is right\<close>

text \<open>A strict total order, as \<open>Ord\<close> of names is documented to be.\<close>

definition strict_order :: "('k \<Rightarrow> 'k \<Rightarrow> bool) \<Rightarrow> bool" where
  "strict_order lt \<longleftrightarrow> (\<forall>a. \<not> lt a a) \<and> (\<forall>a b c. lt a b \<longrightarrow> lt b c \<longrightarrow> lt a c)
     \<and> (\<forall>a b. a \<noteq> b \<longrightarrow> lt a b \<or> lt b a)"

lemma bt_keys: "set (map fst (bt_insert lt k v m)) = insert k (set (map fst m))"
  by (induction m rule: bt_insert.induct [of _ lt k v]) auto

lemma bt_sorted:
  assumes "strict_order lt"
  shows "sorted_wrt lt (map fst m) \<Longrightarrow> sorted_wrt lt (map fst (bt_insert lt k v m))"
proof (induction m)
  case (Cons e m)
  obtain k' v' where e: "e = (k', v')" by fastforce
  have tr: "lt k k' \<Longrightarrow> lt k' x \<Longrightarrow> lt k x" "k \<noteq> k' \<Longrightarrow> \<not> lt k k' \<Longrightarrow> lt k' k" for x
    using assms unfolding strict_order_def by blast+
  show ?case
  proof (cases "k = k' \<or> lt k k'")
    case True
    then show ?thesis using Cons.prems tr by (auto simp: e)
  next
    case False
    then have "bt_insert lt k v (e # m) = (k', v') # bt_insert lt k v m" by (auto simp: e)
    moreover have "\<forall>x \<in> set (map fst (bt_insert lt k v m)). lt k' x"
      using Cons.prems tr False unfolding bt_keys by (auto simp: e)
    ultimately show ?thesis using Cons by (simp add: e)
  qed
qed simp

lemma sorted_distinct: "strict_order lt \<Longrightarrow> sorted_wrt lt ks \<Longrightarrow> distinct ks"
  by (induction ks) (auto simp: strict_order_def)

lemma bt_get:
  "map_of (bt_insert lt k v m) j = (if j = k then Some v else map_of m j)"
  if "sorted_wrt lt (map fst m)" "strict_order lt"
  using that
proof (induction m)
  case (Cons e m)
  obtain k' v' where e: "e = (k', v')" by fastforce
  then show ?case using Cons by auto
qed simp

lemma insert_stage_post:
  assumes "strict_order lt"
  shows "sorted_wrt lt (map fst m) \<Longrightarrow> sorted_wrt lt (map fst (insert_stage lt st ns m))
    \<and> map_of (insert_stage lt st ns m) j = (if j \<in> set ns then Some st else map_of m j)"
proof (induction ns arbitrary: m)
  case (Cons n ns)
  show ?case using Cons.IH [OF bt_sorted [OF assms Cons.prems]] bt_get [OF Cons.prems assms] by auto
qed simp

text \<open>The zones of a tree by name.\<close>

definition names_in :: "'t domain_api \<Rightarrow> (nat \<Rightarrow> dname) \<Rightarrow> 't \<Rightarrow> dname set" where
  "names_in D apex t = apex ` set (d_tree_iter D t)"

text \<open>C34: the list of zones names every zone of the three collections once, in the order of the
  names, with the furthest stage it has reached.\<close>

theorem zones_list_furthest:
  assumes "strict_order lt"
  shows "let l = http_zones_list D lt apex trees in
    sorted_wrt lt (map zle_name l) \<and> distinct (map zle_name l)
    \<and> set l = {\<lparr>zle_name = n, zle_stage = (if n \<in> names_in D apex (zt_published_zones trees) then Published
          else if n \<in> names_in D apex (zt_signed_zones trees) then Signed else Unsigned)\<rparr> | n.
        n \<in> names_in D apex (zt_unsigned_zones trees) \<union> names_in D apex (zt_signed_zones trees)
          \<union> names_in D apex (zt_published_zones trees)}"
proof -
  let ?l = "http_zones_list D lt apex trees"
  let ?u = "map apex (d_tree_iter D (zt_unsigned_zones trees))"
  let ?s = "map apex (d_tree_iter D (zt_signed_zones trees))"
  let ?p = "map apex (d_tree_iter D (zt_published_zones trees))"
  let ?m = "insert_stage lt Published ?p (insert_stage lt Signed ?s (insert_stage lt Unsigned ?u []))"
  let ?mk = "\<lambda>(name, stage). \<lparr>zle_name = name, zle_stage = stage\<rparr>"
  have l: "?l = map ?mk ?m" by (simp add: http_zones_list_def Let_def)
  note post = insert_stage_post [OF assms]
  have u: "sorted_wrt lt (map fst (insert_stage lt Unsigned ?u []))" using post [of "[]"] by simp
  have s: "sorted_wrt lt (map fst (insert_stage lt Signed ?s (insert_stage lt Unsigned ?u [])))"
    using post [OF u] by blast
  have m: "sorted_wrt lt (map fst ?m)" using post [OF s] by blast
  have names: "map zle_name ?l = map fst ?m" by (simp add: l case_prod_unfold comp_def)
  have d: "distinct (map fst ?m)" using sorted_distinct [OF assms m] .
  have get: "map_of ?m j = (if j \<in> set ?p then Some Published else if j \<in> set ?s then Some Signed
      else if j \<in> set ?u then Some Unsigned else None)" for j
    using post [OF s, of Published ?p j] post [OF u, of Signed ?s j] post [of "[]" Unsigned ?u j] by simp
  have mem: "(n, st) \<in> set ?m \<longleftrightarrow> map_of ?m n = Some st" for n st using d by simp
  have "set ?l = {\<lparr>zle_name = n, zle_stage = st\<rparr> | n st. map_of ?m n = Some st}"
    unfolding l using mem by (auto simp: image_iff)
  also have "\<dots> = {\<lparr>zle_name = n, zle_stage = (if n \<in> names_in D apex (zt_published_zones trees) then Published
          else if n \<in> names_in D apex (zt_signed_zones trees) then Signed else Unsigned)\<rparr> | n.
        n \<in> names_in D apex (zt_unsigned_zones trees) \<union> names_in D apex (zt_signed_zones trees)
          \<union> names_in D apex (zt_published_zones trees)}"
    unfolding get names_in_def by (auto split: if_splits)
  finally show ?thesis using m d names by (simp add: Let_def)
qed

definition char_lt :: "(char \<times> char) set" where
  "char_lt = {(x, y). of_char x < (of_char y :: nat)}"

lemma lexord_strict: "strict_order (\<lambda>a b. (a, b) \<in> lexord char_lt)"
proof -
  have "trans char_lt" "\<forall>a. (a, a) \<notin> char_lt" "\<forall>a b. (a, b) \<in> char_lt \<or> a = b \<or> (b, a) \<in> char_lt"
    by (auto simp: char_lt_def trans_def)
  then show ?thesis
    unfolding strict_order_def using lexord_linear [of char_lt] lexord_irreflexive [of char_lt] lexord_trans
    by metis
qed

theorem zones_list_furthest_witness:
  "set (http_zones_list demo_api (\<lambda>a b. (a, b) \<in> lexord char_lt) (\<lambda>r. if r = 0 then ''a'' else ''bb'')
       \<lparr>zt_unsigned_zones = [((''a'', Class_IN), 0), ((''bb'', Class_IN), 1)], zt_signed_zones = [],
         zt_published_zones = [((''a'', Class_IN), 0)]\<rparr>)
     = {\<lparr>zle_name = ''a'', zle_stage = Published\<rparr>, \<lparr>zle_name = ''bb'', zle_stage = Unsigned\<rparr>}"
  (is "set (http_zones_list demo_api ?lt ?apex ?trees) = _")
  using zones_list_furthest [OF lexord_strict, of demo_api ?apex ?trees]
  by (auto simp: names_in_def demo_api_def demo_iter_def Let_def)

end
