(* ===== verification/Pipeline.thy ===== *)
theory Pipeline
  imports Zone_Signing Http_Server
begin

text \<open>
  The pipeline of a zone: how the events of the units go through the central command to the review
  servers, the signer and the publication server, with the queues between them. A step is one
  event routed, one command forwarded, one command handled, or something from outside: a new
  version from the loader, a NOTIFY, a changed key set, an HTTP request, an operation on the center.
  Anything can happen in any order. A unit whose handler panics or ends is gone.
\<close>

section \<open>The state\<close>

record ('t, 'k) pipeline =
  pl_center :: "'k Center"
  pl_trees :: "'t zone_trees"
  pl_stores :: "token list"
  pl_status :: ZoneSignerStatus
  pl_cmds :: "(string \<times> ApplicationCommand) list"
  pl_txs :: unit_txs
  pl_servers :: "(string, ZoneServer) hmap"

text \<open>The events that wait for the central command.\<close>

abbreviation pl_updates :: "('t, 'k) pipeline \<Rightarrow> Update list" where
  "pl_updates s \<equiv> ce_updates (pl_center s)"

definition set_updates :: "Update list \<Rightarrow> ('t, 'k) pipeline \<Rightarrow> ('t, 'k) pipeline" where
  "set_updates us s = s\<lparr>pl_center := (pl_center s)\<lparr>ce_updates := us\<rparr>\<rparr>"

definition set_queue :: "string \<Rightarrow> ApplicationCommand list option \<Rightarrow> ('t, 'k) pipeline \<Rightarrow> ('t, 'k) pipeline" where
  "set_queue u q s = s\<lparr>pl_txs := hm_insert u q (pl_txs s)\<rparr>"

text \<open>What the handlers of the servers and the signer see, and what they leave.\<close>

definition server_view :: "('t, 'k) pipeline \<Rightarrow> 't server_world" where
  "server_view s = \<lparr>sw_trees = pl_trees s, sw_updates = pl_updates s, sw_replies = [], sw_pages = []\<rparr>"

definition after_server :: "string \<Rightarrow> ZoneServer \<Rightarrow> 't server_world \<Rightarrow> ('t, 'k) pipeline \<Rightarrow> ('t, 'k) pipeline" where
  "after_server u sv w s = set_updates (sw_updates w)
     (s\<lparr>pl_trees := sw_trees w, pl_servers := hm_insert u sv (pl_servers s)\<rparr>)"

definition sign_view :: "('t, 'k) pipeline \<Rightarrow> ('t, 'k) sign_world" where
  "sign_view s = \<lparr>gw_center = pl_center s, gw_trees = pl_trees s, gw_stores = pl_stores s,
     gw_status = pl_status s, gw_updates = pl_updates s\<rparr>"

definition after_sign :: "('t, 'k) sign_world \<Rightarrow> ('t, 'k) pipeline \<Rightarrow> ('t, 'k) pipeline" where
  "after_sign w s = s\<lparr>pl_center := (gw_center w)\<lparr>ce_updates := gw_updates w\<rparr>, pl_trees := gw_trees w,
     pl_stores := gw_stores w, pl_status := gw_status w\<rparr>"

text \<open>The start: no zone is signed or published yet.\<close>

definition pipeline_start :: "'t domain_api \<Rightarrow> 'k Center \<Rightarrow> string list \<Rightarrow> string list
    \<Rightarrow> ListenAddr list \<times> ListenAddr list \<times> ListenAddr list \<Rightarrow> ('t, 'k) pipeline" where
  "pipeline_start D c hooks1 hooks2 listen = \<lparr>pl_center = c\<lparr>ce_updates := []\<rparr>,
     pl_trees = \<lparr>zt_unsigned_zones = d_tree_new D, zt_signed_zones = d_tree_new D, zt_published_zones = d_tree_new D\<rparr>,
     pl_stores = [], pl_status = ZoneSignerStatus_default, pl_cmds = [],
     pl_txs = map (\<lambda>u. (u, Some [])) [''ZL'', ''RS'', ''KM'', ''ZS'', ''RS2'', ''PS'', ''HS''],
     pl_servers = [(''RS'', ZoneServer_new Prepublish UnsignedZones hooks1 (fst listen)),
       (''RS2'', ZoneServer_new Prepublish SignedZones hooks2 (fst (snd listen))),
       (''PS'', ZoneServer_new Publish PublishedZones [] (snd (snd listen)))]\<rparr>"

section \<open>Steps\<close>

text \<open>The events from the loader, the publication server and the key manager.\<close>

fun outside_event :: "Update \<Rightarrow> bool" where
  "outside_event (Changed change) = True"
| "outside_event (RefreshZone n source s) = True"
| "outside_event (UnsignedZoneUpdatedEvent n s) = True"
| "outside_event (ResignZoneEvent n) = True"
| "outside_event _ = False"

text \<open>The commands HTTP requests send.\<close>

inductive http_sends :: "review_parsers \<Rightarrow> (string \<times> ApplicationCommand) list \<Rightarrow> bool" for rp where
  Review: "review_request rp u action t params tx = Inr cmd \<Longrightarrow> u \<in> set [''RS'', ''RS2'', ''PS''] \<Longrightarrow> http_sends rp [cmd]"
| Status: "u \<in> set [''RS'', ''RS2'', ''PS''] \<Longrightarrow> http_sends rp [status_request u tx]"
| Add: "http_sends rp [(''ZL'', RegisterZone reg)]"

lemma http_zone_add_sends: "http_zone_add reg c = (Ok r, c', cmds) \<Longrightarrow> http_sends rp cmds"
  by (auto simp: http_zone_add_def intro: http_sends.intros split: prod.splits outcome.splits)

inductive pl_step :: "'t signer_params \<Rightarrow> 't server_params \<Rightarrow> ZoneSigner \<Rightarrow> review_parsers
    \<Rightarrow> ('t, 'k) pipeline \<Rightarrow> ('t, 'k) pipeline \<Rightarrow> bool" for P SP zs rp where
  Direct: "pl_updates s = u # us \<Longrightarrow>
    pl_step P SP zs rp s (set_updates us (s\<lparr>pl_cmds := pl_cmds s @ direct_update u\<rparr>))"
| Forward: "pl_cmds s = cmd # cmds \<Longrightarrow> forward_app_cmds [cmd] (pl_txs s) = (Ok (), txs) \<Longrightarrow>
    pl_step P SP zs rp s (s\<lparr>pl_cmds := cmds, pl_txs := txs\<rparr>)"
| Serve: "hm_get (pl_servers s) u = Some sv \<Longrightarrow> hm_get (pl_txs s) u = Some (Some (cmd # q)) \<Longrightarrow>
    handle_command SP env cmd sv (server_view s) = (res, sv', w) \<Longrightarrow>
    pl_step P SP zs rp s (set_queue u (if res = Ok () then Some q else None) (after_server u sv' w s))"
| Sign: "hm_get (pl_txs s) ''ZS'' = Some (Some (cmd # q)) \<Longrightarrow>
    signer_command P zs senv cmd (sign_view s) = (sres, sw) \<Longrightarrow>
    pl_step P SP zs rp s (set_queue ''ZS'' (if sres = Ok True then Some q else None) (after_sign sw s))"
| Idle: "u \<in> set [''ZL'', ''KM'', ''HS''] \<Longrightarrow> hm_get (pl_txs s) u = Some (Some (cmd # q)) \<Longrightarrow>
    q' = Some q \<or> q' = None \<Longrightarrow> pl_step P SP zs rp s (set_queue u q' s)"
| Event: "outside_event u \<Longrightarrow> pl_step P SP zs rp s (set_updates (pl_updates s @ [u]) s)"
| Http: "http_sends rp cmds \<Longrightarrow> pl_step P SP zs rp s (s\<lparr>pl_cmds := pl_cmds s @ cmds\<rparr>)"
| Center: "ce_updates c = pl_updates s \<Longrightarrow> pl_step P SP zs rp s (s\<lparr>pl_center := c\<rparr>)"
| Load: "(\<forall>r \<in> set (d_tree_iter (si_api P) (zt_signed_zones (pl_trees s)))
        \<union> set (d_tree_iter (si_api P) (zt_published_zones (pl_trees s))). stores ! r = pl_stores s ! r) \<Longrightarrow>
    length (pl_stores s) \<le> length stores \<Longrightarrow> pl_step P SP zs rp s (s\<lparr>pl_trees := (pl_trees s)\<lparr>zt_unsigned_zones := t\<rparr>, pl_stores := stores\<rparr>)"

inductive pl_reachable :: "'t signer_params \<Rightarrow> 't server_params \<Rightarrow> ZoneSigner \<Rightarrow> review_parsers
    \<Rightarrow> ('t, 'k) pipeline \<Rightarrow> ('t, 'k) pipeline \<Rightarrow> bool" for P SP zs rp s0 where
  start: "pl_reachable P SP zs rp s0 s0"
| step: "pl_reachable P SP zs rp s0 s \<Longrightarrow> pl_step P SP zs rp s s' \<Longrightarrow> pl_reachable P SP zs rp s0 s'"

section \<open>The invariant\<close>

text \<open>The review an event or a command rests on: the server and the version.\<close>

fun update_key :: "Update \<Rightarrow> (string \<times> review_key) option" where
  "update_key (UnsignedZoneApprovedEvent n s) = Some (''RS'', n, s)"
| "update_key (SignedZoneApprovedEvent n s) = Some (''RS2'', n, s)"
| "update_key _ = None"

fun cmd_key :: "ApplicationCommand \<Rightarrow> (string \<times> review_key) option" where
  "cmd_key (SignZone n (Some s)) = Some (''RS'', n, s)"
| "cmd_key (PublishSignedZone n s) = Some (''RS2'', n, s)"
| "cmd_key _ = None"

definition approved :: "('t, 'k) pipeline \<Rightarrow> string \<Rightarrow> review_key \<Rightarrow> bool" where
  "approved s u k \<longleftrightarrow> (\<exists>sv. hm_get (pl_servers s) u = Some sv \<and> hm_get (sv_last_approvals sv) k \<noteq> None)"

definition backed :: "('t, 'k) pipeline \<Rightarrow> (string \<times> review_key) option \<Rightarrow> bool" where
  "backed s o' \<longleftrightarrow> (case o' of None \<Rightarrow> True | Some (u, k) \<Rightarrow> approved s u k)"

definition servers_ok :: "('t, 'k) pipeline \<Rightarrow> bool" where
  "servers_ok s \<longleftrightarrow> (\<forall>u sv. hm_get (pl_servers s) u = Some sv \<longrightarrow>
     unit_name (sv_mode sv) (sv_source sv) = Some u \<and> (sv_source sv = PublishedZones \<or> sv_hooks sv \<noteq> []))"

text \<open>The messages that are under way.\<close>

definition waiting :: "('t, 'k) pipeline \<Rightarrow> string \<Rightarrow> ApplicationCommand set" where
  "waiting s u = {cmd. (u, cmd) \<in> set (pl_cmds s) \<or> (\<exists>q. hm_get (pl_txs s) u = Some (Some q) \<and> cmd \<in> set q)}"

definition in_signed :: "'t domain_api \<Rightarrow> ('t, 'k) pipeline \<Rightarrow> dname \<Rightarrow> bool" where
  "in_signed D s n \<longleftrightarrow> d_tree_get D (zt_signed_zones (pl_trees s)) n Class_IN \<noteq> None"

definition in_published :: "'t domain_api \<Rightarrow> ('t, 'k) pipeline \<Rightarrow> dname \<Rightarrow> bool" where
  "in_published D s n \<longleftrightarrow> d_tree_get D (zt_published_zones (pl_trees s)) n Class_IN \<noteq> None"

text \<open>Some version of the zone was approved by the server.\<close>

definition reviewed :: "('t, 'k) pipeline \<Rightarrow> string \<Rightarrow> dname \<Rightarrow> bool" where
  "reviewed s u n \<longleftrightarrow> (\<exists>sr. approved s u (n, sr))"

text \<open>A command may be under way.\<close>

definition cmd_ok :: "('t, 'k) pipeline \<Rightarrow> string \<Rightarrow> ApplicationCommand \<Rightarrow> bool" where
  "cmd_ok s u cmd \<longleftrightarrow> backed s (cmd_key cmd) \<and> (\<forall>reg. (u, cmd) \<noteq> (''KM'', RegisterZone reg))"

definition pl_inv :: "'t domain_api \<Rightarrow> ('t, 'k) pipeline \<Rightarrow> bool" where
  "pl_inv D s \<longleftrightarrow> servers_ok s \<and> (\<forall>u \<in> set (pl_updates s). backed s (update_key u))
     \<and> (\<forall>u. \<forall>cmd \<in> waiting s u. cmd_ok s u cmd)
     \<and> (\<forall>n. in_signed D s n \<longrightarrow> reviewed s ''RS'' n)
     \<and> (\<forall>n. in_published D s n \<longrightarrow> reviewed s ''RS'' n \<and> reviewed s ''RS2'' n)"

lemma pl_invD:
  assumes "pl_inv D s"
  shows "servers_ok s" "u \<in> set (pl_updates s) \<Longrightarrow> backed s (update_key u)"
    "cmd \<in> waiting s v \<Longrightarrow> cmd_ok s v cmd" "in_signed D s n \<Longrightarrow> reviewed s ''RS'' n"
    "in_published D s n \<Longrightarrow> reviewed s ''RS'' n" "in_published D s n \<Longrightarrow> reviewed s ''RS2'' n"
  using assms unfolding pl_inv_def by blast+

section \<open>What the handlers do\<close>

lemma seek_post:
  assumes "on_seek_approval_for_zone_cmd e n s sv w = (res, sv', w')" "sv_source sv = PublishedZones \<or> sv_hooks sv \<noteq> []"
  shows "sv_mode sv' = sv_mode sv" "sv_source sv' = sv_source sv" "sv_hooks sv' = sv_hooks sv"
    "sv_last_approvals sv' = sv_last_approvals sv" "w' = w"
  using assms by (auto simp: on_seek_approval_for_zone_cmd_def approved_event_def split: if_splits outcome.splits)

lemma review_post:
  assumes "process_request uuid now n s given operation sv w = (res, sv', w')"
  shows "sv_mode sv' = sv_mode sv" "sv_source sv' = sv_source sv" "sv_hooks sv' = sv_hooks sv"
    "hm_get (sv_last_approvals sv) k \<noteq> None \<Longrightarrow> hm_get (sv_last_approvals sv') k \<noteq> None"
    "sw_trees w' = sw_trees w"
    "sw_updates w' = sw_updates w \<or> (\<exists>ev. sw_updates w' = sw_updates w @ [ev]
       \<and> approved_event (sv_source sv) n s = Ok ev \<and> hm_get (sv_last_approvals sv') (n, s) \<noteq> None)"
  using assms by (auto simp: process_request_def send_update_def Let_def split: option.splits if_splits outcome.splits)

text \<open>The collections after publishing.\<close>

definition trees_step :: "'t domain_api \<Rightarrow> ApplicationCommand \<Rightarrow> 't zone_trees \<Rightarrow> 't zone_trees \<Rightarrow> bool" where
  "trees_step D cmd t t' \<longleftrightarrow>
     (\<forall>m. d_tree_get D (zt_signed_zones t') m Class_IN \<noteq> None \<longrightarrow> d_tree_get D (zt_signed_zones t) m Class_IN \<noteq> None)
   \<and> (\<forall>m. d_tree_get D (zt_published_zones t') m Class_IN \<noteq> None \<longrightarrow> d_tree_get D (zt_published_zones t) m Class_IN \<noteq> None
        \<or> (\<exists>s. cmd = PublishSignedZone m s) \<and> d_tree_get D (zt_signed_zones t) m Class_IN \<noteq> None)"

lemma trees_step_refl [simp]: "trees_step D cmd t t"
  by (simp add: trees_step_def)

lemma publish_post:
  assumes D: "zone_tree_ok D" and pub: "on_publish_signed_zone_cmd D n t = (res, t')"
  shows "trees_step D (PublishSignedZone n s) t t'"
proof (cases "d_tree_get D (zt_signed_zones t) n Class_IN")
  case None
  then show ?thesis using pub by (simp add: on_publish_signed_zone_cmd_def)
next
  case (Some r)
  define p0 where "p0 = (case d_tree_remove D n Class_IN (zt_published_zones t) of Inl _ \<Rightarrow> zt_published_zones t | Inr t \<Rightarrow> t)"
  have p0: "d_tree_get D p0 m Class_IN \<noteq> None \<Longrightarrow> d_tree_get D (zt_published_zones t) m Class_IN \<noteq> None" for m
    using tree_remove_get [OF D] by (auto simp: p0_def split: sum.splits if_splits)
  show ?thesis
  proof (cases "d_tree_insert D n Class_IN r p0")
    case (Inl e)
    then show ?thesis using pub Some by (simp add: on_publish_signed_zone_cmd_def p0_def [symmetric] Let_def)
  next
    case (Inr p1)
    have p1: "d_tree_get D p1 m Class_IN \<noteq> None \<Longrightarrow> m = n \<or> d_tree_get D p0 m Class_IN \<noteq> None" for m
      using tree_insert_get [OF D Inr] by auto
    have t': "zt_published_zones t' = p1" "zt_signed_zones t' = zt_signed_zones t
        \<or> d_tree_remove D n Class_IN (zt_signed_zones t) = Inr (zt_signed_zones t')"
      using pub Some Inr by (auto simp: on_publish_signed_zone_cmd_def p0_def [symmetric] Let_def split: sum.splits)
    have "d_tree_get D (zt_signed_zones t') m Class_IN \<noteq> None \<Longrightarrow> d_tree_get D (zt_signed_zones t) m Class_IN \<noteq> None" for m
      using t'(2) tree_remove_get [OF D] by (metis (no_types))
    moreover have "d_tree_get D (zt_published_zones t') m Class_IN \<noteq> None \<Longrightarrow> d_tree_get D (zt_published_zones t) m Class_IN \<noteq> None
        \<or> m = n" for m
      using p1 [of m] p0 [of m] by (auto simp: t')
    ultimately show ?thesis using Some by (fastforce simp: trees_step_def)
  qed
qed

lemma serve_post:
  assumes D: "zone_tree_ok (sp_api SP)" and h: "handle_command SP env cmd sv w = (res, sv', w')"
    and ne: "sv_source sv = PublishedZones \<or> sv_hooks sv \<noteq> []"
  shows "sv_mode sv' = sv_mode sv" "sv_source sv' = sv_source sv" "sv_hooks sv' = sv_hooks sv"
    and "hm_get (sv_last_approvals sv) k \<noteq> None \<Longrightarrow> hm_get (sv_last_approvals sv') k \<noteq> None"
    and "trees_step (sp_api SP) cmd (sw_trees w) (sw_trees w')"
    and "sw_updates w' = sw_updates w \<or> (\<exists>ev n s. sw_updates w' = sw_updates w @ [ev]
       \<and> approved_event (sv_source sv) n s = Ok ev \<and> hm_get (sv_last_approvals sv') (n, s) \<noteq> None)"
proof -
  let ?post = "sv_mode sv' = sv_mode sv \<and> sv_source sv' = sv_source sv \<and> sv_hooks sv' = sv_hooks sv
    \<and> (\<forall>k. hm_get (sv_last_approvals sv) k \<noteq> None \<longrightarrow> hm_get (sv_last_approvals sv') k \<noteq> None)
    \<and> trees_step (sp_api SP) cmd (sw_trees w) (sw_trees w')
    \<and> (sw_updates w' = sw_updates w \<or> (\<exists>ev n s. sw_updates w' = sw_updates w @ [ev]
       \<and> approved_event (sv_source sv) n s = Ok ev \<and> hm_get (sv_last_approvals sv') (n, s) \<noteq> None))"
  have ?post
  proof (cases cmd)
    case (HandleZoneReviewApi n s given operation tx)
    obtain o1 sv1 w1 where r: "process_request (sp_uuid SP) (se_now env) n s given operation sv w = (o1, sv1, w1)"
      using prod_cases3 by blast
    have "sv' = sv1" "sw_trees w' = sw_trees w1" "sw_updates w' = sw_updates w1"
      using h r by (cases o1; auto simp: HandleZoneReviewApi on_zone_review_api_cmd_def split: if_splits)+
    then show ?thesis using review_post [OF r] by auto
  next
    case (SeekApprovalForUnsignedZone n s)
    obtain o1 sv1 w1 where r: "on_seek_approval_for_zone_cmd (se_hooks env) n s sv w = (o1, sv1, w1)"
      using prod_cases3 by blast
    then have "sv' = sv1" "w' = w1" using h by (cases o1; auto simp: SeekApprovalForUnsignedZone)+
    then show ?thesis using seek_post [OF r ne] by simp
  next
    case (SeekApprovalForSignedZone n s)
    obtain o1 sv1 w1 where r: "on_seek_approval_for_zone_cmd (se_hooks env) n s sv w = (o1, sv1, w1)"
      using prod_cases3 by blast
    then have "sv' = sv1" "w' = w1" using h by (cases o1; auto simp: SeekApprovalForSignedZone)+
    then show ?thesis using seek_post [OF r ne] by simp
  next
    case (PublishSignedZone n s)
    obtain o1 t where r: "on_publish_signed_zone_cmd (sp_api SP) n (sw_trees w) = (o1, t)" by fastforce
    then have "sv' = sv" "w' = w\<lparr>sw_trees := t\<rparr>" using h by (cases o1; auto simp: PublishSignedZone)+
    then show ?thesis using publish_post [OF D r, of s] PublishSignedZone by simp
  next
    case (HandleZoneReviewApiStatus tx)
    then show ?thesis using h by (auto simp: on_zone_review_api_status_cmd_def split: if_splits)
  qed (use h in auto)
  then show "sv_mode sv' = sv_mode sv" "sv_source sv' = sv_source sv" "sv_hooks sv' = sv_hooks sv"
    "hm_get (sv_last_approvals sv) k \<noteq> None \<Longrightarrow> hm_get (sv_last_approvals sv') k \<noteq> None"
    "trees_step (sp_api SP) cmd (sw_trees w) (sw_trees w')"
    "sw_updates w' = sw_updates w \<or> (\<exists>ev n s. sw_updates w' = sw_updates w @ [ev]
       \<and> approved_event (sv_source sv) n s = Ok ev \<and> hm_get (sv_last_approvals sv') (n, s) \<noteq> None)"
    by blast+
qed

text \<open>What a signing operation leaves, however it ends.\<close>

definition sign_rel :: "'t domain_api \<Rightarrow> dname \<Rightarrow> ('t, 'k) sign_world \<Rightarrow> ('t, 'k) sign_world \<Rightarrow> bool" where
  "sign_rel D n w w' \<longleftrightarrow>
     (\<exists>new. gw_updates w' = gw_updates w @ new \<and> set new \<subseteq> range (ZoneSignedEvent n))
   \<and> zt_published_zones (gw_trees w') = zt_published_zones (gw_trees w)
   \<and> (\<forall>m. d_tree_get D (zt_signed_zones (gw_trees w')) m Class_IN \<noteq> None \<longrightarrow>
        d_tree_get D (zt_signed_zones (gw_trees w)) m Class_IN \<noteq> None \<or> m = n)"

lemma sign_rel_same: "gw_updates w' = gw_updates w \<Longrightarrow> gw_trees w' = gw_trees w \<Longrightarrow> sign_rel D n w w'"
  by (simp add: sign_rel_def)

lemma sign_rel_trans: "sign_rel D n a b \<Longrightarrow> sign_rel D n b c \<Longrightarrow> sign_rel D n a c"
proof -
  assume "sign_rel D n a b" "sign_rel D n b c"
  moreover from this obtain u v where "gw_updates b = gw_updates a @ u" "set u \<subseteq> range (ZoneSignedEvent n)"
      "gw_updates c = gw_updates b @ v" "set v \<subseteq> range (ZoneSignedEvent n)"
    unfolding sign_rel_def by blast
  then have "gw_updates c = gw_updates a @ (u @ v) \<and> set (u @ v) \<subseteq> range (ZoneSignedEvent n)" by simp
  ultimately show ?thesis unfolding sign_rel_def by metis
qed

lemma and_then_rel:
  assumes "sign_rel D n w (snd p)" "\<And>a. fst p = Ok a \<Longrightarrow> sign_rel D n (snd p) (snd (f a (snd p)))"
  shows "sign_rel D n w (snd (and_then p f))"
  using assms sign_rel_trans by (cases p; cases "fst p") auto

lemma rel_insert_signed: "zone_tree_ok (si_api P) \<Longrightarrow> sign_rel (si_api P) n w (snd (get_or_insert_signed_zone P zs n w))"
  using tree_insert_get [of "si_api P" n Class_IN "length (gw_stores w)" "zt_signed_zones (gw_trees w)"]
  by (auto simp: get_or_insert_signed_zone_def sign_rel_def Let_def split: option.splits sum.splits if_splits)

lemma rel_policy: "sign_rel D n w (snd (policy_of_zone n w))"
  by (rule sign_rel_same; simp add: policy_of_zone_def Let_def split: option.splits)

lemma rel_prepare: "sign_rel D n w (snd (prepare_records P env m config records w))"
  using prepare_frame [of P env m config records w] by (intro sign_rel_same) (metis prod.collapse)+

lemma rel_finish: "sign_rel D n w (snd (finish_signed P env n r soa rrsigs records w))"
  by (auto simp: finish_signed_def Let_def sign_rel_def split: outcome.splits prod.splits)

lemma rel_write: "sign_rel D n w (snd (write_signed P zs env n r soa config keys records w))"
proof (cases "determine_signing_concurrency (zs_max_concurrent_rrsig_generation_tasks zs) (length (si_owners P records))")
  case (Ok pc)
  obtain p c where pc: "pc = (p, c)" by fastforce
  obtain sent ok where g: "generate_rrsigs p c (si_sign P (chunk_zsks (zs_treat_single_keys_as_csks zs) keys)
      (sc_inception config) (sc_expiration config)) (si_owners P records) = (sent, ok)" by fastforce
  let ?w1 = "set_store r (si_clear P (gw_stores w ! r)) (map_status (zss_update n (\<lambda>s. s\<lparr>ip_threads_used := Some p\<rparr>)) w)"
  have s: "sign_rel D n w ?w1" by (rule sign_rel_same) simp_all
  show ?thesis
  proof (cases ok)
    case True
    then show ?thesis using Ok pc g sign_rel_trans [OF s rel_finish] by (simp add: write_signed_def Let_def)
  next
    case False
    then show ?thesis using Ok pc g by (simp add: write_signed_def Let_def sign_rel_same)
  qed
qed (simp_all add: write_signed_def sign_rel_same)

lemma sign_zone_post:
  assumes D: "zone_tree_ok (si_api P)"
  shows "sign_rel (si_api P) n w (snd (sign_zone P zs env n rsg w))"
    and "zone_to_sign (si_api P) n rsg (gw_trees w) = None \<Longrightarrow> gw_trees (snd (sign_zone P zs env n rsg w)) = gw_trees w"
proof -
  let ?w1 = "map_status (zss_enqueue (sn_requested_at env) n) w"
  have w1: "sign_rel (si_api P) n w ?w1" by (rule sign_rel_same) simp_all
  show "sign_rel (si_api P) n w (snd (sign_zone P zs env n rsg w))"
  proof (cases "zone_to_sign (si_api P) n rsg (gw_trees w)")
    case None
    then show ?thesis using w1 by (simp add: sign_zone_def Let_def)
  next
    case (Some src)
    show ?thesis
    proof (cases "get_zone_soa (si_api P) (gw_stores w ! src) n")
      case (Inl e)
      then show ?thesis using w1 Some by (simp add: sign_zone_def Let_def)
    next
      case (Inr soa)
      let ?w2 = "map_status (zss_start (sn_started_at env) n (soa_serial (fst soa))) ?w1"
      have w2: "sign_rel (si_api P) n w ?w2" by (rule sign_rel_same) simp_all
      have step: "snd (sign_zone P zs env n rsg w) = snd (and_then (get_or_insert_signed_zone P zs n ?w2) (\<lambda>r w2.
               and_then (policy_of_zone n w2) (\<lambda>policy w2.
               let config = signing_config (sn_timestamp env) policy;
                   records = collect_zone (si_walk P (gw_stores w2 ! src));
                   w3 = map_status (zss_update n (\<lambda>s. s\<lparr>
                     ip_unsigned_rr_count := Some (length records), ip_walk_time := Some (sn_durations env 0)\<rparr>)) w2
               in and_then (prepare_records P env n config records w3) (\<lambda>prepared w4.
                  case prepared of
                    None \<Rightarrow> (Ok (), w4)
                  | Some (keys, unsigned_records) \<Rightarrow>
                      write_signed P zs env n r soa config keys unsigned_records w4))))"
        using Some Inr by (simp add: sign_zone_def Let_def)
      show ?thesis unfolding step
      proof (rule sign_rel_trans [OF w2], rule and_then_rel [OF rel_insert_signed [OF D]], rule and_then_rel [OF rel_policy],
          goal_cases)
        case (1 r policy)
        let ?v = "snd (policy_of_zone n (snd (get_or_insert_signed_zone P zs n ?w2)))"
        let ?v3 = "map_status (zss_update n (\<lambda>s. s\<lparr>ip_unsigned_rr_count := Some (length (collect_zone (si_walk P (gw_stores ?v ! src)))),
            ip_walk_time := Some (sn_durations env 0)\<rparr>)) ?v"
        have "sign_rel (si_api P) n ?v ?v3" by (rule sign_rel_same) simp_all
        then show ?case unfolding Let_def
          by (rule sign_rel_trans, intro and_then_rel [OF rel_prepare])
             (auto simp: rel_write sign_rel_same split: option.splits prod.splits)
      qed
    qed
  qed
  show "zone_to_sign (si_api P) n rsg (gw_trees w) = None \<Longrightarrow> gw_trees (snd (sign_zone P zs env n rsg w)) = gw_trees w"
    by (simp add: sign_zone_def Let_def)
qed

lemma signer_command_post:
  assumes D: "zone_tree_ok (si_api P)" and h: "signer_command P zs env cmd w = (res, w')"
  shows "\<exists>new. gw_updates w' = gw_updates w @ new \<and> (\<forall>u \<in> set new. update_key u = None)"
    and "zt_published_zones (gw_trees w') = zt_published_zones (gw_trees w)"
    and "d_tree_get (si_api P) (zt_signed_zones (gw_trees w')) m Class_IN \<noteq> None \<Longrightarrow>
      d_tree_get (si_api P) (zt_signed_zones (gw_trees w)) m Class_IN \<noteq> None
      \<or> (\<exists>s. cmd = SignZone m (Some s)) \<or> d_tree_get (si_api P) (zt_published_zones (gw_trees w)) m Class_IN \<noteq> None"
proof -
  have "(\<exists>new. gw_updates w' = gw_updates w @ new \<and> (\<forall>u \<in> set new. update_key u = None))
    \<and> zt_published_zones (gw_trees w') = zt_published_zones (gw_trees w)
    \<and> (\<forall>m. d_tree_get (si_api P) (zt_signed_zones (gw_trees w')) m Class_IN \<noteq> None \<longrightarrow>
      d_tree_get (si_api P) (zt_signed_zones (gw_trees w)) m Class_IN \<noteq> None
      \<or> (\<exists>s. cmd = SignZone m (Some s)) \<or> d_tree_get (si_api P) (zt_published_zones (gw_trees w)) m Class_IN \<noteq> None)"
  proof (cases "\<exists>n s. cmd = SignZone n s")
    case True
    then obtain n s where c: "cmd = SignZone n s" by blast
    obtain o1 where o1: "sign_zone P zs env n (s = None) w = (o1, w')"
      using h by (auto simp: c split: prod.splits outcome.splits)
    have post: "sign_rel (si_api P) n w w'"
      "zone_to_sign (si_api P) n (s = None) (gw_trees w) = None \<Longrightarrow> gw_trees w' = gw_trees w"
      using sign_zone_post [OF D, where n = n and w = w and zs = zs and env = env and rsg = "s = None"] by (simp_all add: o1)
    have u: "\<exists>new. gw_updates w' = gw_updates w @ new \<and> (\<forall>u \<in> set new. update_key u = None)"
    proof -
      from post(1) obtain new where "gw_updates w' = gw_updates w @ new" "set new \<subseteq> range (ZoneSignedEvent n)"
        unfolding sign_rel_def by blast
      then show ?thesis by (intro exI [of _ new]) auto
    qed
    have "\<forall>m. d_tree_get (si_api P) (zt_signed_zones (gw_trees w')) m Class_IN \<noteq> None \<longrightarrow>
      d_tree_get (si_api P) (zt_signed_zones (gw_trees w)) m Class_IN \<noteq> None
      \<or> (\<exists>s. cmd = SignZone m (Some s)) \<or> d_tree_get (si_api P) (zt_published_zones (gw_trees w)) m Class_IN \<noteq> None"
      using post by (cases s) (auto simp: c sign_rel_def zone_to_sign_def)
    then show ?thesis using u post(1) by (simp add: sign_rel_def)
  next
    case False
    then have "w' = w" using h by (cases cmd) auto
    then show ?thesis by simp
  qed
  then show "\<exists>new. gw_updates w' = gw_updates w @ new \<and> (\<forall>u \<in> set new. update_key u = None)"
    "zt_published_zones (gw_trees w') = zt_published_zones (gw_trees w)"
    "d_tree_get (si_api P) (zt_signed_zones (gw_trees w')) m Class_IN \<noteq> None \<Longrightarrow>
      d_tree_get (si_api P) (zt_signed_zones (gw_trees w)) m Class_IN \<noteq> None
      \<or> (\<exists>s. cmd = SignZone m (Some s)) \<or> d_tree_get (si_api P) (zt_published_zones (gw_trees w)) m Class_IN \<noteq> None"
    by blast+
qed

section \<open>Preservation\<close>

lemma approved_source:
  assumes "servers_ok s" "hm_get (pl_servers s) u = Some sv" "approved_event (sv_source sv) n sr = Ok ev"
  shows "update_key ev = Some (u, n, sr)"
proof -
  have "unit_name (sv_mode sv) (sv_source sv) = Some u" using assms by (simp add: servers_ok_def)
  then show ?thesis using assms(3)
    by (cases "sv_mode sv"; cases "sv_source sv") (auto simp: approved_event_def)
qed

lemma direct_key: "(v, cmd) \<in> set (direct_update u) \<Longrightarrow> cmd_key cmd = update_key u"
  by (cases u) auto

lemma direct_no_register: "(v, RegisterZone reg) \<notin> set (direct_update u)"
  by (cases u) auto

lemma http_no_key: "http_sends rp cmds \<Longrightarrow> (v, cmd) \<in> set cmds \<Longrightarrow> cmd_key cmd = None \<and> (v, cmd) \<noteq> (''KM'', RegisterZone reg)"
  by (induction rule: http_sends.induct)
     (auto simp: review_request_def status_request_def split: option.splits if_splits)

lemma http_ok: "http_sends rp cmds \<Longrightarrow> (v, cmd) \<in> set cmds \<Longrightarrow> cmd_ok s v cmd"
  using http_no_key by (fastforce simp: cmd_ok_def backed_def)

lemma direct_ok: "backed s (update_key u) \<Longrightarrow> (v, cmd) \<in> set (direct_update u) \<Longrightarrow> cmd_ok s v cmd"
  using direct_key direct_no_register by (fastforce simp: cmd_ok_def)

text \<open>A step that loses no approval keeps what rests on one.\<close>

lemma backed_mono: "(\<And>u k. approved s u k \<Longrightarrow> approved s' u k) \<Longrightarrow> backed s x \<Longrightarrow> backed s' x"
  by (auto simp: backed_def split: option.splits)

lemma pl_inv_mono:
  assumes inv: "pl_inv D s" and "servers_ok s'" and mono: "\<And>u k. approved s u k \<Longrightarrow> approved s' u k"
    and up: "\<And>u. u \<in> set (pl_updates s') \<Longrightarrow> u \<in> set (pl_updates s) \<or> backed s' (update_key u)"
    and wa: "\<And>u cmd. cmd \<in> waiting s' u \<Longrightarrow> cmd \<in> waiting s u \<or> cmd_ok s' u cmd"
    and sg: "\<And>n. in_signed D s' n \<Longrightarrow> in_signed D s n \<or> reviewed s' ''RS'' n"
    and pu: "\<And>n. in_published D s' n \<Longrightarrow> in_published D s n \<or> reviewed s' ''RS'' n \<and> reviewed s' ''RS2'' n"
  shows "pl_inv D s'"
proof -
  have r: "reviewed s u n \<Longrightarrow> reviewed s' u n" for u n using mono unfolding reviewed_def by blast
  have b: "backed s x \<Longrightarrow> backed s' x" for x by (rule backed_mono [OF mono])
  have c: "cmd_ok s u cmd \<Longrightarrow> cmd_ok s' u cmd" for u cmd using b by (simp add: cmd_ok_def)
  show ?thesis unfolding pl_inv_def
    using assms(2) up wa sg pu pl_invD [OF inv] r b c by blast
qed

lemma pl_inv_same:
  assumes "pl_inv D s" "pl_servers s' = pl_servers s"
    and "zt_signed_zones (pl_trees s') = zt_signed_zones (pl_trees s)"
    and "zt_published_zones (pl_trees s') = zt_published_zones (pl_trees s)"
    and "\<And>u. u \<in> set (pl_updates s') \<Longrightarrow> u \<in> set (pl_updates s) \<or> backed s (update_key u)"
    and "\<And>u cmd. cmd \<in> waiting s' u \<Longrightarrow> cmd \<in> waiting s u \<or> cmd_ok s u cmd"
  shows "pl_inv D s'"
proof -
  have a: "approved s' = approved s" by (simp add: approved_def fun_eq_iff assms(2))
  then have "backed s' = backed s" by (intro ext) (unfold backed_def a, rule refl)
  then have "cmd_ok s' = cmd_ok s" by (simp add: cmd_ok_def fun_eq_iff)
  then show ?thesis
    using assms a \<open>backed s' = backed s\<close> pl_invD(1) [OF assms(1)]
    by (intro pl_inv_mono [OF assms(1)]) (auto simp: servers_ok_def in_signed_def in_published_def)
qed

text \<open>Taking a command off a queue, and the other simple changes.\<close>

lemma waiting_same: "pl_cmds s' = pl_cmds s \<Longrightarrow> pl_txs s' = pl_txs s \<Longrightarrow> waiting s' = waiting s"
  by (simp add: waiting_def fun_eq_iff)

lemma waiting_taken:
  assumes "hm_get (pl_txs s) u = Some (Some (cmd # q))" "pl_txs s' = hm_insert u q' (pl_txs s)"
    "q' = Some q \<or> q' = None" "pl_cmds s' = pl_cmds s"
  shows "waiting s' v \<subseteq> waiting s v" "cmd \<in> waiting s u"
  using assms by (auto simp: waiting_def split: if_splits)

lemma approved_same: "pl_servers s' = pl_servers s \<Longrightarrow> approved s' = approved s"
  by (simp add: approved_def fun_eq_iff)

lemma set_updates_simps [simp]:
  "pl_trees (set_updates us s) = pl_trees s" "pl_servers (set_updates us s) = pl_servers s"
  "pl_cmds (set_updates us s) = pl_cmds s" "pl_txs (set_updates us s) = pl_txs s"
  "pl_updates (set_updates us s) = us"
  by (simp_all add: set_updates_def)

lemma set_queue_simps [simp]:
  "pl_trees (set_queue u q s) = pl_trees s" "pl_servers (set_queue u q s) = pl_servers s"
  "pl_cmds (set_queue u q s) = pl_cmds s" "pl_txs (set_queue u q s) = hm_insert u q (pl_txs s)"
  "pl_center (set_queue u q s) = pl_center s"
  by (simp_all add: set_queue_def)

lemma after_simps [simp]:
  "pl_servers (after_server u sv w s) = hm_insert u sv (pl_servers s)" "pl_trees (after_server u sv w s) = sw_trees w"
  "pl_updates (after_server u sv w s) = sw_updates w" "pl_cmds (after_server u sv w s) = pl_cmds s"
  "pl_txs (after_server u sv w s) = pl_txs s"
  "pl_servers (after_sign sw s) = pl_servers s" "pl_trees (after_sign sw s) = gw_trees sw"
  "pl_updates (after_sign sw s) = gw_updates sw" "pl_cmds (after_sign sw s) = pl_cmds s" "pl_txs (after_sign sw s) = pl_txs s"
  by (simp_all add: after_server_def after_sign_def)

lemma serve_inv:
  assumes D: "zone_tree_ok D" and P: "sp_api SP = D" and inv: "pl_inv D s"
    and sv: "hm_get (pl_servers s) u = Some sv" and q: "hm_get (pl_txs s) u = Some (Some (cmd # q))"
    and h: "handle_command SP env cmd sv (server_view s) = (res, sv', w)" and q': "q' = Some q \<or> q' = None"
  shows "pl_inv D (set_queue u q' (after_server u sv' w s))" (is "pl_inv D ?s")
proof -
  have so: "servers_ok s" using pl_invD(1) [OF inv] .
  have ne: "sv_source sv = PublishedZones \<or> sv_hooks sv \<noteq> []" using so sv by (simp add: servers_ok_def)
  note post = serve_post [OF D [folded P] h ne]
  have s': "pl_servers ?s = hm_insert u sv' (pl_servers s)" "pl_trees ?s = sw_trees w" "pl_updates ?s = sw_updates w"
    "pl_cmds ?s = pl_cmds s" "pl_txs ?s = hm_insert u q' (pl_txs s)"
    by simp_all
  have mono: "approved s v k \<Longrightarrow> approved ?s v k" for v k
    using post(4) [of k] sv by (auto simp: approved_def s' split: if_splits)
  have w: "cmd \<in> waiting s u" "waiting ?s v \<subseteq> waiting s v" for v
    using waiting_taken [OF q s'(5) q' s'(4)] by auto
  have tr: "trees_step D cmd (pl_trees s) (pl_trees ?s)" using post(5) by (simp add: s' server_view_def P)
  show ?thesis
  proof (rule pl_inv_mono [OF inv _ mono])
    show "servers_ok ?s" using so sv post(1-3) by (auto simp: servers_ok_def s' split: if_splits)
  next
    fix ev assume new: "ev \<in> set (pl_updates ?s)"
    show "ev \<in> set (pl_updates s) \<or> backed ?s (update_key ev)"
    proof (cases "ev \<in> set (pl_updates s)")
      case False
      with post(6) new obtain n sr where e: "approved_event (sv_source sv) n sr = Ok ev"
        "hm_get (sv_last_approvals sv') (n, sr) \<noteq> None" by (auto simp: s' server_view_def)
      have "update_key ev = Some (u, n, sr)" using approved_source [OF so sv e(1)] .
      then show ?thesis using e(2) by (simp add: backed_def approved_def s')
    qed simp
  next
    fix v c assume "c \<in> waiting ?s v"
    then show "c \<in> waiting s v \<or> cmd_ok ?s v c" using w(2) by blast
  next
    fix n assume "in_signed D ?s n"
    then show "in_signed D s n \<or> reviewed ?s ''RS'' n" using tr by (simp add: trees_step_def in_signed_def)
  next
    fix n assume "in_published D ?s n"
    then consider "in_published D s n" | sr where "cmd = PublishSignedZone n sr" "in_signed D s n"
      using tr unfolding trees_step_def in_published_def in_signed_def by blast
    then show "in_published D s n \<or> reviewed ?s ''RS'' n \<and> reviewed ?s ''RS2'' n"
    proof cases
      case (2 sr)
      have "cmd_ok s u cmd" using pl_invD(3) [OF inv w(1)] .
      then have "approved s ''RS2'' (n, sr)" using 2 by (simp add: backed_def cmd_ok_def)
      then show ?thesis using pl_invD(4) [OF inv 2(2)] mono by (auto simp: reviewed_def)
    qed simp
  qed
qed

lemma sign_inv:
  assumes D: "zone_tree_ok D" and P: "si_api P = D" and inv: "pl_inv D s"
    and q: "hm_get (pl_txs s) ''ZS'' = Some (Some (cmd # q))"
    and h: "signer_command P zs env cmd (sign_view s) = (res, w)" and q': "q' = Some q \<or> q' = None"
  shows "pl_inv D (set_queue ''ZS'' q' (after_sign w s))" (is "pl_inv D ?s")
proof -
  note post = signer_command_post [OF D [folded P] h]
  have s': "pl_servers ?s = pl_servers s" "pl_trees ?s = gw_trees w" "pl_updates ?s = gw_updates w"
    "pl_cmds ?s = pl_cmds s" "pl_txs ?s = hm_insert ''ZS'' q' (pl_txs s)"
    by simp_all
  have w: "cmd \<in> waiting s ''ZS''" "waiting ?s v \<subseteq> waiting s v" for v
    using waiting_taken [OF q s'(5) q' s'(4)] by auto
  have a: "approved ?s = approved s" by (rule approved_same [OF s'(1)])
  show ?thesis
  proof (rule pl_inv_mono [OF inv])
    show "servers_ok ?s" using pl_invD(1) [OF inv] by (simp add: servers_ok_def s')
    show "\<And>u k. approved s u k \<Longrightarrow> approved ?s u k" by (simp add: a)
  next
    fix ev assume "ev \<in> set (pl_updates ?s)"
    then show "ev \<in> set (pl_updates s) \<or> backed ?s (update_key ev)"
      using post(1) by (auto simp: s' sign_view_def backed_def)
  next
    fix v c assume "c \<in> waiting ?s v"
    then show "c \<in> waiting s v \<or> cmd_ok ?s v c" using w(2) by blast
  next
    fix n assume "in_signed D ?s n"
    then have "in_signed D s n \<or> (\<exists>sr. cmd = SignZone n (Some sr)) \<or> in_published D s n"
      using post(3) [of n] by (simp add: P sign_view_def in_signed_def in_published_def)
    then consider "in_signed D s n" | sr where "cmd = SignZone n (Some sr)" | "in_published D s n" by blast
    then show "in_signed D s n \<or> reviewed ?s ''RS'' n"
    proof cases
      case (2 sr)
      have "cmd_ok s ''ZS'' cmd" using pl_invD(3) [OF inv w(1)] .
      then show ?thesis using 2 by (auto simp: backed_def cmd_ok_def reviewed_def a)
    next
      case 3
      then show ?thesis using pl_invD(5) [OF inv] by (auto simp: reviewed_def a)
    qed simp
  next
    fix n assume "in_published D ?s n"
    then show "in_published D s n \<or> reviewed ?s ''RS'' n \<and> reviewed ?s ''RS2'' n"
      using post(2) by (simp add: in_published_def s' sign_view_def)
  qed
qed

lemma step_inv:
  assumes D: "zone_tree_ok D" and P: "si_api P = D" "sp_api SP = D" and step: "pl_step P SP zs rp s s'" and inv: "pl_inv D s"
  shows "pl_inv D s'"
  using step
proof cases
  case (Direct u us)
  have "backed s (update_key u)" using pl_invD(2) [OF inv] Direct by simp
  note ok = direct_ok [OF this]
  show ?thesis using Direct ok by (intro pl_inv_same [OF inv]) (auto simp: waiting_def)
next
  case (Forward cmd cmds txs)
  obtain v data where c: "cmd = (v, data)" by fastforce
  show ?thesis using Forward c
    by (intro pl_inv_same [OF inv]) (auto simp: waiting_def split: option.splits if_splits)
next
  case (Serve u sv cmd q env res sv' w)
  show ?thesis unfolding Serve(1) by (rule serve_inv [OF D P(2) inv Serve(2-4)]) simp
next
  case (Sign cmd q senv sres sw)
  show ?thesis unfolding Sign(1) by (rule sign_inv [OF D P(1) inv Sign(2-3)]) simp
next
  case (Idle u cmd q q')
  have "waiting s' v \<subseteq> waiting s v" for v using waiting_taken [OF Idle(3), of s' q'] Idle by simp
  then show ?thesis using Idle(1) by (intro pl_inv_same [OF inv]) auto
next
  case (Event u)
  have "update_key u = None" using Event by (cases u) auto
  then show ?thesis using Event by (intro pl_inv_same [OF inv]) (auto simp: backed_def waiting_def)
next
  case (Http cmds)
  show ?thesis using Http(1) http_ok [OF Http(2)] by (intro pl_inv_same [OF inv]) (auto simp: waiting_def)
next
  case (Center c)
  then show ?thesis by (intro pl_inv_same [OF inv]) (auto simp: waiting_def)
next
  case (Load stores t)
  then show ?thesis by (intro pl_inv_same [OF inv]) (auto simp: waiting_def)
qed

end
