(* ===== verification/Http_Api.thy ===== *)
theory Http_Api
  imports Http_Server
begin

text \<open>
  The routes of the HTTP server (\<open>HttpServer::run\<close> in \<open>units/http_server.rs\<close>), what its
  handlers answer, and the values that go over the wire (\<open>api.rs\<close>).

  Three things belong to other crates and are parameters: turning values into JSON and back
  (\<open>serde\<close>), finding the route of a path (\<open>axum\<close>) and parsing names. What they document is
  stated as \<open>serde_ok\<close> and \<open>router_ok\<close>. A body is a value of a type of its own, \<open>'b\<close>.
\<close>

section \<open>Values on the wire\<close>

datatype api_value =
    VZoneAdd ZoneAdd
  | VZoneAddResult ZoneAddResult
  | VZoneRemoveResult
  | VZonesListResult "ZonesListEntry list"
  | VZoneStatusResult dname
  | VZoneReloadResult dname
  | VServerStatusResult
  | VPolicyReloadResult
  | VPolicyListResult "string list"
  | VPolicyShowResult

datatype api_type =
    TZoneAdd | TZoneAddResult | TZoneRemoveResult | TZonesListResult | TZoneStatusResult
  | TZoneReloadResult | TServerStatusResult | TPolicyReloadResult | TPolicyListResult | TPolicyShowResult

fun type_of :: "api_value \<Rightarrow> api_type" where
  "type_of (VZoneAdd _) = TZoneAdd"
| "type_of (VZoneAddResult _) = TZoneAddResult"
| "type_of VZoneRemoveResult = TZoneRemoveResult"
| "type_of (VZonesListResult _) = TZonesListResult"
| "type_of (VZoneStatusResult _) = TZoneStatusResult"
| "type_of (VZoneReloadResult _) = TZoneReloadResult"
| "type_of VServerStatusResult = TServerStatusResult"
| "type_of VPolicyReloadResult = TPolicyReloadResult"
| "type_of (VPolicyListResult _) = TPolicyListResult"
| "type_of VPolicyShowResult = TPolicyShowResult"

text \<open>The names of the fields of the structs, none of which is optional.\<close>

fun fields_of :: "api_type \<Rightarrow> string list" where
  "fields_of TZoneAdd = [''name'', ''source'', ''policy'']"
| "fields_of TZoneAddResult = [''name'', ''status'']"
| "fields_of TZoneRemoveResult = []"
| "fields_of TZonesListResult = [''zones'']"
| "fields_of TZoneStatusResult = [''name'']"
| "fields_of TZoneReloadResult = [''name'']"
| "fields_of TServerStatusResult = []"
| "fields_of TPolicyReloadResult = []"
| "fields_of TPolicyListResult = [''policies'']"
| "fields_of TPolicyShowResult = []"

record 'b wire_api =
  w_to_json :: "api_value \<Rightarrow> 'b"
  w_from_json :: "api_type \<Rightarrow> 'b \<Rightarrow> api_value option"
  w_text :: "string \<Rightarrow> 'b"

text \<open>What \<open>serde\<close> documents: a value is read back, what is read has the type asked for, an object
  that lacks a field of the struct is an error, and so is an empty body.\<close>

definition serde_ok :: "'b wire_api \<Rightarrow> bool" where
  "serde_ok W \<longleftrightarrow> (\<forall>v. w_from_json W (type_of v) (w_to_json W v) = Some v)
     \<and> (\<forall>T b v. w_from_json W T b = Some v \<longrightarrow> type_of v = T)
     \<and> (\<forall>T v. w_from_json W T (w_to_json W v) \<noteq> None \<longrightarrow> set (fields_of T) \<subseteq> set (fields_of (type_of v)))
     \<and> (\<forall>T. w_from_json W T (w_text W '''') = None)"

section \<open>Routes\<close>

datatype http_method = GET | POST

datatype endpoint =
    Ep_hello | Ep_ps_base | Ep_ps | Ep_rs_base | Ep_rs | Ep_rs2_base | Ep_rs2
  | Ep_status | Ep_zones_list | Ep_zone_add | Ep_zone_remove | Ep_zone_status | Ep_zone_reload
  | Ep_policy_reload | Ep_policy_list | Ep_policy_show

definition unit_router :: "(string \<times> http_method \<times> endpoint) list" where
  "unit_router =
    [(''/ps/'', GET, Ep_ps_base),
     (''/ps/{action}/{token}'', GET, Ep_ps),
     (''/rs/'', GET, Ep_rs_base),
     (''/rs/{action}/{token}'', GET, Ep_rs),
     (''/rs2/'', GET, Ep_rs2_base),
     (''/rs2/{action}/{token}'', GET, Ep_rs2)]"

definition http_app :: "(string \<times> http_method \<times> endpoint) list" where
  "http_app =
    [(''/'', GET, Ep_hello)]
    @ map (\<lambda>(path, h). (''/_unit'' @ path, h)) unit_router
    @ [(''/status'', GET, Ep_status),
       (''/zones/list'', GET, Ep_zones_list),
       (''/zone/add'', POST, Ep_zone_add),
       (''/zone/{name}/remove'', POST, Ep_zone_remove),
       (''/zone/{name}/status'', GET, Ep_zone_status),
       (''/zone/{name}/reload'', POST, Ep_zone_reload),
       (''/policy/reload'', POST, Ep_policy_reload),
       (''/policy/list'', GET, Ep_policy_list),
       (''/policy/{name}'', POST, Ep_policy_show)]"

text \<open>What a pattern of a path means: a segment in braces stands for any one segment.\<close>

fun split_on :: "char \<Rightarrow> string \<Rightarrow> string list" where
  "split_on c [] = [[]]"
| "split_on c (x # xs) = (if x = c then [] # split_on c xs
     else (case split_on c xs of [] \<Rightarrow> [[x]] | s # ss \<Rightarrow> (x # s) # ss))"

fun seg_match :: "string list \<Rightarrow> string list \<Rightarrow> string list option" where
  "seg_match [] [] = Some []"
| "seg_match (p # ps) (s # ss) =
    (if p \<noteq> [] \<and> hd p = CHR ''{'' then map_option ((#) s) (seg_match ps ss)
     else if p = s then seg_match ps ss else None)"
| "seg_match _ _ = None"

definition pattern_match :: "string \<Rightarrow> string \<Rightarrow> string list option" where
  "pattern_match p path = seg_match (split_on CHR ''/'' p) (split_on CHR ''/'' path)"

text \<open>Segments that mean the same in every part of the way: neither empty nor dots, and made of the
  characters that need no escape.\<close>

definition unreserved :: string where
  "unreserved = ''abcdefghijklmnopqrstuvwxyzABCDEFGHIJKLMNOPQRSTUVWXYZ0123456789-_.~''"

definition plain_seg :: "string \<Rightarrow> bool" where
  "plain_seg s \<longleftrightarrow> s \<notin> {'''', ''.'', ''..''} \<and> set s \<subseteq> set unreserved"

definition plain_path :: "string \<Rightarrow> bool" where
  "plain_path path \<longleftrightarrow> (case split_on CHR ''/'' path of s # ss \<Rightarrow> s = '''' \<and> ss \<noteq> [] \<and> list_all plain_seg ss | [] \<Rightarrow> False)"

text \<open>What \<open>axum\<close> documents: some pattern that matches is chosen, with the segments it captures, if
  there is one, and a pattern that is the path itself comes first.\<close>

definition router_ok :: "(string list \<Rightarrow> string \<Rightarrow> (string \<times> string list) option) \<Rightarrow> bool" where
  "router_ok rt \<longleftrightarrow> (\<forall>pats path. plain_path path \<longrightarrow>
     (case rt pats path of
        None \<Rightarrow> \<forall>p \<in> set pats. pattern_match p path = None
      | Some (p, caps) \<Rightarrow> p \<in> set pats \<and> pattern_match p path = Some caps \<and> (path \<in> set pats \<longrightarrow> p = path)))"

section \<open>Requests\<close>

text \<open>A request: the parameters of the query are \<open>None\<close> when the query is not valid.\<close>

record 'b api_request =
  rq_method :: http_method
  rq_path :: string
  rq_params :: "(string, string) hmap option"
  rq_body :: 'b

record 'b api_reply =
  rp_status :: nat
  rp_body :: 'b

text \<open>The environment of the handlers: the answers of the units to the commands sent to them, the
  tokens of the channels for the answers, the order and the apex names of zones, and the replies of
  \<open>axum\<close> to a path, a query or a body it cannot read.\<close>

record ('t, 'b) http_params =
  hp_api :: "'t domain_api"
  hp_lt :: "dname \<Rightarrow> dname \<Rightarrow> bool"
  hp_apex :: "nat \<Rightarrow> dname"
  hp_wire :: "'b wire_api"
  hp_route :: "string list \<Rightarrow> string \<Rightarrow> (string \<times> string list) option"
  hp_path_name :: "string \<Rightarrow> dname option"
  hp_review :: review_parsers
  hp_tx :: token
  hp_json_rejection :: "'b \<Rightarrow> 'b api_reply"
  hp_path_rejection :: "string list \<Rightarrow> 'b api_reply"
  hp_query_rejection :: "'b api_reply"
  hp_review_answer :: "string \<times> ApplicationCommand \<Rightarrow> bool option"
  hp_status_answer :: "string \<times> ApplicationCommand \<Rightarrow> string option"

fun status_code :: "StatusCode \<Rightarrow> nat" where
  "status_code BAD_REQUEST = 400"
| "status_code INTERNAL_SERVER_ERROR = 500"

definition reply_json :: "'b wire_api \<Rightarrow> api_value \<Rightarrow> 'b api_reply" where
  "reply_json W v = \<lparr>rp_status = 200, rp_body = w_to_json W v\<rparr>"

definition reply_empty :: "'b wire_api \<Rightarrow> nat \<Rightarrow> 'b api_reply" where
  "reply_empty W code = \<lparr>rp_status = code, rp_body = w_text W ''''\<rparr>"

text \<open>A path segment that is no name is refused before the handler runs.\<close>

definition with_name :: "('t, 'b) http_params \<Rightarrow> string list \<Rightarrow> (dname \<Rightarrow> 'b api_reply) \<Rightarrow> 'b api_reply" where
  "with_name P caps f = (case caps of
      [seg] \<Rightarrow> (case hp_path_name P seg of Some n \<Rightarrow> f n | None \<Rightarrow> hp_path_rejection P caps)
    | _ \<Rightarrow> hp_path_rejection P caps)"

definition unit_base_reply :: "('t, 'b) http_params \<Rightarrow> (token \<Rightarrow> string \<times> ApplicationCommand)
    \<Rightarrow> 'b api_reply \<times> (string \<times> ApplicationCommand) list" where
  "unit_base_reply P req = (let cmd = req (hp_tx P) in
     (case status_response (hp_status_answer P cmd) of
        Inl code \<Rightarrow> reply_empty (hp_wire P) (status_code code)
      | Inr page \<Rightarrow> \<lparr>rp_status = 200, rp_body = w_text (hp_wire P) page\<rparr>, [cmd]))"

definition unit_reply :: "('t, 'b) http_params
    \<Rightarrow> (string \<Rightarrow> string \<Rightarrow> (string, string) hmap \<Rightarrow> token \<Rightarrow> StatusCode + (string \<times> ApplicationCommand))
    \<Rightarrow> string list \<Rightarrow> (string, string) hmap option \<Rightarrow> 'b api_reply \<times> (string \<times> ApplicationCommand) list" where
  "unit_reply P handler caps params = (case (caps, params) of
      ([action, tok], Some params) \<Rightarrow> (case handler action tok params (hp_tx P) of
          Inl code \<Rightarrow> (reply_empty (hp_wire P) (status_code code), [])
        | Inr cmd \<Rightarrow> (case review_response (hp_review_answer P cmd) of
            Inl code \<Rightarrow> (reply_empty (hp_wire P) (status_code code), [cmd])
          | Inr _ \<Rightarrow> (reply_empty (hp_wire P) 200, [cmd])))
    | ([_, _], None) \<Rightarrow> (hp_query_rejection P, [])
    | _ \<Rightarrow> (hp_path_rejection P caps, []))"

text \<open>A handler that panics sends no reply.\<close>

fun http_handle :: "('t, 'b) http_params \<Rightarrow> endpoint \<Rightarrow> string list \<Rightarrow> 'b api_request \<Rightarrow> 't zone_trees \<Rightarrow> 'k Center
    \<Rightarrow> (unit, 'b api_reply) outcome \<times> 'k Center \<times> (string \<times> ApplicationCommand) list" where
  "http_handle P Ep_hello caps rq trees c = (Ok \<lparr>rp_status = 200, rp_body = w_text (hp_wire P) ''Hello, World!''\<rparr>, c, [])"
| "http_handle P Ep_ps_base caps rq trees c = (case unit_base_reply P handle_ps_base of (r, cmds) \<Rightarrow> (Ok r, c, cmds))"
| "http_handle P Ep_rs_base caps rq trees c = (case unit_base_reply P handle_rs_base of (r, cmds) \<Rightarrow> (Ok r, c, cmds))"
| "http_handle P Ep_rs2_base caps rq trees c = (case unit_base_reply P handle_rs2_base of (r, cmds) \<Rightarrow> (Ok r, c, cmds))"
| "http_handle P Ep_ps caps rq trees c =
    (case unit_reply P (handle_ps (hp_review P)) caps (rq_params rq) of (r, cmds) \<Rightarrow> (Ok r, c, cmds))"
| "http_handle P Ep_rs caps rq trees c =
    (case unit_reply P (handle_rs (hp_review P)) caps (rq_params rq) of (r, cmds) \<Rightarrow> (Ok r, c, cmds))"
| "http_handle P Ep_rs2 caps rq trees c =
    (case unit_reply P (handle_rs2 (hp_review P)) caps (rq_params rq) of (r, cmds) \<Rightarrow> (Ok r, c, cmds))"
| "http_handle P Ep_status caps rq trees c = (Ok (reply_json (hp_wire P) VServerStatusResult), c, [])"
| "http_handle P Ep_zones_list caps rq trees c =
    (Ok (reply_json (hp_wire P) (VZonesListResult (http_zones_list (hp_api P) (hp_lt P) (hp_apex P) trees))), c, [])"
| "http_handle P Ep_zone_add caps rq trees c = (case w_from_json (hp_wire P) TZoneAdd (rq_body rq) of
      Some (VZoneAdd reg) \<Rightarrow> (case http_zone_add reg c of
          (Ok r, c1, cmds) \<Rightarrow> (Ok (reply_json (hp_wire P) (VZoneAddResult r)), c1, cmds)
        | (_, c1, cmds) \<Rightarrow> (Panic, c1, cmds))
    | _ \<Rightarrow> (Ok (hp_json_rejection P (rq_body rq)), c, []))"
| "http_handle P Ep_zone_remove caps rq trees c = (case caps of
      [seg] \<Rightarrow> (case hp_path_name P seg of
          Some n \<Rightarrow> (case http_zone_remove n c of
              (Ok _, c1) \<Rightarrow> (Ok (reply_json (hp_wire P) VZoneRemoveResult), c1, [])
            | (_, c1) \<Rightarrow> (Panic, c1, []))
        | None \<Rightarrow> (Ok (hp_path_rejection P caps), c, []))
    | _ \<Rightarrow> (Ok (hp_path_rejection P caps), c, []))"
| "http_handle P Ep_zone_status caps rq trees c =
    (Ok (with_name P caps (\<lambda>n. reply_json (hp_wire P) (VZoneStatusResult n))), c, [])"
| "http_handle P Ep_zone_reload caps rq trees c =
    (Ok (with_name P caps (\<lambda>n. reply_json (hp_wire P) (VZoneReloadResult n))), c, [])"
| "http_handle P Ep_policy_reload caps rq trees c = (Panic, c, [])"
| "http_handle P Ep_policy_list caps rq trees c = (Panic, c, [])"
| "http_handle P Ep_policy_show caps rq trees c = (Panic, c, [])"

text \<open>No route for the path is 404, another method than the one of the route is 405.\<close>

definition http_serve :: "('t, 'b) http_params \<Rightarrow> 'b api_request \<Rightarrow> 't zone_trees \<Rightarrow> 'k Center
    \<Rightarrow> (unit, 'b api_reply) outcome \<times> 'k Center \<times> (string \<times> ApplicationCommand) list" where
  "http_serve P rq trees c = (case hp_route P (map fst http_app) (rq_path rq) of
      None \<Rightarrow> (Ok (reply_empty (hp_wire P) 404), c, [])
    | Some (p, caps) \<Rightarrow> (case map_of http_app p of
        None \<Rightarrow> (Ok (reply_empty (hp_wire P) 404), c, [])
      | Some (m, ep) \<Rightarrow>
          if rq_method rq = m then http_handle P ep caps rq trees c
          else (Ok (reply_empty (hp_wire P) 405), c, [])))"

section \<open>Where a path leads\<close>

lemma split_on_nonempty [simp]: "split_on c s \<noteq> []"
  by (cases s) (auto split: list.splits)

lemma split_on_plain [simp]: "c \<notin> set s \<Longrightarrow> split_on c s = [s]"
  by (induction s) auto

lemma split_on_sep [simp]: "c \<notin> set s \<Longrightarrow> split_on c (s @ c # t) = s # split_on c t"
  by (induction s) auto

lemma plain_no_slash: "plain_seg s \<Longrightarrow> CHR ''/'' \<notin> set s"
  by (auto simp: plain_seg_def unreserved_def)

lemma plain_no_brace: "plain_seg s \<Longrightarrow> CHR ''{'' \<notin> set s"
  by (auto simp: plain_seg_def unreserved_def)

lemma router_unique:
  assumes "router_ok rt" "plain_path path" "p \<in> set pats" "pattern_match p path = Some caps"
    and "\<And>q. q \<in> set pats \<Longrightarrow> q = p \<or> path = p \<or> pattern_match q path = None"
  shows "rt pats path = Some (p, caps)"
proof (cases "rt pats path")
  case None
  with assms(1,2) have "\<forall>p \<in> set pats. pattern_match p path = None"
    unfolding router_ok_def by (metis (mono_tags, lifting) option.simps(4))
  with assms(3,4) show ?thesis by auto
next
  case (Some r)
  obtain q caps' where r: "r = (q, caps')" by fastforce
  have "q \<in> set pats \<and> pattern_match q path = Some caps' \<and> (path \<in> set pats \<longrightarrow> q = path)"
    using assms(1,2) Some unfolding router_ok_def r by (auto dest!: spec [of _ pats] spec [of _ path])
  moreover from this have "q = p" using assms(3,5) by force
  ultimately show ?thesis using Some r assms(4) by auto
qed

lemma app_paths: "map fst http_app = [''/'', ''/_unit/ps/'', ''/_unit/ps/{action}/{token}'', ''/_unit/rs/'',
    ''/_unit/rs/{action}/{token}'', ''/_unit/rs2/'', ''/_unit/rs2/{action}/{token}'', ''/status'', ''/zones/list'',
    ''/zone/add'', ''/zone/{name}/remove'', ''/zone/{name}/status'', ''/zone/{name}/reload'', ''/policy/reload'',
    ''/policy/list'', ''/policy/{name}'']"
  by (simp add: http_app_def unit_router_def)

lemma app_splits:
  "split_on CHR ''/'' ''/'' = [[], []]"
  "split_on CHR ''/'' ''/_unit/ps/'' = [[], ''_unit'', ''ps'', []]"
  "split_on CHR ''/'' ''/_unit/ps/{action}/{token}'' = [[], ''_unit'', ''ps'', ''{action}'', ''{token}'']"
  "split_on CHR ''/'' ''/_unit/rs/'' = [[], ''_unit'', ''rs'', []]"
  "split_on CHR ''/'' ''/_unit/rs/{action}/{token}'' = [[], ''_unit'', ''rs'', ''{action}'', ''{token}'']"
  "split_on CHR ''/'' ''/_unit/rs2/'' = [[], ''_unit'', ''rs2'', []]"
  "split_on CHR ''/'' ''/_unit/rs2/{action}/{token}'' = [[], ''_unit'', ''rs2'', ''{action}'', ''{token}'']"
  "split_on CHR ''/'' ''/status'' = [[], ''status'']"
  "split_on CHR ''/'' ''/zones/list'' = [[], ''zones'', ''list'']"
  "split_on CHR ''/'' ''/zone/add'' = [[], ''zone'', ''add'']"
  "split_on CHR ''/'' ''/zone/{name}/remove'' = [[], ''zone'', ''{name}'', ''remove'']"
  "split_on CHR ''/'' ''/zone/{name}/status'' = [[], ''zone'', ''{name}'', ''status'']"
  "split_on CHR ''/'' ''/zone/{name}/reload'' = [[], ''zone'', ''{name}'', ''reload'']"
  "split_on CHR ''/'' ''/policy/reload'' = [[], ''policy'', ''reload'']"
  "split_on CHR ''/'' ''/policy/list'' = [[], ''policy'', ''list'']"
  "split_on CHR ''/'' ''/policy/{name}'' = [[], ''policy'', ''{name}'']"
  by simp_all

text \<open>The patterns that a path of the API matches.\<close>

definition matching :: "string list \<Rightarrow> (string \<times> string list) list" where
  "matching segs = concat (map (\<lambda>q. case seg_match (split_on CHR ''/'' q) segs of None \<Rightarrow> [] | Some caps \<Rightarrow> [(q, caps)])
     (map fst http_app))"

lemmas matching_unfold = matching_def app_paths list.map app_splits

lemma matching_status: "matching [[], ''status''] = [(''/status'', [])]"
  unfolding matching_unfold by (simp only: seg_match.simps) simp

lemma matching_zones: "matching [[], ''zones'', ''list''] = [(''/zones/list'', [])]"
  unfolding matching_unfold by (simp only: seg_match.simps) simp

lemma matching_add: "matching [[], ''zone'', ''add''] = [(''/zone/add'', [])]"
  unfolding matching_unfold by (simp only: seg_match.simps) simp

lemma matching_policy: "matching [[], ''policy'', n] = (if n = ''reload'' then [(''/policy/reload'', [])] else if n = ''list'' then [(''/policy/list'', [])] else [])
     @ [(''/policy/{name}'', [n])]"
  unfolding matching_unfold by (simp only: seg_match.simps) simp

lemma matching_remove: "matching [[], ''zone'', n, ''remove''] = [(''/zone/{name}/remove'', [n])]"
  unfolding matching_unfold by (simp only: seg_match.simps) simp

lemma matching_zone_status: "matching [[], ''zone'', n, ''status''] = [(''/zone/{name}/status'', [n])]"
  unfolding matching_unfold by (simp only: seg_match.simps) simp

lemma matching_reload: "matching [[], ''zone'', n, ''reload''] = [(''/zone/{name}/reload'', [n])]"
  unfolding matching_unfold by (simp only: seg_match.simps) simp

lemma matching_units:
  "matching [[], ''_unit'', ''rs'', a, t] = [(''/_unit/rs/{action}/{token}'', [a, t])]"
  "matching [[], ''_unit'', ''rs2'', a, t] = [(''/_unit/rs2/{action}/{token}'', [a, t])]"
  "matching [[], ''_unit'', ''ps'', a, t] = [(''/_unit/ps/{action}/{token}'', [a, t])]"
proof -
  show "matching [[], ''_unit'', ''rs'', a, t] = [(''/_unit/rs/{action}/{token}'', [a, t])]"
    unfolding matching_unfold by (simp only: seg_match.simps) simp
  show "matching [[], ''_unit'', ''rs2'', a, t] = [(''/_unit/rs2/{action}/{token}'', [a, t])]"
    unfolding matching_unfold by (simp only: seg_match.simps) simp
  show "matching [[], ''_unit'', ''ps'', a, t] = [(''/_unit/ps/{action}/{token}'', [a, t])]"
    unfolding matching_unfold by (simp only: seg_match.simps) simp
qed

lemmas matching_at = matching_status matching_zones matching_add matching_policy matching_remove matching_zone_status matching_reload

lemma route_matching:
  assumes "router_ok (hp_route P)" "plain_path path" "(p, caps) \<in> set (matching (split_on CHR ''/'' path))"
    and "path = p \<or> (\<forall>r \<in> set (matching (split_on CHR ''/'' path)). r = (p, caps))"
  shows "hp_route P (map fst http_app) path = Some (p, caps)"
proof (rule router_unique [OF assms(1,2)])
  have m: "(q, cs) \<in> set (matching (split_on CHR ''/'' path)) \<longleftrightarrow> q \<in> set (map fst http_app) \<and> pattern_match q path = Some cs" for q cs
    by (force simp: matching_def pattern_match_def split: option.splits)
  show "p \<in> set (map fst http_app)" "pattern_match p path = Some caps" using m assms(3) by blast+
  show "q = p \<or> path = p \<or> pattern_match q path = None" if "q \<in> set (map fst http_app)" for q
    using assms(4) m [of q] that by (cases "pattern_match q path") auto
qed

lemma app_handlers:
  "map_of http_app ''/status'' = Some (GET, Ep_status)" "map_of http_app ''/zones/list'' = Some (GET, Ep_zones_list)"
  "map_of http_app ''/zone/add'' = Some (POST, Ep_zone_add)" "map_of http_app ''/policy/reload'' = Some (POST, Ep_policy_reload)"
  "map_of http_app ''/zone/{name}/remove'' = Some (POST, Ep_zone_remove)"
  "map_of http_app ''/zone/{name}/status'' = Some (GET, Ep_zone_status)"
  "map_of http_app ''/zone/{name}/reload'' = Some (POST, Ep_zone_reload)"
  "map_of http_app ''/policy/list'' = Some (GET, Ep_policy_list)" "map_of http_app ''/policy/{name}'' = Some (POST, Ep_policy_show)"
  "map_of http_app ''/_unit/rs/{action}/{token}'' = Some (GET, Ep_rs)"
  "map_of http_app ''/_unit/rs2/{action}/{token}'' = Some (GET, Ep_rs2)"
  "map_of http_app ''/_unit/ps/{action}/{token}'' = Some (GET, Ep_ps)"
  by (simp_all add: http_app_def unit_router_def)

lemma serve_at:
  assumes "hp_route P (map fst http_app) path = Some (p, caps)" "map_of http_app p = Some (m, ep)"
  shows "http_serve P \<lparr>rq_method = m', rq_path = path, rq_params = ps, rq_body = b\<rparr> trees c =
    (if m' = m then http_handle P ep caps \<lparr>rq_method = m', rq_path = path, rq_params = ps, rq_body = b\<rparr> trees c
     else (Ok (reply_empty (hp_wire P) 405), c, []))"
  using assms by (simp only: http_serve_def option.case prod.case api_request.simps)

text \<open>A new zone with an unknown policy is added without one.\<close>

lemma http_zone_add_unknown_policy:
  assumes "alive c" "links_ok c" "hm_get (zones_of c) (za_name reg) = None" "hm_get (policies_of c) (za_policy reg) = None"
  shows "\<exists>c1. http_zone_add reg c = (Ok \<lparr>zar_name = za_name reg, zar_status = ''Submitted''\<rparr>, c1, [(''ZL'', RegisterZone reg)])
    \<and> zone_policy c1 (za_name reg) = None"
proof -
  let ?n = "za_name reg"
  obtain c1 where add: "add_zone ?n c = (Ok (), c1)"
    using add_zone_result(2) [OF assms(1,2,3)] by (metis prod.collapse)
  have c1: "alive c1" "zone_policy c1 ?n = None" "hm_get (zones_of c1) ?n \<noteq> None"
    using add_zone_links [OF assms(1,2), of ?n] assms(3) add by (auto simp: zone_policy_def)
  have pol: "policies_of c1 = policies_of c"
    using add assms(1,3) by (auto simp: add_zone_def zalloc_def alive_def Let_def)
  have "change_policy (za_name reg) (za_policy reg) c1 = (Err NoSuchPolicy, c1)"
    using c1 pol assms(4) by (auto simp: change_policy_def alive_def)
  with add have "http_zone_add reg c = (Ok \<lparr>zar_name = za_name reg, zar_status = ''Submitted''\<rparr>, c1, [(''ZL'', RegisterZone reg)])"
    by (simp add: http_zone_add_def)
  with c1(2) show ?thesis by blast
qed

section \<open>A concrete instance\<close>

definition demo_wire :: "api_value option wire_api" where
  "demo_wire = \<lparr>w_to_json = Some, w_from_json = (\<lambda>T b. case b of Some v \<Rightarrow> if type_of v = T then Some v else None | None \<Rightarrow> None),
     w_text = (\<lambda>s. None)\<rparr>"

lemma demo_wire_ok [simp]: "serde_ok demo_wire"
  by (auto simp: serde_ok_def demo_wire_def split: option.splits if_splits)

definition demo_route :: "string list \<Rightarrow> string \<Rightarrow> (string \<times> string list) option" where
  "demo_route pats path = (if path \<in> set pats then Some (path, [])
     else case filter (\<lambda>p. pattern_match p path \<noteq> None) pats of
       [] \<Rightarrow> None
     | p # _ \<Rightarrow> map_option (Pair p) (pattern_match p path))"

lemma seg_match_self: "\<forall>s \<in> set ss. CHR ''{'' \<notin> set s \<Longrightarrow> seg_match ss ss = Some []"
  by (induction ss) (auto simp: neq_Nil_conv)

lemma plain_path_self: "plain_path path \<Longrightarrow> pattern_match path path = Some []"
  unfolding pattern_match_def plain_path_def
  by (rule seg_match_self) (auto simp: list_all_iff dest: plain_no_brace split: list.splits)

lemma demo_route_ok [simp]: "router_ok demo_route"
  unfolding router_ok_def
proof (intro allI impI)
  fix pats path
  assume p: "plain_path path"
  show "case demo_route pats path of
        None \<Rightarrow> \<forall>p \<in> set pats. pattern_match p path = None
      | Some (p, caps) \<Rightarrow> p \<in> set pats \<and> pattern_match p path = Some caps \<and> (path \<in> set pats \<longrightarrow> p = path)"
  proof (cases "path \<in> set pats")
    case True
    then show ?thesis using plain_path_self [OF p] by (simp add: demo_route_def)
  next
    case False
    show ?thesis
    proof (cases "filter (\<lambda>p. pattern_match p path \<noteq> None) pats")
      case Nil
      then show ?thesis using False by (simp add: demo_route_def filter_empty_conv)
    next
      case (Cons q qs)
      then have "q \<in> set pats \<and> pattern_match q path \<noteq> None"
        using filter_eq_Cons_iff [of "\<lambda>p. pattern_match p path \<noteq> None" pats q qs] by auto
      then show ?thesis using False Cons by (auto simp: demo_route_def)
    qed
  qed
qed

definition demo_http :: "(demo_tree, api_value option) http_params" where
  "demo_http = \<lparr>hp_api = demo_api, hp_lt = (\<lambda>a b. (a, b) \<in> lexord char_lt), hp_apex = (\<lambda>r. ''example''), hp_wire = demo_wire,
     hp_route = demo_route, hp_path_name = Some, hp_review = \<lparr>rp_name = Some, rp_serial = (\<lambda>s. Some 5)\<rparr>, hp_tx = 7,
     hp_json_rejection = (\<lambda>b. \<lparr>rp_status = 422, rp_body = None\<rparr>), hp_path_rejection = (\<lambda>c. \<lparr>rp_status = 400, rp_body = None\<rparr>),
     hp_query_rejection = \<lparr>rp_status = 400, rp_body = None\<rparr>, hp_review_answer = (\<lambda>cmd. Some True), hp_status_answer = (\<lambda>cmd. Some ''page'')\<rparr>"

definition demo_trees :: "demo_tree zone_trees" where
  "demo_trees = \<lparr>zt_unsigned_zones = [((''example'', Class_IN), 0)], zt_signed_zones = [], zt_published_zones = []\<rparr>"

end
