(* ===== verification/Hsm.thy ===== *)
theory Hsm
  imports Zone_Signer
begin

text \<open>
  The connections of the signer to HSMs (\<open>units/zone_signer.rs\<close>, start of \<open>ZoneSignerUnit::run\<close>
  and the settings at its end, and the settings \<open>manager.rs\<close> makes of the environment): which
  settings a connection has, and when the signer starts. Pools and connections are the KMIP crate.
\<close>

section \<open>Settings\<close>

record KmipServerConnectionSettings =
  kc_client_cert_path :: "string option"
  kc_client_key_path :: "string option"
  kc_client_pkcs12_path :: "string option"
  kc_server_insecure :: bool
  kc_server_cert_path :: "string option"
  kc_ca_cert_path :: "string option"
  kc_server_addr :: string
  kc_server_port :: "16 word"
  kc_server_username :: "string option"
  kc_server_password :: "string option"

definition KmipServerConnectionSettings_default :: KmipServerConnectionSettings where
  "KmipServerConnectionSettings_default = \<lparr>kc_client_cert_path = None, kc_client_key_path = None,
     kc_client_pkcs12_path = None, kc_server_insecure = False, kc_server_cert_path = None, kc_ca_cert_path = None,
     kc_server_addr = ''localhost'', kc_server_port = 5696, kc_server_username = None, kc_server_password = None\<rparr>"

datatype ClientCertificate = CombinedPkcs12 bytes | SeparatePem bytes bytes

text \<open>A file that cannot be read panics. \<open>read\<close> is the file system.\<close>

definition load_binary_file :: "(string \<Rightarrow> bytes option) \<Rightarrow> string \<Rightarrow> (unit, bytes) outcome" where
  "load_binary_file read path = (case read path of None \<Rightarrow> Panic | Some bytes \<Rightarrow> Ok bytes)"

definition load_client_cert :: "(string \<Rightarrow> bytes option) \<Rightarrow> KmipServerConnectionSettings
    \<Rightarrow> (unit, ClientCertificate option) outcome" where
  "load_client_cert read opt = (case (kc_client_cert_path opt, kc_client_key_path opt, kc_client_pkcs12_path opt) of
      (None, None, None) \<Rightarrow> Ok None
    | (None, None, Some path) \<Rightarrow> (case load_binary_file read path of
        Ok bytes \<Rightarrow> Ok (Some (CombinedPkcs12 bytes)) | _ \<Rightarrow> Panic)
    | (Some cert_path, Some key_path, None) \<Rightarrow>
       (case (load_binary_file read cert_path, load_binary_file read key_path) of
          (Ok cert_bytes, Ok key_bytes) \<Rightarrow> Ok (Some (SeparatePem cert_bytes key_bytes)) | _ \<Rightarrow> Panic)
    | _ \<Rightarrow> Panic)"

record ConnectionSettings =
  cs_host :: string
  cs_port :: "16 word"
  cs_username :: "string option"
  cs_password :: "string option"
  cs_insecure :: bool
  cs_client_cert :: "ClientCertificate option"
  cs_server_cert :: "bytes option"
  cs_ca_cert :: "bytes option"
  cs_connect_timeout :: "duration option"

text \<open>The certificates of the server are read and dropped.\<close>

definition optional_file :: "(string \<Rightarrow> bytes option) \<Rightarrow> string option \<Rightarrow> (unit, bytes option) outcome" where
  "optional_file read path = (case path of
      None \<Rightarrow> Ok None
    | Some p \<Rightarrow> (case load_binary_file read p of Ok b \<Rightarrow> Ok (Some b) | _ \<Rightarrow> Panic))"

definition ConnectionSettings_from :: "(string \<Rightarrow> bytes option) \<Rightarrow> KmipServerConnectionSettings
    \<Rightarrow> (unit, ConnectionSettings) outcome" where
  "ConnectionSettings_from read cfg = (case load_client_cert read cfg of
      Ok client_cert \<Rightarrow>
       (case (optional_file read (kc_server_cert_path cfg), optional_file read (kc_ca_cert_path cfg)) of
          (Ok _, Ok _) \<Rightarrow> Ok \<lparr>cs_host = kc_server_addr cfg, cs_port = kc_server_port cfg,
            cs_username = kc_server_username cfg, cs_password = kc_server_password cfg,
            cs_insecure = kc_server_insecure cfg, cs_client_cert = client_cert, cs_server_cert = None,
            cs_ca_cert = None, cs_connect_timeout = Some (Duration_from_secs 5)\<rparr>
        | _ \<Rightarrow> Panic)
    | _ \<Rightarrow> Panic)"

text \<open>What \<open>spawn\<close> makes of the environment: at most one server, always insecure. The port has to
  parse (\<open>parse_port\<close>).\<close>

definition hsm_settings :: "(string \<Rightarrow> string option) \<Rightarrow> (string \<Rightarrow> 16 word option)
    \<Rightarrow> (string, KmipServerConnectionSettings) hmap" where
  "hsm_settings var parse_port =
    (case (var ''KMIP2PKCS11_HOST'', Option.bind (var ''KMIP2PKCS11_PORT'') parse_port) of
       (Some server_addr, Some server_port) \<Rightarrow> hm_insert ''hsmrelay'' (KmipServerConnectionSettings_default
         \<lparr>kc_server_addr := server_addr, kc_server_port := server_port, kc_server_insecure := True,
          kc_server_username := var ''KMIP2PKCS11_USERNAME'', kc_server_password := var ''KMIP2PKCS11_PASSWORD''\<rparr>) []
     | _ \<Rightarrow> [])"

section \<open>Starting\<close>

text \<open>What happens with one server: whether a pool is created, gives a connection, and the server
  answers a query.\<close>

definition hsm_pool :: "(string \<Rightarrow> bytes option) \<Rightarrow> (ConnectionSettings \<Rightarrow> bool) \<Rightarrow> string \<times> KmipServerConnectionSettings
    \<Rightarrow> (unit, (string \<times> ConnectionSettings) option) outcome" where
  "hsm_pool read usable server = (case ConnectionSettings_from read (snd server) of
      Ok settings \<Rightarrow> Ok (if usable settings then Some (fst server, settings) else None)
    | _ \<Rightarrow> Panic)"

fun hsm_pools :: "(string \<Rightarrow> bytes option) \<Rightarrow> (ConnectionSettings \<Rightarrow> bool) \<Rightarrow> (string \<times> KmipServerConnectionSettings) list
    \<Rightarrow> (unit, (string \<times> ConnectionSettings) list) outcome" where
  "hsm_pools read usable [] = Ok []"
| "hsm_pools read usable (server # servers) = (case hsm_pool read usable server of
      Ok pool \<Rightarrow> (case hsm_pools read usable servers of
          Ok pools \<Rightarrow> Ok (case pool of Some p \<Rightarrow> p # pools | None \<Rightarrow> pools)
        | res \<Rightarrow> res)
    | _ \<Rightarrow> Panic)"

text \<open>With fewer pools than servers the whole program exits (\<open>Err\<close>).\<close>

definition signer_start :: "(string \<Rightarrow> bytes option) \<Rightarrow> (ConnectionSettings \<Rightarrow> bool)
    \<Rightarrow> (string, KmipServerConnectionSettings) hmap \<Rightarrow> (unit, (string \<times> ConnectionSettings) list) outcome" where
  "signer_start read usable servers = (case hsm_pools read usable servers of
      Ok pools \<Rightarrow> if length pools \<noteq> length servers then Err () else Ok pools
    | res \<Rightarrow> res)"

section \<open>When the signer starts\<close>

lemma hsm_pools_length: "hsm_pools read usable servers = Ok pools \<Longrightarrow> length pools \<le> length servers
    \<and> (length pools = length servers \<longleftrightarrow> (\<forall>server \<in> set servers. \<exists>s. ConnectionSettings_from read (snd server) = Ok s \<and> usable s))"
proof (induction servers arbitrary: pools)
  case (Cons server servers)
  obtain s where s: "ConnectionSettings_from read (snd server) = Ok s"
    using Cons.prems by (auto simp: hsm_pool_def split: outcome.splits)
  obtain ps where ps: "hsm_pools read usable servers = Ok ps"
    using Cons.prems by (auto split: outcome.splits)
  show ?case using Cons.prems Cons.IH [OF ps] s ps by (auto simp: hsm_pool_def split: if_splits)
qed simp

lemma hsm_pools_Ok: "(\<exists>pools. hsm_pools read usable servers = Ok pools)
    \<longleftrightarrow> (\<forall>server \<in> set servers. \<exists>s. ConnectionSettings_from read (snd server) = Ok s)"
  by (induction servers) (auto simp: hsm_pool_def split: outcome.splits)

text \<open>The signer starts exactly when the settings of every server can be made and every server gives a
  usable connection; no server is left out silently.\<close>

theorem signer_start_iff:
  "(\<exists>pools. signer_start read usable servers = Ok pools)
    \<longleftrightarrow> (\<forall>server \<in> set servers. \<exists>s. ConnectionSettings_from read (snd server) = Ok s \<and> usable s)"
proof (cases "\<exists>pools. hsm_pools read usable servers = Ok pools")
  case True
  then obtain pools where p: "hsm_pools read usable servers = Ok pools" ..
  then show ?thesis using hsm_pools_length [OF p] by (auto simp: signer_start_def)
next
  case False
  then show ?thesis using hsm_pools_Ok [of read usable servers]
    by (auto simp: signer_start_def split: outcome.splits)
qed

text \<open>A server from the environment is connected to without checking who it is.\<close>

lemma hsm_relay_insecure:
  assumes "(n, cfg) \<in> set (hsm_settings var parse_port)"
  shows "\<exists>s. ConnectionSettings_from read cfg = Ok s \<and> cs_insecure s \<and> cs_ca_cert s = None \<and> cs_server_cert s = None"
  using assms by (auto simp: hsm_settings_def hm_insert_def ConnectionSettings_from_def load_client_cert_def
      optional_file_def KmipServerConnectionSettings_default_def split: option.splits)

end
