(* ===== verification/Key_Manager.thy ===== *)
theory Key_Manager
  imports Commands
begin

text \<open>
  The key manager (\<open>units/key_manager.rs\<close>): it has \<open>dnst keyset\<close> make the key set of a
  registered zone, watches the state files of the key sets and asks for a zone to be signed again
  when its file changed, and has \<open>dnst keyset cron\<close> run when it is due.

  The commands it starts, and what the state files hold at each moment, are the environment. What is
  printed and logged is left out.
\<close>

section \<open>State\<close>

type_synonym unix_time = nat

record KeySetInfo =
  ki_keyset_state_modified :: unix_time
  ki_cron_next :: "unix_time option"
  ki_retries :: "32 word"

definition CRON_MAX_RETRIES :: "32 word" where
  "CRON_MAX_RETRIES = 5"

record KeyManager =
  km_dnst_keyset_bin_path :: string
  km_dnst_keyset_data_dir :: string

text \<open>The commands that were started, with their arguments, and the events that were sent.\<close>

record km_world =
  kw_ks_info :: "(string, KeySetInfo) hmap"
  kw_commands :: "string list list"
  kw_updates :: "Update list"

text \<open>\<open>Path::join\<close>: an absolute path replaces the directory.\<close>

fun path_join :: "string \<Rightarrow> string \<Rightarrow> string" where
  "path_join dir p = (case p of
      CHR ''/'' # _ \<Rightarrow> p
    | _ \<Rightarrow> if dir = [] \<or> last dir = CHR ''/'' then dir @ p else dir @ ''/'' @ p)"

definition state_path :: "KeyManager \<Rightarrow> string \<Rightarrow> string" where
  "state_path km apex_name = path_join (km_dnst_keyset_data_dir km) (apex_name @ ''.state'')"

text \<open>The program and the arguments every command begins with.\<close>

definition keyset_cmd :: "KeyManager \<Rightarrow> string \<Rightarrow> string list" where
  "keyset_cmd km name = [km_dnst_keyset_bin_path km, ''keyset'', ''-c'',
     path_join (km_dnst_keyset_data_dir km) (name @ ''.cfg'')]"

definition start_cmd :: "string list \<Rightarrow> km_world \<Rightarrow> km_world" where
  "start_cmd argv w = w\<lparr>kw_commands := kw_commands w @ [argv]\<rparr>"

section \<open>Commands\<close>

text \<open>The environment says whether the first and the second command could be started; whether
  they succeeded is not looked at.\<close>

fun run_cmd :: "KeyManager \<Rightarrow> bool \<times> bool \<Rightarrow> ApplicationCommand option \<Rightarrow> km_world
    \<Rightarrow> (Terminated, unit) outcome \<times> km_world" where
  "run_cmd km env None w = (Err Terminated, w)"
| "run_cmd km env (Some CmdTerminate) w = (Err Terminated, w)"
| "run_cmd km env (Some (RegisterZone reg)) w =
    (let w1 = start_cmd (keyset_cmd km (za_name reg)
           @ [''create'', ''-n'', za_name reg, ''-s'', state_path km (za_name reg)]) w
     in if \<not> fst env then (Err Terminated, w)
        else if \<not> snd env then (Err Terminated, w1)
        else (Ok (), start_cmd (keyset_cmd km (za_name reg) @ [''init'']) w1))"
| "run_cmd km env (Some _) w = (Ok (), w)"

section \<open>Ticks\<close>

text \<open>The environment of one zone in a tick: whether the state file exists, its time of
  modification, what the first and the second reading of it (\<open>get_keyset_info\<close>) find, where
  \<open>None\<close> is a panic, the clock, and the result of the command (\<open>None\<close>: it could not be
  started).\<close>

record tick_env =
  te_exists :: bool
  te_modified :: "unix_time option"
  te_read1 :: "(unix_time \<times> unix_time option) option"
  te_read2 :: "(unix_time \<times> unix_time option) option"
  te_now :: unix_time
  te_cron :: "bool option"

definition get_keyset_info :: "(unix_time \<times> unix_time option) option \<Rightarrow> (unit, KeySetInfo) outcome" where
  "get_keyset_info file = (case file of
      None \<Rightarrow> Panic
    | Some (modified, cron_next) \<Rightarrow>
        Ok \<lparr>ki_keyset_state_modified = modified, ki_cron_next = cron_next, ki_retries = 0\<rparr>)"

definition set_info :: "string \<Rightarrow> KeySetInfo \<Rightarrow> km_world \<Rightarrow> km_world" where
  "set_info apex_name info w = w\<lparr>kw_ks_info := hm_insert apex_name info (kw_ks_info w)\<rparr>"

definition resign :: "dname \<Rightarrow> km_world \<Rightarrow> km_world" where
  "resign apex_name w = w\<lparr>kw_updates := kw_updates w @ [ResignZoneEvent apex_name]\<rparr>"

definition clear_cron :: "string \<Rightarrow> KeySetInfo \<Rightarrow> km_world \<Rightarrow> km_world" where
  "clear_cron apex_name info = set_info apex_name (info\<lparr>ki_cron_next := None, ki_retries := 0\<rparr>)"

text \<open>\<open>Duration::from_secs(60)\<close> later.\<close>

definition cron_retry :: "unix_time \<Rightarrow> unix_time" where
  "cron_retry t = t + 60 * nanos_per_sec"

text \<open>The cron command is due.\<close>

definition run_cron :: "KeyManager \<Rightarrow> tick_env \<Rightarrow> string \<Rightarrow> KeySetInfo \<Rightarrow> unix_time \<Rightarrow> km_world
    \<Rightarrow> (unit, unit) outcome \<times> km_world" where
  "run_cron km env apex_name info cron_next w = (case te_cron env of
      None \<Rightarrow> (Ok (), clear_cron apex_name info w)
    | Some False \<Rightarrow> (Ok (), clear_cron apex_name info (start_cmd (keyset_cmd km apex_name @ [''cron'']) w))
    | Some True \<Rightarrow>
       (let w1 = start_cmd (keyset_cmd km apex_name @ [''cron'']) w
        in case get_keyset_info (te_read1 env) of
             Ok new_info \<Rightarrow>
              (if ki_keyset_state_modified new_info \<noteq> ki_keyset_state_modified info then
                 (case get_keyset_info (te_read2 env) of
                    Ok new_info \<Rightarrow> (Ok (), resign apex_name (set_info apex_name new_info w1))
                  | _ \<Rightarrow> (Panic, w1))
               else if ki_retries info + 1 \<ge> CRON_MAX_RETRIES then (Ok (), clear_cron apex_name info w1)
               else (Ok (), set_info apex_name (info\<lparr>ki_cron_next := Some (cron_retry cron_next),
                      ki_retries := ki_retries info + 1\<rparr>) w1))
           | _ \<Rightarrow> (Panic, w1)))"

definition tick_zone :: "KeyManager \<Rightarrow> string \<Rightarrow> tick_env \<Rightarrow> km_world \<Rightarrow> (unit, unit) outcome \<times> km_world" where
  "tick_zone km apex_name env w =
    (if \<not> te_exists env then (Ok (), w)
     else case hm_get (kw_ks_info w) apex_name of
       None \<Rightarrow> (case get_keyset_info (te_read1 env) of
           Ok value \<Rightarrow> (Ok (), set_info apex_name value w)
         | _ \<Rightarrow> (Panic, w))
     | Some info \<Rightarrow>
        (case te_modified env of
           None \<Rightarrow> (Panic, w)
         | Some modified \<Rightarrow>
            (if modified \<noteq> ki_keyset_state_modified info then
               (case get_keyset_info (te_read1 env) of
                  Ok new_info \<Rightarrow> (Ok (), resign apex_name (set_info apex_name new_info w))
                | _ \<Rightarrow> (Panic, w))
             else (case ki_cron_next info of
                 None \<Rightarrow> (Ok (), w)
               | Some cron_next \<Rightarrow> if cron_next < te_now env then run_cron km env apex_name info cron_next w
                   else (Ok (), w)))))"

text \<open>One tick, over the unsigned zones.\<close>

fun tick :: "KeyManager \<Rightarrow> (string \<times> tick_env) list \<Rightarrow> km_world \<Rightarrow> (unit, unit) outcome \<times> km_world" where
  "tick km [] w = (Ok (), w)"
| "tick km ((apex_name, env) # zones) w = (case tick_zone km apex_name env w of
      (Ok _, w1) \<Rightarrow> tick km zones w1
    | res \<Rightarrow> res)"

section \<open>Properties\<close>

text \<open>How often the cron command may still be run for a zone before its state file changes.\<close>

definition cron_left :: "string \<Rightarrow> km_world \<Rightarrow> nat" where
  "cron_left n w = (case hm_get (kw_ks_info w) n of
      None \<Rightarrow> 5
    | Some info \<Rightarrow> (if ki_cron_next info = None then 0 else 5 - unat (ki_retries info)))"

definition unchanged :: "unix_time \<Rightarrow> tick_env \<Rightarrow> bool" where
  "unchanged t env \<longleftrightarrow> te_modified env = Some t \<and> map_option fst (te_read1 env) = Some t"

lemma retries_succ: "unat r < 5 \<Longrightarrow> unat (r + 1) = Suc (unat r)" for r :: "32 word"
  by (simp add: unat_word_ariths)

lemma tick_zone_cron:
  assumes env: "unchanged t env" and step: "tick_zone km n env w = (res, w')"
    and known: "\<forall>info. hm_get (kw_ks_info w) n = Some info \<longrightarrow>
      ki_keyset_state_modified info = t \<and> unat (ki_retries info) < 5"
  shows "\<exists>new. kw_commands w' = kw_commands w @ new \<and> length new + cron_left n w' \<le> cron_left n w"
    and "kw_updates w' = kw_updates w"
    and "\<forall>info. hm_get (kw_ks_info w') n = Some info \<longrightarrow>
      ki_keyset_state_modified info = t \<and> unat (ki_retries info) < 5"
proof -
  obtain c where r: "te_modified env = Some t" "te_read1 env = Some (t, c)"
    using env by (auto simp: unchanged_def)
  have lim: "ki_retries i + 1 \<ge> CRON_MAX_RETRIES \<longleftrightarrow> unat (ki_retries i) = 4" if "unat (ki_retries i) < 5" for i :: KeySetInfo
    using retries_succ [OF that] that by (auto simp: CRON_MAX_RETRIES_def word_le_nat_alt)
  note defs = tick_zone_def run_cron_def get_keyset_info_def set_info_def clear_cron_def start_cmd_def
    resign_def cron_left_def r Let_def
  show "\<exists>new. kw_commands w' = kw_commands w @ new \<and> length new + cron_left n w' \<le> cron_left n w"
    using step known
    by (auto simp: defs lim retries_succ split: if_splits option.splits bool.splits)
  show "kw_updates w' = kw_updates w"
    using step known by (auto simp: defs split: if_splits option.splits bool.splits)
  show "\<forall>info. hm_get (kw_ks_info w') n = Some info \<longrightarrow>
      ki_keyset_state_modified info = t \<and> unat (ki_retries info) < 5"
    using step known
    by (auto simp: defs lim retries_succ split: if_splits option.splits bool.splits)
qed

text \<open>The ticks of one zone, up to a panic.\<close>

fun zone_ticks :: "KeyManager \<Rightarrow> string \<Rightarrow> tick_env list \<Rightarrow> km_world \<Rightarrow> (unit, unit) outcome \<times> km_world" where
  "zone_ticks km n [] w = (Ok (), w)"
| "zone_ticks km n (env # envs) w = (case tick_zone km n env w of
      (Ok _, w1) \<Rightarrow> zone_ticks km n envs w1
    | res \<Rightarrow> res)"

lemma zone_ticks_cron:
  assumes "\<forall>env \<in> set envs. unchanged t env" "zone_ticks km n envs w = (res, w')"
    "\<forall>info. hm_get (kw_ks_info w) n = Some info \<longrightarrow> ki_keyset_state_modified info = t \<and> unat (ki_retries info) < 5"
  shows "\<exists>new. kw_commands w' = kw_commands w @ new \<and> length new + cron_left n w' \<le> cron_left n w"
    and "kw_updates w' = kw_updates w"
  using assms
proof (induction envs arbitrary: w)
  case (Cons env envs)
  {
    case 1
    obtain r1 w1 where s: "tick_zone km n env w = (r1, w1)" by fastforce
    note t = tick_zone_cron [OF _ s 1(3)]
    have "unchanged t env" using 1 by simp
    from t(1) [OF this] obtain new where new: "kw_commands w1 = kw_commands w @ new"
      "length new + cron_left n w1 \<le> cron_left n w" by blast
    show ?case
    proof (cases "r1 = Ok ()")
      case True
      then have "zone_ticks km n envs w1 = (res, w')" using 1(2) s by simp
      with Cons.IH(1) [of w1] 1(1) t(3) obtain new' where "kw_commands w' = kw_commands w1 @ new'"
        "length new' + cron_left n w' \<le> cron_left n w1" by auto
      then show ?thesis using new by (intro exI [of _ "new @ new'"]) simp
    next
      case False
      then have "w' = w1" using 1(2) s by (cases r1) simp_all
      then show ?thesis using new by blast
    qed
  next
    case 2
    obtain r1 w1 where s: "tick_zone km n env w = (r1, w1)" by fastforce
    note t = tick_zone_cron [OF _ s 2(3)]
    have u: "unchanged t env" using 2 by simp
    show ?case
    proof (cases "r1 = Ok ()")
      case True
      then have "zone_ticks km n envs w1 = (res, w')" using 2(2) s by simp
      then show ?thesis using Cons.IH(2) [of w1] 2(1) t(2,3) u by simp
    next
      case False
      then have "w' = w1" using 2(2) s by (cases r1) simp_all
      then show ?thesis using t(2) u by simp
    qed
  }
qed simp_all

text \<open>As long as the state file of a zone does not change, the key manager runs the cron command
  for the zone at most five times, whatever the ticks, the clock and the results, and does not ask for
  the zone to be signed again.\<close>

theorem cron_bounded:
  assumes "hm_get (kw_ks_info w) n = None" "\<forall>env \<in> set envs. unchanged t env"
    and "zone_ticks km n envs w = (res, w')"
  shows "\<exists>new. kw_commands w' = kw_commands w @ new \<and> length new \<le> 5 \<and> kw_updates w' = kw_updates w"
proof -
  have "cron_left n w = 5" using assms(1) by (simp add: cron_left_def)
  then show ?thesis using zone_ticks_cron [OF assms(2,3)] assms(1) by fastforce
qed

definition demo_tick :: "unix_time \<Rightarrow> tick_env" where
  "demo_tick now = \<lparr>te_exists = True, te_modified = Some 7, te_read1 = Some (7, Some 10),
     te_read2 = Some (7, Some 10), te_now = now, te_cron = Some True\<rparr>"

theorem cron_bounded_witness:
  "\<exists>w'. zone_ticks \<lparr>km_dnst_keyset_bin_path = ''dnst'', km_dnst_keyset_data_dir = ''/tmp/keyset''\<rparr> ''example''
       [demo_tick 9, demo_tick 11] \<lparr>kw_ks_info = [], kw_commands = [], kw_updates = []\<rparr> = (Ok (), w')
     \<and> length (kw_commands w') = 1 \<and> length (kw_commands w') \<le> 5 \<and> kw_updates w' = []"
    (is "\<exists>w'. zone_ticks ?km _ ?envs ?w = _ \<and> _")
proof -
  let ?i = "\<lparr>ki_keyset_state_modified = 7, ki_cron_next = Some 10, ki_retries = 0\<rparr>"
  let ?w1 = "\<lparr>kw_ks_info = [(''example'', ?i)], kw_commands = [], kw_updates = []\<rparr>"
  have s1: "tick_zone ?km ''example'' (demo_tick 9) ?w = (Ok (), ?w1)"
    by (simp add: tick_zone_def demo_tick_def get_keyset_info_def set_info_def hm_insert_def)
  have "\<not> CRON_MAX_RETRIES \<le> (1 :: 32 word)" by (simp add: CRON_MAX_RETRIES_def word_le_nat_alt)
  then have s2: "\<exists>w'. tick_zone ?km ''example'' (demo_tick 11) ?w1 = (Ok (), w') \<and> length (kw_commands w') = 1"
    by (simp add: tick_zone_def demo_tick_def run_cron_def get_keyset_info_def set_info_def start_cmd_def Let_def)
  obtain w' where r: "zone_ticks ?km ''example'' ?envs ?w = (Ok (), w')" "length (kw_commands w') = 1"
    using s1 s2 by auto
  have "\<forall>env \<in> set ?envs. unchanged 7 env" by (simp add: unchanged_def demo_tick_def)
  from cron_bounded [OF _ this r(1)] r show ?thesis by simp
qed

text \<open>Once the key manager knows a zone, a tick asks for it to be signed again exactly when the state
  file was modified since, before or by the cron command that was due, and then it remembers the
  new time.\<close>

theorem resign_iff_changed:
  assumes "hm_get (kw_ks_info w) n = Some info" "te_exists env" "te_modified env = Some t"
    and "tick_zone km n env w = (Ok (), w')"
  shows "kw_updates w' = kw_updates w @
      (if t \<noteq> ki_keyset_state_modified info
          \<or> (\<exists>c. ki_cron_next info = Some c \<and> c < te_now env) \<and> te_cron env = Some True
            \<and> map_option fst (te_read1 env) \<noteq> Some (ki_keyset_state_modified info)
       then [ResignZoneEvent n] else [])"
  using assms
  by (auto simp: tick_zone_def run_cron_def get_keyset_info_def set_info_def clear_cron_def start_cmd_def
      resign_def Let_def split: if_splits option.splits bool.splits)

theorem resign_iff_changed_witness:
  "\<exists>w'. tick_zone \<lparr>km_dnst_keyset_bin_path = ''dnst'', km_dnst_keyset_data_dir = ''/tmp/keyset''\<rparr> ''example''
       (demo_tick 9) \<lparr>kw_ks_info = [(''example'', \<lparr>ki_keyset_state_modified = 6, ki_cron_next = None, ki_retries = 0\<rparr>)],
         kw_commands = [], kw_updates = []\<rparr> = (Ok (), w') \<and> kw_updates w' = [ResignZoneEvent ''example'']"
    (is "\<exists>w'. tick_zone ?km _ ?env ?w = _ \<and> _")
proof -
  obtain w' where r: "tick_zone ?km ''example'' ?env ?w = (Ok (), w')"
    by (simp add: tick_zone_def demo_tick_def get_keyset_info_def)
  have "hm_get (kw_ks_info ?w) ''example'' = Some \<lparr>ki_keyset_state_modified = 6, ki_cron_next = None, ki_retries = 0\<rparr>"
    "te_exists ?env" "te_modified ?env = Some 7" by (simp_all add: demo_tick_def)
  from resign_iff_changed [OF this r] r show ?thesis by simp
qed

end
