(* ===== verification/Tsig.thy ===== *)
theory Tsig
  imports Center_Ops
begin

text \<open>
  The operations on TSIG keys: \<open>import_key\<close>, \<open>generate_key\<close>, \<open>remove_key\<close> and
  \<open>reload\<close> of \<open>src/tsig/mod.rs\<close>, and the older key store with its key strings,
  \<open>src/common/tsig.rs\<close>. Keys are made by the \<open>domain\<close> crate: \<open>api\<close> is
  \<open>Key::new\<close> and its accessors, and what \<open>Key::generate\<close> returned is an argument.
\<close>

section \<open>Operations on the store\<close>

datatype ImportError = AlreadyExists
datatype GenerateKeyError = BadMinMacLen | BadSigningLen | GenerationFailed
datatype GenerateError = AlreadyExists | Implementation
datatype RemoveError = NotFound | Used

abbreviation tsig_of :: "'k Center \<Rightarrow> 'k TsigStore" where
  "tsig_of c \<equiv> st_tsig_store (ce_state c)"

definition set_tsig :: "'k TsigStore \<Rightarrow> 'k Center \<Rightarrow> 'k Center" where
  "set_tsig s c = c \<lparr> ce_state := (ce_state c) \<lparr> st_tsig_store := s \<rparr> \<rparr>"

definition set_keys :: "(key_name, 'k TsigKey) hmap \<Rightarrow> 'k Center \<Rightarrow> 'k Center" where
  "set_keys m c = set_tsig ((tsig_of c) \<lparr> ts_map := m \<rparr>) c"

text \<open>\<open>unreachable!()\<close> before the state is locked panics without poisoning it.\<close>

definition import_key :: "'k key_api \<Rightarrow> key_name \<Rightarrow> Algorithm \<Rightarrow> bytes \<Rightarrow> bool \<Rightarrow> 'k Center
    \<Rightarrow> (ImportError, unit) outcome \<times> 'k Center"
where
  "import_key api name algorithm material replace c = (case Key_new api algorithm material name of
      Inl _ \<Rightarrow> (Panic, c)
    | Inr key \<Rightarrow>
        if ce_poisoned c then (Panic, c)
        else case hm_get (ts_map (tsig_of c)) name of
            Some entry \<Rightarrow>
              if \<not> replace then (Err ImportError.AlreadyExists, c)
              else (Ok (), TsigStore_mark_dirty (set_keys (hm_insert name
                     (entry \<lparr> tk_inner := key, tk_material := material \<rparr>) (ts_map (tsig_of c))) c))
          | None \<Rightarrow> (Ok (), TsigStore_mark_dirty (set_keys (hm_insert name
                     \<lparr> tk_inner = key, tk_material = material, tk_zones = [] \<rparr> (ts_map (tsig_of c))) c)))"

definition generate_key :: "GenerateKeyError + ('k \<times> bytes) \<Rightarrow> key_name \<Rightarrow> bool \<Rightarrow> 'k Center
    \<Rightarrow> (GenerateError, unit) outcome \<times> 'k Center"
where
  "generate_key generated name replace c = (case generated of
      Inl BadMinMacLen \<Rightarrow> (Panic, c)
    | Inl BadSigningLen \<Rightarrow> (Panic, c)
    | Inl GenerationFailed \<Rightarrow> (Err Implementation, c)
    | Inr (key, material) \<Rightarrow>
        if ce_poisoned c then (Panic, c)
        else case hm_get (ts_map (tsig_of c)) name of
            Some entry \<Rightarrow>
              if \<not> replace then (Err GenerateError.AlreadyExists, c)
              else (Ok (), TsigStore_mark_dirty (set_keys (hm_insert name
                     (entry \<lparr> tk_inner := key, tk_material := material \<rparr>) (ts_map (tsig_of c))) c))
          | None \<Rightarrow> (Ok (), TsigStore_mark_dirty (set_keys (hm_insert name
                     \<lparr> tk_inner = key, tk_material = material, tk_zones = [] \<rparr> (ts_map (tsig_of c))) c)))"

definition remove_key :: "key_name \<Rightarrow> 'k Center \<Rightarrow> (RemoveError, unit) outcome \<times> 'k Center" where
  "remove_key name c =
    (if ce_poisoned c then (Panic, c)
     else case hm_get (ts_map (tsig_of c)) name of
         Some entry \<Rightarrow>
           if tk_zones entry \<noteq> [] then (Err Used, c)
           else (Ok (), TsigStore_mark_dirty (set_keys (hm_remove name (ts_map (tsig_of c))) c))
       | None \<Rightarrow> (Err RemoveError.NotFound, c))"

text \<open>\<open>tsig::reload\<close>: a load error is only logged.\<close>

definition tsig_reload :: "'k key_api \<Rightarrow> (utf8path \<Rightarrow> io_error + TsFile) \<Rightarrow> 'k Center \<Rightarrow> (unit, unit) outcome \<times> 'k Center" where
  "tsig_reload api load c =
    (if ce_poisoned c then (Panic, c)
     else case load (cfg_tsig_store_path (st_config (ce_state c))) of
         Inl _ \<Rightarrow> (Ok (), c)
       | Inr spec \<Rightarrow> (case TsFile_parse api spec (tsig_of c) of
             Ok store \<Rightarrow> (Ok (), TsigStore_mark_dirty (set_tsig store c))
           | Err e \<Rightarrow> (Err e, c)
           | Panic \<Rightarrow> (Panic, poison c)))"

lemma TsigStore_mark_dirty_frame [simp, frame_simps]:
  "zones_of (TsigStore_mark_dirty c) = zones_of c" "policies_of (TsigStore_mark_dirty c) = policies_of c"
  "ce_heap (TsigStore_mark_dirty c) = ce_heap c" "ce_updates (TsigStore_mark_dirty c) = ce_updates c"
  "ce_update_open (TsigStore_mark_dirty c) = ce_update_open c" "ce_writes (TsigStore_mark_dirty c) = ce_writes c"
  "ts_map (tsig_of (TsigStore_mark_dirty c)) = ts_map (tsig_of c)"
  by (simp_all add: TsigStore_mark_dirty_def spawn_def)

lemma set_tsig_simps [simp, frame_simps]:
  "zones_of (set_tsig s c) = zones_of c" "policies_of (set_tsig s c) = policies_of c" "ce_heap (set_tsig s c) = ce_heap c"
  "ce_updates (set_tsig s c) = ce_updates c" "ce_update_open (set_tsig s c) = ce_update_open c"
  "ce_poisoned (set_tsig s c) = ce_poisoned c" "ce_tasks (set_tsig s c) = ce_tasks c"
  "ce_next_task (set_tsig s c) = ce_next_task c" "tsig_of (set_tsig s c) = s"
  "st_enqueued_save (ce_state (set_tsig s c)) = st_enqueued_save (ce_state c)"
  by (simp_all add: set_tsig_def)

lemma set_keys_simps [simp, frame_simps]:
  "zones_of (set_keys m c) = zones_of c" "policies_of (set_keys m c) = policies_of c" "ce_heap (set_keys m c) = ce_heap c"
  "ce_poisoned (set_keys m c) = ce_poisoned c" "ce_update_open (set_keys m c) = ce_update_open c"
  "ts_map (tsig_of (set_keys m c)) = m" "ts_enqueued_save (tsig_of (set_keys m c)) = ts_enqueued_save (tsig_of c)"
  by (simp_all add: set_keys_def)

lemma center_ok_set_tsig:
  "center_ok c \<Longrightarrow> ts_enqueued_save s = ts_enqueued_save (tsig_of c) \<Longrightarrow> center_ok (set_tsig s c)"
proof -
  assume ok: "center_ok c" and s: "ts_enqueued_save s = ts_enqueued_save (tsig_of c)"
  have "handle_of (set_tsig s c) = handle_of c" by (rule ext, case_tac x; simp add: s)
  then show "center_ok (set_tsig s c)"
    using ok by (auto simp: center_ok_def intro: tasks_ok_frame [of c])
qed

lemma center_ok_set_keys [simp]: "center_ok c \<Longrightarrow> center_ok (set_keys m c)"
  by (simp add: set_keys_def center_ok_set_tsig)

section \<open>Keys in use and consistent keys\<close>

abbreviation keys_of :: "'k Center \<Rightarrow> key_name \<Rightarrow> 'k TsigKey option" where
  "keys_of c \<equiv> hm_get (ts_map (tsig_of c))"

lemma store_consistent_insert:
  "store_consistent api st \<Longrightarrow> key_consistent api n k \<Longrightarrow> store_consistent api (st \<lparr> ts_map := hm_insert n k (ts_map st) \<rparr>)"
  by (auto simp: store_consistent_def)

lemma store_consistent_remove:
  "store_consistent api st \<Longrightarrow> store_consistent api (st \<lparr> ts_map := hm_remove n (ts_map st) \<rparr>)"
  by (auto simp: store_consistent_def)

lemma store_consistent_map:
  "ts_map st' = ts_map st \<Longrightarrow> store_consistent api st' = store_consistent api st"
  by (simp add: store_consistent_def)

lemma key_consistent_new:
  "key_api_ok api \<Longrightarrow> Key_new api a m n = Inr k \<Longrightarrow> key_consistent api n \<lparr> tk_inner = k, tk_material = m, tk_zones = z \<rparr>"
  unfolding key_consistent_def key_api_ok_def by (metis TsigKey.select_convs(1,2) sum.inject(2))

lemma TsigKey_update_all:
  "(e :: 'k TsigKey) \<lparr> tk_inner := k, tk_material := m \<rparr> = \<lparr> tk_inner = k, tk_material = m, tk_zones = tk_zones e \<rparr>"
  by (cases e) simp

text \<open>Importing a key, when it succeeds, makes the store hold under that name exactly the key
  of the given secret, with the zones a replaced key had, leaves every other key alone, keeps the
  store consistent (what will be saved is what is in use) and enqueues a save; without leave to
  replace, an existing key is refused and nothing changes.\<close>

theorem import_key_result:
  assumes "key_api_ok api" "center_ok c" "store_consistent api (tsig_of c)"
  shows "case import_key api n a m replace c of (res, c') \<Rightarrow>
    (keys_of c n \<noteq> None \<and> \<not> replace \<longrightarrow> res = Err ImportError.AlreadyExists \<and> c' = c)
    \<and> (keys_of c n = None \<or> replace \<longrightarrow> res = Ok ()
        \<and> (\<exists>k. Key_new api a m n = Inr k \<and> keys_of c' n = Some \<lparr> tk_inner = k, tk_material = m,
              tk_zones = (case keys_of c n of None \<Rightarrow> [] | Some e \<Rightarrow> tk_zones e) \<rparr>)
        \<and> (j \<noteq> n \<longrightarrow> keys_of c' j = keys_of c j)
        \<and> store_consistent api (tsig_of c') \<and> center_ok c' \<and> ts_enqueued_save (tsig_of c') \<noteq> None)"
proof -
  obtain k where k: "Key_new api a m n = Inr k" using assms(1) unfolding key_api_ok_def by blast
  have np: "\<not> ce_poisoned c" using assms(2) by (simp add: center_ok_def)
  define e where "e = \<lparr> tk_inner = k, tk_material = m, tk_zones = (case keys_of c n of None \<Rightarrow> [] | Some e \<Rightarrow> tk_zones e) \<rparr>"
  define c' where "c' = TsigStore_mark_dirty (set_keys (hm_insert n e (ts_map (tsig_of c))) c)"
  have res: "import_key api n a m replace c = (if keys_of c n \<noteq> None \<and> \<not> replace then (Err ImportError.AlreadyExists, c) else (Ok (), c'))"
    using k np by (auto simp: import_key_def e_def c'_def TsigKey_update_all split: option.splits)
  have "ts_map (tsig_of c') = ts_map ((tsig_of c) \<lparr> ts_map := hm_insert n e (ts_map (tsig_of c)) \<rparr>)"
    by (simp add: c'_def)
  from store_consistent_map [OF this, of api] have "store_consistent api (tsig_of c')"
    using store_consistent_insert [OF assms(3), of n e] key_consistent_new [OF assms(1) k]
    by (simp add: e_def)
  moreover have "center_ok c'" "ts_enqueued_save (tsig_of c') \<noteq> None"
    using assms(2) tsig_saver.mark_slot [of "set_keys (hm_insert n e (ts_map (tsig_of c))) c"] by (simp_all add: c'_def)
  moreover have "keys_of c' j = (if j = n then Some e else keys_of c j)" for j by (simp add: c'_def)
  ultimately show ?thesis using k by (auto simp: res e_def)
qed

definition example_center :: "(Algorithm \<times> bytes \<times> key_name) Center" where
  "example_center = \<lparr> ce_state = (State_new Config_default) \<lparr> st_tsig_store := example_store \<rparr>, ce_heap = [],
     ce_poisoned = False, ce_update_open = True, ce_updates = [], ce_tasks = [], ce_next_task = 0, ce_writes = [] \<rparr>"

lemma example_center_ok [simp]: "center_ok example_center" "tsig_of example_center = example_store"
proof -
  have "handle_of example_center j = None" for j
    by (cases j) (simp_all add: example_center_def State_new_def example_store_def)
  then show "center_ok example_center"
    by (simp add: center_ok_def tasks_ok_def tasks_wf_def) (simp add: example_center_def)
qed (simp add: example_center_def)

theorem import_key_result_witness:
  "\<exists>c'. import_key example_api ''k'' Algorithm.Sha1 [5] True example_center = (Ok (), c')
    \<and> keys_of c' ''k'' = Some \<lparr> tk_inner = (Algorithm.Sha1, [5], ''k''), tk_material = [5], tk_zones = [7] \<rparr>"
proof -
  have "Key_new example_api a m n = Inr (a, m, n)" for a m n by (simp add: example_api_def)
  then show ?thesis
    using import_key_result [OF example_api_ok example_center_ok(1), where n = "''k''" and a = Algorithm.Sha1 and m = "[5]" and replace = True and j = "''x''"]
    by (auto simp: example_store_get split: prod.splits)
qed

text \<open>A key is removed exactly when it exists and no zone uses it; a key in use is refused with
  \<open>Used\<close>, an unknown one with \<open>NotFound\<close>, and a refusal changes nothing.\<close>

theorem remove_key_result:
  assumes "center_ok c" "hm_wf (ts_map (tsig_of c))"
  shows "case remove_key n c of (res, c') \<Rightarrow>
    (res = Ok () \<longleftrightarrow> (\<exists>k. keys_of c n = Some k \<and> tk_zones k = []))
    \<and> (res = Err Used \<longleftrightarrow> (\<exists>k. keys_of c n = Some k \<and> tk_zones k \<noteq> []))
    \<and> (res = Err RemoveError.NotFound \<longleftrightarrow> keys_of c n = None)
    \<and> (res \<noteq> Ok () \<longrightarrow> c' = c)
    \<and> (res = Ok () \<longrightarrow> keys_of c' = (keys_of c)(n := None) \<and> center_ok c' \<and> ts_enqueued_save (tsig_of c') \<noteq> None)"
proof -
  have "center_ok (TsigStore_mark_dirty (set_keys m c))" "ts_enqueued_save (tsig_of (TsigStore_mark_dirty (set_keys m c))) \<noteq> None" for m
    using assms(1) tsig_saver.mark_slot [of "set_keys m c"] by simp_all
  with assms show ?thesis
    by (auto simp: remove_key_def center_ok_def fun_eq_iff split: option.splits)
qed

theorem remove_key_result_witness:
  "remove_key ''k'' example_center = (Err Used, example_center) \<and> remove_key ''x'' example_center = (Err RemoveError.NotFound, example_center)"
proof -
  have "hm_wf (ts_map (tsig_of example_center))" by (simp add: example_store_def)
  moreover have "keys_of example_center ''x'' = None" by (simp add: example_store_def)
  ultimately show ?thesis
    using remove_key_result [OF example_center_ok(1), of "''k''"] remove_key_result [OF example_center_ok(1), of "''x''"]
    by (auto simp: example_store_get split: prod.splits)
qed

section \<open>The older key store and key strings\<close>

text \<open>The store of \<open>src/common/tsig.rs\<close>, by name and algorithm; a poisoned lock makes it refuse.\<close>

record 'k TsigKeyStore =
  oks_poisoned :: bool
  oks_keys :: "(key_name \<times> Algorithm, 'k) hmap"

definition TsigKeyStore_insert :: "'k key_api \<Rightarrow> 'k \<Rightarrow> 'k TsigKeyStore \<Rightarrow> bool \<times> 'k TsigKeyStore" where
  "TsigKeyStore_insert api key s =
    (let key_id = (Key_name api key, Key_algorithm api key)
     in if oks_poisoned s then (False, s)
        else (hm_get (oks_keys s) key_id = None, s \<lparr> oks_keys := hm_insert key_id key (oks_keys s) \<rparr>))"

definition TsigKeyStore_get_key :: "'k TsigKeyStore \<Rightarrow> key_name option \<Rightarrow> Algorithm \<Rightarrow> 'k option" where
  "TsigKeyStore_get_key s name algorithm = (case name of
      None \<Rightarrow> None
    | Some n \<Rightarrow> if oks_poisoned s then None else hm_get (oks_keys s) (n, algorithm))"

definition TsigKeyStore_get_key_by_name :: "'k TsigKeyStore \<Rightarrow> key_name \<Rightarrow> 'k option" where
  "TsigKeyStore_get_key_by_name s name =
    (if oks_poisoned s then None
     else map_option snd (find (\<lambda>((key_name, _), _). key_name = name) (oks_keys s)))"

datatype KeyParseError = InvalidAlgorithm | InvalidStructure | InvalidName | InvalidBase64 | KeyCreationError NewKeyError

text \<open>What parsing a key string needs from the \<open>domain\<close> crate: \<open>Algorithm::from_str\<close>,
  \<open>KeyName::from_str\<close> and \<open>base64::decode\<close>.\<close>

record key_parsers =
  kp_algorithm :: "string \<Rightarrow> Algorithm option"
  kp_name :: "string \<Rightarrow> key_name option"
  kp_base64 :: "string \<Rightarrow> bytes option"

definition parse_key_strings :: "'k key_api \<Rightarrow> key_parsers \<Rightarrow> string \<Rightarrow> string \<Rightarrow> KeyParseError + 'k" where
  "parse_key_strings api ps name alg_and_key =
    (let parts = split_char (CHR '':'') alg_and_key in
     bind_res (case parts of
         [b] \<Rightarrow> Inr (Algorithm.Sha256, b)
       | [a, b] \<Rightarrow> (case kp_algorithm ps a of None \<Rightarrow> Inl InvalidAlgorithm | Some alg \<Rightarrow> Inr (alg, b))
       | _ \<Rightarrow> Inl InvalidStructure) (\<lambda>(alg, base64).
     bind_res (case kp_name ps name of None \<Rightarrow> Inl InvalidName | Some n \<Rightarrow> Inr n) (\<lambda>n.
     bind_res (case kp_base64 ps base64 of None \<Rightarrow> Inl InvalidBase64 | Some b \<Rightarrow> Inr b) (\<lambda>secret.
     case Key_new api alg secret n of Inl e \<Rightarrow> Inl (KeyCreationError e) | Inr key \<Rightarrow> Inr key))))"

text \<open>A key string without a colon is a secret for SHA-256, one with a single colon names the
  algorithm, and the key that is made has the given name and that algorithm and can be found in
  the store, by name and algorithm, after it is inserted.\<close>

theorem key_string_lookup:
  assumes "key_api_ok api" "kp_name ps name = Some n" "kp_base64 ps b = Some secret" "CHR '':'' \<notin> set b"
    and "CHR '':'' \<notin> set a" "kp_algorithm ps a = Some alg" "\<not> oks_poisoned s"
  shows "\<exists>k. parse_key_strings api ps name (a @ CHR '':'' # b) = Inr k
      \<and> Key_name api k = n \<and> Key_algorithm api k = alg
      \<and> TsigKeyStore_get_key (snd (TsigKeyStore_insert api k s)) (Some n) alg = Some k"
    (is "\<exists>k. ?P k")
proof -
  obtain k where k: "Key_new api alg secret n = Inr k" "Key_name api k = n" "Key_algorithm api k = alg"
    using assms(1) unfolding key_api_ok_def by blast
  then show ?thesis
    using assms by (intro exI [of _ k])
      (simp add: parse_key_strings_def split_char_none split_char_app bind_res_def TsigKeyStore_insert_def
        TsigKeyStore_get_key_def Let_def)
qed

definition example_parsers :: key_parsers where
  "example_parsers = \<lparr> kp_algorithm = (\<lambda>s. if s = ''hmac-sha512'' then Some Algorithm.Sha512 else None),
     kp_name = Some, kp_base64 = (\<lambda>s. Some (map (\<lambda>_. 0) s)) \<rparr>"

theorem key_string_lookup_witness:
  "\<exists>k. parse_key_strings example_api example_parsers ''k'' ''hmac-sha512:abcd'' = Inr k
    \<and> Key_algorithm example_api k = Algorithm.Sha512"
  using key_string_lookup [OF example_api_ok, of example_parsers "''k''" "''k''" "''abcd''" "[0, 0, 0, 0]" "''hmac-sha512''"
      Algorithm.Sha512 "\<lparr> oks_poisoned = False, oks_keys = [] \<rparr>"]
  by (auto simp: example_parsers_def)

end
