(* ===== verification/Xfr_In.thy ===== *)
theory Xfr_In
  imports Zm_World
begin

text \<open>
  Refreshing a zone from its primaries (\<open>zonemaintenance/maintainer.rs\<close>, \<open>refresh_zone\<close>
  down to \<open>do_xfr\<close>).

  The network is the environment of a refresh: a \<open>primary_env\<close> says what one primary answers
  during one visit, an \<open>xfr_env\<close> what it answers to one transfer, and at which instants. Tokens
  stand for the errors of the client library. A TCP stream of which nothing more is listed has
  been closed by the peer.
\<close>

section \<open>Errors\<close>

datatype ZoneMaintainerError =
    NotRunning
  | InternalError string
  | UnknownZone
  | RequestError token
  | ResponseError "16 word"
  | IoError token
  | ConnectionError string
  | NoConnectionAvailable
  | IxfrResponseTooLargeForUdp
  | IncompleteResponse
  | ProcessingError xfr_protocol_error
  | ZoneUpdateError token

text \<open>The three \<open>From\<close> instances, as \<open>?\<close> applies them.\<close>

definition ZoneMaintainerError_from_request :: "token \<Rightarrow> ZoneMaintainerError" where
  "ZoneMaintainerError_from_request err = RequestError err"

fun ZoneMaintainerError_from :: "updater_error \<Rightarrow> ZoneMaintainerError" where
  "ZoneMaintainerError_from (UeIo err) = IoError err"
| "ZoneMaintainerError_from (UeUpdate err) = ZoneUpdateError err"

section \<open>The network\<close>

datatype conn_result = ConnFailed string | NoConn | Connected

record xfr_env =
  xe_udp :: conn_result
  xe_udp_response :: "token + Message"
  xe_tcp :: conn_result
  xe_tcp_responses :: "(token + Message option) list"
  xe_done_at :: instant

record primary_env =
  pe_udp :: conn_result
  pe_soa_response :: "token + Message"
  pe_checked_at :: instant
  pe_xfr :: "nat \<Rightarrow> xfr_env"

definition conn_error ::
    "'t domain_api \<Rightarrow> string \<Rightarrow> socket_addr \<Rightarrow> token option \<Rightarrow> string \<Rightarrow> ZoneMaintainerError" where
  "conn_error D via addr key err = ConnectionError (''Connecting to '' @ d_show_addr D addr
     @ '' via '' @ via @ '' with key '' @ [CHR 0x27]
     @ (case key of Some k \<Rightarrow> d_show_key D k | None \<Rightarrow> ''NOKEY'') @ [CHR 0x27]
     @ '' failed: '' @ err)"

section \<open>One transfer\<close>

definition set_progress :: "nat \<Rightarrow> nat \<Rightarrow> 't ZoneMaintainer \<Rightarrow> 't ZoneMaintainer" where
  "set_progress r n m = (if n mod 10000 = 0 then
       (case tracking m (zone_id_at m r) of
          Some z \<Rightarrow> set_tracking (zone_id_at m r) (set_status (RefreshInProgress n) z) m
        | None \<Rightarrow> m)
     else m)"

text \<open>The loop over the updates of a response: the updater, and the number applied so far.\<close>

fun apply_updates :: "'t domain_api \<Rightarrow> nat \<Rightarrow> token option list \<Rightarrow> token \<Rightarrow> nat
    \<Rightarrow> 't ZoneMaintainer \<Rightarrow> (ZoneMaintainerError, token \<times> nat) outcome \<times> 't ZoneMaintainer" where
  "apply_updates D r [] u n m = (Ok (u, n), m)"
| "apply_updates D r (None # it) u n m = (Err (ProcessingError Malformed), m)"
| "apply_updates D r (Some update # it) u n m =
    (let res = d_updater_apply D u update (mz_store (zone_at m r));
         m1 = fold (apply_write D r) (ar_writes res) m
     in case ar_error res of
          Some err \<Rightarrow> (Err (ZoneUpdateError err), m1)
        | None \<Rightarrow> apply_updates D r it (ar_updater res) (n + 1) (set_progress r (n + 1) m1))"

text \<open>The loop over the responses of a TCP stream, until the interpreter has seen the end.\<close>

fun tcp_loop :: "'t domain_api \<Rightarrow> nat \<Rightarrow> (token + Message option) list \<Rightarrow> token \<Rightarrow> token \<Rightarrow> nat
    \<Rightarrow> 't ZoneMaintainer \<Rightarrow> (ZoneMaintainerError, unit) outcome \<times> 't ZoneMaintainer" where
  "tcp_loop D r [] i u n m =
     (if d_interp_finished D i then (Ok (), m) else (Err IncompleteResponse, m))"
| "tcp_loop D r (resp # resps) i u n m =
    (if d_interp_finished D i then (Ok (), m)
     else case resp of
       Inl err \<Rightarrow> (Err (RequestError err), m)
     | Inr None \<Rightarrow> (Err IncompleteResponse, m)
     | Inr (Some msg) \<Rightarrow>
         if msg_is_error msg then (Err (ResponseError (msg_opt_rcode msg)), m)
         else case d_interpret D i msg of
           Inl err \<Rightarrow> (Err (ProcessingError err), m)
         | Inr (i', it) \<Rightarrow> and_then (apply_updates D r it u n m)
             (\<lambda>(u', n') m'. tcp_loop D r resps i' u' n' m'))"

definition udp_xfr :: "'t domain_api \<Rightarrow> nat \<Rightarrow> token + Message \<Rightarrow> token \<Rightarrow> 't ZoneMaintainer
    \<Rightarrow> (ZoneMaintainerError, unit) outcome \<times> 't ZoneMaintainer" where
  "udp_xfr D r resp u m = (case resp of
      Inl err \<Rightarrow> (Err (RequestError err), m)
    | Inr msg \<Rightarrow>
        if msg_is_error msg then (Err (ResponseError (msg_opt_rcode msg)), m)
        else case d_interpret D (d_interp_new D) msg of
          Inl err \<Rightarrow> (Err (ProcessingError err), m)
        | Inr (i', it) \<Rightarrow> and_then (apply_updates D r it u 0 m) (\<lambda>_ m'.
            if d_interp_finished D i' then (Ok (), m') else (Err IncompleteResponse, m')))"

text \<open>Connecting for the transfer; a UDP connection is reused when there is one.\<close>

definition xfr_connect :: "'t domain_api \<Rightarrow> bool \<Rightarrow> TransportStrategy \<Rightarrow> socket_addr \<Rightarrow> token option
    \<Rightarrow> xfr_env \<Rightarrow> (ZoneMaintainerError, unit) outcome" where
  "xfr_connect D have_udp transport addr key env = (case transport of
      TransportNone \<Rightarrow> Panic
    | Udp \<Rightarrow> if have_udp then Ok () else (case xe_udp env of
          ConnFailed err \<Rightarrow> Err (conn_error D ''UDP'' addr key err)
        | NoConn \<Rightarrow> Err NoConnectionAvailable
        | Connected \<Rightarrow> Ok ())
    | Tcp \<Rightarrow> (case xe_tcp env of
          ConnFailed err \<Rightarrow> Err (conn_error D ''TCP'' addr key err)
        | NoConn \<Rightarrow> Err NoConnectionAvailable
        | Connected \<Rightarrow> Ok ()))"

text \<open>An IXFR request carries the SOA record of the zone; an AXFR request does not.\<close>

definition xfr_request_ready ::
    "'t domain_api \<Rightarrow> nat \<Rightarrow> rtype \<Rightarrow> 't ZoneMaintainer \<Rightarrow> (ZoneMaintainerError, unit) outcome" where
  "xfr_request_ready D r xfr_type m = (if xfr_type = Rtype_IXFR then
       (case read_soa D (mz_store (zone_at m r)) (mz_apex_name (zone_at m r)) of
          Ok (Some _) \<Rightarrow> Ok ()
        | Panic \<Rightarrow> Panic
        | _ \<Rightarrow> Err (InternalError ''Unable to read SOA for zone when preparing for IXFR in''))
     else Ok ())"

text \<open>Reading back the SOA record after the transfer.\<close>

definition soa_post_xfr :: "'t domain_api \<Rightarrow> nat \<Rightarrow> 't ZoneMaintainer
    \<Rightarrow> (ZoneMaintainerError, Soa) outcome \<times> 't ZoneMaintainer" where
  "soa_post_xfr D r m = (case read_soa D (mz_store (zone_at m r)) (mz_apex_name (zone_at m r)) of
      Ok (Some (soa, _)) \<Rightarrow> (Ok soa, m)
    | Ok None \<Rightarrow> (Err (InternalError ''SOA for zone missing post XFR in''), m)
    | Err _ \<Rightarrow> (Err (InternalError ''Unable to read SOA for zone post XFR in''), m)
    | Panic \<Rightarrow> (Panic, m))"

definition do_xfr :: "'t domain_api \<Rightarrow> bool \<Rightarrow> TransportStrategy \<Rightarrow> nat \<Rightarrow> socket_addr \<Rightarrow> rtype
    \<Rightarrow> token option \<Rightarrow> xfr_env \<Rightarrow> 't ZoneMaintainer
    \<Rightarrow> (ZoneMaintainerError, Soa) outcome \<times> 't ZoneMaintainer" where
  "do_xfr D have_udp transport r addr xfr_type key env m =
    and_then (xfr_request_ready D r xfr_type m, m) (\<lambda>_ m.
    and_then (case d_updater_new D (mz_store (zone_at m r)) of
        Inl e \<Rightarrow> Err (ZoneMaintainerError_from e) | Inr u \<Rightarrow> Ok u, m) (\<lambda>u m.
    and_then (xfr_connect D have_udp transport addr key env, m) (\<lambda>_ m.
    and_then (if transport = Udp then udp_xfr D r (xe_udp_response env) u m
        else tcp_loop D r (xe_tcp_responses env) (d_interp_new D) u 0 m) (\<lambda>_ m.
    soa_post_xfr D r m))))"

section \<open>Choosing and retrying the transfer\<close>

datatype xfr_choice = ChooseNone | ChooseBreak | Choose rtype

fun choose_rtype :: "XfrStrategy \<Rightarrow> nat \<Rightarrow> serial option \<Rightarrow> xfr_choice" where
  "choose_rtype StrategyNone i current_serial = ChooseNone"
| "choose_rtype AxfrOnly i current_serial = Choose Rtype_AXFR"
| "choose_rtype IxfrOnly i current_serial = Choose Rtype_IXFR"
| "choose_rtype IxfrWithAxfrFallback i current_serial =
    (if i = 0 then (case current_serial of
        Some _ \<Rightarrow> Choose Rtype_IXFR | None \<Rightarrow> Choose Rtype_AXFR)
     else if i = 1 then Choose Rtype_AXFR
     else ChooseBreak)"

definition xfr_transport :: "XfrConfig \<Rightarrow> rtype \<Rightarrow> TransportStrategy" where
  "xfr_transport cfg rt = (if rt = Rtype_AXFR then Tcp else xc_ixfr_transport cfg)"

text \<open>The loop \<open>for i in 0..=1\<close>, over the values of \<open>i\<close> that are left. The SOA connection is
  taken by the first transfer (\<open>have_udp\<close>).\<close>

fun xfr_attempts :: "'t domain_api \<Rightarrow> XfrConfig \<Rightarrow> primary_env \<Rightarrow> nat \<Rightarrow> socket_addr \<Rightarrow> token option
    \<Rightarrow> serial option \<Rightarrow> nat list \<Rightarrow> bool \<Rightarrow> 't ZoneMaintainer
    \<Rightarrow> (ZoneMaintainerError, Soa option) outcome \<times> 't ZoneMaintainer" where
  "xfr_attempts D cfg env r addr key current_serial [] have_udp m = (Ok None, m)"
| "xfr_attempts D cfg env r addr key current_serial (i # is) have_udp m =
    (case choose_rtype (xc_strategy cfg) i current_serial of
       ChooseNone \<Rightarrow> (Ok None, m)
     | ChooseBreak \<Rightarrow> (Ok None, m)
     | Choose rt \<Rightarrow>
        (if xfr_transport cfg rt = TransportNone
         then xfr_attempts D cfg env r addr key current_serial is have_udp m
         else (case do_xfr D have_udp (xfr_transport cfg rt) r addr rt key (pe_xfr env i) m of
             (Panic, m1) \<Rightarrow> (Panic, m1)
           | (res, m1) \<Rightarrow>
              (case tracking m1 (zone_id_at m1 r) of
                 None \<Rightarrow> (Err (InternalError ''Cannot find time tracking data for zone''), m1)
               | Some z \<Rightarrow>
                  (case res of
                     Ok new_soa \<Rightarrow> (Ok (Some new_soa), set_tracking (zone_id_at m1 r)
                       (refresh_succeeded (xe_done_at (pe_xfr env i)) new_soa z) m1)
                   | Err err \<Rightarrow>
                      if err = ResponseError OptRcode_NOTIMP \<and> rt = Rtype_IXFR
                      then xfr_attempts D cfg env r addr key current_serial is False m1
                      else (Err err, m1)
                   | Panic \<Rightarrow> (Panic, m1))))))"

section \<open>One primary\<close>

definition extract_response_soa_serial :: "Message \<Rightarrow> (ZoneMaintainerError, serial) outcome" where
  "extract_response_soa_serial msg = (if msg_no_error msg then
       (case msg_soa_answers msg of
          Some (Some soa # _) \<Rightarrow> Ok (soa_serial soa)
        | _ \<Rightarrow> Err (ResponseError (msg_opt_rcode msg)))
     else Err (ResponseError (msg_opt_rcode msg)))"

text \<open>The serial of the primary, by a SOA query over UDP.\<close>

definition primary_serial :: "'t domain_api \<Rightarrow> socket_addr \<Rightarrow> token option \<Rightarrow> primary_env
    \<Rightarrow> (ZoneMaintainerError, serial) outcome" where
  "primary_serial D addr key env = (case pe_udp env of
      ConnFailed err \<Rightarrow> Err (conn_error D ''UDP'' addr key err)
    | NoConn \<Rightarrow> Err NoConnectionAvailable
    | Connected \<Rightarrow> (case pe_soa_response env of
          Inl err \<Rightarrow> Err (ZoneMaintainerError_from_request err)
        | Inr msg \<Rightarrow> extract_response_soa_serial msg))"

definition newer_data :: "'t domain_api \<Rightarrow> serial option \<Rightarrow> serial \<Rightarrow> bool" where
  "newer_data D current_serial s = (case current_serial of Some v \<Rightarrow> d_slt D v s | None \<Rightarrow> True)"

definition refresh_zone_from_addr :: "'t domain_api \<Rightarrow> nat \<Rightarrow> serial option \<Rightarrow> socket_addr
    \<Rightarrow> XfrConfig \<Rightarrow> primary_env \<Rightarrow> 't ZoneMaintainer
    \<Rightarrow> (ZoneMaintainerError, Soa option) outcome \<times> 't ZoneMaintainer" where
  "refresh_zone_from_addr D r current_serial addr cfg env m =
    (let key = Option.bind (xc_tsig_key cfg) (\<lambda>(n, alg). d_get_key D n alg);
         zid = zone_id_at m r
     in and_then (primary_serial D addr key env, m) (\<lambda>s m.
        case tracking m zid of
          Some z \<Rightarrow>
            if \<not> newer_data D current_serial s
            then (Ok None, set_tracking zid (soa_serial_check_succeeded (pe_checked_at env) None z) m)
            else xfr_attempts D cfg env r addr key current_serial [0, 1] True
              (set_tracking zid (soa_serial_check_succeeded (pe_checked_at env) (Some s) z) m)
        | None \<Rightarrow> xfr_attempts D cfg env r addr key current_serial [0, 1] True m))"

section \<open>All primaries\<close>

text \<open>The loop over the addresses to visit. The visits are numbered, since an address may be
  visited twice and answer differently.\<close>

fun refresh_addrs :: "'t domain_api \<Rightarrow> (nat \<Rightarrow> primary_env) \<Rightarrow> nat \<Rightarrow> serial option
    \<Rightarrow> XfrConfig SrcDstConfig \<Rightarrow> socket_addr list \<Rightarrow> nat \<Rightarrow> nat \<Rightarrow> ZoneMaintainerError option
    \<Rightarrow> 't ZoneMaintainer \<Rightarrow> (ZoneMaintainerError, Soa option) outcome \<times> 't ZoneMaintainer" where
  "refresh_addrs D envs r current_serial request_xfr_from [] k num_ok saved_err m =
    (if num_ok > 0 then (Ok None, m)
     else (case saved_err of Some err \<Rightarrow> (Err err, m) | None \<Rightarrow> (Panic, m)))"
| "refresh_addrs D envs r current_serial request_xfr_from (a # as) k num_ok saved_err m =
    (case sdc_dst request_xfr_from a of
       None \<Rightarrow> refresh_addrs D envs r current_serial request_xfr_from as (k + 1) num_ok saved_err m
     | Some cfg \<Rightarrow>
        (case refresh_zone_from_addr D r current_serial a cfg (envs k) m of
           (Ok (Some soa), m1) \<Rightarrow> (Ok (Some soa), m1)
         | (Ok None, m1) \<Rightarrow> refresh_addrs D envs r current_serial request_xfr_from as (k + 1)
             (num_ok + 1) saved_err m1
         | (Err err, m1) \<Rightarrow> refresh_addrs D envs r current_serial request_xfr_from as (k + 1)
             num_ok (Some err) m1
         | (Panic, m1) \<Rightarrow> (Panic, m1)))"

definition recently_refreshed :: "instant \<Rightarrow> nat \<Rightarrow> 't ZoneMaintainer \<Rightarrow> bool" where
  "recently_refreshed now r m = (case tracking m (zone_id_at m r) of
      Some z \<Rightarrow> (case zrs_age now z of
          Some age \<Rightarrow> age < MIN_DURATION_BETWEEN_ZONE_REFRESHES | None \<Rightarrow> False)
    | None \<Rightarrow> False)"

definition refresh_zone :: "'t domain_api \<Rightarrow> instant \<Rightarrow> (nat \<Rightarrow> primary_env) \<Rightarrow> nat
    \<Rightarrow> socket_addr option \<Rightarrow> 't ZoneMaintainer
    \<Rightarrow> (ZoneMaintainerError, Soa option) outcome \<times> 't ZoneMaintainer" where
  "refresh_zone D now envs r initial_xfr_addr m =
    (if recently_refreshed now r m then (Ok None, m)
     else
       let request_xfr_from = zc_request_xfr_from (config_at m r)
       in and_then (map_err (\<lambda>_. InternalError
            ''Unable to read SOA for zone when checking if zone refresh is needed'')
            (read_soa D (mz_store (zone_at m r)) (mz_apex_name (zone_at m r))), m) (\<lambda>soa m.
          refresh_addrs D envs r (map_option (soa_serial \<circ> fst) soa) request_xfr_from
            ((case initial_xfr_addr of Some a \<Rightarrow> [a] | None \<Rightarrow> []) @ sdc_addrs request_xfr_from)
            0 0 None m))"

end
