(* ===== verification/Xfr_Props.thy ===== *)
theory Xfr_Props
  imports Xfr_In
begin

text \<open>
  What a refresh does: the parts of the state it leaves alone (\<open>zone_frame\<close>), the transfers
  each strategy makes, that it does not panic, and its result when the zone is up to date or a
  transfer succeeded.
\<close>

section \<open>What a refresh leaves alone\<close>

definition same_zone :: "MaintainedZone \<Rightarrow> MaintainedZone \<Rightarrow> bool" where
  "same_zone z z' \<longleftrightarrow> mz_id z' = mz_id z \<and> zi_config (mz_info z') = zi_config (mz_info z)
     \<and> zi_expired (mz_info z') = zi_expired (mz_info z)
     \<and> zi_nameservers (mz_info z') = zi_nameservers (mz_info z)"

definition local_change :: "Event \<Rightarrow> bool" where
  "local_change e \<longleftrightarrow> (\<exists>msg. e = ZoneChanged msg \<and> zcm_source msg = None)"

definition zone_frame :: "nat \<Rightarrow> 't ZoneMaintainer \<Rightarrow> 't ZoneMaintainer \<Rightarrow> bool" where
  "zone_frame r m m' \<longleftrightarrow>
     length (zm_heap m') = length (zm_heap m) \<and>
     (\<forall>i < length (zm_heap m). same_zone (zone_at m i) (zone_at m' i)
        \<and> (i \<noteq> r \<longrightarrow> zone_at m' i = zone_at m i)) \<and>
     zm_pending_zones m' = zm_pending_zones m \<and> zm_member_zones m' = zm_member_zones m \<and>
     zm_loaded_arc m' = zm_loaded_arc m \<and> zm_running m' = zm_running m \<and>
     zm_timers m' = zm_timers m \<and> zm_tasks m' = zm_tasks m \<and> zm_sent m' = zm_sent m \<and>
     zm_reports m' = zm_reports m \<and>
     (\<forall>i. (tracking m' i = None) = (tracking m i = None)) \<and>
     (\<forall>i. i \<noteq> zone_id_at m r \<longrightarrow> tracking m' i = tracking m i) \<and>
     (\<exists>evs. zm_events m' = zm_events m @ evs \<and> (\<forall>e \<in> set evs. local_change e))"

lemma same_zone_refl [simp]: "same_zone z z"
  by (simp add: same_zone_def)

lemma same_zone_trans: "same_zone a b \<Longrightarrow> same_zone b c \<Longrightarrow> same_zone a c"
  by (simp add: same_zone_def)

lemma zone_frame_refl [simp]: "zone_frame r m m"
  by (simp add: zone_frame_def)

lemma zone_frame_id: "zone_frame r m m' \<Longrightarrow> r < length (zm_heap m) \<Longrightarrow>
  zone_id_at m' r = zone_id_at m r \<and> config_at m' r = config_at m r
    \<and> r < length (zm_heap m')"
  by (auto simp: zone_frame_def same_zone_def zone_id_at_def config_at_def)

lemma zone_frame_trans [trans]:
  assumes "zone_frame r a b" "zone_frame r b c" "r < length (zm_heap a)"
  shows "zone_frame r a c"
proof -
  have "zone_id_at b r = zone_id_at a r" using zone_frame_id [OF assms(1,3)] by simp
  moreover obtain e1 where "zm_events b = zm_events a @ e1" "\<forall>e \<in> set e1. local_change e"
    using assms(1) by (auto simp: zone_frame_def)
  moreover obtain e2 where "zm_events c = zm_events b @ e2" "\<forall>e \<in> set e2. local_change e"
    using assms(2) by (auto simp: zone_frame_def)
  ultimately have ev: "\<exists>evs. zm_events c = zm_events a @ evs \<and> (\<forall>e \<in> set evs. local_change e)"
    by (intro exI [of _ "e1 @ e2"]) auto
  show ?thesis
    using assms ev \<open>zone_id_at b r = zone_id_at a r\<close>
    by (auto simp: zone_frame_def intro: same_zone_trans)
qed

lemma tracking_set [simp]:
  "tracking (set_tracking i z m) j = (if j = i then Some z else tracking m j)"
  by (simp add: tracking_def set_tracking_def)

lemma set_tracking_simps [simp]:
  "zm_heap (set_tracking i z m) = zm_heap m" "zone_at (set_tracking i z m) = zone_at m"
  "zone_id_at (set_tracking i z m) = zone_id_at m" "config_at (set_tracking i z m) = config_at m"
  "zm_events (set_tracking i z m) = zm_events m"
  by (auto simp: set_tracking_def zone_at_def zone_id_at_def config_at_def)

lemma frame_set_tracking:
  "tracking m (zone_id_at m r) \<noteq> None \<Longrightarrow> zone_frame r m (set_tracking (zone_id_at m r) z m)"
  by (auto simp: zone_frame_def) (simp_all add: set_tracking_def)

lemma frame_commit: "r < length (zm_heap m) \<Longrightarrow> zone_frame r m (wmz_commit D r c m)"
  by (auto simp: zone_frame_def wmz_commit_def Let_def send_event_def set_zone_def map_info_def
      add_diff_def zone_at_def same_zone_def mz_id_def tracking_def local_change_def nth_list_update
      split: option.splits)

lemma frame_write: "r < length (zm_heap m) \<Longrightarrow> zone_frame r m (apply_write D r w m)"
proof (cases w)
  case (Written st)
  then show "r < length (zm_heap m) \<Longrightarrow> ?thesis"
    by (auto simp: zone_frame_def set_zone_def zone_at_def same_zone_def mz_id_def tracking_def
        local_change_def nth_list_update)
qed (simp add: frame_commit)

lemma frame_writes: "r < length (zm_heap m) \<Longrightarrow> zone_frame r m (fold (apply_write D r) ws m)"
proof (induction ws arbitrary: m)
  case Nil
  then show ?case by simp
next
  case (Cons w ws)
  note f = frame_write [OF Cons.prems, of D w]
  have "zone_frame r (apply_write D r w m) (fold (apply_write D r) ws (apply_write D r w m))"
    using Cons.IH zone_frame_id [OF f Cons.prems] by blast
  then show ?case using zone_frame_trans [OF f _ Cons.prems] by simp
qed

lemma frame_progress: "zone_frame r m (set_progress r n m)"
  by (auto simp: set_progress_def split: option.splits intro: frame_set_tracking)

lemma frame_updates:
  "r < length (zm_heap m) \<Longrightarrow> zone_frame r m (snd (apply_updates D r it u n m))"
proof (induction D r it u n m rule: apply_updates.induct)
  case (3 D r upd it u n m)
  let ?res = "d_updater_apply D u upd (mz_store (zone_at m r))"
  let ?m1 = "fold (apply_write D r) (ar_writes ?res) m"
  have f1: "zone_frame r m ?m1" using 3(2) by (rule frame_writes)
  have f2: "zone_frame r m (set_progress r (n + 1) ?m1)"
    using zone_frame_trans [OF f1 frame_progress 3(2)] .
  show ?case
  proof (cases "ar_error ?res")
    case None
    then have "zone_frame r (set_progress r (n + 1) ?m1)
        (snd (apply_updates D r it (ar_updater ?res) (n + 1) (set_progress r (n + 1) ?m1)))"
      using 3(1) zone_frame_id [OF f2 3(2)] by (simp add: Let_def)
    then show ?thesis using zone_frame_trans [OF f2 _ 3(2)] None by (simp add: Let_def)
  qed (use f1 in \<open>simp add: Let_def\<close>)
qed auto

lemma frame_and_then:
  assumes "zone_frame r m (snd p)" "r < length (zm_heap m)"
    "\<And>a. fst p = Ok a \<Longrightarrow> zone_frame r (snd p) (snd (f a (snd p)))"
  shows "zone_frame r m (snd (and_then p f))"
proof -
  obtain res m1 where p: "p = (res, m1)" by (cases p)
  show ?thesis
    using assms zone_frame_trans [OF assms(1) _ assms(2)] by (cases res) (auto simp: p)
qed

lemma frame_tcp: "r < length (zm_heap m) \<Longrightarrow> zone_frame r m (snd (tcp_loop D r resps i u n m))"
proof (induction resps arbitrary: i u n m)
  case Nil
  then show ?case by simp
next
  case (Cons resp resps)
  have "zone_frame r m (snd (and_then (apply_updates D r it u n m)
      (\<lambda>(u', n') m'. tcp_loop D r resps i' u' n' m')))" for it i'
    using frame_updates [OF Cons.prems, of D it u n] Cons.IH
      zone_frame_id [OF frame_updates [OF Cons.prems, of D it u n] Cons.prems]
    by (intro frame_and_then [OF _ Cons.prems]) (auto split: prod.splits)
  then show ?case by (auto split: sum.splits option.splits)
qed

lemma frame_udp: "r < length (zm_heap m) \<Longrightarrow> zone_frame r m (snd (udp_xfr D r resp u m))"
  by (auto simp: udp_xfr_def split: sum.splits intro!: frame_and_then frame_updates)

lemma snd_soa_post [simp]: "snd (soa_post_xfr D r m) = m"
  by (auto simp: soa_post_xfr_def split: outcome.splits option.splits)

lemma frame_do_xfr:
  "r < length (zm_heap m) \<Longrightarrow> zone_frame r m (snd (do_xfr D have_udp tr r addr rt key env m))"
  unfolding do_xfr_def
  by (intro frame_and_then) (auto simp: frame_udp frame_tcp)

lemma do_xfr_no_panic:
  assumes "rrsets_nonempty D" "tr \<noteq> TransportNone"
  shows "fst (do_xfr D have_udp tr r addr rt key env m) \<noteq> Panic"
proof -
  have upd: "fst (apply_updates D r it u n s) \<noteq> Panic" for it u n and s :: "'a ZoneMaintainer"
    by (induction D r it u n s rule: apply_updates.induct) (auto simp: Let_def split: option.splits)
  have tcp: "fst (tcp_loop D r resps i u n s) \<noteq> Panic" for resps i u n and s :: "'a ZoneMaintainer"
    by (induction resps arbitrary: i u n s)
      (auto split: sum.splits option.splits prod.splits dest!: and_then_PanicD simp: upd)
  have udp: "fst (udp_xfr D r resp u s) \<noteq> Panic" for resp u and s :: "'a ZoneMaintainer"
    by (auto simp: udp_xfr_def split: sum.splits if_splits dest!: and_then_PanicD simp: upd)
  have ready: "xfr_request_ready D r rt m \<noteq> Panic" for m :: "'a ZoneMaintainer"
    using read_soa_no_panic [OF assms(1)]
    by (auto simp: xfr_request_ready_def split: outcome.splits option.splits)
  have conn: "xfr_connect D have_udp tr addr key env \<noteq> Panic"
    using assms(2) by (auto simp: xfr_connect_def split: TransportStrategy.splits conn_result.splits)
  have post: "fst (soa_post_xfr D r s) \<noteq> Panic" for s :: "'a ZoneMaintainer"
    using read_soa_no_panic [OF assms(1)]
    by (auto simp: soa_post_xfr_def split: outcome.splits option.splits)
  show ?thesis unfolding do_xfr_def
    by (auto simp: ready conn udp tcp post split: sum.splits if_splits dest!: and_then_PanicD)
qed

section \<open>The transfers a strategy makes\<close>

text \<open>One transfer and what the loop does with its result; \<open>retry\<close> is what follows a
  NOTIMP answer to an IXFR request.\<close>

definition one_transfer :: "'t domain_api \<Rightarrow> XfrConfig \<Rightarrow> primary_env \<Rightarrow> nat \<Rightarrow> socket_addr
    \<Rightarrow> token option \<Rightarrow> bool \<Rightarrow> nat \<Rightarrow> rtype
    \<Rightarrow> ('t ZoneMaintainer \<Rightarrow> (ZoneMaintainerError, Soa option) outcome \<times> 't ZoneMaintainer)
    \<Rightarrow> 't ZoneMaintainer \<Rightarrow> (ZoneMaintainerError, Soa option) outcome \<times> 't ZoneMaintainer" where
  "one_transfer D cfg env r addr key have_udp i rt retry m =
    (case do_xfr D have_udp (xfr_transport cfg rt) r addr rt key (pe_xfr env i) m of
       (Panic, m1) \<Rightarrow> (Panic, m1)
     | (res, m1) \<Rightarrow>
        (case tracking m1 (zone_id_at m1 r) of
           None \<Rightarrow> (Err (InternalError ''Cannot find time tracking data for zone''), m1)
         | Some z \<Rightarrow>
            (case res of
               Ok new_soa \<Rightarrow> (Ok (Some new_soa), set_tracking (zone_id_at m1 r)
                 (refresh_succeeded (xe_done_at (pe_xfr env i)) new_soa z) m1)
             | Err err \<Rightarrow>
                if err = ResponseError OptRcode_NOTIMP \<and> rt = Rtype_IXFR then retry m1
                else (Err err, m1)
             | Panic \<Rightarrow> (Panic, m1))))"

text \<open>What each strategy means, without a loop. IXFR is skipped when its transport is disabled.\<close>

fun transfer_by_strategy :: "'t domain_api \<Rightarrow> XfrConfig \<Rightarrow> primary_env \<Rightarrow> nat \<Rightarrow> socket_addr
    \<Rightarrow> token option \<Rightarrow> serial option \<Rightarrow> XfrStrategy \<Rightarrow> 't ZoneMaintainer
    \<Rightarrow> (ZoneMaintainerError, Soa option) outcome \<times> 't ZoneMaintainer" where
  "transfer_by_strategy D cfg env r addr key serial StrategyNone m = (Ok None, m)"
| "transfer_by_strategy D cfg env r addr key serial AxfrOnly m =
     one_transfer D cfg env r addr key True 0 Rtype_AXFR (\<lambda>m. (Ok None, m)) m"
| "transfer_by_strategy D cfg env r addr key serial IxfrOnly m =
     (if xc_ixfr_transport cfg = TransportNone then (Ok None, m)
      else one_transfer D cfg env r addr key True 0 Rtype_IXFR
        (one_transfer D cfg env r addr key False 1 Rtype_IXFR (\<lambda>m. (Ok None, m))) m)"
| "transfer_by_strategy D cfg env r addr key serial IxfrWithAxfrFallback m =
     (if serial = None
      then one_transfer D cfg env r addr key True 0 Rtype_AXFR (\<lambda>m. (Ok None, m)) m
      else if xc_ixfr_transport cfg = TransportNone
      then one_transfer D cfg env r addr key True 1 Rtype_AXFR (\<lambda>m. (Ok None, m)) m
      else one_transfer D cfg env r addr key True 0 Rtype_IXFR
        (one_transfer D cfg env r addr key False 1 Rtype_AXFR (\<lambda>m. (Ok None, m))) m)"

lemma one_transfer_axfr_retry:
  "one_transfer D cfg env r addr key h i Rtype_AXFR f = one_transfer D cfg env r addr key h i Rtype_AXFR g"
  by (rule ext) (simp add: one_transfer_def split: prod.split outcome.split option.split)

lemma xfr_attempts_one_transfer:
  assumes "choose_rtype (xc_strategy cfg) i serial = Choose rt" "xfr_transport cfg rt \<noteq> TransportNone"
  shows "xfr_attempts D cfg env r addr key serial (i # is) h m =
    one_transfer D cfg env r addr key h i rt (xfr_attempts D cfg env r addr key serial is False) m"
  using assms by (simp add: one_transfer_def split: prod.split outcome.split option.split)

text \<open>C27: the loop over at most two attempts makes exactly the transfers its strategy stands for:
  nothing, AXFR once, IXFR (asked a second time when the primary does not implement it), or IXFR
  and then AXFR when IXFR is not implemented, has no transport or the zone has no serial yet.\<close>

theorem xfr_attempts_by_strategy:
  "xfr_attempts D cfg env r addr key serial [0, 1] True m =
   transfer_by_strategy D cfg env r addr key serial (xc_strategy cfg) m"
proof -
  have axfr: "xfr_transport cfg Rtype_AXFR = Tcp"
    and ixfr: "xfr_transport cfg Rtype_IXFR = xc_ixfr_transport cfg"
    by (simp_all add: xfr_transport_def)
  have nil: "xfr_attempts D cfg env r addr key serial [] False = (\<lambda>m. (Ok None, m))"
    by (rule ext) simp
  note one = xfr_attempts_one_transfer [where cfg = cfg]
  show ?thesis
  proof (cases "xc_strategy cfg")
    case AxfrOnly
    then show ?thesis
      by (subst one) (auto simp: axfr simp del: xfr_attempts.simps intro!: fun_cong [OF one_transfer_axfr_retry])
  next
    case IxfrOnly
    have "xfr_attempts D cfg env r addr key serial [1] False =
        one_transfer D cfg env r addr key False 1 Rtype_IXFR (\<lambda>m. (Ok None, m))"
      if "xc_ixfr_transport cfg \<noteq> TransportNone"
      using that IxfrOnly by (intro ext, subst one) (auto simp: ixfr nil simp del: xfr_attempts.simps)
    then show ?thesis using IxfrOnly
      by (cases "xc_ixfr_transport cfg = TransportNone")
        (simp add: ixfr, subst one, auto simp: ixfr simp del: xfr_attempts.simps)
  next
    case IxfrWithAxfrFallback
    have a: "xfr_attempts D cfg env r addr key serial [1] h =
        one_transfer D cfg env r addr key h 1 Rtype_AXFR (\<lambda>m. (Ok None, m))" for h
      using IxfrWithAxfrFallback
      by (intro ext, subst one) (auto simp: axfr nil simp del: xfr_attempts.simps)
    show ?thesis
    proof (cases serial)
      case None
      then show ?thesis using IxfrWithAxfrFallback
        by (subst one) (auto simp: axfr simp del: xfr_attempts.simps intro!: fun_cong [OF one_transfer_axfr_retry])
    next
      case (Some s)
      show ?thesis
      proof (cases "xc_ixfr_transport cfg = TransportNone")
        case True
        then have "xfr_attempts D cfg env r addr key serial [0, 1] True m =
            xfr_attempts D cfg env r addr key serial [1] True m"
          using IxfrWithAxfrFallback Some by (simp add: ixfr)
        then show ?thesis using IxfrWithAxfrFallback Some True a
          by (simp del: xfr_attempts.simps)
      next
        case False
        then show ?thesis using IxfrWithAxfrFallback Some
          by (subst one)
            (auto simp: ixfr a [of False, unfolded Some One_nat_def] simp del: xfr_attempts.simps)
      qed
    qed
  qed simp
qed

section \<open>The result of a refresh\<close>

text \<open>The zone holds the SOA record and the bookkeeping says so.\<close>

definition refreshed_to :: "'t domain_api \<Rightarrow> nat \<Rightarrow> Soa \<Rightarrow> 't ZoneMaintainer \<Rightarrow> bool" where
  "refreshed_to D r soa m \<longleftrightarrow>
     (\<exists>ttl. read_soa D (mz_store (zone_at m r)) (mz_apex_name (zone_at m r)) = Ok (Some (soa, ttl))) \<and>
     (\<exists>z. tracking m (zone_id_at m r) = Some z \<and> zrs_refresh z = soa_refresh soa
        \<and> zrs_retry z = soa_retry soa \<and> zrs_expire z = soa_expire soa
        \<and> last_refresh_succeeded_serial (zrs_metrics z) = Some (soa_serial soa)
        \<and> last_refreshed_at (zrs_metrics z) \<noteq> None)"

lemma and_then_OkD:
  "fst (and_then p f) = Ok b \<Longrightarrow> \<exists>a. and_then p f = f a (snd p) \<and> fst (f a (snd p)) = Ok b"
proof (cases p)
  case (Pair res s)
  then show "fst (and_then p f) = Ok b \<Longrightarrow>
      \<exists>a. and_then p f = f a (snd p) \<and> fst (f a (snd p)) = Ok b"
    by (cases res) auto
qed

lemma do_xfr_Ok_soa:
  assumes "fst (do_xfr D h tr r addr rt key env m) = Ok soa"
  shows "\<exists>m'. do_xfr D h tr r addr rt key env m = soa_post_xfr D r m'"
proof -
  note d = and_then_OkD [OF assms [unfolded do_xfr_def]]
  then show ?thesis
    unfolding do_xfr_def by (elim exE conjE) (simp only:, drule and_then_OkD, elim exE conjE,
      simp only:, drule and_then_OkD, elim exE conjE, simp only:, drule and_then_OkD,
      elim exE conjE, simp only:, blast)
qed

lemma do_xfr_Ok_read:
  assumes "do_xfr D h tr r addr rt key env m = (Ok soa, m1)"
  shows "\<exists>ttl. read_soa D (mz_store (zone_at m1 r)) (mz_apex_name (zone_at m1 r)) = Ok (Some (soa, ttl))"
proof -
  have "fst (do_xfr D h tr r addr rt key env m) = Ok soa" using assms by simp
  from do_xfr_Ok_soa [OF this] obtain m' where "soa_post_xfr D r m' = (Ok soa, m1)"
    using assms by auto
  then show ?thesis by (auto simp: soa_post_xfr_def split: outcome.splits option.splits)
qed

lemma one_transfer_cases:
  assumes "r < length (zm_heap m)" "rrsets_nonempty D" "xfr_transport cfg rt \<noteq> TransportNone"
    and retry: "\<And>m1. zone_frame r m m1 \<Longrightarrow> Q (retry m1)"
    and ok: "\<And>m2 soa. zone_frame r m m2 \<Longrightarrow> refreshed_to D r soa m2 \<Longrightarrow> Q (Ok (Some soa), m2)"
    and err: "\<And>m2 e. zone_frame r m m2 \<Longrightarrow> Q (Err e, m2)"
  shows "Q (one_transfer D cfg env r addr key h i rt retry m)"
proof -
  let ?x = "do_xfr D h (xfr_transport cfg rt) r addr rt key (pe_xfr env i) m"
  obtain res m1 where x: "?x = (res, m1)" by (cases ?x)
  have f: "zone_frame r m m1" using frame_do_xfr [OF assms(1)] x by (metis snd_conv)
  have np: "res \<noteq> Panic" using do_xfr_no_panic [OF assms(2,3)] x by (metis fst_conv)
  show ?thesis
  proof (cases "tracking m1 (zone_id_at m1 r)")
    case None
    then show ?thesis using x np err [OF f] by (cases res) (auto simp: one_transfer_def)
  next
    case (Some z)
    show ?thesis
    proof (cases res)
      case (Ok soa)
      let ?m2 = "set_tracking (zone_id_at m1 r) (refresh_succeeded (xe_done_at (pe_xfr env i)) soa z) m1"
      have "zone_frame r m1 ?m2" using Some by (intro frame_set_tracking) simp
      then have f2: "zone_frame r m ?m2" using zone_frame_trans [OF f _ assms(1)] by blast
      have "refreshed_to D r soa ?m2"
        using do_xfr_Ok_read [of D h _ r addr rt key "pe_xfr env i" m soa m1] x Ok
        by (simp add: refreshed_to_def refresh_succeeded_def set_status_def)
      then show ?thesis using ok [OF f2] x Ok Some by (simp add: one_transfer_def)
    next
      case (Err e)
      then show ?thesis using x Some err [OF f] retry [OF f] by (simp add: one_transfer_def)
    qed (use np in simp)
  qed
qed

text \<open>A fact about results and states that holds of every attempt holds of the loop.\<close>

definition refresh_post :: "'t domain_api \<Rightarrow> nat \<Rightarrow> 't ZoneMaintainer
    \<Rightarrow> (ZoneMaintainerError, Soa option) outcome \<times> 't ZoneMaintainer \<Rightarrow> bool" where
  "refresh_post D r m p \<longleftrightarrow> fst p \<noteq> Panic \<and> zone_frame r m (snd p)
     \<and> (\<forall>soa. fst p = Ok (Some soa) \<longrightarrow> refreshed_to D r soa (snd p))"

lemma refresh_post_simps [simp]:
  "refresh_post D r m (Err e, m') \<longleftrightarrow> zone_frame r m m'"
  "refresh_post D r m (Ok None, m') \<longleftrightarrow> zone_frame r m m'"
  "refresh_post D r m (Ok (Some soa), m') \<longleftrightarrow> zone_frame r m m' \<and> refreshed_to D r soa m'"
  "\<not> refresh_post D r m (Panic, m')"
  by (auto simp: refresh_post_def)

lemma refresh_post_trans:
  "zone_frame r m m1 \<Longrightarrow> refresh_post D r m1 p \<Longrightarrow> r < length (zm_heap m) \<Longrightarrow> refresh_post D r m p"
  by (auto simp: refresh_post_def intro: zone_frame_trans)

lemma attempts_post:
  assumes "r < length (zm_heap m)" "rrsets_nonempty D"
  shows "refresh_post D r m (xfr_attempts D cfg env r addr key serial is h m)"
  using assms(1)
proof (induction "is" arbitrary: h m)
  case Nil
  then show ?case by simp
next
  case (Cons i "is")
  show ?case
  proof (cases "choose_rtype (xc_strategy cfg) i serial")
    case (Choose rt)
    show ?thesis
    proof (cases "xfr_transport cfg rt = TransportNone")
      case False
      have "refresh_post D r m (one_transfer D cfg env r addr key h i rt
          (xfr_attempts D cfg env r addr key serial is False) m)"
      proof (rule one_transfer_cases [OF Cons.prems assms(2) False, where Q = "refresh_post D r m"])
        fix m1 assume f: "zone_frame r m m1"
        show "refresh_post D r m (xfr_attempts D cfg env r addr key serial is False m1)"
          using refresh_post_trans [OF f Cons.IH Cons.prems] zone_frame_id [OF f Cons.prems] by blast
      qed simp_all
      then show ?thesis by (subst xfr_attempts_one_transfer [OF Choose False])
    qed (use Choose Cons in simp)
  qed simp_all
qed

lemma addr_post:
  assumes "r < length (zm_heap m)" "rrsets_nonempty D"
  shows "refresh_post D r m (refresh_zone_from_addr D r serial addr cfg env m)"
proof -
  have s: "primary_serial D addr key env \<noteq> Panic" for key
    by (auto simp: primary_serial_def extract_response_soa_serial_def
        split: conn_result.splits sum.splits option.splits list.splits)
  have t: "refresh_post D r m (xfr_attempts D cfg env r addr key serial [0, 1] True
      (set_tracking (zone_id_at m r) z m))" if "tracking m (zone_id_at m r) = Some z'" for key z z'
  proof (rule refresh_post_trans [OF frame_set_tracking _ assms(1)])
    show "refresh_post D r (set_tracking (zone_id_at m r) z m)
        (xfr_attempts D cfg env r addr key serial [0, 1] True (set_tracking (zone_id_at m r) z m))"
      using assms by (intro attempts_post) simp_all
  qed (use that in simp)
  let ?key = "Option.bind (xc_tsig_key cfg) (\<lambda>(n, alg). d_get_key D n alg)"
  note def = refresh_zone_from_addr_def [of D r serial addr cfg env m, unfolded Let_def]
  show ?thesis
  proof (cases "primary_serial D addr ?key env")
    case (Ok p)
    show ?thesis
    proof (cases "tracking m (zone_id_at m r)")
      case None
      then show ?thesis
        using Ok attempts_post [OF assms] by (simp add: def del: xfr_attempts.simps)
    next
      case (Some z)
      then show ?thesis using Ok t [OF Some] frame_set_tracking [of m r]
        by (simp add: def del: xfr_attempts.simps)
    qed
  qed (use s [of ?key] in \<open>simp_all add: def\<close>)
qed

lemma addrs_post:
  assumes "rrsets_nonempty D"
  shows "r < length (zm_heap m) \<Longrightarrow>
    num_ok > 0 \<or> saved \<noteq> None \<or> (\<exists>a \<in> set as. sdc_dst req a \<noteq> None) \<Longrightarrow>
    refresh_post D r m (refresh_addrs D envs r serial req as k num_ok saved m)"
proof (induction as arbitrary: k num_ok saved m)
  case Nil
  then show ?case by (auto split: option.splits)
next
  case (Cons a as)
  show ?case
  proof (cases "sdc_dst req a")
    case None
    then show ?thesis using Cons by auto
  next
    case (Some cfg)
    obtain res m1 where p: "refresh_zone_from_addr D r serial a cfg (envs k) m = (res, m1)"
      by (cases "refresh_zone_from_addr D r serial a cfg (envs k) m")
    have post: "refresh_post D r m (res, m1)"
      using addr_post [OF Cons.prems(1) assms] p by metis
    then have f: "zone_frame r m m1" by (simp add: refresh_post_def)
    note IH = refresh_post_trans [OF f Cons.IH Cons.prems(1)]
    show ?thesis
    proof (cases res)
      case (Ok so)
      then show ?thesis using Some p post IH zone_frame_id [OF f Cons.prems(1)]
        by (cases so) auto
    next
      case (Err e)
      then show ?thesis using Some p IH zone_frame_id [OF f Cons.prems(1)] by auto
    qed (use post in simp)
  qed
qed

lemma refresh_zone_post:
  assumes "rrsets_nonempty D" "r < length (zm_heap m)" "is_secondary (config_at m r)"
  shows "refresh_post D r m (refresh_zone D now envs r initial m)"
proof -
  have "\<exists>a \<in> set ((case initial of Some a \<Rightarrow> [a] | None \<Rightarrow> []) @ sdc_addrs (zc_request_xfr_from (config_at m r))).
      sdc_dst (zc_request_xfr_from (config_at m r)) a \<noteq> None"
  proof -
    let ?c = "zc_request_xfr_from (config_at m r)"
    have "hd (sdc_addrs ?c) \<in> set (sdc_addrs ?c)"
      using assms(3) by (simp add: is_secondary_addrs)
    then show ?thesis using sdc_dst_in_addrs [of ?c "hd (sdc_addrs ?c)"] by auto
  qed
  then have "refresh_post D r m (refresh_addrs D envs r serial (zc_request_xfr_from (config_at m r))
      ((case initial of Some a \<Rightarrow> [a] | None \<Rightarrow> []) @ sdc_addrs (zc_request_xfr_from (config_at m r)))
      0 0 None m)" for serial
    by (intro addrs_post [OF assms(1,2)]) simp
  moreover have "read_soa D st q \<noteq> Panic" for st q using read_soa_no_panic [OF assms(1)] .
  ultimately show ?thesis
    unfolding refresh_zone_def Let_def
    by (cases "read_soa D (mz_store (zone_at m r)) (mz_apex_name (zone_at m r))") auto
qed

text \<open>C26: refreshing a secondary zone never panics (the error unwrapped at the end is always
  there), and when it returns a new SOA record the zone has that very record and the bookkeeping its
  serial and timers; the configuration, the identity and the expired flag of the zone, all other
  zones and the timers stay as they were, and only local changes are announced.\<close>

theorem refresh_zone_result:
  assumes "rrsets_nonempty D" "r < length (zm_heap m)" "is_secondary (config_at m r)"
    and "refresh_zone D now envs r initial m = (res, m')"
  shows "res \<noteq> Panic \<and> zone_frame r m m' \<and> (\<forall>soa. res = Ok (Some soa) \<longrightarrow> refreshed_to D r soa m')"
  using refresh_zone_post [OF assms(1-3), of now envs initial] assms(4)
  by (simp add: refresh_post_def)

definition demo_response :: "nat \<Rightarrow> Message" where
  "demo_response n = \<lparr>msg_no_error = True, msg_is_error = False, msg_opt_rcode = 0,
     msg_soa_answers = Some [Some (demo_soa n)], msg_octets = n\<rparr>"

definition demo_xfr_env :: "nat \<Rightarrow> xfr_env" where
  "demo_xfr_env n = \<lparr>xe_udp = Connected, xe_udp_response = Inr (demo_response n), xe_tcp = Connected,
     xe_tcp_responses = [Inr (Some (demo_response n))], xe_done_at = 30\<rparr>"

definition demo_env :: "nat \<Rightarrow> nat \<Rightarrow> primary_env" where
  "demo_env n k = \<lparr>pe_udp = Connected, pe_soa_response = Inr (demo_response n), pe_checked_at = 20,
     pe_xfr = (\<lambda>i. demo_xfr_env n)\<rparr>"

theorem refresh_zone_result_witness:
  "fst (refresh_zone demo_api 10 (demo_env 5) 0 None
     (demo_maintainer demo_config 3 (ZoneRefreshState_default 0))) \<noteq> Panic"
proof -
  let ?p = "refresh_zone demo_api 10 (demo_env 5) 0 None
     (demo_maintainer demo_config 3 (ZoneRefreshState_default 0))"
  have "fst ?p \<noteq> Panic \<and> zone_frame 0 (demo_maintainer demo_config 3 (ZoneRefreshState_default 0)) (snd ?p)
      \<and> (\<forall>soa. fst ?p = Ok (Some soa) \<longrightarrow> refreshed_to demo_api 0 soa (snd ?p))"
    by (rule refresh_zone_result [OF _ _ _ prod.collapse [symmetric]]) simp_all
  then show ?thesis by blast
qed

section \<open>Zones that are up to date\<close>

definition only_checked :: "ZoneRefreshState \<Rightarrow> ZoneRefreshState \<Rightarrow> bool" where
  "only_checked z z' \<longleftrightarrow> (\<exists>at. z' = z\<lparr>zrs_metrics :=
     (zrs_metrics z)\<lparr>last_soa_serial_check_succeeded_at := at\<rparr>\<rparr>)"

text \<open>Only the record of the last check of this zone differs.\<close>

definition checked :: "nat \<Rightarrow> 't ZoneMaintainer \<Rightarrow> 't ZoneMaintainer \<Rightarrow> bool" where
  "checked r m m' \<longleftrightarrow> m'\<lparr>zm_time_tracking := zm_time_tracking m\<rparr> = m \<and>
     (\<forall>i. i \<noteq> zone_id_at m r \<longrightarrow> tracking m' i = tracking m i) \<and>
     (\<exists>z z'. tracking m (zone_id_at m r) = Some z \<and> tracking m' (zone_id_at m r) = Some z'
        \<and> only_checked z z')"

lemma checked_heap: "checked r m m' \<Longrightarrow> zm_heap m' = zm_heap m"
  by (cases m; cases m') (simp add: checked_def)

lemma checked_simps:
  assumes "checked r m m'"
  shows "zone_id_at m' r = zone_id_at m r" "zone_at m' = zone_at m"
  using checked_heap [OF assms] by (auto simp: zone_id_at_def zone_at_def)

lemma only_checked_trans: "only_checked a b \<Longrightarrow> only_checked b c \<Longrightarrow> only_checked a c"
  by (cases a) (auto simp: only_checked_def)

lemma checked_trans: "checked r a b \<Longrightarrow> checked r b c \<Longrightarrow> checked r a c"
  using checked_simps [of r a b] by (cases a; cases b; cases c)
    (auto simp: checked_def intro: only_checked_trans)

lemma addr_up_to_date:
  assumes "primary_serial D a (Option.bind (xc_tsig_key cfg) (\<lambda>(n, alg). d_get_key D n alg)) env = Ok s"
    and "\<not> newer_data D serial s" "tracking m (zone_id_at m r) = Some z"
  shows "fst (refresh_zone_from_addr D r serial a cfg env m) = Ok None
    \<and> checked r m (snd (refresh_zone_from_addr D r serial a cfg env m))"
  using assms by (simp add: refresh_zone_from_addr_def Let_def checked_def only_checked_def
      soa_serial_check_succeeded_def) (auto simp: set_tracking_def)

definition all_up_to_date ::
    "'t domain_api \<Rightarrow> serial option \<Rightarrow> (nat \<Rightarrow> primary_env) \<Rightarrow> bool" where
  "all_up_to_date D serial envs \<longleftrightarrow>
     (\<forall>k a key. \<exists>s. primary_serial D a key (envs k) = Ok s \<and> \<not> newer_data D serial s)"

lemma only_checked_refl: "only_checked z z"
  unfolding only_checked_def
  by (rule exI [of _ "last_soa_serial_check_succeeded_at (zrs_metrics z)"]) (cases z, simp)

lemma checked_refl: "tracking m (zone_id_at m r) \<noteq> None \<Longrightarrow> checked r m m"
  using only_checked_refl by (auto simp: checked_def)

lemma addrs_up_to_date:
  assumes "all_up_to_date D serial envs"
  shows "tracking m (zone_id_at m r) \<noteq> None \<Longrightarrow>
    num_ok > 0 \<or> (\<exists>a \<in> set as. sdc_dst req a \<noteq> None) \<Longrightarrow>
    fst (refresh_addrs D envs r serial req as k num_ok saved m) = Ok None \<and>
    checked r m (snd (refresh_addrs D envs r serial req as k num_ok saved m))"
proof (induction as arbitrary: k num_ok m)
  case Nil
  then show ?case using checked_refl [OF Nil.prems(1)] by simp
next
  case (Cons a as)
  show ?case
  proof (cases "sdc_dst req a")
    case None
    then show ?thesis using Cons by simp
  next
    case (Some cfg)
    obtain z where z: "tracking m (zone_id_at m r) = Some z" using Cons.prems(1) by auto
    let ?p = "refresh_zone_from_addr D r serial a cfg (envs k) m"
    obtain s where "primary_serial D a (Option.bind (xc_tsig_key cfg) (\<lambda>(n, alg). d_get_key D n alg))
        (envs k) = Ok s" "\<not> newer_data D serial s"
      using assms unfolding all_up_to_date_def by blast
    from addr_up_to_date [OF this z] obtain m1 where p: "?p = (Ok None, m1)" and c: "checked r m m1"
      by (cases ?p) auto
    have "tracking m1 (zone_id_at m1 r) \<noteq> None"
      using c checked_simps(1) [OF c] by (auto simp: checked_def)
    from Cons.IH [OF this, of "Suc num_ok" "Suc k"] show ?thesis
      using Some p checked_trans [OF c] by simp
  qed
qed

text \<open>When every primary answers with a serial that is not newer than the serial of the zone,
  the refresh reports that nothing was transferred, and in the whole state only the time of the
  last check of this zone changes.\<close>

theorem refresh_up_to_date:
  assumes "is_secondary (config_at m r)" "tracking m (zone_id_at m r) \<noteq> None"
    and "read_soa D (mz_store (zone_at m r)) (mz_apex_name (zone_at m r)) = Ok (Some (soa, ttl))"
    and "all_up_to_date D (Some (soa_serial soa)) envs"
    and "refresh_zone D now envs r initial m = (res, m')"
  shows "res = Ok None \<and> checked r m m'"
proof (cases "recently_refreshed now r m")
  case True
  then show ?thesis using assms(5) checked_refl [OF assms(2)] by (auto simp: refresh_zone_def)
next
  case False
  let ?req = "zc_request_xfr_from (config_at m r)"
  have "hd (sdc_addrs ?req) \<in> set (sdc_addrs ?req)" using assms(1) by (simp add: is_secondary_addrs)
  then have "\<exists>a \<in> set ((case initial of Some a \<Rightarrow> [a] | None \<Rightarrow> []) @ sdc_addrs ?req). sdc_dst ?req a \<noteq> None"
    using sdc_dst_in_addrs [of ?req "hd (sdc_addrs ?req)"] by auto
  then show ?thesis
    using addrs_up_to_date [OF assms(4,2), of 0 "(case initial of Some a \<Rightarrow> [a] | None \<Rightarrow> []) @ sdc_addrs ?req"
        ?req 0 None] assms(3,5) False
    by (simp add: refresh_zone_def Let_def)
qed

theorem refresh_up_to_date_witness:
  "fst (refresh_zone demo_api 10 (demo_env 3) 0 None
     (demo_maintainer demo_config 5 (ZoneRefreshState_default 0))) = Ok None"
proof -
  let ?m = "demo_maintainer demo_config 5 (ZoneRefreshState_default 0)"
  have "fst (refresh_zone demo_api 10 (demo_env 3) 0 None ?m) = Ok None
      \<and> checked 0 ?m (snd (refresh_zone demo_api 10 (demo_env 3) 0 None ?m))"
  proof (rule refresh_up_to_date [OF _ _ _ _ prod.collapse [symmetric]])
    show "read_soa demo_api (mz_store (zone_at ?m 0)) (mz_apex_name (zone_at ?m 0)) =
        Ok (Some (demo_soa 5, 60))"
      by (simp add: read_soa_def demo_api_def demo_query_def demo_zone_def)
    show "all_up_to_date demo_api (Some (soa_serial (demo_soa 5))) (demo_env 3)"
      by (simp add: all_up_to_date_def primary_serial_def demo_env_def demo_response_def
          extract_response_soa_serial_def newer_data_def demo_api_def demo_soa_def rfc1982_less_def)
  qed simp_all
  then show ?thesis by simp
qed

end
