(* ===== verification/Maintainer.thy ===== *)
theory Maintainer
  imports Xfr_Props
begin

text \<open>
  The zone maintainer (\<open>zonemaintenance/maintainer.rs\<close>): inserting zones, the events and
  timers of its loop, NOTIFY, and the tasks that refresh zones.

  A task runs in three pieces, between which other steps can happen: it looks up the zone and
  marks the refresh as started (\<open>start_timer_task\<close>, \<open>start_notify_task\<close>,
  \<open>refresh_begin\<close>), it talks to the network (\<open>refresh_zone\<close>), and it records the outcome
  (\<open>refresh_finish\<close>). An insertion and the activation of a zone by the loop are taken apart in
  the same way, where they copy the set of zones and where they store the copy; the lock of the
  pending zones is respected, and the bound of the event channel is not part of the model. A panic
  of the loop ends it; a panic of a task or of a call ends that task or call.
\<close>

section \<open>Timers\<close>

text \<open>\<open>refresh_zone_at\<close>: keep an earlier timer of the zone, replace one that is later or
  as late, add one when there is none.\<close>

fun place_timer :: "ZoneRefreshTimer \<Rightarrow> ZoneRefreshTimer list \<Rightarrow> ZoneRefreshTimer list" where
  "place_timer new_timer [] = [new_timer]"
| "place_timer new_timer (t # ts) =
    (if zrt_zone_id t = zrt_zone_id new_timer
     then (case checked_duration_since (zrt_deadline t) (zrt_deadline new_timer) of
         None \<Rightarrow> t # ts
       | Some _ \<Rightarrow> ZoneRefreshTimer_replace t new_timer # ts)
     else t # place_timer new_timer ts)"

definition refresh_zone_at :: "instant \<Rightarrow> ZoneRefreshCause \<Rightarrow> ZoneId \<Rightarrow> ttl option
    \<Rightarrow> 't ZoneMaintainer \<Rightarrow> 't ZoneMaintainer" where
  "refresh_zone_at now cause key at m = m\<lparr>zm_timers := place_timer (ZoneRefreshTimer_new
     (ZoneRefreshInstant_new now key (case at of Some t \<Rightarrow> t | None \<Rightarrow> 0) cause)) (zm_timers m)\<rparr>"

definition schedule_zone_refresh ::
    "ZoneRefreshCause \<Rightarrow> ZoneId \<Rightarrow> ttl \<Rightarrow> 't ZoneMaintainer \<Rightarrow> 't ZoneMaintainer" where
  "schedule_zone_refresh cause key at m = send_event (ZoneRefreshRequested cause key (Some at)) m"

section \<open>Tracking and inserting zones\<close>

definition track_zone_freshness :: "'t domain_api \<Rightarrow> instant \<Rightarrow> nat \<Rightarrow> 't ZoneMaintainer
    \<Rightarrow> (unit, ttl option) outcome \<times> 't ZoneMaintainer" where
  "track_zone_freshness D now r m =
    (if \<not> is_secondary (config_at m r) then (Err (), m)
     else (case tracking m (zone_id_at m r) of
         None \<Rightarrow> (case read_soa D (mz_store (zone_at m r)) (mz_apex_name (zone_at m r)) of
             Ok (Some (soa, _)) \<Rightarrow> (Ok (Some (soa_refresh soa)),
               set_tracking (zone_id_at m r) (ZoneRefreshState_new now soa) m)
           | Panic \<Rightarrow> (Panic, m)
           | _ \<Rightarrow> (Ok None, set_tracking (zone_id_at m r) (ZoneRefreshState_default now) m))
       | Some z \<Rightarrow> (Ok (Some (zrs_refresh z)), m)))"

fun insert_zones_loop :: "'t domain_api \<Rightarrow> TypedZone list \<Rightarrow> 't \<Rightarrow> 't ZoneMaintainer
    \<Rightarrow> (unit, 't) outcome \<times> 't ZoneMaintainer" where
  "insert_zones_loop D [] new_zones m = (Ok new_zones, m)"
| "insert_zones_loop D (zone # zones) new_zones m =
    (let (r, m1) = wrap_zone zone m; zid = zone_id_at m1 r
     in if is_secondary (tz_zone_type zone)
        then insert_zones_loop D zones new_zones (send_event (ZoneAdded zid)
          (m1\<lparr>zm_pending_zones := hm_insert zid r (zm_pending_zones m1)\<rparr>))
        else and_then (update_known_nameservers_for_zone D r m1) (\<lambda>_ m2.
          case d_tree_insert D (tz_apex_name zone) (tz_class zone) r new_zones of
            Inl e \<Rightarrow> (Err e, m2)
          | Inr new_zones' \<Rightarrow> insert_zones_loop D zones new_zones' (send_event (ZoneAdded zid) m2)))"

definition insert_zones :: "'t domain_api \<Rightarrow> TypedZone list \<Rightarrow> 't ZoneMaintainer
    \<Rightarrow> (unit, unit) outcome \<times> 't ZoneMaintainer" where
  "insert_zones D zones m =
    and_then (insert_zones_loop D zones (zm_loaded_arc m) m) (\<lambda>new_zones m'.
      (Ok (), m'\<lparr>zm_member_zones := new_zones, zm_loaded_arc := new_zones\<rparr>))"

definition insert_zone :: "'t domain_api \<Rightarrow> TypedZone \<Rightarrow> 't ZoneMaintainer
    \<Rightarrow> (unit, unit) outcome \<times> 't ZoneMaintainer" where
  "insert_zone D zone m = insert_zones D [zone] m"

definition insert_active_zone :: "'t domain_api \<Rightarrow> nat \<Rightarrow> 't ZoneMaintainer
    \<Rightarrow> (unit, unit) outcome \<times> 't ZoneMaintainer" where
  "insert_active_zone D r m =
    and_then (update_known_nameservers_for_zone D r m) (\<lambda>_ m1.
      case d_tree_insert D (mz_apex_name (zone_at m1 r)) (mz_class (zone_at m1 r)) r
          (zm_loaded_arc m1) of
        Inl e \<Rightarrow> (Err e, m1)
      | Inr new_zones \<Rightarrow> (Ok (), m1\<lparr>zm_member_zones := new_zones, zm_loaded_arc := new_zones\<rparr>))"

section \<open>Events\<close>

fun unwrap_result :: "('e, 'a) outcome \<times> 's \<Rightarrow> ('f, 'a) outcome \<times> 's" where
  "unwrap_result (Ok a, s) = (Ok a, s)"
| "unwrap_result (Err e, s) = (Panic, s)"
| "unwrap_result (Panic, s) = (Panic, s)"

definition on_zone_added :: "'t domain_api \<Rightarrow> instant \<Rightarrow> ZoneId \<Rightarrow> 't ZoneMaintainer
    \<Rightarrow> (unit, unit) outcome \<times> 't ZoneMaintainer" where
  "on_zone_added D now zid m = (case hm_get (zm_pending_zones m) zid of
      None \<Rightarrow> (Ok (), m)
    | Some r \<Rightarrow>
       (case track_zone_freshness D now r m of
          (Ok refresh, m1) \<Rightarrow>
            and_then (if refresh = None then (Ok (), m1)
                else unwrap_result (insert_active_zone D r
                  (m1\<lparr>zm_pending_zones := hm_remove zid (zm_pending_zones m1)\<rparr>)))
              (\<lambda>_ m2. (Ok (), refresh_zone_at now SoaRefreshTimerAfterZoneAdded zid refresh m2))
        | (Err _, m1) \<Rightarrow> (Ok (), m1)
        | (Panic, m1) \<Rightarrow> (Panic, m1)))"

definition on_zone_changed :: "ZoneChangedMsg \<Rightarrow> 't ZoneMaintainer \<Rightarrow> 't ZoneMaintainer" where
  "on_zone_changed msg m = m\<lparr>zm_tasks := zm_tasks m @ [NotifyTask msg (zm_loaded_arc m)]\<rparr>"

definition on_zone_status_requested :: "'t domain_api \<Rightarrow> instant \<Rightarrow> ZoneId \<Rightarrow> token
    \<Rightarrow> 't ZoneMaintainer \<Rightarrow> 't ZoneMaintainer" where
  "on_zone_status_requested D now zid tx m =
    (let pending = hm_get (zm_pending_zones m) zid;
         details = (if pending \<noteq> None
           then PendingSecondary (case tracking m zid of
               Some z \<Rightarrow> z | None \<Rightarrow> ZoneRefreshState_default now)
           else (case tracking m zid of Some z \<Rightarrow> Secondary z | None \<Rightarrow> Primary));
         timers = map zrt_instant (filter (\<lambda>t. zrt_zone_id t = zid) (zm_timers m));
         zone = (case pending of Some r \<Rightarrow> Some r
           | None \<Rightarrow> d_tree_get D (zm_loaded_arc m) (zid_name zid) (zid_class zid))
     in case zone of
          Some r \<Rightarrow> m\<lparr>zm_reports := zm_reports m @ [(tx, \<lparr>zr_zone_id = zid, zr_details = details,
            zr_timers = timers, zr_zone_info = mz_info (zone_at m r)\<rparr>)]\<rparr>
        | None \<Rightarrow> m)"

fun on_event :: "'t domain_api \<Rightarrow> instant \<Rightarrow> Event \<Rightarrow> 't ZoneMaintainer
    \<Rightarrow> (unit, unit) outcome \<times> 't ZoneMaintainer" where
  "on_event D now (ZoneChanged msg) m = (Ok (), on_zone_changed msg m)"
| "on_event D now (ZoneAdded zid) m = on_zone_added D now zid m"
| "on_event D now (ZoneRefreshRequested cause zid at) m = (Ok (), refresh_zone_at now cause zid at m)"
| "on_event D now (ZoneStatusRequested zid tx) m = (Ok (), on_zone_status_requested D now zid tx m)"

text \<open>\<open>on_refresh_timer\<close> only spawns the task, with the zones of that moment.\<close>

definition on_refresh_timer :: "ZoneRefreshInstant \<Rightarrow> 't ZoneMaintainer \<Rightarrow> 't ZoneMaintainer" where
  "on_refresh_timer timer_info m = m\<lparr>zm_tasks := zm_tasks m @ [TimerTask timer_info (zm_loaded_arc m)]\<rparr>"

section \<open>Refresh tasks\<close>

text \<open>The first piece of the task of a timer: is the zone managed, and still a secondary?\<close>

definition start_timer_task :: "'t domain_api \<Rightarrow> ZoneRefreshInstant \<Rightarrow> 't \<Rightarrow> 't ZoneMaintainer
    \<Rightarrow> refresh_job option" where
  "start_timer_task D timer_info zones m =
    (let zid = zri_zone_id timer_info;
         found = (case hm_get (zm_pending_zones m) zid of
             Some r \<Rightarrow> Some (True, r)
           | None \<Rightarrow> (case d_tree_get D zones (zid_name zid) (zid_class zid) of
               Some r \<Rightarrow> Some (False, r) | None \<Rightarrow> None))
     in if tracking m zid = None then None
        else (case found of
            Some (is_pending, r) \<Rightarrow>
              if is_secondary (config_at m r)
              then Some \<lparr>rj_cause = zri_cause timer_info, rj_zone = r, rj_initial = None,
                rj_is_pending = is_pending\<rparr>
              else None
          | None \<Rightarrow> None))"

text \<open>The first piece of \<open>handle_notify\<close>, up to the refresh.\<close>

definition start_notify_task :: "'t domain_api \<Rightarrow> ZoneChangedMsg \<Rightarrow> 't \<Rightarrow> 't ZoneMaintainer
    \<Rightarrow> (unit, refresh_job option) outcome \<times> 't ZoneMaintainer" where
  "start_notify_task D msg zones m =
    (let zone_id = ZoneId_new (zcm_apex_name msg) (zcm_class msg);
         found = (case d_tree_get D zones (zcm_apex_name msg) (zcm_class msg) of
             Some r \<Rightarrow> Some (False, r)
           | None \<Rightarrow> (case hm_get (zm_pending_zones m) zone_id of
               Some r \<Rightarrow> Some (True, r) | None \<Rightarrow> None))
     in case found of
          None \<Rightarrow> (Ok None, m)
        | Some (is_pending, r) \<Rightarrow>
           (case zcm_source msg of
              None \<Rightarrow> and_then (update_known_nameservers_for_zone D r m) (\<lambda>_ m1.
                (Ok None, send_notify D r (zc_send_notify_to (config_at m1 r)) m1))
            | Some source \<Rightarrow>
               and_then (is_known_primary D (zc_allow_notify_from (config_at m r)) source r m) (\<lambda>known m1.
                 if \<not> known then (Ok None, m1)
                 else (case tracking m1 (zone_id_at m1 r) of
                     None \<Rightarrow> (Ok None, m1)
                   | Some z \<Rightarrow>
                      if zrs_status z = NotifyInProgress then (Ok None, m1)
                      else (Ok (Some \<lparr>rj_cause = NotifyFromPrimary source, rj_zone = r,
                          rj_initial = Some (SocketAddr_new source IANA_DNS_PORT_NUMBER),
                          rj_is_pending = is_pending\<rparr>),
                        set_tracking (zone_id_at m1 r) (set_status NotifyInProgress z) m1)))))"

text \<open>The first piece of \<open>refresh_zone_and_update_state\<close>: the refresh has started.\<close>

fun begin_state :: "instant \<Rightarrow> ZoneRefreshCause \<Rightarrow> ZoneRefreshState \<Rightarrow> ZoneRefreshState" where
  "begin_state now SoaRetryTimer z = set_status RetryInProgress
     (z\<lparr>zrs_metrics := (zrs_metrics z)\<lparr>last_refresh_attempted_at := Some now\<rparr>\<rparr>)"
| "begin_state now _ z = set_status (RefreshInProgress 0)
     (z\<lparr>zrs_metrics := (zrs_metrics z)\<lparr>last_refresh_phase_started_at := Some now,
        last_refresh_attempted_at := Some now\<rparr>\<rparr>)"

definition refresh_begin :: "instant \<Rightarrow> refresh_job \<Rightarrow> 't ZoneMaintainer \<Rightarrow> 't ZoneMaintainer" where
  "refresh_begin now job m = (case tracking m (zone_id_at m (rj_zone job)) of
      Some z \<Rightarrow> set_tracking (zone_id_at m (rj_zone job)) (begin_state now (rj_cause job) z) m
    | None \<Rightarrow> m)"

text \<open>Its last piece, from the result of the refresh.\<close>

definition refresh_update_state :: "instant \<Rightarrow> nat \<Rightarrow> (ZoneMaintainerError, Soa option) outcome
    \<Rightarrow> 't ZoneMaintainer \<Rightarrow> (unit, unit) outcome \<times> 't ZoneMaintainer" where
  "refresh_update_state now r res m =
    (let zid = zone_id_at m r in
     case tracking m zid of
       None \<Rightarrow> (Err (), m)
     | Some z \<Rightarrow>
        (case res of
           Err err \<Rightarrow>
             (if zrs_status z = RetryInProgress then
               (let time_of_last_soa_check = (case last_soa_serial_check_succeeded_at (zrs_metrics z) of
                      Some at \<Rightarrow> at | None \<Rightarrow> zone_created_at (zrs_metrics z))
                in if is_expired now time_of_last_soa_check z
                   then (Err (), mark_expired r m)
                   else (Err (), schedule_zone_refresh SoaRetryTimer zid (zrs_retry z) m))
              else (Err (), schedule_zone_refresh SoaRetryTimer zid (zrs_retry z)
                (set_tracking zid (set_status RetryPending z) m)))
         | Ok new_soa \<Rightarrow>
             (let z1 = (case new_soa of Some soa \<Rightarrow> refresh_succeeded now soa z | None \<Rightarrow> z);
                  z2 = set_status RefreshPending z1
              in (Ok (), schedule_zone_refresh SoaRefreshTimer zid (zrs_refresh z2)
                   (set_tracking zid z2 m)))
         | Panic \<Rightarrow> (Panic, m)))"

record refresh_env =
  re_age_at :: instant
  re_primaries :: "nat \<Rightarrow> primary_env"
  re_finished_at :: instant

text \<open>The network and the last piece; a zone that was pending and refreshed is announced.\<close>

definition refresh_finish :: "'t domain_api \<Rightarrow> refresh_env \<Rightarrow> refresh_job \<Rightarrow> 't ZoneMaintainer
    \<Rightarrow> (unit, unit) outcome \<times> 't ZoneMaintainer" where
  "refresh_finish D env job m =
    (let r = rj_zone job;
         (res, m1) = refresh_zone D (re_age_at env) (re_primaries env) r (rj_initial job) m
     in case res of
          Panic \<Rightarrow> (Panic, m1)
        | _ \<Rightarrow> (case refresh_update_state (re_finished_at env) r res m1 of
              (Ok _, m2) \<Rightarrow> (Ok (), if rj_is_pending job
                then send_event (ZoneAdded (zone_id_at m2 r)) m2 else m2)
            | (Err e, m2) \<Rightarrow> (Err e, m2)
            | (Panic, m2) \<Rightarrow> (Panic, m2)))"

section \<open>The client interface\<close>

definition zone_status :: "dname \<Rightarrow> dclass \<Rightarrow> token \<Rightarrow> 't ZoneMaintainer \<Rightarrow> 't ZoneMaintainer" where
  "zone_status apex_name class tx m =
     send_event (ZoneStatusRequested (ZoneId_new apex_name class) tx) m"

definition force_zone_refresh :: "dname \<Rightarrow> dclass \<Rightarrow> 't ZoneMaintainer \<Rightarrow> 't ZoneMaintainer" where
  "force_zone_refresh apex_name class m =
     send_event (ZoneRefreshRequested ManualTrigger (ZoneId_new apex_name class) None) m"

datatype NotifyError = NotAuthForZone | Other

definition notify_event :: "dclass \<Rightarrow> dname \<Rightarrow> ip_addr \<Rightarrow> Event" where
  "notify_event class apex_name source =
     ZoneChanged \<lparr>zcm_class = class, zcm_apex_name = apex_name, zcm_source = Some source\<rparr>"

definition notify_zone_changed :: "'t domain_api \<Rightarrow> dclass \<Rightarrow> dname \<Rightarrow> serial option \<Rightarrow> ip_addr
    \<Rightarrow> 't ZoneMaintainer \<Rightarrow> (NotifyError, unit) outcome \<times> 't ZoneMaintainer" where
  "notify_zone_changed D class apex_name serial source m =
    (let accept = (Ok (), send_event (notify_event class apex_name source) m) in
     if \<not> zm_running m then (Err Other, m)
     else (case d_tree_get D (zm_loaded_arc m) apex_name class of
         Some r \<Rightarrow>
          (case serial of
             Some serial \<Rightarrow>
              (case read_soa D (mz_store (zone_at m r)) (mz_apex_name (zone_at m r)) of
                 Err _ \<Rightarrow> (Err Other, m)
               | Panic \<Rightarrow> (Panic, m)
               | Ok (Some (soa, _)) \<Rightarrow> if d_slt D serial (soa_serial soa) then (Ok (), m) else accept
               | Ok None \<Rightarrow> accept)
           | None \<Rightarrow> accept)
       | None \<Rightarrow> if hm_get (zm_pending_zones m) (ZoneId_new apex_name class) = None
           then (Err NotAuthForZone, m) else accept))"

section \<open>Starting\<close>

text \<open>\<open>run\<close> up to its loop: fresh timers and tracking, NOTIFY to the configured servers and a
  timer for every secondary zone that is there.\<close>

fun run_zones :: "'t domain_api \<Rightarrow> instant \<Rightarrow> nat list \<Rightarrow> 't ZoneMaintainer
    \<Rightarrow> (unit, unit) outcome \<times> 't ZoneMaintainer" where
  "run_zones D now [] m = (Ok (), m)"
| "run_zones D now (r # rs) m =
    (let cfg = config_at m r;
         m1 = (if sdc_is_empty (zc_send_notify_to cfg) then m
               else send_notify D r (zc_send_notify_to cfg) m)
     in if is_secondary cfg
        then (case track_zone_freshness D now r m1 of
            (Ok refresh, m2) \<Rightarrow> run_zones D now rs
              (refresh_zone_at now SoaRefreshTimerAfterStartup (zone_id_at m2 r) refresh m2)
          | (_, m2) \<Rightarrow> (Panic, m2))
        else run_zones D now rs m1)"

definition run_start :: "'t domain_api \<Rightarrow> instant \<Rightarrow> 't ZoneMaintainer
    \<Rightarrow> (unit, unit) outcome \<times> 't ZoneMaintainer" where
  "run_start D now m = run_zones D now (d_tree_iter D (zm_loaded_arc m))
     (m\<lparr>zm_running := True, zm_time_tracking := [], zm_timers := []\<rparr>)"

section \<open>Steps\<close>

definition tz_id :: "TypedZone \<Rightarrow> ZoneId" where
  "tz_id z = ZoneId_new (tz_apex_name z) (tz_class z)"

text \<open>The sets of zones are replaced by copies: \<open>insert_zones\<close> clones the set when it is
  called, adds its zones one by one, waiting for the lock of the pending zones in between, and
  stores the clone at its end. An open call is the zones it still has to add and its clone.\<close>

record 't insert_call =
  ic_zones :: "TypedZone list"
  ic_new_zones :: 't

text \<open>The loop of \<open>run\<close> waits for an event or a timer, or it is in the middle of
  \<open>on_zone_added\<close>, with the pending zones locked for writing: about to take its own clone of
  the set of zones (\<open>Adding\<close>), or about to store it (\<open>Storing\<close>).\<close>

datatype 't loop_state = NotStarted | Idle | Adding ZoneId nat ttl | Storing ZoneId nat ttl 't | LoopEnded

record 't zm_world =
  zw_state :: "'t ZoneMaintainer"
  zw_calls :: "'t insert_call list"
  zw_loop :: "'t loop_state"

definition zm_world_new :: "'t domain_api \<Rightarrow> 't zm_world" where
  "zm_world_new D = \<lparr>zw_state = ZoneMaintainer_new D, zw_calls = [], zw_loop = NotStarted\<rparr>"

text \<open>Who may take the lock of the pending zones: nobody while the loop adds a zone, and no writer
  while a refresh runs, since its task holds the lock for reading to its end.\<close>

fun adding :: "'t loop_state \<Rightarrow> ZoneId option" where
  "adding (Adding zid r refresh) = Some zid"
| "adding (Storing zid r refresh new_zones) = Some zid"
| "adding _ = None"

definition pending_readable :: "'t zm_world \<Rightarrow> bool" where
  "pending_readable w \<longleftrightarrow> adding (zw_loop w) = None"

definition pending_writable :: "'t zm_world \<Rightarrow> bool" where
  "pending_writable w \<longleftrightarrow> pending_readable w \<and> (\<forall>job. RefreshTask job \<notin> set (zm_tasks (zw_state w)))"

text \<open>The pieces of \<open>on_zone_added\<close>: up to the decision to make the zone active; the name servers
  and the clone; the store and the timer. The zone leaves the pending zones in the last piece,
  which nobody can tell from its leaving in the second, as the lock is held.\<close>

definition add_begin :: "'t domain_api \<Rightarrow> instant \<Rightarrow> ZoneId \<Rightarrow> 't ZoneMaintainer
    \<Rightarrow> 't loop_state \<times> 't ZoneMaintainer" where
  "add_begin D now zid m = (case hm_get (zm_pending_zones m) zid of
      None \<Rightarrow> (Idle, m)
    | Some r \<Rightarrow> (case track_zone_freshness D now r m of
          (Ok (Some refresh), m1) \<Rightarrow> (Adding zid r refresh, m1)
        | (Ok None, m1) \<Rightarrow> (Idle, refresh_zone_at now SoaRefreshTimerAfterZoneAdded zid None m1)
        | (Err _, m1) \<Rightarrow> (Idle, m1)
        | (Panic, m1) \<Rightarrow> (LoopEnded, m1)))"

definition add_clone :: "'t domain_api \<Rightarrow> ZoneId \<Rightarrow> nat \<Rightarrow> ttl \<Rightarrow> 't ZoneMaintainer
    \<Rightarrow> 't loop_state \<times> 't ZoneMaintainer" where
  "add_clone D zid r refresh m = (case update_known_nameservers_for_zone D r m of
      (Ok _, m1) \<Rightarrow> (Storing zid r refresh (zm_loaded_arc m1), m1)
    | (_, m1) \<Rightarrow> (LoopEnded, m1))"

definition add_store :: "'t domain_api \<Rightarrow> instant \<Rightarrow> ZoneId \<Rightarrow> nat \<Rightarrow> ttl \<Rightarrow> 't \<Rightarrow> 't ZoneMaintainer
    \<Rightarrow> 't loop_state \<times> 't ZoneMaintainer" where
  "add_store D now zid r refresh new_zones m =
    (let m1 = m\<lparr>zm_pending_zones := hm_remove zid (zm_pending_zones m)\<rparr>
     in case d_tree_insert D (mz_apex_name (zone_at m1 r)) (mz_class (zone_at m1 r)) r new_zones of
          Inl e \<Rightarrow> (LoopEnded, m1)
        | Inr t \<Rightarrow> (Idle, refresh_zone_at now SoaRefreshTimerAfterZoneAdded zid (Some refresh)
            (m1\<lparr>zm_member_zones := t, zm_loaded_arc := t\<rparr>)))"

text \<open>What happens beside the loop and the insertions: calls of clients, writes and commits by
  whoever writes a zone, and the steps of the tasks, in any order. Times are arbitrary. A task
  starts when the pending zones can be read (\<open>rd\<close>); a NOTIFY for a zone that is not active waits
  for that too.\<close>

inductive zm_op :: "'t domain_api \<Rightarrow> bool \<Rightarrow> 't ZoneMaintainer \<Rightarrow> 't ZoneMaintainer \<Rightarrow> bool"
  for D :: "'t domain_api" and rd :: bool where
  Notify: "notify_zone_changed D class apex serial source m = (res, m') \<Longrightarrow>
    rd \<or> \<not> zm_running m \<or> d_tree_get D (zm_loaded_arc m) apex class \<noteq> None \<Longrightarrow> zm_op D rd m m'"
| Force: "zm_op D rd m (force_zone_refresh apex class m)"
| Status: "zm_op D rd m (zone_status apex class tx m)"
| Write: "r < length (zm_heap m) \<Longrightarrow> zm_op D rd m (apply_write D r w m)"
| TimerTask: "zm_tasks m = a @ zm_task.TimerTask info zones # b \<Longrightarrow> rd \<or> tracking m (zri_zone_id info) = None \<Longrightarrow>
    start_timer_task D info zones m = None \<Longrightarrow> zm_op D rd m (m\<lparr>zm_tasks := a @ b\<rparr>)"
| TimerRefresh: "zm_tasks m = a @ zm_task.TimerTask info zones # b \<Longrightarrow> rd \<Longrightarrow>
    start_timer_task D info zones m = Some job \<Longrightarrow>
    zm_op D rd m (refresh_begin now job (m\<lparr>zm_tasks := a @ RefreshTask job # b\<rparr>))"
| NotifyTask: "zm_tasks m = a @ zm_task.NotifyTask msg zones # b \<Longrightarrow> rd \<Longrightarrow>
    start_notify_task D msg zones (m\<lparr>zm_tasks := a @ b\<rparr>) = (res, m') \<Longrightarrow>
    (\<forall>job. res \<noteq> Ok (Some job)) \<Longrightarrow> zm_op D rd m m'"
| NotifyRefresh: "zm_tasks m = a @ zm_task.NotifyTask msg zones # b \<Longrightarrow> rd \<Longrightarrow>
    start_notify_task D msg zones (m\<lparr>zm_tasks := a @ b\<rparr>) = (Ok (Some job), m') \<Longrightarrow>
    zm_op D rd m (refresh_begin now job (m'\<lparr>zm_tasks := a @ RefreshTask job # b\<rparr>))"
| Refresh: "zm_tasks m = a @ RefreshTask job # b \<Longrightarrow>
    refresh_finish D env job (m\<lparr>zm_tasks := a @ b\<rparr>) = (res, m') \<Longrightarrow> zm_op D rd m m'"

text \<open>Everything that can happen. Zones are inserted before \<open>run\<close> is called and while it runs,
  by any number of callers at once, new zones or not. A call that fails or panics is gone, with its
  clone. The loop takes an event before a timer; when it panics it has ended, and the tasks go on.\<close>

inductive zm_step :: "'t domain_api \<Rightarrow> 't zm_world \<Rightarrow> 't zm_world \<Rightarrow> bool" for D :: "'t domain_api" where
  StartRun: "zw_loop w = NotStarted \<Longrightarrow> run_start D now (zw_state w) = (res, m') \<Longrightarrow>
    zm_step D w (w\<lparr>zw_state := m', zw_loop := if res = Ok () then Idle else LoopEnded\<rparr>)"
| InsertBegin: "zm_step D w (w\<lparr>zw_calls := \<lparr>ic_zones = zones, ic_new_zones = zm_loaded_arc (zw_state w)\<rparr> # zw_calls w\<rparr>)"
| InsertZone: "zw_calls w = a @ \<lparr>ic_zones = z # zs, ic_new_zones = t\<rparr> # b \<Longrightarrow>
    is_secondary (tz_zone_type z) \<longrightarrow> pending_writable w \<Longrightarrow>
    insert_zones_loop D [z] t (zw_state w) = (res, m') \<Longrightarrow>
    zm_step D w (w\<lparr>zw_state := m', zw_calls := a @ (case res of
      Ok t' \<Rightarrow> [\<lparr>ic_zones = zs, ic_new_zones = t'\<rparr>] | _ \<Rightarrow> []) @ b\<rparr>)"
| InsertEnd: "zw_calls w = a @ \<lparr>ic_zones = [], ic_new_zones = t\<rparr> # b \<Longrightarrow>
    zm_step D w (w\<lparr>zw_state := (zw_state w)\<lparr>zm_member_zones := t, zm_loaded_arc := t\<rparr>,
      zw_calls := a @ b\<rparr>)"
| AddBegin: "zw_loop w = Idle \<Longrightarrow> zm_events (zw_state w) = ZoneAdded zid # es \<Longrightarrow> pending_writable w \<Longrightarrow>
    add_begin D now zid ((zw_state w)\<lparr>zm_events := es\<rparr>) = (l, m') \<Longrightarrow>
    zm_step D w (w\<lparr>zw_state := m', zw_loop := l\<rparr>)"
| AddClone: "zw_loop w = Adding zid r refresh \<Longrightarrow> add_clone D zid r refresh (zw_state w) = (l, m') \<Longrightarrow>
    zm_step D w (w\<lparr>zw_state := m', zw_loop := l\<rparr>)"
| AddStore: "zw_loop w = Storing zid r refresh t \<Longrightarrow>
    add_store D now zid r refresh t (zw_state w) = (l, m') \<Longrightarrow>
    zm_step D w (w\<lparr>zw_state := m', zw_loop := l\<rparr>)"
| Event: "zw_loop w = Idle \<Longrightarrow> zm_events (zw_state w) = e # es \<Longrightarrow> (\<forall>zid. e \<noteq> ZoneAdded zid) \<Longrightarrow>
    on_event D now e ((zw_state w)\<lparr>zm_events := es\<rparr>) = (res, m') \<Longrightarrow>
    zm_step D w (w\<lparr>zw_state := m', zw_loop := if res = Ok () then Idle else LoopEnded\<rparr>)"
| Timer: "zw_loop w = Idle \<Longrightarrow> zm_events (zw_state w) = [] \<Longrightarrow> zm_timers (zw_state w) = ts @ t # ts' \<Longrightarrow>
    ZoneRefreshTimer_poll now t = Some info \<Longrightarrow>
    zm_step D w (w\<lparr>zw_state := on_refresh_timer info ((zw_state w)\<lparr>zm_timers := ts @ ts'\<rparr>)\<rparr>)"
| Op: "zm_op D (pending_readable w) (zw_state w) m' \<Longrightarrow> zm_step D w (w\<lparr>zw_state := m'\<rparr>)"

inductive zm_steps :: "'t domain_api \<Rightarrow> 't zm_world \<Rightarrow> 't zm_world \<Rightarrow> bool" for D :: "'t domain_api" where
  Refl: "zm_steps D w w"
| More: "zm_steps D w w' \<Longrightarrow> zm_step D w' w'' \<Longrightarrow> zm_steps D w w''"

text \<open>New zones: their identifiers are distinct and not known yet.\<close>

definition fresh_zones :: "'t domain_api \<Rightarrow> TypedZone list \<Rightarrow> 't \<Rightarrow> 't ZoneMaintainer \<Rightarrow> bool" where
  "fresh_zones D zones t m \<longleftrightarrow> distinct (map tz_id zones) \<and>
     (\<forall>z \<in> set zones. hm_get (zm_pending_zones m) (tz_id z) = None
        \<and> d_tree_get D t (tz_apex_name z) (tz_class z) = None)"

text \<open>The condition under which the maintainer keeps its invariant: the zones that are inserted are
  new, and no two clones of the set of zones are out at a time. What happens otherwise is the
  subject of \<open>readded_zone\<close> and \<open>overlap_loses_zone\<close>.\<close>

fun clones :: "'t loop_state \<Rightarrow> nat" where
  "clones (Storing zid r refresh t) = 1"
| "clones _ = 0"

definition orderly :: "'t domain_api \<Rightarrow> 't zm_world \<Rightarrow> bool" where
  "orderly D w \<longleftrightarrow> length (zw_calls w) + clones (zw_loop w) \<le> 1
     \<and> (\<forall>c \<in> set (zw_calls w). fresh_zones D (ic_zones c) (ic_new_zones c) (zw_state w))"

text \<open>The states of the runs that are orderly throughout.\<close>

inductive zm_orderly :: "'t domain_api \<Rightarrow> 't zm_world \<Rightarrow> bool" for D :: "'t domain_api" where
  New: "zm_orderly D (zm_world_new D)"
| Step: "zm_orderly D w \<Longrightarrow> zm_step D w w' \<Longrightarrow> orderly D w' \<Longrightarrow> zm_orderly D w'"

end
