(* ===== verification/Zone_Loader.thy ===== *)
theory Zone_Loader
  imports Commands Light_Weight_Zone Tsig Maintainer
begin

text \<open>
  The zone loader (\<open>units/zone_loader.rs\<close>) and the transfer settings it reads
  (\<open>common/xfr.rs\<close>): registering zones with the zone maintainer, its start, its commands, and
  the message it sends for every new version of a zone.

  A zone file is read and parsed by the \<open>domain\<close> crate, and so are key names; these are
  parameters. Channels have a bound: a send into a full channel waits for the receiver.
\<close>

section \<open>Transfer settings\<close>

text \<open>\<open>str::split\<close> on a separator that is not empty.\<close>

lemma strip_prefix_length: "strip_prefix p s = Some r \<Longrightarrow> length s = length p + length r"
  by (induction p s rule: strip_prefix.induct) (auto split: if_splits)

lemma split_once_length: "split_once sep s = Some (a, b) \<Longrightarrow> length s = length a + length sep + length b"
  by (induction sep s arbitrary: a rule: split_once.induct)
     (auto dest: strip_prefix_length split: option.splits prod.splits)

function split_str :: "char \<Rightarrow> string \<Rightarrow> string \<Rightarrow> string list" where
  "split_str c sep s = (case split_once (c # sep) s of
      None \<Rightarrow> [s] | Some (a, b) \<Rightarrow> a # split_str c sep b)"
  by pat_completeness auto
termination
  by (relation "measure (\<lambda>(c, sep, s). length s)") (auto dest: split_once_length)

declare split_str.simps [simp del]

record 'k loader_params =
  lp_addr :: addr_parsers
  lp_key_name :: "string \<Rightarrow> key_name option"
  lp_key_api :: "'k key_api"
  lp_key_parsers :: key_parsers
  lp_algorithm :: "Algorithm \<Rightarrow> token"

text \<open>The settings are changed in place; they are returned with the address. With an error they
  are not used again.\<close>

definition parse_xfr_acl :: "'k loader_params \<Rightarrow> string \<Rightarrow> XfrConfig \<Rightarrow> NotifyConfig \<Rightarrow> 'k TsigKeyStore
    \<Rightarrow> (unit, socket_addr \<times> XfrConfig \<times> NotifyConfig) outcome" where
  "parse_xfr_acl P xfr_in xfr_cfg notify_cfg key_store =
    (case (case split_str (CHR '' '') ''KEY '' xfr_in of
        [addr] \<Rightarrow> Some (addr, None) | [addr, key_name] \<Rightarrow> Some (addr, Some key_name) | _ \<Rightarrow> None) of
       None \<Rightarrow> Err ()
     | Some (addr, key_name) \<Rightarrow>
        (case (case ap_socket (lp_addr P) addr of
             Some a \<Rightarrow> Some a
           | None \<Rightarrow> map_option (\<lambda>ip. SocketAddr_new ip 0) (ap_ip (lp_addr P) addr)) of
           None \<Rightarrow> Err ()
         | Some addr \<Rightarrow>
            (let xfr_cfg = xfr_cfg\<lparr>xc_tsig_key := None\<rparr>; notify_cfg = notify_cfg\<lparr>nc_tsig_key := None\<rparr>
             in case key_name of
                  None \<Rightarrow> Ok (addr, xfr_cfg, notify_cfg)
                | Some key_name \<Rightarrow>
                   (case lp_key_name P key_name of
                      None \<Rightarrow> Err ()
                    | Some encoded \<Rightarrow>
                       (case TsigKeyStore_get_key_by_name key_store encoded of
                          None \<Rightarrow> Ok (addr, xfr_cfg, notify_cfg)
                        | Some key \<Rightarrow>
                           (let r = (encoded, lp_algorithm P (Key_algorithm (lp_key_api P) key))
                            in Ok (addr, xfr_cfg\<lparr>xc_tsig_key := Some r\<rparr>, notify_cfg\<lparr>nc_tsig_key := Some r\<rparr>)))))))"

text \<open>The settings of a transfer before the list is read.\<close>

definition acl_xfr_config :: XfrConfig where
  "acl_xfr_config = XfrConfig_default\<lparr>xc_strategy := IxfrWithAxfrFallback, xc_ixfr_transport := TransportStrategy.Tcp\<rparr>"

definition determine_primary_zone_cfg :: "'k loader_params \<Rightarrow> dname \<Rightarrow> (dname, string) hmap
    \<Rightarrow> socket_addr option \<Rightarrow> 'k TsigKeyStore \<Rightarrow> (Terminated, ZoneConfig) outcome" where
  "determine_primary_zone_cfg P zone_name xfr_out dest key_store =
    (case hm_get xfr_out zone_name of
       None \<Rightarrow> Ok ZoneConfig_new
     | Some acl \<Rightarrow>
        (case parse_xfr_acl P acl acl_xfr_config NotifyConfig_default key_store of
           Ok (dst, xfr_cfg, notify_cfg) \<Rightarrow>
            (let (notify_cfg, xfr_cfg) = (if Some dst \<noteq> dest then (NotifyConfig_default, XfrConfig_default)
                   else (notify_cfg, xfr_cfg));
                 cfg = ZoneConfig_new\<lparr>zc_provide_xfr_to :=
                   add_src (SocketAddr_ip dst) xfr_cfg (zc_provide_xfr_to ZoneConfig_new)\<rparr>
             in Ok (if SocketAddr_port dst \<noteq> 0
                    then cfg\<lparr>zc_send_notify_to := add_dst dst notify_cfg (zc_send_notify_to cfg)\<rparr> else cfg))
         | _ \<Rightarrow> Err Terminated))"

definition determine_secondary_zone_cfg :: "'k loader_params \<Rightarrow> dname \<Rightarrow> socket_addr option
    \<Rightarrow> (dname, string) hmap \<Rightarrow> 'k TsigKeyStore \<Rightarrow> (Terminated, ZoneConfig) outcome" where
  "determine_secondary_zone_cfg P zone_name source xfr_in key_store =
    (case hm_get xfr_in zone_name of
       None \<Rightarrow> Ok ZoneConfig_new
     | Some acl \<Rightarrow>
        (case parse_xfr_acl P acl acl_xfr_config NotifyConfig_default key_store of
           Ok (src, xfr_cfg, notify_cfg) \<Rightarrow>
            (let (notify_cfg, xfr_cfg) = (if Some src \<noteq> source then (NotifyConfig_default, XfrConfig_default)
                   else (notify_cfg, xfr_cfg));
                 cfg = ZoneConfig_new\<lparr>zc_allow_notify_from :=
                   add_src (SocketAddr_ip src) notify_cfg (zc_allow_notify_from ZoneConfig_new)\<rparr>
             in Ok (if SocketAddr_port src \<noteq> 0
                    then cfg\<lparr>zc_request_xfr_from := add_dst src xfr_cfg (zc_request_xfr_from cfg)\<rparr> else cfg))
         | _ \<Rightarrow> Err Terminated))"

section \<open>State\<close>

record ZoneLoader =
  zl_zones :: "(dname, string) hmap"
  zl_xfr_in :: "(dname, string) hmap"
  zl_xfr_out :: "(dname, string) hmap"
  zl_tsig_keys :: "(string, string) hmap"

text \<open>What the loader shares: the zone maintainer, the channel of new versions, the events sent to
  the central command and the key store of the center.\<close>

record ('t, 'k) loader_world =
  lo_maintainer :: "'t ZoneMaintainer"
  lo_channel :: "(dname \<times> serial) list"
  lo_updates :: "Update list"
  lo_keys :: "'k TsigKeyStore"

definition zone_updated_capacity :: nat where
  "zone_updated_capacity = 10"

definition event_capacity :: nat where
  "event_capacity = 10"

text \<open>A send waits while the channel is full: \<open>None\<close>.\<close>

definition send_zone_updated :: "dname \<times> serial \<Rightarrow> ('t, 'k) loader_world \<Rightarrow> ('t, 'k) loader_world option" where
  "send_zone_updated msg w = (if length (lo_channel w) < zone_updated_capacity
     then Some (w\<lparr>lo_channel := lo_channel w @ [msg]\<rparr>) else None)"

section \<open>Registering zones\<close>

definition get_zone_serial :: "'t domain_api \<Rightarrow> dname \<Rightarrow> token \<Rightarrow> serial option" where
  "get_zone_serial D apex_name st = (case d_query D st apex_name Rtype_SOA of
      Inr (AcData rrs) \<Rightarrow> (case rr_data rrs of RdSoa soa # _ \<Rightarrow> Some (soa_serial soa) | _ \<Rightarrow> None)
    | _ \<Rightarrow> None)"

text \<open>\<open>load\<close> gives the contents of a zone file. The result \<open>None\<close> waits for the channel.\<close>

definition register_primary_zone :: "'t domain_api \<Rightarrow> 'k loader_params \<Rightarrow> (dname \<Rightarrow> string \<Rightarrow> token option)
    \<Rightarrow> dname \<Rightarrow> string \<Rightarrow> socket_addr option \<Rightarrow> (dname, string) hmap \<Rightarrow> ('t, 'k) loader_world
    \<Rightarrow> ((Terminated, TypedZone) outcome \<times> ('t, 'k) loader_world) option" where
  "register_primary_zone D P load zone_name zone_path dest xfr_out w =
    (case load zone_name zone_path of
       None \<Rightarrow> Some (Err Terminated, w)
     | Some st \<Rightarrow>
        (case get_zone_serial D zone_name st of
           None \<Rightarrow> Some (Err Terminated, w)
         | Some serial \<Rightarrow>
            (case determine_primary_zone_cfg P zone_name xfr_out dest (lo_keys w) of
               Ok cfg \<Rightarrow> map_option (\<lambda>w'. (Ok \<lparr>tz_apex_name = zone_name, tz_class = Class_IN,
                   tz_store = st, tz_zone_type = cfg\<rparr>, w')) (send_zone_updated (zone_name, serial) w)
             | Err e \<Rightarrow> Some (Err e, w)
             | Panic \<Rightarrow> Some (Panic, w))))"

text \<open>A new, empty light-weight zone (\<open>empty_store\<close>).\<close>

definition register_secondary_zone :: "'k loader_params \<Rightarrow> token \<Rightarrow> dname \<Rightarrow> socket_addr option
    \<Rightarrow> (dname, string) hmap \<Rightarrow> 'k TsigKeyStore \<Rightarrow> (Terminated, TypedZone) outcome" where
  "register_secondary_zone P empty_store zone_name source xfr_in key_store =
    (case determine_secondary_zone_cfg P zone_name source xfr_in key_store of
       Ok cfg \<Rightarrow> Ok \<lparr>tz_apex_name = zone_name, tz_class = Class_IN, tz_store = empty_store, tz_zone_type = cfg\<rparr>
     | Err e \<Rightarrow> Err e
     | Panic \<Rightarrow> Panic)"

section \<open>Start\<close>

fun insert_tsig_keys :: "'k loader_params \<Rightarrow> (string \<times> string) list \<Rightarrow> 'k TsigKeyStore
    \<Rightarrow> (Terminated, unit) outcome \<times> 'k TsigKeyStore" where
  "insert_tsig_keys P [] ks = (Ok (), ks)"
| "insert_tsig_keys P ((key_name, alg_and_bytes) # keys) ks =
    (case parse_key_strings (lp_key_api P) (lp_key_parsers P) key_name alg_and_bytes of
       Inl _ \<Rightarrow> (Err Terminated, ks)
     | Inr key \<Rightarrow> insert_tsig_keys P keys (snd (TsigKeyStore_insert (lp_key_api P) key ks)))"

text \<open>Inserting a zone while nobody takes events from the maintainer's channel; an error is only
  logged.\<close>

definition insert_before_run :: "'t domain_api \<Rightarrow> TypedZone \<Rightarrow> 't ZoneMaintainer \<Rightarrow> 't ZoneMaintainer option" where
  "insert_before_run D zone m = (let m' = snd (insert_zone D zone m)
     in if length (zm_events m') > event_capacity then None else Some m')"

definition start_zone :: "'t domain_api \<Rightarrow> 'k loader_params \<Rightarrow> (dname \<Rightarrow> string \<Rightarrow> token option) \<Rightarrow> token
    \<Rightarrow> ZoneLoader \<Rightarrow> dname \<Rightarrow> string \<Rightarrow> ('t, 'k) loader_world
    \<Rightarrow> ((Terminated, TypedZone) outcome \<times> ('t, 'k) loader_world) option" where
  "start_zone D P load empty_store zl zone_name zone_path w =
    (if zone_path \<noteq> [] then register_primary_zone D P load zone_name zone_path None (zl_xfr_out zl) w
     else Some (register_secondary_zone P empty_store zone_name None (zl_xfr_in zl) (lo_keys w), w))"

fun start_zones :: "'t domain_api \<Rightarrow> 'k loader_params \<Rightarrow> (dname \<Rightarrow> string \<Rightarrow> token option) \<Rightarrow> token
    \<Rightarrow> ZoneLoader \<Rightarrow> (dname \<times> string) list \<Rightarrow> ('t, 'k) loader_world
    \<Rightarrow> ((Terminated, unit) outcome \<times> ('t, 'k) loader_world) option" where
  "start_zones D P load empty_store zl [] w = Some (Ok (), w)"
| "start_zones D P load empty_store zl ((zone_name, zone_path) # zones) w =
    (case start_zone D P load empty_store zl zone_name zone_path w of
       None \<Rightarrow> None
     | Some (Ok zone, w1) \<Rightarrow> Option.bind (insert_before_run D zone (lo_maintainer w1)) (\<lambda>m.
         start_zones D P load empty_store zl zones (w1\<lparr>lo_maintainer := m\<rparr>))
     | Some (Err e, w1) \<Rightarrow> Some (Err e, w1)
     | Some (Panic, w1) \<Rightarrow> Some (Panic, w1))"

text \<open>\<open>run\<close> up to its loop. The maintainer starts with the unsigned zones of the center and its
  own loop runs from the end of the start on.\<close>

definition loader_start :: "'t domain_api \<Rightarrow> 'k loader_params \<Rightarrow> (dname \<Rightarrow> string \<Rightarrow> token option) \<Rightarrow> token
    \<Rightarrow> ZoneLoader \<Rightarrow> 't \<Rightarrow> 'k TsigKeyStore \<Rightarrow> ((Terminated, unit) outcome \<times> ('t, 'k) loader_world) option" where
  "loader_start D P load empty_store zl unsigned_zones keys =
    (let (res, keys') = insert_tsig_keys P (zl_tsig_keys zl) keys;
         w = \<lparr>lo_maintainer = with_zone_tree unsigned_zones (ZoneMaintainer_new D), lo_channel = [],
           lo_updates = [], lo_keys = keys'\<rparr>
     in case res of
          Ok _ \<Rightarrow> start_zones D P load empty_store zl (zl_zones zl) w
        | _ \<Rightarrow> Some (res, w))"

section \<open>Commands and new versions\<close>

definition on_zone_updated :: "('t, 'k) loader_world \<Rightarrow> ('t, 'k) loader_world" where
  "on_zone_updated w = (case lo_channel w of
      [] \<Rightarrow> w
    | (zone_name, zone_serial) # msgs \<Rightarrow> w\<lparr>lo_channel := msgs,
        lo_updates := lo_updates w @ [UnsignedZoneUpdatedEvent zone_name zone_serial]\<rparr>)"

definition on_register_zone :: "'t domain_api \<Rightarrow> 'k loader_params \<Rightarrow> (dname \<Rightarrow> string \<Rightarrow> token option) \<Rightarrow> token
    \<Rightarrow> ZoneLoader \<Rightarrow> ZoneAdd \<Rightarrow> ('t, 'k) loader_world
    \<Rightarrow> ((Terminated, unit) outcome \<times> ('t, 'k) loader_world) option" where
  "on_register_zone D P load empty_store zl reg w =
    map_option (\<lambda>(res, w1). case res of
        Ok zone \<Rightarrow> (Ok (), w1\<lparr>lo_maintainer := snd (insert_zone D zone (lo_maintainer w1))\<rparr>)
      | Err _ \<Rightarrow> (Ok (), w1)
      | Panic \<Rightarrow> (Panic, w1))
    (case za_source reg of
       Zonefile path \<Rightarrow> register_primary_zone D P load (za_name reg) path None (zl_xfr_out zl) w
     | Server addr \<Rightarrow> Some (register_secondary_zone P empty_store (za_name reg) (Some addr) (zl_xfr_in zl) (lo_keys w), w))"

text \<open>\<open>on_command\<close>; \<open>None\<close> instead of a command is a closed queue. The send of a primary zone
  waits for the loop that is handling the command, so with a full channel it waits for ever.\<close>

fun loader_command :: "'t domain_api \<Rightarrow> 'k loader_params \<Rightarrow> (dname \<Rightarrow> string \<Rightarrow> token option) \<Rightarrow> token
    \<Rightarrow> ZoneLoader \<Rightarrow> ApplicationCommand option \<Rightarrow> ('t, 'k) loader_world
    \<Rightarrow> ((Terminated, unit) outcome \<times> ('t, 'k) loader_world) option" where
  "loader_command D P load empty_store zl None w = Some (Err Terminated, w)"
| "loader_command D P load empty_store zl (Some CmdTerminate) w = Some (Err Terminated, w)"
| "loader_command D P load empty_store zl (Some (RegisterZone reg)) w =
     on_register_zone D P load empty_store zl reg w"
| "loader_command D P load empty_store zl (Some (CmdRefreshZone zone_name (Some source) serial)) w =
     Some (case notify_zone_changed D Class_IN zone_name serial source (lo_maintainer w) of
         (Panic, m) \<Rightarrow> (Panic, w\<lparr>lo_maintainer := m\<rparr>)
       | (_, m) \<Rightarrow> (Ok (), w\<lparr>lo_maintainer := m\<rparr>))"
| "loader_command D P load empty_store zl (Some (CmdRefreshZone zone_name None serial)) w =
     Some (Ok (), w\<lparr>lo_maintainer := force_zone_refresh zone_name Class_IN (lo_maintainer w)\<rparr>)"
| "loader_command D P load empty_store zl (Some _) w = Some (Ok (), w)"

text \<open>\<open>NotifyOnCommitZone::commit\<close> around the commit of a store: afterwards its SOA is read, and
  the new version is sent (waiting when the channel is full). The maintainer's own part of the
  commit follows.\<close>

definition loader_commit :: "'t domain_api \<Rightarrow> nat \<Rightarrow> token \<Rightarrow> InMemoryZoneDiff option \<Rightarrow> ('t, 'k) loader_world
    \<Rightarrow> ('t, 'k) loader_world option" where
  "loader_commit D r st diff w =
    (let apex = mz_apex_name (Zm_World.zone_at (lo_maintainer w) r)
     in map_option (\<lambda>w1. w1\<lparr>lo_maintainer := wmz_commit D r (st, diff) (lo_maintainer w1)\<rparr>)
          (case get_zone_serial D apex st of
             None \<Rightarrow> Some w
           | Some serial \<Rightarrow> send_zone_updated (apex, serial) w))"

end
