(* ===== verification/Manager.thy ===== *)
theory Manager
  imports Pipeline Http_Api Hsm Key_Manager Zone_Loader
begin

text \<open>
  Starting the units (\<open>spawn\<close> in \<open>manager.rs\<close>): the fixed settings of every unit and those from
  the environment variables, what a server unit makes of its settings (\<open>ZoneServerUnit::run\<close>), and
  the pipeline the units start with. Parsing a name and an address are parameters.
\<close>

section \<open>The settings of the units\<close>

record ZoneServerUnit =
  zu_http_api_path :: string
  zu_listen :: "ListenAddr list"
  zu_xfr_out :: "(dname, string) hmap"
  zu_hooks :: "string list"
  zu_mode :: server_mode
  zu_source :: Source

record ZoneSignerUnit =
  gu_signer :: ZoneSigner
  gu_max_concurrent_operations :: nat
  gu_kmip :: "(string, KmipServerConnectionSettings) hmap"
  gu_dnst_keyset_data_dir :: string

datatype unit_settings =
    LoaderUnit ZoneLoader
  | ServerUnit ZoneServerUnit
  | KeyUnit KeyManager
  | SignerUnit ZoneSignerUnit
  | HttpUnit socket_addr

record spawn_env =
  se_var :: "string \<Rightarrow> string option"
  se_port :: "string \<Rightarrow> 16 word option"
  se_name :: "string \<Rightarrow> dname option"
  se_addrs :: addr_parsers

definition var_or :: "spawn_env \<Rightarrow> string \<Rightarrow> string \<Rightarrow> string" where
  "var_or e name fallback = (case se_var e name of Some v \<Rightarrow> v | None \<Rightarrow> fallback)"

text \<open>Addresses that have to parse: \<open>None\<close> panics.\<close>

fun parse_listen :: "addr_parsers \<Rightarrow> string list \<Rightarrow> ListenAddr list option" where
  "parse_listen ap [] = Some []"
| "parse_listen ap (s # ss) = (case ListenAddr_from_str ap s of
      Inl _ \<Rightarrow> None
    | Inr a \<Rightarrow> map_option ((#) a) (parse_listen ap ss))"

section \<open>Starting them\<close>

definition spawn_loader :: "spawn_env \<Rightarrow> dname \<Rightarrow> ZoneLoader" where
  "spawn_loader e zone_name = \<lparr>zl_zones = [],
     zl_xfr_in = [(zone_name, var_or e ''ZL_XFR_IN'' ''127.0.0.1:8055 KEY sec1-key'')],
     zl_xfr_out = [(zone_name, var_or e ''PS_XFR_OUT'' ''127.0.0.1:8055 KEY sec1-key'')],
     zl_tsig_keys = [(var_or e ''ZL_TSIG_KEY_NAME'' ''sec1-key'',
        var_or e ''ZL_TSIG_KEY'' ''hmac-sha256:zlCZbVJPIhobIs1gJNQfrsS3xCxxsR9pMUrGwG8OgG8='')]\<rparr>"

definition spawn_rs :: "spawn_env \<Rightarrow> dname \<Rightarrow> ListenAddr list \<Rightarrow> ZoneServerUnit" where
  "spawn_rs e zone_name listen = \<lparr>zu_http_api_path = ''/_unit/rs/'', zu_listen = listen,
     zu_xfr_out = [(zone_name, var_or e ''PS_XFR_OUT'' ''127.0.0.1:8055 KEY sec1-key'')],
     zu_hooks = [''/tmp/approve_or_deny.sh''], zu_mode = Prepublish, zu_source = UnsignedZones\<rparr>"

definition spawn_rs2 :: "dname \<Rightarrow> ListenAddr list \<Rightarrow> ZoneServerUnit" where
  "spawn_rs2 zone_name listen = \<lparr>zu_http_api_path = ''/_unit/rs2/'', zu_listen = listen,
     zu_xfr_out = [(zone_name, ''127.0.0.1:8055 KEY sec1-key'')],
     zu_hooks = [''/tmp/approve_or_deny_signed.sh''], zu_mode = Prepublish, zu_source = SignedZones\<rparr>"

definition spawn_ps :: "dname \<Rightarrow> ListenAddr list \<Rightarrow> ZoneServerUnit" where
  "spawn_ps zone_name listen = \<lparr>zu_http_api_path = ''/_unit/ps/'', zu_listen = listen,
     zu_xfr_out = [(zone_name, ''127.0.0.1:8055'')], zu_hooks = [], zu_mode = Publish, zu_source = PublishedZones\<rparr>"

definition spawn_km :: KeyManager where
  "spawn_km = \<lparr>km_dnst_keyset_bin_path = ''dnst'', km_dnst_keyset_data_dir = ''/tmp/keyset/''\<rparr>"

definition spawn_signer :: "spawn_env \<Rightarrow> ZoneSignerUnit" where
  "spawn_signer e = \<lparr>gu_signer = \<lparr>zs_use_lightweight_zone_tree = False,
       zs_max_concurrent_rrsig_generation_tasks = 32, zs_treat_single_keys_as_csks = True\<rparr>,
     gu_max_concurrent_operations = 1, gu_kmip = hsm_settings (se_var e) (se_port e),
     gu_dnst_keyset_data_dir = ''/tmp/keyset/''\<rparr>"

text \<open>\<open>spawn\<close>: the units by name, in the order they are started, or a panic.\<close>

definition spawn_units :: "spawn_env \<Rightarrow> (unit, (string \<times> unit_settings) list) outcome" where
  "spawn_units e = (case se_name e (var_or e ''ZL_IN_ZONE'' ''example.com.'') of
      None \<Rightarrow> Panic
    | Some zone_name \<Rightarrow>
       (case (parse_listen (se_addrs e) [''tcp:127.0.0.1:8056'', ''udp:127.0.0.1:8056''],
              parse_listen (se_addrs e) [''tcp:127.0.0.1:8057'', ''udp:127.0.0.1:8057''],
              parse_listen (se_addrs e) [''tcp:127.0.0.1:8058'', ''udp:127.0.0.1:8058''],
              ap_socket (se_addrs e) ''127.0.0.1:8950'') of
          (Some l1, Some l2, Some l3, Some http) \<Rightarrow> Ok
            [(''ZL'', LoaderUnit (spawn_loader e zone_name)),
             (''RS'', ServerUnit (spawn_rs e zone_name l1)),
             (''KM'', KeyUnit spawn_km),
             (''ZS'', SignerUnit (spawn_signer e)),
             (''RS2'', ServerUnit (spawn_rs2 zone_name l2)),
             (''PS'', ServerUnit (spawn_ps zone_name l3)),
             (''HS'', HttpUnit http)]
        | _ \<Rightarrow> Panic))"

section \<open>A server unit\<close>

text \<open>\<open>ZoneServerUnit::run\<close>: the name under which it runs, the zones it serves, whether it passes on
  NOTIFY messages, how many transfers may run at once, and its state. A mode and a source that do not go
  together are \<open>unreachable!\<close>.\<close>

record running_server =
  ru_unit_name :: string
  ru_source :: Source
  ru_notifier_enabled :: bool
  ru_max_concurrency :: nat
  ru_server :: ZoneServer

definition server_unit_run :: "nat \<Rightarrow> ZoneServerUnit \<Rightarrow> (unit, running_server) outcome" where
  "server_unit_run parallelism su = (case unit_name (zu_mode su) (zu_source su) of
      None \<Rightarrow> Panic
    | Some name \<Rightarrow> Ok \<lparr>ru_unit_name = name, ru_source = zu_source su,
        ru_notifier_enabled = (zu_source su = PublishedZones), ru_max_concurrency = parallelism div 2,
        ru_server = ZoneServer_new (zu_mode su) (zu_source su) (zu_hooks su) (zu_listen su)\<rparr>)"

text \<open>The collection of zones a server serves.\<close>

fun served_tree :: "Source \<Rightarrow> 't zone_trees \<Rightarrow> 't" where
  "served_tree UnsignedZones trees = zt_unsigned_zones trees"
| "served_tree SignedZones trees = zt_signed_zones trees"
| "served_tree PublishedZones trees = zt_published_zones trees"

text \<open>The addresses in the log that confirm or reject a version.\<close>

definition review_url :: "string \<Rightarrow> string \<Rightarrow> string \<Rightarrow> string" where
  "review_url http_api_path action approval_token = http_api_path @ action @ ''/'' @ approval_token"

section \<open>The pipeline at the start\<close>

fun servers_of :: "nat \<Rightarrow> (string \<times> unit_settings) list \<Rightarrow> (string, ZoneServer) hmap" where
  "servers_of par [] = []"
| "servers_of par ((u, ServerUnit su) # units) = (case server_unit_run par su of
      Ok run \<Rightarrow> (u, ru_server run) # servers_of par units
    | _ \<Rightarrow> servers_of par units)"
| "servers_of par (_ # units) = servers_of par units"

definition spawned_pipeline :: "'t domain_api \<Rightarrow> nat \<Rightarrow> (string \<times> unit_settings) list \<Rightarrow> 'k Center \<Rightarrow> ('t, 'k) pipeline" where
  "spawned_pipeline D par units c = \<lparr>pl_center = c\<lparr>ce_updates := []\<rparr>,
     pl_trees = \<lparr>zt_unsigned_zones = d_tree_new D, zt_signed_zones = d_tree_new D, zt_published_zones = d_tree_new D\<rparr>,
     pl_stores = [], pl_status = ZoneSignerStatus_default, pl_cmds = [],
     pl_txs = map (\<lambda>(u, _). (u, Some [])) units, pl_servers = servers_of par units\<rparr>"

section \<open>What is started\<close>

lemma spawn_OkE:
  assumes "spawn_units e = Ok units"
  obtains zone_name l1 l2 l3 http where "se_name e (var_or e ''ZL_IN_ZONE'' ''example.com.'') = Some zone_name"
    "units = [(''ZL'', LoaderUnit (spawn_loader e zone_name)), (''RS'', ServerUnit (spawn_rs e zone_name l1)),
       (''KM'', KeyUnit spawn_km), (''ZS'', SignerUnit (spawn_signer e)), (''RS2'', ServerUnit (spawn_rs2 zone_name l2)),
       (''PS'', ServerUnit (spawn_ps zone_name l3)), (''HS'', HttpUnit http)]"
  using assms unfolding spawn_units_def by (auto split: option.splits)

lemma spawned_start:
  assumes "spawn_units e = Ok units"
  obtains hooks1 hooks2 listen where "hooks1 \<noteq> []" "hooks2 \<noteq> []"
    "spawned_pipeline D par units c = pipeline_start D c hooks1 hooks2 listen"
proof -
  obtain zone_name l1 l2 l3 http where u: "units = [(''ZL'', LoaderUnit (spawn_loader e zone_name)),
       (''RS'', ServerUnit (spawn_rs e zone_name l1)), (''KM'', KeyUnit spawn_km), (''ZS'', SignerUnit (spawn_signer e)),
       (''RS2'', ServerUnit (spawn_rs2 zone_name l2)), (''PS'', ServerUnit (spawn_ps zone_name l3)), (''HS'', HttpUnit http)]"
    by (rule spawn_OkE [OF assms])
  have "spawned_pipeline D par units c
      = pipeline_start D c [''/tmp/approve_or_deny.sh''] [''/tmp/approve_or_deny_signed.sh''] (l1, l2, l3)"
    by (simp add: u spawned_pipeline_def pipeline_start_def server_unit_run_def spawn_rs_def spawn_rs2_def spawn_ps_def)
  then show ?thesis using that by blast
qed

lemma spawn_server:
  assumes "spawn_units e = Ok units" "(u, ServerUnit su) \<in> set units"
  shows "unit_name (zu_mode su) (zu_source su) = Some u"
    and "(u, zu_http_api_path su) \<in> set [(''RS'', ''/_unit/rs/''), (''RS2'', ''/_unit/rs2/''), (''PS'', ''/_unit/ps/'')]"
proof -
  obtain zone_name l1 l2 l3 http where "units = [(''ZL'', LoaderUnit (spawn_loader e zone_name)),
       (''RS'', ServerUnit (spawn_rs e zone_name l1)), (''KM'', KeyUnit spawn_km), (''ZS'', SignerUnit (spawn_signer e)),
       (''RS2'', ServerUnit (spawn_rs2 zone_name l2)), (''PS'', ServerUnit (spawn_ps zone_name l3)), (''HS'', HttpUnit http)]"
    by (rule spawn_OkE [OF assms(1)])
  with assms(2) show "unit_name (zu_mode su) (zu_source su) = Some u"
    "(u, zu_http_api_path su) \<in> set [(''RS'', ''/_unit/rs/''), (''RS2'', ''/_unit/rs2/''), (''PS'', ''/_unit/ps/'')]"
    by (auto simp: spawn_rs_def spawn_rs2_def spawn_ps_def)
qed

lemma unit_routes:
  assumes R: "router_ok (hp_route P)" and p: "plain_seg a" "plain_seg t"
  shows "hp_route P (map fst http_app) (''/_unit/rs/'' @ a @ ''/'' @ t) = Some (''/_unit/rs/{action}/{token}'', [a, t])"
    "hp_route P (map fst http_app) (''/_unit/rs2/'' @ a @ ''/'' @ t) = Some (''/_unit/rs2/{action}/{token}'', [a, t])"
    "hp_route P (map fst http_app) (''/_unit/ps/'' @ a @ ''/'' @ t) = Some (''/_unit/ps/{action}/{token}'', [a, t])"
proof -
  note sl = plain_no_slash [OF p(1)] plain_no_slash [OF p(2)]
  have lit: "plain_seg ''_unit''" "plain_seg ''rs''" "plain_seg ''rs2''" "plain_seg ''ps''"
    by (simp_all add: plain_seg_def unreserved_def)
  have segs: "split_on CHR ''/'' (''/_unit/rs/'' @ a @ ''/'' @ t) = [[], ''_unit'', ''rs'', a, t]"
    "split_on CHR ''/'' (''/_unit/rs2/'' @ a @ ''/'' @ t) = [[], ''_unit'', ''rs2'', a, t]"
    "split_on CHR ''/'' (''/_unit/ps/'' @ a @ ''/'' @ t) = [[], ''_unit'', ''ps'', a, t]"
    using sl by simp_all
  have plain: "plain_path (''/_unit/rs/'' @ a @ ''/'' @ t)" "plain_path (''/_unit/rs2/'' @ a @ ''/'' @ t)"
    "plain_path (''/_unit/ps/'' @ a @ ''/'' @ t)"
    unfolding plain_path_def segs using p lit by simp_all
  note pick = route_matching [OF R]
  show "hp_route P (map fst http_app) (''/_unit/rs/'' @ a @ ''/'' @ t) = Some (''/_unit/rs/{action}/{token}'', [a, t])"
    by (rule pick [OF plain(1)]; simp only: segs matching_units; simp)
  show "hp_route P (map fst http_app) (''/_unit/rs2/'' @ a @ ''/'' @ t) = Some (''/_unit/rs2/{action}/{token}'', [a, t])"
    by (rule pick [OF plain(2)]; simp only: segs matching_units; simp)
  show "hp_route P (map fst http_app) (''/_unit/ps/'' @ a @ ''/'' @ t) = Some (''/_unit/ps/{action}/{token}'', [a, t])"
    by (rule pick [OF plain(3)]; simp only: segs matching_units; simp)
qed

lemma review_reply:
  assumes "action \<in> {''approve'', ''reject''}" "tok \<noteq> []" "hm_get params ''zone'' = Some zs" "rp_name (hp_review P) zs = Some n"
    and "hm_get params ''serial'' = Some ss" "rp_serial (hp_review P) ss = Some s"
  shows "unit_reply P (review_request (hp_review P) u) [action, tok] (Some params)
    = (reply_empty (hp_wire P) (case hp_review_answer P (u, HandleZoneReviewApi n s tok action (hp_tx P)) of
         Some True \<Rightarrow> 200 | Some False \<Rightarrow> 400 | None \<Rightarrow> 500), [(u, HandleZoneReviewApi n s tok action (hp_tx P))])"
  using assms by (auto simp: unit_reply_def review_request_def review_response_def split: option.splits)

text \<open>C19: the address a review server writes to its log for a hook to confirm or reject a version leads,
  through the routes of the HTTP server, to that server: the request is passed to the unit that asked for
  it, with the zone, the serial, the token and the operation, and answered with what that unit says.\<close>

theorem review_urls_reach_unit:
  assumes "spawn_units e = Ok units" "(u, ServerUnit su) \<in> set units" "router_ok (hp_route P)"
    and "plain_seg tok" "action \<in> {''approve'', ''reject''}"
    and "hm_get params ''zone'' = Some zs" "rp_name (hp_review P) zs = Some n"
    and "hm_get params ''serial'' = Some ss" "rp_serial (hp_review P) ss = Some s"
  shows "let cmd = HandleZoneReviewApi n s tok action (hp_tx P);
             reply = (case hp_review_answer P (u, cmd) of Some True \<Rightarrow> 200 | Some False \<Rightarrow> 400 | None \<Rightarrow> 500)
         in http_serve P \<lparr>rq_method = GET, rq_path = review_url (zu_http_api_path su) action tok, rq_params = Some params, rq_body = b\<rparr> trees c
           = (Ok (reply_empty (hp_wire P) reply), c, [(u, cmd)])
           \<and> unit_name (zu_mode su) (zu_source su) = Some u"
proof -
  have p: "plain_seg action" "tok \<noteq> []" using assms(4,5) by (auto simp: plain_seg_def unreserved_def)
  note rep = review_reply [OF assms(5) p(2) assms(6-9)]
  note at = serve_at [where P = P and m' = GET] and rt = unit_routes [OF assms(3) p(1) assms(4)]
  consider "u = ''RS''" "zu_http_api_path su = ''/_unit/rs/''" | "u = ''RS2''" "zu_http_api_path su = ''/_unit/rs2/''"
    | "u = ''PS''" "zu_http_api_path su = ''/_unit/ps/''"
    using spawn_server(2) [OF assms(1,2)] by auto
  then show ?thesis
  proof cases
    case 1
    show ?thesis using spawn_server(1) [OF assms(1,2)]
      unfolding 1 review_url_def Let_def at [OF rt(1) app_handlers(10)] by (simp add: handle_rs_def rep)
  next
    case 2
    show ?thesis using spawn_server(1) [OF assms(1,2)]
      unfolding 2 review_url_def Let_def at [OF rt(2) app_handlers(11)] by (simp add: handle_rs2_def rep)
  next
    case 3
    show ?thesis using spawn_server(1) [OF assms(1,2)]
      unfolding 3 review_url_def Let_def at [OF rt(3) app_handlers(12)] by (simp add: handle_ps_def rep)
  qed
qed

definition demo_addrs :: addr_parsers where
  "demo_addrs = \<lparr>ap_socket = (\<lambda>s. Some (SocketAddrV4 2130706433 8056)), ap_ip = (\<lambda>s. None)\<rparr>"

definition demo_spawn :: spawn_env where
  "demo_spawn = \<lparr>se_var = (\<lambda>v. None), se_port = (\<lambda>s. None), se_name = Some, se_addrs = demo_addrs\<rparr>"

definition demo_listen :: "ListenAddr list" where
  "demo_listen = [ListenTcp (SocketAddrV4 2130706433 8056), ListenUdp (SocketAddrV4 2130706433 8056)]"

definition demo_units :: "(string \<times> unit_settings) list" where
  "demo_units =
    [(''ZL'', LoaderUnit (spawn_loader demo_spawn ''example.com.'')), (''RS'', ServerUnit (spawn_rs demo_spawn ''example.com.'' demo_listen)),
     (''KM'', KeyUnit spawn_km), (''ZS'', SignerUnit (spawn_signer demo_spawn)),
     (''RS2'', ServerUnit (spawn_rs2 ''example.com.'' demo_listen)), (''PS'', ServerUnit (spawn_ps ''example.com.'' demo_listen)),
     (''HS'', HttpUnit (SocketAddrV4 2130706433 8056))]"

lemma demo_spawned: "spawn_units demo_spawn = Ok demo_units"
  by (simp add: demo_units_def spawn_units_def demo_spawn_def demo_addrs_def demo_listen_def var_or_def ListenAddr_from_str_def)

theorem review_urls_reach_unit_witness:
  "http_serve demo_http \<lparr>rq_method = GET, rq_path = ''/_unit/rs2/approve/t0'', rq_params = Some [(''zone'', ''example''), (''serial'', ''5'')],
       rq_body = None\<rparr> demo_trees (new_center :: token Center)
     = (Ok (reply_empty demo_wire 200), new_center, [(''RS2'', HandleZoneReviewApi ''example'' 5 ''t0'' ''approve'' 7)])"
proof -
  have h: "router_ok (hp_route demo_http)" "plain_seg ''t0''" "''approve'' \<in> {''approve'', ''reject''}"
    "hm_get [(''zone'', ''example''), (''serial'', ''5'')] ''zone'' = Some ''example''" "rp_name (hp_review demo_http) ''example'' = Some ''example''"
    "hm_get [(''zone'', ''example''), (''serial'', ''5'')] ''serial'' = Some ''5''" "rp_serial (hp_review demo_http) ''5'' = Some 5"
    by (simp_all add: demo_http_def plain_seg_def unreserved_def)
  have u: "(''RS2'', ServerUnit (spawn_rs2 ''example.com.'' demo_listen)) \<in> set demo_units" by (simp add: demo_units_def)
  show ?thesis using review_urls_reach_unit [OF demo_spawned u h, of None demo_trees "new_center :: token Center"]
    by (simp add: review_url_def spawn_rs2_def demo_http_def Let_def)
qed

end
