(* ===== verification/Logging.thy ===== *)
theory Logging
  imports Config
begin

text \<open>
  The logger (\<open>log.rs\<close>): preparing and applying a change of its settings, which records it
  writes and where. The levels of the \<open>log\<close> crate are named as in its \<open>LevelFilter\<close>; their
  order is a parameter. Opening files and the system log are the environment; flushing has no effect
  on the state.
\<close>

section \<open>Levels\<close>

datatype LevelFilter = Lf_Error | Lf_Warn | Lf_Info | Lf_Debug | Lf_Trace

fun LevelFilter_from :: "LogLevel \<Rightarrow> LevelFilter" where
  "LevelFilter_from LogLevel.Trace = Lf_Trace"
| "LevelFilter_from LogLevel.Debug = Lf_Debug"
| "LevelFilter_from LogLevel.Info = Lf_Info"
| "LevelFilter_from LogLevel.Warning = Lf_Warn"
| "LevelFilter_from LogLevel.Error = Lf_Error"
| "LevelFilter_from LogLevel.Critical = Lf_Error"

text \<open>The documented order of the levels, as a rank.\<close>

definition level_order_ok :: "(LevelFilter \<Rightarrow> nat) \<Rightarrow> bool" where
  "level_order_ok rank \<longleftrightarrow> rank Lf_Error < rank Lf_Warn \<and> rank Lf_Warn < rank Lf_Info
     \<and> rank Lf_Info < rank Lf_Debug \<and> rank Lf_Debug < rank Lf_Trace"

section \<open>The state\<close>

datatype PrimaryLogger = FileLogger utf8path | SyslogLogger

text \<open>\<open>PrimaryLogger::new\<close>: the environment says whether the target can be opened.\<close>

definition PrimaryLogger_new :: "(LogTarget \<Rightarrow> 'e option) \<Rightarrow> LogTarget \<Rightarrow> 'e + PrimaryLogger" where
  "PrimaryLogger_new open_error config = (case open_error config of
      Some err \<Rightarrow> Inl err
    | None \<Rightarrow> (case config of
        LogTarget.File path \<Rightarrow> Inr (FileLogger path)
      | LogTarget.Syslog \<Rightarrow> Inr SyslogLogger))"

fun PrimaryLogger_matches :: "PrimaryLogger \<Rightarrow> LogTarget \<Rightarrow> bool" where
  "PrimaryLogger_matches (FileLogger l) (LogTarget.File r) \<longleftrightarrow> l = r"
| "PrimaryLogger_matches SyslogLogger LogTarget.Syslog \<longleftrightarrow> True"
| "PrimaryLogger_matches _ _ \<longleftrightarrow> False"

record LoggerInner =
  li_primary :: PrimaryLogger
  li_level :: LevelFilter
  li_trace_targets :: "string set"

record log_record =
  rec_level :: LevelFilter
  rec_target :: string
  rec_args :: string

datatype log_output = ToStderr string | ToFile utf8path string | ToSyslog log_record

text \<open>The logger, with the maximal level it sets in the \<open>log\<close> crate and what was written.\<close>

record Logger =
  lgr_inner :: "LoggerInner option"
  lgr_poisoned :: bool
  lgr_max_level :: LevelFilter
  lgr_out :: "log_output list"

definition Logger_launch :: Logger where
  "Logger_launch = \<lparr>lgr_inner = None, lgr_poisoned = False, lgr_max_level = Lf_Info, lgr_out = []\<rparr>"

section \<open>Changing the settings\<close>

record PreparedChange =
  pc_primary :: "PrimaryLogger option"
  pc_level :: LevelFilter
  pc_trace_targets :: "string set option"

definition Logger_prepare :: "(LogTarget \<Rightarrow> 'e option) \<Rightarrow> LoggingConfig \<Rightarrow> Logger \<Rightarrow> 'e + PreparedChange option" where
  "Logger_prepare open_error config lgr =
    (if lgr_poisoned lgr then Inr None
     else case lgr_inner lgr of
       Some inner \<Rightarrow>
         (let target = Setting_value (lg_target config);
              level = LevelFilter_from (Setting_value (lg_level config));
              targets = Setting_value (lg_trace_targets config);
              trace_targets = (if li_trace_targets inner \<noteq> targets then Some targets else None)
          in case (if \<not> PrimaryLogger_matches (li_primary inner) target
                   then map_sum id Some (PrimaryLogger_new open_error target) else Inr None) of
               Inl err \<Rightarrow> Inl err
             | Inr primary \<Rightarrow>
                 if primary = None \<and> li_level inner = level \<and> trace_targets = None then Inr None
                 else Inr (Some \<lparr>pc_primary = primary, pc_level = level, pc_trace_targets = trace_targets\<rparr>))
     | None \<Rightarrow>
         (case PrimaryLogger_new open_error (Setting_value (lg_target config)) of
            Inl err \<Rightarrow> Inl err
          | Inr primary \<Rightarrow> Inr (Some \<lparr>pc_primary = Some primary,
              pc_level = LevelFilter_from (Setting_value (lg_level config)),
              pc_trace_targets = Some (Setting_value (lg_trace_targets config))\<rparr>)))"

definition max_level_of :: "LoggerInner \<Rightarrow> LevelFilter" where
  "max_level_of inner = (if li_trace_targets inner \<noteq> {} then Lf_Trace else li_level inner)"

definition change_or :: "'a option \<Rightarrow> 'a \<Rightarrow> 'a" where
  "change_or change old = (case change of Some new \<Rightarrow> new | None \<Rightarrow> old)"

text \<open>A change that lacks a part the first change needs panics with the lock held.\<close>

definition Logger_apply :: "PreparedChange \<Rightarrow> Logger \<Rightarrow> (unit, unit) outcome \<times> Logger" where
  "Logger_apply change lgr =
    (if lgr_poisoned lgr then (Ok (), lgr)
     else case lgr_inner lgr of
       Some inner \<Rightarrow>
         (let inner1 = \<lparr>li_primary = change_or (pc_primary change) (li_primary inner),
                li_level = pc_level change,
                li_trace_targets = change_or (pc_trace_targets change) (li_trace_targets inner)\<rparr>
          in (Ok (), lgr\<lparr>lgr_inner := Some inner1, lgr_max_level := max_level_of inner1\<rparr>))
     | None \<Rightarrow>
         (case (pc_primary change, pc_trace_targets change) of
            (Some primary, Some targets) \<Rightarrow>
              (let inner1 = \<lparr>li_primary = primary, li_level = pc_level change, li_trace_targets = targets\<rparr>
               in (Ok (), lgr\<lparr>lgr_inner := Some inner1, lgr_max_level := max_level_of inner1\<rparr>))
          | _ \<Rightarrow> (Panic, lgr\<lparr>lgr_poisoned := True\<rparr>)))"

section \<open>Writing records\<close>

definition Inner_enabled :: "(LevelFilter \<Rightarrow> nat) \<Rightarrow> LevelFilter \<Rightarrow> string \<Rightarrow> LoggerInner \<Rightarrow> bool" where
  "Inner_enabled rank level target inner \<longleftrightarrow> rank level \<le> rank (li_level inner)
     \<or> level = Lf_Trace \<and> target \<in> li_trace_targets inner"

definition Logger_enabled :: "(LevelFilter \<Rightarrow> nat) \<Rightarrow> LevelFilter \<Rightarrow> string \<Rightarrow> Logger \<Rightarrow> bool" where
  "Logger_enabled rank level target lgr =
    (case (if lgr_poisoned lgr then None else lgr_inner lgr) of
       Some inner \<Rightarrow> Inner_enabled rank level target inner
     | None \<Rightarrow> rank level \<le> rank Lf_Info)"

text \<open>Printing needs the time and the names of the levels.\<close>

definition PrimaryLogger_log :: "(LevelFilter \<Rightarrow> string) \<Rightarrow> string \<Rightarrow> log_record \<Rightarrow> PrimaryLogger \<Rightarrow> log_output" where
  "PrimaryLogger_log show_level now record primary = (case primary of
      FileLogger path \<Rightarrow> ToFile path (''['' @ now @ ''] '' @ show_level (rec_level record) @ '' ''
        @ rec_target record @ '': '' @ rec_args record @ [CHR 0x0A])
    | SyslogLogger \<Rightarrow> ToSyslog record)"

text \<open>Without settings, and after a panic with the lock held, every record goes to the standard
  error stream.\<close>

definition Logger_log :: "(LevelFilter \<Rightarrow> nat) \<Rightarrow> (LevelFilter \<Rightarrow> string) \<Rightarrow> string \<Rightarrow> log_record \<Rightarrow> Logger \<Rightarrow> Logger" where
  "Logger_log rank show_level now record lgr =
    (case (if lgr_poisoned lgr then None else lgr_inner lgr) of
       Some inner \<Rightarrow> if Inner_enabled rank (rec_level record) (rec_target record) inner
         then lgr\<lparr>lgr_out := lgr_out lgr @ [PrimaryLogger_log show_level now record (li_primary inner)]\<rparr>
         else lgr
     | None \<Rightarrow> lgr\<lparr>lgr_out := lgr_out lgr @ [ToStderr (rec_args record @ [CHR 0x0A])]\<rparr>)"

section \<open>The settings are followed\<close>

text \<open>What a configuration asks for.\<close>

definition configured :: "LoggingConfig \<Rightarrow> Logger \<Rightarrow> bool" where
  "configured config lgr \<longleftrightarrow> (\<exists>inner. lgr_inner lgr = Some inner \<and> lgr_max_level lgr = max_level_of inner
     \<and> PrimaryLogger_matches (li_primary inner) (Setting_value (lg_target config))
     \<and> li_level inner = LevelFilter_from (Setting_value (lg_level config))
     \<and> li_trace_targets inner = Setting_value (lg_trace_targets config))"

text \<open>The maximal level given to the \<open>log\<close> crate belongs to the settings.\<close>

definition logger_ok :: "Logger \<Rightarrow> bool" where
  "logger_ok lgr \<longleftrightarrow> \<not> lgr_poisoned lgr
     \<and> (\<forall>inner. lgr_inner lgr = Some inner \<longrightarrow> lgr_max_level lgr = max_level_of inner)"

lemma PrimaryLogger_new_matches: "PrimaryLogger_new oe t = Inr p \<Longrightarrow> PrimaryLogger_matches p t"
  by (auto simp: PrimaryLogger_new_def split: option.splits LogTarget.splits)

lemma map_new: "map_sum id Some r = Inr x \<longleftrightarrow> (\<exists>p. x = Some p \<and> r = Inr p)"
  by (cases r) auto

lemma prepare_configured: "configured config lgr \<Longrightarrow> \<not> lgr_poisoned lgr \<Longrightarrow> Logger_prepare open_error config lgr = Inr None"
  by (auto simp: configured_def Logger_prepare_def Let_def)

lemma logger_ok_launch: "logger_ok Logger_launch"
  by (simp add: logger_ok_def Logger_launch_def)

text \<open>C39: preparing a change of the logger's settings and applying it never panics and leaves the
  logger as the configuration asks, whatever its settings were; when nothing is to be changed, it is
  already so. Preparing the same configuration again finds nothing to change.\<close>

theorem logger_follows_config:
  assumes "logger_ok lgr" "Logger_prepare open_error config lgr = Inr change"
  shows "case change of
      None \<Rightarrow> configured config lgr
    | Some c \<Rightarrow> \<exists>lgr'. Logger_apply c lgr = (Ok (), lgr') \<and> configured config lgr' \<and> logger_ok lgr'
        \<and> Logger_prepare open_error config lgr' = Inr None"
proof (cases "lgr_inner lgr")
  case None
  then show ?thesis using assms
    by (auto simp: Logger_prepare_def logger_ok_def Logger_apply_def configured_def Let_def
        split: sum.splits dest: PrimaryLogger_new_matches)
next
  case (Some inner)
  let ?target = "Setting_value (lg_target config)" and ?targets = "Setting_value (lg_trace_targets config)"
  let ?level = "LevelFilter_from (Setting_value (lg_level config))"
  have ok: "\<not> lgr_poisoned lgr" "lgr_max_level lgr = max_level_of inner" using assms(1) Some by (simp_all add: logger_ok_def)
  obtain primary where p: "(if \<not> PrimaryLogger_matches (li_primary inner) ?target
      then map_sum id Some (PrimaryLogger_new open_error ?target) else Inr None) = Inr primary"
    using assms(2) ok Some by (auto simp: Logger_prepare_def Let_def split: sum.splits if_splits)
  have m: "PrimaryLogger_matches (change_or primary (li_primary inner)) ?target"
    using p by (auto simp: change_or_def map_new split: if_splits dest: PrimaryLogger_new_matches)
  define trace where "trace = (if li_trace_targets inner \<noteq> ?targets then Some ?targets else None)"
  have t: "change_or trace (li_trace_targets inner) = ?targets" by (simp add: trace_def change_or_def)
  have change: "change = (if primary = None \<and> li_level inner = ?level \<and> trace = None then None
      else Some \<lparr>pc_primary = primary, pc_level = ?level, pc_trace_targets = trace\<rparr>)"
    using assms(2) ok(1) Some p by (auto simp: Logger_prepare_def Let_def trace_def split: if_splits)
  show ?thesis
  proof (cases "primary = None \<and> li_level inner = ?level \<and> trace = None")
    case True
    then show ?thesis using m t ok Some by (simp add: change configured_def change_or_def)
  next
    case False
    define inner1 where "inner1 = \<lparr>li_primary = change_or primary (li_primary inner), li_level = ?level, li_trace_targets = ?targets\<rparr>"
    define lgr1 where "lgr1 = lgr\<lparr>lgr_inner := Some inner1, lgr_max_level := max_level_of inner1\<rparr>"
    have "Logger_apply \<lparr>pc_primary = primary, pc_level = ?level, pc_trace_targets = trace\<rparr> lgr = (Ok (), lgr1)"
      using ok Some t by (simp add: Logger_apply_def Let_def lgr1_def inner1_def)
    moreover have "configured config lgr1" using m by (simp add: configured_def lgr1_def inner1_def)
    moreover have "logger_ok lgr1" using ok by (simp add: logger_ok_def lgr1_def)
    ultimately show ?thesis using False prepare_configured [of config lgr1 open_error] by (auto simp: change logger_ok_def)
  qed
qed

definition demo_logging :: LoggingConfig where
  "demo_logging = LoggingConfig_default\<lparr>lg_trace_targets := Setting_new {''cascade''}\<rparr>"

theorem logger_follows_config_witness:
  "\<exists>c lgr'. Logger_prepare (\<lambda>t. None :: unit option) demo_logging Logger_launch = Inr (Some c)
    \<and> Logger_apply c Logger_launch = (Ok (), lgr') \<and> configured demo_logging lgr'"
proof -
  obtain c where c: "Logger_prepare (\<lambda>t. None :: unit option) demo_logging Logger_launch = Inr (Some c)"
    by (simp add: Logger_prepare_def Logger_launch_def demo_logging_def LoggingConfig_default_def Setting_value_def
        Setting_new_def PrimaryLogger_new_def)
  from logger_follows_config [OF logger_ok_launch this] c show ?thesis by auto
qed

section \<open>Which records are written\<close>

text \<open>C40: a logger set up by a configuration lets through exactly the records at its level and the trace
  records of the traced targets, and asks the logging crate for all of these. A traced target at level
  info or above gives its trace records, but not its debug records, which are less verbose.\<close>

theorem records_written:
  assumes "level_order_ok rank" "configured config lgr" "\<not> lgr_poisoned lgr"
  shows "(Logger_enabled rank level target lgr \<longleftrightarrow>
      rank level \<le> rank (LevelFilter_from (Setting_value (lg_level config)))
      \<or> level = Lf_Trace \<and> target \<in> Setting_value (lg_trace_targets config))
    \<and> (Logger_enabled rank level target lgr \<longrightarrow> rank level \<le> rank (lgr_max_level lgr))
    \<and> (target \<in> Setting_value (lg_trace_targets config) \<and> Setting_value (lg_level config) \<notin> {LogLevel.Trace, LogLevel.Debug}
      \<longrightarrow> Logger_enabled rank Lf_Trace target lgr \<and> \<not> Logger_enabled rank Lf_Debug target lgr)"
proof -
  obtain inner where i: "lgr_inner lgr = Some inner" "lgr_max_level lgr = max_level_of inner"
      "li_level inner = LevelFilter_from (Setting_value (lg_level config))"
      "li_trace_targets inner = Setting_value (lg_trace_targets config)"
    using assms(2) by (auto simp: configured_def)
  note defs = Logger_enabled_def Inner_enabled_def assms(3) i
  have "rank l \<le> rank Lf_Trace" for l using assms(1) by (cases l) (simp_all add: level_order_ok_def)
  then have "Logger_enabled rank level target lgr \<longrightarrow> rank level \<le> rank (lgr_max_level lgr)"
    by (auto simp: defs max_level_of_def)
  moreover have "Setting_value (lg_level config) \<notin> {LogLevel.Trace, LogLevel.Debug} \<Longrightarrow>
      \<not> Logger_enabled rank Lf_Debug target lgr"
    using assms(1) by (cases "Setting_value (lg_level config)") (simp_all add: defs level_order_ok_def)
  ultimately show ?thesis by (simp add: defs)
qed

definition demo_rank :: "LevelFilter \<Rightarrow> nat" where
  "demo_rank l = (case l of Lf_Error \<Rightarrow> 1 | Lf_Warn \<Rightarrow> 2 | Lf_Info \<Rightarrow> 3 | Lf_Debug \<Rightarrow> 4 | Lf_Trace \<Rightarrow> 5)"

definition demo_logger :: Logger where
  "demo_logger = Logger_launch\<lparr>lgr_inner := Some \<lparr>li_primary = FileLogger ''/dev/stdout'', li_level = Lf_Info,
     li_trace_targets = {''cascade''}\<rparr>, lgr_max_level := Lf_Trace\<rparr>"

theorem records_written_witness:
  "Logger_enabled demo_rank Lf_Trace ''cascade'' demo_logger \<and> \<not> Logger_enabled demo_rank Lf_Debug ''cascade'' demo_logger"
proof -
  have "level_order_ok demo_rank" "configured demo_logging demo_logger" "\<not> lgr_poisoned demo_logger"
    by (simp_all add: level_order_ok_def demo_rank_def configured_def demo_logger_def demo_logging_def Logger_launch_def
        LoggingConfig_default_def Setting_value_def Setting_new_def max_level_of_def)
  from records_written [OF this, of Lf_Trace "''cascade''"] show ?thesis
    by (simp add: demo_logging_def LoggingConfig_default_def Setting_value_def Setting_new_def)
qed

end
