(* ===== verification/Client.thy ===== *)
theory Client
  imports Manager Logging
begin

text \<open>
  The command line client (\<open>cli/\<close>, \<open>bin/cascade.rs\<close>): the request each command makes, what it
  makes of the reply, and its exit code, with the server at the other end. Parsing the command
  line is \<open>clap\<close>, and joining a path to the address of the server is the \<open>url\<close> crate, whose
  documented behaviour on plain paths is \<open>url_join_ok\<close>.
\<close>

section \<open>Commands\<close>

datatype ZoneCommand =
    ZcAdd dname ZoneSource string
  | ZcRemove dname
  | ZcList
  | ZcReload dname
  | ZcStatus dname

datatype StatusCommand = ScZone dname | ScKeys

datatype PolicyCommand = PcList | PcShow string | PcReload

datatype cli_command =
    CliZone ZoneCommand
  | CliStatus "StatusCommand option"
  | CliPolicy PolicyCommand

record cli_args =
  ca_server :: socket_addr
  ca_log_level :: LogLevel
  ca_command :: cli_command

text \<open>The defaults of the arguments, in text.\<close>

definition default_server :: string where
  "default_server = ''127.0.0.1:8950''"

definition default_log_level :: string where
  "default_log_level = ''warning''"

section \<open>Requests\<close>

text \<open>The request of a command: the method, the path below the address of the server and the value
  sent. \<open>None\<close> is a command that is not written yet and panics.\<close>

fun zone_call :: "ZoneCommand \<Rightarrow> http_method \<times> string \<times> api_value option" where
  "zone_call (ZcAdd name source policy) =
     (POST, ''zone/add'', Some (VZoneAdd \<lparr>za_name = name, za_source = source, za_policy = policy\<rparr>))"
| "zone_call (ZcRemove name) = (POST, ''zone/'' @ name @ ''/remove'', None)"
| "zone_call ZcList = (GET, ''zones/list'', None)"
| "zone_call (ZcReload zone) = (POST, ''zone/'' @ zone @ ''/reload'', None)"
| "zone_call (ZcStatus zone) = (GET, ''zone/'' @ zone @ ''/status'', None)"

fun status_call :: "StatusCommand option \<Rightarrow> (http_method \<times> string \<times> api_value option) option" where
  "status_call (Some (ScZone name)) = Some (GET, ''/zone/'' @ name @ ''/status'', None)"
| "status_call (Some ScKeys) = None"
| "status_call None = Some (GET, ''/status'', None)"

fun policy_call :: "PolicyCommand \<Rightarrow> http_method \<times> string \<times> api_value option" where
  "policy_call PcList = (GET, ''policy/list'', None)"
| "policy_call (PcShow name) = (GET, ''policy/'' @ name, None)"
| "policy_call PcReload = (POST, ''policy/reload'', None)"

fun command_call :: "cli_command \<Rightarrow> (http_method \<times> string \<times> api_value option) option" where
  "command_call (CliZone c) = Some (zone_call c)"
| "command_call (CliStatus c) = status_call c"
| "command_call (CliPolicy c) = Some (policy_call c)"

text \<open>The environment of the client: addresses in text, joining of paths, and derived \<open>Debug\<close> output.\<close>

record 'b cli_env =
  cl_show_addr :: "socket_addr \<Rightarrow> string"
  cl_join :: "string \<Rightarrow> string \<Rightarrow> string option"
  cl_debug :: "api_value \<Rightarrow> string"

definition base_uri :: "'b cli_env \<Rightarrow> socket_addr \<Rightarrow> string" where
  "base_uri E server = ''http://'' @ cl_show_addr E server"

definition client_request :: "'b cli_env \<Rightarrow> 'b wire_api \<Rightarrow> socket_addr \<Rightarrow> http_method \<Rightarrow> string \<Rightarrow> api_value option
    \<Rightarrow> 'b api_request option" where
  "client_request E W server m s body = (case cl_join E (base_uri E server) s of
      None \<Rightarrow> None
    | Some path \<Rightarrow> Some \<lparr>rq_method = m, rq_path = path, rq_params = Some [],
        rq_body = (case body of Some v \<Rightarrow> w_to_json W v | None \<Rightarrow> w_text W '''')\<rparr>)"

section \<open>Replies\<close>

text \<open>A reply that is read as JSON, whatever its status; \<open>None\<close> when the connection was closed
  without a reply or the body is not of the type.\<close>

definition read_json :: "'b wire_api \<Rightarrow> api_type \<Rightarrow> 'b api_reply option \<Rightarrow> api_value option" where
  "read_json W T reply = (case reply of None \<Rightarrow> None | Some r \<Rightarrow> w_from_json W T (rp_body r))"

definition tab :: char where
  "tab = CHR 0x09"

fun stage_word :: "ZoneStage \<Rightarrow> string" where
  "stage_word Unsigned = ''unsigned''"
| "stage_word Signed = ''signed''"
| "stage_word Published = ''published''"

text \<open>What a command prints in the end, or its error.\<close>

fun zone_finish :: "'b cli_env \<Rightarrow> 'b wire_api \<Rightarrow> ZoneCommand \<Rightarrow> 'b api_reply option \<Rightarrow> (unit, string list) outcome" where
  "zone_finish E W (ZcAdd name source policy) reply = (case read_json W TZoneAddResult reply of
      Some (VZoneAddResult res) \<Rightarrow> Ok [''Registered zone '' @ zar_name res]
    | _ \<Rightarrow> Err ())"
| "zone_finish E W (ZcRemove name) reply = (case read_json W TZoneAddResult reply of
      Some (VZoneAddResult res) \<Rightarrow> Ok [''Removed zone '' @ zar_name res]
    | _ \<Rightarrow> Err ())"
| "zone_finish E W ZcList reply = (case read_json W TZonesListResult reply of
      Some (VZonesListResult zones) \<Rightarrow> Ok (map (\<lambda>z. zle_name z @ [tab] @ stage_word (zle_stage z)) zones)
    | _ \<Rightarrow> Err ())"
| "zone_finish E W (ZcReload zone) reply = (case reply of
      Some r \<Rightarrow> if rp_status r \<ge> 400 then Err () else Ok [''Success: Sent zone reload command for '' @ zone]
    | None \<Rightarrow> Err ())"
| "zone_finish E W (ZcStatus zone) reply = (case read_json W TZoneStatusResult reply of
      Some v \<Rightarrow> Ok [''Server status: '' @ cl_debug E v]
    | None \<Rightarrow> Err ())"

fun status_finish :: "'b cli_env \<Rightarrow> 'b wire_api \<Rightarrow> StatusCommand option \<Rightarrow> 'b api_reply option \<Rightarrow> (unit, string list) outcome" where
  "status_finish E W (Some (ScZone name)) reply = (case read_json W TZoneStatusResult reply of
      Some _ \<Rightarrow> Ok [''Success: Sent zone reload command for '' @ name]
    | None \<Rightarrow> Err ())"
| "status_finish E W (Some ScKeys) reply = Panic"
| "status_finish E W None reply = (case read_json W TServerStatusResult reply of
      Some v \<Rightarrow> Ok [''Server status: '' @ cl_debug E v]
    | None \<Rightarrow> Err ())"

fun policy_finish :: "'b cli_env \<Rightarrow> 'b wire_api \<Rightarrow> PolicyCommand \<Rightarrow> 'b api_reply option \<Rightarrow> (unit, string list) outcome" where
  "policy_finish E W PcList reply = (case read_json W TPolicyListResult reply of
      Some (VPolicyListResult policies) \<Rightarrow> Ok policies
    | _ \<Rightarrow> Err ())"
| "policy_finish E W (PcShow name) reply = (case read_json W TPolicyListResult reply of
      Some v \<Rightarrow> Ok [''Policy info: '' @ cl_debug E v]
    | None \<Rightarrow> Err ())"
| "policy_finish E W PcReload reply = (case read_json W TPolicyReloadResult reply of
      Some _ \<Rightarrow> Ok [''Policies reloaded'']
    | None \<Rightarrow> Err ())"

fun command_finish :: "'b cli_env \<Rightarrow> 'b wire_api \<Rightarrow> cli_command \<Rightarrow> 'b api_reply option \<Rightarrow> (unit, string list) outcome" where
  "command_finish E W (CliZone c) reply = zone_finish E W c reply"
| "command_finish E W (CliStatus c) reply = status_finish E W c reply"
| "command_finish E W (CliPolicy c) reply = policy_finish E W c reply"

section \<open>Running a command\<close>

text \<open>\<open>Args::execute\<close>, with what the server does with the request. A reply that never comes is a
  handler that panicked.\<close>

definition reply_of :: "(unit, 'b api_reply) outcome \<Rightarrow> 'b api_reply option" where
  "reply_of res = (case res of Ok r \<Rightarrow> Some r | _ \<Rightarrow> None)"

definition cli_execute :: "'b cli_env \<Rightarrow> ('t, 'b) http_params \<Rightarrow> cli_args \<Rightarrow> 't zone_trees \<Rightarrow> 'k Center
    \<Rightarrow> (unit, string list) outcome \<times> 'k Center \<times> (string \<times> ApplicationCommand) list" where
  "cli_execute E P args trees c = (case command_call (ca_command args) of
      None \<Rightarrow> (Panic, c, [])
    | Some (m, s, body) \<Rightarrow> (case client_request E (hp_wire P) (ca_server args) m s body of
        None \<Rightarrow> (Panic, c, [])
      | Some rq \<Rightarrow> (case http_serve P rq trees c of
          (res, c1, cmds) \<Rightarrow> (command_finish E (hp_wire P) (ca_command args) (reply_of res), c1, cmds))))"

text \<open>\<open>main\<close>: the logger writes to the standard output; then the command decides the exit code.\<close>

datatype exit_code = SUCCESS | FAILURE | Panicked

definition cascade_log_config :: "cli_args \<Rightarrow> LoggingConfig" where
  "cascade_log_config args = \<lparr>lg_level = Setting_new (ca_log_level args),
     lg_target = Setting_new (LogTarget.File ''/dev/stdout''), lg_trace_targets = Setting_new {}\<rparr>"

definition cascade_main :: "(LogTarget \<Rightarrow> 'e option) \<Rightarrow> 'b cli_env \<Rightarrow> ('t, 'b) http_params \<Rightarrow> cli_args \<Rightarrow> 't zone_trees \<Rightarrow> 'k Center
    \<Rightarrow> exit_code \<times> string list \<times> 'k Center \<times> (string \<times> ApplicationCommand) list" where
  "cascade_main open_error E P args trees c =
    (case Logger_prepare open_error (cascade_log_config args) Logger_launch of
       Inl _ \<Rightarrow> (Panicked, [], c, [])
     | Inr change \<Rightarrow>
        (case (case change of Some ch \<Rightarrow> fst (Logger_apply ch Logger_launch) | None \<Rightarrow> Ok ()) of
           Ok _ \<Rightarrow> (case cli_execute E P args trees c of
               (Ok lines, c1, cmds) \<Rightarrow> (SUCCESS, lines, c1, cmds)
             | (Err _, c1, cmds) \<Rightarrow> (FAILURE, [], c1, cmds)
             | (Panic, c1, cmds) \<Rightarrow> (Panicked, [], c1, cmds))
         | _ \<Rightarrow> (Panicked, [], c, [])))"

section \<open>The way to the handlers\<close>

text \<open>What the \<open>url\<close> crate documents of joining a plain path to an address without one.\<close>

definition url_join_ok :: "'b cli_env \<Rightarrow> bool" where
  "url_join_ok E \<longleftrightarrow> (\<forall>a s.
     (plain_path (CHR ''/'' # s) \<longrightarrow> cl_join E (base_uri E a) s = Some (CHR ''/'' # s))
     \<and> (plain_path s \<longrightarrow> cl_join E (base_uri E a) s = Some s))"

text \<open>The names in a command are plain and are read back by the server.\<close>

fun command_names :: "cli_command \<Rightarrow> string list" where
  "command_names (CliZone (ZcRemove n)) = [n]"
| "command_names (CliZone (ZcReload n)) = [n]"
| "command_names (CliZone (ZcStatus n)) = [n]"
| "command_names (CliStatus (Some (ScZone n))) = [n]"
| "command_names (CliPolicy (PcShow n)) = [n]"
| "command_names _ = []"

definition names_ok :: "('t, 'b) http_params \<Rightarrow> cli_command \<Rightarrow> bool" where
  "names_ok P cmd \<longleftrightarrow> (\<forall>n \<in> set (command_names cmd). plain_seg n \<and> hp_path_name P n = Some n)"

lemma plain_literals [simp]:
  "plain_seg ''zone''" "plain_seg ''zones''" "plain_seg ''add''" "plain_seg ''list''" "plain_seg ''remove''"
  "plain_seg ''reload''" "plain_seg ''status''" "plain_seg ''policy''"
  by (simp_all add: plain_seg_def unreserved_def)

lemma plain_paths:
  "plain_seg n \<Longrightarrow> plain_path (''/zone/'' @ n @ ''/remove'')"
  "plain_seg n \<Longrightarrow> plain_path (''/zone/'' @ n @ ''/status'')"
  "plain_seg n \<Longrightarrow> plain_path (''/zone/'' @ n @ ''/reload'')"
  "plain_seg n \<Longrightarrow> plain_path (''/policy/'' @ n)"
  "plain_path ''/zone/add''" "plain_path ''/zones/list''" "plain_path ''/status''" "plain_path ''/policy/list''"
  "plain_path ''/policy/reload''"
  using plain_no_slash [of n] by (simp_all add: plain_path_def)


lemma routes:
  assumes "router_ok (hp_route P)"
  shows "hp_route P (map fst http_app) ''/status'' = Some (''/status'', [])"
    "hp_route P (map fst http_app) ''/zones/list'' = Some (''/zones/list'', [])"
    "hp_route P (map fst http_app) ''/zone/add'' = Some (''/zone/add'', [])"
    "hp_route P (map fst http_app) ''/policy/reload'' = Some (''/policy/reload'', [])"
    "hp_route P (map fst http_app) ''/policy/list'' = Some (''/policy/list'', [])"
    "plain_seg n \<Longrightarrow> hp_route P (map fst http_app) (''/zone/'' @ n @ ''/remove'') = Some (''/zone/{name}/remove'', [n])"
    "plain_seg n \<Longrightarrow> hp_route P (map fst http_app) (''/zone/'' @ n @ ''/status'') = Some (''/zone/{name}/status'', [n])"
    "plain_seg n \<Longrightarrow> hp_route P (map fst http_app) (''/zone/'' @ n @ ''/reload'') = Some (''/zone/{name}/reload'', [n])"
    "plain_seg n \<Longrightarrow> n \<noteq> ''reload'' \<Longrightarrow> n \<noteq> ''list'' \<Longrightarrow>
       hp_route P (map fst http_app) (''/policy/'' @ n) = Some (''/policy/{name}'', [n])"
proof -
  note pick = route_matching [OF assms]
  show "hp_route P (map fst http_app) ''/status'' = Some (''/status'', [])"
    "hp_route P (map fst http_app) ''/zones/list'' = Some (''/zones/list'', [])"
    "hp_route P (map fst http_app) ''/zone/add'' = Some (''/zone/add'', [])"
    "hp_route P (map fst http_app) ''/policy/reload'' = Some (''/policy/reload'', [])"
    "hp_route P (map fst http_app) ''/policy/list'' = Some (''/policy/list'', [])"
    by (rule pick [OF plain_paths(7)] pick [OF plain_paths(6)] pick [OF plain_paths(5)] pick [OF plain_paths(9)] pick [OF plain_paths(8)];
        simp only: app_splits matching_at; simp)+
  assume n: "plain_seg n"
  note sl = plain_no_slash [OF n]
  have segs: "split_on CHR ''/'' (''/zone/'' @ n @ ''/remove'') = [[], ''zone'', n, ''remove'']"
    "split_on CHR ''/'' (''/zone/'' @ n @ ''/status'') = [[], ''zone'', n, ''status'']"
    "split_on CHR ''/'' (''/zone/'' @ n @ ''/reload'') = [[], ''zone'', n, ''reload'']"
    "split_on CHR ''/'' (''/policy/'' @ n) = [[], ''policy'', n]"
    using sl by simp_all
  show "hp_route P (map fst http_app) (''/zone/'' @ n @ ''/remove'') = Some (''/zone/{name}/remove'', [n])"
    by (rule pick [OF plain_paths(1) [OF n]]; simp only: segs matching_at; simp)
  show "hp_route P (map fst http_app) (''/zone/'' @ n @ ''/status'') = Some (''/zone/{name}/status'', [n])"
    by (rule pick [OF plain_paths(2) [OF n]]; simp only: segs matching_at; simp)
  show "hp_route P (map fst http_app) (''/zone/'' @ n @ ''/reload'') = Some (''/zone/{name}/reload'', [n])"
    by (rule pick [OF plain_paths(3) [OF n]]; simp only: segs matching_at; simp)
  show "hp_route P (map fst http_app) (''/policy/'' @ n) = Some (''/policy/{name}'', [n])"
    if "n \<noteq> ''reload''" "n \<noteq> ''list''"
    by (rule pick [OF plain_paths(4) [OF n]]; simp only: segs matching_at; simp add: that)
qed

lemma serdeD:
  assumes "serde_ok W"
  shows "w_from_json W (type_of v) (w_to_json W v) = Some v"
    "w_from_json W T b = Some v \<Longrightarrow> type_of v = T"
    "\<not> set (fields_of T) \<subseteq> set (fields_of (type_of v)) \<Longrightarrow> w_from_json W T (w_to_json W v) = None"
    "w_from_json W T (w_text W '''') = None"
  using assms unfolding serde_ok_def by blast+

lemma client_path:
  assumes "url_join_ok E" "plain_path (CHR ''/'' # s)"
  shows "client_request E W a m s body = Some \<lparr>rq_method = m, rq_path = CHR ''/'' # s, rq_params = Some [],
    rq_body = (case body of Some v \<Rightarrow> w_to_json W v | None \<Rightarrow> w_text W '''')\<rparr>"
  using assms by (simp add: client_request_def url_join_ok_def)

lemma client_path_abs:
  assumes "url_join_ok E" "plain_path s"
  shows "client_request E W a m s body = Some \<lparr>rq_method = m, rq_path = s, rq_params = Some [],
    rq_body = (case body of Some v \<Rightarrow> w_to_json W v | None \<Rightarrow> w_text W '''')\<rparr>"
  using assms by (simp add: client_request_def url_join_ok_def)

section \<open>What every command comes to\<close>

fun command_effect :: "'b cli_env \<Rightarrow> ('t, 'b) http_params \<Rightarrow> cli_command \<Rightarrow> 't zone_trees \<Rightarrow> 'k Center
    \<Rightarrow> (unit, string list) outcome \<times> 'k Center \<times> (string \<times> ApplicationCommand) list" where
  "command_effect E P (CliZone (ZcAdd n src p)) trees c =
     (case http_zone_add \<lparr>za_name = n, za_source = src, za_policy = p\<rparr> c of
        (Ok _, c1, cmds) \<Rightarrow> (Ok [''Registered zone '' @ n], c1, cmds)
      | (_, c1, cmds) \<Rightarrow> (Err (), c1, cmds))"
| "command_effect E P (CliZone (ZcRemove n)) trees c = (Err (), snd (http_zone_remove n c), [])"
| "command_effect E P (CliZone ZcList) trees c =
     (Ok (map (\<lambda>z. zle_name z @ [tab] @ stage_word (zle_stage z)) (http_zones_list (hp_api P) (hp_lt P) (hp_apex P) trees)), c, [])"
| "command_effect E P (CliZone (ZcReload n)) trees c = (Ok [''Success: Sent zone reload command for '' @ n], c, [])"
| "command_effect E P (CliZone (ZcStatus n)) trees c = (Ok [''Server status: '' @ cl_debug E (VZoneStatusResult n)], c, [])"
| "command_effect E P (CliStatus None) trees c = (Ok [''Server status: '' @ cl_debug E VServerStatusResult], c, [])"
| "command_effect E P (CliStatus (Some (ScZone n))) trees c = (Ok [''Success: Sent zone reload command for '' @ n], c, [])"
| "command_effect E P (CliStatus (Some ScKeys)) trees c = (Panic, c, [])"
| "command_effect E P (CliPolicy _) trees c = (Err (), c, [])"

lemma http_zone_add_reply:
  "http_zone_add reg c = (Ok r, c1, cmds) \<Longrightarrow> zar_name r = za_name reg"
  by (auto simp: http_zone_add_def split: prod.splits outcome.splits)

lemma client_calls:
  assumes "url_join_ok E"
  shows "client_request E W a m ''zone/add'' b = Some \<lparr>rq_method = m, rq_path = ''/zone/add'', rq_params = Some [],
      rq_body = (case b of Some v \<Rightarrow> w_to_json W v | None \<Rightarrow> w_text W '''')\<rparr>"
    "client_request E W a m ''zones/list'' b = Some \<lparr>rq_method = m, rq_path = ''/zones/list'', rq_params = Some [],
      rq_body = (case b of Some v \<Rightarrow> w_to_json W v | None \<Rightarrow> w_text W '''')\<rparr>"
    "client_request E W a m ''/status'' b = Some \<lparr>rq_method = m, rq_path = ''/status'', rq_params = Some [],
      rq_body = (case b of Some v \<Rightarrow> w_to_json W v | None \<Rightarrow> w_text W '''')\<rparr>"
    "client_request E W a m ''policy/list'' b = Some \<lparr>rq_method = m, rq_path = ''/policy/list'', rq_params = Some [],
      rq_body = (case b of Some v \<Rightarrow> w_to_json W v | None \<Rightarrow> w_text W '''')\<rparr>"
    "client_request E W a m ''policy/reload'' b = Some \<lparr>rq_method = m, rq_path = ''/policy/reload'', rq_params = Some [],
      rq_body = (case b of Some v \<Rightarrow> w_to_json W v | None \<Rightarrow> w_text W '''')\<rparr>"
  using client_path [OF assms, of "''zone/add''"] client_path [OF assms, of "''zones/list''"]
    client_path [OF assms, of "''policy/list''"] client_path [OF assms, of "''policy/reload''"]
    client_path_abs [OF assms, of "''/status''"] plain_paths by blast+

lemma client_calls_named:
  assumes "url_join_ok E" "plain_seg n"
  shows "client_request E W a m (''zone/'' @ n @ ''/remove'') None = Some \<lparr>rq_method = m,
      rq_path = ''/zone/'' @ n @ ''/remove'', rq_params = Some [], rq_body = w_text W ''''\<rparr>"
    "client_request E W a m (''zone/'' @ n @ ''/status'') None = Some \<lparr>rq_method = m,
      rq_path = ''/zone/'' @ n @ ''/status'', rq_params = Some [], rq_body = w_text W ''''\<rparr>"
    "client_request E W a m (''zone/'' @ n @ ''/reload'') None = Some \<lparr>rq_method = m,
      rq_path = ''/zone/'' @ n @ ''/reload'', rq_params = Some [], rq_body = w_text W ''''\<rparr>"
    "client_request E W a m (''policy/'' @ n) None = Some \<lparr>rq_method = m,
      rq_path = ''/policy/'' @ n, rq_params = Some [], rq_body = w_text W ''''\<rparr>"
    "client_request E W a m (''/zone/'' @ n @ ''/status'') None = Some \<lparr>rq_method = m,
      rq_path = ''/zone/'' @ n @ ''/status'', rq_params = Some [], rq_body = w_text W ''''\<rparr>"
  using client_path [OF assms(1), of "''zone/'' @ n @ ''/remove''" W a m None] client_path [OF assms(1), of "''zone/'' @ n @ ''/status''" W a m None]
    client_path [OF assms(1), of "''zone/'' @ n @ ''/reload''" W a m None] client_path [OF assms(1), of "''policy/'' @ n" W a m None]
    client_path_abs [OF assms(1), of "''/zone/'' @ n @ ''/status''" W a m None] plain_paths(1-4) [OF assms(2)]
  by simp_all

lemma execute_at:
  assumes "command_call (ca_command args) = Some (m, s, body)"
    and "client_request E (hp_wire P) (ca_server args) m s body
      = Some \<lparr>rq_method = m, rq_path = path, rq_params = ps, rq_body = b\<rparr>"
    and "hp_route P (map fst http_app) path = Some (p, caps)" "map_of http_app p = Some (m', ep)"
  shows "cli_execute E P args trees c =
    (case (if m = m' then http_handle P ep caps \<lparr>rq_method = m, rq_path = path, rq_params = ps, rq_body = b\<rparr> trees c
           else (Ok (reply_empty (hp_wire P) 405), c, [])) of
       (res, c1, cmds) \<Rightarrow> (command_finish E (hp_wire P) (ca_command args) (reply_of res), c1, cmds))"
  unfolding cli_execute_def assms(1) option.case prod.case assms(2) serve_at [OF assms(3,4)] by (rule refl)

lemma reads:
  assumes "serde_ok W"
  shows "w_from_json W TZoneAdd (w_to_json W (VZoneAdd reg)) = Some (VZoneAdd reg)"
    "w_from_json W TZoneAddResult (w_to_json W (VZoneAddResult res)) = Some (VZoneAddResult res)"
    "w_from_json W TZonesListResult (w_to_json W (VZonesListResult zs)) = Some (VZonesListResult zs)"
    "w_from_json W TZoneStatusResult (w_to_json W (VZoneStatusResult m)) = Some (VZoneStatusResult m)"
    "w_from_json W TServerStatusResult (w_to_json W VServerStatusResult) = Some VServerStatusResult"
    "w_from_json W TZoneAddResult (w_to_json W VZoneRemoveResult) = None"
  using serdeD(1) [OF assms, of "VZoneAdd reg"] serdeD(1) [OF assms, of "VZoneAddResult res"] serdeD(1) [OF assms, of "VZonesListResult zs"]
      serdeD(1) [OF assms, of "VZoneStatusResult m"] serdeD(1) [OF assms, of VServerStatusResult] serdeD(3) [OF assms, of TZoneAddResult VZoneRemoveResult]
    by simp_all

lemma zone_served:
  assumes W: "serde_ok (hp_wire P)" and R: "router_ok (hp_route P)" and J: "url_join_ok E"
    and n: "names_ok P (ca_command args)" and a: "ca_command args = CliZone z"
  shows "cli_execute E P args trees c = command_effect E P (ca_command args) trees c"
proof -
  note calls = client_calls [OF J] and r = routes [OF R] and rd = reads [OF W] and sd = serdeD [OF W]
  show ?thesis
  proof (cases z)
    case (ZcAdd name source policy)
    have c: "command_call (ca_command args) = Some (POST, ''zone/add'',
        Some (VZoneAdd \<lparr>za_name = name, za_source = source, za_policy = policy\<rparr>))"
      by (simp only: a ZcAdd command_call.simps zone_call.simps)
    show ?thesis
      unfolding execute_at [OF c calls(1) r(3) app_handlers(3)]
      by (auto simp: a ZcAdd rd read_json_def reply_of_def reply_json_def http_zone_add_reply
          split: prod.splits outcome.splits)
  next
    case (ZcRemove name)
    have n: "plain_seg name" "hp_path_name P name = Some name" using n by (auto simp: a ZcRemove names_ok_def)
    have c: "command_call (ca_command args) = Some (POST, ''zone/'' @ name @ ''/remove'', None)"
      by (simp only: a ZcRemove command_call.simps zone_call.simps)
    show ?thesis
      unfolding execute_at [OF c client_calls_named(1) [OF J n(1)] r(6) [OF n(1)] app_handlers(5)]
      using n by (auto simp: a ZcRemove rd read_json_def reply_of_def reply_json_def
          split: prod.splits outcome.splits)
  next
    case ZcList
    have c: "command_call (ca_command args) = Some (GET, ''zones/list'', None)"
      by (simp only: a ZcList command_call.simps zone_call.simps)
    show ?thesis
      unfolding execute_at [OF c calls(2) r(2) app_handlers(2)]
      by (simp add: a ZcList rd read_json_def reply_of_def reply_json_def)
  next
    case (ZcReload name)
    have n: "plain_seg name" "hp_path_name P name = Some name" using n by (auto simp: a ZcReload names_ok_def)
    have c: "command_call (ca_command args) = Some (POST, ''zone/'' @ name @ ''/reload'', None)"
      by (simp only: a ZcReload command_call.simps zone_call.simps)
    show ?thesis
      unfolding execute_at [OF c client_calls_named(3) [OF J n(1)] r(8) [OF n(1)] app_handlers(7)]
      using n by (simp add: a ZcReload with_name_def reply_of_def reply_json_def)
  next
    case (ZcStatus name)
    have n: "plain_seg name" "hp_path_name P name = Some name" using n by (auto simp: a ZcStatus names_ok_def)
    have c: "command_call (ca_command args) = Some (GET, ''zone/'' @ name @ ''/status'', None)"
      by (simp only: a ZcStatus command_call.simps zone_call.simps)
    show ?thesis
      unfolding execute_at [OF c client_calls_named(2) [OF J n(1)] r(7) [OF n(1)] app_handlers(6)]
      using n by (simp add: a ZcStatus with_name_def rd read_json_def reply_of_def reply_json_def)
  qed
qed

lemma status_served:
  assumes W: "serde_ok (hp_wire P)" and R: "router_ok (hp_route P)" and J: "url_join_ok E"
    and n: "names_ok P (ca_command args)" and a: "ca_command args = CliStatus s"
  shows "cli_execute E P args trees c = command_effect E P (ca_command args) trees c"
proof -
  note calls = client_calls [OF J] and r = routes [OF R] and rd = reads [OF W] and sd = serdeD [OF W]
  consider (zone) name where "s = Some (ScZone name)" | (keys) "s = Some ScKeys" | (server) "s = None"
    by (cases s; metis StatusCommand.exhaust)
  then show ?thesis
  proof cases
    case zone
    have n: "plain_seg name" "hp_path_name P name = Some name" using n by (auto simp: a zone names_ok_def)
    have c: "command_call (ca_command args) = Some (GET, ''/zone/'' @ name @ ''/status'', None)"
      by (simp only: a zone command_call.simps status_call.simps)
    show ?thesis
      unfolding execute_at [OF c client_calls_named(5) [OF J n(1)] r(7) [OF n(1)] app_handlers(6)]
      using n by (simp add: a zone with_name_def rd read_json_def reply_of_def reply_json_def)
  next
    case keys
    then show ?thesis by (simp add: a cli_execute_def)
  next
    case server
    have c: "command_call (ca_command args) = Some (GET, ''/status'', None)"
      by (simp only: a server command_call.simps status_call.simps)
    show ?thesis
      unfolding execute_at [OF c calls(3) r(1) app_handlers(1)]
      by (simp add: a server rd read_json_def reply_of_def reply_json_def)
  qed
qed

lemma policy_served:
  assumes W: "serde_ok (hp_wire P)" and R: "router_ok (hp_route P)" and J: "url_join_ok E"
    and n: "names_ok P (ca_command args)" and a: "ca_command args = CliPolicy p"
  shows "cli_execute E P args trees c = command_effect E P (ca_command args) trees c"
proof -
  note calls = client_calls [OF J] and r = routes [OF R] and rd = reads [OF W] and sd = serdeD [OF W]
  show ?thesis
  proof (cases p)
    case PcList
    have c: "command_call (ca_command args) = Some (GET, ''policy/list'', None)"
      by (simp only: a PcList command_call.simps policy_call.simps)
    show ?thesis
      unfolding execute_at [OF c calls(4) r(5) app_handlers(8)]
      by (simp add: a PcList read_json_def reply_of_def)
  next
    case PcReload
    have c: "command_call (ca_command args) = Some (POST, ''policy/reload'', None)"
      by (simp only: a PcReload command_call.simps policy_call.simps)
    show ?thesis
      unfolding execute_at [OF c calls(5) r(4) app_handlers(4)]
      by (simp add: a PcReload read_json_def reply_of_def)
  next
    case (PcShow name)
    have n: "plain_seg name" using n by (auto simp: a PcShow names_ok_def)
    have c: "command_call (ca_command args) = Some (GET, ''policy/'' @ name, None)"
      by (simp only: a PcShow command_call.simps policy_call.simps)
    note e = execute_at [OF c client_calls_named(4) [OF J n]]
    have lit: "''/policy/reload'' = ''/policy/'' @ ''reload''" "''/policy/list'' = ''/policy/'' @ ''list''" by simp_all
    consider "name = ''reload''" | "name = ''list''" | "name \<noteq> ''reload''" "name \<noteq> ''list''" by blast
    then show ?thesis
    proof cases
      case 1
      show ?thesis
        unfolding e [OF r(4) [unfolded lit(1), folded 1] app_handlers(4) [unfolded lit(1), folded 1]]
        by (simp add: a PcShow read_json_def reply_of_def reply_empty_def sd(4))
    next
      case 2
      show ?thesis
        unfolding e [OF r(5) [unfolded lit(2), folded 2] app_handlers(8) [unfolded lit(2), folded 2]]
        by (simp add: a PcShow read_json_def reply_of_def)
    next
      case 3
      show ?thesis
        unfolding e [OF r(9) [OF n 3] app_handlers(9)]
        by (simp add: a PcShow read_json_def reply_of_def reply_empty_def sd(4))
    qed
  qed
qed

lemma execute_effect:
  assumes "serde_ok (hp_wire P)" "router_ok (hp_route P)" "url_join_ok E" "names_ok P (ca_command args)"
  shows "cli_execute E P args trees c = command_effect E P (ca_command args) trees c"
  using zone_served [OF assms] status_served [OF assms] policy_served [OF assms] by (cases "ca_command args") blast+

text \<open>C20: removing an existing zone with the client removes it and keeps every other zone, but the client
  ends with an error and exit code 1: it reads the empty answer of the server as the result of adding a zone.\<close>

theorem removal_reported_failed:
  assumes "serde_ok (hp_wire P)" "router_ok (hp_route P)" "url_join_ok E"
    and "plain_seg n" "hp_path_name P n = Some n" "ca_command args = CliZone (ZcRemove n)"
    and "open_error (LogTarget.File ''/dev/stdout'') = None"
    and "alive c" "links_ok c" "hm_get (zones_of c) n = Some r"
  shows "\<exists>c'. cascade_main open_error E P args trees c = (FAILURE, [], c', [])
    \<and> dom (hm_get (zones_of c')) = dom (hm_get (zones_of c)) - {n}"
proof -
  have "names_ok P (ca_command args)" using assms(4-6) by (simp add: names_ok_def)
  note e = execute_effect [OF assms(1-3) this]
  obtain c' where c': "remove_zone n c = (Ok (), c')" "dom (hm_get (zones_of c')) = dom (hm_get (zones_of c)) - {n}"
    using remove_zone_known [OF assms(8-10)] by blast
  have "cli_execute E P args trees c = (Err (), c', [])"
    by (simp add: e assms(6) http_zone_remove_def c'(1))
  moreover obtain ch where ch: "Logger_prepare open_error (cascade_log_config args) Logger_launch = Inr (Some ch)"
      "fst (Logger_apply ch Logger_launch) = Ok ()"
    using assms(7) by (auto simp: Logger_prepare_def Logger_apply_def Logger_launch_def cascade_log_config_def
        PrimaryLogger_new_def Setting_value_def Setting_new_def Let_def)
  ultimately show ?thesis using c'(2) by (simp add: cascade_main_def)
qed

text \<open>C11: a command of the client with plain names comes to the handler it is meant for with its
  arguments, and ends as the table says: \<open>zone add\<close> and \<open>zone remove\<close> do what the handlers do,
  the lists and the status are printed, the reload does nothing, a removal is always reported as a failure
  and so is every command on policies.\<close>

theorem client_commands_served:
  assumes "serde_ok (hp_wire P)" "router_ok (hp_route P)" "url_join_ok E" "names_ok P (ca_command args)"
  shows "cli_execute E P args trees c = command_effect E P (ca_command args) trees c"
  by (rule execute_effect [OF assms])

text \<open>The client reaches the server of the same program by default.\<close>

lemma default_server_spawned:
  assumes "spawn_units e = Ok units"
  shows "\<exists>a. ap_socket (se_addrs e) default_server = Some a \<and> (''HS'', HttpUnit a) \<in> set units"
  using assms unfolding spawn_units_def default_server_def by (auto split: option.splits)

lemma default_log_level_known: "env_log_level default_log_level = Inr LogLevel.Warning"
  by (simp add: env_log_level_def default_log_level_def)

section \<open>On a concrete server\<close>

definition demo_cli :: "api_value option cli_env" where
  "demo_cli = \<lparr>cl_show_addr = (\<lambda>a. ''addr''), cl_join = (\<lambda>base s. Some (if plain_path s then s else CHR ''/'' # s)),
     cl_debug = (\<lambda>v. ''value'')\<rparr>"

lemma not_both_plain: "plain_path s \<Longrightarrow> \<not> plain_path (CHR ''/'' # s)"
  by (cases s) (auto simp: plain_path_def plain_seg_def split: list.splits if_splits)

lemma demo_cli_ok [simp]: "url_join_ok demo_cli"
  using not_both_plain by (auto simp: url_join_ok_def demo_cli_def)

definition demo_args :: "cli_command \<Rightarrow> cli_args" where
  "demo_args cmd = \<lparr>ca_server = SocketAddrV4 2130706433 8950, ca_log_level = LogLevel.Warning, ca_command = cmd\<rparr>"

lemma demo_args_command [simp]: "ca_command (demo_args cmd) = cmd"
  by (simp add: demo_args_def)

lemma demo_names: "plain_seg ''example''" "hp_path_name demo_http n = Some n" "hp_wire demo_http = demo_wire"
  "hp_route demo_http = demo_route" "hp_api demo_http = demo_api"
  by (simp_all add: plain_seg_def unreserved_def demo_http_def)

text \<open>The zone is added, and listed while it has not got any further.\<close>

theorem client_commands_served_witness:
  "fst (cli_execute demo_cli demo_http (demo_args (CliZone (ZcAdd ''example'' (Zonefile ''f'') ''p''))) demo_trees (new_center :: token Center))
     = Ok [''Registered zone example'']
   \<and> fst (cli_execute demo_cli demo_http (demo_args (CliZone (ZcReload ''example''))) demo_trees (new_center :: token Center))
     = Ok [''Success: Sent zone reload command for example'']"
proof -
  have n: "names_ok demo_http (ca_command (demo_args (CliZone (ZcAdd ''example'' (Zonefile ''f'') ''p''))))"
    "names_ok demo_http (ca_command (demo_args (CliZone (ZcReload ''example''))))"
    using demo_names(1,2) by (simp_all add: names_ok_def)
  have h: "serde_ok (hp_wire demo_http)" "router_ok (hp_route demo_http)" by (simp_all add: demo_names)
  note s = client_commands_served [OF h demo_cli_ok n(1), of demo_trees "new_center :: token Center"]
    client_commands_served [OF h demo_cli_ok n(2), of demo_trees "new_center :: token Center"]
  have "\<exists>z c'. http_zone_add \<lparr>za_name = ''example'', za_source = Zonefile ''f'', za_policy = ''p''\<rparr> (new_center :: token Center) = (Ok z, c')"
    using http_zone_add_unknown_policy [of "new_center :: token Center" "\<lparr>za_name = ''example'', za_source = Zonefile ''f'', za_policy = ''p''\<rparr>"]
    by auto
  then show ?thesis unfolding s by auto
qed

theorem removal_reported_failed_witness:
  "\<exists>c c' :: token Center. ''example'' \<in> dom (hm_get (zones_of c))
    \<and> cascade_main (\<lambda>t. None :: string option) demo_cli demo_http (demo_args (CliZone (ZcRemove ''example''))) demo_trees c = (FAILURE, [], c', [])
    \<and> ''example'' \<notin> dom (hm_get (zones_of c'))"
proof -
  let ?c = "snd (add_zone ''example'' (new_center :: token Center))"
  have c: "alive ?c" "links_ok ?c" "''example'' \<in> dom (hm_get (zones_of ?c))"
    using add_zone_links [OF new_center_ok(1,2), of "''example''"] by auto
  then obtain r where r: "hm_get (zones_of ?c) ''example'' = Some r" by auto
  have h: "serde_ok (hp_wire demo_http)" "router_ok (hp_route demo_http)"
      "ca_command (demo_args (CliZone (ZcRemove ''example''))) = CliZone (ZcRemove ''example'')"
    by (simp_all add: demo_names demo_args_def)
  show ?thesis
    using removal_reported_failed [OF h(1,2) demo_cli_ok demo_names(1,2) h(3) _ c(1,2) r, of "\<lambda>t. None :: string option" demo_trees] c(3)
    by auto
qed

end
