(* ===== verification/Maintainer_Props.thy ===== *)
theory Maintainer_Props
  imports Maintainer
begin

text \<open>
  The invariant of the zone maintainer: one timer per zone, every reference to a zone valid,
  pending zones secondary (\<open>zm_ok\<close>), and no tracked zone forgotten (\<open>zm_live\<close>). Each
  operation keeps both; the properties of whole runs follow by induction over the steps.
\<close>

section \<open>Timers\<close>

definition timers_ok :: "ZoneRefreshTimer list \<Rightarrow> bool" where
  "timers_ok ts \<longleftrightarrow> distinct (map zrt_zone_id ts)
     \<and> (\<forall>t \<in> set ts. zrt_deadline t = zri_end_instant (zrt_instant t))"

fun timer_deadline :: "ZoneRefreshTimer list \<Rightarrow> ZoneId \<Rightarrow> instant option" where
  "timer_deadline [] zid = None"
| "timer_deadline (t # ts) zid =
    (if zrt_zone_id t = zid then Some (zrt_deadline t) else timer_deadline ts zid)"

lemma zone_id_replace [simp]:
  "zrt_zone_id (ZoneRefreshTimer_replace t n) = zrt_zone_id n"
  "zrt_deadline (ZoneRefreshTimer_replace t n) = zri_end_instant (zrt_instant n)"
  "zrt_instant (ZoneRefreshTimer_replace t n) = zrt_instant n"
  by (simp_all add: ZoneRefreshTimer_replace_def zrt_zone_id_def)

lemma ids_place_timer:
  "set (map zrt_zone_id (place_timer n ts)) = insert (zrt_zone_id n) (set (map zrt_zone_id ts))"
  by (induction ts) (auto split: option.splits)

lemma timers_ok_place:
  "timers_ok ts \<Longrightarrow> zrt_deadline n = zri_end_instant (zrt_instant n) \<Longrightarrow> timers_ok (place_timer n ts)"
proof (induction ts)
  case Nil
  then show ?case by (simp add: timers_ok_def)
next
  case (Cons t ts)
  have "timers_ok ts" using Cons.prems(1) by (simp add: timers_ok_def)
  with Cons have "timers_ok (place_timer n ts)" by simp
  then show ?case using Cons.prems ids_place_timer [of n ts]
    by (auto simp: timers_ok_def split: option.splits)
qed

lemma timer_deadline_None: "timer_deadline ts zid = None \<longleftrightarrow> zid \<notin> zrt_zone_id ` set ts"
  by (induction ts) auto

lemma timer_deadline_place:
  assumes "zrt_deadline n = zri_end_instant (zrt_instant n)"
  shows "timer_deadline (place_timer n ts) zid = (if zid = zrt_zone_id n
     then Some (case timer_deadline ts zid of Some d \<Rightarrow> min d (zrt_deadline n) | None \<Rightarrow> zrt_deadline n)
     else timer_deadline ts zid)"
  using assms by (induction ts) (auto simp: checked_duration_since_def split: option.splits if_splits)

lemma new_timer_simps [simp]:
  "zrt_zone_id (ZoneRefreshTimer_new (ZoneRefreshInstant_new now key t cause)) = key"
  "zrt_deadline (ZoneRefreshTimer_new (ZoneRefreshInstant_new now key t cause)) =
     now + ttl_into_duration t"
  "zri_end_instant (zrt_instant (ZoneRefreshTimer_new (ZoneRefreshInstant_new now key t cause))) =
     now + ttl_into_duration t"
  by (simp_all add: ZoneRefreshTimer_new_def ZoneRefreshInstant_new_def zrt_zone_id_def)

lemma refresh_zone_at_simps [simp]:
  "zm_heap (refresh_zone_at now cause key at m) = zm_heap m"
  "zm_pending_zones (refresh_zone_at now cause key at m) = zm_pending_zones m"
  "zm_loaded_arc (refresh_zone_at now cause key at m) = zm_loaded_arc m"
  "zm_member_zones (refresh_zone_at now cause key at m) = zm_member_zones m"
  "zm_tasks (refresh_zone_at now cause key at m) = zm_tasks m"
  "zm_events (refresh_zone_at now cause key at m) = zm_events m"
  "tracking (refresh_zone_at now cause key at m) = tracking m"
  by (simp_all add: refresh_zone_at_def tracking_def fun_eq_iff)

text \<open>C33: asking for a refresh keeps one timer per zone, and the timer of the zone then fires at the
  earlier of its old deadline and the new one; the timers of other zones do not move.\<close>

theorem refresh_zone_at_earliest:
  assumes "timers_ok (zm_timers m)" and "refresh_zone_at now cause key at m = m'"
  shows "timers_ok (zm_timers m') \<and>
    timer_deadline (zm_timers m') zid = (if zid = key
      then Some (let d = now + ttl_into_duration (case at of Some t \<Rightarrow> t | None \<Rightarrow> 0)
        in case timer_deadline (zm_timers m) zid of Some d' \<Rightarrow> min d' d | None \<Rightarrow> d)
      else timer_deadline (zm_timers m) zid)"
  using assms by (auto simp: refresh_zone_at_def timers_ok_place timer_deadline_place Let_def
      split: option.splits)

theorem refresh_zone_at_earliest_witness:
  "timer_deadline (zm_timers (refresh_zone_at 5 SoaRetryTimer demo_id None
     ((demo_maintainer demo_config 5 (ZoneRefreshState_default 0))\<lparr>zm_timers :=
       [ZoneRefreshTimer_new (ZoneRefreshInstant_new 0 demo_id 60 SoaRefreshTimer)]\<rparr>))) demo_id = Some 5"
  by (subst refresh_zone_at_earliest [THEN conjunct2])
    (auto simp: timers_ok_def ttl_into_duration_def nanos_per_sec_def)

section \<open>Zones stay what they are\<close>

definition keeps_zone :: "MaintainedZone \<Rightarrow> MaintainedZone \<Rightarrow> bool" where
  "keeps_zone z z' \<longleftrightarrow> mz_id z' = mz_id z \<and> zi_config (mz_info z') = zi_config (mz_info z)
     \<and> (zi_expired (mz_info z) \<longrightarrow> zi_expired (mz_info z'))"

definition heap_grows :: "'t ZoneMaintainer \<Rightarrow> 't ZoneMaintainer \<Rightarrow> bool" where
  "heap_grows m m' \<longleftrightarrow> length (zm_heap m) \<le> length (zm_heap m')
     \<and> (\<forall>i < length (zm_heap m). keeps_zone (zone_at m i) (zone_at m' i))"

text \<open>The operations that touch neither the sets of zones nor the timers nor the tasks, and keep
  what is tracked and what is queued.\<close>

definition quiet :: "'t ZoneMaintainer \<Rightarrow> 't ZoneMaintainer \<Rightarrow> bool" where
  "quiet m m' \<longleftrightarrow> heap_grows m m' \<and> zm_pending_zones m' = zm_pending_zones m
     \<and> zm_loaded_arc m' = zm_loaded_arc m \<and> zm_member_zones m' = zm_member_zones m
     \<and> zm_timers m' = zm_timers m \<and> zm_tasks m' = zm_tasks m
     \<and> (\<forall>i. (tracking m' i = None) = (tracking m i = None))
     \<and> set (zm_events m) \<subseteq> set (zm_events m')"

lemma heap_grows_same: "zm_heap m' = zm_heap m \<Longrightarrow> heap_grows m m'"
  by (simp add: heap_grows_def keeps_zone_def zone_at_def)

lemma heap_grows_trans [trans]: "heap_grows a b \<Longrightarrow> heap_grows b c \<Longrightarrow> heap_grows a c"
  by (force simp: heap_grows_def keeps_zone_def)

lemma quiet_refl [simp]: "quiet m m"
  by (simp add: quiet_def heap_grows_same)

lemma quiet_trans [trans]: "quiet a b \<Longrightarrow> quiet b c \<Longrightarrow> quiet a c"
  by (auto simp: quiet_def intro: heap_grows_trans)

lemma heap_grows_at:
  assumes "heap_grows m m'" "r < length (zm_heap m)"
  shows "r < length (zm_heap m')" "zone_id_at m' r = zone_id_at m r" "config_at m' r = config_at m r"
  using assms by (auto simp: heap_grows_def keeps_zone_def zone_id_at_def config_at_def)

lemma zone_at_set_zone:
  "zone_at (set_zone r z m) i = (if i = r \<and> r < length (zm_heap m) then z else zone_at m i)"
  by (cases "r < length (zm_heap m)"; cases "i = r")
    (auto simp: zone_at_def set_zone_def list_update_beyond)

lemma quiet_tracking: "quiet m m' \<Longrightarrow> (tracking m' i = None) = (tracking m i = None)"
  by (simp add: quiet_def)

lemma quiet_set_zone:
  assumes "keeps_zone (zone_at m r) z"
  shows "quiet m (set_zone r z m)"
proof -
  have "heap_grows m (set_zone r z m)"
    using assms by (auto simp: heap_grows_def zone_at_set_zone keeps_zone_def) (simp_all add: set_zone_def)
  then show ?thesis by (auto simp: quiet_def tracking_def) (simp_all add: set_zone_def)
qed

lemma quiet_send_event: "quiet m (send_event e m)"
  by (auto simp: quiet_def send_event_def tracking_def intro: heap_grows_same)

lemma quiet_set_tracking: "tracking m i \<noteq> None \<Longrightarrow> quiet m (set_tracking i z m)"
  by (auto simp: quiet_def intro: heap_grows_same) (simp_all add: set_tracking_def)

lemma quiet_mark_expired: "quiet m (mark_expired r m)"
  unfolding mark_expired_def
  by (rule quiet_set_zone) (simp add: keeps_zone_def map_info_def set_expired_def mz_id_def)

lemma quiet_set_nameservers: "quiet m (set_nameservers r ns m)"
  unfolding set_nameservers_def
  by (rule quiet_set_zone) (simp add: keeps_zone_def map_info_def mz_id_def)

lemma quiet_commit: "quiet m (wmz_commit D r c m)"
  unfolding wmz_commit_def Let_def
  by (rule quiet_trans [OF quiet_set_zone quiet_send_event])
    (auto simp: keeps_zone_def map_info_def mz_id_def add_diff_def split: option.splits)

lemma quiet_write: "quiet m (apply_write D r w m)"
  by (cases w) (auto simp: quiet_commit keeps_zone_def mz_id_def intro: quiet_set_zone)

lemma quiet_update_ns: "quiet m (snd (update_known_nameservers_for_zone D r m))"
  by (auto simp: update_known_nameservers_for_zone_def quiet_set_nameservers split: outcome.splits)

lemma quiet_known_primary: "quiet m (snd (is_known_primary D acl source r m))"
  by (auto simp: is_known_primary_def Let_def quiet_set_nameservers split: outcome.splits option.splits)

lemma quiet_sent: "quiet m (m\<lparr>zm_sent := s\<rparr>)"
  by (auto simp: quiet_def tracking_def intro: heap_grows_same)

lemma quiet_send_notify: "quiet m (send_notify D r notify m)"
  unfolding send_notify_def Let_def send_notify_to_addrs_def
  by (auto split: option.splits simp: quiet_sent intro: quiet_trans [OF quiet_sent])

lemma quiet_frame: "zone_frame r m m' \<Longrightarrow> quiet m m'"
  by (auto simp: zone_frame_def quiet_def heap_grows_def keeps_zone_def same_zone_def)

lemma quiet_begin: "quiet m (refresh_begin now job m)"
  by (auto simp: refresh_begin_def intro: quiet_set_tracking split: option.splits)

section \<open>The invariant\<close>

definition tree_ok :: "'t domain_api \<Rightarrow> 't ZoneMaintainer \<Rightarrow> 't \<Rightarrow> bool" where
  "tree_ok D m t \<longleftrightarrow> (\<forall>n c r. d_tree_get D t n c = Some r \<longrightarrow>
     r < length (zm_heap m) \<and> zone_id_at m r = ZoneId_new n c \<and>
     d_tree_get D (zm_loaded_arc m) n c = Some r)"

fun task_ok :: "'t domain_api \<Rightarrow> 't ZoneMaintainer \<Rightarrow> 't zm_task \<Rightarrow> bool" where
  "task_ok D m (zm_task.TimerTask info zones) \<longleftrightarrow> tree_ok D m zones"
| "task_ok D m (zm_task.NotifyTask msg zones) \<longleftrightarrow> tree_ok D m zones"
| "task_ok D m (RefreshTask job) \<longleftrightarrow> rj_zone job < length (zm_heap m)
     \<and> is_secondary (config_at m (rj_zone job))"

definition pending_ok :: "'t ZoneMaintainer \<Rightarrow> (ZoneId, nat) hmap \<Rightarrow> bool" where
  "pending_ok m p \<longleftrightarrow> (\<forall>zid r. hm_get p zid = Some r \<longrightarrow>
     r < length (zm_heap m) \<and> zone_id_at m r = zid \<and> is_secondary (config_at m r))"

text \<open>A secondary zone is where the tasks look for it.\<close>

definition managed :: "'t domain_api \<Rightarrow> 't \<Rightarrow> 't ZoneMaintainer \<Rightarrow> ZoneId \<Rightarrow> bool" where
  "managed D t m zid \<longleftrightarrow> hm_get (zm_pending_zones m) zid \<noteq> None \<or>
     (\<exists>r. d_tree_get D t (zid_name zid) (zid_class zid) = Some r \<and> is_secondary (config_at m r))"

definition zm_ok :: "'t domain_api \<Rightarrow> 't ZoneMaintainer \<Rightarrow> bool" where
  "zm_ok D m \<longleftrightarrow> timers_ok (zm_timers m) \<and> pending_ok m (zm_pending_zones m)
     \<and> tree_ok D m (zm_loaded_arc m) \<and> zm_member_zones m = zm_loaded_arc m
     \<and> (\<forall>t \<in> set (zm_tasks m). task_ok D m t)
     \<and> (\<forall>zid. tracking m zid \<noteq> None \<longrightarrow> managed D (zm_loaded_arc m) m zid)
     \<and> (\<forall>zid. hm_get (zm_pending_zones m) zid \<noteq> None \<longrightarrow>
          d_tree_get D (zm_loaded_arc m) (zid_name zid) (zid_class zid) = None)"

lemma tree_ok_grows:
  assumes "tree_ok D m t" "heap_grows m m'"
    and "\<And>n c r. d_tree_get D (zm_loaded_arc m) n c = Some r \<Longrightarrow>
      d_tree_get D (zm_loaded_arc m') n c = Some r"
  shows "tree_ok D m' t"
  unfolding tree_ok_def
proof (intro allI impI)
  fix n c r assume "d_tree_get D t n c = Some r"
  then have "r < length (zm_heap m)" "zone_id_at m r = ZoneId_new n c"
    "d_tree_get D (zm_loaded_arc m) n c = Some r"
    using assms(1) by (auto simp: tree_ok_def)
  then show "r < length (zm_heap m') \<and> zone_id_at m' r = ZoneId_new n c \<and>
      d_tree_get D (zm_loaded_arc m') n c = Some r"
    using assms(3) heap_grows_at [OF assms(2)] by simp
qed

lemma task_ok_grows:
  assumes "task_ok D m t" "heap_grows m m'"
    and "\<And>n c r. d_tree_get D (zm_loaded_arc m) n c = Some r \<Longrightarrow>
      d_tree_get D (zm_loaded_arc m') n c = Some r"
  shows "task_ok D m' t"
  using assms(1) tree_ok_grows [OF _ assms(2,3)] heap_grows_at [OF assms(2)] by (cases t) auto

lemma pending_ok_grows: "pending_ok m p \<Longrightarrow> heap_grows m m' \<Longrightarrow> pending_ok m' p"
  using heap_grows_at [of m m'] by (auto simp: pending_ok_def)

lemma managed_grows:
  assumes "managed D t m zid" "heap_grows m m'" "tree_ok D m t"
    "zm_pending_zones m' = zm_pending_zones m"
  shows "managed D t m' zid"
proof (cases "hm_get (zm_pending_zones m) zid")
  case None
  then obtain r where r: "d_tree_get D t (zid_name zid) (zid_class zid) = Some r"
    "is_secondary (config_at m r)"
    using assms(1) by (auto simp: managed_def)
  then have "r < length (zm_heap m)" using assms(3) by (auto simp: tree_ok_def)
  then show ?thesis using r heap_grows_at(3) [OF assms(2)] by (auto simp: managed_def)
qed (use assms(4) in \<open>simp add: managed_def\<close>)

lemma zm_ok_quiet:
  assumes "zm_ok D m" "quiet m m'"
  shows "zm_ok D m'"
proof -
  have g: "heap_grows m m'" and l: "zm_loaded_arc m' = zm_loaded_arc m"
    and p: "zm_pending_zones m' = zm_pending_zones m"
    using assms(2) by (simp_all add: quiet_def)
  have "tree_ok D m (zm_loaded_arc m)" using assms(1) by (simp add: zm_ok_def)
  then have "managed D (zm_loaded_arc m) m zid \<Longrightarrow> managed D (zm_loaded_arc m') m' zid" for zid
    using managed_grows [OF _ g _ p] l by simp
  then show ?thesis
    using assms tree_ok_grows [OF _ g] task_ok_grows [OF _ g] pending_ok_grows [OF _ g] l p
    by (auto simp: zm_ok_def quiet_def)
qed

section \<open>No zone is forgotten\<close>

text \<open>What will refresh a zone: a timer, a queued request, the task of a timer that fired and will
  find the zone, or a refresh that has started.\<close>

fun event_for :: "ZoneId \<Rightarrow> Event \<Rightarrow> bool" where
  "event_for zid (ZoneRefreshRequested cause key at) \<longleftrightarrow> key = zid"
| "event_for zid _ \<longleftrightarrow> False"

fun task_for :: "'t domain_api \<Rightarrow> 't ZoneMaintainer \<Rightarrow> ZoneId \<Rightarrow> 't zm_task \<Rightarrow> bool" where
  "task_for D m zid (zm_task.TimerTask info zones) \<longleftrightarrow> zri_zone_id info = zid \<and> managed D zones m zid"
| "task_for D m zid (zm_task.NotifyTask msg zones) \<longleftrightarrow> False"
| "task_for D m zid (RefreshTask job) \<longleftrightarrow> zone_id_at m (rj_zone job) = zid"

definition has_token :: "'t domain_api \<Rightarrow> 't ZoneMaintainer \<Rightarrow> ZoneId \<Rightarrow> bool" where
  "has_token D m zid \<longleftrightarrow> timer_deadline (zm_timers m) zid \<noteq> None
     \<or> (\<exists>e \<in> set (zm_events m). event_for zid e) \<or> (\<exists>t \<in> set (zm_tasks m). task_for D m zid t)"

definition expired_zone :: "'t ZoneMaintainer \<Rightarrow> ZoneId \<Rightarrow> bool" where
  "expired_zone m zid \<longleftrightarrow>
     (\<exists>r < length (zm_heap m). zone_id_at m r = zid \<and> zi_expired (mz_info (zone_at m r)))"

text \<open>The zone that the loop is adding (\<open>x\<close>) is looked after by the loop.\<close>

definition zm_live :: "ZoneId option \<Rightarrow> 't domain_api \<Rightarrow> 't ZoneMaintainer \<Rightarrow> bool" where
  "zm_live x D m \<longleftrightarrow> (\<forall>zid. tracking m zid \<noteq> None \<longrightarrow> Some zid \<noteq> x \<longrightarrow>
     has_token D m zid \<or> expired_zone m zid)"

definition zm_inv :: "ZoneId option \<Rightarrow> 't domain_api \<Rightarrow> 't ZoneMaintainer \<Rightarrow> bool" where
  "zm_inv x D m \<longleftrightarrow> zm_ok D m \<and> zm_live x D m"

lemma expired_grows:
  assumes "expired_zone m zid" "heap_grows m m'"
  shows "expired_zone m' zid"
proof -
  from assms(1) obtain r where "r < length (zm_heap m)" "zone_id_at m r = zid"
    "zi_expired (mz_info (zone_at m r))" by (auto simp: expired_zone_def)
  then show ?thesis using assms(2) heap_grows_at [OF assms(2)] unfolding expired_zone_def
    by (intro exI [of _ r]) (auto simp: heap_grows_def keeps_zone_def)
qed

lemma managed_mono:
  assumes "managed D t m zid" "heap_grows m m'" "tree_ok D m t"
    "hm_get (zm_pending_zones m) zid \<noteq> None \<Longrightarrow> hm_get (zm_pending_zones m') zid \<noteq> None"
  shows "managed D t m' zid"
proof (cases "hm_get (zm_pending_zones m) zid")
  case None
  then obtain r where r: "d_tree_get D t (zid_name zid) (zid_class zid) = Some r"
    "is_secondary (config_at m r)"
    using assms(1) by (auto simp: managed_def)
  then have "r < length (zm_heap m)" using assms(3) by (auto simp: tree_ok_def)
  then show ?thesis using r heap_grows_at(3) [OF assms(2)] by (auto simp: managed_def)
qed (use assms(4) in \<open>simp add: managed_def\<close>)

lemma task_for_mono:
  assumes "task_for D m zid t" "task_ok D m t" "heap_grows m m'"
    "hm_get (zm_pending_zones m) zid \<noteq> None \<Longrightarrow> hm_get (zm_pending_zones m') zid \<noteq> None"
  shows "task_for D m' zid t"
  using assms(1,2) managed_mono [OF _ assms(3) _ assms(4)] heap_grows_at [OF assms(3)]
  by (cases t) auto

lemma has_token_mono:
  assumes "has_token D m zid" "zm_ok D m" "heap_grows m m'"
    and "hm_get (zm_pending_zones m) zid \<noteq> None \<Longrightarrow> hm_get (zm_pending_zones m') zid \<noteq> None"
    and "timer_deadline (zm_timers m) zid \<noteq> None \<Longrightarrow> timer_deadline (zm_timers m') zid \<noteq> None"
    and "set (zm_events m) \<subseteq> set (zm_events m')" "set (zm_tasks m) \<subseteq> set (zm_tasks m')"
  shows "has_token D m' zid"
proof -
  consider "timer_deadline (zm_timers m) zid \<noteq> None"
    | e where "e \<in> set (zm_events m)" "event_for zid e"
    | t where "t \<in> set (zm_tasks m)" "task_for D m zid t"
    using assms(1) by (auto simp: has_token_def)
  then show ?thesis
  proof cases
    case (3 t)
    then have "task_ok D m t" using assms(2) by (simp add: zm_ok_def)
    then have "task_for D m' zid t" using task_for_mono [OF 3(2) _ assms(3,4)] by blast
    then show ?thesis using 3 assms(7) by (auto simp: has_token_def)
  qed (use assms(5,6) in \<open>auto simp: has_token_def\<close>)
qed

lemma zm_inv_quiet:
  assumes "zm_inv x D m" "quiet m m'"
  shows "zm_inv x D m'"
proof -
  have ok: "zm_ok D m" using assms(1) by (simp add: zm_inv_def)
  have g: "heap_grows m m'" using assms(2) by (simp add: quiet_def)
  have "has_token D m zid \<Longrightarrow> has_token D m' zid" for zid
    using assms(2) by (intro has_token_mono [OF _ ok g]) (auto simp: quiet_def)
  then have "zm_live x D m'"
    using assms expired_grows [OF _ g] by (auto simp: zm_inv_def zm_live_def quiet_def)
  then show ?thesis using zm_ok_quiet [OF ok assms(2)] by (simp add: zm_inv_def)
qed

section \<open>Every step keeps the invariant\<close>

lemma zone_simps [simp]:
  "zone_at (m\<lparr>zm_tasks := ts\<rparr>) = zone_at m" "zone_id_at (m\<lparr>zm_tasks := ts\<rparr>) = zone_id_at m"
  "config_at (m\<lparr>zm_tasks := ts\<rparr>) = config_at m" "tracking (m\<lparr>zm_tasks := ts\<rparr>) = tracking m"
  "zone_at (m\<lparr>zm_events := es\<rparr>) = zone_at m" "zone_id_at (m\<lparr>zm_events := es\<rparr>) = zone_id_at m"
  "config_at (m\<lparr>zm_events := es\<rparr>) = config_at m" "tracking (m\<lparr>zm_events := es\<rparr>) = tracking m"
  "zone_at (m\<lparr>zm_timers := tt\<rparr>) = zone_at m" "zone_id_at (m\<lparr>zm_timers := tt\<rparr>) = zone_id_at m"
  "config_at (m\<lparr>zm_timers := tt\<rparr>) = config_at m" "tracking (m\<lparr>zm_timers := tt\<rparr>) = tracking m"
  "zone_at (m\<lparr>zm_running := b\<rparr>) = zone_at m" "zone_id_at (m\<lparr>zm_running := b\<rparr>) = zone_id_at m"
  "config_at (m\<lparr>zm_running := b\<rparr>) = config_at m" "tracking (m\<lparr>zm_running := b\<rparr>) = tracking m"
  "zone_at (m\<lparr>zm_member_zones := t\<rparr>) = zone_at m" "zone_id_at (m\<lparr>zm_member_zones := t\<rparr>) = zone_id_at m"
  "config_at (m\<lparr>zm_member_zones := t\<rparr>) = config_at m" "tracking (m\<lparr>zm_member_zones := t\<rparr>) = tracking m"
  "zone_at (m\<lparr>zm_loaded_arc := l\<rparr>) = zone_at m" "zone_id_at (m\<lparr>zm_loaded_arc := l\<rparr>) = zone_id_at m"
  "config_at (m\<lparr>zm_loaded_arc := l\<rparr>) = config_at m" "tracking (m\<lparr>zm_loaded_arc := l\<rparr>) = tracking m"
  "zone_at (m\<lparr>zm_pending_zones := p\<rparr>) = zone_at m" "zone_id_at (m\<lparr>zm_pending_zones := p\<rparr>) = zone_id_at m"
  "config_at (m\<lparr>zm_pending_zones := p\<rparr>) = config_at m" "tracking (m\<lparr>zm_pending_zones := p\<rparr>) = tracking m"
  "zone_at (m\<lparr>zm_time_tracking := tr\<rparr>) = zone_at m" "zone_id_at (m\<lparr>zm_time_tracking := tr\<rparr>) = zone_id_at m"
  "config_at (m\<lparr>zm_time_tracking := tr\<rparr>) = config_at m" "tracking (m\<lparr>zm_time_tracking := tr\<rparr>) = hm_get tr"
  by (simp_all add: fun_eq_iff zone_id_at_def config_at_def zone_at_def tracking_def)

lemma task_ok_same:
  "zm_heap m' = zm_heap m \<Longrightarrow> zm_loaded_arc m' = zm_loaded_arc m \<Longrightarrow> task_ok D m' = task_ok D m"
proof
  fix t assume "zm_heap m' = zm_heap m" "zm_loaded_arc m' = zm_loaded_arc m"
  then show "task_ok D m' t = task_ok D m t"
    by (cases t) (auto simp: tree_ok_def zone_id_at_def config_at_def zone_at_def)
qed

lemma zm_ok_lists:
  assumes "zm_ok D m" "zm_heap m' = zm_heap m" "zm_pending_zones m' = zm_pending_zones m"
    "zm_loaded_arc m' = zm_loaded_arc m" "zm_member_zones m' = zm_member_zones m"
    "tracking m' = tracking m" "timers_ok (zm_timers m')"
    "\<forall>t \<in> set (zm_tasks m'). task_ok D m t"
  shows "zm_ok D m'"
  using assms task_ok_same [OF assms(2,4), of D]
  by (auto simp: zm_ok_def pending_ok_def tree_ok_def managed_def zone_id_at_def config_at_def zone_at_def)

lemma task_for_same:
  "zm_heap m' = zm_heap m \<Longrightarrow> zm_pending_zones m' = zm_pending_zones m \<Longrightarrow>
   task_for D m' zid t = task_for D m zid t"
  by (cases t) (auto simp: managed_def zone_id_at_def config_at_def zone_at_def)

lemma expired_same: "zm_heap m' = zm_heap m \<Longrightarrow> expired_zone m' = expired_zone m"
  by (rule ext) (simp add: expired_zone_def zone_id_at_def zone_at_def)

text \<open>A timer fires: its task takes over.\<close>

lemma inv_timer:
  assumes "zm_inv x D m" "zm_timers m = ts @ t # ts'" "ZoneRefreshTimer_poll now t = Some info"
  shows "zm_inv x D (on_refresh_timer info (m\<lparr>zm_timers := ts @ ts'\<rparr>))" (is "zm_inv x D ?m'")
proof -
  have ok: "zm_ok D m" and live: "zm_live x D m" using assms(1) by (simp_all add: zm_inv_def)
  have id: "zri_zone_id info = zrt_zone_id t"
    using assms(3) by (auto simp: ZoneRefreshTimer_poll_def zrt_zone_id_def split: if_splits)
  have ok': "zm_ok D ?m'"
    using ok assms(2) by (intro zm_ok_lists [OF ok])
      (auto simp: on_refresh_timer_def zm_ok_def timers_ok_def)
  have "has_token D ?m' zid" if "has_token D m zid" "tracking m zid \<noteq> None" for zid
  proof (cases "zid = zrt_zone_id t")
    case True
    have "managed D (zm_loaded_arc m) m zid" using ok that(2) by (simp add: zm_ok_def)
    then show ?thesis using id True
      by (auto simp: has_token_def on_refresh_timer_def managed_def)
  next
    case False
    have "timer_deadline (ts @ u # us) zid = timer_deadline (ts @ us) zid" if "zrt_zone_id u \<noteq> zid" for u us
      using that by (induction ts) auto
    then show ?thesis using that(1) False assms(2) task_for_same [of ?m' m D zid]
      by (auto simp: has_token_def on_refresh_timer_def)
  qed
  then have "zm_live x D ?m'"
    using live expired_same [of ?m' m] by (auto simp: zm_live_def on_refresh_timer_def)
  with ok' show ?thesis by (simp add: zm_inv_def)
qed

text \<open>Replacing a task by one that is valid and looks after the same tracked zone.\<close>

lemma inv_replace_task:
  assumes "zm_inv x D m" "zm_tasks m = a @ t # b" "\<forall>u \<in> set us. task_ok D m u"
    and "\<And>zid. tracking m zid \<noteq> None \<Longrightarrow> task_for D m zid t \<Longrightarrow> \<exists>u \<in> set us. task_for D m zid u"
  shows "zm_inv x D (m\<lparr>zm_tasks := a @ us @ b\<rparr>)" (is "zm_inv x D ?m'")
proof -
  have ok: "zm_ok D m" and live: "zm_live x D m" using assms(1) by (simp_all add: zm_inv_def)
  have "zm_ok D ?m'"
    using ok assms(2,3) by (intro zm_ok_lists [OF ok]) (auto simp: zm_ok_def)
  moreover have "has_token D ?m' zid" if "has_token D m zid" "tracking m zid \<noteq> None" for zid
    using that assms(2) assms(4) [OF that(2)] task_for_same [of ?m' m D zid]
    by (auto simp: has_token_def)
  then have "zm_live x D ?m'"
    using live expired_same [of ?m' m] by (auto simp: zm_live_def)
  ultimately show ?thesis by (simp add: zm_inv_def)
qed

lemma start_timer_task_job:
  assumes "zm_ok D m" "tree_ok D m zones" "start_timer_task D info zones m = Some job"
  shows "task_ok D m (RefreshTask job) \<and> zone_id_at m (rj_zone job) = zri_zone_id info"
  using assms by (auto simp: start_timer_task_def Let_def zm_ok_def pending_ok_def tree_ok_def
      ZoneId_new_def split: option.splits if_splits)

lemma start_timer_task_None:
  assumes "zm_ok D m" "start_timer_task D info zones m = None" "tracking m (zri_zone_id info) \<noteq> None"
  shows "\<not> managed D zones m (zri_zone_id info)"
  using assms by (auto simp: start_timer_task_def Let_def zm_ok_def pending_ok_def managed_def
      split: option.splits if_splits)

lemma start_notify_quiet:
  assumes "start_notify_task D msg zones m = (res, m')"
  shows "quiet m m'"
proof -
  have a: "quiet m (snd (and_then p f))" if "quiet m (snd p)" "\<And>x. quiet m (snd (f x (snd p)))"
    for p :: "(unit, 'x) outcome \<times> _" and f :: "'x \<Rightarrow> _ \<Rightarrow> (unit, 'y) outcome \<times> _"
    using that by (cases p; cases "fst p") auto
  have "quiet m (snd (start_notify_task D msg zones m))"
    unfolding start_notify_task_def Let_def
    by (auto split: option.split intro!: a quiet_update_ns quiet_known_primary
        quiet_trans [OF quiet_update_ns quiet_send_notify]
        quiet_trans [OF quiet_known_primary quiet_set_tracking])
  then show ?thesis using assms by simp
qed

lemma start_notify_job:
  assumes "start_notify_task D msg zones m = (Ok (Some job), m')" "zm_ok D m" "tree_ok D m zones"
  shows "task_ok D m' (RefreshTask job)"
proof -
  have q: "quiet m m'" using start_notify_quiet [OF assms(1)] .
  then have g: "heap_grows m m'" by (simp add: quiet_def)
  have "tracking m' (zone_id_at m' (rj_zone job)) \<noteq> None \<and>
      (d_tree_get D zones (zcm_apex_name msg) (zcm_class msg) = Some (rj_zone job)
       \<or> hm_get (zm_pending_zones m) (ZoneId_new (zcm_apex_name msg) (zcm_class msg)) = Some (rj_zone job))"
    using assms(1) unfolding start_notify_task_def Let_def
    by (auto split: option.splits if_splits elim!: and_then_Ok_pairE)
  then consider (tree) "d_tree_get D zones (zcm_apex_name msg) (zcm_class msg) = Some (rj_zone job)"
      "tracking m' (zone_id_at m' (rj_zone job)) \<noteq> None"
    | (pending) "hm_get (zm_pending_zones m) (ZoneId_new (zcm_apex_name msg) (zcm_class msg)) = Some (rj_zone job)"
    by blast
  then show ?thesis
  proof cases
    case tree
    then have r: "rj_zone job < length (zm_heap m)"
      "zone_id_at m (rj_zone job) = ZoneId_new (zcm_apex_name msg) (zcm_class msg)"
      "d_tree_get D (zm_loaded_arc m) (zcm_apex_name msg) (zcm_class msg) = Some (rj_zone job)"
      using assms(3) by (auto simp: tree_ok_def)
    then have "tracking m (ZoneId_new (zcm_apex_name msg) (zcm_class msg)) \<noteq> None"
      using tree(2) quiet_tracking [OF q] heap_grows_at(2) [OF g r(1)] by metis
    then have "managed D (zm_loaded_arc m) m (ZoneId_new (zcm_apex_name msg) (zcm_class msg))"
      using assms(2) unfolding zm_ok_def by blast
    moreover have "hm_get (zm_pending_zones m) (ZoneId_new (zcm_apex_name msg) (zcm_class msg)) = None"
      using assms(2) r(3) by (auto simp: zm_ok_def ZoneId_new_def)
    ultimately have "is_secondary (config_at m (rj_zone job))"
      using r(3) by (auto simp: managed_def ZoneId_new_def)
    then show ?thesis using heap_grows_at [OF g r(1)] by simp
  next
    case pending
    then have "rj_zone job < length (zm_heap m)" "is_secondary (config_at m (rj_zone job))"
      using assms(2) by (auto simp: zm_ok_def pending_ok_def)
    then show ?thesis using heap_grows_at [OF g] by simp
  qed
qed

text \<open>The end of a refresh: it does not panic, and the zone gets a new request or is expired.\<close>

lemma update_state_post:
  assumes "res \<noteq> Panic" "refresh_update_state now r res m = (out, m')"
  shows "out \<noteq> Panic \<and> quiet m m' \<and> (tracking m (zone_id_at m r) \<noteq> None \<longrightarrow> r < length (zm_heap m) \<longrightarrow>
    (\<exists>e \<in> set (zm_events m'). event_for (zone_id_at m r) e) \<or> expired_zone m' (zone_id_at m r))"
proof (cases "tracking m (zone_id_at m r)")
  case None
  then show ?thesis using assms(2) by (auto simp: refresh_update_state_def Let_def)
next
  case (Some z)
  have sched: "quiet m (schedule_zone_refresh c (zone_id_at m r) t (set_tracking (zone_id_at m r) z' m))"
    "quiet m (schedule_zone_refresh c (zone_id_at m r) t m)"
    "\<exists>e \<in> set (zm_events (schedule_zone_refresh c (zone_id_at m r) t m2)). event_for (zone_id_at m r) e"
    for c t z' and m2 :: "'a ZoneMaintainer"
    unfolding schedule_zone_refresh_def
    by (rule quiet_trans [OF quiet_set_tracking quiet_send_event], simp add: Some,
        rule quiet_send_event, simp add: send_event_def)
  have exp: "r < length (zm_heap m) \<Longrightarrow> expired_zone (mark_expired r m) (zone_id_at m r)"
    unfolding expired_zone_def mark_expired_def
    by (rule exI [of _ r]) (simp add: zone_id_at_def zone_at_set_zone map_info_def set_expired_def
        mz_id_def, simp add: set_zone_def)
  show ?thesis
  proof (cases res)
    case (Ok new_soa)
    then have "m' = schedule_zone_refresh SoaRefreshTimer (zone_id_at m r)
        (zrs_refresh (set_status RefreshPending (case new_soa of Some soa \<Rightarrow> refresh_succeeded now soa z | None \<Rightarrow> z)))
        (set_tracking (zone_id_at m r) (set_status RefreshPending
          (case new_soa of Some soa \<Rightarrow> refresh_succeeded now soa z | None \<Rightarrow> z)) m)" "out = Ok ()"
      using assms(2) Some by (simp_all add: refresh_update_state_def Let_def)
    then show ?thesis using sched by simp
  next
    case (Err e)
    then show ?thesis
      using assms(2) Some sched exp quiet_mark_expired [of m r]
      by (auto simp: refresh_update_state_def Let_def split: if_splits)
  qed (use assms(1) in simp)
qed

lemma refresh_finish_post:
  assumes "rrsets_nonempty D" "task_ok D m (RefreshTask job)" "refresh_finish D env job m = (res, m')"
  shows "res \<noteq> Panic \<and> quiet m m' \<and> (tracking m (zone_id_at m (rj_zone job)) \<noteq> None \<longrightarrow>
    (\<exists>e \<in> set (zm_events m'). event_for (zone_id_at m (rj_zone job)) e)
     \<or> expired_zone m' (zone_id_at m (rj_zone job)))"
proof -
  let ?r = "rj_zone job"
  obtain res1 m1 where r1: "refresh_zone D (re_age_at env) (re_primaries env) ?r (rj_initial job) m = (res1, m1)"
    by fastforce
  have ok: "?r < length (zm_heap m)" "is_secondary (config_at m ?r)" using assms(2) by simp_all
  have post: "res1 \<noteq> Panic" "zone_frame ?r m m1"
    using refresh_zone_post [OF assms(1) ok, of "re_age_at env" "re_primaries env" "rj_initial job"] r1
    by (auto simp: refresh_post_def)
  note id = zone_frame_id [OF post(2) ok(1)]
  obtain out m2 where r2: "refresh_update_state (re_finished_at env) ?r res1 m1 = (out, m2)"
    by fastforce
  note u = update_state_post [OF post(1) r2]
  have q2: "quiet m m2" using quiet_trans [OF quiet_frame [OF post(2)]] u by blast
  have tr: "tracking m1 (zone_id_at m ?r) = None \<longleftrightarrow> tracking m (zone_id_at m ?r) = None"
    using post(2) by (simp add: zone_frame_def)
  have res: "res = out \<and> (m' = m2 \<or> m' = send_event (ZoneAdded (zone_id_at m2 ?r)) m2)"
  proof -
    have fin: "refresh_finish D env job m = (case out of
        Ok _ \<Rightarrow> (Ok (), if rj_is_pending job then send_event (ZoneAdded (zone_id_at m2 ?r)) m2 else m2)
      | Err e \<Rightarrow> (Err e, m2) | Panic \<Rightarrow> (Panic, m2))"
      using post(1) r2 by (cases res1; cases out) (simp_all add: refresh_finish_def Let_def r1)
    show ?thesis
      using assms(3) by (cases out; cases "rj_is_pending job") (simp_all add: fin)
  qed
  have q: "quiet m2 m'" using res quiet_send_event [of m2] by auto
  have "quiet m m'" using quiet_trans [OF q2 q] .
  moreover have "(\<exists>e \<in> set (zm_events m'). event_for (zone_id_at m ?r) e) \<or> expired_zone m' (zone_id_at m ?r)"
    if "tracking m (zone_id_at m ?r) \<noteq> None"
  proof -
    have "(\<exists>e \<in> set (zm_events m2). event_for (zone_id_at m ?r) e) \<or> expired_zone m2 (zone_id_at m ?r)"
      using u id tr that by simp
    moreover have "set (zm_events m2) \<subseteq> set (zm_events m')" "heap_grows m2 m'"
      using q by (simp_all add: quiet_def)
    ultimately show ?thesis using expired_grows by blast
  qed
  ultimately show ?thesis using res u by simp
qed

text \<open>An event is taken from the queue.\<close>

lemma inv_event_other:
  assumes "zm_inv x D m" "zm_events m = e # es" "\<forall>zid. \<not> event_for zid e"
  shows "zm_inv x D (m\<lparr>zm_events := es\<rparr>)" (is "zm_inv x D ?m'")
proof -
  have ok: "zm_ok D m" and live: "zm_live x D m" using assms(1) by (simp_all add: zm_inv_def)
  have "zm_ok D ?m'" using ok by (intro zm_ok_lists [OF ok]) (auto simp: zm_ok_def)
  moreover have "zm_live x D ?m'"
    using live assms(2,3) expired_same [of ?m' m] task_for_same [of ?m' m D]
    by (auto simp: zm_live_def has_token_def)
  ultimately show ?thesis by (simp add: zm_inv_def)
qed

lemma timer_after_request:
  "timer_deadline (zm_timers (refresh_zone_at now cause zid at m)) zid \<noteq> None"
  "timer_deadline (zm_timers m) z \<noteq> None \<Longrightarrow>
   timer_deadline (zm_timers (refresh_zone_at now cause zid at m)) z \<noteq> None"
  by (auto simp: refresh_zone_at_def timer_deadline_place)

lemma zm_ok_refresh_zone_at: "zm_ok D m \<Longrightarrow> zm_ok D (refresh_zone_at now cause zid at m)"
  by (rule zm_ok_lists) (auto simp: zm_ok_def refresh_zone_at_def timers_ok_place)

lemma inv_event_request:
  assumes "zm_inv x D m" "zm_events m = ZoneRefreshRequested cause zid at # es"
  shows "zm_inv x D (refresh_zone_at now cause zid at (m\<lparr>zm_events := es\<rparr>))" (is "zm_inv x D ?m'")
proof -
  have ok: "zm_ok D m" and live: "zm_live x D m" using assms(1) by (simp_all add: zm_inv_def)
  have "zm_ok D (m\<lparr>zm_events := es\<rparr>)" using ok by (intro zm_ok_lists [OF ok]) (auto simp: zm_ok_def)
  then have "zm_ok D ?m'" by (rule zm_ok_refresh_zone_at)
  moreover have "has_token D ?m' z" if "has_token D m z" for z
    using that assms(2) timer_after_request [where m = "m\<lparr>zm_events := es\<rparr>" and zid = zid]
      task_for_same [of ?m' m D z]
    by (cases "z = zid") (auto simp: has_token_def)
  then have "zm_live x D ?m'"
    using live expired_same [of ?m' m] by (auto simp: zm_live_def)
  ultimately show ?thesis by (simp add: zm_inv_def)
qed

end
