(* ===== verification/Maintainer_Heap.thy ===== *)
theory Maintainer_Heap
  imports Maintainer_Props
begin

text \<open>
  Every step of the zone maintainer, of any run at all, keeps the zones it ever had: their
  identity, their configuration, and that they have expired (\<open>heap_grows\<close>).
\<close>

section \<open>Transfers\<close>

lemma grows_refl [simp]: "heap_grows m m"
  by (simp add: heap_grows_same)

lemma grows_quiet: "quiet m m' \<Longrightarrow> heap_grows m m'"
  by (simp add: quiet_def)

lemma grows_set_tracking [simp]: "heap_grows m (set_tracking i z m') = heap_grows m m'"
  by (simp add: heap_grows_def)

lemma grows_and_then:
  assumes "heap_grows m (snd p)" "\<And>a s. heap_grows m s \<Longrightarrow> heap_grows m (snd (f a s))"
  shows "heap_grows m (snd (and_then p f))"
proof -
  obtain res s where "p = (res, s)" by fastforce
  then show ?thesis using assms by (cases res) auto
qed

lemma grows_writes: "heap_grows m m' \<Longrightarrow> heap_grows m (fold (apply_write D r) ws m')"
proof (induction ws arbitrary: m')
  case (Cons w ws)
  then show ?case using heap_grows_trans [OF Cons.prems grows_quiet [OF quiet_write]] by simp
qed simp

lemma grows_progress [simp]: "heap_grows m (set_progress r n m') = heap_grows m m'"
  by (simp add: set_progress_def split: option.split)

lemma grows_updates: "heap_grows m0 m \<Longrightarrow> heap_grows m0 (snd (apply_updates D r it u n m))"
  by (induction D r it u n m rule: apply_updates.induct)
    (auto simp: Let_def grows_writes split: option.split)

lemma grows_tcp: "heap_grows m0 m \<Longrightarrow> heap_grows m0 (snd (tcp_loop D r resps i u n m))"
proof (induction resps arbitrary: i u n m)
  case (Cons resp resps)
  have "heap_grows m0 (snd (and_then (apply_updates D r it u n m)
      (\<lambda>(u', n') m'. tcp_loop D r resps i' u' n' m')))" for it i'
    using Cons by (intro grows_and_then grows_updates) (auto split: prod.split)
  then show ?case using Cons.prems by (auto split: sum.split option.split)
qed simp

lemma grows_udp: "heap_grows m0 m \<Longrightarrow> heap_grows m0 (snd (udp_xfr D r resp u m))"
  by (auto simp: udp_xfr_def split: sum.split intro!: grows_and_then grows_updates)

lemma grows_do_xfr: "heap_grows m0 m \<Longrightarrow> heap_grows m0 (snd (do_xfr D h tr r addr rt key env m))"
  unfolding do_xfr_def by (intro grows_and_then) (auto simp: grows_udp grows_tcp)

lemma grows_attempts:
  "heap_grows m0 m \<Longrightarrow> heap_grows m0 (snd (xfr_attempts D cfg env r addr key serial is h m))"
proof (induction "is" arbitrary: h m)
  case (Cons i "is")
  have "heap_grows m0 (snd (one_transfer D cfg env r addr key h i rt
      (xfr_attempts D cfg env r addr key serial is False) m))" for rt
  proof -
    obtain res m1 where x: "do_xfr D h (xfr_transport cfg rt) r addr rt key (pe_xfr env i) m = (res, m1)"
      by fastforce
    then have "heap_grows m0 m1" using grows_do_xfr [OF Cons.prems] by (metis snd_conv)
    then show ?thesis using Cons.IH x
      by (auto simp: one_transfer_def split: outcome.split option.split)
  qed
  note one = this
  show ?case
  proof (cases "choose_rtype (xc_strategy cfg) i serial")
    case (Choose rt)
    then show ?thesis using Cons one [of rt] xfr_attempts_one_transfer [OF Choose, of D env r addr key "is" h m]
      by (cases "xfr_transport cfg rt = TransportNone") auto
  qed (use Cons.prems in simp_all)
qed simp

lemma grows_addr: "heap_grows m0 m \<Longrightarrow> heap_grows m0 (snd (refresh_zone_from_addr D r serial a cfg env m))"
  unfolding refresh_zone_from_addr_def Let_def
  by (intro grows_and_then) (auto simp: grows_attempts simp del: xfr_attempts.simps split: option.split)

lemma grows_addrs:
  "heap_grows m0 m \<Longrightarrow> heap_grows m0 (snd (refresh_addrs D envs r serial req as k n saved m))"
proof (induction as arbitrary: k n saved m)
  case (Cons a as)
  have "heap_grows m0 (snd (refresh_zone_from_addr D r serial a cfg (envs k) m))" for cfg
    by (rule grows_addr [OF Cons.prems])
  then show ?case using Cons by (auto split: option.split prod.split outcome.split) (metis snd_conv)+
qed (auto split: option.split)

lemma grows_refresh_zone: "heap_grows m (snd (refresh_zone D now envs r initial m))"
  unfolding refresh_zone_def Let_def
  by (auto intro!: grows_and_then simp: grows_addrs)

lemma grows_send_event [simp]: "heap_grows m (send_event e m') = heap_grows m m'"
  by (simp add: heap_grows_def send_event_def zone_at_def)

lemma grows_update_state:
  "heap_grows m0 m \<Longrightarrow> heap_grows m0 (snd (refresh_update_state now r res m))"
  using heap_grows_trans [OF _ grows_quiet [OF quiet_mark_expired]]
  by (auto simp: refresh_update_state_def Let_def schedule_zone_refresh_def split: option.split outcome.split)

lemma grows_finish: "heap_grows m (snd (refresh_finish D env job m))"
proof -
  obtain res m1 where z: "refresh_zone D (re_age_at env) (re_primaries env) (rj_zone job) (rj_initial job) m =
      (res, m1)" by fastforce
  then have g: "heap_grows m m1" using grows_refresh_zone by (metis snd_conv)
  obtain out m2 where u: "refresh_update_state (re_finished_at env) (rj_zone job) res m1 = (out, m2)"
    by fastforce
  then have "heap_grows m m2" using grows_update_state [OF g] by (metis snd_conv)
  then show ?thesis using g z u by (auto simp: refresh_finish_def Let_def split: outcome.split)
qed

end
