(* ===== verification/Maintainer_Run.thy ===== *)
theory Maintainer_Run
  imports Maintainer_Heap
begin

text \<open>
  Whole runs of the zone maintainer: zones that become active, zones that are inserted, every
  step, and the properties of all reachable states.
\<close>

section \<open>A pending zone becomes active\<close>

lemma tracking_insert:
  "tracking m i = None \<Longrightarrow> heap_grows m (set_tracking i z m)"
  by (rule heap_grows_same) simp

lemma zm_ok_track:
  assumes "zm_ok D m" "managed D (zm_loaded_arc m) m i"
  shows "zm_ok D (set_tracking i z m)"
proof -
  let ?m' = "set_tracking i z m"
  have s: "zm_heap ?m' = zm_heap m" "zm_pending_zones ?m' = zm_pending_zones m"
    "zm_loaded_arc ?m' = zm_loaded_arc m" "zm_member_zones ?m' = zm_member_zones m"
    "zm_timers ?m' = zm_timers m" "zm_tasks ?m' = zm_tasks m"
    by (simp_all add: set_tracking_def)
  have "managed D (zm_loaded_arc m) ?m' zid = managed D (zm_loaded_arc m) m zid" for zid
    by (simp add: managed_def s)
  then show ?thesis
    using assms task_ok_same [of ?m' m D] s
    by (auto simp: zm_ok_def pending_ok_def tree_ok_def)
qed

lemma track_zone_post:
  assumes "zm_ok D m" "rrsets_nonempty D" "hm_get (zm_pending_zones m) zid = Some r"
    and "track_zone_freshness D now r m = (res, m1)"
  shows "(\<exists>refresh. res = Ok refresh) \<and> zm_ok D m1 \<and> zm_heap m1 = zm_heap m
    \<and> zm_pending_zones m1 = zm_pending_zones m \<and> zm_loaded_arc m1 = zm_loaded_arc m
    \<and> zm_timers m1 = zm_timers m \<and> zm_tasks m1 = zm_tasks m \<and> zm_events m1 = zm_events m
    \<and> (\<forall>i. i \<noteq> zid \<longrightarrow> tracking m1 i = tracking m i)"
proof -
  have r: "zone_id_at m r = zid" "is_secondary (config_at m r)"
    using assms(1,3) by (auto simp: zm_ok_def pending_ok_def)
  have mg: "managed D (zm_loaded_arc m) m zid" using assms(3) by (simp add: managed_def)
  have st: "zm_pending_zones (set_tracking i z m) = zm_pending_zones m"
    "zm_loaded_arc (set_tracking i z m) = zm_loaded_arc m" "zm_timers (set_tracking i z m) = zm_timers m"
    "zm_tasks (set_tracking i z m) = zm_tasks m" for i z
    by (simp_all add: set_tracking_def)
  have np: "read_soa D st q \<noteq> Panic" for st q using read_soa_no_panic [OF assms(2)] .
  show ?thesis
    using assms(4) r np zm_ok_track [OF assms(1) mg] assms(1) st
    by (auto simp: track_zone_freshness_def split: option.splits outcome.splits)
qed

text \<open>Moving a zone from the pending to the active zones.\<close>

lemma zm_ok_activate:
  assumes ok: "zm_ok D m" and zt: "zone_tree_ok D" and p: "hm_get (zm_pending_zones m) zid = Some r"
    and ins: "d_tree_insert D (mz_apex_name (zone_at m r)) (mz_class (zone_at m r)) r (zm_loaded_arc m) = Inr t"
  shows "zm_ok D (m\<lparr>zm_pending_zones := hm_remove zid (zm_pending_zones m), zm_member_zones := t,
    zm_loaded_arc := t\<rparr>)" (is "zm_ok D ?m'")
proof -
  have r: "r < length (zm_heap m)" "zone_id_at m r = zid" "is_secondary (config_at m r)"
    using ok p by (auto simp: zm_ok_def pending_ok_def)
  have id: "mz_apex_name (zone_at m r) = zid_name zid" "mz_class (zone_at m r) = zid_class zid"
    using r(2) by (auto simp: zone_id_at_def mz_id_def ZoneId_new_def)
  have get: "d_tree_get D t n c = (if n = zid_name zid \<and> c = zid_class zid then Some r
      else d_tree_get D (zm_loaded_arc m) n c)" for n c
    using tree_insert_get [OF zt ins] by (simp add: id)
  have none: "d_tree_get D (zm_loaded_arc m) (zid_name zid) (zid_class zid) = None"
    using ok p by (auto simp: zm_ok_def)
  have s: "zone_at ?m' = zone_at m" "zone_id_at ?m' = zone_id_at m" "config_at ?m' = config_at m"
    "tracking ?m' = tracking m"
    by (simp_all add: fun_eq_iff zone_at_def zone_id_at_def config_at_def tracking_def)
  have g: "heap_grows m ?m'" by (rule heap_grows_same) simp
  have ext: "d_tree_get D (zm_loaded_arc m) n c = Some r' \<Longrightarrow> d_tree_get D t n c = Some r'" for n c r'
    using none by (auto simp: get)
  have tasks: "task_ok D ?m' u" if "task_ok D m u" for u
    using task_ok_grows [OF that g] ext by simp
  have tree: "tree_ok D ?m' t"
    using ok r by (auto simp: tree_ok_def zm_ok_def get s ZoneId_new_def split: if_splits)
  have man: "managed D t ?m' z" if "managed D (zm_loaded_arc m) m z" for z
  proof (cases "z = zid")
    case True
    then show ?thesis using r(3) by (simp add: managed_def get s)
  next
    case False
    then have "\<not> (zid_name z = zid_name zid \<and> zid_class z = zid_class zid)" by (cases z; cases zid) auto
    then show ?thesis using that False by (auto simp: managed_def get s)
  qed
  have dis: "d_tree_get D t (zid_name z) (zid_class z) = None"
    if "hm_get (hm_remove zid (zm_pending_zones m)) z \<noteq> None" for z
  proof -
    have "z \<noteq> zid" using that by (auto split: if_splits)
    then have "\<not> (zid_name z = zid_name zid \<and> zid_class z = zid_class zid)" by (cases z; cases zid) auto
    then show ?thesis using ok that by (auto simp: zm_ok_def get split: if_splits)
  qed
  have pend: "pending_ok ?m' (hm_remove zid (zm_pending_zones m))"
    using ok by (auto simp: zm_ok_def pending_ok_def s split: if_splits)
  show ?thesis
    using ok tasks tree man dis pend unfolding zm_ok_def by (auto simp: s)
qed

text \<open>What a step keeps when it does not touch the sets of zones.\<close>

definition keeps_sets :: "'t ZoneMaintainer \<Rightarrow> 't ZoneMaintainer \<Rightarrow> bool" where
  "keeps_sets m m' \<longleftrightarrow> heap_grows m m' \<and> zm_pending_zones m' = zm_pending_zones m
     \<and> zm_loaded_arc m' = zm_loaded_arc m"

lemma keeps_refl [simp]: "keeps_sets m m"
  by (simp add: keeps_sets_def)

lemma keeps_trans: "keeps_sets a b \<Longrightarrow> keeps_sets b c \<Longrightarrow> keeps_sets a c"
  by (auto simp: keeps_sets_def intro: heap_grows_trans)

lemma keeps_quiet: "quiet m m' \<Longrightarrow> keeps_sets m m'"
  by (simp add: keeps_sets_def quiet_def)

lemma keeps_same:
  "zm_heap m' = zm_heap m \<Longrightarrow> zm_pending_zones m' = zm_pending_zones m \<Longrightarrow>
   zm_loaded_arc m' = zm_loaded_arc m \<Longrightarrow> keeps_sets m m'"
  by (simp add: keeps_sets_def heap_grows_same)

text \<open>What the state of the loop says of the zone it adds.\<close>

fun loop_fits :: "'t loop_state \<Rightarrow> 't ZoneMaintainer \<Rightarrow> bool" where
  "loop_fits (Adding zid r refresh) m \<longleftrightarrow> hm_get (zm_pending_zones m) zid = Some r"
| "loop_fits (Storing zid r refresh t) m \<longleftrightarrow>
     hm_get (zm_pending_zones m) zid = Some r \<and> t = zm_loaded_arc m"
| "loop_fits LoopEnded m \<longleftrightarrow> False"
| "loop_fits _ m \<longleftrightarrow> True"

lemma loop_fits_keeps: "loop_fits l m \<Longrightarrow> keeps_sets m m' \<Longrightarrow> loop_fits l m'"
  by (cases l) (simp_all add: keeps_sets_def)

lemma inv_request:
  assumes "zm_ok D m" and "\<And>z. tracking m z \<noteq> None \<Longrightarrow> z \<noteq> zid \<Longrightarrow> has_token D m z \<or> expired_zone m z"
  shows "zm_inv x D (refresh_zone_at now cause zid at m)" (is "zm_inv x D ?m'")
proof -
  have g: "heap_grows m ?m'" by (rule heap_grows_same) simp
  have "has_token D ?m' z \<or> expired_zone ?m' z" if "tracking ?m' z \<noteq> None" for z
  proof (cases "z = zid")
    case True
    then show ?thesis
      using timer_after_request(1) [of now cause zid at m] by (simp add: has_token_def)
  next
    case False
    moreover have "has_token D m z \<Longrightarrow> has_token D ?m' z"
      by (intro has_token_mono [OF _ assms(1) g]) (simp_all add: timer_after_request(2) del: not_None_eq)
    ultimately show ?thesis using assms(2) that expired_grows [OF _ g] by auto
  qed
  then show ?thesis using zm_ok_refresh_zone_at [OF assms(1)] by (simp add: zm_inv_def zm_live_def)
qed

lemma add_begin_post:
  assumes inv: "zm_inv None D m" and ne: "rrsets_nonempty D" and out: "add_begin D now zid m = (l, m')"
  shows "zm_inv (adding l) D m' \<and> keeps_sets m m' \<and> loop_fits l m' \<and>
    (l = Idle \<or> (\<exists>r refresh. l = Adding zid r refresh))"
proof (cases "hm_get (zm_pending_zones m) zid")
  case None
  then show ?thesis using out inv by (auto simp: add_begin_def)
next
  case (Some r)
  have ok: "zm_ok D m" and live: "zm_live None D m" using inv by (simp_all add: zm_inv_def)
  obtain tr m1 where tr: "track_zone_freshness D now r m = (tr, m1)" by fastforce
  note t = track_zone_post [OF ok ne Some tr]
  obtain refresh where refresh: "tr = Ok refresh" using t by blast
  have g1: "heap_grows m m1" using t by (intro heap_grows_same) simp
  have live1: "has_token D m1 z \<or> expired_zone m1 z" if "tracking m1 z \<noteq> None" "z \<noteq> zid" for z
  proof -
    have "has_token D m z \<or> expired_zone m z" using that t live by (simp add: zm_live_def)
    moreover have "has_token D m z \<Longrightarrow> has_token D m1 z"
      using t by (intro has_token_mono [OF _ ok g1]) auto
    ultimately show ?thesis using expired_grows [OF _ g1] by blast
  qed
  have keeps: "keeps_sets m m1" using t by (simp add: keeps_same)
  show ?thesis
  proof (cases refresh)
    case None
    then have "l = Idle" "m' = refresh_zone_at now SoaRefreshTimerAfterZoneAdded zid None m1"
      using out Some tr refresh by (simp_all add: add_begin_def)
    then show ?thesis
      using inv_request [of D m1 zid] live1 t keeps_trans [OF keeps keeps_same] by simp
  next
    case (Some at)
    then have "l = Adding zid r at" "m' = m1"
      using out \<open>hm_get (zm_pending_zones m) zid = Some r\<close> tr refresh by (simp_all add: add_begin_def)
    moreover have "zm_live (Some zid) D m1" using live1 by (simp add: zm_live_def)
    ultimately show ?thesis
      using t keeps \<open>hm_get (zm_pending_zones m) zid = Some r\<close> by (simp add: zm_inv_def)
  qed
qed

lemma update_ns_Ok:
  assumes "rrsets_nonempty D" "update_known_nameservers_for_zone D r m = (u, m1)"
  shows "u = Ok () \<and> quiet m m1 \<and> tracking m1 = tracking m \<and> zm_events m1 = zm_events m
    \<and> update_known_nameservers_for_zone D r (m\<lparr>zm_pending_zones := p\<rparr>) =
      (Ok (), m1\<lparr>zm_pending_zones := p\<rparr>)"
proof -
  have np: "identify_nameservers D z \<noteq> Panic" for z using identify_no_panic [OF assms(1)] .
  have s0: "zone_at (m\<lparr>zm_pending_zones := p\<rparr>) = zone_at m"
    "config_at (m\<lparr>zm_pending_zones := p\<rparr>) = config_at m"
    by (simp_all add: fun_eq_iff zone_at_def config_at_def)
  have "quiet m m1" using quiet_update_ns [of m D r] assms(2) by simp
  moreover have "u = Ok ()" "tracking m1 = tracking m" "zm_events m1 = zm_events m"
    using assms(2) np by (auto simp: update_known_nameservers_for_zone_def set_nameservers_def set_zone_def
        tracking_def fun_eq_iff split: if_splits outcome.splits)
  moreover have "update_known_nameservers_for_zone D r (m\<lparr>zm_pending_zones := p\<rparr>) =
      (Ok (), m1\<lparr>zm_pending_zones := p\<rparr>)"
    using assms(2) calculation(2) by (auto simp: update_known_nameservers_for_zone_def set_nameservers_def s0
        set_zone_def map_info_def split: if_splits outcome.splits)
  ultimately show ?thesis by blast
qed

lemma add_clone_post:
  assumes inv: "zm_inv x D m" and ne: "rrsets_nonempty D"
    and p: "hm_get (zm_pending_zones m) zid = Some r" and out: "add_clone D zid r refresh m = (l, m')"
  shows "l = Storing zid r refresh (zm_loaded_arc m') \<and> zm_inv x D m' \<and> keeps_sets m m' \<and> loop_fits l m'"
proof -
  obtain u m1 where u: "update_known_nameservers_for_zone D r m = (u, m1)" by fastforce
  note q = update_ns_Ok [OF ne u]
  then show ?thesis
    using out u zm_inv_quiet [OF inv, of m1] keeps_quiet [of m m1] p
    by (auto simp: add_clone_def keeps_sets_def)
qed

lemma add_store_post:
  assumes inv: "zm_inv (Some zid) D m" and zt: "zone_tree_ok D"
    and p: "hm_get (zm_pending_zones m) zid = Some r"
    and out: "add_store D now zid r refresh (zm_loaded_arc m) m = (l, m')"
  shows "l = Idle \<and> zm_inv None D m' \<and> heap_grows m m'"
proof -
  have ok: "zm_ok D m" and live: "zm_live (Some zid) D m" using inv by (simp_all add: zm_inv_def)
  have r: "zone_id_at m r = zid" using ok p by (auto simp: zm_ok_def pending_ok_def)
  then have id: "mz_apex_name (zone_at m r) = zid_name zid" "mz_class (zone_at m r) = zid_class zid"
    by (auto simp: zone_id_at_def mz_id_def ZoneId_new_def)
  have "d_tree_get D (zm_loaded_arc m) (zid_name zid) (zid_class zid) = None"
    using ok p by (auto simp: zm_ok_def)
  then obtain t where t: "d_tree_insert D (mz_apex_name (zone_at m r)) (mz_class (zone_at m r)) r
      (zm_loaded_arc m) = Inr t"
    using tree_insert_fails [OF zt] id by (metis sum.exhaust)
  let ?m2 = "m\<lparr>zm_pending_zones := hm_remove zid (zm_pending_zones m), zm_member_zones := t,
    zm_loaded_arc := t\<rparr>"
  have ok2: "zm_ok D ?m2" by (rule zm_ok_activate [OF ok zt p t])
  have m': "l = Idle" "m' = refresh_zone_at now SoaRefreshTimerAfterZoneAdded zid (Some refresh) ?m2"
    using out t by (simp_all add: add_store_def Let_def)
  have g: "heap_grows m ?m2" by (rule heap_grows_same) simp
  have "has_token D ?m2 z \<or> expired_zone ?m2 z" if "tracking ?m2 z \<noteq> None" "z \<noteq> zid" for z
  proof -
    have "has_token D m z \<or> expired_zone m z" using that live by (simp add: zm_live_def)
    moreover have "has_token D m z \<Longrightarrow> has_token D ?m2 z"
      using that(2) by (intro has_token_mono [OF _ ok g]) auto
    ultimately show ?thesis using expired_grows [OF _ g] by blast
  qed
  then have "zm_inv None D m'" unfolding m'(2) by (intro inv_request [OF ok2])
  moreover have "heap_grows ?m2 m'" by (rule heap_grows_same) (simp add: m')
  ultimately show ?thesis using m'(1) heap_grows_trans [OF g] by blast
qed

text \<open>The pieces one after the other are \<open>on_zone_added\<close>.\<close>

lemma on_zone_added_pieces:
  assumes ne: "rrsets_nonempty D" and b: "add_begin D now zid m = (l, m1)"
  shows "on_zone_added D now zid m = (case l of
      Idle \<Rightarrow> (Ok (), m1)
    | Adding zid' r refresh \<Rightarrow> (case add_clone D zid r refresh m1 of
        (Storing _ _ _ t, m2) \<Rightarrow> (case add_store D now zid r refresh t m2 of
           (Idle, m3) \<Rightarrow> (Ok (), m3) | (_, m3) \<Rightarrow> (Panic, m3))
      | (_, m2) \<Rightarrow> (Panic, m2))
    | _ \<Rightarrow> (Panic, m1))"
proof (cases "\<exists>r refresh. l = Adding zid r refresh")
  case False
  then show ?thesis
    using b by (auto simp: add_begin_def on_zone_added_def split: option.splits outcome.splits prod.splits)
next
  case True
  then obtain r refresh where l: "l = Adding zid r refresh" by blast
  then have r: "hm_get (zm_pending_zones m) zid = Some r"
    "track_zone_freshness D now r m = (Ok (Some refresh), m1)"
    using b by (auto simp: add_begin_def split: option.splits outcome.splits prod.splits)
  obtain u m2 where u: "update_known_nameservers_for_zone D r m1 = (u, m2)" by fastforce
  note un = update_ns_Ok [OF ne u]
  have p: "zm_pending_zones m2 = zm_pending_zones m1" using un by (simp add: quiet_def)
  have "on_zone_added D now zid m = and_then (unwrap_result (insert_active_zone D r
        (m1\<lparr>zm_pending_zones := hm_remove zid (zm_pending_zones m1)\<rparr>)))
      (\<lambda>_ m2. (Ok (), refresh_zone_at now SoaRefreshTimerAfterZoneAdded zid (Some refresh) m2))"
    using r by (simp add: on_zone_added_def)
  then show ?thesis
    using un by (simp add: l insert_active_zone_def add_clone_def u add_store_def Let_def p
        split: sum.split)
qed

lemma inv_zone_added:
  assumes inv: "zm_inv None D m" and zt: "zone_tree_ok D" and ne: "rrsets_nonempty D"
  shows "fst (on_zone_added D now zid m) = Ok ()"
proof -
  obtain l m1 where b: "add_begin D now zid m = (l, m1)" by fastforce
  note bp = add_begin_post [OF inv ne b]
  show ?thesis
  proof (cases "l = Idle")
    case True
    then show ?thesis by (simp add: on_zone_added_pieces [OF ne b])
  next
    case False
    then obtain r refresh where l: "l = Adding zid r refresh" using bp by blast
    obtain l2 m2 where c: "add_clone D zid r refresh m1 = (l2, m2)" by fastforce
    have "zm_inv (Some zid) D m1" "hm_get (zm_pending_zones m1) zid = Some r" using bp l by simp_all
    note cp = add_clone_post [OF this(1) ne this(2) c]
    obtain l3 m3 where d: "add_store D now zid r refresh (zm_loaded_arc m2) m2 = (l3, m3)" by fastforce
    have "hm_get (zm_pending_zones m2) zid = Some r" using cp by auto
    then have "l3 = Idle" using add_store_post [OF _ zt _ d] cp by blast
    then show ?thesis using cp c d by (simp add: on_zone_added_pieces [OF ne b] l)
  qed
qed

section \<open>Zones are inserted\<close>

text \<open>The state of the loop of \<open>insert_zones\<close>: the set of zones it builds extends the active
  one.\<close>

definition loop_ok :: "'t domain_api \<Rightarrow> 't ZoneMaintainer \<Rightarrow> 't \<Rightarrow> bool" where
  "loop_ok D m t \<longleftrightarrow> zm_ok D m
     \<and> (\<forall>n c r. d_tree_get D (zm_loaded_arc m) n c = Some r \<longrightarrow> d_tree_get D t n c = Some r)
     \<and> (\<forall>n c r. d_tree_get D t n c = Some r \<longrightarrow> r < length (zm_heap m) \<and> zone_id_at m r = ZoneId_new n c)
     \<and> (\<forall>zid. hm_get (zm_pending_zones m) zid \<noteq> None \<longrightarrow> d_tree_get D t (zid_name zid) (zid_class zid) = None)"

definition inserting :: "'t ZoneMaintainer \<Rightarrow> 't ZoneMaintainer \<Rightarrow> bool" where
  "inserting m m' \<longleftrightarrow> heap_grows m m' \<and> zm_timers m' = zm_timers m \<and> zm_tasks m' = zm_tasks m
     \<and> set (zm_events m) \<subseteq> set (zm_events m') \<and> tracking m' = tracking m
     \<and> zm_loaded_arc m' = zm_loaded_arc m
     \<and> (\<forall>zid r. hm_get (zm_pending_zones m) zid = Some r \<longrightarrow> hm_get (zm_pending_zones m') zid = Some r)"

lemma inserting_trans: "inserting a b \<Longrightarrow> inserting b c \<Longrightarrow> inserting a c"
  by (auto simp: inserting_def intro: heap_grows_trans)

lemma inserting_refl: "inserting m m"
  by (simp add: inserting_def heap_grows_same)

lemma loop_ok_keeps: "loop_ok D m t \<Longrightarrow> zm_ok D m' \<Longrightarrow> keeps_sets m m' \<Longrightarrow> loop_ok D m' t"
  using heap_grows_at [of m m'] unfolding loop_ok_def keeps_sets_def by simp

lemma loop_ok_quiet: "loop_ok D m t \<Longrightarrow> quiet m m' \<Longrightarrow> loop_ok D m' t"
  by (rule loop_ok_keeps [OF _ zm_ok_quiet keeps_quiet]) (auto simp: loop_ok_def)

lemma heap_grows_wrap: "wrap_zone z m = (r, m1) \<Longrightarrow> heap_grows m m1"
  by (auto simp: wrap_zone_def heap_grows_def keeps_zone_def zone_at_def nth_append)

lemma wrap_zone_simps:
  assumes "wrap_zone z m = (r, m1)"
  shows "r < length (zm_heap m1)" "zone_id_at m1 r = tz_id z" "config_at m1 r = tz_zone_type z"
    "zm_pending_zones m1 = zm_pending_zones m" "zm_loaded_arc m1 = zm_loaded_arc m"
    "zm_member_zones m1 = zm_member_zones m" "zm_timers m1 = zm_timers m" "zm_tasks m1 = zm_tasks m"
    "zm_events m1 = zm_events m" "tracking m1 = tracking m"
  using assms by (auto simp: wrap_zone_def zone_id_at_def config_at_def zone_at_def mz_id_def tz_id_def
      tracking_def fun_eq_iff)

lemma loop_ok_wrap:
  assumes "loop_ok D m t" "wrap_zone z m = (r, m1)"
  shows "loop_ok D m1 t"
proof -
  have "quiet m m1"
    using heap_grows_wrap [OF assms(2)] wrap_zone_simps [OF assms(2)] by (simp add: quiet_def)
  then show ?thesis using loop_ok_quiet [OF assms(1)] by blast
qed

text \<open>A secondary zone goes to the pending zones.\<close>

lemma loop_ok_pending:
  assumes lo: "loop_ok D m t" and r: "r < length (zm_heap m)" "zone_id_at m r = zid"
      "is_secondary (config_at m r)"
    and free: "d_tree_get D t (zid_name zid) (zid_class zid) = None"
  shows "loop_ok D (m\<lparr>zm_pending_zones := hm_insert zid r (zm_pending_zones m)\<rparr>) t" (is "loop_ok D ?m' t")
proof -
  have ok: "zm_ok D m" using lo by (simp add: loop_ok_def)
  have s: "zone_at ?m' = zone_at m" "zone_id_at ?m' = zone_id_at m" "config_at ?m' = config_at m"
    "tracking ?m' = tracking m"
    by (simp_all add: fun_eq_iff zone_at_def zone_id_at_def config_at_def tracking_def)
  have "d_tree_get D (zm_loaded_arc m) (zid_name zid) (zid_class zid) = None"
    using lo free by (metis loop_ok_def option.exhaust option.distinct(1))
  moreover have "managed D (zm_loaded_arc m) m z \<Longrightarrow> managed D (zm_loaded_arc m) ?m' z" for z
    by (auto simp: managed_def s)
  ultimately have "zm_ok D ?m'"
    using ok r task_ok_same [of ?m' m D]
    by (auto simp: zm_ok_def pending_ok_def tree_ok_def s split: if_splits)
  then show ?thesis using lo free by (auto simp: loop_ok_def s split: if_splits)
qed

lemma insert_loop_post:
  assumes zt: "zone_tree_ok D" and ne: "rrsets_nonempty D"
  shows "loop_ok D m t \<Longrightarrow> fresh_zones D zones t m \<Longrightarrow> insert_zones_loop D zones t m = (res, m') \<Longrightarrow>
    (\<exists>t'. res = Ok t' \<and> loop_ok D m' t') \<and> inserting m m'"
proof (induction zones arbitrary: t m)
  case Nil
  then show ?case by (auto simp: inserting_refl)
next
  case (Cons z zones)
  obtain r m1 where w: "wrap_zone z m = (r, m1)" by fastforce
  note ws = wrap_zone_simps [OF w]
  have lo1: "loop_ok D m1 t" using loop_ok_wrap [OF Cons.prems(1) w] .
  have i1: "inserting m m1" using heap_grows_wrap [OF w] ws by (simp add: inserting_def)
  have id: "zid_name (tz_id z) = tz_apex_name z" "zid_class (tz_id z) = tz_class z" for z
    by (simp_all add: tz_id_def ZoneId_new_def)
  have free: "d_tree_get D t (tz_apex_name z) (tz_class z) = None"
    and rest: "tz_id z \<notin> tz_id ` set zones" "distinct (map tz_id zones)"
      "\<forall>y \<in> set zones. hm_get (zm_pending_zones m) (tz_id y) = None
        \<and> d_tree_get D t (tz_apex_name y) (tz_class y) = None"
    using Cons.prems(2) by (auto simp: fresh_zones_def)
  show ?case
  proof (cases "is_secondary (tz_zone_type z)")
    case True
    let ?m2 = "send_event (ZoneAdded (zone_id_at m1 r))
        (m1\<lparr>zm_pending_zones := hm_insert (zone_id_at m1 r) r (zm_pending_zones m1)\<rparr>)"
    have lo2: "loop_ok D ?m2 t"
    proof (rule loop_ok_quiet [OF loop_ok_pending [OF lo1] quiet_send_event])
      show "d_tree_get D t (zid_name (zone_id_at m1 r)) (zid_class (zone_id_at m1 r)) = None"
        using free ws(2) by (simp add: id)
    qed (use ws True in auto)
    have "hm_get (zm_pending_zones m1) (zone_id_at m1 r) = None"
      using Cons.prems(2) ws by (simp add: fresh_zones_def)
    then have i2: "inserting m1 ?m2"
      by (auto simp: inserting_def send_event_def tracking_def fun_eq_iff intro: heap_grows_same)
    have f: "fresh_zones D zones t ?m2"
      using rest ws by (auto simp: fresh_zones_def send_event_def image_iff)
    have "insert_zones_loop D zones t ?m2 = (res, m')"
      using Cons.prems(3) True w by (simp add: Let_def)
    from Cons.IH [OF lo2 f this] show ?thesis
      using inserting_trans [OF inserting_trans [OF i1 i2]] by blast
  next
    case False
    obtain u m2 where u: "update_known_nameservers_for_zone D r m1 = (u, m2)" by fastforce
    have q: "quiet m1 m2" using quiet_update_ns [of m1 D r] u by simp
    have u': "u = Ok ()" "tracking m2 = tracking m1"
      using u identify_no_panic [OF ne] by (auto simp: update_known_nameservers_for_zone_def
          set_nameservers_def set_zone_def tracking_def fun_eq_iff split: if_splits outcome.splits)
    obtain t' where t': "d_tree_insert D (tz_apex_name z) (tz_class z) r t = Inr t'"
      using tree_insert_fails [OF zt] free by (metis sum.exhaust)
    note get = tree_insert_get [OF zt t']
    have r2: "r < length (zm_heap m2)" "zone_id_at m2 r = tz_id z"
      using heap_grows_at [of m1 m2 r] q ws by (auto simp: quiet_def)
    have lo2: "loop_ok D m2 t" using loop_ok_quiet [OF lo1 q] .
    have pz: "zm_pending_zones m2 = zm_pending_zones m" using q ws by (simp add: quiet_def)
    have pn: "hm_get (zm_pending_zones m) (tz_id z) = None" using Cons.prems(2) by (simp add: fresh_zones_def)
    have lo3: "loop_ok D m2 t'"
    proof -
      have "d_tree_get D t' (zid_name zid) (zid_class zid) = None"
        if "hm_get (zm_pending_zones m2) zid \<noteq> None" for zid
      proof -
        have "zid \<noteq> tz_id z" using that pn pz by auto
        then have "\<not> (zid_name zid = tz_apex_name z \<and> zid_class zid = tz_class z)"
          by (cases zid) (auto simp: tz_id_def ZoneId_new_def)
        then show ?thesis using that lo2 by (auto simp: loop_ok_def get)
      qed
      moreover have "d_tree_get D t' n c = Some r'" if "d_tree_get D (zm_loaded_arc m2) n c = Some r'" for n c r'
      proof -
        have "d_tree_get D t n c = Some r'" using that lo2 by (simp add: loop_ok_def)
        then show ?thesis using free by (auto simp: get)
      qed
      ultimately show ?thesis
        using lo2 r2 unfolding loop_ok_def by (auto simp: get tz_id_def split: if_splits)
    qed
    let ?m3 = "send_event (ZoneAdded (zone_id_at m1 r)) m2"
    have lo4: "loop_ok D ?m3 t'" using loop_ok_quiet [OF lo3 quiet_send_event] .
    have i3: "inserting m1 ?m3"
      using q u'(2) quiet_trans [OF q quiet_send_event]
      by (auto simp: inserting_def quiet_def) (simp_all add: send_event_def tracking_def fun_eq_iff)
    have f: "fresh_zones D zones t' ?m3"
    proof -
      have "d_tree_get D t' (tz_apex_name y) (tz_class y) = None" if "y \<in> set zones" for y
      proof -
        have "tz_id y \<noteq> tz_id z" using that rest(1) by (metis image_eqI)
        then have "\<not> (tz_apex_name y = tz_apex_name z \<and> tz_class y = tz_class z)"
          by (auto simp: tz_id_def ZoneId_new_def)
        then show ?thesis using that rest(3) by (auto simp: get)
      qed
      then show ?thesis using rest pz by (simp add: fresh_zones_def send_event_def)
    qed
    have "insert_zones_loop D zones t' ?m3 = (res, m')"
      using Cons.prems(3) False w u u'(1) t' by (simp add: Let_def)
    from Cons.IH [OF lo4 f this] show ?thesis
      using inserting_trans [OF inserting_trans [OF i1 i3]] by blast
  qed
qed

lemma insert_round_post:
  assumes inv: "zm_inv x D m" and lo: "loop_ok D m t" and i: "inserting m m'" and ok': "zm_ok D m'"
  shows "zm_inv x D m'"
proof -
  have g: "heap_grows m m'" and ok: "zm_ok D m" using i inv by (simp_all add: inserting_def zm_inv_def)
  have "has_token D m' z" if "has_token D m z" for z
    using i by (intro has_token_mono [OF that ok g]) (auto simp: inserting_def)
  then have "zm_live x D m'"
    using inv expired_grows [OF _ g] i by (auto simp: zm_inv_def zm_live_def inserting_def)
  then show ?thesis using ok' by (simp add: zm_inv_def)
qed

lemma insert_store_post:
  assumes inv: "zm_inv x D m" and lo: "loop_ok D m t"
  shows "zm_inv x D (m\<lparr>zm_member_zones := t, zm_loaded_arc := t\<rparr>)" (is "zm_inv x D ?m'")
proof -
  have ok: "zm_ok D m" and ext: "\<And>n c r. d_tree_get D (zm_loaded_arc m) n c = Some r \<Longrightarrow> d_tree_get D t n c = Some r"
    using lo by (auto simp: loop_ok_def)
  have s: "zone_at ?m' = zone_at m" "zone_id_at ?m' = zone_id_at m" "config_at ?m' = config_at m"
    "tracking ?m' = tracking m" by simp_all
  have g: "heap_grows m ?m'" by (rule heap_grows_same) simp
  have tasks: "task_ok D ?m' u" if "task_ok D m u" for u
    using task_ok_grows [OF that g] ext by simp
  have man: "managed D t ?m' z" if "managed D (zm_loaded_arc m) m z" for z
    using that ext by (auto simp: managed_def s)
  have "zm_ok D ?m'"
    using ok lo tasks man unfolding zm_ok_def loop_ok_def tree_ok_def
    by (auto simp: s pending_ok_def)
  moreover have "has_token D ?m' z" if "has_token D m z" for z
    by (intro has_token_mono [OF that ok g]) auto
  then have "zm_live x D ?m'"
    using inv expired_grows [OF _ g] by (auto simp: zm_inv_def zm_live_def s)
  ultimately show ?thesis by (simp add: zm_inv_def)
qed

section \<open>The loop starts\<close>

lemma run_zones_post:
  assumes ne: "rrsets_nonempty D"
  shows "zm_inv None D m \<Longrightarrow> \<forall>r \<in> set rs. \<exists>n c. d_tree_get D (zm_loaded_arc m) n c = Some r \<Longrightarrow>
    run_zones D now rs m = (res, m') \<Longrightarrow> res = Ok () \<and> zm_inv None D m' \<and> keeps_sets m m'"
proof (induction rs arbitrary: m)
  case Nil
  then show ?case by auto
next
  case (Cons r rs)
  let ?m1 = "if sdc_is_empty (zc_send_notify_to (config_at m r)) then m
    else send_notify D r (zc_send_notify_to (config_at m r)) m"
  have q: "quiet m ?m1" by (simp add: quiet_send_notify)
  have inv1: "zm_inv None D ?m1" using zm_inv_quiet [OF Cons.prems(1) q] .
  have g1: "heap_grows m ?m1" and l1: "zm_loaded_arc ?m1 = zm_loaded_arc m"
    using q by (simp_all add: quiet_def)
  obtain n c where r: "d_tree_get D (zm_loaded_arc m) n c = Some r" using Cons.prems(2) by auto
  have ok1: "zm_ok D ?m1" using inv1 by (simp add: zm_inv_def)
  have r1: "r < length (zm_heap m)" "zone_id_at ?m1 r = ZoneId_new n c"
    using Cons.prems(1) r ok1 l1 by (auto simp: zm_inv_def zm_ok_def tree_ok_def)
  have c1: "config_at ?m1 r = config_at m r" using heap_grows_at(3) [OF g1 r1(1)] .
  show ?case
  proof (cases "is_secondary (config_at m r)")
    case False
    have "run_zones D now rs ?m1 = (res, m')" using Cons.prems(3) False by (simp add: Let_def)
    from Cons.IH [OF inv1 _ this] show ?thesis
      using Cons.prems(2) l1 keeps_trans [OF keeps_quiet [OF q]] by simp
  next
    case True
    have man: "managed D (zm_loaded_arc ?m1) ?m1 (ZoneId_new n c)"
      using r c1 True l1 by (auto simp: managed_def ZoneId_new_def)
    obtain tr m2 where tr: "track_zone_freshness D now r ?m1 = (tr, m2)" by fastforce
    have np: "read_soa D st qn \<noteq> Panic" for st qn using read_soa_no_panic [OF ne] .
    have t: "\<exists>refresh. tr = Ok refresh" "m2 = ?m1 \<or> (\<exists>z. m2 = set_tracking (ZoneId_new n c) z ?m1)"
      using tr np c1 True r1(2)
      by (auto simp: track_zone_freshness_def split: option.splits outcome.splits)
    then obtain refresh where refresh: "tr = Ok refresh" by blast
    have ok2: "zm_ok D m2" using t(2) ok1 zm_ok_track [OF ok1 man] by auto
    have m2: "zm_heap m2 = zm_heap ?m1" "zm_loaded_arc m2 = zm_loaded_arc ?m1"
      "zm_timers m2 = zm_timers ?m1" "zm_tasks m2 = zm_tasks ?m1" "zm_events m2 = zm_events ?m1"
      "zm_pending_zones m2 = zm_pending_zones ?m1" "zone_id_at m2 r = ZoneId_new n c"
      "\<And>i. i \<noteq> ZoneId_new n c \<Longrightarrow> tracking m2 i = tracking ?m1 i"
      using t(2) r1(2) by (auto simp: set_tracking_def tracking_def zone_id_at_def zone_at_def)
    let ?m3 = "refresh_zone_at now SoaRefreshTimerAfterStartup (zone_id_at m2 r) refresh m2"
    have g13: "heap_grows ?m1 ?m3" by (rule heap_grows_same) (simp add: m2(1))
    have k13: "keeps_sets ?m1 ?m3" by (rule keeps_same) (simp_all add: m2)
    have ok3: "zm_ok D ?m3" by (rule zm_ok_refresh_zone_at [OF ok2])
    have "has_token D ?m3 z \<or> expired_zone ?m3 z" if "tracking ?m3 z \<noteq> None" for z
    proof (cases "z = ZoneId_new n c")
      case True
      then show ?thesis
        using timer_after_request(1) [of now SoaRefreshTimerAfterStartup z refresh m2] m2(7)
        by (simp add: has_token_def)
    next
      case False
      then have "tracking ?m1 z \<noteq> None" using that m2(8) by simp
      then have "has_token D ?m1 z \<or> expired_zone ?m1 z"
        using inv1 by (simp add: zm_inv_def zm_live_def)
      moreover have "has_token D ?m1 z \<Longrightarrow> has_token D ?m3 z"
        using m2 timer_after_request(2) [where m = m2]
        by (intro has_token_mono [OF _ ok1 g13]) auto
      ultimately show ?thesis using expired_grows [OF _ g13] by blast
    qed
    then have inv3: "zm_inv None D ?m3" using ok3 by (simp add: zm_inv_def zm_live_def)
    have "run_zones D now rs ?m3 = (res, m')"
      using Cons.prems(3) True tr refresh by (simp add: Let_def)
    from Cons.IH [OF inv3 _ this] show ?thesis
      using Cons.prems(2) l1 m2(2) keeps_trans [OF keeps_trans [OF keeps_quiet [OF q] k13]] by simp
  qed
qed

lemma run_start_post:
  assumes "zm_inv None D m" "tree_iter_ok D" "rrsets_nonempty D" "run_start D now m = (res, m')"
  shows "res = Ok () \<and> zm_inv None D m' \<and> keeps_sets m m'"
proof -
  let ?m0 = "m\<lparr>zm_running := True, zm_time_tracking := [], zm_timers := []\<rparr>"
  have ok: "zm_ok D m" using assms(1) by (simp add: zm_inv_def)
  have "zm_ok D ?m0"
    using ok task_ok_same [of ?m0 m D]
    by (auto simp: zm_ok_def pending_ok_def tree_ok_def timers_ok_def)
  then have inv: "zm_inv None D ?m0" by (simp add: zm_inv_def zm_live_def)
  have "run_zones D now (d_tree_iter D (zm_loaded_arc m)) ?m0 = (res, m')"
    using assms(4) by (simp add: run_start_def)
  from run_zones_post [OF assms(3) inv _ this] show ?thesis
    using assms(2) keeps_trans [OF keeps_same [of ?m0 m]] by (auto simp: tree_iter_ok_def)
qed

section \<open>All steps\<close>

lemma event_post:
  assumes "zm_inv x D m" "zm_events m = e # es" "\<forall>zid. e \<noteq> ZoneAdded zid"
    "on_event D now e (m\<lparr>zm_events := es\<rparr>) = (res, m')"
  shows "res = Ok () \<and> zm_inv x D m' \<and> keeps_sets m m'"
proof -
  let ?m0 = "m\<lparr>zm_events := es\<rparr>"
  have k0: "keeps_sets m ?m0" by (rule keeps_same) simp_all
  show ?thesis
  proof (cases e)
    case (ZoneRefreshRequested cause zid at)
    then show ?thesis using inv_event_request [of x D m cause zid at es] assms(1,2,4)
      by (auto intro: keeps_same)
  next
    case (ZoneStatusRequested zid tx)
    have inv0: "zm_inv x D ?m0" using inv_event_other [OF assms(1,2)] ZoneStatusRequested by simp
    have "quiet ?m0 (on_zone_status_requested D now zid tx ?m0)"
      by (auto simp: on_zone_status_requested_def Let_def quiet_def tracking_def
          intro: heap_grows_same split: option.split)
    then show ?thesis using zm_inv_quiet [OF inv0] assms(4) ZoneStatusRequested
        keeps_trans [OF k0 keeps_quiet] by auto
  next
    case (ZoneChanged msg)
    have inv0: "zm_inv x D ?m0" using inv_event_other [OF assms(1,2)] ZoneChanged by simp
    have ok0: "zm_ok D ?m0" using inv0 by (simp add: zm_inv_def)
    have m': "res = Ok ()" "m' = on_zone_changed msg ?m0" using assms(4) ZoneChanged by auto
    have g: "heap_grows ?m0 m'" by (rule heap_grows_same) (simp add: m' on_zone_changed_def)
    have "zm_ok D m'"
      using ok0 by (intro zm_ok_lists [OF ok0]) (auto simp: m' on_zone_changed_def zm_ok_def)
    moreover have "has_token D ?m0 z \<Longrightarrow> has_token D m' z" for z
      by (rule has_token_mono [OF _ ok0 g]) (auto simp: m' on_zone_changed_def)
    then have "zm_live x D m'" using inv0 expired_grows [OF _ g]
      by (auto simp: zm_inv_def zm_live_def m' on_zone_changed_def)
    moreover have "keeps_sets m m'" by (rule keeps_same) (simp_all add: m' on_zone_changed_def)
    ultimately show ?thesis using m'(1) by (simp add: zm_inv_def)
  qed (use assms(3) in simp)
qed

lemma zone_added_popped:
  "zm_inv x D m \<Longrightarrow> zm_events m = ZoneAdded zid # es \<Longrightarrow>
   zm_inv x D (m\<lparr>zm_events := es\<rparr>) \<and> keeps_sets m (m\<lparr>zm_events := es\<rparr>)"
  using inv_event_other [of x D m "ZoneAdded zid" es] by (auto intro: keeps_same)

lemma task_removed:
  assumes "zm_inv x D m" "zm_tasks m = a @ t # b"
    and "\<And>zid. tracking m zid \<noteq> None \<Longrightarrow> \<not> task_for D m zid t"
  shows "zm_inv x D (m\<lparr>zm_tasks := a @ b\<rparr>)"
  using inv_replace_task [OF assms(1,2), of "[]"] assms(3) by simp

lemma task_in:
  "zm_inv x D m \<Longrightarrow> zm_tasks m = a @ t # b \<Longrightarrow> task_ok D m t"
  by (simp add: zm_inv_def zm_ok_def)

lemma timer_task_dropped:
  assumes "zm_inv x D m" "zm_tasks m = a @ zm_task.TimerTask info zones # b"
    "start_timer_task D info zones m = None"
  shows "zm_inv x D (m\<lparr>zm_tasks := a @ b\<rparr>)"
proof (rule task_removed [OF assms(1,2)])
  fix zid assume "tracking m zid \<noteq> None"
  then show "\<not> task_for D m zid (zm_task.TimerTask info zones)"
    using start_timer_task_None [OF _ assms(3)] assms(1) by (auto simp: zm_inv_def)
qed

lemma timer_task_refresh:
  assumes "zm_inv x D m" "zm_tasks m = a @ zm_task.TimerTask info zones # b"
    "start_timer_task D info zones m = Some job"
  shows "zm_inv x D (m\<lparr>zm_tasks := a @ RefreshTask job # b\<rparr>)"
proof -
  have "zm_ok D m" "tree_ok D m zones" using assms(1) task_in [OF assms(1,2)] by (auto simp: zm_inv_def)
  note j = start_timer_task_job [OF this assms(3)]
  show ?thesis using inv_replace_task [OF assms(1,2), of "[RefreshTask job]"] j by simp
qed

lemma refresh_done:
  assumes inv: "zm_inv x D m" and ne: "rrsets_nonempty D" and tk: "zm_tasks m = a @ RefreshTask job # b"
    and out: "refresh_finish D env job (m\<lparr>zm_tasks := a @ b\<rparr>) = (res, m')"
  shows "res \<noteq> Panic \<and> zm_inv x D m' \<and> keeps_sets m m'"
proof -
  let ?m0 = "m\<lparr>zm_tasks := a @ b\<rparr>"
  let ?zid = "zone_id_at m (rj_zone job)"
  have ok: "zm_ok D m" and live: "zm_live x D m" using inv by (simp_all add: zm_inv_def)
  have job: "task_ok D ?m0 (RefreshTask job)" using task_in [OF inv tk] by simp
  note f = refresh_finish_post [OF ne job out]
  then have q: "quiet ?m0 m'" by blast
  have ok0: "zm_ok D ?m0" using ok tk by (intro zm_ok_lists [OF ok]) (auto simp: zm_ok_def)
  have g0: "heap_grows ?m0 m'" using q by (simp add: quiet_def)
  have "has_token D m' z \<or> expired_zone m' z" if "tracking m' z \<noteq> None" "Some z \<noteq> x" for z
  proof (cases "z = ?zid")
    case True
    then show ?thesis using f that quiet_tracking [OF q, of z] by (auto simp: has_token_def)
  next
    case False
    have tr: "tracking m z \<noteq> None" using that quiet_tracking [OF q, of z] by simp
    have "has_token D m z \<Longrightarrow> has_token D ?m0 z"
      using False tk task_for_same [of ?m0 m D z] by (auto simp: has_token_def)
    moreover have "has_token D ?m0 z \<Longrightarrow> has_token D m' z"
      using q by (intro has_token_mono [OF _ ok0 g0]) (auto simp: quiet_def)
    moreover have "expired_zone m z \<Longrightarrow> expired_zone m' z"
      using expired_grows [OF _ g0] expired_same [of ?m0 m] by simp
    ultimately show ?thesis using live tr that(2) by (auto simp: zm_live_def)
  qed
  then show ?thesis
    using zm_ok_quiet [OF ok0 q] f keeps_trans [OF keeps_same [of ?m0 m] keeps_quiet [OF q]]
    by (simp add: zm_inv_def zm_live_def)
qed

lemma keeps_tasks: "quiet (m\<lparr>zm_tasks := ts\<rparr>) m' \<Longrightarrow> keeps_sets m m'"
  using keeps_trans [OF keeps_same [of "m\<lparr>zm_tasks := ts\<rparr>" m] keeps_quiet] by simp

lemma notify_task_done:
  assumes "zm_inv x D m" "zm_tasks m = a @ zm_task.NotifyTask msg zones # b"
    "start_notify_task D msg zones (m\<lparr>zm_tasks := a @ b\<rparr>) = (res, m')"
  shows "zm_inv x D m' \<and> keeps_sets m m'"
  using zm_inv_quiet [OF task_removed [OF assms(1,2)] start_notify_quiet [OF assms(3)]]
    keeps_tasks [OF start_notify_quiet [OF assms(3)]] by simp

text \<open>The list of tasks plays no role in the first piece of a NOTIFY.\<close>

lemma notify_task_refresh:
  assumes inv: "zm_inv x D m" and tk: "zm_tasks m = a @ zm_task.NotifyTask msg zones # b"
    and out: "start_notify_task D msg zones (m\<lparr>zm_tasks := a @ b\<rparr>) = (Ok (Some job), m')"
  shows "zm_inv x D (m'\<lparr>zm_tasks := a @ RefreshTask job # b\<rparr>) \<and>
    keeps_sets m (m'\<lparr>zm_tasks := a @ RefreshTask job # b\<rparr>)"
proof -
  let ?m0 = "m\<lparr>zm_tasks := a @ b\<rparr>" and ?m2 = "m'\<lparr>zm_tasks := a @ RefreshTask job # b\<rparr>"
  have q: "quiet ?m0 m'" by (rule start_notify_quiet [OF out])
  have inv0: "zm_inv x D ?m0" using task_removed [OF inv tk] by simp
  have inv': "zm_inv x D m'" by (rule zm_inv_quiet [OF inv0 q])
  have ok': "zm_ok D m'" using inv' by (simp add: zm_inv_def)
  have tree: "tree_ok D ?m0 zones"
    using task_in [OF inv tk] task_ok_same [of ?m0 m D] by (simp add: tree_ok_def)
  have job: "task_ok D m' (RefreshTask job)"
    using start_notify_job [OF out _ tree] inv0 by (simp add: zm_inv_def)
  have ts: "zm_tasks m' = a @ b" using q by (simp add: quiet_def)
  have "zm_ok D ?m2"
    using ok' job ts by (intro zm_ok_lists [OF ok']) (auto simp: zm_ok_def simp del: task_ok.simps)
  moreover have g2: "heap_grows m' ?m2" by (rule heap_grows_same) simp
  have "has_token D m' z \<Longrightarrow> has_token D ?m2 z" for z
    using ts by (intro has_token_mono [OF _ ok' g2]) auto
  then have "zm_live x D ?m2"
    using inv' expired_grows [OF _ g2] by (auto simp: zm_inv_def zm_live_def)
  ultimately show ?thesis
    using keeps_trans [OF keeps_tasks [OF q] keeps_same] by (simp add: zm_inv_def)
qed

lemma begin_post:
  "zm_inv x D m1 \<Longrightarrow> keeps_sets m m1 \<Longrightarrow> zm_inv x D (refresh_begin now job m1)
     \<and> keeps_sets m (refresh_begin now job m1)"
  using zm_inv_quiet [OF _ quiet_begin] keeps_trans [OF _ keeps_quiet [OF quiet_begin]] by blast

lemma notify_zone_changed_state:
  "notify_zone_changed D class apex serial source m = (res, m') \<Longrightarrow> quiet m m'"
  using quiet_send_event [of m]
  by (auto simp: notify_zone_changed_def Let_def split: if_splits option.splits outcome.splits)

lemma quiet_post: "zm_inv x D m \<Longrightarrow> quiet m m' \<Longrightarrow> zm_inv x D m' \<and> keeps_sets m m'"
  using zm_inv_quiet keeps_quiet by blast

lemma op_post:
  assumes "zm_op D rd m m'" "zm_inv x D m" "rrsets_nonempty D"
  shows "zm_inv x D m' \<and> keeps_sets m m'"
  using assms
proof (induction rule: zm_op.induct)
  case Notify
  then show ?case by (intro quiet_post notify_zone_changed_state)
next
  case Force
  then show ?case unfolding force_zone_refresh_def by (intro quiet_post quiet_send_event)
next
  case Status
  then show ?case unfolding zone_status_def by (intro quiet_post quiet_send_event)
next
  case Write
  then show ?case by (intro quiet_post quiet_write)
next
  case TimerTask
  then show ?case using timer_task_dropped by (auto intro: keeps_same)
next
  case TimerRefresh
  then show ?case using timer_task_refresh by (intro begin_post) (auto intro: keeps_same)
next
  case (NotifyTask m a msg zones b res m')
  then show ?case by (intro notify_task_done)
next
  case (NotifyRefresh m a msg zones b job m' now)
  from notify_task_refresh [OF NotifyRefresh(4,1,3)] show ?case by (intro begin_post) simp_all
next
  case Refresh
  then show ?case using refresh_done by blast
qed

text \<open>The invariant of an orderly run.\<close>

definition zw_inv :: "'t domain_api \<Rightarrow> 't zm_world \<Rightarrow> bool" where
  "zw_inv D w \<longleftrightarrow> zm_inv (adding (zw_loop w)) D (zw_state w) \<and> loop_fits (zw_loop w) (zw_state w)
     \<and> (\<forall>c \<in> set (zw_calls w). loop_ok D (zw_state w) (ic_new_zones c))"

lemma zw_inv_move:
  assumes "zw_inv D w" "zm_inv (adding l) D m'" "keeps_sets (zw_state w) m'" "loop_fits l m'"
  shows "zw_inv D (w\<lparr>zw_state := m', zw_loop := l\<rparr>)"
  using assms loop_ok_keeps [OF _ _ assms(3)] by (auto simp: zw_inv_def zm_inv_def)

lemma zw_inv_op:
  assumes "zw_inv D w" "zm_inv (adding (zw_loop w)) D m'" "keeps_sets (zw_state w) m'"
  shows "zw_inv D (w\<lparr>zw_state := m'\<rparr>)"
  using assms loop_ok_keeps [OF _ _ assms(3)] loop_fits_keeps [OF _ assms(3)]
  by (auto simp: zw_inv_def zm_inv_def)

lemma one_call: "orderly D w \<Longrightarrow> zw_calls w = a @ c # b \<Longrightarrow>
    a = [] \<and> b = [] \<and> clones (zw_loop w) = 0 \<and> fresh_zones D (ic_zones c) (ic_new_zones c) (zw_state w)"
  by (simp add: orderly_def)

lemma insert_step_post:
  assumes inv: "zw_inv D w" and ord: "orderly D w" and zt: "zone_tree_ok D" and ne: "rrsets_nonempty D"
    and c: "zw_calls w = a @ \<lparr>ic_zones = z # zs, ic_new_zones = t\<rparr> # b"
    and l: "insert_zones_loop D [z] t (zw_state w) = (res, m')"
  shows "zw_inv D (w\<lparr>zw_state := m', zw_calls := a @ (case res of
      Ok t' \<Rightarrow> [\<lparr>ic_zones = zs, ic_new_zones = t'\<rparr>] | _ \<Rightarrow> []) @ b\<rparr>)"
proof -
  note one = one_call [OF ord c]
  have lo: "loop_ok D (zw_state w) t" using inv c by (simp add: zw_inv_def)
  have "fresh_zones D [z] t (zw_state w)" using one by (simp add: fresh_zones_def)
  from insert_loop_post [OF zt ne lo this l]
  obtain t' where t': "res = Ok t'" "loop_ok D m' t'" and i: "inserting (zw_state w) m'" by blast
  have "zm_inv (adding (zw_loop w)) D m'"
    using insert_round_post [OF _ lo i] inv t'(2) by (simp add: zw_inv_def loop_ok_def)
  moreover have "loop_fits (zw_loop w) m'"
    using inv i one by (cases "zw_loop w") (auto simp: zw_inv_def inserting_def)
  ultimately show ?thesis using one t' by (simp add: zw_inv_def)
qed

lemma zm_step_inv:
  assumes "zm_step D w w'" "zw_inv D w" "orderly D w"
    "zone_tree_ok D" "tree_iter_ok D" "rrsets_nonempty D"
  shows "zw_inv D w'"
  using assms
proof (induction rule: zm_step.induct)
  case (StartRun w now res m')
  have "zm_inv None D (zw_state w)" using StartRun by (simp add: zw_inv_def)
  from run_start_post [OF this StartRun.prems(4,5) StartRun.hyps(2)]
  show ?case using zw_inv_move [OF StartRun.prems(1), of Idle] by simp
next
  case (InsertBegin w zones)
  have "zm_ok D (zw_state w)" using InsertBegin by (simp add: zw_inv_def zm_inv_def)
  then have "loop_ok D (zw_state w) (zm_loaded_arc (zw_state w))"
    by (auto simp: loop_ok_def zm_ok_def tree_ok_def)
  then show ?case using InsertBegin by (simp add: zw_inv_def)
next
  case (InsertZone w a z zs t b res m')
  then show ?case by (intro insert_step_post)
next
  case (InsertEnd w a t b)
  note one = one_call [OF InsertEnd.prems(2) InsertEnd.hyps]
  have "loop_ok D (zw_state w) t" using InsertEnd by (simp add: zw_inv_def)
  then have "zm_inv (adding (zw_loop w)) D ((zw_state w)\<lparr>zm_member_zones := t, zm_loaded_arc := t\<rparr>)"
    using insert_store_post InsertEnd.prems(1) by (auto simp: zw_inv_def)
  moreover have "loop_fits (zw_loop w) ((zw_state w)\<lparr>zm_member_zones := t, zm_loaded_arc := t\<rparr>)"
    using InsertEnd.prems(1) one by (cases "zw_loop w") (auto simp: zw_inv_def)
  ultimately show ?case using one by (simp add: zw_inv_def)
next
  case (AddBegin w zid es now l m')
  let ?m = "(zw_state w)\<lparr>zm_events := es\<rparr>"
  have "zm_inv None D (zw_state w)" using AddBegin by (simp add: zw_inv_def)
  note p = zone_added_popped [OF this AddBegin.hyps(2)]
  note b = add_begin_post [OF p [THEN conjunct1] AddBegin.prems(5) AddBegin.hyps(4)]
  then show ?case using zw_inv_move [OF AddBegin.prems(1)] keeps_trans p by blast
next
  case (AddClone w zid r refresh l m')
  have "zm_inv (Some zid) D (zw_state w)" "hm_get (zm_pending_zones (zw_state w)) zid = Some r"
    using AddClone by (simp_all add: zw_inv_def)
  note p = add_clone_post [OF this(1) AddClone.prems(5) this(2) AddClone.hyps(2)]
  then show ?case using zw_inv_move [OF AddClone.prems(1), of l m'] by auto
next
  case (AddStore w zid r refresh t now l m')
  have "zm_inv (Some zid) D (zw_state w)" "hm_get (zm_pending_zones (zw_state w)) zid = Some r"
    "t = zm_loaded_arc (zw_state w)" "zw_calls w = []"
    using AddStore by (simp_all add: zw_inv_def orderly_def)
  note p = add_store_post [OF this(1) AddStore.prems(3) this(2) AddStore.hyps(2) [unfolded this(3)]] this(4)
  then show ?case by (simp add: zw_inv_def)
next
  case (Event w e es now res m')
  have "zm_inv None D (zw_state w)" using Event by (simp add: zw_inv_def)
  from event_post [OF this Event.hyps(2,3,4)]
  show ?case using zw_inv_move [OF Event.prems(1), of Idle] by simp
next
  case (Timer w ts t ts' now info)
  have "zm_inv (adding (zw_loop w)) D (zw_state w)" using Timer by (simp add: zw_inv_def)
  from inv_timer [OF this Timer.hyps(3,4)] show ?case
    by (intro zw_inv_op [OF Timer.prems(1)]) (auto simp: on_refresh_timer_def intro: keeps_same)
next
  case (Op w m')
  have "zm_inv (adding (zw_loop w)) D (zw_state w)" using Op by (simp add: zw_inv_def)
  from op_post [OF Op.hyps this Op.prems(5)] show ?case by (intro zw_inv_op [OF Op.prems(1)]) simp_all
qed

lemma orderly_inv:
  assumes "zm_orderly D w" "zone_tree_ok D" "tree_iter_ok D" "rrsets_nonempty D"
  shows "zw_inv D w \<and> orderly D w"
  using assms
proof (induction rule: zm_orderly.induct)
  case New
  then show ?case
    by (auto simp: zw_inv_def zm_world_new_def orderly_def zm_inv_def zm_ok_def zm_live_def
        ZoneMaintainer_new_def timers_ok_def pending_ok_def tree_ok_def tracking_def zone_tree_ok_def)
next
  case Step
  then show ?case using zm_step_inv by blast
qed

section \<open>Any run at all\<close>

lemma grows_known_ns: "heap_grows m (snd (update_known_nameservers_for_zone D r m))"
  by (rule grows_quiet [OF quiet_update_ns])

lemma grows_track: "heap_grows m (snd (track_zone_freshness D now r m))"
  by (auto simp: track_zone_freshness_def split: option.split outcome.split)

lemma grows_insert_loop: "heap_grows m0 m \<Longrightarrow> heap_grows m0 (snd (insert_zones_loop D zones t m))"
proof (induction zones arbitrary: t m)
  case (Cons z zones)
  obtain r m1 where w: "wrap_zone z m = (r, m1)" by fastforce
  have g1: "heap_grows m0 m1" using heap_grows_trans [OF Cons.prems heap_grows_wrap [OF w]] .
  have p: "heap_grows m0 (m1\<lparr>zm_pending_zones := p\<rparr>)" for p
    using heap_grows_trans [OF g1 heap_grows_same] by simp
  show ?case
  proof (cases "is_secondary (tz_zone_type z)")
    case True
    then show ?thesis using Cons.IH p by (simp add: w Let_def)
  next
    case False
    have "heap_grows m0 (snd (and_then (update_known_nameservers_for_zone D r m1) (\<lambda>_ m2.
        case d_tree_insert D (tz_apex_name z) (tz_class z) r t of
          Inl e \<Rightarrow> (Err e, m2)
        | Inr t' \<Rightarrow> insert_zones_loop D zones t' (send_event (ZoneAdded (zone_id_at m1 r)) m2))))"
      using heap_grows_trans [OF g1 grows_known_ns] Cons.IH
      by (intro grows_and_then) (auto split: sum.split)
    then show ?thesis using False by (simp add: w Let_def)
  qed
qed simp

lemma grows_run_zones: "heap_grows m0 m \<Longrightarrow> heap_grows m0 (snd (run_zones D now rs m))"
proof (induction rs arbitrary: m)
  case (Cons r rs)
  let ?m1 = "if sdc_is_empty (zc_send_notify_to (config_at m r)) then m
    else send_notify D r (zc_send_notify_to (config_at m r)) m"
  have g1: "heap_grows m0 ?m1"
    using Cons.prems heap_grows_trans [OF Cons.prems grows_quiet [OF quiet_send_notify]] by simp
  obtain tr m2 where tr: "track_zone_freshness D now r ?m1 = (tr, m2)" by fastforce
  then have g2: "heap_grows m0 m2" using heap_grows_trans [OF g1 grows_track] by (metis snd_conv)
  have "heap_grows m0 (refresh_zone_at now c k a m2)" for c k a
    using heap_grows_trans [OF g2 heap_grows_same] by simp
  then show ?case using Cons.IH g1 g2 tr by (auto simp: Let_def split: outcome.split)
qed simp

lemma grows_event:
  assumes "\<forall>zid. e \<noteq> ZoneAdded zid"
  shows "heap_grows m (snd (on_event D now e m))"
  using assms by (cases e) (auto simp: on_zone_changed_def on_zone_status_requested_def Let_def
      intro: heap_grows_same split: option.split)

lemma op_grows: "zm_op D rd m m' \<Longrightarrow> heap_grows m m'"
proof (induction rule: zm_op.induct)
  case Notify
  then show ?case by (intro grows_quiet notify_zone_changed_state)
next
  case Write
  then show ?case by (intro grows_quiet quiet_write)
next
  case (TimerRefresh m a info zones b job now)
  have "heap_grows m (m\<lparr>zm_tasks := a @ RefreshTask job # b\<rparr>)" by (rule heap_grows_same) simp
  then show ?case using heap_grows_trans grows_quiet [OF quiet_begin] by blast
next
  case (NotifyTask m a msg zones b res m')
  show ?case using keeps_tasks [OF start_notify_quiet [OF NotifyTask(3)]] by (simp add: keeps_sets_def)
next
  case (NotifyRefresh m a msg zones b job m' now)
  have "heap_grows m m'"
    using keeps_tasks [OF start_notify_quiet [OF NotifyRefresh(3)]] by (simp add: keeps_sets_def)
  moreover have "heap_grows m' (m'\<lparr>zm_tasks := a @ RefreshTask job # b\<rparr>)" by (rule heap_grows_same) simp
  ultimately show ?case using heap_grows_trans grows_quiet [OF quiet_begin] by blast
next
  case (Refresh m a job b env res m')
  have "heap_grows m (m\<lparr>zm_tasks := a @ b\<rparr>)" by (rule heap_grows_same) simp
  then show ?case using heap_grows_trans grows_finish Refresh(2) by (metis snd_conv)
qed (simp_all add: force_zone_refresh_def zone_status_def heap_grows_same)

lemma add_grows:
  "add_begin D now zid m = (l, m') \<Longrightarrow> heap_grows m m'"
  "add_clone D zid r refresh m = (l, m') \<Longrightarrow> heap_grows m m'"
  "add_store D now zid r refresh t m = (l, m') \<Longrightarrow> heap_grows m m'"
proof -
  have r: "heap_grows m (refresh_zone_at now c k a m1) = heap_grows m m1" for c k a m1
    by (simp add: heap_grows_def zone_at_def)
  show "add_begin D now zid m = (l, m') \<Longrightarrow> heap_grows m m'"
    using grows_track [of m D now] by (auto simp: add_begin_def r split: option.splits outcome.splits prod.splits)
      (metis snd_conv)+
  show "add_clone D zid r refresh m = (l, m') \<Longrightarrow> heap_grows m m'"
    using grows_known_ns [of m D r] by (auto simp: add_clone_def split: outcome.splits prod.splits)
  show "add_store D now zid r refresh t m = (l, m') \<Longrightarrow> heap_grows m m'"
    by (auto simp: add_store_def Let_def r intro: heap_grows_same split: sum.splits)
qed

lemma step_grows: "zm_step D w w' \<Longrightarrow> heap_grows (zw_state w) (zw_state w')"
proof (induction rule: zm_step.induct)
  case (StartRun w now res m')
  let ?m0 = "(zw_state w)\<lparr>zm_running := True, zm_time_tracking := [], zm_timers := []\<rparr>"
  have "heap_grows (zw_state w) ?m0" by (rule heap_grows_same) simp
  from grows_run_zones [OF this, where D = D and now = now and rs = "d_tree_iter D (zm_loaded_arc (zw_state w))"]
  show ?case using StartRun by (simp add: run_start_def)
next
  case (InsertZone w a z zs t b res m')
  then have "m' = snd (insert_zones_loop D [z] t (zw_state w))" by simp
  then show ?case using grows_insert_loop [OF grows_refl] by (simp del: insert_zones_loop.simps)
next
  case (AddBegin w zid es now l m')
  have "heap_grows (zw_state w) ((zw_state w)\<lparr>zm_events := es\<rparr>)" by (rule heap_grows_same) simp
  from heap_grows_trans [OF this add_grows(1) [OF AddBegin(4)]] show ?case by simp
next
  case (Event w e es now res m')
  have "heap_grows (zw_state w) ((zw_state w)\<lparr>zm_events := es\<rparr>)" by (rule heap_grows_same) simp
  moreover have "m' = snd (on_event D now e ((zw_state w)\<lparr>zm_events := es\<rparr>))" using Event(4) by simp
  ultimately show ?case using heap_grows_trans [OF _ grows_event [OF Event(3)]] by simp
qed (auto simp: on_refresh_timer_def heap_grows_same op_grows add_grows)

lemma steps_grow: "zm_steps D w w' \<Longrightarrow> heap_grows (zw_state w) (zw_state w')"
  by (induction rule: zm_steps.induct) (auto intro: heap_grows_trans step_grows)

end
