(* ===== verification/Maintainer_Claims.thy ===== *)
theory Maintainer_Claims
  imports Maintainer_Run
begin

text \<open>
  The properties of the zone maintainer, over whole runs and over single operations.
\<close>

section \<open>A concrete run\<close>

definition demo_typed :: "ZoneConfig \<Rightarrow> token \<Rightarrow> TypedZone" where
  "demo_typed cfg st = \<lparr>tz_apex_name = ''example'', tz_class = 1, tz_store = st, tz_zone_type = cfg\<rparr>"

text \<open>A secondary zone is inserted, \<open>run\<close> starts, and its loop handles the event: a zone without
  contents stays pending, one with a SOA record is to become active.\<close>

abbreviation demo_at :: "demo_tree ZoneMaintainer \<Rightarrow> demo_tree loop_state \<Rightarrow> demo_tree zm_world" where
  "demo_at m l \<equiv> \<lparr>zw_state = m, zw_calls = [], zw_loop = l\<rparr>"

definition demo_inserted :: "token \<Rightarrow> demo_tree ZoneMaintainer" where
  "demo_inserted st = (ZoneMaintainer_new demo_api)\<lparr>zm_heap := [demo_zone demo_config st],
     zm_pending_zones := [(demo_id, 0)], zm_events := [ZoneAdded demo_id]\<rparr>"

definition demo_started :: "token \<Rightarrow> demo_tree ZoneMaintainer" where
  "demo_started st = (demo_inserted st)\<lparr>zm_running := True\<rparr>"

definition demo_tracked :: "demo_tree ZoneMaintainer" where
  "demo_tracked = (demo_started 0)\<lparr>zm_events := [],
     zm_time_tracking := [(demo_id, ZoneRefreshState_default 5)],
     zm_timers := [ZoneRefreshTimer_new (ZoneRefreshInstant_new 5 demo_id 0 SoaRefreshTimerAfterZoneAdded)]\<rparr>"

lemma demo_insert: "insert_zones_loop demo_api [demo_typed demo_config st] [] (ZoneMaintainer_new demo_api) =
    (Ok [], demo_inserted st)"
  by (simp add: wrap_zone_def demo_typed_def demo_inserted_def ZoneMaintainer_new_def
      demo_zone_def zone_id_at_def zone_at_def mz_id_def demo_id_def ZoneId_new_def send_event_def
      hm_insert_def Let_def)

lemma demo_new_simps [simp]:
  "zm_loaded_arc (ZoneMaintainer_new demo_api) = []" "zm_member_zones (ZoneMaintainer_new demo_api) = []"
  "zm_pending_zones (ZoneMaintainer_new demo_api) = []" "zm_tasks (ZoneMaintainer_new demo_api) = []"
  "zm_events (ZoneMaintainer_new demo_api) = []" "zm_timers (ZoneMaintainer_new demo_api) = []"
  "zm_time_tracking (ZoneMaintainer_new demo_api) = []" "zm_heap (ZoneMaintainer_new demo_api) = []"
  by (simp_all add: ZoneMaintainer_new_def demo_api_def)

lemma demo_get: "d_tree_get demo_api t n c = hm_get t (n, c)"
  by (simp add: demo_api_def)

lemma demo_inserted_orderly: "zm_orderly demo_api (demo_at (demo_inserted st) NotStarted)"
proof -
  let ?z = "demo_typed demo_config st" and ?new = "ZoneMaintainer_new demo_api"
  have r: "zm_orderly demo_api (demo_at ?new NotStarted)"
    using zm_orderly.New [of demo_api] by (simp add: zm_world_new_def)
  have "zm_orderly demo_api \<lparr>zw_state = ?new, zw_calls = [\<lparr>ic_zones = [?z], ic_new_zones = []\<rparr>],
      zw_loop = NotStarted\<rparr>"
    using zm_orderly.Step [OF r zm_step.InsertBegin [of demo_api _ "[?z]"]]
    by (simp add: orderly_def fresh_zones_def demo_get)
  from zm_orderly.Step [OF this zm_step.InsertZone [of _ "[]" ?z "[]" "[]" "[]" demo_api "Ok []" "demo_inserted st"]]
  have "zm_orderly demo_api \<lparr>zw_state = demo_inserted st, zw_calls = [\<lparr>ic_zones = [], ic_new_zones = []\<rparr>],
      zw_loop = NotStarted\<rparr>"
    using demo_insert [of st]
    by (simp add: orderly_def fresh_zones_def pending_writable_def pending_readable_def)
  from zm_orderly.Step [OF this zm_step.InsertEnd [of _ "[]" "[]" "[]"]]
  show ?thesis by (simp add: orderly_def demo_inserted_def ZoneMaintainer_new_def demo_api_def)
qed

lemma demo_started_orderly: "zm_orderly demo_api (demo_at (demo_started st) Idle)"
proof -
  have "run_start demo_api 1 (demo_inserted st) = (Ok (), demo_started st)"
    by (simp add: run_start_def demo_inserted_def demo_started_def demo_api_def demo_iter_def
        ZoneMaintainer_new_def)
  then have "zm_step demo_api (demo_at (demo_inserted st) NotStarted) (demo_at (demo_started st) Idle)"
    using zm_step.StartRun [of "demo_at (demo_inserted st) NotStarted" demo_api 1] by simp
  from zm_orderly.Step [OF demo_inserted_orderly this] show ?thesis by (simp add: orderly_def)
qed

lemma demo_started_simps [simp]:
  "zm_pending_zones (demo_started st) = [(demo_id, 0)]" "zm_events (demo_started st) = [ZoneAdded demo_id]"
  "zm_tasks (demo_started st) = []" "zm_timers (demo_started st) = []" "zm_loaded_arc (demo_started st) = []"
  "zm_time_tracking (demo_started st) = []" "zone_at (demo_started st) 0 = demo_zone demo_config st"
  "zone_id_at (demo_started st) 0 = demo_id" "config_at (demo_started st) 0 = demo_config"
  "tracking (demo_started st) zid = None"
  by (simp_all add: demo_started_def demo_inserted_def zone_at_def zone_id_at_def config_at_def
      demo_zone_def demo_id_def mz_id_def ZoneId_new_def tracking_def)

lemma demo_read_soa: "read_soa demo_api st n =
    Ok (if st = 0 then None else Some (demo_soa st, 60))"
  by (simp add: read_soa_def demo_api_def demo_query_def)

lemma demo_tracked_orderly: "zm_orderly demo_api (demo_at demo_tracked Idle)"
proof -
  have b: "add_begin demo_api 5 demo_id ((demo_started 0)\<lparr>zm_events := []\<rparr>) = (Idle, demo_tracked)"
    by (simp add: add_begin_def track_zone_freshness_def demo_read_soa demo_zone_def set_tracking_def
        hm_insert_def refresh_zone_at_def demo_tracked_def)
  from zm_orderly.Step [OF demo_started_orderly [of 0] zm_step.AddBegin [where es = "[]" and zid = demo_id and now = 5
      and l = Idle and m' = demo_tracked]]
  show ?thesis using b by (simp add: orderly_def pending_writable_def pending_readable_def)
qed

lemma demo_tracked_at [simp]: "tracking demo_tracked demo_id = Some (ZoneRefreshState_default 5)"
  by (simp add: demo_tracked_def tracking_def)

section \<open>Properties\<close>

text \<open>C3: as long as the zones that are inserted are new and no two updates of the set of zones
  overlap, in every state that can be reached no zone has two timers, a zone is pending or active
  but not both, pending zones are secondary, no insertion fails, and neither the loop nor a refresh
  panics: the loop has not ended and handles its next event, and finishing any started refresh
  succeeds or fails without a panic, whatever the network does.\<close>

theorem maintainer_invariant:
  assumes "zone_tree_ok D" "tree_iter_ok D" "rrsets_nonempty D" "zm_orderly D w" "zw_state w = m"
  shows "timers_ok (zm_timers m) \<and>
    (\<forall>zid r. hm_get (zm_pending_zones m) zid = Some r \<longrightarrow> is_secondary (config_at m r)
       \<and> d_tree_get D (zm_loaded_arc m) (zid_name zid) (zid_class zid) = None) \<and>
    (\<forall>a z zs t b. zw_calls w = a @ \<lparr>ic_zones = z # zs, ic_new_zones = t\<rparr> # b \<longrightarrow>
       (\<exists>t'. fst (insert_zones_loop D [z] t m) = Ok t')) \<and>
    zw_loop w \<noteq> LoopEnded \<and>
    (\<forall>e es now. zw_loop w = Idle \<longrightarrow> zm_events m = e # es \<longrightarrow>
       fst (on_event D now e (m\<lparr>zm_events := es\<rparr>)) = Ok ()) \<and>
    (\<forall>a job b env. zm_tasks m = a @ RefreshTask job # b \<longrightarrow>
       fst (refresh_finish D env job (m\<lparr>zm_tasks := a @ b\<rparr>)) \<noteq> Panic)"
proof (intro conjI allI impI)
  have world: "zw_inv D w" "orderly D w" using orderly_inv [OF assms(4,1,2,3)] by simp_all
  then have inv: "zm_inv (adding (zw_loop w)) D m" using assms(5) by (simp add: zw_inv_def)
  then have ok: "zm_ok D m" by (simp add: zm_inv_def)
  show "timers_ok (zm_timers m)" using ok by (simp add: zm_ok_def)
  show "is_secondary (config_at m r)"
    "d_tree_get D (zm_loaded_arc m) (zid_name zid) (zid_class zid) = None"
    if "hm_get (zm_pending_zones m) zid = Some r" for zid r
    using ok that by (auto simp: zm_ok_def pending_ok_def)
  show "\<exists>t'. fst (insert_zones_loop D [z] t m) = Ok t'"
    if c: "zw_calls w = a @ \<lparr>ic_zones = z # zs, ic_new_zones = t\<rparr> # b" for a z zs t b
  proof -
    have "fresh_zones D [z] t m" "loop_ok D m t"
      using one_call [OF world(2) c] world(1) c assms(5) by (auto simp: fresh_zones_def zw_inv_def)
    from insert_loop_post [OF assms(1,3) this(2,1) prod.collapse [symmetric]] show ?thesis by blast
  qed
  show "zw_loop w \<noteq> LoopEnded" using world(1) by (auto simp: zw_inv_def)
  show "fst (on_event D now e (m\<lparr>zm_events := es\<rparr>)) = Ok ()"
    if "zw_loop w = Idle" "zm_events m = e # es" for e es now
  proof (cases "\<exists>zid. e = ZoneAdded zid")
    case True
    then obtain zid where e: "e = ZoneAdded zid" by blast
    have "zm_inv None D m" using inv that(1) by simp
    then have "zm_inv None D (m\<lparr>zm_events := es\<rparr>)" using zone_added_popped that(2) e by blast
    then show ?thesis using e inv_zone_added [OF _ assms(1,3)] by simp
  next
    case False
    then show ?thesis using event_post [OF inv that(2) _ prod.collapse [symmetric]] by blast
  qed
  show "fst (refresh_finish D env job (m\<lparr>zm_tasks := a @ b\<rparr>)) \<noteq> Panic"
    if "zm_tasks m = a @ RefreshTask job # b" for a job b env
    using refresh_done [OF inv assms(3) that prod.collapse [symmetric]] by blast
qed

theorem maintainer_invariant_witness:
  "is_secondary (config_at demo_tracked 0)"
proof -
  have "hm_get (zm_pending_zones demo_tracked) demo_id = Some 0"
    by (simp add: demo_tracked_def)
  then show ?thesis
    using maintainer_invariant [OF _ _ _ demo_tracked_orderly refl] by simp
qed

text \<open>C5: no zone is forgotten: as long as the zones that are inserted are new and no two updates of
  the set of zones overlap, in every state that can be reached each tracked zone has expired, or is
  about to be made active and given a timer by the loop, or has a timer, a queued request to refresh
  it, a fired timer whose task will find the zone, or a refresh that has started.\<close>

theorem no_zone_forgotten:
  assumes "zone_tree_ok D" "tree_iter_ok D" "rrsets_nonempty D" "zm_orderly D w" "zw_state w = m"
    and "tracking m zid \<noteq> None"
  shows "timer_deadline (zm_timers m) zid \<noteq> None
    \<or> (\<exists>cause at. ZoneRefreshRequested cause zid at \<in> set (zm_events m))
    \<or> (\<exists>info zones. zm_task.TimerTask info zones \<in> set (zm_tasks m) \<and> zri_zone_id info = zid
         \<and> start_timer_task D info zones m \<noteq> None)
    \<or> (\<exists>job. RefreshTask job \<in> set (zm_tasks m) \<and> zone_id_at m (rj_zone job) = zid)
    \<or> adding (zw_loop w) = Some zid
    \<or> (\<exists>r < length (zm_heap m). zone_id_at m r = zid \<and> \<not> is_active (zone_at m r))"
proof -
  have inv: "zm_ok D m" "zm_live (adding (zw_loop w)) D m"
    using orderly_inv [OF assms(4,1,2,3)] assms(5) by (simp_all add: zw_inv_def zm_inv_def)
  then consider (t) "timer_deadline (zm_timers m) zid \<noteq> None"
    | (e) ev where "ev \<in> set (zm_events m)" "event_for zid ev"
    | (k) u where "u \<in> set (zm_tasks m)" "task_for D m zid u"
    | (l) "adding (zw_loop w) = Some zid"
    | (x) "expired_zone m zid"
    using assms(6) by (auto simp: zm_live_def has_token_def)
  then show ?thesis
  proof cases
    case (e ev)
    then show ?thesis by (cases ev rule: Event.exhaust) auto
  next
    case (k u)
    show ?thesis
    proof (cases u)
      case (TimerTask info zones)
      then have "start_timer_task D info zones m \<noteq> None"
        using k start_timer_task_None [OF inv(1), of info zones] assms(6) by auto
      then show ?thesis using k TimerTask by auto
    qed (use k in auto)
  qed (auto simp: expired_zone_def is_active_def)
qed

theorem no_zone_forgotten_witness: "\<exists>d. timer_deadline (zm_timers demo_tracked) demo_id = Some d"
proof -
  have "tracking demo_tracked demo_id \<noteq> None" by simp
  moreover have "zm_events demo_tracked = []" "zm_tasks demo_tracked = []" "length (zm_heap demo_tracked) = 1"
    "is_active (zone_at demo_tracked 0)"
    by (simp_all add: demo_tracked_def demo_started_def demo_inserted_def zone_at_def is_active_def demo_zone_def)
  ultimately show ?thesis
    using no_zone_forgotten [OF _ _ _ demo_tracked_orderly refl, of demo_id] by auto
qed

text \<open>C25: a zone that has expired stays so, whatever happens, orderly or not: no lookup ever returns
  it again, even after a later refresh of the zone has succeeded.\<close>

theorem expired_forever:
  assumes "r < length (zm_heap (zw_state w))" "\<not> is_active (zone_at (zw_state w) r)" "zm_steps D w w'"
  shows "\<not> is_active (zone_at (zw_state w') r) \<and> get_zone D n c (zw_state w') \<noteq> Ok (Some r)
    \<and> find_zone D n c (zw_state w') \<noteq> Ok (Some r)"
proof -
  have "\<not> is_active (zone_at (zw_state w') r)"
    using steps_grow [OF assms(3)] assms(1,2) by (auto simp: heap_grows_def keeps_zone_def is_active_def)
  then show ?thesis by (auto simp: get_zone_def find_zone_def active_zone_def split: option.split)
qed

text \<open>C23: what follows a failed refresh of a tracked zone. Only a failed retry can expire the zone,
  when the last successful check (or the creation of the zone) is further back than its SOA EXPIRE;
  then nothing is scheduled any more. Otherwise exactly one new request is queued, for a retry after
  its SOA RETRY, and the zone does not expire.\<close>

theorem failed_refresh:
  assumes "tracking m (zone_id_at m r) = Some z" "r < length (zm_heap m)"
    and "refresh_update_state now r (Err err) m = (out, m')"
  shows "out = Err () \<and>
    (if zrs_status z = RetryInProgress \<and> ttl_into_duration (zrs_expire z) < now -
        (case last_soa_serial_check_succeeded_at (zrs_metrics z) of
           Some at \<Rightarrow> at | None \<Rightarrow> zone_created_at (zrs_metrics z))
     then \<not> is_active (zone_at m' r) \<and> zm_events m' = zm_events m \<and> zm_timers m' = zm_timers m
     else is_active (zone_at m' r) = is_active (zone_at m r)
       \<and> zm_events m' = zm_events m @ [ZoneRefreshRequested SoaRetryTimer (zone_id_at m r) (Some (zrs_retry z))]
       \<and> (\<exists>z'. tracking m' (zone_id_at m r) = Some z'
            \<and> (zrs_status z \<noteq> RetryInProgress \<longrightarrow> zrs_status z' = RetryPending)))"
proof -
  define last where "last = (case last_soa_serial_check_succeeded_at (zrs_metrics z) of
      Some at \<Rightarrow> at | None \<Rightarrow> zone_created_at (zrs_metrics z))"
  have exp: "is_expired now last z \<longleftrightarrow> ttl_into_duration (zrs_expire z) < now - last"
    by (auto simp: is_expired_def checked_duration_since_def)
  have me: "\<not> is_active (zone_at (mark_expired r m) r)" "zm_events (mark_expired r m) = zm_events m"
    "zm_timers (mark_expired r m) = zm_timers m"
    using assms(2) by (simp_all add: mark_expired_def zone_at_set_zone is_active_def map_info_def set_expired_def)
      (simp_all add: set_zone_def)
  have sc: "zone_at (schedule_zone_refresh c i t m0) = zone_at m0"
    "zm_events (schedule_zone_refresh c i t m0) = zm_events m0 @ [ZoneRefreshRequested c i (Some t)]"
    "tracking (schedule_zone_refresh c i t m0) = tracking m0" for c i t and m0 :: "'a ZoneMaintainer"
    by (simp_all add: schedule_zone_refresh_def send_event_def)
  have dec: "refresh_update_state now r (Err err) m =
      (if zrs_status z = RetryInProgress
       then if is_expired now last z then (Err (), mark_expired r m)
         else (Err (), schedule_zone_refresh SoaRetryTimer (zone_id_at m r) (zrs_retry z) m)
       else (Err (), schedule_zone_refresh SoaRetryTimer (zone_id_at m r) (zrs_retry z)
         (set_tracking (zone_id_at m r) (set_status RetryPending z) m)))"
    using assms(1) by (simp add: refresh_update_state_def Let_def last_def)
  show ?thesis
    unfolding last_def [symmetric] using assms(1,3) dec exp me sc
    by (auto simp: set_status_def split: if_splits)
qed

theorem failed_refresh_witness:
  "\<not> is_active (zone_at (snd (refresh_update_state (5000 * nanos_per_sec) 0 (Err NoConnectionAvailable)
     (demo_maintainer demo_config 5 (set_status RetryInProgress (ZoneRefreshState_default 0))))) 0)"
proof -
  let ?z = "set_status RetryInProgress (ZoneRefreshState_default 0)"
  let ?m = "demo_maintainer demo_config 5 ?z"
  have "tracking ?m (zone_id_at ?m 0) = Some ?z" "0 < length (zm_heap ?m)" by simp_all
  from failed_refresh [OF this prod.collapse [symmetric], of "5000 * nanos_per_sec" NoConnectionAvailable]
  show ?thesis
    by (simp add: set_status_def ZoneRefreshState_default_def ZoneRefreshMetrics_default_def
        ttl_into_duration_def nanos_per_sec_def)
qed

text \<open>The sender is on the list of the zone, or the zone discovers its servers and it is one of
  them.\<close>

definition known_sender :: "'t domain_api \<Rightarrow> 't ZoneMaintainer \<Rightarrow> nat \<Rightarrow> ip_addr \<Rightarrow> bool" where
  "known_sender D m r source \<longleftrightarrow>
     sdc_has_dst (zc_allow_notify_from (config_at m r)) (SocketAddr_new source 53)
     \<or> zc_discover_notify_set (config_at m r)
       \<and> (\<exists>ns. known_server ns (SocketAddr_new source 53)
            \<and> (zi_nameservers (mz_info (zone_at m r)) = Some ns
               \<or> zi_nameservers (mz_info (zone_at m r)) = None \<and> identify_nameservers D (zone_at m r) = Ok ns))"

lemma known_primary_iff:
  "fst (is_known_primary D (zc_allow_notify_from (config_at m r)) source r m) = Ok True \<longleftrightarrow>
   known_sender D m r source"
  by (auto simp: is_known_primary_def known_sender_def Let_def IANA_DNS_PORT_NUMBER_def
      split: option.splits outcome.splits)

text \<open>C24: a NOTIFY starts a refresh only of a tracked zone that the message names, and only when its
  sender is a known one; the refresh then visits the sender first.\<close>

theorem notify_only_from_known:
  assumes "start_notify_task D msg zones m = (Ok (Some job), m')"
  shows "\<exists>source. zcm_source msg = Some source \<and> known_sender D m (rj_zone job) source
    \<and> rj_cause job = NotifyFromPrimary source \<and> rj_initial job = Some (SocketAddr_new source 53)
    \<and> (d_tree_get D zones (zcm_apex_name msg) (zcm_class msg) = Some (rj_zone job)
       \<or> hm_get (zm_pending_zones m) (ZoneId_new (zcm_apex_name msg) (zcm_class msg)) = Some (rj_zone job))
    \<and> tracking m' (zone_id_at m' (rj_zone job)) \<noteq> None"
  using assms unfolding start_notify_task_def Let_def
  by (auto simp: IANA_DNS_PORT_NUMBER_def known_primary_iff split: option.splits if_splits
      elim!: and_then_Ok_pairE)

definition demo_notify :: ZoneChangedMsg where
  "demo_notify = \<lparr>zcm_class = 1, zcm_apex_name = ''example'', zcm_source = Some (V4 7)\<rparr>"

definition demo_job :: refresh_job where
  "demo_job = \<lparr>rj_cause = NotifyFromPrimary (V4 7), rj_zone = 0,
     rj_initial = Some (SocketAddr_new (V4 7) 53), rj_is_pending = False\<rparr>"

lemma demo_notify_starts:
  "start_notify_task demo_api demo_notify [((''example'', 1), 0)]
     (demo_maintainer demo_config 5 (ZoneRefreshState_default 0)) =
   (Ok (Some demo_job), set_tracking demo_id (set_status NotifyInProgress (ZoneRefreshState_default 0))
     (demo_maintainer demo_config 5 (ZoneRefreshState_default 0)))"
  by (simp add: start_notify_task_def Let_def demo_notify_def demo_api_def is_known_primary_def
      sdc_has_dst_def demo_primary_def IANA_DNS_PORT_NUMBER_def demo_job_def ZoneRefreshState_default_def)

theorem notify_only_from_known_witness:
  "known_sender demo_api (demo_maintainer demo_config 5 (ZoneRefreshState_default 0)) 0 (V4 7)"
  using notify_only_from_known [OF demo_notify_starts] by (auto simp: demo_notify_def demo_job_def)

section \<open>Duplicate NOTIFY\<close>

lemma known_primary_frame:
  assumes "is_known_primary D acl source r m = (res, m1)"
  shows "tracking m1 = tracking m" "zm_pending_zones m1 = zm_pending_zones m"
    "zone_id_at m1 r = zone_id_at m r" "config_at m1 r = config_at m r"
    "known_sender D m r s \<longrightarrow> known_sender D m1 r s"
proof -
  have m1: "m1 = m \<or> (\<exists>ns. zi_nameservers (mz_info (zone_at m r)) = None \<and>
      identify_nameservers D (zone_at m r) = Ok ns \<and> m1 = set_nameservers r ns m)"
    using assms by (auto simp: is_known_primary_def Let_def split: if_splits option.splits outcome.splits)
  have z: "zone_at (set_nameservers r ns m) r = (if r < length (zm_heap m)
      then map_info (\<lambda>i. i\<lparr>zi_nameservers := Some ns\<rparr>) (zone_at m r) else zone_at m r)" for ns
    by (simp add: set_nameservers_def zone_at_set_zone)
  show "tracking m1 = tracking m" "zm_pending_zones m1 = zm_pending_zones m"
    using m1 by (auto simp: set_nameservers_def set_zone_def tracking_def fun_eq_iff)
  show "zone_id_at m1 r = zone_id_at m r" "config_at m1 r = config_at m r"
    "known_sender D m r s \<longrightarrow> known_sender D m1 r s"
    using m1 z by (auto simp: zone_id_at_def config_at_def map_info_def mz_id_def known_sender_def
        split: if_splits)
qed

lemma begin_status:
  assumes "tracking m (zone_id_at m (rj_zone job)) = Some z" "rj_cause job \<noteq> SoaRetryTimer"
  shows "\<exists>z'. tracking (refresh_begin now job m) (zone_id_at m (rj_zone job)) = Some z'
     \<and> zrs_status z' = RefreshInProgress 0"
  using assms by (cases "rj_cause job") (auto simp: refresh_begin_def set_status_def)

lemma begin_frame:
  "zone_at (refresh_begin now job m) = zone_at m" "zone_id_at (refresh_begin now job m) = zone_id_at m"
  "config_at (refresh_begin now job m) = config_at m"
  "zm_pending_zones (refresh_begin now job m) = zm_pending_zones m"
  by (auto simp: refresh_begin_def set_tracking_def zone_at_def zone_id_at_def config_at_def fun_eq_iff
      split: option.split)

text \<open>Once the refresh that a NOTIFY started is under way, the state of the zone no longer says
  that a NOTIFY is in progress, so a second NOTIFY from the same sender is not refused: it starts a
  second refresh of the zone beside the first.\<close>

theorem second_notify_accepted:
  assumes "start_notify_task D msg zones m = (Ok (Some job), m1)"
  shows "fst (start_notify_task D msg zones (refresh_begin now job m1)) = Ok (Some job)"
proof -
  from assms obtain p r source known m0 z where found:
      "(case d_tree_get D zones (zcm_apex_name msg) (zcm_class msg) of
         Some r \<Rightarrow> Some (False, r)
       | None \<Rightarrow> (case hm_get (zm_pending_zones m) (ZoneId_new (zcm_apex_name msg) (zcm_class msg)) of
           Some r \<Rightarrow> Some (True, r) | None \<Rightarrow> None)) = Some (p, r)"
    and src: "zcm_source msg = Some source"
    and known: "is_known_primary D (zc_allow_notify_from (config_at m r)) source r m = (Ok True, m0)"
    and z: "tracking m0 (zone_id_at m0 r) = Some z"
    and job: "job = \<lparr>rj_cause = NotifyFromPrimary source, rj_zone = r,
        rj_initial = Some (SocketAddr_new source IANA_DNS_PORT_NUMBER), rj_is_pending = p\<rparr>"
    and m1: "m1 = set_tracking (zone_id_at m0 r) (set_status NotifyInProgress z) m0"
    unfolding start_notify_task_def Let_def
    by (auto split: option.splits if_splits elim!: and_then_Ok_pairE) (metis prod.collapse)+
  define m2 where "m2 = refresh_begin now job m1"
  note f0 = known_primary_frame [OF known]
  have ks0: "known_sender D m0 r source"
    using f0(5) known known_primary_iff [of D m r source] by auto
  have z1: "zone_at m1 = zone_at m0" "zone_id_at m1 = zone_id_at m0" "config_at m1 = config_at m0"
    "zm_pending_zones m1 = zm_pending_zones m0"
    by (simp_all add: m1) (simp add: set_tracking_def)
  have ks2: "known_sender D m2 r source"
    using ks0 by (simp add: known_sender_def begin_frame z1 m2_def)
  obtain m3 where k2: "is_known_primary D (zc_allow_notify_from (config_at m2 r)) source r m2 = (Ok True, m3)"
    using ks2 known_primary_iff [of D m2 r source] by (metis prod.collapse)
  note f2 = known_primary_frame [OF k2]
  have "tracking m1 (zone_id_at m1 (rj_zone job)) = Some (set_status NotifyInProgress z)"
    by (simp add: m1 job)
  from begin_status [OF this, of now] obtain z' where z': "tracking m2 (zone_id_at m1 r) = Some z'"
    "zrs_status z' = RefreshInProgress 0" by (auto simp: job m2_def)
  have "tracking m3 (zone_id_at m3 r) = Some z'" using z'(1) f2 by (simp add: begin_frame m2_def)
  moreover have "zm_pending_zones m2 = zm_pending_zones m" by (simp add: begin_frame z1 f0 m2_def)
  note found [folded this]
  ultimately have "fst (start_notify_task D msg zones m2) = Ok (Some job)"
    using src k2 z'(2) unfolding start_notify_task_def Let_def by (simp add: job)
  then show ?thesis by (simp add: m2_def)
qed

theorem second_notify_accepted_witness:
  "fst (start_notify_task demo_api demo_notify [((''example'', 1), 0)]
     (refresh_begin 9 demo_job (set_tracking demo_id (set_status NotifyInProgress (ZoneRefreshState_default 0))
       (demo_maintainer demo_config 5 (ZoneRefreshState_default 0))))) = Ok (Some demo_job)"
  by (rule second_notify_accepted [OF demo_notify_starts])

section \<open>Zones that are inserted again\<close>

text \<open>C38: inserting a secondary zone under the name of one that is already tracked breaks the
  maintainer when the event of the insertion is handled: if the old zone is active the loop panics,
  and if it is still pending the new zone becomes active at once, empty as it may be, and lookups
  return it.\<close>

theorem readded_zone:
  assumes "zone_tree_ok D" and "tracking m (tz_id tz) \<noteq> None" and "is_secondary (tz_zone_type tz)"
    and "\<not> zc_discover_notify_set (tz_zone_type tz)"
    and "insert_zone D tz m = (Ok (), m1)" and "on_event D now (ZoneAdded (tz_id tz)) m1 = (res, m2)"
  shows "if d_tree_get D (zm_loaded_arc m) (tz_apex_name tz) (tz_class tz) = None
    then res = Ok () \<and> get_zone D (tz_apex_name tz) (tz_class tz) m2 = Ok (Some (length (zm_heap m)))
      \<and> mz_store (zone_at m2 (length (zm_heap m))) = tz_store tz
    else res = Panic"
proof -
  let ?r = "length (zm_heap m)"
  obtain r m0 where w: "wrap_zone tz m = (r, m0)" by fastforce
  note ws = wrap_zone_simps [OF w]
  have r: "r = ?r" and z0: "zone_at m0 r = \<lparr>mz_apex_name = tz_apex_name tz, mz_class = tz_class tz,
      mz_store = tz_store tz, mz_info = \<lparr>zi_catalog_member_id = None, zi_config = tz_zone_type tz,
        zi_diffs = [], zi_nameservers = None, zi_expired = False\<rparr>\<rparr>"
    using w by (auto simp: wrap_zone_def zone_at_def)
  have m1: "m1 = (send_event (ZoneAdded (tz_id tz))
      (m0\<lparr>zm_pending_zones := hm_insert (tz_id tz) r (zm_pending_zones m)\<rparr>))
      \<lparr>zm_member_zones := zm_loaded_arc m, zm_loaded_arc := zm_loaded_arc m\<rparr>"
    using assms(3,5) w ws by (simp add: insert_zone_def insert_zones_def Let_def)
  have zm: "zone_at m1 = zone_at m0" "tracking m1 = tracking m"
    "zm_pending_zones m1 = hm_insert (tz_id tz) r (zm_pending_zones m)" "zm_loaded_arc m1 = zm_loaded_arc m"
    using ws by (simp_all add: m1 send_event_def)
  then have za: "zone_id_at m1 r = tz_id tz" "config_at m1 r = tz_zone_type tz"
    using ws by (simp_all add: zone_id_at_def config_at_def)
  obtain z where z: "tracking m (tz_id tz) = Some z" using assms(2) by auto
  have track: "track_zone_freshness D now r m1 = (Ok (Some (zrs_refresh z)), m1)"
    using assms(3) z by (simp add: track_zone_freshness_def za zm)
  let ?p = "m1\<lparr>zm_pending_zones := hm_remove (tz_id tz) (zm_pending_zones m1)\<rparr>"
  have upd: "update_known_nameservers_for_zone D r ?p = (Ok (), ?p)"
    using assms(4) za by (simp add: update_known_nameservers_for_zone_def)
  have ia: "insert_active_zone D r ?p =
      (case d_tree_insert D (tz_apex_name tz) (tz_class tz) r (zm_loaded_arc m) of
         Inl e \<Rightarrow> (Err e, ?p)
       | Inr t \<Rightarrow> (Ok (), ?p\<lparr>zm_member_zones := t, zm_loaded_arc := t\<rparr>))"
    unfolding insert_active_zone_def upd using z0 zm(1,4) by simp
  have ev: "on_event D now (ZoneAdded (tz_id tz)) m1 = and_then (unwrap_result (insert_active_zone D r ?p))
      (\<lambda>_ m2. (Ok (), refresh_zone_at now SoaRefreshTimerAfterZoneAdded (tz_id tz) (Some (zrs_refresh z)) m2))"
    by (simp add: on_zone_added_def zm(3) track)
  show ?thesis
  proof (cases "d_tree_get D (zm_loaded_arc m) (tz_apex_name tz) (tz_class tz) = None")
    case True
    then obtain t where t: "d_tree_insert D (tz_apex_name tz) (tz_class tz) r (zm_loaded_arc m) = Inr t"
      using tree_insert_fails [OF assms(1)] by (metis sum.exhaust)
    have res: "res = Ok ()" "m2 = refresh_zone_at now SoaRefreshTimerAfterZoneAdded (tz_id tz) (Some (zrs_refresh z))
        (?p\<lparr>zm_member_zones := t, zm_loaded_arc := t\<rparr>)"
      using assms(6) [unfolded ev] t by (auto simp: ia)
    have "zone_at m2 = zone_at m1" "zm_loaded_arc m2 = t"
      using res(2) by (simp_all add: refresh_zone_at_def)
    then show ?thesis
      using True res(1) tree_insert_get [OF assms(1) t] z0 zm(1) r
      by (simp add: get_zone_def active_zone_def is_active_def)
  next
    case False
    then obtain e where "d_tree_insert D (tz_apex_name tz) (tz_class tz) r (zm_loaded_arc m) = Inl e"
      using tree_insert_fails [OF assms(1)] by metis
    then show ?thesis using False assms(6) [unfolded ev] by (simp add: ia)
  qed
qed

text \<open>The only zone is active and tracked, and a zone of the same name is inserted.\<close>

lemma demo_again: "insert_zone demo_api (demo_typed demo_config 0)
    (demo_maintainer demo_config 5 (ZoneRefreshState_default 0)) =
  (Ok (), (demo_maintainer demo_config 5 (ZoneRefreshState_default 0))
     \<lparr>zm_heap := [demo_zone demo_config 5, demo_zone demo_config 0], zm_pending_zones := [(demo_id, 1)],
       zm_events := [ZoneAdded demo_id]\<rparr>)"
  by (simp add: insert_zone_def insert_zones_def wrap_zone_def demo_typed_def demo_maintainer_def
      ZoneMaintainer_new_def demo_zone_def zone_id_at_def zone_at_def mz_id_def demo_id_def
      ZoneId_new_def send_event_def hm_insert_def Let_def)

lemma demo_typed_id [simp]: "tz_id (demo_typed cfg st) = demo_id"
  by (simp add: tz_id_def demo_typed_def demo_id_def ZoneId_new_def)

theorem readded_zone_witness:
  "fst (on_event demo_api 9 (ZoneAdded demo_id)
     ((demo_maintainer demo_config 5 (ZoneRefreshState_default 0))
       \<lparr>zm_heap := [demo_zone demo_config 5, demo_zone demo_config 0], zm_pending_zones := [(demo_id, 1)],
         zm_events := [ZoneAdded demo_id]\<rparr>)) = Panic"
proof -
  let ?m = "demo_maintainer demo_config 5 (ZoneRefreshState_default 0)"
  have "tracking ?m (tz_id (demo_typed demo_config 0)) \<noteq> None" "zone_tree_ok demo_api"
    "is_secondary (tz_zone_type (demo_typed demo_config 0))"
    "\<not> zc_discover_notify_set (tz_zone_type (demo_typed demo_config 0))"
    by simp_all (simp_all add: demo_typed_def)
  note res = readded_zone [OF this(2,1,3,4) demo_again prod.collapse [symmetric], of 9]
  have "d_tree_get demo_api (zm_loaded_arc ?m) (tz_apex_name (demo_typed demo_config 0))
      (tz_class (demo_typed demo_config 0)) = Some 0"
    by (simp add: demo_maintainer_def demo_api_def demo_typed_def)
  then show ?thesis using res by simp
qed

section \<open>Overlapping updates\<close>

text \<open>A secondary zone with contents is inserted while nothing else happens, and \<open>run\<close> starts.
  While its loop makes the zone active, a second, new zone is inserted: the insertion has cloned the
  set of zones before the loop stores its own, and stores its clone afterwards.\<close>

definition demo_ov :: "MaintainedZone list \<Rightarrow> (ZoneId, nat) hmap \<Rightarrow> demo_tree \<Rightarrow> ZoneRefreshTimer list
    \<Rightarrow> Event list \<Rightarrow> demo_tree ZoneMaintainer" where
  "demo_ov h p t ts es = (ZoneMaintainer_new demo_api)\<lparr>zm_heap := h, zm_pending_zones := p,
     zm_member_zones := t, zm_loaded_arc := t, zm_running := True,
     zm_time_tracking := [(demo_id, ZoneRefreshState_new 5 (demo_soa 5))], zm_timers := ts, zm_events := es\<rparr>"

definition demo_other :: TypedZone where
  "demo_other = \<lparr>tz_apex_name = ''other'', tz_class = 1, tz_store = 0, tz_zone_type = demo_config\<rparr>"

lemma demo_ov_simps [simp]:
  "zm_heap (demo_ov h p t ts es) = h" "zm_pending_zones (demo_ov h p t ts es) = p"
  "zm_loaded_arc (demo_ov h p t ts es) = t" "zm_tasks (demo_ov h p t ts es) = []"
  "zm_events (demo_ov h p t ts es) = es" "zm_timers (demo_ov h p t ts es) = ts"
  "tracking (demo_ov h p t ts es) demo_id = Some (ZoneRefreshState_new 5 (demo_soa 5))"
  "zone_at (demo_ov h p t ts es) r = h ! r" "config_at (demo_ov h p t ts es) r = zi_config (mz_info (h ! r))"
  "(demo_ov h p t ts es)\<lparr>zm_member_zones := t', zm_loaded_arc := t'\<rparr> = demo_ov h p t' ts es"
  "(demo_ov h p t ts es)\<lparr>zm_pending_zones := p'\<rparr> = demo_ov h p' t ts es"
  "(demo_ov h p t ts es)\<lparr>zm_heap := h'\<rparr> = demo_ov h' p t ts es"
  "send_event e (demo_ov h p t ts es) = demo_ov h p t ts (es @ [e])"
  "refresh_zone_at now c k a (demo_ov h p t ts es) = demo_ov h p t (place_timer (ZoneRefreshTimer_new
     (ZoneRefreshInstant_new now k (case a of Some at \<Rightarrow> at | None \<Rightarrow> 0) c)) ts) es"
  by (simp_all add: demo_ov_def tracking_def zone_at_def config_at_def send_event_def refresh_zone_at_def)

text \<open>Both zones are new and nothing fails, but the first zone is lost: it is tracked, neither
  pending nor active, no look-up finds it, and the task of its timer, when that fires, finds no zone
  and drops the refresh.\<close>

theorem overlap_loses_zone:
  "\<exists>w. zm_steps demo_api (zm_world_new demo_api) w \<and> zw_loop w = Idle \<and> zw_calls w = []
     \<and> tracking (zw_state w) demo_id \<noteq> None
     \<and> hm_get (zm_pending_zones (zw_state w)) demo_id = None
     \<and> get_zone demo_api ''example'' 1 (zw_state w) = Ok None
     \<and> (\<forall>info. zri_zone_id info = demo_id \<longrightarrow>
          start_timer_task demo_api info (zm_loaded_arc (zw_state w)) (zw_state w) = None)"
proof -
  let ?z = "demo_zone demo_config 5" and ?rf = "soa_refresh (demo_soa 5)"
  let ?key = "(''example'', 1) :: dname \<times> dclass"
  define oz where "oz = \<lparr>mz_apex_name = ''other'', mz_class = 1, mz_store = 0, mz_info =
    \<lparr>zi_catalog_member_id = None, zi_config = demo_config, zi_diffs = [], zi_nameservers = None, zi_expired = False\<rparr>\<rparr>"
  define oid where "oid = ZoneId_new ''other'' 1"
  define ts where "ts = [ZoneRefreshTimer_new (ZoneRefreshInstant_new 6 demo_id ?rf SoaRefreshTimerAfterZoneAdded)]"
  define call where "call zs = \<lparr>ic_zones = zs, ic_new_zones = ([] :: demo_tree)\<rparr>" for zs
  have steps_orderly: "zm_steps demo_api (zm_world_new demo_api) w" if "zm_orderly demo_api w" for w
    using that by (induction rule: zm_orderly.induct) (auto intro: zm_steps.intros)
  have "demo_ov [?z] [(demo_id, 0)] [] [] [] = (demo_started 5)\<lparr>zm_events := [],
      zm_time_tracking := [(demo_id, ZoneRefreshState_new 5 (demo_soa 5))]\<rparr>"
    by (simp add: demo_ov_def demo_started_def demo_inserted_def)
  then have "add_begin demo_api 5 demo_id ((demo_started 5)\<lparr>zm_events := []\<rparr>) =
      (Adding demo_id 0 ?rf, demo_ov [?z] [(demo_id, 0)] [] [] [])"
    by (simp add: add_begin_def track_zone_freshness_def demo_read_soa demo_zone_def set_tracking_def
        hm_insert_def)
  then have s1: "zm_step demo_api (demo_at (demo_started 5) Idle)
      (demo_at (demo_ov [?z] [(demo_id, 0)] [] [] []) (Adding demo_id 0 ?rf))"
    using zm_step.AddBegin [of "demo_at (demo_started 5) Idle" demo_id "[]" demo_api 5]
    by (simp add: pending_writable_def pending_readable_def)
  have s2: "zm_step demo_api (demo_at (demo_ov [?z] [(demo_id, 0)] [] [] []) (Adding demo_id 0 ?rf))
      \<lparr>zw_state = demo_ov [?z] [(demo_id, 0)] [] [] [], zw_calls = [call [demo_other]],
       zw_loop = Adding demo_id 0 ?rf\<rparr>"
    using zm_step.InsertBegin [of demo_api
      "demo_at (demo_ov [?z] [(demo_id, 0)] [] [] []) (Adding demo_id 0 ?rf)" "[demo_other]"]
    by (simp add: call_def)
  have "add_clone demo_api demo_id 0 ?rf (demo_ov [?z] [(demo_id, 0)] [] [] []) =
      (Storing demo_id 0 ?rf [], demo_ov [?z] [(demo_id, 0)] [] [] [])"
    by (simp add: add_clone_def update_known_nameservers_for_zone_def demo_zone_def)
  then have s3: "zm_step demo_api \<lparr>zw_state = demo_ov [?z] [(demo_id, 0)] [] [] [], zw_calls = [call [demo_other]],
       zw_loop = Adding demo_id 0 ?rf\<rparr>
      \<lparr>zw_state = demo_ov [?z] [(demo_id, 0)] [] [] [], zw_calls = [call [demo_other]],
       zw_loop = Storing demo_id 0 ?rf []\<rparr>"
    using zm_step.AddClone [of "\<lparr>zw_state = demo_ov [?z] [(demo_id, 0)] [] [] [], zw_calls = [call [demo_other]],
       zw_loop = Adding demo_id 0 ?rf\<rparr>" demo_id 0 ?rf demo_api] by simp
  have "add_store demo_api 6 demo_id 0 ?rf [] (demo_ov [?z] [(demo_id, 0)] [] [] []) =
      (Idle, demo_ov [?z] [] [(?key, 0)] ts [])"
    by (simp add: add_store_def Let_def demo_zone_def demo_api_def hm_insert_def hm_remove_def ts_def)
  then have s4: "zm_step demo_api
      \<lparr>zw_state = demo_ov [?z] [(demo_id, 0)] [] [] [], zw_calls = [call [demo_other]],
       zw_loop = Storing demo_id 0 ?rf []\<rparr>
      \<lparr>zw_state = demo_ov [?z] [] [(?key, 0)] ts [], zw_calls = [call [demo_other]], zw_loop = Idle\<rparr>"
    using zm_step.AddStore [of "\<lparr>zw_state = demo_ov [?z] [(demo_id, 0)] [] [] [], zw_calls = [call [demo_other]],
       zw_loop = Storing demo_id 0 ?rf []\<rparr>" demo_id 0 ?rf "[]" demo_api 6] by simp
  have "insert_zones_loop demo_api [demo_other] [] (demo_ov [?z] [] [(?key, 0)] ts []) =
      (Ok [], demo_ov [?z, oz] [(oid, 1)] [(?key, 0)] ts [ZoneAdded oid])"
    by (simp add: wrap_zone_def demo_other_def Let_def zone_id_at_def mz_id_def hm_insert_def oz_def oid_def)
  then have s5: "zm_step demo_api
      \<lparr>zw_state = demo_ov [?z] [] [(?key, 0)] ts [], zw_calls = [call [demo_other]], zw_loop = Idle\<rparr>
      \<lparr>zw_state = demo_ov [?z, oz] [(oid, 1)] [(?key, 0)] ts [ZoneAdded oid], zw_calls = [call []],
       zw_loop = Idle\<rparr>"
    using zm_step.InsertZone [of "\<lparr>zw_state = demo_ov [?z] [] [(?key, 0)] ts [],
        zw_calls = [call [demo_other]], zw_loop = Idle\<rparr>" "[]" demo_other "[]" "[]" "[]" demo_api]
    by (simp add: call_def pending_writable_def pending_readable_def del: insert_zones_loop.simps)
  have s6: "zm_step demo_api
      \<lparr>zw_state = demo_ov [?z, oz] [(oid, 1)] [(?key, 0)] ts [ZoneAdded oid], zw_calls = [call []],
       zw_loop = Idle\<rparr>
      (demo_at (demo_ov [?z, oz] [(oid, 1)] [] ts [ZoneAdded oid]) Idle)"
    using zm_step.InsertEnd [of "\<lparr>zw_state = demo_ov [?z, oz] [(oid, 1)] [(?key, 0)] ts [ZoneAdded oid],
        zw_calls = [call []], zw_loop = Idle\<rparr>" "[]" "[]" "[]" demo_api] by (simp add: call_def)
  note run = steps_orderly [OF demo_started_orderly [of 5]]
  note run = zm_steps.More [OF zm_steps.More [OF zm_steps.More [OF run s1] s2] s3]
  note run = zm_steps.More [OF zm_steps.More [OF zm_steps.More [OF run s4] s5] s6]
  have "oid \<noteq> demo_id" by (simp add: oid_def demo_id_def ZoneId_new_def)
  then show ?thesis
    by (intro exI [of _ "demo_at (demo_ov [?z, oz] [(oid, 1)] [] ts [ZoneAdded oid]) Idle"] conjI run)
      (simp_all add: get_zone_def active_zone_def demo_api_def start_timer_task_def Let_def)
qed

section \<open>A run to expiry\<close>

text \<open>The pending zone of the first run, whose primary never answers: its refresh fails, the retry
  fails after the SOA EXPIRE time, and the zone expires.\<close>

definition demo_st :: "bool \<Rightarrow> Event list \<Rightarrow> ZoneRefreshTimer list \<Rightarrow> demo_tree zm_task list
    \<Rightarrow> ZoneRefreshState \<Rightarrow> demo_tree ZoneMaintainer" where
  "demo_st x es ts us z = (ZoneMaintainer_new demo_api)
     \<lparr>zm_heap := [map_info (set_expired x) (demo_zone demo_config 0)], zm_pending_zones := [(demo_id, 0)],
      zm_running := True, zm_events := es, zm_timers := ts, zm_tasks := us, zm_time_tracking := [(demo_id, z)]\<rparr>"

lemma demo_st_simps [simp]:
  "zm_events (demo_st x es ts us z) = es" "zm_timers (demo_st x es ts us z) = ts"
  "zm_tasks (demo_st x es ts us z) = us" "zm_pending_zones (demo_st x es ts us z) = [(demo_id, 0)]"
  "zm_loaded_arc (demo_st x es ts us z) = []" "zm_time_tracking (demo_st x es ts us z) = [(demo_id, z)]"
  "tracking (demo_st x es ts us z) demo_id = Some z" "length (zm_heap (demo_st x es ts us z)) = 1"
  "zone_at (demo_st x es ts us z) 0 = map_info (set_expired x) (demo_zone demo_config 0)"
  "zone_id_at (demo_st x es ts us z) 0 = demo_id" "config_at (demo_st x es ts us z) 0 = demo_config"
  "(demo_st x es ts us z)\<lparr>zm_events := es'\<rparr> = demo_st x es' ts us z"
  "(demo_st x es ts us z)\<lparr>zm_timers := ts'\<rparr> = demo_st x es ts' us z"
  "(demo_st x es ts us z)\<lparr>zm_tasks := us'\<rparr> = demo_st x es ts us' z"
  "send_event e (demo_st x es ts us z) = demo_st x (es @ [e]) ts us z"
  "set_tracking demo_id z' (demo_st x es ts us z) = demo_st x es ts us z'"
  "mark_expired 0 (demo_st x es ts us z) = demo_st True es ts us z"
  by (simp_all add: demo_st_def ZoneMaintainer_new_def demo_api_def tracking_def zone_at_def
      zone_id_at_def config_at_def map_info_def set_expired_def demo_zone_def mz_id_def demo_id_def
      ZoneId_new_def send_event_def set_tracking_def hm_insert_def mark_expired_def set_zone_def)

definition demo_silent :: "instant \<Rightarrow> refresh_env" where
  "demo_silent t = \<lparr>re_age_at = t, re_primaries = (\<lambda>_. \<lparr>pe_udp = NoConn, pe_soa_response = Inl 0,
     pe_checked_at = t, pe_xfr = (\<lambda>_. \<lparr>xe_udp = NoConn, xe_udp_response = Inl 0, xe_tcp = NoConn,
       xe_tcp_responses = [], xe_done_at = t\<rparr>)\<rparr>), re_finished_at = t\<rparr>"

definition demo_wait :: "ZoneRefreshCause \<Rightarrow> ttl \<Rightarrow> instant \<Rightarrow> ZoneRefreshTimer" where
  "demo_wait cause at now = ZoneRefreshTimer_new (ZoneRefreshInstant_new now demo_id at cause)"

definition demo_refresh :: "ZoneRefreshCause \<Rightarrow> refresh_job" where
  "demo_refresh cause = \<lparr>rj_cause = cause, rj_zone = 0, rj_initial = None, rj_is_pending = True\<rparr>"

lemma demo_orderly_step: "zm_orderly demo_api (demo_at m Idle) \<Longrightarrow>
    zm_step demo_api (demo_at m Idle) (demo_at m' Idle) \<Longrightarrow> zm_orderly demo_api (demo_at m' Idle)"
  by (rule zm_orderly.Step) (simp_all add: orderly_def)

lemma demo_op: "zm_op demo_api True m m' \<Longrightarrow> zm_step demo_api (demo_at m Idle) (demo_at m' Idle)"
  using zm_step.Op [of demo_api "demo_at m Idle" m'] by (simp add: pending_readable_def)

lemma demo_step_timer: "zm_step demo_api (demo_at (demo_st x [] [demo_wait c at t] [] z) Idle)
    (demo_at (demo_st x [] [] [zm_task.TimerTask (ZoneRefreshInstant_new t demo_id at c) []] z) Idle)"
  using zm_step.Timer [of "demo_at (demo_st x [] [demo_wait c at t] [] z) Idle" "[]" "demo_wait c at t" "[]"
      "zrt_deadline (demo_wait c at t)" "ZoneRefreshInstant_new t demo_id at c" demo_api]
  by (simp add: ZoneRefreshTimer_poll_def demo_wait_def ZoneRefreshTimer_new_def on_refresh_timer_def)

lemma demo_step_task: "zm_step demo_api
    (demo_at (demo_st x [] [] [zm_task.TimerTask (ZoneRefreshInstant_new t demo_id at c) []] z) Idle)
    (demo_at (demo_st x [] [] [RefreshTask (demo_refresh c)] (begin_state now c z)) Idle)"
proof (rule demo_op)
  let ?m = "demo_st x [] [] [zm_task.TimerTask (ZoneRefreshInstant_new t demo_id at c) []] z"
  have "start_timer_task demo_api (ZoneRefreshInstant_new t demo_id at c) [] ?m = Some (demo_refresh c)"
    by (simp add: start_timer_task_def ZoneRefreshInstant_new_def Let_def demo_refresh_def)
  from zm_op.TimerRefresh [of ?m "[]" _ "[]" "[]", OF _ _ this]
  show "zm_op demo_api True ?m (demo_st x [] [] [RefreshTask (demo_refresh c)] (begin_state now c z))"
    by (simp add: refresh_begin_def demo_refresh_def)
qed

lemma demo_step_event: "zm_step demo_api (demo_at (demo_st x [ZoneRefreshRequested c demo_id (Some at)] [] us z) Idle)
    (demo_at (demo_st x [] [demo_wait c at now] us z) Idle)"
  using zm_step.Event [of "demo_at (demo_st x [ZoneRefreshRequested c demo_id (Some at)] [] us z) Idle"
      "ZoneRefreshRequested c demo_id (Some at)" "[]" demo_api now]
  by (simp add: refresh_zone_at_def demo_wait_def)

lemma demo_finish:
  assumes "last_refreshed_at (zrs_metrics z) = None"
  shows "refresh_finish demo_api (demo_silent t) (demo_refresh c) (demo_st x es ts us z) =
    refresh_update_state t 0 (Err NoConnectionAvailable) (demo_st x es ts us z)"
proof -
  let ?m = "demo_st x es ts us z"
  have "read_soa demo_api 0 n = Ok None" for n
    by (simp add: read_soa_def demo_api_def demo_query_def)
  moreover have "mz_store (zone_at ?m 0) = 0" by (simp add: map_info_def demo_zone_def)
  ultimately have "refresh_zone demo_api t (re_primaries (demo_silent t)) 0 None ?m =
      (Err NoConnectionAvailable, ?m)"
    using assms by (simp add: refresh_zone_def recently_refreshed_def zrs_age_def sdc_addrs_def
        sdc_dst_def refresh_zone_from_addr_def primary_serial_def demo_silent_def hm_keys_def)
  then show ?thesis
    by (auto simp: refresh_finish_def Let_def demo_refresh_def demo_silent_def refresh_update_state_def
        split: prod.splits)
qed

lemma demo_step_fail:
  assumes "last_refreshed_at (zrs_metrics z) = None" "zrs_status z \<noteq> RetryInProgress"
  shows "zm_step demo_api (demo_at (demo_st x [] [] [RefreshTask (demo_refresh c)] z) Idle)
    (demo_at (demo_st x [ZoneRefreshRequested SoaRetryTimer demo_id (Some (zrs_retry z))] [] []
      (set_status RetryPending z)) Idle)"
  by (rule demo_op, rule zm_op.Refresh [of _ "[]" "demo_refresh c" "[]" _ "demo_silent 0" "Err ()"])
     (use assms in \<open>simp_all add: demo_finish refresh_update_state_def schedule_zone_refresh_def\<close>)

lemma demo_step_expire:
  assumes "last_refreshed_at (zrs_metrics z) = None" "zrs_status z = RetryInProgress"
    "last_soa_serial_check_succeeded_at (zrs_metrics z) = None"
    "zone_created_at (zrs_metrics z) + ttl_into_duration (zrs_expire z) < t"
  shows "zm_step demo_api (demo_at (demo_st x [] [] [RefreshTask (demo_refresh c)] z) Idle)
    (demo_at (demo_st True [] [] [] z) Idle)"
  by (rule demo_op, rule zm_op.Refresh [of _ "[]" "demo_refresh c" "[]" _ "demo_silent t" "Err ()"])
     (use assms in \<open>simp_all add: demo_finish refresh_update_state_def is_expired_def
        checked_duration_since_def\<close>)

lemma demo_expires: "\<exists>z. zm_orderly demo_api (demo_at (demo_st True [] [] [] z) Idle)"
proof -
  define z0 where "z0 = ZoneRefreshState_default 5"
  define z1 where "z1 = set_status RetryPending (begin_state 5 SoaRefreshTimerAfterZoneAdded z0)"
  define z2 where "z2 = begin_state 7 SoaRetryTimer z1"
  have z: "last_refreshed_at (zrs_metrics (begin_state 5 SoaRefreshTimerAfterZoneAdded z0)) = None"
    "zrs_status (begin_state 5 SoaRefreshTimerAfterZoneAdded z0) \<noteq> RetryInProgress"
    "last_refreshed_at (zrs_metrics z2) = None" "zrs_status z2 = RetryInProgress"
    "last_soa_serial_check_succeeded_at (zrs_metrics z2) = None"
    by (simp_all add: z0_def z1_def z2_def ZoneRefreshState_default_def ZoneRefreshMetrics_default_def
        set_status_def)
  have st: "demo_tracked = demo_st False [] [demo_wait SoaRefreshTimerAfterZoneAdded 0 5] [] z0"
    by (simp add: demo_tracked_def demo_started_def demo_inserted_def demo_st_def z0_def demo_wait_def
        map_info_def set_expired_def demo_zone_def ZoneMaintainer_new_def)
  note r = demo_orderly_step [OF demo_tracked_orderly [unfolded st] demo_step_timer]
  note r = demo_orderly_step [OF r demo_step_task [where now = 5]]
  note r = demo_orderly_step [OF r demo_step_fail [OF z(1,2)]]
  note r = demo_orderly_step [OF r [folded z1_def] demo_step_event [where now = 6]]
  note r = demo_orderly_step [OF r demo_step_timer]
  note r = demo_orderly_step [OF r demo_step_task [where now = 7]]
  note r = demo_orderly_step [OF r [folded z2_def] demo_step_expire [OF z(3,4,5) lessI]]
  then show ?thesis by blast
qed

text \<open>Later a transfer of the zone commits contents, and still no lookup returns it.\<close>

theorem expired_forever_witness:
  "\<exists>m. zm_orderly demo_api (demo_at m Idle) \<and> mz_store (zone_at m 0) = 5 \<and> \<not> is_active (zone_at m 0)"
proof -
  obtain z where r: "zm_orderly demo_api (demo_at (demo_st True [] [] [] z) Idle)"
    using demo_expires by blast
  let ?m = "demo_st True [] [] [] z"
  let ?m' = "wmz_commit demo_api 0 (5, None) ?m"
  have c: "zm_step demo_api (demo_at ?m Idle) (demo_at ?m' Idle)"
    using demo_op [OF zm_op.Write [of 0 ?m demo_api True "Committed 5 None"]] by simp
  have "\<not> is_active (zone_at ?m 0)" by (simp add: is_active_def map_info_def set_expired_def)
  then have "\<not> is_active (zone_at ?m' 0)"
    using expired_forever [OF _ _ zm_steps.More [OF zm_steps.Refl c], of 0] by simp
  moreover have "mz_store (zone_at ?m' 0) = 5"
    by (simp add: wmz_commit_def Let_def send_event_def zone_at_def set_zone_def demo_st_def)
  ultimately show ?thesis using demo_orderly_step [OF r c] by blast
qed

end
