(* ===== verification/Loader_Claims.thy ===== *)
theory Loader_Claims
  imports Zone_Loader Maintainer_Claims
begin

text \<open>
  Properties of the zone loader: when its start comes to an end, and what becomes of the zones that
  are registered with it.
\<close>

section \<open>Inserting a new zone\<close>

lemma wrap_config: "wrap_zone z m = (r, m1) \<Longrightarrow> config_at m1 r = tz_zone_type z"
  by (auto simp: wrap_zone_def config_at_def zone_at_def)

lemma insert_new:
  assumes D: "zone_tree_ok D" and free: "d_tree_get D (zm_loaded_arc m) (tz_apex_name z) (tz_class z) = None"
    and cfg: "\<not> zc_discover_notify_set (tz_zone_type z)"
  obtains m' where "insert_zone D z m = (Ok (), m')" "length (zm_events m') = Suc (length (zm_events m))"
    "\<And>n c. (n, c) \<noteq> (tz_apex_name z, tz_class z) \<Longrightarrow>
       d_tree_get D (zm_loaded_arc m') n c = d_tree_get D (zm_loaded_arc m) n c"
proof -
  obtain r m1 where w: "wrap_zone z m = (r, m1)" by fastforce
  then have m1: "zm_loaded_arc m1 = zm_loaded_arc m" "zm_events m1 = zm_events m"
    by (auto simp: wrap_zone_def)
  show thesis
  proof (cases "is_secondary (tz_zone_type z)")
    case True
    then show thesis
      using that w m1 by (simp add: insert_zone_def insert_zones_def Let_def send_event_def)
  next
    case False
    obtain t where t: "d_tree_insert D (tz_apex_name z) (tz_class z) r (zm_loaded_arc m) = Inr t"
      using tree_insert_fails [OF D] free by (metis sum.exhaust)
    have u: "update_known_nameservers_for_zone D r m1 = (Ok (), m1)"
      using cfg wrap_config [OF w] by (simp add: update_known_nameservers_for_zone_def)
    let ?m = "(send_event (ZoneAdded (zone_id_at m1 r)) m1)\<lparr>zm_member_zones := t, zm_loaded_arc := t\<rparr>"
    have "insert_zone D z m = (Ok (), ?m)"
      using w m1 t u False by (simp add: insert_zone_def insert_zones_def Let_def)
    then show thesis
      by (rule that) (use m1 tree_insert_get [OF D t] in \<open>auto simp: send_event_def\<close>)
  qed
qed

section \<open>The end of the start\<close>

text \<open>The files can be loaded and have a SOA record, and the lists can be parsed.\<close>

definition loadable :: "'t domain_api \<Rightarrow> 'k loader_params \<Rightarrow> (dname \<Rightarrow> string \<Rightarrow> token option) \<Rightarrow> ZoneLoader
    \<Rightarrow> 'k TsigKeyStore \<Rightarrow> bool" where
  "loadable D P load zl ks \<longleftrightarrow>
     (\<forall>(n, p) \<in> set (zl_zones zl). p \<noteq> [] \<longrightarrow> (\<exists>st. load n p = Some st \<and> get_zone_serial D n st \<noteq> None))
   \<and> (\<forall>(n, a) \<in> set (zl_xfr_in zl) \<union> set (zl_xfr_out zl).
        is_Ok (parse_xfr_acl P a acl_xfr_config NotifyConfig_default ks))"

lemma parsed_acl:
  assumes "loadable D P load zl ks" "hm_get (zl_xfr_in zl) n = Some a \<or> hm_get (zl_xfr_out zl) n = Some a"
  obtains addr x nc where "parse_xfr_acl P a acl_xfr_config NotifyConfig_default ks = Ok (addr, x, nc)"
proof -
  have "(n, a) \<in> set (zl_xfr_in zl) \<union> set (zl_xfr_out zl)" using assms(2) by (auto dest: hm_get_in_set)
  then have "is_Ok (parse_xfr_acl P a acl_xfr_config NotifyConfig_default ks)"
    using assms(1) unfolding loadable_def by auto
  then show thesis using that by (cases "parse_xfr_acl P a acl_xfr_config NotifyConfig_default ks") auto
qed

lemma determine_Ok:
  assumes "loadable D P load zl ks"
  shows "\<exists>cfg. determine_primary_zone_cfg P n (zl_xfr_out zl) dest ks = Ok cfg \<and> \<not> zc_discover_notify_set cfg"
    and "\<exists>cfg. determine_secondary_zone_cfg P n source (zl_xfr_in zl) ks = Ok cfg \<and> \<not> zc_discover_notify_set cfg"
proof -
  have new: "\<not> zc_discover_notify_set ZoneConfig_new" by (simp add: ZoneConfig_new_def)
  show "\<exists>cfg. determine_primary_zone_cfg P n (zl_xfr_out zl) dest ks = Ok cfg \<and> \<not> zc_discover_notify_set cfg"
  proof (cases "hm_get (zl_xfr_out zl) n")
    case (Some a)
    with parsed_acl [OF assms] obtain addr x nc
      where "parse_xfr_acl P a acl_xfr_config NotifyConfig_default ks = Ok (addr, x, nc)" by metis
    then show ?thesis using Some new by (simp add: determine_primary_zone_cfg_def Let_def)
  qed (simp add: determine_primary_zone_cfg_def new)
  show "\<exists>cfg. determine_secondary_zone_cfg P n source (zl_xfr_in zl) ks = Ok cfg \<and> \<not> zc_discover_notify_set cfg"
  proof (cases "hm_get (zl_xfr_in zl) n")
    case (Some a)
    with parsed_acl [OF assms] obtain addr x nc
      where "parse_xfr_acl P a acl_xfr_config NotifyConfig_default ks = Ok (addr, x, nc)" by metis
    then show ?thesis using Some new by (simp add: determine_secondary_zone_cfg_def Let_def)
  qed (simp add: determine_secondary_zone_cfg_def new)
qed

lemma start_zone_post:
  assumes l: "loadable D P load zl (lo_keys w)" and z: "(n, p) \<in> set (zl_zones zl)"
  shows "start_zone D P load empty_store zl n p w = None \<and> length (lo_channel w) \<ge> zone_updated_capacity
    \<or> (\<exists>zone w1. start_zone D P load empty_store zl n p w = Some (Ok zone, w1)
        \<and> tz_apex_name zone = n \<and> tz_class zone = Class_IN \<and> \<not> zc_discover_notify_set (tz_zone_type zone)
        \<and> lo_maintainer w1 = lo_maintainer w \<and> lo_keys w1 = lo_keys w
        \<and> length (lo_channel w1) \<le> Suc (length (lo_channel w)))"
proof (cases "p = []")
  case True
  obtain cfg where "determine_secondary_zone_cfg P n None (zl_xfr_in zl) (lo_keys w) = Ok cfg"
      "\<not> zc_discover_notify_set cfg"
    using determine_Ok(2) [OF l] by blast
  then show ?thesis using True by (simp add: start_zone_def register_secondary_zone_def)
next
  case False
  then obtain st s where st: "load n p = Some st" "get_zone_serial D n st = Some s"
    using l z unfolding loadable_def by fastforce
  obtain cfg where "determine_primary_zone_cfg P n (zl_xfr_out zl) None (lo_keys w) = Ok cfg"
      "\<not> zc_discover_notify_set cfg"
    using determine_Ok(1) [OF l] by blast
  then show ?thesis using False st
    by (auto simp: start_zone_def register_primary_zone_def send_zone_updated_def)
qed

lemma start_zones_iff:
  assumes D: "zone_tree_ok D"
  shows "loadable D P load zl (lo_keys w) \<Longrightarrow> set zones \<subseteq> set (zl_zones zl) \<Longrightarrow> distinct (map fst zones) \<Longrightarrow>
    (\<forall>(n, p) \<in> set zones. d_tree_get D (zm_loaded_arc (lo_maintainer w)) n Class_IN = None) \<Longrightarrow>
    length (lo_channel w) \<le> length (zm_events (lo_maintainer w)) \<Longrightarrow>
    length (zm_events (lo_maintainer w)) \<le> event_capacity \<Longrightarrow>
    (\<exists>w'. start_zones D P load empty_store zl zones w = Some (Ok (), w'))
      \<longleftrightarrow> length (zm_events (lo_maintainer w)) + length zones \<le> event_capacity"
proof (induction zones arbitrary: w)
  case (Cons z zones)
  obtain n p where z: "z = (n, p)" by fastforce
  have np: "(n, p) \<in> set (zl_zones zl)" using Cons.prems(2) z by simp
  from start_zone_post [OF Cons.prems(1) np, of empty_store]
  show ?case
  proof (elim disjE exE conjE, goal_cases wait zone)
    case wait
    then show ?thesis using Cons.prems(5) by (simp add: z zone_updated_capacity_def event_capacity_def)
  next
    case (zone zone w1)
    have "d_tree_get D (zm_loaded_arc (lo_maintainer w)) n Class_IN = None" using Cons.prems(4) z by simp
    with insert_new [OF D _ zone(4), of "lo_maintainer w"] zone(2,3) obtain m
      where m: "insert_zone D zone (lo_maintainer w) = (Ok (), m)"
        "length (zm_events m) = Suc (length (zm_events (lo_maintainer w)))"
        "\<And>n' c. (n', c) \<noteq> (n, Class_IN) \<Longrightarrow>
           d_tree_get D (zm_loaded_arc m) n' c = d_tree_get D (zm_loaded_arc (lo_maintainer w)) n' c" by metis
    show ?thesis
    proof (cases "length (zm_events m) \<le> event_capacity")
      case True
      let ?w = "w1\<lparr>lo_maintainer := m\<rparr>"
      have free: "\<forall>(n', p) \<in> set zones. d_tree_get D (zm_loaded_arc (lo_maintainer ?w)) n' Class_IN = None"
      proof safe
        fix n' p' assume e: "(n', p') \<in> set zones"
        then have "n' \<noteq> n" using Cons.prems(3) z by force
        then show "d_tree_get D (zm_loaded_arc (lo_maintainer ?w)) n' Class_IN = None"
          using m(3) [of n' Class_IN] Cons.prems(4) e by auto
      qed
      have "(\<exists>w'. start_zones D P load empty_store zl zones ?w = Some (Ok (), w'))
        \<longleftrightarrow> length (zm_events (lo_maintainer ?w)) + length zones \<le> event_capacity"
        by (rule Cons.IH) (use Cons.prems zone m(2) True free in auto)
      then show ?thesis using zone m True by (simp add: z insert_before_run_def Let_def)
    next
      case False
      then show ?thesis using zone m by (simp add: z insert_before_run_def Let_def)
    qed
  qed
qed simp

text \<open>C15: when all zone files and settings are fine, the start of the zone loader comes to an end
  exactly when there are at most ten zones: with more, it waits for ever for a channel that nothing
  reads yet.\<close>

theorem loader_start_iff:
  assumes "zone_tree_ok D" "hm_wf (zl_zones zl)" "insert_tsig_keys P (zl_tsig_keys zl) keys = (Ok (), ks)"
    and "loadable D P load zl ks" "\<forall>(n, p) \<in> set (zl_zones zl). d_tree_get D tree n Class_IN = None"
  shows "(\<exists>w. loader_start D P load empty_store zl tree keys = Some (Ok (), w)) \<longleftrightarrow> length (zl_zones zl) \<le> 10"
proof -
  let ?w = "\<lparr>lo_maintainer = with_zone_tree tree (ZoneMaintainer_new D), lo_channel = [], lo_updates = [], lo_keys = ks\<rparr>"
  have e: "zm_events (lo_maintainer ?w) = []" "zm_loaded_arc (lo_maintainer ?w) = tree" "lo_keys ?w = ks"
    by (simp_all add: with_zone_tree_def ZoneMaintainer_new_def)
  have "(\<exists>w'. start_zones D P load empty_store zl (zl_zones zl) ?w = Some (Ok (), w'))
      \<longleftrightarrow> length (zm_events (lo_maintainer ?w)) + length (zl_zones zl) \<le> event_capacity"
    by (rule start_zones_iff [OF assms(1)]) (use assms e in \<open>auto simp: hm_wf_def event_capacity_def\<close>)
  then show ?thesis using e(1) by (simp add: loader_start_def assms(3) event_capacity_def)
qed

text \<open>Eleven zones of other servers are one too many.\<close>

definition demo_zones :: "nat \<Rightarrow> ZoneLoader" where
  "demo_zones k = \<lparr>zl_zones = map (\<lambda>i. (replicate i CHR ''a'', [])) [0..<k], zl_xfr_in = [], zl_xfr_out = [],
     zl_tsig_keys = []\<rparr>"

definition demo_loader_params :: "(Algorithm \<times> bytes \<times> key_name) loader_params" where
  "demo_loader_params = \<lparr>lp_addr = \<lparr>ap_socket = (\<lambda>s. None), ap_ip = (\<lambda>s. None)\<rparr>, lp_key_name = Some,
     lp_key_api = example_api, lp_key_parsers = example_parsers, lp_algorithm = (\<lambda>a. 0)\<rparr>"

theorem loader_start_iff_witness:
  "(\<exists>w. loader_start demo_api demo_loader_params (\<lambda>n p. None) 0 (demo_zones 10) [] \<lparr>oks_poisoned = False, oks_keys = []\<rparr>
      = Some (Ok (), w))
   \<and> (\<nexists>w. loader_start demo_api demo_loader_params (\<lambda>n p. None) 0 (demo_zones 11) [] \<lparr>oks_poisoned = False, oks_keys = []\<rparr>
      = Some (Ok (), w))"
proof -
  let ?ks = "\<lparr>oks_poisoned = False, oks_keys = []\<rparr> :: (Algorithm \<times> bytes \<times> key_name) TsigKeyStore"
  have "(\<exists>w. loader_start demo_api demo_loader_params (\<lambda>n p. None) 0 (demo_zones k) [] ?ks = Some (Ok (), w))
      \<longleftrightarrow> k \<le> 10" for k
  proof -
    have inj: "inj (\<lambda>i. replicate i CHR ''a'')" by (rule injI) (metis length_replicate)
    have "hm_wf (zl_zones (demo_zones k))"
      by (simp add: hm_wf_def demo_zones_def comp_def distinct_map inj_on_subset [OF inj])
    moreover have "insert_tsig_keys demo_loader_params (zl_tsig_keys (demo_zones k)) ?ks = (Ok (), ?ks)"
      by (simp add: demo_zones_def)
    moreover have "loadable demo_api demo_loader_params (\<lambda>n p. None) (demo_zones k) ?ks"
      by (auto simp: loadable_def demo_zones_def)
    moreover have "\<forall>(n, p) \<in> set (zl_zones (demo_zones k)). d_tree_get demo_api [] n Class_IN = None"
      by (simp add: demo_api_def case_prod_unfold)
    ultimately have "(\<exists>w. loader_start demo_api demo_loader_params (\<lambda>n p. None) 0 (demo_zones k) [] ?ks = Some (Ok (), w))
        \<longleftrightarrow> length (zl_zones (demo_zones k)) \<le> 10"
      by (rule loader_start_iff [OF demo_api_ok(1)])
    then show ?thesis by (simp add: demo_zones_def)
  qed
  from this [of 10] this [of 11] show ?thesis by simp
qed

section \<open>Registered zones\<close>

lemma insert_primary:
  assumes "zone_tree_ok D" "d_tree_get D (zm_loaded_arc m) (tz_apex_name z) (tz_class z) = None"
    and "hm_get (zm_pending_zones m) (ZoneId_new (tz_apex_name z) (tz_class z)) = None"
    and "\<not> is_secondary (tz_zone_type z)" "\<not> zc_discover_notify_set (tz_zone_type z)"
  obtains m' r where "insert_zone D z m = (Ok (), m')" "d_tree_get D (zm_loaded_arc m') (tz_apex_name z) (tz_class z) = Some r"
    "mz_store (Zm_World.zone_at m' r) = tz_store z" "config_at m' r = tz_zone_type z" "zm_time_tracking m' = zm_time_tracking m"
    "zm_events m' = zm_events m @ [ZoneAdded (ZoneId_new (tz_apex_name z) (tz_class z))]"
    "\<And>now. on_event D now (ZoneAdded (ZoneId_new (tz_apex_name z) (tz_class z))) m' = (Ok (), m')"
proof -
  obtain r m1 where wr: "wrap_zone z m = (r, m1)" by fastforce
  then have m1: "zm_loaded_arc m1 = zm_loaded_arc m" "zm_events m1 = zm_events m" "r < length (zm_heap m1)"
    "zm_time_tracking m1 = zm_time_tracking m" "zm_pending_zones m1 = zm_pending_zones m"
    "Zm_World.zone_at m1 r = \<lparr>mz_apex_name = tz_apex_name z, mz_class = tz_class z, mz_store = tz_store z,
       mz_info = \<lparr>zi_catalog_member_id = None, zi_config = tz_zone_type z, zi_diffs = [], zi_nameservers = None,
       zi_expired = False\<rparr>\<rparr>"
    by (auto simp: wrap_zone_def Zm_World.zone_at_def)
  have id: "zone_id_at m1 r = ZoneId_new (tz_apex_name z) (tz_class z)"
    by (simp add: zone_id_at_def mz_id_def m1(6))
  obtain t where t: "d_tree_insert D (tz_apex_name z) (tz_class z) r (zm_loaded_arc m) = Inr t"
    using tree_insert_fails [OF assms(1)] assms(2) by (metis sum.exhaust)
  have u: "update_known_nameservers_for_zone D r m1 = (Ok (), m1)"
    using assms(5) wrap_config [OF wr] by (simp add: update_known_nameservers_for_zone_def)
  let ?m2 = "(send_event (ZoneAdded (ZoneId_new (tz_apex_name z) (tz_class z))) m1)\<lparr>zm_member_zones := t, zm_loaded_arc := t\<rparr>"
  have ins: "insert_zone D z m = (Ok (), ?m2)"
    using wr m1 t u assms(4) id by (simp add: insert_zone_def insert_zones_def Let_def)
  have z2: "Zm_World.zone_at ?m2 r = Zm_World.zone_at m1 r" by (simp add: Zm_World.zone_at_def send_event_def)
  have st: "mz_store (Zm_World.zone_at ?m2 r) = tz_store z" "config_at ?m2 r = tz_zone_type z"
    unfolding config_at_def z2 m1(6) by simp_all
  show thesis
    by (rule that [OF ins _ st]) (use tree_insert_get [OF assms(1) t] m1 assms(3) in \<open>simp_all add: send_event_def on_zone_added_def\<close>)
qed

text \<open>A zone that is registered with the address of a server, and for which no transfer settings
  were given at start-up, becomes active at once, empty and as a primary zone: the address is not
  used, nothing tracks the zone, and the event that it was added starts no refresh.\<close>

theorem registered_server_never_asked:
  assumes "zone_tree_ok D" "za_source reg = Server addr" "hm_get (zl_xfr_in zl) (za_name reg) = None"
    and "d_tree_get D (zm_loaded_arc (lo_maintainer w)) (za_name reg) Class_IN = None"
    and "hm_get (zm_pending_zones (lo_maintainer w)) (ZoneId_new (za_name reg) Class_IN) = None"
  shows "\<exists>w' r. on_register_zone D P load empty_store zl reg w = Some (Ok (), w')
    \<and> d_tree_get D (zm_loaded_arc (lo_maintainer w')) (za_name reg) Class_IN = Some r
    \<and> mz_store (Zm_World.zone_at (lo_maintainer w') r) = empty_store
    \<and> \<not> is_secondary (config_at (lo_maintainer w') r)
    \<and> zm_time_tracking (lo_maintainer w') = zm_time_tracking (lo_maintainer w)
    \<and> zm_events (lo_maintainer w') = zm_events (lo_maintainer w) @ [ZoneAdded (ZoneId_new (za_name reg) Class_IN)]
    \<and> (\<forall>now. on_event D now (ZoneAdded (ZoneId_new (za_name reg) Class_IN)) (lo_maintainer w') = (Ok (), lo_maintainer w'))
    \<and> (\<forall>addr'. on_register_zone D P load empty_store zl (reg\<lparr>za_source := Server addr'\<rparr>) w
         = on_register_zone D P load empty_store zl reg w)"
proof -
  let ?z = "\<lparr>tz_apex_name = za_name reg, tz_class = Class_IN, tz_store = empty_store, tz_zone_type = ZoneConfig_new\<rparr>"
  have sec: "register_secondary_zone P empty_store (za_name reg) source (zl_xfr_in zl) ks = Ok ?z" for source ks
    using assms(3) by (simp add: register_secondary_zone_def determine_secondary_zone_cfg_def)
  have new: "\<not> is_secondary ZoneConfig_new" "\<not> zc_discover_notify_set ZoneConfig_new"
    by (simp_all add: is_secondary_def ZoneConfig_new_def)
  obtain m r where m: "insert_zone D ?z (lo_maintainer w) = (Ok (), m)"
    "d_tree_get D (zm_loaded_arc m) (za_name reg) Class_IN = Some r" "mz_store (Zm_World.zone_at m r) = empty_store"
    "config_at m r = ZoneConfig_new" "zm_time_tracking m = zm_time_tracking (lo_maintainer w)"
    "zm_events m = zm_events (lo_maintainer w) @ [ZoneAdded (ZoneId_new (za_name reg) Class_IN)]"
    "\<And>now. on_event D now (ZoneAdded (ZoneId_new (za_name reg) Class_IN)) m = (Ok (), m)"
    using insert_primary [of D "lo_maintainer w" ?z] assms(1,4,5) new by auto
  have reg: "on_register_zone D P load empty_store zl (reg\<lparr>za_source := Server a\<rparr>) w = Some (Ok (), w\<lparr>lo_maintainer := m\<rparr>)" for a
    using m(1) sec by (simp add: on_register_zone_def)
  have reg': "on_register_zone D P load empty_store zl reg w = Some (Ok (), w\<lparr>lo_maintainer := m\<rparr>)"
    using m(1) sec assms(2) by (simp add: on_register_zone_def)
  show ?thesis
    using reg reg' m new(1) by (intro exI [of _ "w\<lparr>lo_maintainer := m\<rparr>"] exI [of _ r]) simp
qed

definition demo_add :: ZoneAdd where
  "demo_add = \<lparr>za_name = ''example'', za_source = Server (SocketAddr_new (V4 7) 53), za_policy = ''p''\<rparr>"

definition demo_loader_world :: "(demo_tree, Algorithm \<times> bytes \<times> key_name) loader_world" where
  "demo_loader_world = \<lparr>lo_maintainer = ZoneMaintainer_new demo_api, lo_channel = [], lo_updates = [],
     lo_keys = \<lparr>oks_poisoned = False, oks_keys = []\<rparr>\<rparr>"

theorem registered_server_never_asked_witness:
  "\<exists>w' r. on_register_zone demo_api demo_loader_params (\<lambda>n p. None) 0 (demo_zones 0) demo_add demo_loader_world
      = Some (Ok (), w')
    \<and> d_tree_get demo_api (zm_loaded_arc (lo_maintainer w')) ''example'' Class_IN = Some r
    \<and> \<not> is_secondary (config_at (lo_maintainer w') r)"
proof -
  have "za_source demo_add = Server (SocketAddr_new (V4 7) 53)" "hm_get (zl_xfr_in (demo_zones 0)) (za_name demo_add) = None"
    "d_tree_get demo_api (zm_loaded_arc (lo_maintainer demo_loader_world)) (za_name demo_add) Class_IN = None"
    "hm_get (zm_pending_zones (lo_maintainer demo_loader_world)) (ZoneId_new (za_name demo_add) Class_IN) = None"
    by (simp_all add: demo_add_def demo_zones_def demo_loader_world_def ZoneMaintainer_new_def demo_api_def)
  from registered_server_never_asked [OF demo_api_ok(1) this, of demo_loader_params "\<lambda>n p. None" 0]
  show ?thesis by (auto simp: demo_add_def)
qed

section \<open>Keys of transfers\<close>

text \<open>The loader uses the settings of its lists, the TSIG key among them, only for the server they
  name; nothing at start-up and no zone file names one, so there they are always replaced by the
  defaults.\<close>

theorem settings_replaced:
  assumes "hm_get xfr_in n = Some acl"
    and "parse_xfr_acl P acl acl_xfr_config NotifyConfig_default ks = Ok (src, x, nc)" "SocketAddr_port src \<noteq> 0"
  shows "\<exists>cfg. determine_secondary_zone_cfg P n source xfr_in ks = Ok cfg
    \<and> sdc_addrs (zc_request_xfr_from cfg) = [src]
    \<and> sdc_dst (zc_request_xfr_from cfg) src = Some (if source = Some src then x else XfrConfig_default)"
  using assms by (auto simp: determine_secondary_zone_cfg_def Let_def sdc_addrs_def hm_keys_def add_dst_def
      ZoneConfig_new_def SrcDstConfig_new_def hm_insert_def sdc_dst_def split: prod.splits if_splits)

end
