(* ===== verification/Zone_File.thy ===== *)
theory Zone_File
  imports Loader_Claims
begin

text \<open>
  Loading a zone file (\<open>load_file_into_zone\<close> of \<open>units/zone_loader.rs\<close>): every way it fails and what
  it logs, and what registering a zone with a file does with the result. The files and the parser of zone
  files are parameters.
\<close>

section \<open>Reading a file\<close>

text \<open>A file that is open is a token; errors are their texts. The parser gives its errors with the names
  they are about, or the zone.\<close>

record zone_files =
  zf_open :: "string \<Rightarrow> string + token"
  zf_len :: "token \<Rightarrow> string + nat"
  zf_read :: "token \<Rightarrow> string + token"
  zf_parse :: "token \<Rightarrow> (dname \<times> string) list + token"

definition parse_failure :: "(dname \<times> string) list \<Rightarrow> string" where
  "parse_failure errors = ''Failed to parse zone: '' @ show_nat (length errors) @ '' errors''
     @ concat (map (\<lambda>(name, err). ''  '' @ name @ '': '' @ err @ nl) errors)"

text \<open>The result and the lines of the log, with the seconds it took.\<close>

definition load_file_into_zone :: "zone_files \<Rightarrow> nat \<Rightarrow> dname \<Rightarrow> string \<Rightarrow> (Terminated, token) outcome \<times> string list" where
  "load_file_into_zone F seconds zone_name zone_path =
    (let begin_line = ''[ZL]: Loading primary zone '' @ quoted zone_name @ '' from '' @ quoted zone_path @ ''..'' in
     case zf_open F zone_path of
       Inl err \<Rightarrow> (Err Terminated, [begin_line, ''[ZL]: Error: Failed to open zone file '' @ quoted zone_path @ '': '' @ err])
     | Inr zone_file \<Rightarrow>
        (case zf_len F zone_file of
           Inl err \<Rightarrow> (Err Terminated, [begin_line, ''[ZL]: Error: Failed to read metadata for file '' @ quoted zone_path @ '': '' @ err])
         | Inr zone_file_len \<Rightarrow>
            (case zf_read F zone_file of
               Inl err \<Rightarrow> (Err Terminated, [begin_line, ''[ZL]: Error: Failed to read data from file '' @ quoted zone_path @ '': '' @ err])
             | Inr reader \<Rightarrow>
                (case zf_parse F reader of
                   Inl errors \<Rightarrow> (Err Terminated, [begin_line, ''[ZL]: Error parsing zone '' @ quoted zone_name @ '': '' @ parse_failure errors])
                 | Inr zone \<Rightarrow> (Ok zone, [begin_line, ''Loaded '' @ show_nat zone_file_len @ '' bytes from '' @ quoted zone_path
                     @ '' in '' @ show_nat seconds @ '' secs''])))))"

text \<open>The contents of a file as \<open>register_primary_zone\<close> uses them.\<close>

definition file_contents :: "zone_files \<Rightarrow> dname \<Rightarrow> string \<Rightarrow> token option" where
  "file_contents F zone_name zone_path = (case fst (load_file_into_zone F 0 zone_name zone_path) of Ok zone \<Rightarrow> Some zone | _ \<Rightarrow> None)"

lemma load_file_iff:
  "fst (load_file_into_zone F s n path) = Ok zone \<longleftrightarrow>
    (\<exists>file reader. zf_open F path = Inr file \<and> (\<exists>len. zf_len F file = Inr len) \<and> zf_read F file = Inr reader \<and> zf_parse F reader = Inr zone)"
  by (auto simp: load_file_into_zone_def Let_def split: sum.splits)

lemma load_file_no_panic: "fst (load_file_into_zone F s n path) \<noteq> Panic"
  by (auto simp: load_file_into_zone_def Let_def split: sum.splits)

section \<open>Registering a zone with a file\<close>

text \<open>A file whose SOA record gives a serial, with a channel that is not full: the zone becomes active with
  the contents of the file, and its version is announced.\<close>

lemma register_file_zone:
  assumes "zone_tree_ok D" "za_source reg = Zonefile path" "file_contents F (za_name reg) path = Some st"
    and "get_zone_serial D (za_name reg) st = Some s" "determine_primary_zone_cfg P (za_name reg) (zl_xfr_out zl) None (lo_keys w) = Ok cfg"
    and "d_tree_get D (zm_loaded_arc (lo_maintainer w)) (za_name reg) Class_IN = None"
    and "hm_get (zm_pending_zones (lo_maintainer w)) (ZoneId_new (za_name reg) Class_IN) = None"
    and "length (lo_channel w) < zone_updated_capacity" "\<not> is_secondary cfg" "\<not> zc_discover_notify_set cfg"
  obtains w' r where "on_register_zone D P (file_contents F) empty_store zl reg w = Some (Ok (), w')"
    "d_tree_get D (zm_loaded_arc (lo_maintainer w')) (za_name reg) Class_IN = Some r"
    "mz_store (Zm_World.zone_at (lo_maintainer w') r) = st" "lo_channel w' = lo_channel w @ [(za_name reg, s)]"
    "lo_updates w' = lo_updates w"
proof -
  let ?z = "\<lparr>tz_apex_name = za_name reg, tz_class = Class_IN, tz_store = st, tz_zone_type = cfg\<rparr>"
  let ?w = "w\<lparr>lo_channel := lo_channel w @ [(za_name reg, s)]\<rparr>"
  have z: "register_primary_zone D P (file_contents F) (za_name reg) path None (zl_xfr_out zl) w = Some (Ok ?z, ?w)"
    using assms(3-5,8) by (simp add: register_primary_zone_def send_zone_updated_def)
  obtain m r where m: "insert_zone D ?z (lo_maintainer w) = (Ok (), m)"
    "d_tree_get D (zm_loaded_arc m) (za_name reg) Class_IN = Some r" "mz_store (Zm_World.zone_at m r) = st"
    by (rule insert_primary [of D "lo_maintainer w" ?z]) (use assms(1,6,7,9,10) in \<open>auto intro: that\<close>)
  have "on_register_zone D P (file_contents F) empty_store zl reg w = Some (Ok (), ?w\<lparr>lo_maintainer := m\<rparr>)"
    using assms(2) z m(1) by (simp add: on_register_zone_def)
  then show thesis by (rule that) (use m in simp_all)
qed

text \<open>The settings of a primary zone: no server is asked for it, and no servers are looked for.\<close>

lemma primary_settings:
  assumes "determine_primary_zone_cfg P n xfr_out dest ks = Ok cfg"
  shows "\<not> is_secondary cfg \<and> \<not> zc_discover_notify_set cfg"
  using assms by (auto simp: determine_primary_zone_cfg_def Let_def ZoneConfig_new_def is_secondary_def
      split: option.splits outcome.splits prod.splits if_splits)

lemma primary_settings_default:
  "hm_get xfr_out n = None \<Longrightarrow> determine_primary_zone_cfg P n xfr_out dest ks = Ok ZoneConfig_new"
  by (simp add: determine_primary_zone_cfg_def)

text \<open>A file that cannot be loaded changes nothing but the log.\<close>

lemma register_bad_file:
  assumes "za_source reg = Zonefile path" "file_contents F (za_name reg) path = None"
  shows "on_register_zone D P (file_contents F) empty_store zl reg w = Some (Ok (), w)"
  using assms by (simp add: on_register_zone_def register_primary_zone_def)

end
