(* ===== verification/End_To_End.thy ===== *)
theory End_To_End
  imports Client Zone_File
begin

text \<open>
  From the command line to the units: what adding a zone with the client does in the program as it
  is started, through the HTTP server and the queue of the loader to the zone maintainer.
\<close>

section \<open>A zone of a server\<close>

text \<open>A new zone with a policy that is known.\<close>

lemma http_zone_add_known_policy:
  assumes "alive c" "links_ok c" "hm_get (zones_of c) (za_name reg) = None"
    and "hm_get (policies_of c) (za_policy reg) = Some p" "\<not> po_mid_deletion p"
  shows "\<exists>c1. http_zone_add reg c = (Ok \<lparr>zar_name = za_name reg, zar_status = ''Submitted''\<rparr>, c1, [(''ZL'', RegisterZone reg)])
    \<and> zone_policy c1 (za_name reg) = Some (za_policy reg) \<and> links_ok c1 \<and> alive c1"
proof -
  let ?n = "za_name reg"
  obtain c1 where add: "add_zone ?n c = (Ok (), c1)"
    using add_zone_result(2) [OF assms(1,2,3)] by (metis prod.collapse)
  have c1: "alive c1" "links_ok c1" "hm_get (zones_of c1) ?n \<noteq> None"
    using add_zone_links [OF assms(1,2), of ?n] add by auto
  have "policies_of c1 = policies_of c"
    using add assms(1,3) by (auto simp: add_zone_def zalloc_def alive_def Let_def)
  then obtain c2 where c2: "change_policy ?n (za_policy reg) c1 = (Ok (), c2)" "links_ok c2" "alive c2"
      "zone_policy c2 = (zone_policy c1)(?n \<mapsto> za_policy reg)"
    using change_policy_known [OF c1(1,2) _ _ assms(5), of ?n _ "za_policy reg"] c1(3) assms(4) by auto
  with add show ?thesis by (simp add: http_zone_add_def)
qed

lemma spawned_loader:
  assumes "spawn_units e = Ok units" "(u, LoaderUnit zl) \<in> set units"
  shows "u = ''ZL''" and "hm_get (zl_xfr_in zl) n \<noteq> None \<Longrightarrow> se_name e (var_or e ''ZL_IN_ZONE'' ''example.com.'') = Some n"
    and "hm_get (zl_xfr_out zl) n \<noteq> None \<Longrightarrow> se_name e (var_or e ''ZL_IN_ZONE'' ''example.com.'') = Some n"
proof -
  obtain zone_name l1 l2 l3 http where u: "se_name e (var_or e ''ZL_IN_ZONE'' ''example.com.'') = Some zone_name"
    "units = [(''ZL'', LoaderUnit (spawn_loader e zone_name)), (''RS'', ServerUnit (spawn_rs e zone_name l1)),
       (''KM'', KeyUnit spawn_km), (''ZS'', SignerUnit (spawn_signer e)), (''RS2'', ServerUnit (spawn_rs2 zone_name l2)),
       (''PS'', ServerUnit (spawn_ps zone_name l3)), (''HS'', HttpUnit http)]"
    by (rule spawn_OkE [OF assms(1)])
  have zl: "zl = spawn_loader e zone_name" and "u = ''ZL''" using assms(2) by (auto simp: u(2))
  then show "u = ''ZL''" by simp
  show "hm_get (zl_xfr_in zl) n \<noteq> None \<Longrightarrow> se_name e (var_or e ''ZL_IN_ZONE'' ''example.com.'') = Some n"
    "hm_get (zl_xfr_out zl) n \<noteq> None \<Longrightarrow> se_name e (var_or e ''ZL_IN_ZONE'' ''example.com.'') = Some n"
    using u(1) by (auto simp: zl spawn_loader_def split: if_splits)
qed

text \<open>Adding a new zone with a policy that is known: the client reports a success, the zone gets its policy,
  and the loader is sent the registration.\<close>

lemma client_adds_zone:
  assumes "serde_ok (hp_wire P)" "router_ok (hp_route P)" "url_join_ok E" "ca_command args = CliZone (ZcAdd n src pol)"
    and "alive c" "links_ok c" "hm_get (zones_of c) n = None" "hm_get (policies_of c) pol = Some p" "\<not> po_mid_deletion p"
  obtains c' where "cli_execute E P args trees c
      = (Ok [''Registered zone '' @ n], c', [(''ZL'', RegisterZone \<lparr>za_name = n, za_source = src, za_policy = pol\<rparr>)])"
    "zone_policy c' n = Some pol"
proof -
  let ?reg = "\<lparr>za_name = n, za_source = src, za_policy = pol\<rparr>"
  obtain c' where c': "http_zone_add ?reg c = (Ok \<lparr>zar_name = n, zar_status = ''Submitted''\<rparr>, c', [(''ZL'', RegisterZone ?reg)])"
      "zone_policy c' n = Some pol"
    using http_zone_add_known_policy [OF assms(5,6), of ?reg p] assms(7-9) by auto
  have "names_ok P (ca_command args)" by (simp add: assms(4) names_ok_def)
  from execute_effect [OF assms(1-3) this, of trees c]
  have "cli_execute E P args trees c = (Ok [''Registered zone '' @ n], c', [(''ZL'', RegisterZone ?reg)])"
    by (simp add: assms(4) c')
  then show thesis using c'(2) by (rule that)
qed

text \<open>C13: in the program as it is started, adding a new zone with the client, a known policy and the
  address of a server is reported as a success and gives the zone its policy, and the loader takes the
  command; but unless the zone is the one named in the environment, it becomes active at once, empty and as
  a primary zone, whatever the address: nothing tracks it and no server is ever asked for it.\<close>

theorem added_server_zone_never_loaded:
  assumes "spawn_units e = Ok units" "(''ZL'', LoaderUnit zl) \<in> set units"
    and "se_name e (var_or e ''ZL_IN_ZONE'' ''example.com.'') \<noteq> Some n"
    and "serde_ok (hp_wire P)" "router_ok (hp_route P)" "url_join_ok E"
    and "ca_command args = CliZone (ZcAdd n (Server addr) pol)"
    and "alive c" "links_ok c" "hm_get (zones_of c) n = None" "hm_get (policies_of c) pol = Some p" "\<not> po_mid_deletion p"
    and "zone_tree_ok D" "d_tree_get D (zm_loaded_arc (lo_maintainer w)) n Class_IN = None"
    and "hm_get (zm_pending_zones (lo_maintainer w)) (ZoneId_new n Class_IN) = None"
  shows "\<exists>c' reg w' r. cli_execute E P args trees c = (Ok [''Registered zone '' @ n], c', [(''ZL'', RegisterZone reg)])
    \<and> zone_policy c' n = Some pol
    \<and> loader_command D LP load empty_store zl (Some (RegisterZone reg)) w = Some (Ok (), w')
    \<and> d_tree_get D (zm_loaded_arc (lo_maintainer w')) n Class_IN = Some r
    \<and> mz_store (Zm_World.zone_at (lo_maintainer w') r) = empty_store
    \<and> \<not> is_secondary (config_at (lo_maintainer w') r)
    \<and> zm_time_tracking (lo_maintainer w') = zm_time_tracking (lo_maintainer w)
    \<and> (\<forall>now. on_event D now (ZoneAdded (ZoneId_new n Class_IN)) (lo_maintainer w') = (Ok (), lo_maintainer w'))"
proof -
  let ?reg = "\<lparr>za_name = n, za_source = Server addr, za_policy = pol\<rparr>"
  have none: "hm_get (zl_xfr_in zl) (za_name ?reg) = None"
    using spawned_loader(2) [OF assms(1,2), of n] assms(3) by (cases "hm_get (zl_xfr_in zl) n") auto
  obtain w' r where w': "on_register_zone D LP load empty_store zl ?reg w = Some (Ok (), w')"
      "d_tree_get D (zm_loaded_arc (lo_maintainer w')) n Class_IN = Some r"
      "mz_store (Zm_World.zone_at (lo_maintainer w') r) = empty_store"
      "\<not> is_secondary (config_at (lo_maintainer w') r)"
      "zm_time_tracking (lo_maintainer w') = zm_time_tracking (lo_maintainer w)"
      "\<forall>now. on_event D now (ZoneAdded (ZoneId_new n Class_IN)) (lo_maintainer w') = (Ok (), lo_maintainer w')"
    using registered_server_never_asked [OF assms(13) _ none, of addr w LP load empty_store] assms(14,15) by auto
  obtain c' where c': "cli_execute E P args trees c = (Ok [''Registered zone '' @ n], c', [(''ZL'', RegisterZone ?reg)])"
      "zone_policy c' n = Some pol"
    by (rule client_adds_zone [OF assms(4-12)])
  with w' show ?thesis by (intro exI [of _ c'] exI [of _ ?reg] exI [of _ w'] exI [of _ r]) simp
qed

definition demo_policy :: Policy where
  "demo_policy = PfFile_parse (PfFile.V1 PfSpec_default) ''p''"

definition demo_center :: "token Center" where
  "demo_center = set_policies [(''p'', demo_policy)] new_center"

lemma demo_center_ok: "alive demo_center" "links_ok demo_center" "hm_get (zones_of demo_center) n = None"
  "hm_get (policies_of demo_center) ''p'' = Some demo_policy" "\<not> po_mid_deletion demo_policy"
proof -
  show "alive demo_center" "hm_get (zones_of demo_center) n = None" "hm_get (policies_of demo_center) ''p'' = Some demo_policy"
    "\<not> po_mid_deletion demo_policy"
    by (simp_all add: demo_center_def demo_policy_def alive_def new_center_def set_policies_def State_new_def)
  show "links_ok demo_center"
    by (auto simp: links_ok_def zones_ok_def zone_policy_def policy_zones_def demo_center_def demo_policy_def
        new_center_def set_policies_def State_new_def split: option.splits if_splits)
qed

theorem added_server_zone_never_loaded_witness:
  "\<exists>c' reg w' r. cli_execute demo_cli demo_http
        (demo_args (CliZone (ZcAdd ''example'' (Server (SocketAddr_new (V4 7) 53)) ''p''))) demo_trees demo_center
      = (Ok [''Registered zone example''], c', [(''ZL'', RegisterZone reg)])
    \<and> zone_policy c' ''example'' = Some ''p''
    \<and> loader_command demo_api demo_loader_params (\<lambda>n p. None) 0 (spawn_loader demo_spawn ''example.com.'')
        (Some (RegisterZone reg)) demo_loader_world = Some (Ok (), w')
    \<and> d_tree_get demo_api (zm_loaded_arc (lo_maintainer w')) ''example'' Class_IN = Some r
    \<and> \<not> is_secondary (config_at (lo_maintainer w') r)"
proof -
  have h: "(''ZL'', LoaderUnit (spawn_loader demo_spawn ''example.com.'')) \<in> set demo_units"
    "se_name demo_spawn (var_or demo_spawn ''ZL_IN_ZONE'' ''example.com.'') \<noteq> Some ''example''"
    "serde_ok (hp_wire demo_http)" "router_ok (hp_route demo_http)"
    "ca_command (demo_args (CliZone (ZcAdd ''example'' (Server (SocketAddr_new (V4 7) 53)) ''p'')))
       = CliZone (ZcAdd ''example'' (Server (SocketAddr_new (V4 7) 53)) ''p'')"
    by (simp_all add: demo_units_def demo_spawn_def var_or_def demo_names)
  have w: "d_tree_get demo_api (zm_loaded_arc (lo_maintainer demo_loader_world)) ''example'' Class_IN = None"
    "hm_get (zm_pending_zones (lo_maintainer demo_loader_world)) (ZoneId_new ''example'' Class_IN) = None"
    by (simp_all add: demo_loader_world_def ZoneMaintainer_new_def demo_api_def)
  show ?thesis
    using added_server_zone_never_loaded [OF demo_spawned h(1-4) demo_cli_ok h(5) demo_center_ok demo_api_ok(1) w,
        of demo_trees demo_loader_params "\<lambda>n p. None" 0]
    by fastforce
qed

section \<open>A zone of a file\<close>







end
