(* ===== verification/Daemon.thy ===== *)
theory Daemon
  imports Tsig
begin

text \<open>
  The life of the daemon's global state: the loading of everything at start-up (the first half of
  \<open>main\<close> in \<open>src/main.rs\<close>), the operations as the steps of a state machine, and the
  invariant that every reachable state keeps. A restart, the composition of what was saved and
  the loading, is where the agreement of zones and policies is lost.
\<close>

section \<open>Start-up\<close>

text \<open>The files: each function reads one kind of file at a path.\<close>

record files =
  fl_state :: "utf8path \<Rightarrow> io_error + SfFile"
  fl_config :: "utf8path \<Rightarrow> FileError + CfFile"
  fl_policy_dir :: "utf8path \<Rightarrow> io_error + dir_entry list"
  fl_policy :: "utf8path \<Rightarrow> policy_loader"
  fl_zone :: "utf8path \<Rightarrow> dname \<Rightarrow> io_error + ZsFile"
  fl_tsig :: "utf8path \<Rightarrow> io_error + TsFile"

datatype startup_error =
    StateLoad io_error
  | Configure ConfigError
  | PolicyLoad io_error
  | ZoneLoad dname io_error
  | TsigLoad io_error

text \<open>The loop over the zones of a loaded state.\<close>

fun load_zones :: "(dname \<Rightarrow> io_error + ZsFile) \<Rightarrow> (dname \<times> zref) list \<Rightarrow> zheap \<Rightarrow> policies
    \<Rightarrow> (startup_error, unit) outcome \<times> zheap \<times> policies"
where
  "load_zones load [] heap policies = (Ok (), heap, policies)"
| "load_zones load ((name, zone) # rest) heap policies = (case load name of
      Inl e \<Rightarrow> (Err (ZoneLoad name e), heap, policies)
    | Inr spec \<Rightarrow>
        (let (state, policies) = ZsFile_parse_into spec (zn_state (heap ! zone)) policies
         in load_zones load rest (zset zone state heap) policies))"

definition load_tsig :: "'k key_api \<Rightarrow> files \<Rightarrow> 'k State \<Rightarrow> zheap \<Rightarrow> (startup_error, 'k State \<times> zheap) outcome" where
  "load_tsig api d state heap = (case fl_tsig d (cfg_tsig_store_path (st_config state)) of
      Inr spec \<Rightarrow> (case TsFile_parse api spec (st_tsig_store state) of
          Ok store \<Rightarrow> Ok (state \<lparr> st_tsig_store := store \<rparr>, heap)
        | Err e \<Rightarrow> Panic
        | Panic \<Rightarrow> Panic)
    | Inl e \<Rightarrow> if e = io_error.NotFound then Ok (state, heap) else Err (TsigLoad e))"

definition main_load :: "'k key_api \<Rightarrow> files \<Rightarrow> Config \<Rightarrow> (startup_error, 'k State \<times> zheap) outcome" where
  "main_load api d config = (case State_init_from_file (fl_state d) (State_new config) [] of
      (Err e, state, heap) \<Rightarrow>
        if e \<noteq> io_error.NotFound then Err (StateLoad e)
        else (case Config_init_from_file (fl_config d) (st_config state) of
            (Err ce, _) \<Rightarrow> Err (Configure ce)
          | (Panic, _) \<Rightarrow> Panic
          | (Ok _, config) \<Rightarrow>
              (let state = state \<lparr> st_config := config \<rparr> in
               case reload_all (fl_policy_dir d (cfg_policy_dir config)) (fl_policy d (cfg_policy_dir config)) (st_policies state) of
                 (Err pe, _) \<Rightarrow> Err (PolicyLoad pe)
               | (Panic, _) \<Rightarrow> Panic
               | (Ok _, policies) \<Rightarrow> load_tsig api d (state \<lparr> st_policies := policies \<rparr>) heap))
    | (Panic, _, _) \<Rightarrow> Panic
    | (Ok _, state, heap) \<Rightarrow>
        (case load_zones (fl_zone d (cfg_zone_state_dir (st_config state))) (st_zones state) heap (st_policies state) of
          (Err ze, _, _) \<Rightarrow> Err ze
        | (Panic, _, _) \<Rightarrow> Panic
        | (Ok _, heap, policies) \<Rightarrow> load_tsig api d (state \<lparr> st_policies := policies \<rparr>) heap))"

text \<open>The center that \<open>main\<close> builds.\<close>

definition Center_start :: "'k State \<Rightarrow> zheap \<Rightarrow> 'k Center" where
  "Center_start state heap = \<lparr> ce_state = state, ce_heap = heap, ce_poisoned = False, ce_update_open = True,
     ce_updates = [], ce_tasks = [], ce_next_task = 0, ce_writes = [] \<rparr>"

lemma Center_start_simps [simp]:
  "ce_state (Center_start s h) = s" "ce_heap (Center_start s h) = h" "alive (Center_start s h)"
  "ce_poisoned (Center_start s h) = False" "ce_update_open (Center_start s h)"
  by (simp_all add: Center_start_def alive_def)

section \<open>The steps\<close>


definition daemon_ok :: "'k Center \<Rightarrow> bool" where
  "daemon_ok c \<longleftrightarrow> alive c \<and> links_ok c \<and> center_ok c \<and> hm_wf (ts_map (tsig_of c))"

lemma daemon_okD:
  "daemon_ok c \<Longrightarrow> alive c" "daemon_ok c \<Longrightarrow> links_ok c" "daemon_ok c \<Longrightarrow> center_ok c"
  "daemon_ok c \<Longrightarrow> hm_wf (ts_map (tsig_of c))" "daemon_ok c \<Longrightarrow> zones_ok c"
  by (simp_all add: daemon_ok_def links_ok_def)


lemma tsig_frame [simp, frame_simps]:
  "tsig_of (State_mark_dirty c) = tsig_of c" "tsig_of (Zone_mark_dirty r c) = tsig_of c"
  "tsig_of (send_change x c) = tsig_of c" "tsig_of (set_policies p c) = tsig_of c" "tsig_of (set_zstate r z c) = tsig_of c"
  by (simp_all add: State_mark_dirty_def Zone_mark_dirty_def spawn_def)


lemma alive_TsigStore_mark_dirty [simp]: "alive (TsigStore_mark_dirty c) = alive c"
  by (simp add: alive_def)


section \<open>Every operation keeps the invariant and none panics\<close>

lemma add_zone_center_ok: "center_ok c \<Longrightarrow> alive c \<Longrightarrow> center_ok (snd (add_zone n c))"
proof -
  assume ok: "center_ok c" and al: "alive c"
  define c1 where "c1 = c \<lparr> ce_heap := ce_heap c @ [Zone_new n] \<rparr>"
  have h: "handle_of c1 j = Some t \<Longrightarrow> handle_of c j = Some t" for j t
    by (cases j) (auto simp: c1_def nth_append Zone_new_def ZoneState_default_def split: if_splits)
  have ok1: "center_ok c1"
    using ok h by (auto simp: center_ok_def c1_def intro: tasks_ok_frame [of c])
  define c2 where "c2 = send_change (ZoneAdded n) (set_zones (hm_insert n (length (ce_heap c)) (zones_of c)) c1)"
  have "handle_of c2 = handle_of c1" by (rule ext, case_tac x; simp add: c2_def)
  then have "center_ok c2"
    using ok1 by (auto simp: center_ok_def c2_def intro: tasks_ok_frame [of c1])
  then have "center_ok (Zone_mark_dirty r (State_mark_dirty c2))" for r by simp
  moreover have "snd (add_zone n c) = (if hm_get (zones_of c) n \<noteq> None then c1
      else Zone_mark_dirty (length (ce_heap c)) (State_mark_dirty c2))"
    using al by (simp add: add_zone_def zalloc_def alive_def Let_def c1_def c2_def)
  ultimately show ?thesis using ok1 by simp
qed

lemma add_zone_tsig [simp]: "tsig_of (snd (add_zone n c)) = tsig_of c"
  by (simp add: add_zone_def zalloc_def Let_def poison_def)

lemma add_zone_daemon:
  assumes "daemon_ok c"
  shows "daemon_ok (snd (add_zone n c)) \<and> fst (add_zone n c) \<noteq> Panic"
  using add_zone_links [OF daemon_okD(1) [OF assms] daemon_okD(2) [OF assms]] add_zone_result [OF daemon_okD(1) [OF assms] daemon_okD(2) [OF assms]]
    add_zone_center_ok [OF daemon_okD(3) [OF assms] daemon_okD(1) [OF assms]] daemon_okD(4) [OF assms]
  by (cases "hm_get (zones_of c) n") (auto simp: daemon_ok_def)


























text \<open>A first start, with no state file, establishes the invariant.\<close>

lemma fresh_center_ok: "st_enqueued_save s = None \<Longrightarrow> ts_enqueued_save (st_tsig_store s) = None
  \<Longrightarrow> (\<And>r. r < length h \<Longrightarrow> zst_enqueued_save (zn_state (h ! r)) = None) \<Longrightarrow> center_ok (Center_start s h)"
proof -
  assume a: "st_enqueued_save s = None" "ts_enqueued_save (st_tsig_store s) = None"
    "\<And>r. r < length h \<Longrightarrow> zst_enqueued_save (zn_state (h ! r)) = None"
  have "handle_of (Center_start s h) j = None" for j using a by (cases j) auto
  then show ?thesis by (simp add: center_ok_def tasks_ok_def tasks_wf_def) (simp add: Center_start_def)
qed

lemma reload_all_fresh_policies:
  assumes "reload_all dir load [] = (Ok (), ps)"
  shows "hm_wf ps \<and> (\<forall>n p. hm_get ps n = Some p \<longrightarrow> pv_name (po_latest p) = n \<and> po_zones p = [])"
proof -
  obtain es where es: "dir = Inr es" using assms by (cases dir) (simp_all add: reload_all_def)
  have ok: "list_all (entry_readable load) es" "distinct (map fst (policy_files load es))"
    using reload_all_ok_iff [of "[]" es load] assms by (simp_all add: es)
  obtain ps' where "reload_all (Inr es) load [] = (Ok (), ps')" "hm_wf ps'"
    and g: "\<And>n. hm_get ps' n = reloaded (policy_files load es) [] n"
    using reload_all_ok [OF ok hm_wf_Nil] by blast
  with assms have "ps = ps'" by (simp add: es)
  with \<open>hm_wf ps'\<close> g show ?thesis
    by (auto simp: reloaded_def merge_policy_def split: option.splits)
qed

lemma load_tsig_result:
  assumes "load_tsig api d s h = Ok (s', h')" "key_api_ok api" "hm_wf (ts_map (st_tsig_store s))"
    and "\<And>p f. fl_tsig d p = Inr (TsFile.V1 f) \<Longrightarrow> hm_wf (tss_map f)"
  shows "h' = h \<and> (\<exists>m. hm_wf m \<and> s' = s \<lparr> st_tsig_store := (st_tsig_store s) \<lparr> ts_map := m \<rparr> \<rparr>)"
proof (cases "fl_tsig d (cfg_tsig_store_path (st_config s))")
  case (Inl e)
  then have "s' = s" "h' = h" using assms(1) by (auto simp: load_tsig_def split: if_splits)
  then show ?thesis using assms(3) by (intro conjI exI [of _ "ts_map (st_tsig_store s)"]) simp_all
next
  case (Inr f)
  obtain g where g: "f = TsFile.V1 g" by (cases f)
  with Inr assms(4) have wf: "hm_wf (tss_map g)" by blast
  from TsSpec_parse_ok [OF assms(2) wf assms(3)] Inr g assms(1) show ?thesis
    by (auto simp: load_tsig_def)
qed

lemma first_start_ok:
  assumes "key_api_ok api" "\<And>p. fl_state d p = Inl io_error.NotFound"
    and "\<And>p f. fl_tsig d p = Inr (TsFile.V1 f) \<Longrightarrow> hm_wf (tss_map f)"
    and "main_load api d config = Ok (state, heap)"
  shows "daemon_ok (Center_start state heap)"
proof -
  obtain c ps where ps: "reload_all (fl_policy_dir d (cfg_policy_dir c)) (fl_policy d (cfg_policy_dir c)) [] = (Ok (), ps)"
    and t: "load_tsig api d ((State_new config) \<lparr> st_config := c, st_policies := ps \<rparr>) [] = Ok (state, heap)"
    using assms(4) by (auto simp: main_load_def State_init_from_file_def assms(2) Let_def State_new_def
        split: prod.splits outcome.splits)
  have "heap = [] \<and> (\<exists>m. hm_wf m \<and> state = (State_new config) \<lparr> st_config := c, st_policies := ps \<rparr>
      \<lparr> st_tsig_store := (st_tsig_store ((State_new config) \<lparr> st_config := c, st_policies := ps \<rparr>)) \<lparr> ts_map := m \<rparr> \<rparr>)"
    by (rule load_tsig_result [OF t assms(1)]) (simp_all add: State_new_def TsigStore_new_def assms(3))
  then obtain m where s: "heap = []" "hm_wf m"
    "state = (State_new config) \<lparr> st_config := c, st_policies := ps, st_tsig_store := TsigStore_new \<lparr> ts_map := m \<rparr> \<rparr>"
    by (auto simp: State_new_def)
  have "center_ok (Center_start state heap)"
    by (rule fresh_center_ok) (simp_all add: s State_new_def TsigStore_new_def)
  moreover have "links_ok (Center_start state heap)"
    using reload_all_fresh_policies [OF ps]
    by (auto simp: links_ok_def zones_ok_def zone_policy_def policy_zones_def s State_new_def split: option.splits)
  ultimately show ?thesis using s(2) by (simp add: daemon_ok_def s(3))
qed

section \<open>Properties\<close>


definition example_files :: files where
  "example_files = \<lparr> fl_state = (\<lambda>_. Inl io_error.NotFound), fl_config = (\<lambda>_. Inr (CfV1 CfSpec_default)),
     fl_policy_dir = (\<lambda>_. Inr example_dir), fl_policy = (\<lambda>_. example_load),
     fl_zone = (\<lambda>_ _. Inl io_error.NotFound), fl_tsig = (\<lambda>_. Inl io_error.NotFound) \<rparr>"

lemma example_reload: "\<exists>ps. reload_all (Inr example_dir) example_load [] = (Ok (), ps) \<and> hm_wf ps
  \<and> (\<forall>n. hm_get ps n = (if n = ''a'' then Some (PfFile_parse (PfFile.V1 PfSpec_default) ''a'') else None))"
  using reload_all_ok [OF example_files(2), of "[]"]
  by (auto simp: example_files reloaded_def merge_policy_def split: if_splits simp del: PfFile_parse.simps)

lemma example_start: "\<exists>state heap ps. main_load example_api example_files Config_default = Ok (state, heap)
  \<and> st_policies state = ps \<and> st_zones state = [] \<and> heap = []
  \<and> hm_get ps ''a'' = Some (PfFile_parse (PfFile.V1 PfSpec_default) ''a'')"
  using example_reload
  by (auto simp: main_load_def example_files_def State_init_from_file_def Config_init_from_file_def
      load_tsig_def State_new_def Let_def simp del: PfFile_parse.simps)


text \<open>The abstract view: which zones there are, and the policy of each.\<close>

definition zone_table :: "'k Center \<Rightarrow> dname \<Rightarrow> string option option" where
  "zone_table c n = (if n \<in> dom (hm_get (zones_of c)) then Some (zone_policy c n) else None)"

definition table_add :: "dname \<Rightarrow> (dname \<Rightarrow> string option option) \<Rightarrow> (dname \<Rightarrow> string option option)" where
  "table_add n t = (if t n = None then t(n \<mapsto> None) else t)"

lemma zone_policy_none: "hm_get (zones_of c) n = None \<Longrightarrow> zone_policy c n = None"
  by (simp add: zone_policy_def)

text \<open>C10: adding a zone, giving it a policy and removing it implement the update of a table from
  zone names to an optional policy: each succeeds exactly when the table and the known policies
  allow it, then has exactly the table's effect, and otherwise leaves the table as it was. It holds
  while zones and policies agree and the lock is not poisoned (\<open>daemon_ok\<close>): after a first start, but
  not after a restart with a zone that has a policy, where these operations can panic.\<close>

theorem zone_ops_refine_table:
  assumes "daemon_ok c"
  shows "zone_table (snd (add_zone n c)) = table_add n (zone_table c)
    \<and> (fst (add_zone n c) = Ok () \<longleftrightarrow> zone_table c n = None)
    \<and> zone_table (snd (remove_zone n c)) = (zone_table c)(n := None)
    \<and> (fst (remove_zone n c) = Ok () \<longleftrightarrow> zone_table c n \<noteq> None)
    \<and> (fst (change_policy n p c) = Ok () \<longleftrightarrow> zone_table c n \<noteq> None \<and> mid_deletion_of c p = Some False)
    \<and> zone_table (snd (change_policy n p c)) =
        (if fst (change_policy n p c) = Ok () then (zone_table c)(n \<mapsto> Some p) else zone_table c)"
proof (intro conjI)
  note al = daemon_okD(1) [OF assms] and lk = daemon_okD(2) [OF assms]
  show "zone_table (snd (add_zone n c)) = table_add n (zone_table c)"
    using add_zone_links [OF al lk, of n]
    by (simp add: fun_eq_iff zone_table_def table_add_def domIff zone_policy_none)
  show "fst (add_zone n c) = Ok () \<longleftrightarrow> zone_table c n = None"
    using add_zone_result [OF al lk, of n] by (auto simp: zone_table_def domIff)
  show "zone_table (snd (remove_zone n c)) = (zone_table c)(n := None)"
    and "fst (remove_zone n c) = Ok () \<longleftrightarrow> zone_table c n \<noteq> None"
  proof -
    have "zone_table (snd (remove_zone n c)) = (zone_table c)(n := None)
      \<and> (fst (remove_zone n c) = Ok () \<longleftrightarrow> zone_table c n \<noteq> None)"
    proof (cases "hm_get (zones_of c) n")
      case None
      with remove_zone_unknown [OF al None] show ?thesis by (simp add: fun_eq_iff zone_table_def domIff)
    next
      case (Some r)
      from remove_zone_known [OF al lk Some] obtain c' where c': "remove_zone n c = (Ok (), c')"
        "zone_policy c' = (zone_policy c)(n := None)"
        "dom (hm_get (zones_of c')) = dom (hm_get (zones_of c)) - {n}" by blast
      have "n \<in> dom (hm_get (zones_of c))" using Some by blast
      with c' show ?thesis by (simp add: fun_eq_iff zone_table_def)
    qed
    then show "zone_table (snd (remove_zone n c)) = (zone_table c)(n := None)"
      "fst (remove_zone n c) = Ok () \<longleftrightarrow> zone_table c n \<noteq> None" by simp_all
  qed
  have "(fst (change_policy n p c) = Ok () \<longleftrightarrow> zone_table c n \<noteq> None \<and> mid_deletion_of c p = Some False)
    \<and> zone_table (snd (change_policy n p c)) =
        (if fst (change_policy n p c) = Ok () then (zone_table c)(n \<mapsto> Some p) else zone_table c)"
  proof (cases "\<exists>r q. hm_get (zones_of c) n = Some r \<and> hm_get (policies_of c) p = Some q \<and> \<not> po_mid_deletion q")
    case True
    then obtain r q where h: "hm_get (zones_of c) n = Some r" "hm_get (policies_of c) p = Some q" "\<not> po_mid_deletion q" by blast
    from change_policy_known [OF al lk h] obtain c' where c': "change_policy n p c = (Ok (), c')"
      "zone_policy c' = (zone_policy c)(n \<mapsto> p)" "zones_of c' = zones_of c" by blast
    have "n \<in> dom (hm_get (zones_of c))" using h by blast
    with c' h show ?thesis by (simp add: fun_eq_iff zone_table_def mid_deletion_of_def)
  next
    case False
    then have "snd (change_policy n p c) = c \<and> fst (change_policy n p c) \<noteq> Ok ()"
      using al by (auto simp: change_policy_def alive_def split: option.splits)
    with False show ?thesis by (auto simp: zone_table_def mid_deletion_of_def split: option.splits)
  qed
  then show "fst (change_policy n p c) = Ok () \<longleftrightarrow> zone_table c n \<noteq> None \<and> mid_deletion_of c p = Some False"
    "zone_table (snd (change_policy n p c)) =
        (if fst (change_policy n p c) = Ok () then (zone_table c)(n \<mapsto> Some p) else zone_table c)" by simp_all
qed

lemma example_daemon_ok:
  "\<exists>c :: (Algorithm \<times> bytes \<times> key_name) Center. daemon_ok c \<and> mid_deletion_of c ''a'' = Some False \<and> zone_table c = Map.empty"
proof -
  obtain state heap where s: "main_load example_api example_files Config_default = Ok (state, heap)"
    "st_zones state = []" "hm_get (st_policies state) ''a'' = Some (PfFile_parse (PfFile.V1 PfSpec_default) ''a'')"
    using example_start by blast
  have "daemon_ok (Center_start state heap)"
    using first_start_ok [OF example_api_ok _ _ s(1)] by (simp add: example_files_def)
  moreover have "mid_deletion_of (Center_start state heap) ''a'' = Some False" using s(3) by (simp add: mid_deletion_of_def)
  moreover have "zone_table (Center_start state heap) = Map.empty" using s(2) by (simp add: fun_eq_iff zone_table_def)
  ultimately show ?thesis by blast
qed

theorem zone_ops_refine_table_witness:
  "\<exists>c :: (Algorithm \<times> bytes \<times> key_name) Center. daemon_ok c \<and> zone_table c = Map.empty
    \<and> zone_table (snd (add_zone ''nl'' c)) = [''nl'' \<mapsto> None]
    \<and> fst (change_policy ''nl'' ''a'' c) \<noteq> Ok ()"
proof -
  obtain c :: "(Algorithm \<times> bytes \<times> key_name) Center" where c: "daemon_ok c" "zone_table c = Map.empty"
    using example_daemon_ok by blast
  then show ?thesis
    using zone_ops_refine_table [OF c(1), of "''nl''" "''a''"] by (auto simp: table_add_def)
qed

section \<open>Restarting\<close>

lemma SfSpec_zones_wf: "hm_wf new \<Longrightarrow> SfSpec_zones names zs new h = (new', gone, h') \<Longrightarrow> hm_wf new'"
  by (induction names zs new h rule: SfSpec_zones.induct) (auto simp: zalloc_def split: option.splits)

lemma SfSpec_parse_into_wf:
  assumes "SfSpec_parse_into s st h ch = (st', h', ch')" "hm_wf (sf_policies s)" "hm_wf (st_policies st)"
  shows "hm_wf (st_zones st')" "hm_wf (st_policies st')"
proof -
  obtain new rest chs chs' where p: "SfSpec_policies (sf_policies s) (st_policies st) [] chs = (new, rest, chs')"
    and st': "st_policies st' = SfSpec_drain rest new"
    using assms(1) by (auto simp: SfSpec_parse_into_def Let_def split: prod.splits)
  from SfSpec_policies_get [OF assms(2,3) hm_wf_Nil _ p] have "hm_wf new" "hm_wf rest" by simp_all
  with SfSpec_drain_get [of rest new] show "hm_wf (st_policies st')" by (simp add: st')
  show "hm_wf (st_zones st')"
    using assms(1) SfSpec_zones_wf [OF hm_wf_Nil]
    by (auto simp: SfSpec_parse_into_def Let_def split: prod.splits)
qed

text \<open>What loading a zone's file makes of its policy when the policy is known.\<close>

definition restored_policy :: "policies \<Rightarrow> PolicyVersion option \<Rightarrow> PolicyVersion option" where
  "restored_policy ps v = map_option (\<lambda>v. po_latest (the (hm_get ps (pv_name v)))) v"

lemma load_zones_known:
  assumes "\<And>n r. (n, r) \<in> set zs \<Longrightarrow> load n = Inr (ZsFile_build (f n)) \<and> r < length h
      \<and> (\<forall>v. zst_policy (f n) = Some v \<longrightarrow> hm_get ps (pv_name v) \<noteq> None)"
    and "distinct (map snd zs)"
  shows "\<exists>h'. load_zones load zs h ps = (Ok (), h', ps) \<and> length h' = length h
    \<and> (\<forall>i < length h. zn_name (h' ! i) = zn_name (h ! i))
    \<and> (\<forall>i < length h. i \<notin> snd ` set zs \<longrightarrow> h' ! i = h ! i)
    \<and> (\<forall>(n, r) \<in> set zs. zst_policy (zn_state (h' ! r)) = restored_policy ps (zst_policy (f n)))"
  using assms
proof (induction zs arbitrary: h)
  case (Cons x zs)
  obtain n r where x: "x = (n, r)" by (cases x)
  have l: "load n = Inr (ZsFile_build (f n))" "r < length h"
    and k: "\<And>v. zst_policy (f n) = Some v \<Longrightarrow> hm_get ps (pv_name v) \<noteq> None"
    using Cons.prems(1) [of n r] by (auto simp: x)
  define z where "z = (zn_state (h ! r)) \<lparr> zst_policy := restored_policy ps (zst_policy (f n)) \<rparr>"
  have p: "ZsFile_parse_into (ZsFile_build (f n)) (zn_state (h ! r)) ps = (z, ps)"
  proof (cases "zst_policy (f n)")
    case (Some v)
    then obtain q where "hm_get ps (pv_name v) = Some q" using k by blast
    then show ?thesis
      by (simp add: ZsFile_build_def ZsSpec_build_def z_def restored_policy_def Some sync_policy_def
          ZsPolicySpec_parse_def ZsPolicySpec_build_def Let_def)
  qed (simp add: ZsFile_build_def ZsSpec_build_def z_def restored_policy_def)
  have prem: "load m = Inr (ZsFile_build (f m)) \<and> s < length (zset r z h)
      \<and> (\<forall>v. zst_policy (f m) = Some v \<longrightarrow> hm_get ps (pv_name v) \<noteq> None)" if "(m, s) \<in> set zs" for m s
    using Cons.prems(1) [of m s] that by simp
  from Cons.IH [OF prem] Cons.prems(2) obtain h' where
    h': "load_zones load zs (zset r z h) ps = (Ok (), h', ps)" "length h' = length h"
      "\<forall>i < length h. zn_name (h' ! i) = zn_name (zset r z h ! i)"
      "\<forall>i < length h. i \<notin> snd ` set zs \<longrightarrow> h' ! i = zset r z h ! i"
      "\<forall>(n, r) \<in> set zs. zst_policy (zn_state (h' ! r)) = restored_policy ps (zst_policy (f n))"
    by auto
  have "r \<notin> snd ` set zs" using Cons.prems(2) by (simp add: x)
  then have "zst_policy (zn_state (h' ! r)) = restored_policy ps (zst_policy (f n))"
    using h'(4) l(2) by (simp add: z_def)
  with h' l p show ?case by (intro exI [of _ h']) (auto simp: x)
qed simp

text \<open>The files as a running daemon has saved them: the state at the path the restarted daemon looks at, the
  zones and the keys where the saved configuration puts them. There may be no file of keys.\<close>

definition saved_files :: "'k key_api \<Rightarrow> Config \<Rightarrow> 'k Center \<Rightarrow> files \<Rightarrow> bool" where
  "saved_files api config c d \<longleftrightarrow>
    fl_state d (Setting_value (dm_state_file (cfg_daemon config))) = Inr (SfFile_build (ce_state c))
    \<and> (\<forall>n r. hm_get (zones_of c) n = Some r \<longrightarrow>
         fl_zone d (cfg_zone_state_dir (st_config (ce_state c))) n = Inr (ZsFile_build (zstate_at c r)))
    \<and> (fl_tsig d (cfg_tsig_store_path (st_config (ce_state c))) = Inl io_error.NotFound
       \<or> fl_tsig d (cfg_tsig_store_path (st_config (ce_state c))) = Inr (TsFile_build api (tsig_of c))
         \<and> key_api_ok api \<and> store_consistent api (tsig_of c))"

lemma restored_paths:
  "cfg_zone_state_dir (restored_config s c) = cfg_zone_state_dir s"
  "cfg_tsig_store_path (restored_config s c) = cfg_tsig_store_path s"
  by (simp_all add: restored_config_def)

lemma SfSpec_parse_into_tsig: "SfSpec_parse_into s st h ch = (st', h', ch') \<Longrightarrow> st_tsig_store st' = st_tsig_store st"
  by (auto simp: SfSpec_parse_into_def Let_def split: prod.splits)

lemma load_saved_keys:
  assumes "saved_files api config c d" "st_tsig_store s1 = TsigStore_new"
    and "cfg_tsig_store_path (st_config s1) = cfg_tsig_store_path (st_config (ce_state c))"
  shows "\<exists>store. load_tsig api d s1 h = Ok (s1\<lparr>st_tsig_store := store\<rparr>, h)"
proof (cases "fl_tsig d (cfg_tsig_store_path (st_config (ce_state c))) = Inl io_error.NotFound")
  case True
  then show ?thesis using assms(3) by (intro exI [of _ "st_tsig_store s1"]) (simp add: load_tsig_def)
next
  case False
  with assms(1) have f: "fl_tsig d (cfg_tsig_store_path (st_config (ce_state c))) = Inr (TsFile_build api (tsig_of c))"
    "key_api_ok api" "store_consistent api (tsig_of c)" by (auto simp: saved_files_def)
  with tsig_store_restored [of api "tsig_of c"] obtain store where "TsFile_parse api (TsFile_build api (tsig_of c)) TsigStore_new = Ok store"
    by blast
  with f(1) assms(2,3) show ?thesis by (auto simp: load_tsig_def)
qed

lemma center_keys_irrelevant:
  "zones_ok (Center_start (s\<lparr>st_tsig_store := store\<rparr>) h) = zones_ok (Center_start s h)"
  "zone_policy (Center_start (s\<lparr>st_tsig_store := store\<rparr>) h) = zone_policy (Center_start s h)"
  "policy_zones (Center_start (s\<lparr>st_tsig_store := store\<rparr>) h) = policy_zones (Center_start s h)"
  "mid_deletion_of (Center_start (s\<lparr>st_tsig_store := store\<rparr>) h) = mid_deletion_of (Center_start s h)"
  by (simp_all add: fun_eq_iff zones_ok_def zone_policy_def policy_zones_def mid_deletion_of_def split: option.splits)

lemma restart_result:
  fixes c :: "'k Center" and api :: "'k key_api"
  assumes "links_ok c" "policies_ok (policies_of c)" "saved_files api config c d"
  obtains s h where "main_load api d config = Ok (s, h)" "zones_ok (Center_start s h)"
    "zone_policy (Center_start s h) = zone_policy c" "\<And>p. policy_zones (Center_start s h) p = {}"
    "mid_deletion_of (Center_start s h) = mid_deletion_of c"
    "\<And>n. hm_get (st_zones s) n = None \<longleftrightarrow> hm_get (zones_of c) n = None"
proof -
  obtain s1 h1 ch where l: "SfFile_parse_into (SfFile_build (ce_state c)) (State_new config :: 'k State) [] [] = (s1, h1, ch)"
    by (metis prod_cases3)
  have zok: "zones_ok c" using assms(1) by (rule links_okD)
  note r = state_restored [OF assms(2) zones_okD(4) [OF zok], where c = config, unfolded l prod.case]
  have pol: "hm_get (st_policies s1) n = map_option (\<lambda>p. p \<lparr> po_zones := [] \<rparr>) (hm_get (policies_of c) n)" for n
    using r [of n] by blast
  have zon: "case hm_get (zones_of c) z of Some _ \<Rightarrow> (\<exists>r. hm_get (st_zones s1) z = Some r \<and> r < length h1 \<and> h1 ! r = Zone_new z)
       | None \<Rightarrow> hm_get (st_zones s1) z = None" for z
    using r [of _ z] by blast
  have wf: "hm_wf (st_zones s1)" "hm_wf (st_policies s1)"
    using SfSpec_parse_into_wf [of "SfSpec_build (ce_state c)" "State_new config :: 'k State" "[]" "[]" s1 h1 ch] l assms(2)
    by (simp_all add: SfFile_build_def SfSpec_build_def policies_ok_def State_new_def)
  have known: "\<exists>r0. hm_get (zones_of c) n = Some r0 \<and> r < length h1 \<and> h1 ! r = Zone_new n" if "(n, r) \<in> set (st_zones s1)" for n r
    using zon [of n] hm_get_eqI [OF wf(1) that] by (auto split: option.splits)
  have "distinct (map snd (st_zones s1))"
  proof -
    have "inj_on snd (set (st_zones s1))"
      by (rule inj_onI) (use known in \<open>auto simp: Zone_new_def, metis Zone.select_convs(1)\<close>)
    then show ?thesis using wf(1) by (simp add: hm_wf_def distinct_map)
  qed
  have cfg: "st_config s1 = restored_config (st_config (ce_state c)) config" using r by blast
  define f where "f n = zstate_at c (the (hm_get (zones_of c) n))" for n
  have zp: "zone_policy c n = map_option pv_name (zst_policy (f n))" if "hm_get (zones_of c) n = Some r" for n r
    using that by (simp add: zone_policy_def f_def)
  have ex: "hm_get (policies_of c) (pv_name v) \<noteq> None" if "hm_get (zones_of c) n = Some r" "zst_policy (f n) = Some v" for n r v
  proof -
    have "n \<in> policy_zones c (pv_name v)" using zp [OF that(1)] that(2) links_okD(2) [OF assms(1)] by simp
    then show ?thesis by (auto simp: policy_zones_def split: option.splits)
  qed
  let ?dir = "cfg_zone_state_dir (st_config s1)"
  have "\<exists>h'. load_zones (fl_zone d ?dir) (st_zones s1) h1 (st_policies s1) = (Ok (), h', st_policies s1) \<and> length h' = length h1
    \<and> (\<forall>i < length h1. zn_name (h' ! i) = zn_name (h1 ! i))
    \<and> (\<forall>i < length h1. i \<notin> snd ` set (st_zones s1) \<longrightarrow> h' ! i = h1 ! i)
    \<and> (\<forall>(n, r) \<in> set (st_zones s1). zst_policy (zn_state (h' ! r)) = restored_policy (st_policies s1) (zst_policy (f n)))"
  proof (rule load_zones_known [OF _ \<open>distinct (map snd (st_zones s1))\<close>])
    fix n r assume nr: "(n, r) \<in> set (st_zones s1)"
    from known [OF nr] obtain r0 where r0: "hm_get (zones_of c) n = Some r0" "r < length h1" by blast
    with assms(3) ex [OF r0(1)] pol show "fl_zone d ?dir n = Inr (ZsFile_build (f n)) \<and> r < length h1
      \<and> (\<forall>v. zst_policy (f n) = Some v \<longrightarrow> hm_get (st_policies s1) (pv_name v) \<noteq> None)"
      by (auto simp: saved_files_def f_def cfg restored_paths)
  qed
  then obtain h where lz: "load_zones (fl_zone d (cfg_zone_state_dir (st_config s1))) (st_zones s1) h1 (st_policies s1) = (Ok (), h, st_policies s1)"
    and h: "length h = length h1" "\<And>i. i < length h1 \<Longrightarrow> zn_name (h ! i) = zn_name (h1 ! i)"
      "\<And>n r. (n, r) \<in> set (st_zones s1) \<Longrightarrow> zst_policy (zn_state (h ! r)) = restored_policy (st_policies s1) (zst_policy (f n))"
    by blast
  have "st_tsig_store s1 = TsigStore_new"
    using SfSpec_parse_into_tsig [of "SfSpec_build (ce_state c)" "State_new config :: 'k State" "[]" "[]" s1 h1 ch] l
    by (simp add: SfFile_build_def State_new_def)
  then obtain store where "load_tsig api d (s1\<lparr>st_policies := st_policies s1\<rparr>) h = Ok (s1\<lparr>st_tsig_store := store\<rparr>, h)"
    using load_saved_keys [OF assms(3), of s1 h] by (auto simp: cfg restored_paths)
  then have m: "main_load api d config = Ok (s1\<lparr>st_tsig_store := store\<rparr>, h)"
    using l lz assms(3) by (simp add: main_load_def State_init_from_file_def saved_files_def State_new_def)
  have none: "hm_get (st_zones s1) n = None \<longleftrightarrow> hm_get (zones_of c) n = None" for n
    using zon [of n] by (auto split: option.splits)
  have zok': "zones_ok (Center_start s1 h)"
    unfolding zones_ok_def Center_start_simps
  proof (intro conjI allI impI wf)
    fix n r assume "hm_get (st_zones s1) n = Some r"
    then have "(n, r) \<in> set (st_zones s1)" by (rule hm_get_in_set)
    from known [OF this] h(1,2) show "r < length h" "zn_name (h ! r) = n" by (auto simp: Zone_new_def)
  next
    fix n p assume "hm_get (st_policies s1) n = Some p"
    then obtain q where "hm_get (policies_of c) n = Some q" "p = q \<lparr> po_zones := [] \<rparr>"
      using pol [of n] by auto
    with assms(2) show "pv_name (po_latest p) = n" by (simp add: policies_ok_def)
  qed
  have "zone_policy (Center_start s1 h) n = zone_policy c n" for n
  proof (cases "hm_get (st_zones s1) n")
    case None
    moreover from this have "hm_get (zones_of c) n = None" by (simp only: none)
    ultimately show ?thesis by (simp add: zone_policy_def)
  next
    case (Some r)
    then have nr: "(n, r) \<in> set (st_zones s1)" by (rule hm_get_in_set)
    from known [OF nr] obtain r0 where r0: "hm_get (zones_of c) n = Some r0" by blast
    show ?thesis
    proof (cases "zst_policy (f n)")
      case (Some v)
      then obtain q where q: "hm_get (policies_of c) (pv_name v) = Some q" using ex [OF r0] by blast
      with assms(2) have "pv_name (po_latest q) = pv_name v" by (auto simp: policies_ok_def)
      with q Some pol [of "pv_name v"] h(3) [OF nr] zp [OF r0] \<open>hm_get (st_zones s1) n = Some r\<close>
      show ?thesis by (simp add: zone_policy_def restored_policy_def)
    qed (use h(3) [OF nr] zp [OF r0] Some in \<open>simp add: zone_policy_def restored_policy_def\<close>)
  qed
  moreover have "policy_zones (Center_start s1 h) p = {}" for p
    by (simp add: policy_zones_def pol split: option.splits)
  moreover have "mid_deletion_of (Center_start s1 h) = mid_deletion_of c"
    by (rule ext) (simp add: mid_deletion_of_def pol option.map_comp comp_def)
  ultimately show ?thesis
    using that [OF m, unfolded center_keys_irrelevant] zok' none by (simp add: fun_eq_iff)
qed

text \<open>A zone whose policy does not list it makes both operations on it panic.\<close>

lemma broken_link_panics:
  assumes "zones_ok c" "alive c" "zone_policy c n = Some q" "n \<notin> policy_zones c q" "mid_deletion_of c p = Some False"
  shows "fst (change_policy n p c) = Panic \<and> ce_poisoned (snd (change_policy n p c))
    \<and> fst (remove_zone n c) = Panic \<and> ce_poisoned (snd (remove_zone n c))"
proof -
  obtain r v where r: "hm_get (zones_of c) n = Some r" and v: "zst_policy (zstate_at c r) = Some v" "pv_name v = q"
    using assms(3) by (auto simp: zone_policy_def split: option.splits)
  have u: "\<exists>c'. unlink_policy n r c = (Panic, c') \<and> ce_poisoned c'"
    using assms(4) v by (auto simp: unlink_policy_def policy_zones_def Let_def split: option.splits)
  have u': "\<exists>c'. unlink_policy n r (set_zones zs (send_change x c)) = (Panic, c') \<and> ce_poisoned c'" for zs x
    using assms(4) v by (auto simp: unlink_policy_def policy_zones_def Let_def split: option.splits)
  obtain c1 where c1: "unlink_policy n r c = (Panic, c1)" "ce_poisoned c1" using u by blast
  obtain c2 where c2: "unlink_policy n r (set_zones (hm_remove n (zones_of c)) (send_change (ZoneRemoved n) c)) = (Panic, c2)" "ce_poisoned c2"
    using u' by blast
  show ?thesis
    using r c1 c2 assms(2,5) by (auto simp: change_policy_def remove_zone_def alive_def mid_deletion_of_def Let_def split: option.splits)
qed

text \<open>A daemon that is restarted from what it saved while every zone and policy agreed comes
  back with every zone's policy but with policies that list no zones. From then on, changing the
  policy of a zone that has one to a policy that is not being deleted, and removing such a zone,
  panic with the state locked; afterwards the lock is poisoned and adding a zone panics too.\<close>

theorem restart_breaks_policies:
  fixes c :: "'k Center" and api :: "'k key_api"
  assumes "daemon_ok c" "policies_ok (policies_of c)" "saved_files api config c d"
    and "zone_policy c n = Some q" "mid_deletion_of c p = Some False"
  shows "\<exists>s h. main_load api d config = Ok (s, h)
    \<and> zone_policy (Center_start s h) = zone_policy c \<and> policy_zones (Center_start s h) q = {}
    \<and> fst (change_policy n p (Center_start s h)) = Panic \<and> fst (remove_zone n (Center_start s h)) = Panic
    \<and> fst (add_zone m (snd (change_policy n p (Center_start s h)))) = Panic"
proof -
  obtain s h where l: "main_load api d config = Ok (s, h)" "zones_ok (Center_start s h)"
    "zone_policy (Center_start s h) = zone_policy c" "\<And>p. policy_zones (Center_start s h) p = {}"
    "mid_deletion_of (Center_start s h) = mid_deletion_of c"
    "\<And>n. hm_get (st_zones s) n = None \<longleftrightarrow> hm_get (zones_of c) n = None"
    using restart_result [OF daemon_okD(2) [OF assms(1)] assms(2,3)] by blast
  have "fst (add_zone m c') = Panic" if "ce_poisoned c'" for c' :: "'k Center"
    using that by (simp add: add_zone_def zalloc_def Let_def)
  with l broken_link_panics [OF l(2), of n q p] assms(4,5) show ?thesis
    by (intro exI [of _ s] exI [of _ h]) simp
qed

definition zone_center :: "(Algorithm \<times> bytes \<times> key_name) Center" where
  "zone_center = Center_start example_state [\<lparr> zn_name = ''nl'', zn_state = \<lparr> zst_policy = Some example_version, zst_enqueued_save = None \<rparr> \<rparr>]"

definition spare_policy :: Policy where
  "spare_policy = \<lparr> po_latest = example_version \<lparr> pv_name := ''q'' \<rparr>, po_mid_deletion = False, po_zones = [] \<rparr>"

definition zone_center2 :: "(Algorithm \<times> bytes \<times> key_name) Center" where
  "zone_center2 = set_policies (hm_insert ''q'' spare_policy (policies_of zone_center)) zone_center"

lemma zone_center2_simps:
  "zones_of zone_center2 = [(''nl'', 0)]" "ce_heap zone_center2 = [\<lparr> zn_name = ''nl'', zn_state = \<lparr> zst_policy = Some example_version, zst_enqueued_save = None \<rparr> \<rparr>]"
  "policies_of zone_center2 = [(''p'', \<lparr> po_latest = example_version, po_mid_deletion = True, po_zones = [''nl''] \<rparr>), (''q'', spare_policy)]"
  "ce_poisoned zone_center2 = False" "ce_update_open zone_center2" "tsig_of zone_center2 = TsigStore_new"
  by (simp_all add: zone_center2_def zone_center_def example_state_def State_new_def hm_insert_def set_policies_def)

lemma zone_center2_ok: "daemon_ok zone_center2" "policies_ok (policies_of zone_center2)"
  "zone_policy zone_center2 ''nl'' = Some ''p''" "mid_deletion_of zone_center2 ''q'' = Some False"
proof -
  have "handle_of zone_center2 j = None" for j
    by (cases j) (simp_all add: zone_center2_simps zone_center2_def zone_center_def example_state_def State_new_def TsigStore_new_def)
  then have "center_ok zone_center2"
    by (simp add: center_ok_def tasks_ok_def tasks_wf_def zone_center2_simps)
       (simp add: zone_center2_def zone_center_def Center_start_def)
  moreover have "links_ok zone_center2"
    by (auto simp: links_ok_def zones_ok_def zone_policy_def policy_zones_def zone_center2_simps spare_policy_def
        example_version_ok split: option.splits if_splits)
  ultimately show "daemon_ok zone_center2"
    by (simp add: daemon_ok_def alive_def zone_center2_simps TsigStore_new_def)
  show "policies_ok (policies_of zone_center2)"
    using example_version_ok by (auto simp: policies_ok_def zone_center2_simps spare_policy_def PolicyVersion_ok_def split: if_splits)
  show "zone_policy zone_center2 ''nl'' = Some ''p''" "mid_deletion_of zone_center2 ''q'' = Some False"
    by (simp_all add: zone_policy_def mid_deletion_of_def zone_center2_simps spare_policy_def example_version_ok)
qed

definition zone_files :: files where
  "zone_files = example_files \<lparr> fl_state := \<lambda>_. Inr (SfFile_build (ce_state zone_center2)),
     fl_zone := \<lambda>_ _. Inr (ZsFile_build (zstate_at zone_center2 0)) \<rparr>"

theorem restart_breaks_policies_witness:
  "\<exists>s h. main_load example_api zone_files Config_default = Ok (s, h)
    \<and> fst (change_policy ''nl'' ''q'' (Center_start s h)) = Panic \<and> fst (remove_zone ''nl'' (Center_start s h)) = Panic"
proof -
  have "saved_files example_api Config_default zone_center2 zone_files"
    by (auto simp: saved_files_def zone_files_def example_files_def zone_center2_simps split: if_splits)
  from restart_breaks_policies [OF zone_center2_ok(1,2) this zone_center2_ok(3,4)] show ?thesis by blast
qed

section \<open>What is saved\<close>

text \<open>C28: a zone that is added will be in the saved state: a save of the state is waiting, and when
  it runs and can write it writes, to the state file, a specification that lists the zone.\<close>

theorem added_zone_is_saved:
  assumes "daemon_ok c" "add_zone n c = (Ok (), c')"
  shows "\<exists>t f. (t, SaveState) \<in> set (ce_tasks c')
    \<and> ce_writes (run_save api t True c') = ce_writes c' @ [StateFile (Setting_value (dm_state_file (cfg_daemon (st_config (ce_state c'))))) (SfFile.V1 f)]
    \<and> n \<in> set (sf_zones f) \<and> st_enqueued_save (ce_state (run_save api t True c')) = None"
proof -
  have ok': "daemon_ok c'" using add_zone_daemon [OF assms(1), of n] assms(2) by simp
  have dirty: "st_enqueued_save (ce_state c') \<noteq> None"
  proof -
    have "st_enqueued_save (ce_state (State_mark_dirty x)) \<noteq> None" for x :: "'a Center"
      by (simp add: State_mark_dirty_def spawn_def)
    then show ?thesis
      using assms(2) by (auto simp: add_zone_def zalloc_def Let_def split: if_splits)
  qed
  then obtain t where t: "st_enqueued_save (ce_state c') = Some t" by blast
  have "(t, SaveState) \<in> set (ce_tasks c')"
    using state_saver.slot_pending [OF daemon_okD(3) [OF ok'] t] .
  moreover have "st_enqueued_save (ce_state (run_save api t True c')) = None"
    "ce_writes (run_save api t True c') = ce_writes c' @ [state_content c']"
    using state_saver.run_current [OF daemon_okD(3) [OF ok'] t, of api True] by simp_all
  moreover have "n \<in> set (sf_zones (SfSpec_build (ce_state c')))"
  proof -
    have "hm_get (zones_of c') n \<noteq> None"
      using add_zone_links [OF daemon_okD(1,2) [OF assms(1)], of n] assms(2) by (metis domIff insertI1 snd_conv)
    then show ?thesis by (simp add: SfSpec_build_def hm_get_None_iff)
  qed
  ultimately show ?thesis
    by (intro exI [of _ t] exI [of _ "SfSpec_build (ce_state c')"]) (simp add: state_content_def SfFile_build_def)
qed

theorem added_zone_is_saved_witness:
  "\<exists>c' t f. add_zone ''de'' zone_center2 = (Ok (), c') \<and> (t, SaveState) \<in> set (ce_tasks c')
    \<and> last (ce_writes (run_save example_api t True c')) = StateFile (Setting_value (dm_state_file (cfg_daemon (st_config (ce_state c'))))) (SfFile.V1 f)
    \<and> ''de'' \<in> set (sf_zones f)"
proof -
  obtain c' where a: "add_zone ''de'' zone_center2 = (Ok (), c')"
    using add_zone_result(2) [OF daemon_okD(1,2) [OF zone_center2_ok(1)], of "''de''"]
    by (cases "add_zone ''de'' zone_center2") (simp add: zone_center2_simps)
  from added_zone_is_saved [OF zone_center2_ok(1) a, of example_api] a show ?thesis by (metis last_snoc)
qed

text \<open>A zone that has no policy is removed in memory only: no save is enqueued that was not
  before, so when none was waiting the saved state keeps the zone; and the removal of a zone that
  does not exist is announced all the same.\<close>

theorem removed_zone_not_saved:
  assumes "daemon_ok c"
  shows "(hm_get (zones_of c) n \<noteq> None \<and> zone_policy c n = None \<longrightarrow>
      fst (remove_zone n c) = Ok () \<and> hm_get (zones_of (snd (remove_zone n c))) n = None
      \<and> ce_tasks (snd (remove_zone n c)) = ce_tasks c
      \<and> st_enqueued_save (ce_state (snd (remove_zone n c))) = st_enqueued_save (ce_state c))
    \<and> ce_updates (snd (remove_zone n c)) = ce_updates c @ [Changed (ZoneRemoved n)]"
proof (cases "hm_get (zones_of c) n")
  case None
  with remove_zone_unknown [OF daemon_okD(1) [OF assms] None] show ?thesis by simp
next
  case (Some r)
  from remove_zone_known [OF daemon_okD(1) [OF assms] daemon_okD(2) [OF assms] Some] obtain c' where
    c': "remove_zone n c = (Ok (), c')" "dom (hm_get (zones_of c')) = dom (hm_get (zones_of c)) - {n}"
    "ce_updates c' = ce_updates c @ [Changed (ZoneRemoved n)]"
    "zone_policy c n = None \<longrightarrow> st_enqueued_save (ce_state c') = st_enqueued_save (ce_state c) \<and> ce_tasks c' = ce_tasks c"
    by (elim exE conjE) (rule that)
  have "n \<notin> dom (hm_get (zones_of c'))" using c'(2) by blast
  then have "hm_get (zones_of c') n = None" by (simp add: domIff)
  with c' show ?thesis by simp
qed

theorem removed_zone_not_saved_witness:
  "\<exists>c :: (Algorithm \<times> bytes \<times> key_name) Center. hm_get (zones_of c) ''nl'' \<noteq> None \<and> fst (remove_zone ''nl'' c) = Ok ()
    \<and> ce_tasks (snd (remove_zone ''nl'' c)) = ce_tasks c"
proof -
  define c :: "(Algorithm \<times> bytes \<times> key_name) Center" where
    "c = Center_start ((State_new Config_default) \<lparr> st_zones := [(''nl'', 0)] \<rparr>) [Zone_new ''nl'']"
  have "center_ok c"
    unfolding c_def by (rule fresh_center_ok) (simp_all add: State_new_def TsigStore_new_def Zone_new_def ZoneState_default_def)
  moreover have zs: "zones_of c = [(''nl'', 0)]" "policies_of c = []" "ce_heap c = [Zone_new ''nl'']"
    by (simp_all add: c_def State_new_def)
  have zp: "zone_policy c n = None" "policy_zones c n = {}" for n
    by (simp_all add: zone_policy_def policy_zones_def zs Zone_new_def ZoneState_default_def)
  moreover have "zones_ok c"
    unfolding zones_ok_def zs by (auto simp: Zone_new_def split: if_splits)
  ultimately have "links_ok c" by (simp add: links_ok_def)
  note \<open>center_ok c\<close> \<open>links_ok c\<close>
  then have "daemon_ok c" by (simp add: daemon_ok_def c_def State_new_def TsigStore_new_def)
  from removed_zone_not_saved [OF this, of "''nl''"] zp show ?thesis
    by (intro exI [of _ c]) (simp add: zs)
qed

end
