(* ===== verification/Shutdown.thy ===== *)
theory Shutdown
  imports Http_Server
begin

text \<open>
  The end of the program (\<open>main\<close> in \<open>main.rs\<close>, from the interrupt on): the central command is
  ended, then every unit in turn, then everything is saved. The HTTP server goes on answering until
  the process is gone, so requests can come in between; they are a list here.
\<close>

section \<open>Ending the units\<close>

text \<open>One unit after the other, in the order of the map: sending to a unit that has ended panics; the
  program waits until a unit has taken the command and ended, for ever (\<open>None\<close>) for one that never
  does.\<close>

fun terminate_units :: "(string \<Rightarrow> bool) \<Rightarrow> unit_txs \<Rightarrow> (unit, unit) outcome option" where
  "terminate_units ends [] = Some (Ok ())"
| "terminate_units ends ((name, None) # unit_txs) = Some Panic"
| "terminate_units ends ((name, Some q) # unit_txs) = (if ends name then terminate_units ends unit_txs else None)"

section \<open>Saving\<close>

text \<open>The saves of the zones, with whether each file can be written.\<close>

fun save_zones :: "(zref \<Rightarrow> bool) \<Rightarrow> zref list \<Rightarrow> 'k Center \<Rightarrow> (unit, unit) outcome \<times> 'k Center" where
  "save_zones io [] c = (Ok (), c)"
| "save_zones io (zone # zones) c = (case zone_save_state_now zone (io zone) c of
      (Ok _, c1) \<Rightarrow> save_zones io zones c1
    | (Err e, c1) \<Rightarrow> (Err e, c1)
    | (Panic, c1) \<Rightarrow> (Panic, c1))"

record save_io =
  sio_state :: bool
  sio_tsig :: bool
  sio_zone :: "zref \<Rightarrow> bool"

definition save_everything :: "'k key_api \<Rightarrow> save_io \<Rightarrow> 'k Center \<Rightarrow> (unit, unit) outcome \<times> 'k Center" where
  "save_everything api io c = (case state_save_now (sio_state io) c of
      (Ok _, c1) \<Rightarrow>
        (case tsig_save_now api (sio_tsig io) c1 of
           (Ok _, c2) \<Rightarrow>
             (if ce_poisoned c2 then (Panic, c2)
              else save_zones (sio_zone io) (map snd (zones_of c2)) c2)
         | res \<Rightarrow> res)
    | res \<Rightarrow> res)"

section \<open>Shutting down\<close>

datatype http_request = AddZone ZoneAdd | RemoveZone dname

fun handle_request :: "http_request \<Rightarrow> 'k Center \<Rightarrow> 'k Center" where
  "handle_request (AddZone reg) c = fst (snd (http_zone_add reg c))"
| "handle_request (RemoveZone name) c = snd (http_zone_remove name c)"

text \<open>With the central command the receiver of the events is gone.\<close>

definition shut_down :: "'k key_api \<Rightarrow> (string \<Rightarrow> bool) \<Rightarrow> save_io \<Rightarrow> http_request list \<Rightarrow> unit_txs \<Rightarrow> 'k Center
    \<Rightarrow> ((unit, unit) outcome \<times> 'k Center) option" where
  "shut_down api ends io requests unit_txs c =
    (let c1 = fold handle_request requests (c\<lparr>ce_update_open := False\<rparr>)
     in case terminate_units ends unit_txs of
          None \<Rightarrow> None
        | Some (Ok _) \<Rightarrow> Some (save_everything api io c1)
        | Some (Err e) \<Rightarrow> Some (Err e, c1)
        | Some Panic \<Rightarrow> Some (Panic, c1))"

section \<open>What is saved\<close>

lemma zone_saved_frame:
  assumes "\<not> ce_poisoned c"
  obtains c' where "zone_save_state_now r True c = (Ok (), c')" "ce_writes c' = ce_writes c @ [zone_content r c]"
    "\<not> ce_poisoned c'" "length (ce_heap c') = length (ce_heap c)"
    "\<And>j. j < length (ce_heap c) \<Longrightarrow> zone_content j c' = zone_content j c"
proof -
  let ?c1 = "abort_task (zst_enqueued_save (zstate_at c r)) c"
  let ?c' = "write_to True (zone_content r (set_zstate r ((zstate_at ?c1 r)\<lparr>zst_enqueued_save := None\<rparr>) ?c1))
      (set_zstate r ((zstate_at ?c1 r)\<lparr>zst_enqueued_save := None\<rparr>) ?c1)"
  have eq: "zone_content j (set_zstate r ((zstate_at ?c1 r)\<lparr>zst_enqueued_save := None\<rparr>) ?c1) = zone_content j c" for j
    by (cases "j < length (ce_heap c)"; cases "r < length (ce_heap c)")
       (auto simp: zone_content_def zset_def nth_list_update list_update_beyond)
  show thesis
  proof (rule that)
    show "zone_save_state_now r True c = (Ok (), ?c')" using assms by (simp add: zone_save_state_now_def Let_def)
    show "zone_content j ?c' = zone_content j c" for j
      using eq [of j] by (simp add: zone_content_def)
  qed (use assms eq [of r] in simp_all)
qed

lemma save_zones_saves:
  assumes "\<not> ce_poisoned c" "\<forall>r \<in> set rs. io r" "\<forall>r \<in> set rs. r < length (ce_heap c)"
  shows "\<exists>c'. save_zones io rs c = (Ok (), c') \<and> ce_writes c' = ce_writes c @ map (\<lambda>r. zone_content r c) rs"
  using assms
proof (induction rs arbitrary: c)
  case (Cons r rs)
  from zone_saved_frame [OF Cons.prems(1), of r] obtain c1 where c1: "zone_save_state_now r True c = (Ok (), c1)"
      "ce_writes c1 = ce_writes c @ [zone_content r c]" "\<not> ce_poisoned c1" "length (ce_heap c1) = length (ce_heap c)"
      "\<And>j. j < length (ce_heap c) \<Longrightarrow> zone_content j c1 = zone_content j c"
    by blast
  have "\<exists>c'. save_zones io rs c1 = (Ok (), c') \<and> ce_writes c' = ce_writes c1 @ map (\<lambda>r. zone_content r c1) rs"
    by (rule Cons.IH) (use Cons.prems c1 in simp_all)
  moreover have "map (\<lambda>r. zone_content r c1) rs = map (\<lambda>r. zone_content r c) rs"
    using Cons.prems(3) c1(5) by simp
  ultimately show ?case using c1(1,2) Cons.prems(2) by auto
qed simp

lemma save_everything_saves:
  assumes "\<not> ce_poisoned c" "sio_state io" "sio_tsig io" "\<forall>r. sio_zone io r" "zones_ok c"
  shows "\<exists>c'. save_everything api io c = (Ok (), c')
    \<and> ce_writes c' = ce_writes c @ [state_content c, tsig_content api c] @ map (\<lambda>(n, r). zone_content r c) (zones_of c)"
proof -
  obtain c1 where c1: "state_save_now True c = (Ok (), c1)" "ce_writes c1 = ce_writes c @ [state_content c]"
      "\<not> ce_poisoned c1" "zones_of c1 = zones_of c" "ce_heap c1 = ce_heap c"
      "tsig_content api c1 = tsig_content api c" "\<And>r. zone_content r c1 = zone_content r c"
    using assms(1) by (simp add: state_save_now_def Let_def state_content_def tsig_content_def zone_content_def)
  obtain c2 where c2: "tsig_save_now api True c1 = (Ok (), c2)" "ce_writes c2 = ce_writes c1 @ [tsig_content api c]"
      "\<not> ce_poisoned c2" "zones_of c2 = zones_of c" "ce_heap c2 = ce_heap c" "\<And>r. zone_content r c2 = zone_content r c"
    using c1 by (simp add: tsig_save_now_def Let_def tsig_content_def zone_content_def)
  have "\<forall>r \<in> set (map snd (zones_of c)). r < length (ce_heap c2)"
    using assms(5) hm_get_iff [of "zones_of c"] by (auto simp: zones_ok_def c2(5))
  from save_zones_saves [OF c2(3), of "map snd (zones_of c)" "sio_zone io"] this assms(4)
  obtain c' where "save_zones (sio_zone io) (map snd (zones_of c)) c2 = (Ok (), c')"
      "ce_writes c' = ce_writes c2 @ map (\<lambda>r. zone_content r c) (map snd (zones_of c))"
    by (auto simp: c2(6))
  then show ?thesis using c1 c2 assms(2,3) by (simp add: save_everything_def case_prod_unfold comp_def)
qed

section \<open>Requests without the central command\<close>

lemma frame_more [simp]:
  "ce_writes (poison c) = ce_writes c" "ce_update_open (poison c) = ce_update_open c"
  "ce_writes (set_zones zs c) = ce_writes c" "ce_update_open (set_zones zs c) = ce_update_open c"
  "ce_writes (set_policies ps c) = ce_writes c" "ce_update_open (set_policies ps c) = ce_update_open c"
  by (simp_all add: poison_def set_zones_def set_policies_def)

lemma unlink_frame: "unlink_policy n r c = (res, c') \<Longrightarrow> ce_writes c' = ce_writes c \<and> ce_update_open c' = ce_update_open c
    \<and> (ce_poisoned c \<longrightarrow> ce_poisoned c') \<and> (\<forall>e. res \<noteq> Err e) \<and> (res = Panic \<longrightarrow> ce_poisoned c')"
  by (auto simp: unlink_policy_def Let_def split: option.splits if_splits)

lemma add_closed:
  assumes "\<not> ce_update_open c" "add_zone n c = (res, c')"
  shows "\<not> ce_update_open c' \<and> ce_writes c' = ce_writes c \<and> (ce_poisoned c \<longrightarrow> ce_poisoned c')
    \<and> (\<not> ce_poisoned c' \<longrightarrow> zones_of c' = zones_of c \<and> hm_get (zones_of c) n \<noteq> None)"
  using assms by (auto simp: add_zone_def zalloc_def Let_def split: if_splits)

lemma change_closed:
  assumes "\<not> ce_update_open c" "change_policy n p c = (res, c')"
  shows "\<not> ce_update_open c' \<and> ce_writes c' = ce_writes c \<and> (ce_poisoned c \<longrightarrow> ce_poisoned c')
    \<and> (\<not> ce_poisoned c' \<longrightarrow> zones_of c' = zones_of c)"
proof (cases "ce_poisoned c")
  case False
  show ?thesis
  proof (cases "hm_get (zones_of c) n")
    case None
    then show ?thesis using assms False by (auto simp: change_policy_def)
  next
    case (Some r)
    obtain had c1 where u: "unlink_policy n r c = (had, c1)" by fastforce
    note f = unlink_frame [OF u]
    show ?thesis
    proof (cases "hm_get (policies_of c) p")
      case None
      then show ?thesis using assms False Some by (auto simp: change_policy_def)
    next
      case (Some q)
      have "hm_get (policies_of c1) p \<noteq> None" if "had \<noteq> Panic"
        using u that Some by (auto simp: unlink_policy_def Let_def split: option.splits if_splits)
      moreover have "po_mid_deletion q' = po_mid_deletion q" if "hm_get (policies_of c1) p = Some q'" for q'
        using u that Some by (auto simp: unlink_policy_def Let_def split: option.splits if_splits)
      ultimately show ?thesis using assms False \<open>hm_get (zones_of c) n = Some r\<close> Some u f
        by (cases had) (auto simp: change_policy_def Let_def split: if_splits option.splits)
    qed
  qed
qed (use assms in \<open>auto simp: change_policy_def\<close>)

lemma request_closed:
  assumes "\<not> ce_update_open c"
  shows "\<not> ce_update_open (handle_request q c) \<and> ce_writes (handle_request q c) = ce_writes c
    \<and> (ce_poisoned c \<longrightarrow> ce_poisoned (handle_request q c))
    \<and> (\<not> ce_poisoned (handle_request q c) \<longrightarrow> zones_of (handle_request q c) = zones_of c
        \<and> (\<forall>reg. q = AddZone reg \<longrightarrow> hm_get (zones_of c) (za_name reg) \<noteq> None))"
proof (cases q)
  case (AddZone reg)
  obtain r1 c1 where a: "add_zone (za_name reg) c = (r1, c1)" by fastforce
  obtain r2 c2 where p: "change_policy (za_name reg) (za_policy reg) c1 = (r2, c2)" by fastforce
  note a1 = add_closed [OF assms a]
  with change_closed [OF _ p] have "\<not> ce_update_open c2 \<and> ce_writes c2 = ce_writes c \<and> (ce_poisoned c1 \<longrightarrow> ce_poisoned c2)
      \<and> (\<not> ce_poisoned c2 \<longrightarrow> zones_of c2 = zones_of c1)"
    by simp
  with a1 show ?thesis by (cases r1; cases r2) (auto simp: AddZone http_zone_add_def a p)
next
  case (RemoveZone n)
  then show ?thesis using assms by (simp add: http_zone_remove_def remove_zone_def)
qed

lemma requests_closed:
  assumes "\<not> ce_update_open c"
  shows "ce_writes (fold handle_request qs c) = ce_writes c
    \<and> (ce_poisoned c \<longrightarrow> ce_poisoned (fold handle_request qs c))
    \<and> (\<not> ce_poisoned (fold handle_request qs c) \<longrightarrow>
        (\<forall>reg. AddZone reg \<in> set qs \<longrightarrow> hm_get (zones_of c) (za_name reg) \<noteq> None))"
  using assms
proof (induction qs arbitrary: c)
  case (Cons q qs)
  note r = request_closed [OF Cons.prems, of q]
  with Cons.IH [of "handle_request q c"] show ?case by auto
qed simp

lemma terminate_units_iff:
  assumes "\<forall>(u, q) \<in> set txs. ends u"
  shows "terminate_units ends txs = Some (if \<exists>u. (u, None) \<in> set txs then Panic else Ok ())"
  using assms by (induction ends txs rule: terminate_units.induct) (auto split: if_splits)

lemma shut_down_clean:
  assumes "\<not> ce_poisoned c" "zones_ok c" "\<forall>(u, q) \<in> set txs. ends u" "sio_state io" "sio_tsig io" "\<forall>r. sio_zone io r"
    and "\<forall>u. (u, None) \<notin> set txs"
  shows "\<exists>c'. shut_down api ends io [] txs c = Some (Ok (), c')
    \<and> ce_writes c' = ce_writes c @ [state_content c, tsig_content api c] @ map (\<lambda>(n, r). zone_content r c) (zones_of c)"
proof -
  let ?c = "c\<lparr>ce_update_open := False\<rparr>"
  have ok: "\<not> ce_poisoned ?c" "zones_ok ?c" using assms(1,2) by (simp_all add: zones_ok_def)
  have same: "state_content ?c = state_content c" "tsig_content api ?c = tsig_content api c" "zone_content r ?c = zone_content r c" for r
    by (simp_all add: state_content_def tsig_content_def zone_content_def)
  show ?thesis
    using save_everything_saves [OF ok(1) assms(4-6) ok(2), of api] terminate_units_iff [OF assms(3)] assms(7)
    by (simp add: shut_down_def Let_def same)
qed

text \<open>C7: an interrupt saves the global state, the keys and every zone, as they are, when every unit is
  still there and no request comes in between. When a unit has ended before, or a new zone is added
  over HTTP while the units end, the program panics and nothing is saved.\<close>

theorem shut_down_saves:
  assumes "\<not> ce_poisoned c" "zones_ok c" "\<forall>(u, q) \<in> set txs. ends u" "sio_state io" "sio_tsig io" "\<forall>r. sio_zone io r"
  shows "((\<forall>u. (u, None) \<notin> set txs) \<longrightarrow> (\<exists>c'. shut_down api ends io [] txs c = Some (Ok (), c')
        \<and> ce_writes c' = ce_writes c @ [state_content c, tsig_content api c] @ map (\<lambda>(n, r). zone_content r c) (zones_of c)))
    \<and> ((\<exists>u. (u, None) \<in> set txs) \<or> (\<exists>reg. AddZone reg \<in> set requests \<and> hm_get (zones_of c) (za_name reg) = None) \<longrightarrow>
        (\<exists>c'. shut_down api ends io requests txs c = Some (Panic, c') \<and> ce_writes c' = ce_writes c))"
proof -
  let ?c1 = "fold handle_request requests (c\<lparr>ce_update_open := False\<rparr>)"
  have q: "ce_writes ?c1 = ce_writes c"
    "\<exists>reg. AddZone reg \<in> set requests \<and> hm_get (zones_of c) (za_name reg) = None \<Longrightarrow> ce_poisoned ?c1"
    using requests_closed [of "c\<lparr>ce_update_open := False\<rparr>" requests] assms(1) by auto
  have "save_everything api io ?c1 = (Panic, ?c1)" if "ce_poisoned ?c1"
    using that by (simp add: save_everything_def state_save_now_def)
  with q terminate_units_iff [OF assms(3)]
  have "(\<exists>u. (u, None) \<in> set txs) \<or> (\<exists>reg. AddZone reg \<in> set requests \<and> hm_get (zones_of c) (za_name reg) = None)
      \<Longrightarrow> shut_down api ends io requests txs c = Some (Panic, ?c1)"
    by (auto simp: shut_down_def Let_def)
  with q(1) shut_down_clean [OF assms, of api] show ?thesis by blast
qed

theorem shut_down_saves_witness:
  "(\<exists>c'. shut_down example_api (\<lambda>u. True) \<lparr>sio_state = True, sio_tsig = True, sio_zone = (\<lambda>r. True)\<rparr> []
       [(''ZL'', Some []), (''ZS'', Some [])] (new_center :: (Algorithm \<times> bytes \<times> key_name) Center) = Some (Ok (), c') \<and> length (ce_writes c') = 2)
   \<and> (\<exists>c'. shut_down example_api (\<lambda>u. True) \<lparr>sio_state = True, sio_tsig = True, sio_zone = (\<lambda>r. True)\<rparr> []
       [(''ZL'', Some []), (''ZS'', None)] (new_center :: (Algorithm \<times> bytes \<times> key_name) Center) = Some (Panic, c') \<and> ce_writes c' = [])"
proof -
  let ?io = "\<lparr>sio_state = True, sio_tsig = True, sio_zone = (\<lambda>r. True)\<rparr>"
  let ?c = "new_center :: (Algorithm \<times> bytes \<times> key_name) Center"
  have c: "\<not> ce_poisoned ?c" "zones_ok ?c" "ce_writes ?c = []" "zones_of ?c = []"
    by (simp_all add: new_center_def zones_ok_def State_new_def)
  note s = shut_down_saves [OF c(1,2) _, of _ "\<lambda>u. True" ?io example_api "[]"]
  from s [of "[(''ZL'', Some []), (''ZS'', Some [])]"] s [of "[(''ZL'', Some []), (''ZS'', None)]"]
  show ?thesis by (auto simp: c(3,4))
qed

end
