(* ===== verification/File_IO.thy ===== *)
theory File_IO
  imports Daemon
begin

text \<open>
  Files on disk: the atomic replacement of a file (\<open>util.rs\<close>) and the loading and saving of every kind of
  file (\<open>Spec::load\<close>, \<open>Spec::save\<close>). A write is the list of the operations it asks the file system for, which
  take effect in this order; the program can be stopped after any of them. Serialising is a parameter with its law, failures of the operating
  system are the environment.
\<close>

section \<open>Paths\<close>

text \<open>The components of a path (the current directory counts only in front), its parent, and \<open>join\<close>.\<close>

definition Path_has_root :: "utf8path \<Rightarrow> bool" where
  "Path_has_root s \<longleftrightarrow> s \<noteq> [] \<and> hd s = CHR ''/''"

definition Path_components :: "utf8path \<Rightarrow> string list" where
  "Path_components s = (case split_char (CHR ''/'') s of
      [] \<Rightarrow> []
    | c # cs \<Rightarrow> (if c = [] then [] else [c]) @ filter (\<lambda>x. x \<noteq> [] \<and> x \<noteq> ''.'') cs)"

type_synonym path = "bool \<times> string list"

definition Path_of :: "utf8path \<Rightarrow> path" where
  "Path_of s = (Path_has_root s, Path_components s)"

definition Path_parent :: "utf8path \<Rightarrow> path option" where
  "Path_parent s = (if Path_components s = [] then None else Some (Path_has_root s, butlast (Path_components s)))"

definition Path_join :: "utf8path \<Rightarrow> utf8path \<Rightarrow> utf8path" where
  "Path_join dir s = (if Path_has_root s \<or> dir = [] then s else if last dir = CHR ''/'' then dir @ s else dir @ ''/'' @ s)"

section \<open>The file system\<close>

record file_system =
  fs_files :: "path \<Rightarrow> bytes option"
  fs_dirs :: "path set"

datatype fs_op =
    CreateDirs path
  | CreateFile path
  | Append path bytes
  | Rename path path
  | Remove path

definition parents :: "path \<Rightarrow> path set" where
  "parents p = (\<lambda>n. (fst p, take n (snd p))) ` {0..length (snd p)}"

fun fs_exec :: "fs_op \<Rightarrow> file_system \<Rightarrow> file_system" where
  "fs_exec (CreateDirs p) fs = fs\<lparr>fs_dirs := fs_dirs fs \<union> parents p\<rparr>"
| "fs_exec (CreateFile p) fs = fs\<lparr>fs_files := (fs_files fs)(p := Some [])\<rparr>"
| "fs_exec (Append p b) fs = fs\<lparr>fs_files := (fs_files fs)(p := map_option (\<lambda>c. c @ b) (fs_files fs p))\<rparr>"
| "fs_exec (Rename p q) fs = fs\<lparr>fs_files := (fs_files fs)(q := fs_files fs p, p := None)\<rparr>"
| "fs_exec (Remove p) fs = fs\<lparr>fs_files := (fs_files fs)(p := None)\<rparr>"

definition fs_run :: "fs_op list \<Rightarrow> file_system \<Rightarrow> file_system" where
  "fs_run ops fs = fold fs_exec ops fs"

section \<open>Replacing a file\<close>

text \<open>What can fail: making the directory, the temporary file (otherwise its name), the write after some
  bytes, the renaming; and whether a temporary file that is given up can be removed.\<close>

record write_env =
  we_mkdir :: "io_error option"
  we_temp :: "io_error + string"
  we_write :: "(nat \<times> io_error) option"
  we_persist :: "io_error option"
  we_cleaned :: bool

definition temp_path :: "path \<Rightarrow> string \<Rightarrow> path" where
  "temp_path dir name = (fst dir, snd dir @ [name])"

text \<open>The write as operations, one for every byte.\<close>

definition fill_file :: "path \<Rightarrow> bytes \<Rightarrow> fs_op list" where
  "fill_file tmp contents = CreateFile tmp # map (\<lambda>b. Append tmp [b]) contents"

definition write_file :: "write_env \<Rightarrow> utf8path \<Rightarrow> bytes \<Rightarrow> (io_error, unit) outcome \<times> fs_op list" where
  "write_file env path contents = (case Path_parent path of
      None \<Rightarrow> (Panic, [])
    | Some dir \<Rightarrow>
       (case we_mkdir env of
          Some e \<Rightarrow> (Err e, [])
        | None \<Rightarrow>
           (case we_temp env of
              Inl e \<Rightarrow> (Err e, [CreateDirs dir])
            | Inr name \<Rightarrow>
               (let tmp = temp_path dir name; clean = (if we_cleaned env then [Remove tmp] else []) in
                case we_write env of
                  Some (n, e) \<Rightarrow> (Err e, CreateDirs dir # fill_file tmp (take n contents) @ clean)
                | None \<Rightarrow>
                   (case we_persist env of
                      Some e \<Rightarrow> (Err e, CreateDirs dir # fill_file tmp contents @ clean)
                    | None \<Rightarrow> (Ok (), CreateDirs dir # fill_file tmp contents @ [Rename tmp (Path_of path)]))))))"

text \<open>The temporary file of a write, if there is one. It is new, and not the file itself.\<close>

definition temp_of :: "write_env \<Rightarrow> utf8path \<Rightarrow> path option" where
  "temp_of env path = (case (Path_parent path, we_temp env) of (Some dir, Inr name) \<Rightarrow> Some (temp_path dir name) | _ \<Rightarrow> None)"

definition temp_ok :: "write_env \<Rightarrow> utf8path \<Rightarrow> file_system \<Rightarrow> bool" where
  "temp_ok env path fs \<longleftrightarrow> (\<forall>t. temp_of env path = Some t \<longrightarrow> t \<noteq> Path_of path \<and> fs_files fs t = None)"

text \<open>Operations on the temporary file only.\<close>

fun touches_only :: "path option \<Rightarrow> fs_op \<Rightarrow> bool" where
  "touches_only t (CreateDirs p) = True"
| "touches_only t (CreateFile p) = (t = Some p)"
| "touches_only t (Append p b) = (t = Some p)"
| "touches_only t (Rename p q) = False"
| "touches_only t (Remove p) = (t = Some p)"

lemma run_touches_only:
  "list_all (touches_only t) ops \<Longrightarrow> t \<noteq> Some q \<Longrightarrow> fs_files (fs_run ops fs) q = fs_files fs q"
proof (induction ops arbitrary: fs)
  case (Cons op ops)
  then have "fs_files (fs_exec op fs) q = fs_files fs q" by (cases op) auto
  with Cons show ?case by (simp add: fs_run_def)
qed (simp add: fs_run_def)

lemma fill_touches: "list_all (touches_only (Some t)) (fill_file t c)"
  by (simp add: fill_file_def list_all_iff)

lemma fill_appends: "fs_files fs t = Some c \<Longrightarrow> fs_files (fold fs_exec (map (\<lambda>b. Append t [b]) bs) fs) t = Some (c @ bs)"
  by (induction bs arbitrary: fs c) auto

lemma fill_contents: "fs_files (fs_run (fill_file t c) fs) t = Some c"
  using fill_appends [of "fs_exec (CreateFile t) fs" t "[]" c] by (simp add: fs_run_def fill_file_def)

lemma run_append: "fs_run (a @ b) fs = fs_run b (fs_run a fs)"
  by (simp add: fs_run_def)

text \<open>A write touches its temporary file only, and then, if it succeeds, replaces the file.\<close>

lemma write_file_shape:
  assumes "write_file env path contents = (res, ops)"
  shows "(res \<noteq> Ok () \<and> list_all (touches_only (temp_of env path)) ops)
    \<or> (\<exists>dir t. res = Ok () \<and> temp_of env path = Some t \<and> ops = (CreateDirs dir # fill_file t contents) @ [Rename t (Path_of path)])"
proof (cases "Path_parent path")
  case None
  then show ?thesis using assms by (auto simp: write_file_def)
next
  case (Some dir)
  show ?thesis
  proof (cases "we_temp env")
    case (Inl e)
    then show ?thesis using assms Some by (auto simp: write_file_def split: option.splits)
  next
    case (Inr name)
    let ?t = "temp_path dir name"
    have t: "temp_of env path = Some ?t" using Some Inr by (simp add: temp_of_def)
    have f: "list_all (touches_only (Some ?t)) (CreateDirs dir # fill_file ?t c @ (if we_cleaned env then [Remove ?t] else []))" for c
      using fill_touches by simp
    consider (mkdir) e where "res = Err e" "ops = []"
      | (failed) e c where "res = Err e" "ops = CreateDirs dir # fill_file ?t c @ (if we_cleaned env then [Remove ?t] else [])"
      | (good) "res = Ok ()" "ops = CreateDirs dir # fill_file ?t contents @ [Rename ?t (Path_of path)]"
      using assms Some Inr by (auto simp: write_file_def Let_def split: option.splits prod.splits)
    then show ?thesis
    proof cases
      case failed
      then show ?thesis using f t by simp
    qed (use t in simp_all)
  qed
qed

text \<open>At every moment of a write the file has its old contents or all of the new ones, and no other file but
  the temporary one changes. A write that fails leaves the file as it was.\<close>

lemma write_file_atomic:
  assumes "write_file env path contents = (res, ops)" "temp_ok env path fs"
  shows "fs_files (fs_run (take k ops) fs) (Path_of path) \<in> {fs_files fs (Path_of path), if res = Ok () then Some contents else fs_files fs (Path_of path)}"
    and "q \<noteq> Path_of path \<Longrightarrow> temp_of env path \<noteq> Some q \<Longrightarrow> fs_files (fs_run (take k ops) fs) q = fs_files fs q"
    and "fs_files (fs_run ops fs) (Path_of path) = (if res = Ok () then Some contents else fs_files fs (Path_of path))"
    and "res = Ok () \<Longrightarrow> temp_of env path = Some t \<Longrightarrow> fs_files (fs_run ops fs) t = None"
proof -
  let ?p = "Path_of path"
  have t: "temp_of env path = Some t \<Longrightarrow> t \<noteq> ?p" for t using assms(2) by (simp add: temp_ok_def)
  have keeps: "fs_files (fs_run (take j xs) fs) q = fs_files fs q" if "list_all (touches_only (temp_of env path)) xs" "temp_of env path \<noteq> Some q" for j xs q
    by (rule run_touches_only) (use that in \<open>auto simp: list_all_iff dest: in_set_takeD\<close>)
  consider (bad) "res \<noteq> Ok ()" "list_all (touches_only (temp_of env path)) ops"
    | (good) dir t where "res = Ok ()" "temp_of env path = Some t" "ops = (CreateDirs dir # fill_file t contents) @ [Rename t ?p]"
    using write_file_shape [OF assms(1)] by blast
  then have all: "fs_files (fs_run (take k ops) fs) ?p \<in> {fs_files fs ?p, if res = Ok () then Some contents else fs_files fs ?p}
    \<and> (q \<noteq> ?p \<longrightarrow> temp_of env path \<noteq> Some q \<longrightarrow> fs_files (fs_run (take k ops) fs) q = fs_files fs q)
    \<and> fs_files (fs_run ops fs) ?p = (if res = Ok () then Some contents else fs_files fs ?p)
    \<and> (res = Ok () \<longrightarrow> (\<forall>t. temp_of env path = Some t \<longrightarrow> fs_files (fs_run ops fs) t = None))" for k q
  proof cases
    case bad
    have p: "temp_of env path \<noteq> Some ?p" using t by blast
    have "fs_files (fs_run (take k ops) fs) ?p = fs_files fs ?p" "fs_files (fs_run ops fs) ?p = fs_files fs ?p"
      using keeps [OF bad(2) p, of k] keeps [OF bad(2) p, of "length ops"] by simp_all
    moreover have "temp_of env path \<noteq> Some q \<longrightarrow> fs_files (fs_run (take k ops) fs) q = fs_files fs q"
      using keeps [OF bad(2)] by blast
    ultimately show ?thesis using bad(1) by simp
  next
    case good
    let ?w = "CreateDirs dir # fill_file t contents"
    have w: "list_all (touches_only (temp_of env path)) ?w" using fill_touches good(2) by simp
    have full: "fs_files (fs_run ?w fs) t = Some contents" using fill_contents by (simp add: fs_run_def)
    have same: "fs_files (fs_run ?w fs) q = fs_files fs q" if "q \<noteq> t" for q
      by (rule run_touches_only [OF w]) (use that good(2) in simp)
    have run: "fs_files (fs_run ops fs) = (fs_files (fs_run ?w fs))(?p := Some contents, t := None)"
      using full by (simp add: good(3) run_append) (simp add: fs_run_def)
    have "t \<noteq> ?p" using t good(2) by blast
    show ?thesis
    proof (cases "k \<le> length ?w")
      case True
      then have "take k ops = take k ?w" unfolding good(3) by (simp only: take_append) simp
      then have "fs_files (fs_run (take k ops) fs) q = fs_files fs q" if "q \<noteq> t" for q
        using keeps [OF w, of q k] that good(2) by simp
      then show ?thesis using good(1,2) run \<open>t \<noteq> ?p\<close> by simp
    next
      case False
      then have "take k ops = ops" by (simp add: good(3))
      then show ?thesis using run same good(1,2) \<open>t \<noteq> ?p\<close> by simp
    qed
  qed
  show "fs_files (fs_run (take k ops) fs) ?p \<in> {fs_files fs ?p, if res = Ok () then Some contents else fs_files fs ?p}"
    "q \<noteq> ?p \<Longrightarrow> temp_of env path \<noteq> Some q \<Longrightarrow> fs_files (fs_run (take k ops) fs) q = fs_files fs q"
    "fs_files (fs_run ops fs) ?p = (if res = Ok () then Some contents else fs_files fs ?p)"
    "res = Ok () \<Longrightarrow> temp_of env path = Some t \<Longrightarrow> fs_files (fs_run ops fs) t = None"
    using all by blast+
qed

section \<open>Loading and saving\<close>

text \<open>A format: printing, which can fail, and parsing, with errors as I/O errors. What was printed is parsed
  again.\<close>

record 'a codec =
  co_print :: "'a \<Rightarrow> io_error + bytes"
  co_parse :: "bytes \<Rightarrow> io_error + 'a"

definition codec_ok :: "'a codec \<Rightarrow> bool" where
  "codec_ok C \<longleftrightarrow> (\<forall>a text. co_print C a = Inr text \<longrightarrow> co_parse C text = Inr a)"

text \<open>Reading a file; an error of the operating system other than that there is no file is \<open>rd\<close>.\<close>

definition read_file :: "io_error option \<Rightarrow> utf8path \<Rightarrow> file_system \<Rightarrow> io_error + bytes" where
  "read_file rd path fs = (case rd of Some e \<Rightarrow> Inl e | None \<Rightarrow>
     (case fs_files fs (Path_of path) of None \<Rightarrow> Inl io_error.NotFound | Some text \<Rightarrow> Inr text))"

definition load_with :: "'a codec \<Rightarrow> io_error option \<Rightarrow> utf8path \<Rightarrow> file_system \<Rightarrow> io_error + 'a" where
  "load_with C rd path fs = (case read_file rd path fs of Inl e \<Rightarrow> Inl e | Inr text \<Rightarrow> co_parse C text)"

definition save_with :: "'a codec \<Rightarrow> write_env \<Rightarrow> utf8path \<Rightarrow> 'a \<Rightarrow> (io_error, unit) outcome \<times> fs_op list" where
  "save_with C env path spec = (case co_print C spec of Inl e \<Rightarrow> (Err e, []) | Inr text \<Rightarrow> write_file env path text)"

lemma load_with_cong: "fs_files fs (Path_of path) = fs_files fs' (Path_of path) \<Longrightarrow> load_with C rd path fs = load_with C rd path fs'"
  by (cases rd) (simp_all add: load_with_def read_file_def)

text \<open>The files of the daemon; only that of the global state looks whether its path is one of a file.\<close>

definition SfFile_load :: "SfFile codec \<Rightarrow> io_error option \<Rightarrow> utf8path \<Rightarrow> file_system \<Rightarrow> io_error + SfFile" where
  "SfFile_load = load_with"

definition SfFile_save :: "SfFile codec \<Rightarrow> write_env \<Rightarrow> utf8path \<Rightarrow> SfFile \<Rightarrow> (io_error, unit) outcome \<times> fs_op list" where
  "SfFile_save C env path spec = (if Path_parent path = None then (Err IsADirectory, []) else save_with C env path spec)"

definition ZsFile_load :: "ZsFile codec \<Rightarrow> io_error option \<Rightarrow> utf8path \<Rightarrow> file_system \<Rightarrow> io_error + ZsFile" where
  "ZsFile_load = load_with"

definition ZsFile_save :: "ZsFile codec \<Rightarrow> write_env \<Rightarrow> utf8path \<Rightarrow> ZsFile \<Rightarrow> (io_error, unit) outcome \<times> fs_op list" where
  "ZsFile_save = save_with"

definition TsFile_load :: "TsFile codec \<Rightarrow> io_error option \<Rightarrow> utf8path \<Rightarrow> file_system \<Rightarrow> io_error + TsFile" where
  "TsFile_load = load_with"

definition TsFile_save :: "TsFile codec \<Rightarrow> write_env \<Rightarrow> utf8path \<Rightarrow> TsFile \<Rightarrow> (io_error, unit) outcome \<times> fs_op list" where
  "TsFile_save = save_with"

text \<open>The formats that people write: TOML, read as a string, which has to be UTF-8. An error of parsing
  keeps its text.\<close>

fun utf8_valid :: "bytes \<Rightarrow> bool" where
  "utf8_valid [] = True"
| "utf8_valid (a # bs) =
    (if a < 0x80 then utf8_valid bs
     else case bs of [] \<Rightarrow> False | b # cs \<Rightarrow>
       if b < 0x80 \<or> 0xC0 \<le> b then False
       else if 0xC2 \<le> a \<and> a \<le> 0xDF then utf8_valid cs
       else case cs of [] \<Rightarrow> False | c # ds \<Rightarrow>
         if c < 0x80 \<or> 0xC0 \<le> c then False
         else if 0xE0 \<le> a \<and> a \<le> 0xEF \<and> (a = 0xE0 \<longrightarrow> 0xA0 \<le> b) \<and> (a = 0xED \<longrightarrow> b < 0xA0) then utf8_valid ds
         else case ds of [] \<Rightarrow> False | d # es \<Rightarrow>
           0x80 \<le> d \<and> d < 0xC0 \<and> 0xF0 \<le> a \<and> a \<le> 0xF4 \<and> (a = 0xF0 \<longrightarrow> 0x90 \<le> b) \<and> (a = 0xF4 \<longrightarrow> b < 0x90) \<and> utf8_valid es)"

definition read_text :: "io_error option \<Rightarrow> utf8path \<Rightarrow> file_system \<Rightarrow> io_error + bytes" where
  "read_text rd path fs = (case read_file rd path fs of Inl e \<Rightarrow> Inl e | Inr out \<Rightarrow> if utf8_valid out then Inr out else Inl InvalidData)"

record 'a toml =
  to_print :: "'a \<Rightarrow> string + bytes"
  to_parse :: "bytes \<Rightarrow> string + 'a"

definition PfFile_load :: "PfFile toml \<Rightarrow> io_error option \<Rightarrow> utf8path \<Rightarrow> file_system \<Rightarrow> io_error + PfFile" where
  "PfFile_load C rd path fs = (case read_text rd path fs of Inl e \<Rightarrow> Inl e
     | Inr text \<Rightarrow> (case to_parse C text of Inl _ \<Rightarrow> Inl InvalidData | Inr spec \<Rightarrow> Inr spec))"

definition PfFile_save :: "PfFile toml \<Rightarrow> write_env \<Rightarrow> utf8path \<Rightarrow> PfFile \<Rightarrow> (io_error, unit) outcome \<times> fs_op list" where
  "PfFile_save C env path spec = (case to_print C spec of Inl _ \<Rightarrow> (Err InvalidData, []) | Inr text \<Rightarrow> write_file env path text)"

definition CfFile_load :: "CfFile toml \<Rightarrow> io_error option \<Rightarrow> utf8path \<Rightarrow> file_system \<Rightarrow> FileError + CfFile" where
  "CfFile_load C rd path fs = (case read_text rd path fs of Inl e \<Rightarrow> Inl (Load e)
     | Inr text \<Rightarrow> (case to_parse C text of Inl e \<Rightarrow> Inl (Parse e) | Inr spec \<Rightarrow> Inr spec))"

text \<open>The file of a zone.\<close>

definition zone_state_path :: "utf8path \<Rightarrow> dname \<Rightarrow> utf8path" where
  "zone_state_path dir name = Path_join dir (name @ ''.db'')"

section \<open>The files of the daemon on disk\<close>

text \<open>The formats, and the listing of a directory.\<close>

record disk_formats =
  df_state :: "SfFile codec"
  df_zone :: "ZsFile codec"
  df_tsig :: "TsFile codec"
  df_policy :: "PfFile toml"
  df_config :: "CfFile toml"
  df_list :: "utf8path \<Rightarrow> io_error + dir_entry list"

definition formats_ok :: "disk_formats \<Rightarrow> bool" where
  "formats_ok F \<longleftrightarrow> codec_ok (df_state F) \<and> codec_ok (df_zone F) \<and> codec_ok (df_tsig F)"

definition disk_files :: "disk_formats \<Rightarrow> file_system \<Rightarrow> files" where
  "disk_files F fs = \<lparr>fl_state = (\<lambda>p. SfFile_load (df_state F) None p fs), fl_config = (\<lambda>p. CfFile_load (df_config F) None p fs),
     fl_policy_dir = df_list F, fl_policy = (\<lambda>dir name. PfFile_load (df_policy F) None (Path_join dir name) fs),
     fl_zone = (\<lambda>dir n. ZsFile_load (df_zone F) None (zone_state_path dir n) fs), fl_tsig = (\<lambda>p. TsFile_load (df_tsig F) None p fs)\<rparr>"

fun saved_path :: "saved_file \<Rightarrow> utf8path" where
  "saved_path (StateFile p f) = p"
| "saved_path (ZoneFile dir n f) = zone_state_path dir n"
| "saved_path (TsigFile p f) = p"

fun save_file :: "disk_formats \<Rightarrow> write_env \<Rightarrow> saved_file \<Rightarrow> (io_error, unit) outcome \<times> fs_op list" where
  "save_file F env (StateFile p f) = SfFile_save (df_state F) env p f"
| "save_file F env (ZoneFile dir n f) = ZsFile_save (df_zone F) env (zone_state_path dir n) f"
| "save_file F env (TsigFile p f) = TsFile_save (df_tsig F) env p f"

text \<open>A file is on disk when the daemon would load it; two disks agree at a file when it would load the same
  from both.\<close>

fun on_disk :: "disk_formats \<Rightarrow> file_system \<Rightarrow> saved_file \<Rightarrow> bool" where
  "on_disk F fs (StateFile p f) \<longleftrightarrow> fl_state (disk_files F fs) p = Inr f"
| "on_disk F fs (ZoneFile dir n f) \<longleftrightarrow> fl_zone (disk_files F fs) dir n = Inr f"
| "on_disk F fs (TsigFile p f) \<longleftrightarrow> fl_tsig (disk_files F fs) p = Inr f"

fun same_at :: "disk_formats \<Rightarrow> file_system \<Rightarrow> file_system \<Rightarrow> saved_file \<Rightarrow> bool" where
  "same_at F fs fs' (StateFile p f) \<longleftrightarrow> fl_state (disk_files F fs) p = fl_state (disk_files F fs') p"
| "same_at F fs fs' (ZoneFile dir n f) \<longleftrightarrow> fl_zone (disk_files F fs) dir n = fl_zone (disk_files F fs') dir n"
| "same_at F fs fs' (TsigFile p f) \<longleftrightarrow> fl_tsig (disk_files F fs) p = fl_tsig (disk_files F fs') p"

lemma on_disk_same: "same_at F fs fs' w \<Longrightarrow> on_disk F fs w = on_disk F fs' w"
  by (cases w) simp_all

lemma load_with_None: "fs_files fs (Path_of path) = None \<Longrightarrow> load_with C None path fs = Inl io_error.NotFound"
  by (simp add: load_with_def read_file_def)

lemma on_disk_exists: "on_disk F fs w \<Longrightarrow> fs_files fs (Path_of (saved_path w)) \<noteq> None"
  by (cases w; rule notI) (simp_all add: disk_files_def SfFile_load_def ZsFile_load_def TsFile_load_def load_with_None)

lemma same_at_files: "fs_files fs (Path_of (saved_path w)) = fs_files fs' (Path_of (saved_path w)) \<Longrightarrow> same_at F fs fs' w"
  by (cases w) (auto simp: disk_files_def SfFile_load_def ZsFile_load_def TsFile_load_def intro: load_with_cong)

text \<open>What a save does, whichever file it is: its operations are those of an atomic replacement.\<close>

lemma save_with_shape:
  assumes "save_with C env path f = (res, ops)"
  shows "(res \<noteq> Ok () \<and> ops = []) \<or> (\<exists>out. write_file env path out = (res, ops)
    \<and> (codec_ok C \<longrightarrow> (\<forall>fs. fs_files fs (Path_of path) = Some out \<longrightarrow> load_with C None path fs = Inr f)))"
proof (cases "co_print C f")
  case (Inl e)
  then show ?thesis using assms by (auto simp: save_with_def)
next
  case (Inr out)
  then have "write_file env path out = (res, ops)" using assms by (simp add: save_with_def)
  moreover have "codec_ok C \<Longrightarrow> fs_files fs (Path_of path) = Some out \<Longrightarrow> load_with C None path fs = Inr f" for fs
    using Inr by (simp add: load_with_def read_file_def codec_ok_def)
  ultimately show ?thesis by blast
qed

lemma save_file_shape:
  assumes "save_file F env w = (res, ops)"
  shows "(res \<noteq> Ok () \<and> ops = []) \<or> (\<exists>out. write_file env (saved_path w) out = (res, ops)
    \<and> (formats_ok F \<longrightarrow> (\<forall>fs. fs_files fs (Path_of (saved_path w)) = Some out \<longrightarrow> on_disk F fs w)))"
proof (cases w)
  case (StateFile p f)
  show ?thesis
  proof (cases "Path_parent p = None")
    case False
    have "save_with (df_state F) env p f = (res, ops)"
      using assms unfolding StateFile save_file.simps SfFile_save_def if_not_P [OF False] .
    from save_with_shape [OF this] show ?thesis
      using StateFile by (auto simp: formats_ok_def disk_files_def SfFile_load_def)
  qed (use assms StateFile in \<open>auto simp: SfFile_save_def\<close>)
next
  case (ZoneFile dir n f)
  then have "save_with (df_zone F) env (zone_state_path dir n) f = (res, ops)" using assms by (simp add: ZsFile_save_def)
  from save_with_shape [OF this] show ?thesis
    using ZoneFile by (auto simp: formats_ok_def disk_files_def ZsFile_load_def)
next
  case (TsigFile p f)
  then have "save_with (df_tsig F) env p f = (res, ops)" using assms by (simp add: TsFile_save_def)
  from save_with_shape [OF this] show ?thesis
    using TsigFile by (auto simp: formats_ok_def disk_files_def TsFile_load_def)
qed

lemma save_file_other:
  assumes "save_file F env w = (res, ops)" "temp_ok env (saved_path w) fs" "Path_of q \<noteq> Path_of (saved_path w)"
    and "fs_files fs (Path_of q) \<noteq> None"
  shows "fs_files (fs_run (take k ops) fs) (Path_of q) = fs_files fs (Path_of q)"
proof -
  have t: "temp_of env (saved_path w) \<noteq> Some (Path_of q)"
  proof
    assume "temp_of env (saved_path w) = Some (Path_of q)"
    with assms(2) have "fs_files fs (Path_of q) = None" unfolding temp_ok_def by simp
    with assms(4) show False by simp
  qed
  from save_file_shape [OF assms(1)] show ?thesis
  proof (elim disjE conjE exE)
    fix out assume "write_file env (saved_path w) out = (res, ops)"
    from write_file_atomic(2) [OF this assms(2,3) t] show ?thesis .
  qed (simp add: fs_run_def)
qed

text \<open>C9: whenever the program is stopped while the state, a zone or the keys are being saved, the next start finds
  the file as it was before or completely new, and every other file it could read as it was; a save that
  succeeds leaves the new file, and one that fails the old one.\<close>

theorem save_survives_crash:
  assumes "formats_ok F" "save_file F env w = (res, ops)" "temp_ok env (saved_path w) fs"
  shows "(same_at F (fs_run (take k ops) fs) fs w \<or> on_disk F (fs_run (take k ops) fs) w)
    \<and> (if res = Ok () then on_disk F (fs_run ops fs) w else same_at F (fs_run ops fs) fs w)
    \<and> (\<forall>v. Path_of (saved_path v) \<noteq> Path_of (saved_path w) \<and> on_disk F fs v \<longrightarrow> on_disk F (fs_run (take k ops) fs) v)"
proof (intro conjI allI impI)
  from save_file_shape [OF assms(2)]
  show "same_at F (fs_run (take k ops) fs) fs w \<or> on_disk F (fs_run (take k ops) fs) w"
  proof (elim disjE conjE exE)
    fix out assume o: "write_file env (saved_path w) out = (res, ops)"
      "formats_ok F \<longrightarrow> (\<forall>fs. fs_files fs (Path_of (saved_path w)) = Some out \<longrightarrow> on_disk F fs w)"
    have "fs_files (fs_run (take k ops) fs) (Path_of (saved_path w)) = fs_files fs (Path_of (saved_path w))
        \<or> fs_files (fs_run (take k ops) fs) (Path_of (saved_path w)) = Some out"
      using write_file_atomic(1) [OF o(1) assms(3), of k] by (auto split: if_splits)
    then show ?thesis using same_at_files o(2) assms(1) by blast
  qed (simp add: fs_run_def same_at_files)
  from save_file_shape [OF assms(2)]
  show "if res = Ok () then on_disk F (fs_run ops fs) w else same_at F (fs_run ops fs) fs w"
  proof (elim disjE conjE exE)
    fix out assume o: "write_file env (saved_path w) out = (res, ops)"
      "formats_ok F \<longrightarrow> (\<forall>fs. fs_files fs (Path_of (saved_path w)) = Some out \<longrightarrow> on_disk F fs w)"
    show ?thesis using write_file_atomic(3) [OF o(1) assms(3)] same_at_files o(2) assms(1) by simp
  qed (simp add: fs_run_def same_at_files)
next
  fix v assume v: "Path_of (saved_path v) \<noteq> Path_of (saved_path w) \<and> on_disk F fs v"
  then have "fs_files (fs_run (take k ops) fs) (Path_of (saved_path v)) = fs_files fs (Path_of (saved_path v))"
    using save_file_other [OF assms(2,3)] on_disk_exists by blast
  then show "on_disk F (fs_run (take k ops) fs) v" using v on_disk_same same_at_files by blast
qed


text \<open>A path without a directory is an error for the state and a panic for the keys.\<close>

lemma save_without_directory:
  assumes "Path_parent path = None"
  shows "SfFile_save C env path f = (Err IsADirectory, [])"
    and "co_print D k = Inr out \<Longrightarrow> TsFile_save D env path k = (Panic, [])"
  using assms by (simp_all add: SfFile_save_def TsFile_save_def save_with_def write_file_def)

section \<open>An example\<close>

definition one_codec :: "'a \<Rightarrow> 'a codec" where
  "one_codec a = \<lparr>co_print = (\<lambda>b. if b = a then Inr [1] else Inl InvalidData), co_parse = (\<lambda>_. Inr a)\<rparr>"

lemma one_codec_ok: "codec_ok (one_codec a)"
  by (simp add: codec_ok_def one_codec_def)

definition no_toml :: "'a toml" where
  "no_toml = \<lparr>to_print = (\<lambda>_. Inl ''''), to_parse = (\<lambda>_. Inl '''')\<rparr>"

definition one_formats :: "SfFile \<Rightarrow> ZsFile \<Rightarrow> TsFile \<Rightarrow> disk_formats" where
  "one_formats s z t = \<lparr>df_state = one_codec s, df_zone = one_codec z, df_tsig = one_codec t, df_policy = no_toml,
     df_config = no_toml, df_list = (\<lambda>_. Inr [])\<rparr>"

lemma one_formats_ok: "formats_ok (one_formats s z t)"
  by (simp add: formats_ok_def one_formats_def one_codec_ok)

definition demo_disk :: file_system where
  "demo_disk = \<lparr>fs_files = (\<lambda>_. None), fs_dirs = {}\<rparr>"

definition demo_write :: write_env where
  "demo_write = \<lparr>we_mkdir = None, we_temp = Inr ''tmp'', we_write = None, we_persist = None, we_cleaned = True\<rparr>"

definition demo_tsig :: TsFile where
  "demo_tsig = TsFile.V1 \<lparr>tss_map = []\<rparr>"

text \<open>The write of the example stops before the renaming, and then it does not.\<close>

theorem save_survives_crash_witness:
  "\<exists>F ops. save_file F demo_write (TsigFile ''/k/a.db'' demo_tsig) = (Ok (), ops) \<and> length ops = 4
    \<and> on_disk F (fs_run ops demo_disk) (TsigFile ''/k/a.db'' demo_tsig)
    \<and> (same_at F (fs_run (take 3 ops) demo_disk) demo_disk (TsigFile ''/k/a.db'' demo_tsig)
      \<or> on_disk F (fs_run (take 3 ops) demo_disk) (TsigFile ''/k/a.db'' demo_tsig))"
proof -
  let ?F = "one_formats undefined undefined demo_tsig"
  let ?ops = "[CreateDirs (True, [''k'']), CreateFile (True, [''k'', ''tmp'']), Append (True, [''k'', ''tmp'']) [1],
    Rename (True, [''k'', ''tmp'']) (True, [''k'', ''a.db''])]"
  have s: "save_file ?F demo_write (TsigFile ''/k/a.db'' demo_tsig) = (Ok (), ?ops)"
    by (simp add: TsFile_save_def save_with_def one_formats_def one_codec_def write_file_def demo_write_def Path_parent_def
        Path_components_def Path_has_root_def temp_path_def fill_file_def Path_of_def Let_def)
  have "temp_ok demo_write (saved_path (TsigFile ''/k/a.db'' demo_tsig)) demo_disk"
    by (simp add: temp_ok_def temp_of_def demo_write_def demo_disk_def Path_parent_def Path_components_def Path_has_root_def temp_path_def Path_of_def)
  from save_survives_crash [OF one_formats_ok s this, of 3] s show ?thesis by (intro exI [of _ ?F] exI [of _ ?ops]) simp
qed

section \<open>One after another\<close>

text \<open>Several files are saved, each in its own environment.\<close>

fun save_all :: "disk_formats \<Rightarrow> (saved_file \<Rightarrow> write_env) \<Rightarrow> saved_file list \<Rightarrow> file_system \<Rightarrow> file_system" where
  "save_all F env [] fs = fs"
| "save_all F env (w # ws) fs = save_all F env ws (fs_run (snd (save_file F (env w) w)) fs)"

text \<open>Every save succeeds, with a temporary file that is new.\<close>

fun saves_ok :: "disk_formats \<Rightarrow> (saved_file \<Rightarrow> write_env) \<Rightarrow> saved_file list \<Rightarrow> file_system \<Rightarrow> bool" where
  "saves_ok F env [] fs = True"
| "saves_ok F env (w # ws) fs = (fst (save_file F (env w) w) = Ok () \<and> temp_ok (env w) (saved_path w) fs
     \<and> saves_ok F env ws (fs_run (snd (save_file F (env w) w)) fs))"

lemma save_file_result:
  assumes "formats_ok F" "save_file F env w = (Ok (), ops)" "temp_ok env (saved_path w) fs"
  shows "on_disk F (fs_run ops fs) w"
proof -
  obtain out where o: "write_file env (saved_path w) out = (Ok (), ops)"
    "\<And>fs. fs_files fs (Path_of (saved_path w)) = Some out \<Longrightarrow> on_disk F fs w"
    using save_file_shape [OF assms(2)] assms(1) by blast
  show ?thesis using write_file_atomic(3) [OF o(1) assms(3)] o(2) by simp
qed

lemma save_file_keeps:
  assumes "save_file F env w = (res, ops)" "temp_ok env (saved_path w) fs" "Path_of (saved_path v) \<noteq> Path_of (saved_path w)" "on_disk F fs v"
  shows "on_disk F (fs_run ops fs) v"
proof -
  have "fs_files (fs_run ops fs) (Path_of (saved_path v)) = fs_files fs (Path_of (saved_path v))"
    using save_file_other [OF assms(1-3) on_disk_exists [OF assms(4)], of "length ops"] by simp
  then show ?thesis using assms(4) on_disk_same same_at_files by blast
qed

lemma save_all_keeps:
  assumes "saves_ok F env ws fs" "Path_of (saved_path v) \<notin> (\<lambda>w. Path_of (saved_path w)) ` set ws" "on_disk F fs v"
  shows "on_disk F (save_all F env ws fs) v"
  using assms
proof (induction ws arbitrary: fs)
  case (Cons w ws)
  obtain res ops where r: "save_file F (env w) w = (res, ops)" by fastforce
  then have "on_disk F (fs_run ops fs) v" using save_file_keeps [OF r] Cons.prems by auto
  then show ?case using Cons r by simp
qed simp

text \<open>Files with different paths are all on disk afterwards.\<close>

lemma save_all_on_disk:
  assumes "formats_ok F" "saves_ok F env ws fs" "distinct (map (\<lambda>w. Path_of (saved_path w)) ws)" "w \<in> set ws"
  shows "on_disk F (save_all F env ws fs) w"
  using assms(2-)
proof (induction ws arbitrary: fs)
  case (Cons v ws)
  obtain ops where r: "save_file F (env v) v = (Ok (), ops)" using Cons.prems(1) by (cases "save_file F (env v) v") auto
  show ?case
  proof (cases "w = v")
    case True
    have "on_disk F (fs_run ops fs) v" using save_file_result [OF assms(1) r] Cons.prems(1) by simp
    then have "on_disk F (save_all F env ws (fs_run ops fs)) v"
      by (rule save_all_keeps [rotated 2]) (use Cons.prems(1,2) r in auto)
    then show ?thesis using r True by simp
  next
    case False
    then show ?thesis using Cons r by auto
  qed
qed simp

text \<open>The name of a zone is a path: one that begins with a slash leaves the directory of the zones.\<close>

lemma zone_state_path_absolute: "zone_state_path dir (CHR ''/'' # n) = CHR ''/'' # n @ ''.db''"
  by (simp add: zone_state_path_def Path_join_def Path_has_root_def)

end
