(* ===== verification/Program.thy ===== *)
theory Program
  imports Daemon Shutdown Client File_IO
begin

text \<open>
  The daemon as a whole (\<open>main\<close> in \<open>main.rs\<close>): from the arguments to the started units, and over an
  interrupt to the files it leaves and the next start from them.
\<close>

section \<open>The start\<close>

text \<open>\<open>main\<close> up to its loop: an exit code, or the center and the units that were started. A log target
  that cannot be opened panics.\<close>

definition prepare_logger :: "(LogTarget \<Rightarrow> 'e option) \<Rightarrow> LoggingConfig \<Rightarrow> (unit, Logger) outcome" where
  "prepare_logger open_error config = (case Logger_prepare open_error config Logger_launch of
      Inr (Some change) \<Rightarrow> (case Logger_apply change Logger_launch of (Ok _, lgr) \<Rightarrow> Ok lgr | _ \<Rightarrow> Panic)
    | _ \<Rightarrow> Panic)"

definition daemon_start :: "'k key_api \<Rightarrow> files \<Rightarrow> (LogTarget \<Rightarrow> 'e option) \<Rightarrow> environment \<Rightarrow> ArgsSpec \<Rightarrow> bool \<Rightarrow> bool
    \<Rightarrow> spawn_env \<Rightarrow> exit_code + ('k Center \<times> (string \<times> unit_settings) list)" where
  "daemon_start api d open_error env args check_config runtime_ok e = (case Config_init env args of
      Inl _ \<Rightarrow> Inl FAILURE
    | Inr config \<Rightarrow>
       if check_config then (case Config_init_from_file (fl_config d) config of
           (Ok _, _) \<Rightarrow> Inl SUCCESS
         | (Err _, _) \<Rightarrow> Inl FAILURE
         | (Panic, _) \<Rightarrow> Inl Panicked)
       else (case main_load api d config of
           Err _ \<Rightarrow> Inl FAILURE
         | Panic \<Rightarrow> Inl Panicked
         | Ok (state, heap) \<Rightarrow>
            (case prepare_logger open_error (dm_logging (cfg_daemon (st_config state))) of
               Ok _ \<Rightarrow> if \<not> runtime_ok then Inl FAILURE
                 else (case spawn_units e of
                     Ok units \<Rightarrow> Inr (Center_start state heap, units)
                   | _ \<Rightarrow> Inl Panicked)
             | _ \<Rightarrow> Inl Panicked)))"

text \<open>The loop: commands are forwarded until the interrupt comes (\<open>Ok\<close>) or cannot be waited for
  (\<open>Err\<close>); a command for a unit that has ended panics. The result is the exit code and what is left of the
  queues.\<close>

definition main_loop :: "(unit, unit) outcome \<Rightarrow> (string \<times> ApplicationCommand) list \<Rightarrow> unit_txs \<Rightarrow> exit_code \<times> unit_txs" where
  "main_loop ctrl_c cmds txs = (case forward_app_cmds cmds txs of
      (Ok _, txs1) \<Rightarrow> (case ctrl_c of Ok _ \<Rightarrow> (SUCCESS, txs1) | Err _ \<Rightarrow> (FAILURE, txs1) | Panic \<Rightarrow> (Panicked, txs1))
    | (_, txs1) \<Rightarrow> (Panicked, txs1))"

section \<open>The files\<close>

text \<open>What a shutdown saves is what the next start expects.\<close>

definition saved_at_exit :: "'k key_api \<Rightarrow> 'k Center \<Rightarrow> saved_file list" where
  "saved_at_exit api c = [state_content c, tsig_content api c] @ map (\<lambda>(n, r). zone_content r c) (zones_of c)"

lemma saved_by_shutdown:
  assumes "zones_ok c" "key_api_ok api" "store_consistent api (tsig_of c)"
    and "Setting_value (dm_state_file (cfg_daemon config)) = Setting_value (dm_state_file (cfg_daemon (st_config (ce_state c))))"
    and "\<forall>w \<in> set ([state_content c, tsig_content api c] @ map (\<lambda>(n, r). zone_content r c) (zones_of c)). on_disk F fs w"
  shows "saved_files api config c (disk_files F fs)"
proof -
  have "fl_zone (disk_files F fs) (cfg_zone_state_dir (st_config (ce_state c))) n = Inr (ZsFile_build (zstate_at c r))"
    if z: "hm_get (zones_of c) n = Some r" for n r
  proof -
    have "on_disk F fs (zone_content r c)" using assms(5) hm_get_in_set [OF z] by force
    moreover have "zn_name (ce_heap c ! r) = n" using zones_okD(2) [OF assms(1)] z by auto
    ultimately show ?thesis by (simp add: zone_content_def)
  qed
  moreover have "on_disk F fs (state_content c)" "on_disk F fs (tsig_content api c)" using assms(5) by simp_all
  ultimately show ?thesis
    using assms(2-4) by (simp add: saved_files_def state_content_def tsig_content_def)
qed

lemma logger_starts:
  assumes "open_error (Setting_value (lg_target config)) = None"
  shows "\<exists>lgr. prepare_logger open_error config = Ok lgr"
  using assms by (auto simp: prepare_logger_def Logger_prepare_def Logger_apply_def Logger_launch_def PrimaryLogger_new_def
      Let_def split: LogTarget.splits)

text \<open>C8: a daemon in which zones and policies agree is interrupted, ends its units and saves everything to
  files with different paths, and is started again on the disk it left, with the same state file and nothing
  else wrong: it starts,
  every zone has its policy, but changing the policy of a zone that has one, and removing such a zone,
  panic with the state locked, after which adding a zone panics too.\<close>

theorem restart_after_shutdown:
  fixes c :: "'k Center" and api :: "'k key_api"
  assumes "daemon_ok c" "policies_ok (policies_of c)" "key_api_ok api" "store_consistent api (tsig_of c)"
    and "\<forall>(u, q) \<in> set txs. ends u" "\<forall>u. (u, None) \<notin> set txs" "sio_state io" "sio_tsig io" "\<forall>r. sio_zone io r"
    and "Config_init env args = Inr config"
    and "Setting_value (dm_state_file (cfg_daemon config)) = Setting_value (dm_state_file (cfg_daemon (st_config (ce_state c))))"
    and "\<forall>t. open_error t = None" "spawn_units e = Ok units"
    and "zone_policy c n = Some q" "mid_deletion_of c p = Some False"
    and "formats_ok F" "saves_ok F wenv (saved_at_exit api c) fs" "distinct (map (\<lambda>w. Path_of (saved_path w)) (saved_at_exit api c))"
  shows "\<exists>c' c2. shut_down api ends io [] txs c = Some (Ok (), c') \<and> ce_writes c' = ce_writes c @ saved_at_exit api c
    \<and> daemon_start api (disk_files F (save_all F wenv (saved_at_exit api c) fs)) open_error env args False True e = Inr (c2, units)
    \<and> zone_policy c2 = zone_policy c
    \<and> fst (change_policy n p c2) = Panic \<and> fst (remove_zone n c2) = Panic
    \<and> fst (add_zone m (snd (change_policy n p c2))) = Panic"
proof -
  have al: "\<not> ce_poisoned c" using daemon_okD(1) [OF assms(1)] by (simp add: alive_def)
  obtain c' where c': "shut_down api ends io [] txs c = Some (Ok (), c')"
      "ce_writes c' = ce_writes c @ saved_at_exit api c"
    using shut_down_clean [OF al daemon_okD(5) [OF assms(1)] assms(5,7-9,6)] unfolding saved_at_exit_def by blast
  let ?d = "disk_files F (save_all F wenv (saved_at_exit api c) fs)"
  have "saved_files api config c ?d"
    using saved_by_shutdown [OF daemon_okD(5) [OF assms(1)] assms(3,4,11)] save_all_on_disk [OF assms(16-18)]
    unfolding saved_at_exit_def by blast
  then obtain s h where l: "main_load api ?d config = Ok (s, h)"
    "zone_policy (Center_start s h) = zone_policy c"
    "fst (change_policy n p (Center_start s h)) = Panic" "fst (remove_zone n (Center_start s h)) = Panic"
    "fst (add_zone m (snd (change_policy n p (Center_start s h)))) = Panic"
    using restart_breaks_policies [OF assms(1,2) _ assms(14,15), of api config ?d] by blast
  obtain lgr where "prepare_logger open_error (dm_logging (cfg_daemon (st_config s))) = Ok lgr"
    using logger_starts assms(12) by blast
  then have "daemon_start api ?d open_error env args False True e = Inr (Center_start s h, units)"
    using assms(10,13) l(1) by (simp add: daemon_start_def)
  with c' l show ?thesis by blast
qed

definition quiet_env :: environment where
  "quiet_env v = None"

definition no_args :: ArgsSpec where
  "no_args = \<lparr>ar_state = None, ar_config = None, ar_log_level = None, ar_log_target = None, ar_daemonize = False\<rparr>"

lemma quiet_config:
  "\<exists>config. Config_init quiet_env no_args = Inr config
    \<and> Setting_value (dm_state_file (cfg_daemon config)) = ''/var/db/cascade/state.db''"
  by (simp add: Config_init_def EnvSpec_process_def env_var_def quiet_env_def bind_res_def EnvSpec_merge_def ArgsSpec_merge_def
      no_args_def Config_default_def DaemonConfig_default_def Let_def Setting_value_def Setting_new_def)

definition demo_formats :: disk_formats where
  "demo_formats = one_formats (SfFile_build (ce_state zone_center2)) (ZsFile_build (zstate_at zone_center2 0))
     (TsFile_build example_api (tsig_of zone_center2))"

lemma demo_saved_at_exit:
  "saved_at_exit example_api zone_center2 =
    [StateFile ''/var/db/cascade/state.db'' (SfFile_build (ce_state zone_center2)),
     TsigFile ''/var/db/cascade/tsig-keys.db'' (TsFile_build example_api (tsig_of zone_center2)),
     ZoneFile ''/var/db/cascade/zone-state.db'' ''nl'' (ZsFile_build (zstate_at zone_center2 0))]"
  unfolding saved_at_exit_def state_content_def tsig_content_def zone_content_def zone_center2_simps(1)
  by (simp add: zone_center2_def zone_center_def example_state_def State_new_def Config_default_def DaemonConfig_default_def
      set_policies_def Setting_value_def Setting_new_def)

lemmas demo_paths = Path_parent_def Path_components_def Path_has_root_def temp_path_def Path_of_def zone_state_path_def Path_join_def

lemma demo_saves:
  "saves_ok demo_formats (\<lambda>_. demo_write) (saved_at_exit example_api zone_center2) demo_disk"
  unfolding demo_saved_at_exit demo_formats_def
  by (simp add: SfFile_save_def ZsFile_save_def TsFile_save_def save_with_def one_formats_def one_codec_def write_file_def
      demo_write_def demo_paths fill_file_def Let_def temp_ok_def temp_of_def demo_disk_def fs_run_def)

lemma demo_distinct: "distinct (map (\<lambda>w. Path_of (saved_path w)) (saved_at_exit example_api zone_center2))"
  unfolding demo_saved_at_exit by (simp add: demo_paths)

theorem restart_after_shutdown_witness:
  "\<exists>c' c2. shut_down example_api (\<lambda>u. True) \<lparr>sio_state = True, sio_tsig = True, sio_zone = (\<lambda>r. True)\<rparr> []
       [(''ZL'', Some []), (''ZS'', Some [])] zone_center2 = Some (Ok (), c')
    \<and> daemon_start example_api (disk_files demo_formats (save_all demo_formats (\<lambda>_. demo_write)
        (saved_at_exit example_api zone_center2) demo_disk)) (\<lambda>t. None :: nat option) quiet_env no_args False True demo_spawn = Inr (c2, demo_units)
    \<and> zone_policy c2 ''nl'' = Some ''p'' \<and> fst (change_policy ''nl'' ''q'' c2) = Panic \<and> fst (remove_zone ''nl'' c2) = Panic"
proof -
  obtain config where cf: "Config_init quiet_env no_args = Inr config"
    "Setting_value (dm_state_file (cfg_daemon config)) = ''/var/db/cascade/state.db''"
    using quiet_config by blast
  have st: "Setting_value (dm_state_file (cfg_daemon (st_config (ce_state zone_center2)))) = ''/var/db/cascade/state.db''"
    by (simp add: zone_center2_def zone_center_def example_state_def State_new_def Config_default_def DaemonConfig_default_def
        set_policies_def Setting_value_def Setting_new_def)
  have keys: "store_consistent example_api (tsig_of zone_center2)"
    by (simp add: zone_center2_simps store_consistent_def TsigStore_new_def)
  show ?thesis
    using restart_after_shutdown [where txs = "[(''ZL'', Some []), (''ZS'', Some [])]" and ends = "\<lambda>u. True"
        and io = "\<lparr>sio_state = True, sio_tsig = True, sio_zone = (\<lambda>r. True)\<rparr>" and open_error = "\<lambda>t. None :: nat option"
        and m = "''de''" and F = demo_formats and wenv = "\<lambda>_. demo_write" and fs = demo_disk, OF zone_center2_ok(1,2) example_api_ok keys _ _ _ _ _ cf(1) _ _ demo_spawned zone_center2_ok(3,4) _ demo_saves demo_distinct]
      cf(2) st zone_center2_ok(3) one_formats_ok [folded demo_formats_def]
    by (auto simp: demo_formats_def one_formats_ok)
qed

end
