(* ===== verification/Messages.thy ===== *)
theory Messages
  imports Program
begin

text \<open>
  What the program tells its user: the texts of its errors (the \<open>Display\<close> instances), and the line that a
  start that fails leaves behind (\<open>main.rs\<close>).
\<close>

section \<open>The texts of errors\<close>

text \<open>How other crates print: I/O errors, and a string in quotes with escapes (\<open>{:?}\<close>).\<close>

record texts =
  tx_io :: "io_error \<Rightarrow> string"
  tx_debug :: "string \<Rightarrow> string"
  tx_addr_error :: string
  tx_new_key_error :: "NewKeyError \<Rightarrow> string"
  tx_zone_path :: "utf8path \<Rightarrow> dname \<Rightarrow> string"

fun ZoneAddError_fmt :: "ZoneAddError \<Rightarrow> string" where
  "ZoneAddError_fmt ZoneAddError.AlreadyExists = ''a zone of this name already exists''"

fun ZoneRemoveError_fmt :: "ZoneRemoveError \<Rightarrow> string" where
  "ZoneRemoveError_fmt ZoneRemoveError.NotFound = ''no such zone was found''"

fun ChangePolicyError_fmt :: "ChangePolicyError \<Rightarrow> string" where
  "ChangePolicyError_fmt NoSuchZone = ''the specified zone does not exist''"
| "ChangePolicyError_fmt NoSuchPolicy = ''the specified policy does not exist''"
| "ChangePolicyError_fmt PolicyMidDeletion = ''the specified policy is being deleted''"

fun ImportError_fmt :: "ImportError \<Rightarrow> string" where
  "ImportError_fmt ImportError.AlreadyExists = ''a key of the same name already exists''"

fun GenerateError_fmt :: "GenerateError \<Rightarrow> string" where
  "GenerateError_fmt GenerateError.AlreadyExists = ''a key of the same name already exists''"
| "GenerateError_fmt Implementation = ''an implementation error occurred''"

fun RemoveError_fmt :: "RemoveError \<Rightarrow> string" where
  "RemoveError_fmt RemoveError.NotFound = ''could not find the requested key''"
| "RemoveError_fmt Used = ''the key is currently in use''"

text \<open>The causes of an invalid name or of invalid base64 are not kept in the model; their texts are the
  parameters.\<close>

fun KeyParseError_fmt :: "texts \<Rightarrow> string \<Rightarrow> string \<Rightarrow> KeyParseError \<Rightarrow> string" where
  "KeyParseError_fmt T name_error base64_error InvalidAlgorithm = ''InvalidAlgorithm''"
| "KeyParseError_fmt T name_error base64_error InvalidStructure = ''InvalidStructure''"
| "KeyParseError_fmt T name_error base64_error InvalidName = ''InvalidName: '' @ name_error"
| "KeyParseError_fmt T name_error base64_error InvalidBase64 = ''InvalidBase64: '' @ base64_error"
| "KeyParseError_fmt T name_error base64_error (KeyCreationError err) = ''KeyCreationError: '' @ tx_new_key_error T err"

fun ParseIdentityError_fmt :: "ParseIdentityError \<Rightarrow> string" where
  "ParseIdentityError_fmt (NumericOverflow value) = ''numeric ID '' @ quoted value @ '' too large''"

fun ParseSimpleSocketError_fmt :: "texts \<Rightarrow> ParseSimpleSocketError \<Rightarrow> string" where
  "ParseSimpleSocketError_fmt T (UnknownProtocol protocol) = ''unrecognized protocol '' @ tx_debug T protocol"
| "ParseSimpleSocketError_fmt T Address = tx_addr_error T"

fun FileError_fmt :: "texts \<Rightarrow> FileError \<Rightarrow> string" where
  "FileError_fmt T (Load error) = tx_io T error"
| "FileError_fmt T (Parse error) = error"

text \<open>Equality of file errors: those of loading by their kind. A kind is the \<open>io_error\<close> without the text
  of the others.\<close>

fun io_error_kind :: "io_error \<Rightarrow> io_error" where
  "io_error_kind (OtherIo s) = OtherIo []"
| "io_error_kind e = e"

fun FileError_eq :: "FileError \<Rightarrow> FileError \<Rightarrow> bool" where
  "FileError_eq (Load l) (Load r) \<longleftrightarrow> io_error_kind l = io_error_kind r"
| "FileError_eq (Parse l) (Parse r) \<longleftrightarrow> l = r"
| "FileError_eq _ _ \<longleftrightarrow> False"

fun EnvError_fmt :: "texts \<Rightarrow> EnvError \<Rightarrow> string" where
  "EnvError_fmt T (NonUtf8 var) = quoted (''$'' @ var) @ '' was not valid UTF-8''"
| "EnvError_fmt T (InvalidLogLevel value) = quoted ''$CASCADE_LOG_LEVEL'' @ '' ('' @ tx_debug T value @ '') is not a valid log level''"
| "EnvError_fmt T (InvalidLogTarget value) = quoted ''$CASCADE_LOG'' @ '' ('' @ tx_debug T value
     @ '') is not a valid logging target [possible values: '' @ quoted ''stdout'' @ '', '' @ quoted ''stderr'' @ '', ''
     @ quoted ''file:<PATH>'' @ '', '' @ quoted ''syslog'' @ '']''"

fun ConfigError_fmt :: "texts \<Rightarrow> ConfigError \<Rightarrow> string" where
  "ConfigError_fmt T (ConfigEnv error) = EnvError_fmt T error"
| "ConfigError_fmt T (ConfigFile path (Load error)) = ''could not load the config file '' @ quoted path @ '': '' @ tx_io T error"
| "ConfigError_fmt T (ConfigFile path (Parse error)) = ''could not parse the config file '' @ quoted path @ '': '' @ error"

section \<open>A start that fails\<close>

text \<open>The line for an error of loading. \<open>dir\<close> is the directory of the states of zones.\<close>

fun startup_line :: "texts \<Rightarrow> utf8path \<Rightarrow> startup_error \<Rightarrow> string" where
  "startup_line T dir (StateLoad err) = ''Could not load the state file: '' @ tx_io T err"
| "startup_line T dir (Configure err) = ''Cascade couldn'' @ [CHR 0x27] @ ''t be configured: '' @ ConfigError_fmt T err"
| "startup_line T dir (PolicyLoad err) = ''Cascade couldn'' @ [CHR 0x27] @ ''t load all policies: '' @ tx_io T err"
| "startup_line T dir (ZoneLoad name err) = ''Failed to load zone state '' @ quoted name @ '' from ''
     @ quoted (tx_zone_path T dir name) @ '': '' @ tx_io T err"
| "startup_line T dir (TsigLoad err) = ''Failed to load the TSIG store: '' @ tx_io T err"

text \<open>The line of an error, and the exit code, of a start; the files of zones are those of the configuration
  of the loaded state.\<close>

definition start_line :: "texts \<Rightarrow> string \<Rightarrow> 'k key_api \<Rightarrow> files \<Rightarrow> environment \<Rightarrow> ArgsSpec \<Rightarrow> bool \<Rightarrow> bool \<Rightarrow> string option" where
  "start_line T runtime_error api d env args check_config runtime_ok = (case Config_init env args of
      Inl err \<Rightarrow> Some (''Cascade couldn'' @ [CHR 0x27] @ ''t be configured: '' @ ConfigError_fmt T (ConfigEnv err))
    | Inr config \<Rightarrow>
       if check_config then (case Config_init_from_file (fl_config d) config of
           (Err err, _) \<Rightarrow> Some (''Cascade couldn'' @ [CHR 0x27] @ ''t be configured: '' @ ConfigError_fmt T err)
         | _ \<Rightarrow> None)
       else (case main_load api d config of
           Err err \<Rightarrow> Some (startup_line T (case State_init_from_file (fl_state d) (State_new config :: 'k State) [] of
               (_, state, _) \<Rightarrow> cfg_zone_state_dir (st_config state)) err)
         | Panic \<Rightarrow> None
         | Ok _ \<Rightarrow> if \<not> runtime_ok then Some (''Couldn'' @ [CHR 0x27] @ ''t start Tokio: '' @ runtime_error) else None))"

text \<open>A start that ends with the exit code of a failure has printed why, when the log target can be
  opened; and one that has printed such a line does not start any unit.\<close>

theorem failed_start_says_why:
  assumes "\<forall>t. open_error t = None"
  shows "daemon_start api d open_error env args check_config runtime_ok e = Inl FAILURE
    \<longleftrightarrow> start_line T runtime_error api d env args check_config runtime_ok \<noteq> None"
proof -
  have lgr: "\<exists>lgr. prepare_logger open_error c = Ok lgr" for c using logger_starts assms by blast
  show ?thesis
  proof (cases "Config_init env args")
    case (Inr config)
    show ?thesis
    proof (cases check_config)
      case False
      show ?thesis
      proof (cases "main_load api d config")
        case (Ok p)
        obtain s h where p: "p = (s, h)" by fastforce
        obtain lgr where "prepare_logger open_error (dm_logging (cfg_daemon (st_config s))) = Ok lgr" using lgr by blast
        then show ?thesis using Inr False Ok p
          by (auto simp: daemon_start_def start_line_def split: outcome.splits)
      qed (use Inr False in \<open>simp_all add: daemon_start_def start_line_def\<close>)
    qed (use Inr in \<open>auto simp: daemon_start_def start_line_def split: outcome.splits prod.splits\<close>)
  qed (simp add: daemon_start_def start_line_def)
qed

end
