(* ===== verification/Arguments.thy ===== *)
theory Arguments
  imports Config_File
begin

text \<open>
  The command line of the daemon (\<open>config/args.rs\<close>): its arguments, and what their values are. Splitting the
  command line into arguments is \<open>clap\<close>; the arguments and the environment variables accept the same values.
\<close>

section \<open>The arguments\<close>

text \<open>An argument of the configuration: its identifier, its switches, and whether it takes a value.\<close>

record arg_spec =
  ag_id :: string
  ag_short :: "char option"
  ag_long :: string
  ag_takes_value :: bool

definition ArgsSpec_setup :: "arg_spec list" where
  "ArgsSpec_setup =
    [\<lparr>ag_id = ''state'', ag_short = None, ag_long = ''state'', ag_takes_value = True\<rparr>,
     \<lparr>ag_id = ''config'', ag_short = Some CHR ''c'', ag_long = ''config'', ag_takes_value = True\<rparr>,
     \<lparr>ag_id = ''log_level'', ag_short = None, ag_long = ''log-level'', ag_takes_value = True\<rparr>,
     \<lparr>ag_id = ''log_target'', ag_short = Some CHR ''l'', ag_long = ''log'', ag_takes_value = True\<rparr>,
     \<lparr>ag_id = ''daemonize'', ag_short = Some CHR ''d'', ag_long = ''daemonize'', ag_takes_value = False\<rparr>]"

definition LogLevel_value_variants :: "LogLevel list" where
  "LogLevel_value_variants = [LogLevel.Trace, LogLevel.Debug, LogLevel.Info, LogLevel.Warning, LogLevel.Error, LogLevel.Critical]"

definition LogLevel_to_possible_value :: "LogLevel \<Rightarrow> string" where
  "LogLevel_to_possible_value = LogLevel_as_str"

text \<open>\<open>EnumValueParser\<close> takes the variant whose possible value is the argument.\<close>

definition LogLevel_from_arg :: "string \<Rightarrow> LogLevel option" where
  "LogLevel_from_arg s = find (\<lambda>l. LogLevel_to_possible_value l = s) LogLevel_value_variants"

definition ArgsLogTargetSpec_possible_values :: "string list" where
  "ArgsLogTargetSpec_possible_values = [''stdout'', ''stderr'', ''file:<PATH>'', ''syslog'']"

text \<open>What \<open>clap\<close> makes of the values (by identifier; \<open>None\<close> refuses the command line), and \<open>ArgsSpec::process\<close>.\<close>

definition parse_value :: "('v \<Rightarrow> 'a option) \<Rightarrow> 'v option \<Rightarrow> 'a option option" where
  "parse_value parse v = (case v of None \<Rightarrow> Some None | Some s \<Rightarrow> map_option Some (parse s))"

definition ArgsSpec_process :: "(string \<Rightarrow> string option) \<Rightarrow> (string \<Rightarrow> bool) \<Rightarrow> ArgsSpec option" where
  "ArgsSpec_process value flag =
    Option.bind (parse_value LogLevel_from_arg (value ''log_level'')) (\<lambda>log_level.
    Option.bind (parse_value ArgsLogTargetSpec_parse_ref (value ''log_target'')) (\<lambda>log_target.
      Some \<lparr>ar_state = value ''state'', ar_config = value ''config'', ar_log_level = log_level, ar_log_target = log_target,
        ar_daemonize = flag ''daemonize''\<rparr>))"

section \<open>The same values as in the environment\<close>

lemma LogLevel_variants_all: "l \<in> set LogLevel_value_variants"
  by (cases l) (simp_all add: LogLevel_value_variants_def)

lemma LogLevel_roundtrip: "LogLevel_from_arg (LogLevel_to_possible_value l) = Some l"
  by (cases l) (simp_all add: LogLevel_from_arg_def LogLevel_to_possible_value_def LogLevel_value_variants_def)

lemma LogLevel_from_arg_env: "LogLevel_from_arg s = Some l \<longleftrightarrow> env_log_level s = Inr l"
proof
  assume "LogLevel_from_arg s = Some l"
  then have "LogLevel_as_str l = s"
    by (auto simp: LogLevel_from_arg_def LogLevel_to_possible_value_def find_Some_iff)
  then show "env_log_level s = Inr l" by (metis env_log_level_as_str)
next
  assume "env_log_level s = Inr l"
  then have "s = LogLevel_to_possible_value l" by (simp add: env_log_level_Inr LogLevel_to_possible_value_def)
  then show "LogLevel_from_arg s = Some l" by (simp add: LogLevel_roundtrip)
qed

lemma log_target_env:
  "map_option ArgsLogTargetSpec_build (ArgsLogTargetSpec_parse_ref s)
    = (case EnvLogTargetSpec_parse s of Inl _ \<Rightarrow> None | Inr t \<Rightarrow> Some (EnvLogTargetSpec_build t))"
  by (simp add: ArgsLogTargetSpec_parse_ref_def EnvLogTargetSpec_parse_def split: option.splits)

text \<open>A command line with a level and a target is refused exactly when the environment variables with the
  same values are, and otherwise both ask for the same settings.\<close>

theorem args_like_environment:
  assumes "value ''log_level'' = Some s" "value ''log_target'' = Some t"
    and "env = (\<lambda>v. if v = ''CASCADE_LOG_LEVEL'' then Some (Some s) else if v = ''CASCADE_LOG'' then Some (Some t) else None)"
  shows "(ArgsSpec_process value flag = None \<longleftrightarrow> (\<exists>e. EnvSpec_process env = Inl e))
    \<and> (\<forall>a. ArgsSpec_process value flag = Some a \<longrightarrow> (\<exists>e. EnvSpec_process env = Inr e \<and> ev_log_level e = ar_log_level a
        \<and> map_option EnvLogTargetSpec_build (ev_log_target e) = map_option ArgsLogTargetSpec_build (ar_log_target a)))"
proof -
  have l: "LogLevel_from_arg s = (case env_log_level s of Inl _ \<Rightarrow> None | Inr l \<Rightarrow> Some l)"
    by (cases "LogLevel_from_arg s"; cases "env_log_level s")
       (use LogLevel_from_arg_env [of s] in \<open>auto simp del: not_None_eq\<close>)
  have ev: "env_var env ''CASCADE_LOG_LEVEL'' = Inr (Some s)" "env_var env ''CASCADE_LOG'' = Inr (Some t)"
    "env_var env ''CASCADE_STATE_PATH'' = Inr None" "env_var env ''CASCADE_CONFIG_PATH'' = Inr None"
    "env_var env ''CASCADE_LOG_TRACE_TARGETS'' = Inr None"
    by (simp_all add: env_var_def assms(3))
  show ?thesis
    using log_target_env [of t]
    by (cases "env_log_level s"; cases "EnvLogTargetSpec_parse t"; cases "ArgsLogTargetSpec_parse_ref t")
       (simp_all add: ArgsSpec_process_def EnvSpec_process_def ev assms(1,2) parse_value_def bind_res_def l)
qed

end
