(* ===== verification/Xfr_Net.thy ===== *)
theory Xfr_Net
  imports Xfr_In Commands
begin

text \<open>
  Around the transfers (\<open>zonemaintenance/maintainer.rs\<close>): the texts of the errors, the progress reports in
  the log, and the connections that the daemon makes (\<open>DefaultConnFactory\<close>).
\<close>

section \<open>The texts of the errors\<close>

text \<open>How the errors of other crates are printed.\<close>

record error_texts =
  et_request :: "token \<Rightarrow> string"
  et_rcode :: "16 word \<Rightarrow> string"
  et_io :: "token \<Rightarrow> string"
  et_protocol :: "xfr_protocol_error \<Rightarrow> string"
  et_update :: "token \<Rightarrow> string"

fun ZoneMaintainerError_fmt :: "error_texts \<Rightarrow> ZoneMaintainerError \<Rightarrow> string" where
  "ZoneMaintainerError_fmt T NotRunning = ''ZoneMaintainer not running''"
| "ZoneMaintainerError_fmt T (InternalError err) = ''Internal error: '' @ err"
| "ZoneMaintainerError_fmt T UnknownZone = ''Unknown zone''"
| "ZoneMaintainerError_fmt T (RequestError err) = ''Error while sending request: '' @ et_request T err"
| "ZoneMaintainerError_fmt T (ResponseError err) = ''Error while receiving response: '' @ et_rcode T err"
| "ZoneMaintainerError_fmt T (IoError err) = ''I/O error: '' @ et_io T err"
| "ZoneMaintainerError_fmt T (ConnectionError err) = ''Unable to connect: '' @ err"
| "ZoneMaintainerError_fmt T NoConnectionAvailable = ''No connection available''"
| "ZoneMaintainerError_fmt T IxfrResponseTooLargeForUdp = ''IXFR response too large for UDP''"
| "ZoneMaintainerError_fmt T IncompleteResponse = ''Incomplete response''"
| "ZoneMaintainerError_fmt T (ProcessingError err) = ''Processing error: '' @ et_protocol T err"
| "ZoneMaintainerError_fmt T (ZoneUpdateError err) = ''Zone update error: '' @ et_update T err"

section \<open>Progress reports\<close>

record XfrProgressReporter =
  xp_zone_apex :: dname
  xp_start_time :: instant
  xp_last_reported_at :: "instant option"
  xp_report_every :: duration

definition XfrProgressReporter_new :: "instant \<Rightarrow> dname \<Rightarrow> duration \<Rightarrow> XfrProgressReporter" where
  "XfrProgressReporter_new now zone_apex report_every = \<lparr>xp_zone_apex = zone_apex, xp_start_time = now,
     xp_last_reported_at = None, xp_report_every = report_every\<rparr>"

text \<open>The quotient is that of floating-point numbers, rounded down and clamped: in the first second it is
  infinite, and clamped to the number of updates. For numbers below \<open>2 ^ 53\<close> it is the one of integers.\<close>

definition records_per_second :: "nat \<Rightarrow> nat \<Rightarrow> nat" where
  "records_per_second num_updates_applied seconds_so_far =
    (if seconds_so_far = 0 then num_updates_applied else num_updates_applied div seconds_so_far)"

definition progress_text :: "dname \<Rightarrow> nat \<Rightarrow> nat \<Rightarrow> nat \<Rightarrow> string" where
  "progress_text zone_apex num_responses_received num_updates_applied seconds_so_far =
     ''XFR progress report for zone '' @ quoted zone_apex @ '': Received '' @ show_nat num_updates_applied @ '' records in ''
     @ show_nat num_responses_received @ '' responses in '' @ show_nat seconds_so_far @ '' seconds (''
     @ show_nat (records_per_second num_updates_applied seconds_so_far) @ '' records/second)''"

text \<open>The clock is read at the beginning, and again (\<open>later\<close>) for the time since the start. Subtraction
  stops at zero, as in the code.\<close>

type_synonym tick = "instant \<times> instant"

definition create_report :: "tick \<Rightarrow> nat \<Rightarrow> nat \<Rightarrow> bool \<Rightarrow> XfrProgressReporter \<Rightarrow> string option \<times> XfrProgressReporter" where
  "create_report tick num_responses_received num_updates_applied force p = (let (now, later) = tick in
     if force \<or> (case xp_last_reported_at p of Some at \<Rightarrow> now - at
          | None \<Rightarrow> later - xp_start_time p - xp_report_every p) \<ge> xp_report_every p
     then (Some (progress_text (xp_zone_apex p) num_responses_received num_updates_applied
             ((now - xp_start_time p) div nanos_per_sec)), p\<lparr>xp_last_reported_at := Some now\<rparr>)
     else (None, p))"

text \<open>What the transfers log at the level \<open>Info\<close>: after every update, and at the end. A tick for every update
  that is applied.\<close>

fun update_reports :: "nat \<Rightarrow> tick list \<Rightarrow> nat \<Rightarrow> XfrProgressReporter \<Rightarrow> string list \<times> nat \<times> XfrProgressReporter" where
  "update_reports responses [] n p = ([], n, p)"
| "update_reports responses (t # ts) n p = (let (report, p1) = create_report t responses (n + 1) False p;
       (reports, n', p') = update_reports responses ts (n + 1) p1
     in ((case report of Some r \<Rightarrow> r # reports | None \<Rightarrow> reports), n', p'))"

fun response_reports :: "tick list list \<Rightarrow> nat \<Rightarrow> nat \<Rightarrow> XfrProgressReporter
    \<Rightarrow> string list \<times> nat \<times> nat \<times> XfrProgressReporter" where
  "response_reports [] responses n p = ([], responses, n, p)"
| "response_reports (it # its) responses n p = (let (reports, n1, p1) = update_reports (responses + 1) it n p;
       (reports', rest) = response_reports its (responses + 1) n1 p1
     in (reports @ reports', rest))"

definition REPORT_EVERY :: duration where
  "REPORT_EVERY = 5 * nanos_per_sec"

definition final_report :: "tick \<Rightarrow> nat \<Rightarrow> nat \<Rightarrow> XfrProgressReporter \<Rightarrow> string list" where
  "final_report t responses n p = (case fst (create_report t responses n True p) of Some r \<Rightarrow> [r] | None \<Rightarrow> [])"

definition udp_reports :: "bool \<Rightarrow> dname \<Rightarrow> instant \<Rightarrow> tick list \<Rightarrow> tick \<Rightarrow> string list" where
  "udp_reports info apex start ticks end_tick = (if \<not> info then [] else
     let (reports, n, p) = update_reports 1 ticks 0 (XfrProgressReporter_new start apex REPORT_EVERY)
     in reports @ final_report end_tick 1 n p)"

definition tcp_reports :: "bool \<Rightarrow> dname \<Rightarrow> instant \<Rightarrow> tick list list \<Rightarrow> tick \<Rightarrow> string list" where
  "tcp_reports info apex start ticks end_tick = (if \<not> info then [] else
     let (reports, responses, n, p) = response_reports ticks 0 0 (XfrProgressReporter_new start apex REPORT_EVERY)
     in reports @ final_report end_tick responses n p)"

text \<open>How much later the last report of one reporter is than that of another, after \<open>k\<close> reports in between.\<close>

definition report_gap :: "nat \<Rightarrow> XfrProgressReporter \<Rightarrow> XfrProgressReporter \<Rightarrow> bool" where
  "report_gap k p p' \<longleftrightarrow> xp_start_time p' = xp_start_time p \<and> xp_report_every p' = xp_report_every p \<and> xp_zone_apex p' = xp_zone_apex p
    \<and> (case (xp_last_reported_at p, xp_last_reported_at p') of
         (None, None) \<Rightarrow> k = 0
       | (None, Some l') \<Rightarrow> 0 < k \<and> xp_start_time p + (k - 1) * xp_report_every p \<le> l'
       | (Some l, Some l') \<Rightarrow> l + k * xp_report_every p \<le> l'
       | (Some l, None) \<Rightarrow> False)"

lemma report_gap_refl [simp]: "report_gap 0 p p"
  by (simp add: report_gap_def split: option.splits)

lemma report_gap_trans:
  assumes "report_gap k p p1" "report_gap k1 p1 p2"
  shows "report_gap (k + k1) p p2"
proof (cases k)
  case 0
  with assms show ?thesis by (auto simp: report_gap_def split: option.splits)
next
  case (Suc j)
  then show ?thesis using assms by (auto simp: report_gap_def add_mult_distrib split: option.splits)
qed

lemma report_gap_step:
  assumes "create_report (now, later) responses n False p = (report, p')" "0 < xp_report_every p" "xp_start_time p \<le> now"
  shows "report_gap (case report of Some _ \<Rightarrow> 1 | None \<Rightarrow> 0) p p'"
  using assms by (auto simp: create_report_def report_gap_def split: option.splits if_splits)

lemma report_gapD: "report_gap k p p' \<Longrightarrow> xp_start_time p' = xp_start_time p \<and> xp_report_every p' = xp_report_every p \<and> xp_zone_apex p' = xp_zone_apex p"
  by (simp add: report_gap_def)

lemma update_reports_gap:
  assumes "update_reports responses ts n p = (reports, n', p')" "0 < xp_report_every p" "\<And>t. t \<in> set ts \<Longrightarrow> xp_start_time p \<le> fst t"
  shows "report_gap (length reports) p p' \<and> n' = n + length ts"
  using assms
proof (induction ts arbitrary: n p reports)
  case (Cons t ts)
  obtain now later where t: "t = (now, later)" by fastforce
  obtain report p1 where c: "create_report (now, later) responses (Suc n) False p = (report, p1)" by fastforce
  obtain rs where u: "update_reports responses ts (Suc n) p1 = (rs, n', p')" and
      r: "reports = (case report of Some r \<Rightarrow> r # rs | None \<Rightarrow> rs)"
    using Cons.prems(1) by (auto simp: t c split: prod.splits)
  have g: "report_gap (case report of Some _ \<Rightarrow> 1 | None \<Rightarrow> 0) p p1"
    using report_gap_step [OF c Cons.prems(2)] Cons.prems(3) [of t] by (simp add: t)
  have "report_gap (length rs) p1 p' \<and> n' = Suc n + length ts"
    by (rule Cons.IH [OF u]) (use report_gapD [OF g] Cons.prems(2,3) in auto)
  with g r report_gap_trans [OF g] show ?case by (cases report) fastforce+
qed simp

lemma response_reports_gap:
  assumes "response_reports its responses n p = (reports, responses', n', p')" "0 < xp_report_every p"
    and "\<And>t. t \<in> set (concat its) \<Longrightarrow> xp_start_time p \<le> fst t"
  shows "report_gap (length reports) p p' \<and> responses' = responses + length its \<and> n' = n + length (concat its)"
  using assms
proof (induction its arbitrary: responses n p reports)
  case (Cons it its)
  obtain r1 n1 p1 where u: "update_reports (Suc responses) it n p = (r1, n1, p1)" by (metis prod_cases3)
  obtain r2 where w: "response_reports its (Suc responses) n1 p1 = (r2, responses', n', p')" and r: "reports = r1 @ r2"
    using Cons.prems(1) by (auto simp: u split: prod.splits)
  have g: "report_gap (length r1) p p1" "n1 = n + length it"
    using update_reports_gap [OF u Cons.prems(2)] Cons.prems(3) by auto
  have "report_gap (length r2) p1 p' \<and> responses' = Suc responses + length its \<and> n' = n1 + length (concat its)"
    by (rule Cons.IH [OF w]) (use report_gapD [OF g(1)] Cons.prems(2,3) in auto)
  with g r report_gap_trans [OF g(1)] show ?case by auto
qed simp

lemma udp_reports_tcp: "udp_reports info apex start ticks e = tcp_reports info apex start [ticks] e"
  by (auto simp: udp_reports_def tcp_reports_def split: prod.splits)

text \<open>A transfer logs a report with the totals when it ends, and before that at most one in every five
  seconds, none of them in the first ten: the time since the start is shortened by five seconds before it
  is compared with five seconds.\<close>

lemma no_early_report:
  assumes "xp_last_reported_at p = None" "0 < xp_report_every p" "later < xp_start_time p + 2 * xp_report_every p"
  shows "create_report (now, later) responses n False p = (None, p)"
  using assms by (auto simp: create_report_def)

lemma no_early_updates:
  assumes "xp_last_reported_at p = None" "0 < xp_report_every p" "\<And>t. t \<in> set ts \<Longrightarrow> snd t < xp_start_time p + 2 * xp_report_every p"
  shows "update_reports responses ts n p = ([], n + length ts, p)"
  using assms(3)
proof (induction ts arbitrary: n)
  case (Cons t ts)
  then show ?case using no_early_report [OF assms(1,2), of "snd t" "fst t" responses "Suc n"] by simp
qed simp

lemma no_early_responses:
  assumes "xp_last_reported_at p = None" "0 < xp_report_every p" "\<And>t. t \<in> set (concat its) \<Longrightarrow> snd t < xp_start_time p + 2 * xp_report_every p"
  shows "response_reports its responses n p = ([], responses + length its, n + length (concat its), p)"
  using assms(3)
proof (induction its arbitrary: responses n)
  case (Cons it its)
  have "update_reports (Suc responses) it n p = ([], n + length it, p)"
    by (rule no_early_updates [OF assms(1,2)]) (use Cons.prems in auto)
  then show ?case using Cons.IH Cons.prems by simp
qed simp

definition reported_by :: "instant \<Rightarrow> XfrProgressReporter \<Rightarrow> bool" where
  "reported_by now p \<longleftrightarrow> (\<forall>l. xp_last_reported_at p = Some l \<longrightarrow> l \<le> now)"

lemma updates_reported_by:
  "update_reports k ts n p = (rs, n', p') \<Longrightarrow> (\<And>t. t \<in> set ts \<Longrightarrow> fst t \<le> now) \<Longrightarrow> reported_by now p \<Longrightarrow> reported_by now p'"
proof (induction ts arbitrary: n p rs)
  case (Cons t ts)
  obtain r p1 where c: "create_report t k (Suc n) False p = (r, p1)" by fastforce
  then have "reported_by now p1" using Cons.prems(2) [of t] Cons.prems(3)
    by (auto simp: create_report_def reported_by_def split: if_splits prod.splits)
  moreover obtain rs' where "update_reports k ts (Suc n) p1 = (rs', n', p')"
    using Cons.prems(1) by (auto simp: c split: prod.splits)
  ultimately show ?case using Cons.IH Cons.prems(2) by simp
qed simp

lemma responses_reported_by:
  "response_reports its k n p = (rs, k', n', p') \<Longrightarrow> (\<And>t. t \<in> set (concat its) \<Longrightarrow> fst t \<le> now)
    \<Longrightarrow> reported_by now p \<Longrightarrow> reported_by now p'"
proof (induction its arbitrary: k n p rs)
  case (Cons it its)
  obtain r n1 p1 where u: "update_reports (Suc k) it n p = (r, n1, p1)" by (metis prod_cases3)
  then have "reported_by now p1" using updates_reported_by [OF u] Cons.prems(2,3) by simp
  moreover obtain rs' where "response_reports its (Suc k) n1 p1 = (rs', k', n', p')"
    using Cons.prems(1) by (auto simp: u split: prod.splits)
  ultimately show ?case using Cons.IH Cons.prems(2) by simp
qed simp

theorem transfer_reports:
  assumes "\<And>t. t \<in> set (concat its) \<Longrightarrow> start \<le> fst t \<and> fst t \<le> now" "start \<le> now"
  shows "\<exists>rs. tcp_reports True apex start its (now, later)
       = rs @ [progress_text apex (length its) (length (concat its)) ((now - start) div nanos_per_sec)]
    \<and> length rs * REPORT_EVERY \<le> now - start + REPORT_EVERY
    \<and> ((\<forall>t \<in> set (concat its). snd t < start + 2 * REPORT_EVERY) \<longrightarrow> rs = [])"
proof -
  let ?p = "XfrProgressReporter_new start apex REPORT_EVERY"
  have p: "0 < xp_report_every ?p" "xp_start_time ?p = start" "xp_last_reported_at ?p = None" "xp_zone_apex ?p = apex" "xp_report_every ?p = REPORT_EVERY"
    by (simp_all add: XfrProgressReporter_new_def REPORT_EVERY_def nanos_per_sec_def)
  obtain rs responses n p' where r: "response_reports its 0 0 ?p = (rs, responses, n, p')" by (metis prod_cases4)
  note g = response_reports_gap [OF r p(1)]
  have g: "report_gap (length rs) ?p p'" "responses = length its" "n = length (concat its)" using g assms(1) p(2) by auto
  have "reported_by now p'" using responses_reported_by [OF r] assms(1) by (auto simp: reported_by_def p(3))
  then have last: "xp_last_reported_at p' = Some l \<Longrightarrow> l \<le> now" for l by (simp add: reported_by_def)
  have "length rs * REPORT_EVERY \<le> now - start + REPORT_EVERY"
  proof (cases "xp_last_reported_at p'")
    case (Some l)
    then have "start + (length rs - 1) * REPORT_EVERY \<le> now" "0 < length rs"
      using g(1) last [OF Some] by (simp_all add: report_gap_def p)
    then show ?thesis using assms(2) by (cases rs) simp_all
  qed (use g(1) in \<open>simp add: report_gap_def p\<close>)
  moreover have "final_report (now, later) responses n p' = [progress_text apex (length its) (length (concat its)) ((now - start) div nanos_per_sec)]"
    using report_gapD [OF g(1)] g(2,3) by (simp add: final_report_def create_report_def p)
  moreover have "\<forall>t \<in> set (concat its). snd t < start + 2 * REPORT_EVERY \<Longrightarrow> rs = []"
    using no_early_responses [OF p(3,1), of its 0 0] r p(2,5) by auto
  ultimately show ?thesis by (intro exI [of _ rs]) (simp add: tcp_reports_def r)
qed

theorem transfer_reports_witness:
  "\<exists>rs. tcp_reports True ''nl'' 0 [[(1, 1)], [(6 * nanos_per_sec, 6 * nanos_per_sec)]] (7 * nanos_per_sec, 7 * nanos_per_sec)
      = rs @ [progress_text ''nl'' 2 2 7] \<and> rs = []"
proof -
  let ?its = "[[(1, 1)], [(6 * nanos_per_sec, 6 * nanos_per_sec)]]"
  have "0 \<le> fst t \<and> fst t \<le> 7 * nanos_per_sec" if "t \<in> set (concat ?its)" for t
    using that by (auto simp: nanos_per_sec_def)
  from transfer_reports [where its = ?its and start = 0 and now = "7 * nanos_per_sec" and apex = "''nl''" and later = "7 * nanos_per_sec", OF this] show ?thesis
    by (simp add: nanos_per_sec_def REPORT_EVERY_def flip: numeral_2_eq_2)
qed

text \<open>The number of records in the last report is the number of updates that were applied.\<close>

lemma apply_updates_count:
  "apply_updates D r it u n m = (Ok (u', n'), m') \<Longrightarrow> n' = n + length it"
  by (induction D r it u n m rule: apply_updates.induct) (auto simp: Let_def split: option.splits)

section \<open>Connections\<close>

text \<open>The settings of the two kinds of connections that are not the defaults of the client library.\<close>

record dgram_config =
  dg_max_parallel :: nat
  dg_read_timeout :: duration
  dg_max_retries :: nat
  dg_udp_payload_size :: "16 word option"

record stream_config =
  sg_response_timeout :: duration
  sg_idle_timeout :: duration
  sg_streaming_response_timeout :: duration

definition dgram_settings :: dgram_config where
  "dgram_settings = \<lparr>dg_max_parallel = 1, dg_read_timeout = nanos_per_sec, dg_max_retries = 1, dg_udp_payload_size = Some 1400\<rparr>"

definition stream_settings :: stream_config where
  "stream_settings = \<lparr>sg_response_timeout = 2 * nanos_per_sec, sg_idle_timeout = 5 * nanos_per_sec,
     sg_streaming_response_timeout = 30 * nanos_per_sec\<rparr>"

text \<open>A connection, with the key that signs its requests.\<close>

datatype transport_conn = DgramConn socket_addr dgram_config | StreamConn token stream_config

record client_conn =
  cn_key :: "token option"
  cn_transport :: transport_conn

text \<open>\<open>DefaultConnFactory\<close>; \<open>connect\<close> opens a TCP stream.\<close>

definition get_udp :: "socket_addr \<Rightarrow> token option \<Rightarrow> string + client_conn option" where
  "get_udp dest key = Inr (Some \<lparr>cn_key = key, cn_transport = DgramConn dest dgram_settings\<rparr>)"

definition get_tcp :: "(socket_addr \<Rightarrow> string + token) \<Rightarrow> socket_addr \<Rightarrow> token option \<Rightarrow> string + client_conn option" where
  "get_tcp connect dest key = (case connect dest of
      Inl err \<Rightarrow> Inl err
    | Inr tcp_stream \<Rightarrow> Inr (Some \<lparr>cn_key = key, cn_transport = StreamConn tcp_stream stream_settings\<rparr>))"

fun conn_result_of :: "string + client_conn option \<Rightarrow> conn_result" where
  "conn_result_of (Inl err) = ConnFailed err"
| "conn_result_of (Inr None) = NoConn"
| "conn_result_of (Inr (Some _)) = Connected"

definition factory_env :: "(socket_addr \<Rightarrow> string + token) \<Rightarrow> socket_addr \<Rightarrow> token option \<Rightarrow> xfr_env \<Rightarrow> xfr_env" where
  "factory_env connect addr key env = env\<lparr>xe_udp := conn_result_of (get_udp addr key),
     xe_tcp := conn_result_of (get_tcp connect addr key)\<rparr>"

text \<open>With these connections a transfer never lacks a connection, and cannot fail to connect over UDP: a
  primary that is not there is noticed when the request times out.\<close>

lemma factory_connects:
  assumes "transport \<noteq> TransportNone"
  shows "xfr_connect D have_udp transport addr key (factory_env connect addr key env)
    = (case connect addr of
         Inl err \<Rightarrow> if transport = Tcp then Err (conn_error D ''TCP'' addr key err) else Ok ()
       | Inr _ \<Rightarrow> Ok ())"
  using assms by (cases transport) (auto simp: xfr_connect_def factory_env_def get_udp_def get_tcp_def split: sum.splits)

end
