(* ===== verification/Zone_Set.thy ===== *)
theory Zone_Set
  imports Daemon Zm_Types
begin

text \<open>
  Zones as elements of sets (\<open>ZoneByName\<close>, \<open>ZoneByPtr\<close> in \<open>zone/mod.rs\<close>): the set of zones of the global
  state is a hash set whose elements are compared by the names of the zones they point to. It refines the
  map from names to references that \<open>Global_State\<close> uses. And \<open>Zone::reload_state\<close>, which \<open>main\<close> has a copy
  of.
\<close>

section \<open>Comparing zones\<close>

text \<open>By name: equality, hash and order are those of the names (whose order \<open>cmp\<close> and hash are the domain
  crate's), as \<open>Borrow\<close> demands.\<close>

definition ZoneByName_borrow :: "zheap \<Rightarrow> zref \<Rightarrow> dname" where
  "ZoneByName_borrow h z = zn_name (h ! z)"

definition ZoneByName_eq :: "zheap \<Rightarrow> zref \<Rightarrow> zref \<Rightarrow> bool" where
  "ZoneByName_eq h a b \<longleftrightarrow> zn_name (h ! a) = zn_name (h ! b)"

definition ZoneByName_cmp :: "(dname \<Rightarrow> dname \<Rightarrow> std_ordering) \<Rightarrow> zheap \<Rightarrow> zref \<Rightarrow> zref \<Rightarrow> std_ordering" where
  "ZoneByName_cmp cmp h a b = cmp (zn_name (h ! a)) (zn_name (h ! b))"

definition ZoneByName_hash :: "(dname \<Rightarrow> 'h) \<Rightarrow> zheap \<Rightarrow> zref \<Rightarrow> 'h" where
  "ZoneByName_hash hash h z = hash (zn_name (h ! z))"

text \<open>By address: two references are the same zone exactly when they are equal. A reference stands for the
  address.\<close>

datatype ZoneByPtr = ZoneByPtr zref

fun zone_ptr :: "ZoneByPtr \<Rightarrow> nat" where
  "zone_ptr (ZoneByPtr z) = z"

definition ZoneByPtr_eq :: "ZoneByPtr \<Rightarrow> ZoneByPtr \<Rightarrow> bool" where
  "ZoneByPtr_eq a b \<longleftrightarrow> zone_ptr a = zone_ptr b"

definition ZoneByPtr_cmp :: "ZoneByPtr \<Rightarrow> ZoneByPtr \<Rightarrow> std_ordering" where
  "ZoneByPtr_cmp a b = (if zone_ptr a < zone_ptr b then Less else if zone_ptr a = zone_ptr b then Equal else Greater)"

lemma zone_ptr_inject: "zone_ptr a = zone_ptr b \<longleftrightarrow> a = b"
  by (cases a; cases b) simp

lemma ZoneByPtr_eq_iff: "ZoneByPtr_eq a b \<longleftrightarrow> a = b"
  by (simp add: ZoneByPtr_eq_def zone_ptr_inject)

text \<open>The comparison is a linear order, in which equal elements are the same zone.\<close>

instantiation ZoneByPtr :: linorder
begin

definition less_eq_ZoneByPtr :: "ZoneByPtr \<Rightarrow> ZoneByPtr \<Rightarrow> bool" where
  "less_eq_ZoneByPtr a b \<longleftrightarrow> ZoneByPtr_cmp a b \<noteq> Greater"

definition less_ZoneByPtr :: "ZoneByPtr \<Rightarrow> ZoneByPtr \<Rightarrow> bool" where
  "less_ZoneByPtr a b \<longleftrightarrow> ZoneByPtr_cmp a b = Less"

instance
  by standard (auto simp: less_eq_ZoneByPtr_def less_ZoneByPtr_def ZoneByPtr_cmp_def zone_ptr_inject [symmetric] split: if_splits)

end

section \<open>The set of zones\<close>

text \<open>A hash set of zones as a list in its order: an element equal to one that is there is not inserted; a
  name finds the element with that name.\<close>

definition zone_set_insert :: "zheap \<Rightarrow> zref \<Rightarrow> zref list \<Rightarrow> bool \<times> zref list" where
  "zone_set_insert h z s = (if \<exists>x \<in> set s. ZoneByName_eq h x z then (False, s) else (True, s @ [z]))"

definition zone_set_get :: "zheap \<Rightarrow> dname \<Rightarrow> zref list \<Rightarrow> zref option" where
  "zone_set_get h n s = find (\<lambda>x. ZoneByName_borrow h x = n) s"

definition zone_set_take :: "zheap \<Rightarrow> dname \<Rightarrow> zref list \<Rightarrow> zref option \<times> zref list" where
  "zone_set_take h n s = (zone_set_get h n s, filter (\<lambda>x. ZoneByName_borrow h x \<noteq> n) s)"

definition zone_map :: "zheap \<Rightarrow> zref list \<Rightarrow> (dname, zref) hmap" where
  "zone_map h s = map (\<lambda>z. (zn_name (h ! z), z)) s"

definition zone_set_ok :: "zheap \<Rightarrow> zref list \<Rightarrow> bool" where
  "zone_set_ok h s \<longleftrightarrow> distinct (map (\<lambda>z. zn_name (h ! z)) s)"

lemma zone_map_get: "hm_get (zone_map h s) n = zone_set_get h n s"
  by (induction s) (auto simp: zone_map_def zone_set_get_def ZoneByName_borrow_def)

lemma zone_map_wf: "hm_wf (zone_map h s) \<longleftrightarrow> zone_set_ok h s"
  by (simp add: hm_wf_def zone_map_def zone_set_ok_def comp_def)

lemma find_filter_other: "find (\<lambda>x. f x = n) (filter (\<lambda>x. f x \<noteq> m) s) = (if n = m then None else find (\<lambda>x. f x = n) s)"
  by (induction s) auto

lemma find_snoc: "find P (s @ [z]) = (case find P s of Some x \<Rightarrow> Some x | None \<Rightarrow> if P z then Some z else None)"
  by (induction s) auto

text \<open>Every operation on the set is the operation on the map.\<close>

theorem zone_set_refines:
  assumes "zone_set_ok h s"
  shows "zone_set_ok h (snd (zone_set_insert h z s)) \<and> zone_set_ok h (snd (zone_set_take h n s))
    \<and> (fst (zone_set_insert h z s) \<longleftrightarrow> hm_get (zone_map h s) (zn_name (h ! z)) = None)
    \<and> hm_get (zone_map h (snd (zone_set_insert h z s))) = (if hm_get (zone_map h s) (zn_name (h ! z)) = None
        then (hm_get (zone_map h s))(zn_name (h ! z) \<mapsto> z) else hm_get (zone_map h s))
    \<and> fst (zone_set_take h n s) = hm_get (zone_map h s) n
    \<and> hm_get (zone_map h (snd (zone_set_take h n s))) = (hm_get (zone_map h s))(n := None)"
proof -
  have none: "zone_set_get h m s = None \<longleftrightarrow> m \<notin> (\<lambda>z. zn_name (h ! z)) ` set s" for m
    by (auto simp: zone_set_get_def ZoneByName_borrow_def find_None_iff)
  have new: "(\<exists>x \<in> set s. ZoneByName_eq h x z) \<longleftrightarrow> zone_set_get h (zn_name (h ! z)) s \<noteq> None"
    using none [of "zn_name (h ! z)"] by (auto simp: ZoneByName_eq_def image_iff)
  have ins: "zone_set_get h m (s @ [z]) = (case zone_set_get h m s of Some x \<Rightarrow> Some x | None \<Rightarrow> if zn_name (h ! z) = m then Some z else None)" for m
    by (simp add: zone_set_get_def find_snoc ZoneByName_borrow_def)
  have take: "zone_set_get h m (filter (\<lambda>x. ZoneByName_borrow h x \<noteq> n) s) = (if m = n then None else zone_set_get h m s)" for m
    by (simp add: zone_set_get_def find_filter_other)
  have ok: "zone_set_ok h (snd (zone_set_take h n s))" "zone_set_ok h (snd (zone_set_insert h z s))"
    using assms none new by (auto simp: zone_set_ok_def zone_set_take_def zone_set_insert_def distinct_map_filter)
  show ?thesis
    using ok by (auto simp: fun_eq_iff zone_map_get zone_set_insert_def zone_set_take_def new ins take split: option.splits)
qed

section \<open>Loading the state of a zone\<close>

text \<open>\<open>Zone::reload_state\<close>; no caller uses it.\<close>

definition Zone_reload_state :: "(dname \<Rightarrow> io_error + ZsFile) \<Rightarrow> zref \<Rightarrow> zheap \<Rightarrow> policies
    \<Rightarrow> (io_error, unit) outcome \<times> zheap \<times> policies" where
  "Zone_reload_state load z heap policies = (case load (zn_name (heap ! z)) of
      Inl e \<Rightarrow> (Err e, heap, policies)
    | Inr spec \<Rightarrow> (let (state, policies) = ZsFile_parse_into spec (zn_state (heap ! z)) policies
        in (Ok (), zset z state heap, policies)))"

text \<open>The loop of \<open>main\<close> does the same for every zone.\<close>

lemma load_zones_reloads:
  assumes "zn_name (heap ! z) = n"
  shows "load_zones load ((n, z) # rest) heap policies = (case Zone_reload_state load z heap policies of
      (Ok _, heap', policies') \<Rightarrow> load_zones load rest heap' policies'
    | (Err e, heap', policies') \<Rightarrow> (Err (ZoneLoad n e), heap', policies')
    | (Panic, heap', policies') \<Rightarrow> (Panic, heap', policies'))"
  using assms by (auto simp: Zone_reload_state_def Let_def split: sum.splits prod.splits)

end
