(* ===== verification/Signer_Tasks.thy ===== *)
theory Signer_Tasks
  imports Zone_Signing "HOL-Library.Multiset"
begin

text \<open>
  Two parts of the signer (\<open>units/zone_signer.rs\<close>) that \<open>Zone_Signer\<close> takes as functions: reading the files
  of a key pair, and the task that inserts the signatures while the threads still make them.
\<close>

section \<open>The files of keys\<close>

text \<open>Files and the parsers of the domain crate; errors are their texts.\<close>

record key_files =
  kf_read :: "string \<Rightarrow> string + string"
  kf_parse_private :: "string \<Rightarrow> string + token"
  kf_parse_public :: "string \<Rightarrow> string + token"

text \<open>The key, and the line in the log when there is none.\<close>

definition load_private_key :: "key_files \<Rightarrow> string \<Rightarrow> (Terminated, token) outcome \<times> string list" where
  "load_private_key kf key_path = (case kf_read kf key_path of
      Inl err \<Rightarrow> (Err Terminated, [''Unable to read file '' @ quoted key_path @ '': '' @ err])
    | Inr private_data \<Rightarrow>
       (case kf_parse_private kf private_data of
          Inl err \<Rightarrow> (Err Terminated, [''Unable to parse BIND formatted private key file '' @ quoted key_path @ '': '' @ err])
        | Inr secret_key \<Rightarrow> (Ok secret_key, [])))"

definition load_public_key :: "key_files \<Rightarrow> string \<Rightarrow> (Terminated, token) outcome \<times> string list" where
  "load_public_key kf key_path = (case kf_read kf key_path of
      Inl err \<Rightarrow> (Err Terminated, [''loading public key from file '' @ quoted key_path])
    | Inr public_data \<Rightarrow>
       (case kf_parse_public kf public_data of
          Inl err \<Rightarrow> (Err Terminated, [''Unable to parse BIND formatted public key file '' @ quoted key_path @ '': '' @ err])
        | Inr public_key_info \<Rightarrow> (Ok public_key_info, [])))"

fun ok_option :: "('e, 'a) outcome \<Rightarrow> 'a option" where
  "ok_option (Ok a) = Some a"
| "ok_option _ = None"

definition with_key_files :: "key_files \<Rightarrow> key_env \<Rightarrow> key_env" where
  "with_key_files kf ke = ke\<lparr>ke_private := (\<lambda>p. ok_option (fst (load_private_key kf p))),
     ke_public := (\<lambda>p. ok_option (fst (load_public_key kf p)))\<rparr>"

lemma load_file_key_iff:
  "(\<exists>pair. load_file_key (with_key_files kf ke) n priv pub = Inr pair) \<longleftrightarrow>
    (\<exists>a b s p. kf_read kf priv = Inr a \<and> kf_parse_private kf a = Inr s \<and> kf_read kf pub = Inr b \<and> kf_parse_public kf b = Inr p
      \<and> (\<exists>pair. ke_from_bytes ke s p = Inr pair))"
  by (auto simp: load_file_key_def with_key_files_def load_private_key_def load_public_key_def split: sum.splits)

section \<open>Inserting signatures\<close>

text \<open>A message of a thread: signatures and the time it took to make them; with it, the time the insertion
  takes and the time since the start of the task.\<close>

record batch =
  ba_records :: "zone_record list"
  ba_duration :: duration
  ba_insert_elapsed :: duration
  ba_elapsed :: duration

definition max_duration :: duration where
  "max_duration = 2 ^ 64 * nanos_per_sec - 1"

definition saturating_add :: "duration \<Rightarrow> duration \<Rightarrow> duration" where
  "saturating_add a b = min (a + b) max_duration"

text \<open>Adding records one by one; \<open>None\<close> is an update that fails, which panics.\<close>

fun add_records :: "(zone_record \<Rightarrow> token \<Rightarrow> token option) \<Rightarrow> zone_record list \<Rightarrow> token \<Rightarrow> token option" where
  "add_records add [] st = Some st"
| "add_records add (rr # rrs) st = Option.bind (add rr st) (add_records add rrs)"

definition insertion_line :: "nat \<Rightarrow> duration \<Rightarrow> string" where
  "insertion_line rrsig_count since = (let elapsed = since div nanos_per_sec;
       rate = (if elapsed > 0 then rrsig_count div elapsed else rrsig_count)
     in ''Inserted '' @ show_nat rrsig_count @ '' RRSIGs in '' @ show_nat elapsed @ '' seconds at a rate of ''
        @ show_nat rate @ '' RRSIGs/second'')"

record inserted =
  in_store :: token
  in_count :: nat
  in_max_time :: duration
  in_insertion_time :: duration

fun insert_batches :: "(zone_record \<Rightarrow> token \<Rightarrow> token option) \<Rightarrow> batch list \<Rightarrow> inserted
    \<Rightarrow> (unit, inserted) outcome \<times> string list" where
  "insert_batches add [] s = (Ok s, [])"
| "insert_batches add (b # bs) s = (case add_records add (ba_records b) (in_store s) of
      None \<Rightarrow> (Panic, [])
    | Some st \<Rightarrow> (let count = in_count s + length (ba_records b);
           (res, log) = insert_batches add bs \<lparr>in_store = st, in_count = count,
             in_max_time = max (in_max_time s) (ba_duration b),
             in_insertion_time = saturating_add (in_insertion_time s) (ba_insert_elapsed b)\<rparr>
         in (res, (if count mod 100 = 0 then [insertion_line count (ba_elapsed b)] else []) @ log)))"

text \<open>\<open>rrsig_inserter\<close>: the contents, the whole seconds of the slowest batch, the time of the insertions,
  and the number of signatures.\<close>

definition rrsig_inserter :: "(zone_record \<Rightarrow> token \<Rightarrow> token option) \<Rightarrow> token \<Rightarrow> batch list
    \<Rightarrow> (unit, token \<times> nat \<times> duration \<times> nat) outcome" where
  "rrsig_inserter add updater rx =
    (case fst (insert_batches add rx \<lparr>in_store = updater, in_count = 0, in_max_time = 0, in_insertion_time = 0\<rparr>) of
       Ok s \<Rightarrow> Ok (in_store s, in_max_time s div nanos_per_sec, in_insertion_time s, in_count s)
     | _ \<Rightarrow> Panic)"

lemma add_records_total:
  "\<forall>rr st. add rr st \<noteq> None \<Longrightarrow> add_records add rrs st = Some (fold (\<lambda>rr st. the (add rr st)) rrs st)"
proof (induction rrs arbitrary: st)
  case (Cons rr rrs)
  then obtain st' where "add rr st = Some st'" by (metis option.exhaust)
  with Cons show ?case by simp
qed simp

lemma insert_batches_total:
  assumes "\<forall>rr st. add rr st \<noteq> None"
  shows "\<exists>s'. fst (insert_batches add bs s) = Ok s'
    \<and> in_store s' = fold (\<lambda>rr st. the (add rr st)) (concat (map ba_records bs)) (in_store s)
    \<and> in_count s' = in_count s + length (concat (map ba_records bs))
    \<and> in_max_time s' = fold max (map ba_duration bs) (in_max_time s)"
proof (induction bs arbitrary: s)
  case (Cons b bs)
  obtain st where st: "add_records add (ba_records b) (in_store s) = Some st"
      "st = fold (\<lambda>rr st. the (add rr st)) (ba_records b) (in_store s)"
    using add_records_total [OF assms] by blast
  show ?case
    using Cons.IH [of "\<lparr>in_store = st, in_count = in_count s + length (ba_records b), in_max_time = max (in_max_time s) (ba_duration b),
        in_insertion_time = saturating_add (in_insertion_time s) (ba_insert_elapsed b)\<rparr>"] st
    by (auto simp: Let_def max.commute split: prod.splits)
qed simp

text \<open>The signatures of the threads arrive in any order. When adding a record does not depend on the order,
  the zone ends with the same contents as when the threads run one after the other, and nothing is lost:
  the count is the number of signatures.\<close>

theorem inserter_order_irrelevant:
  assumes "\<forall>rr st. add rr st \<noteq> None" "\<And>a b st. the (add a (the (add b st))) = the (add b (the (add a st)))"
    and "\<And>st rrs. si_insert P st rrs = fold (\<lambda>rr st. the (add rr st)) rrs st"
    and "mset (map ba_records rx) = mset (concat sent)"
  shows "\<exists>secs time. rrsig_inserter add st rx = Ok (si_insert P st (concat (concat sent)), secs, time, length (concat (concat sent)))"
proof -
  let ?f = "\<lambda>rr st. the (add rr st)"
  have m: "mset (concat (map ba_records rx)) = mset (concat (concat sent))"
    using assms(4) by (metis mset_concat mset_map sum_mset_sum_list)
  have c: "?f a \<circ> ?f b = ?f b \<circ> ?f a" for a b by (rule ext) (simp add: assms(2))
  have "fold ?f (concat (map ba_records rx)) = fold ?f (concat (concat sent))"
    by (rule fold_multiset_equiv [OF c m])
  moreover have "length (concat (map ba_records rx)) = length (concat (concat sent))" using m by (rule mset_eq_length)
  moreover obtain s' where "fst (insert_batches add rx \<lparr>in_store = st, in_count = 0, in_max_time = 0, in_insertion_time = 0\<rparr>) = Ok s'"
    "in_store s' = fold ?f (concat (map ba_records rx)) st" "in_count s' = length (concat (map ba_records rx))"
    using insert_batches_total [OF assms(1), of rx "\<lparr>in_store = st, in_count = 0, in_max_time = 0, in_insertion_time = 0\<rparr>"] by auto
  ultimately show ?thesis by (simp add: rrsig_inserter_def assms(3))
qed

end
