(* ===== verification/Metrics.thy ===== *)
theory Metrics
  imports Commands "HOL-Library.Multiset" "HOL-Library.List_Lexorder" "HOL-Library.Char_ord"
begin

text \<open>
  Metrics (\<open>metrics.rs\<close>): the collection of sources, and the two output formats. A source is the
  number of its object; whether the object still exists, and what it appends, are parameters. Printed
  vals are strings. The format of the unit tests is in \<open>Metrics_Raw\<close>.
\<close>

section \<open>Metrics\<close>

datatype MetricType = Counter | Gauge | Histogram | Summary | Text

fun MetricType_fmt :: "MetricType \<Rightarrow> string" where
  "MetricType_fmt Counter = ''counter''"
| "MetricType_fmt Gauge = ''gauge''"
| "MetricType_fmt Histogram = ''histogram''"
| "MetricType_fmt Summary = ''summary''"
| "MetricType_fmt Text = ''text''"

datatype MetricUnit = Second | Millisecond | Microsecond | Byte | Total | MuState | MuInfo

fun MetricUnit_fmt :: "MetricUnit \<Rightarrow> string" where
  "MetricUnit_fmt Second = ''seconds''"
| "MetricUnit_fmt Millisecond = ''milliseconds''"
| "MetricUnit_fmt Microsecond = ''microseconds''"
| "MetricUnit_fmt Byte = ''bytes''"
| "MetricUnit_fmt Total = ''total''"
| "MetricUnit_fmt MuInfo = ''info''"
| "MetricUnit_fmt MuState = ''state''"

text \<open>\<open>to_lower\<close> is \<open>str::to_lowercase\<close>; the micro sign is two bytes.\<close>

definition MetricUnit_try_from :: "(string \<Rightarrow> string) \<Rightarrow> string \<Rightarrow> string + MetricUnit" where
  "MetricUnit_try_from to_lower unit =
    (let u = to_lower unit in
     if u \<in> {''s'', ''second'', ''seconds''} then Inr Second
     else if u \<in> {''ms'', ''millisecond'', ''milliseconds''} then Inr Millisecond
     else if u \<in> {[CHR 0xC2, CHR 0xB5, CHR ''s''], ''microsecond'', ''microseconds''} then Inr Microsecond
     else if u \<in> {''byte'', ''bytes''} then Inr Byte
     else if u = ''total'' then Inr Total
     else if u = ''info'' then Inr MuInfo
     else if u = ''state'' then Inr MuState
     else Inl (''Unknown metric unit '' @ quoted unit))"

record Metric =
  me_name :: string
  me_help :: string
  me_type :: MetricType
  me_unit :: MetricUnit

section \<open>Targets\<close>

datatype OutputFormat = Prometheus | Plain

fun allows_text :: "OutputFormat \<Rightarrow> bool" where
  "allows_text Prometheus = False"
| "allows_text Plain = True"

definition supports_type :: "OutputFormat \<Rightarrow> MetricType \<Rightarrow> bool" where
  "supports_type format metric \<longleftrightarrow> \<not> (format = Prometheus \<and> metric = Text)"

record Target =
  tg_format :: OutputFormat
  tg_target :: string

definition PROMETHEUS_PREFIX :: string where
  "PROMETHEUS_PREFIX = ''rotonda''"

text \<open>\<open>version\<close> is the name and the version of the crate.\<close>

definition Target_new :: "string \<Rightarrow> OutputFormat \<Rightarrow> Target" where
  "Target_new version format = \<lparr>tg_format = format,
     tg_target = (if format = Plain then ''version: '' @ version @ nl else [])\<rparr>"

definition push_str :: "string \<Rightarrow> Target \<Rightarrow> Target" where
  "push_str s t = t\<lparr>tg_target := tg_target t @ s\<rparr>"

definition metric_name :: "OutputFormat \<Rightarrow> Metric \<Rightarrow> string option \<Rightarrow> string option \<Rightarrow> string" where
  "metric_name format metric unit_name suffix = (case format of
      Prometheus \<Rightarrow> PROMETHEUS_PREFIX @ ''_'' @ me_name metric @ ''_'' @ MetricUnit_fmt (me_unit metric)
        @ (case suffix of None \<Rightarrow> [] | Some s \<Rightarrow> ''_'' @ s)
    | Plain \<Rightarrow> (case unit_name of None \<Rightarrow> [] | Some u \<Rightarrow> u @ '' '') @ me_name metric)"

text \<open>A record: labels (\<open>None\<close> for the calls without labels), the value and a suffix.\<close>

definition in_quotes :: "string \<Rightarrow> string" where
  "in_quotes s = [CHR 0x22] @ s @ [CHR 0x22]"

record metric_value =
  mv_labels :: "(string \<times> string) list option"
  mv_value :: string
  mv_suffix :: "string option"

fun join_labels :: "(string \<times> string) list \<Rightarrow> string" where
  "join_labels [] = []"
| "join_labels [(n, v)] = n @ ''='' @ in_quotes v"
| "join_labels ((n, v) # ls) = n @ ''='' @ in_quotes v @ '','' @ join_labels ls"

definition suffixed_value :: "Metric \<Rightarrow> string option \<Rightarrow> string \<Rightarrow> string option \<Rightarrow> Target \<Rightarrow> Target" where
  "suffixed_value metric unit_name value suffix t = push_str (metric_name (tg_format t) metric unit_name suffix
     @ (case tg_format t of
          Prometheus \<Rightarrow> (case unit_name of None \<Rightarrow> [] | Some u \<Rightarrow> ''{component='' @ in_quotes u @ ''}'') @ '' '' @ value @ nl
        | Plain \<Rightarrow> '': '' @ value @ nl)) t"

definition suffixed_label_value :: "Metric \<Rightarrow> string option \<Rightarrow> (string \<times> string) list \<Rightarrow> string \<Rightarrow> string option
    \<Rightarrow> Target \<Rightarrow> Target" where
  "suffixed_label_value metric unit_name labels value suffix t = push_str (metric_name (tg_format t) metric unit_name suffix
     @ (case tg_format t of
          Prometheus \<Rightarrow> ''{'' @ join_labels ((case unit_name of None \<Rightarrow> [] | Some u \<Rightarrow> [(''component'', u)]) @ labels)
            @ ''} '' @ value @ nl
        | Plain \<Rightarrow> concat (map (\<lambda>(n, v). '' '' @ n @ ''='' @ v) labels) @ '': '' @ value @ nl)) t"

fun append_values :: "Metric \<Rightarrow> string option \<Rightarrow> metric_value list \<Rightarrow> Target \<Rightarrow> Target" where
  "append_values metric unit_name [] t = t"
| "append_values metric unit_name (v # vs) t = append_values metric unit_name vs (case mv_labels v of
      None \<Rightarrow> suffixed_value metric unit_name (mv_value v) (mv_suffix v) t
    | Some labels \<Rightarrow> suffixed_label_value metric unit_name labels (mv_value v) (mv_suffix v) t)"

text \<open>\<open>Target::append\<close>; the closure is the list of values it appends.\<close>

definition Target_append :: "Metric \<Rightarrow> string option \<Rightarrow> metric_value list \<Rightarrow> Target \<Rightarrow> Target" where
  "Target_append metric unit_name vals t =
    (if \<not> supports_type (tg_format t) (me_type metric) then t
     else append_values metric unit_name vals (if tg_format t = Prometheus then
       push_str (''# HELP '' @ metric_name Prometheus metric unit_name None @ '' '' @ me_help metric @ nl
         @ ''# TYPE '' @ metric_name Prometheus metric unit_name None @ '' '' @ MetricType_fmt (me_type metric) @ nl) t
       else t))"

definition append_simple :: "Metric \<Rightarrow> string option \<Rightarrow> string \<Rightarrow> Target \<Rightarrow> Target" where
  "append_simple metric unit_name value =
    Target_append metric unit_name [\<lparr>mv_labels = None, mv_value = value, mv_suffix = None\<rparr>]"

definition append_labelled_metric :: "string \<Rightarrow> string \<Rightarrow> string \<Rightarrow> Metric \<Rightarrow> string \<Rightarrow> Target \<Rightarrow> Target" where
  "append_labelled_metric unit_name label_id label_value metric metric_val =
    Target_append metric (Some unit_name) [\<lparr>mv_labels = Some [(label_id, label_value)], mv_value = metric_val, mv_suffix = None\<rparr>]"

definition append_per_router_metric :: "string \<Rightarrow> string \<Rightarrow> Metric \<Rightarrow> string \<Rightarrow> Target \<Rightarrow> Target" where
  "append_per_router_metric unit_name = append_labelled_metric unit_name ''router''"

section \<open>The collection\<close>

record RegisteredSource =
  rs_name :: string
  rs_source :: nat

text \<open>\<open>sort_by\<close> is stable; strings are compared by their bytes.\<close>

definition Collection_register :: "(nat \<Rightarrow> bool) \<Rightarrow> string \<Rightarrow> nat \<Rightarrow> RegisteredSource list \<Rightarrow> RegisteredSource list" where
  "Collection_register live name source old_sources =
    sort_key rs_name (filter (\<lambda>item. live (rs_source item)) old_sources @ [\<lparr>rs_name = name, rs_source = source\<rparr>])"

definition ASSEMBLE_TIME_MS_METRIC :: Metric where
  "ASSEMBLE_TIME_MS_METRIC = \<lparr>me_name = ''metric_assemble_duration'',
     me_help = ''the time taken in milliseconds to assemble the last metric snapshot'', me_type = Gauge, me_unit = Millisecond\<rparr>"

text \<open>\<open>append\<close> is what a source appends, \<open>elapsed\<close> the printed number of milliseconds.\<close>

definition Collection_assemble :: "string \<Rightarrow> (nat \<Rightarrow> bool) \<Rightarrow> (nat \<Rightarrow> string \<Rightarrow> Target \<Rightarrow> Target) \<Rightarrow> string
    \<Rightarrow> OutputFormat \<Rightarrow> RegisteredSource list \<Rightarrow> string" where
  "Collection_assemble version live append_source elapsed format sources =
    tg_target (append_simple ASSEMBLE_TIME_MS_METRIC None elapsed
      (fold (\<lambda>item t. if live (rs_source item) then append_source (rs_source item) (rs_name item) t else t) sources
        (Target_new version format)))"

section \<open>What the collection does\<close>

text \<open>Registering keeps the sources that still exist, drops the others and adds the new one; the list is
  sorted by name, and sources of one name stay in the order of their registration.\<close>

theorem register_keeps_live:
  "sorted (map rs_name (Collection_register live name source old))
   \<and> mset (Collection_register live name source old)
       = filter_mset (\<lambda>item. live (rs_source item)) (mset old) + {#\<lparr>rs_name = name, rs_source = source\<rparr>#}
   \<and> filter (\<lambda>item. rs_name item = n) (Collection_register live name source old)
       = filter (\<lambda>item. rs_name item = n \<and> live (rs_source item)) old
         @ (if n = name then [\<lparr>rs_name = name, rs_source = source\<rparr>] else [])"
proof -
  have "filter (\<lambda>item. rs_name item = n) (Collection_register live name source old)
      = filter (\<lambda>item. rs_name item = n) (filter (\<lambda>item. live (rs_source item)) old @ [\<lparr>rs_name = name, rs_source = source\<rparr>])"
    unfolding Collection_register_def using sort_key_stable [of rs_name n] by metis
  then show ?thesis by (auto simp: Collection_register_def mset_filter filter_filter conj_commute)
qed

text \<open>A text metric leaves no trace in the Prometheus format.\<close>

lemma text_not_in_prometheus: "tg_format t = Prometheus \<Longrightarrow> me_type metric = Text \<Longrightarrow> Target_append metric unit vals t = t"
  by (simp add: Target_append_def supports_type_def)

text \<open>The target only grows, and keeps its format.\<close>

lemma push_str_simps [simp]: "tg_format (push_str s t) = tg_format t" "tg_target (push_str s t) = tg_target t @ s"
  by (simp_all add: push_str_def)

lemma vals_grow: "\<exists>s. append_values metric unit vals t = push_str s t"
proof (induction vals arbitrary: t)
  case Nil
  show ?case by (rule exI [of _ "[]"]) (simp add: push_str_def)
next
  case (Cons v vs)
  let ?t = "case mv_labels v of None \<Rightarrow> suffixed_value metric unit (mv_value v) (mv_suffix v) t
    | Some labels \<Rightarrow> suffixed_label_value metric unit labels (mv_value v) (mv_suffix v) t"
  obtain a where "?t = push_str a t" by (cases "mv_labels v") (auto simp: suffixed_value_def suffixed_label_value_def)
  moreover obtain b where "append_values metric unit vs ?t = push_str b ?t" using Cons by blast
  ultimately show ?case by (intro exI [of _ "a @ b"]) (simp add: push_str_def)
qed

definition type_line :: "Metric \<Rightarrow> string" where
  "type_line metric = ''# TYPE '' @ metric_name Prometheus metric None None @ '' '' @ MetricType_fmt (me_type metric) @ nl"

lemma append_type_line:
  assumes "tg_format t = Prometheus" "me_type metric \<noteq> Text"
  shows "\<exists>a b. tg_target (Target_append metric unit vals t) = tg_target t @ a @ type_line metric @ b
    \<and> tg_format (Target_append metric unit vals t) = Prometheus"
proof -
  have n: "metric_name Prometheus metric unit None = metric_name Prometheus metric None None" by (simp add: metric_name_def)
  obtain s where "append_values metric unit vals (push_str (''# HELP '' @ metric_name Prometheus metric unit None @ '' ''
      @ me_help metric @ nl @ ''# TYPE '' @ metric_name Prometheus metric unit None @ '' '' @ MetricType_fmt (me_type metric) @ nl) t)
    = push_str s (push_str (''# HELP '' @ metric_name Prometheus metric unit None @ '' ''
      @ me_help metric @ nl @ type_line metric) t)"
    using vals_grow [of metric unit vals] by (fastforce simp: type_line_def n)
  then show ?thesis using assms
    by (intro exI [of _ "''# HELP '' @ metric_name Prometheus metric unit None @ '' '' @ me_help metric @ nl"] exI [of _ s])
       (simp add: Target_append_def supports_type_def)
qed

text \<open>Two components with the same metric give its type twice, which the format does not allow; and the
  value of a label is not escaped, so two labels can look like one.\<close>

theorem type_line_twice:
  assumes "tg_format t = Prometheus" "me_type metric \<noteq> Text"
  shows "\<exists>a b c. tg_target (Target_append metric unit2 vals2 (Target_append metric unit1 vals1 t))
    = a @ type_line metric @ b @ type_line metric @ c"
proof -
  obtain a b where 1: "tg_target (Target_append metric unit1 vals1 t) = tg_target t @ a @ type_line metric @ b"
      "tg_format (Target_append metric unit1 vals1 t) = Prometheus"
    using append_type_line [OF assms] by blast
  from append_type_line [OF 1(2) assms(2), of unit2 vals2] 1(1)
  show ?thesis by (metis append.assoc)
qed

lemma labels_ambiguous:
  "suffixed_label_value m u [(''a'', ''x'' @ [CHR 0x22] @ '',b='' @ [CHR 0x22] @ ''y'')] v s t
   = suffixed_label_value m u [(''a'', ''x''), (''b'', ''y'')] v s t" if "tg_format t = Prometheus"
  using that by (cases u) (simp_all add: suffixed_label_value_def in_quotes_def)

end
