(* ===== verification/Metrics_Raw.thy ===== *)
theory Metrics_Raw
  imports Metrics
begin

text \<open>
  The raw format of metrics, which the unit tests use (\<open>OutputFormat::Test\<close> in \<open>metrics.rs\<close>): every value is
  kept under a key that is printed and parsed again, in a map ordered by the key.
\<close>

section \<open>Keys\<close>

record RawMetricKey =
  rk_name :: string
  rk_unit :: MetricUnit
  rk_suffix :: "string option"
  rk_labels :: "(string \<times> string) list"

definition RawMetricKey_named :: "string \<Rightarrow> MetricUnit \<Rightarrow> string option \<Rightarrow> RawMetricKey" where
  "RawMetricKey_named name unit suffix = \<lparr>rk_name = name, rk_unit = unit, rk_suffix = suffix, rk_labels = []\<rparr>"

definition RawMetricKey_labelled :: "string \<Rightarrow> MetricUnit \<Rightarrow> string option \<Rightarrow> (string \<times> string) list \<Rightarrow> RawMetricKey" where
  "RawMetricKey_labelled name unit suffix labels = \<lparr>rk_name = name, rk_unit = unit, rk_suffix = suffix, rk_labels = labels\<rparr>"

text \<open>The order of keys; strings are compared by their bytes. The unit is not looked at.\<close>

definition RawMetricKey_cmp :: "RawMetricKey \<Rightarrow> RawMetricKey \<Rightarrow> std_ordering" where
  "RawMetricKey_cmp a b = (let cmp = (\<lambda>x y. if x < y then std_ordering.Less else if x = y then Equal else Greater) in
     case cmp (rk_name a) (rk_name b) of
       Equal \<Rightarrow>
        (case (case (rk_suffix a, rk_suffix b) of
            (None, None) \<Rightarrow> Equal | (None, Some _) \<Rightarrow> std_ordering.Less | (Some _, None) \<Rightarrow> Greater
          | (Some s, Some t) \<Rightarrow> cmp s t) of
           Equal \<Rightarrow> (let la = concat (map (\<lambda>(n, v). [n, v]) (rk_labels a)); lb = concat (map (\<lambda>(n, v). [n, v]) (rk_labels b))
             in if la < lb then std_ordering.Less else if la = lb then Equal else Greater)
         | ord \<Rightarrow> ord)
     | ord \<Rightarrow> ord)"

text \<open>Parsing a key; the labels that have no equals sign are left out.\<close>

definition parse_labels :: "string \<Rightarrow> (string \<times> string) list" where
  "parse_labels s = List.map_filter (split_once ''='') (split_char (CHR '','') s)"

definition parse_suffix :: "string \<Rightarrow> string option" where
  "parse_suffix s = (if s = ''None'' then None else Some s)"

definition RawMetricKey_try_from :: "(string \<Rightarrow> string) \<Rightarrow> string \<Rightarrow> string + RawMetricKey" where
  "RawMetricKey_try_from to_lower value = (case split_char (CHR ''|'') value of
      [name, unit, suffix] \<Rightarrow> (case MetricUnit_try_from to_lower unit of
          Inl e \<Rightarrow> Inl e | Inr u \<Rightarrow> Inr (RawMetricKey_named name u (parse_suffix suffix)))
    | [name, unit, suffix, labels] \<Rightarrow> (case MetricUnit_try_from to_lower unit of
          Inl e \<Rightarrow> Inl e | Inr u \<Rightarrow> Inr (RawMetricKey_labelled name u (parse_suffix suffix) (parse_labels labels)))
    | _ \<Rightarrow> Inl (''Metric key '' @ quoted value @ '' should be in the form name|unit|suffix or name|unit|suffix|label''))"

section \<open>Values\<close>

text \<open>The map, in its order. Inserting under an equal key replaces the value and leaves the key.\<close>

type_synonym raw_metrics = "(RawMetricKey \<times> string) list"

fun raw_insert :: "RawMetricKey \<Rightarrow> string \<Rightarrow> raw_metrics \<Rightarrow> raw_metrics" where
  "raw_insert k v [] = [(k, v)]"
| "raw_insert k v ((k', v') # m) = (case RawMetricKey_cmp k k' of
      std_ordering.Less \<Rightarrow> (k, v) # (k', v') # m
    | Equal \<Rightarrow> (k', v) # m
    | Greater \<Rightarrow> (k', v') # raw_insert k v m)"

definition raw_key_text :: "Metric \<Rightarrow> string option \<Rightarrow> string" where
  "raw_key_text metric suffix = me_name metric @ ''|'' @ MetricUnit_fmt (me_unit metric) @ ''|''
     @ (case suffix of Some s \<Rightarrow> s | None \<Rightarrow> ''None'')"

fun join_comma :: "string list \<Rightarrow> string" where
  "join_comma [] = []"
| "join_comma [s] = s"
| "join_comma (s # ss) = s @ '','' @ join_comma ss"

definition raw_label_text :: "Metric \<Rightarrow> string option \<Rightarrow> (string \<times> string) list \<Rightarrow> string" where
  "raw_label_text metric suffix labels = raw_key_text metric suffix @ ''|'' @ join_comma (map (\<lambda>(ln, lv). ln @ ''='' @ lv) labels)"

text \<open>\<open>suffixed_value\<close> and \<open>suffixed_label_value\<close> in this format: a key that cannot be parsed panics.\<close>

definition raw_append :: "(string \<Rightarrow> string) \<Rightarrow> string \<Rightarrow> string \<Rightarrow> raw_metrics \<Rightarrow> (unit, raw_metrics) outcome" where
  "raw_append to_lower key value m = (case RawMetricKey_try_from to_lower key of Inl _ \<Rightarrow> Panic | Inr k \<Rightarrow> Ok (raw_insert k value m))"

definition raw_suffixed_value :: "(string \<Rightarrow> string) \<Rightarrow> Metric \<Rightarrow> string \<Rightarrow> string option \<Rightarrow> raw_metrics \<Rightarrow> (unit, raw_metrics) outcome" where
  "raw_suffixed_value to_lower metric value suffix = raw_append to_lower (raw_key_text metric suffix) value"

definition raw_suffixed_label_value :: "(string \<Rightarrow> string) \<Rightarrow> Metric \<Rightarrow> (string \<times> string) list \<Rightarrow> string \<Rightarrow> string option
    \<Rightarrow> raw_metrics \<Rightarrow> (unit, raw_metrics) outcome" where
  "raw_suffixed_label_value to_lower metric labels value suffix = raw_append to_lower (raw_label_text metric suffix labels) value"

text \<open>Looking up: nothing there, or a value that cannot be parsed, panics.\<close>

definition raw_parse :: "(string \<Rightarrow> 'a option) \<Rightarrow> string option \<Rightarrow> (unit, 'a) outcome" where
  "raw_parse parse v = (case Option.bind v parse of Some a \<Rightarrow> Ok a | None \<Rightarrow> Panic)"

definition raw_with_name :: "(string \<Rightarrow> 'a option) \<Rightarrow> string \<Rightarrow> raw_metrics \<Rightarrow> (unit, 'a) outcome" where
  "raw_with_name parse name m = raw_parse parse (map_option snd (find (\<lambda>(k, v). rk_name k = name \<and> rk_labels k = []) m))"

definition raw_with_label :: "(string \<Rightarrow> 'a option) \<Rightarrow> string \<Rightarrow> string \<times> string \<Rightarrow> raw_metrics \<Rightarrow> (unit, 'a) outcome" where
  "raw_with_label parse name label m = raw_parse parse (map_option snd (find (\<lambda>(k, v). rk_name k = name \<and> label \<in> set (rk_labels k)) m))"

definition raw_with_labels :: "(string \<Rightarrow> 'a option) \<Rightarrow> string \<Rightarrow> (string \<times> string) list \<Rightarrow> raw_metrics \<Rightarrow> (unit, 'a) outcome" where
  "raw_with_labels parse name labels m = raw_parse parse (map_option snd (find (\<lambda>(k, v). rk_name k = name \<and> set labels \<subseteq> set (rk_labels k)) m))"

section \<open>Printing and parsing a key\<close>

lemma unit_roundtrip: "to_lower (MetricUnit_fmt u) = MetricUnit_fmt u \<Longrightarrow> MetricUnit_try_from to_lower (MetricUnit_fmt u) = Inr u"
  by (cases u) (simp_all add: MetricUnit_try_from_def Let_def)

lemma unit_no_bar: "CHR ''|'' \<notin> set (MetricUnit_fmt u)"
  by (cases u) simp_all

lemma split_join: "ss \<noteq> [] \<Longrightarrow> \<forall>s \<in> set ss. CHR '','' \<notin> set s \<Longrightarrow> split_char (CHR '','') (join_comma ss) = ss"
  by (induction ss rule: join_comma.induct) (simp_all add: split_char_none split_char_app)

lemma split_once_eq: "CHR ''='' \<notin> set n \<Longrightarrow> split_once ''='' (n @ CHR ''='' # v) = Some (n, v)"
  by (induction n) simp_all

lemma labels_roundtrip:
  assumes "\<forall>(n, v) \<in> set labels. CHR ''='' \<notin> set n \<and> CHR '','' \<notin> set n \<and> CHR '','' \<notin> set v"
  shows "parse_labels (join_comma (map (\<lambda>(ln, lv). ln @ ''='' @ lv) labels)) = labels"
proof (cases "labels = []")
  case False
  have "split_char (CHR '','') (join_comma (map (\<lambda>(ln, lv). ln @ ''='' @ lv) labels)) = map (\<lambda>(ln, lv). ln @ ''='' @ lv) labels"
    by (rule split_join) (use False assms in auto)
  moreover have "List.map_filter (split_once ''='') (map (\<lambda>(ln, lv). ln @ ''='' @ lv) labels) = labels"
    using assms by (induction labels) (auto simp: map_filter_simps split_once_eq)
  ultimately show ?thesis by (simp add: parse_labels_def)
qed (simp add: parse_labels_def map_filter_simps)

text \<open>A key comes back as it was meant when its parts are free of the separators and the suffix is not the
  word for none. (\<open>to_lowercase\<close> leaves the names of units alone.)\<close>

theorem raw_key_roundtrip:
  assumes "\<And>u. to_lower (MetricUnit_fmt u) = MetricUnit_fmt u" "CHR ''|'' \<notin> set (me_name metric)"
    and "\<And>s. suffix = Some s \<Longrightarrow> CHR ''|'' \<notin> set s \<and> s \<noteq> ''None''"
    and "\<forall>(n, v) \<in> set labels. CHR ''='' \<notin> set n \<and> CHR '','' \<notin> set n \<and> CHR '','' \<notin> set v \<and> CHR ''|'' \<notin> set n \<and> CHR ''|'' \<notin> set v"
  shows "RawMetricKey_try_from to_lower (raw_key_text metric suffix) = Inr (RawMetricKey_named (me_name metric) (me_unit metric) suffix)
    \<and> RawMetricKey_try_from to_lower (raw_label_text metric suffix labels)
      = Inr (RawMetricKey_labelled (me_name metric) (me_unit metric) suffix labels)"
proof -
  let ?s = "case suffix of Some s \<Rightarrow> s | None \<Rightarrow> ''None''" and ?l = "join_comma (map (\<lambda>(ln, lv). ln @ ''='' @ lv) labels)"
  have s: "CHR ''|'' \<notin> set ?s" "parse_suffix ?s = suffix"
    using assms(3) by (auto simp: parse_suffix_def split: option.splits)
  have "CHR ''|'' \<notin> set (join_comma ss)" if "\<forall>s \<in> set ss. CHR ''|'' \<notin> set s" for ss
    using that by (induction ss rule: join_comma.induct) auto
  from this [of "map (\<lambda>(ln, lv). ln @ ''='' @ lv) labels"] have l: "CHR ''|'' \<notin> set ?l" using assms(4) by auto
  have p: "parse_labels ?l = labels" by (rule labels_roundtrip) (use assms(4) in auto)
  have "split_char (CHR ''|'') (raw_key_text metric suffix) = [me_name metric, MetricUnit_fmt (me_unit metric), ?s]"
    using assms(2) s(1) unit_no_bar by (simp add: raw_key_text_def split_char_app split_char_none)
  moreover have "split_char (CHR ''|'') (raw_label_text metric suffix labels) = [me_name metric, MetricUnit_fmt (me_unit metric), ?s, ?l]"
    using assms(2) s(1) l unit_no_bar by (simp add: raw_label_text_def raw_key_text_def split_char_app split_char_none)
  ultimately show ?thesis using unit_roundtrip [of to_lower "me_unit metric"] assms(1) s(2) p by (simp add: RawMetricKey_try_from_def)
qed

text \<open>The order does not look at the unit, equality does: two metrics that differ in their units only share
  one entry, which has the unit of the first and the value of the second.\<close>

theorem units_collide:
  assumes "u \<noteq> u'"
  shows "raw_insert (RawMetricKey_named n u' s) v' (raw_insert (RawMetricKey_named n u s) v []) = [(RawMetricKey_named n u s, v')]
    \<and> RawMetricKey_named n u s \<noteq> RawMetricKey_named n u' s
    \<and> RawMetricKey_cmp (RawMetricKey_named n u s) (RawMetricKey_named n u' s) = Equal"
  using assms by (auto simp: RawMetricKey_cmp_def RawMetricKey_named_def split: option.splits)

text \<open>A value is found again under its name.\<close>

lemma raw_with_name_append:
  assumes "\<forall>(k, v) \<in> set m. rk_name k \<noteq> n" "parse v = Some a"
  shows "raw_with_name parse n (raw_insert (RawMetricKey_named n u s) v m) = Ok a"
proof -
  let ?k = "RawMetricKey_named n u s"
  have "RawMetricKey_cmp ?k k \<noteq> Equal" if "rk_name k \<noteq> n" for k
    using that by (auto simp: RawMetricKey_cmp_def RawMetricKey_named_def)
  then have "find (\<lambda>(k, v). rk_name k = n \<and> rk_labels k = []) (raw_insert ?k v m) = Some (?k, v)"
    using assms(1) by (induction m) (auto simp: RawMetricKey_named_def split: std_ordering.splits)
  then show ?thesis using assms(2) by (simp add: raw_with_name_def raw_parse_def)
qed

end
