(* ===== verification/Xfr_Out.thy ===== *)
theory Xfr_Out
  imports Zm_World
begin

text \<open>
  Serving transfers of maintained zones (\<open>zonemaintenance/maintainer.rs\<close>, the two
  \<open>XfrDataProvider\<close> implementations): who may transfer a zone, and which differences an
  IXFR client gets. What becomes of the \<open>XfrData\<close> is up to the \<open>domain\<close> crate.
\<close>

section \<open>Requests\<close>

text \<open>The three answers of \<open>XfrDataProviderError\<close> the code gives.\<close>

datatype XfrDataProviderError = XfrRefused | XfrUnknownZone | XfrTemporarilyUnavailable

text \<open>What the code reads of a request: its question when there is exactly one, the address of the
  client and the name of the key it was signed with.\<close>

record xfr_request =
  xq_question :: "(dname \<times> dclass \<times> rtype) option"
  xq_client_addr :: socket_addr
  xq_key_name :: "dname option"

record XfrData =
  xd_zone :: nat
  xd_diffs :: "InMemoryZoneDiff list"
  xd_backward_compatible :: bool

definition check_xfr_access ::
    "ZoneInfo \<Rightarrow> ip_addr \<Rightarrow> rtype \<Rightarrow> (XfrDataProviderError, XfrConfig) outcome" where
  "check_xfr_access zone_info client_ip qtype =
    (if sdc_is_empty (zc_provide_xfr_to (zi_config zone_info)) then Err XfrRefused
     else (case sdc_src (zc_provide_xfr_to (zi_config zone_info)) client_ip of
         None \<Rightarrow> Err XfrRefused
       | Some xfr_config \<Rightarrow>
           if qtype = Rtype_AXFR \<and> xc_strategy xfr_config = IxfrOnly
             \<or> qtype = Rtype_IXFR \<and> xc_strategy xfr_config = AxfrOnly
           then Err XfrRefused
           else Ok xfr_config))"

definition diffs_for_zone :: "'t domain_api \<Rightarrow> serial option \<Rightarrow> nat \<Rightarrow> 't ZoneMaintainer
    \<Rightarrow> (XfrDataProviderError, InMemoryZoneDiff list) outcome" where
  "diffs_for_zone D diff_from r m = (case diff_from of
      None \<Rightarrow> Ok []
    | Some diff_from \<Rightarrow>
        (case read_soa D (mz_store (zone_at m r)) (mz_apex_name (zone_at m r)) of
           Ok (Some (soa, _)) \<Rightarrow>
             Ok (diffs_for_range (d_slt D) (zi_diffs (mz_info (zone_at m r))) diff_from (soa_serial soa))
         | Panic \<Rightarrow> Panic
         | _ \<Rightarrow> Ok []))"

definition xfr_data :: "'t domain_api \<Rightarrow> serial option \<Rightarrow> nat \<Rightarrow> XfrConfig \<Rightarrow> 't ZoneMaintainer
    \<Rightarrow> (XfrDataProviderError, XfrData) outcome" where
  "xfr_data D diff_from r xfr_config m = (case diffs_for_zone D diff_from r m of
      Ok diffs \<Rightarrow> Ok \<lparr>xd_zone = r, xd_diffs = diffs,
        xd_backward_compatible = (xc_compatibility_mode xfr_config = BackwardCompatible)\<rparr>
    | Err e \<Rightarrow> Err e
    | Panic \<Rightarrow> Panic)"

text \<open>The implementation without keys.\<close>

definition request_unsigned :: "'t domain_api \<Rightarrow> xfr_request \<Rightarrow> serial option \<Rightarrow> 't ZoneMaintainer
    \<Rightarrow> (XfrDataProviderError, XfrData) outcome" where
  "request_unsigned D req diff_from m = (case xq_question req of
      None \<Rightarrow> Err XfrRefused
    | Some (qname, qclass, qtype) \<Rightarrow>
       (case find_zone D qname qclass m of
          Ok (Some r) \<Rightarrow>
            (case check_xfr_access (mz_info (zone_at m r)) (SocketAddr_ip (xq_client_addr req)) qtype of
               Ok xfr_config \<Rightarrow> xfr_data D diff_from r xfr_config m
             | Err e \<Rightarrow> Err e
             | Panic \<Rightarrow> Panic)
        | Ok None \<Rightarrow> Err XfrUnknownZone
        | Err TemporarilyUnavailable \<Rightarrow> Err XfrTemporarilyUnavailable
        | Panic \<Rightarrow> Panic))"

text \<open>The implementation for requests that may be signed: the expected and the actual key.\<close>

fun tsig_key_mismatch :: "dname option \<Rightarrow> dname option \<Rightarrow> string option" where
  "tsig_key_mismatch None (Some actual) = Some (''Request was signed with TSIG key '' @ [CHR 0x27]
     @ actual @ [CHR 0x27] @ '' but should be unsigned.'')"
| "tsig_key_mismatch (Some expected) None = Some (''Request should be signed with TSIG key ''
     @ [CHR 0x27] @ expected @ [CHR 0x27] @ '' but was unsigned'')"
| "tsig_key_mismatch (Some expected) (Some actual) = (if actual \<noteq> expected
     then Some (''Request should be signed with TSIG key '' @ [CHR 0x27] @ expected @ [CHR 0x27]
       @ '' but was instead signed with TSIG key '' @ [CHR 0x27] @ actual @ [CHR 0x27])
     else None)"
| "tsig_key_mismatch None None = None"

definition request_signed :: "'t domain_api \<Rightarrow> xfr_request \<Rightarrow> serial option \<Rightarrow> 't ZoneMaintainer
    \<Rightarrow> (XfrDataProviderError, XfrData) outcome" where
  "request_signed D req diff_from m = (case xq_question req of
      None \<Rightarrow> Err XfrRefused
    | Some (qname, qclass, qtype) \<Rightarrow>
       (case find_zone D qname qclass m of
          Ok (Some r) \<Rightarrow>
            (case check_xfr_access (mz_info (zone_at m r)) (SocketAddr_ip (xq_client_addr req)) qtype of
               Ok xfr_config \<Rightarrow>
                 (case tsig_key_mismatch (map_option fst (xc_tsig_key xfr_config)) (xq_key_name req) of
                    Some reason \<Rightarrow> Err XfrRefused
                  | None \<Rightarrow> xfr_data D diff_from r xfr_config m)
             | Err e \<Rightarrow> Err e
             | Panic \<Rightarrow> Panic)
        | Ok None \<Rightarrow> Err XfrUnknownZone
        | Err TemporarilyUnavailable \<Rightarrow> Err XfrTemporarilyUnavailable
        | Panic \<Rightarrow> Panic))"

section \<open>Who may transfer a zone\<close>

text \<open>The strategies as their documentation describes them (\<open>XfrStrategy\<close> in \<open>types.rs\<close>): none of
  the transfers, only one kind, or both. A request is for an AXFR or an IXFR.\<close>

fun documented_xfr :: "XfrStrategy \<Rightarrow> rtype \<Rightarrow> bool" where
  "documented_xfr StrategyNone qtype \<longleftrightarrow> False"
| "documented_xfr AxfrOnly qtype \<longleftrightarrow> qtype \<noteq> Rtype_IXFR"
| "documented_xfr IxfrOnly qtype \<longleftrightarrow> qtype \<noteq> Rtype_AXFR"
| "documented_xfr IxfrWithAxfrFallback qtype \<longleftrightarrow> True"

text \<open>The entry of a client, when the address is listed and the request is signed with the key of
  the entry, or not at all when it has none.\<close>

definition client_entry :: "ZoneConfig \<Rightarrow> ip_addr \<Rightarrow> dname option \<Rightarrow> XfrConfig option" where
  "client_entry cfg ip key = (case sdc_src (zc_provide_xfr_to cfg) ip of
      Some xc \<Rightarrow> if key = map_option fst (xc_tsig_key xc) then Some xc else None
    | None \<Rightarrow> None)"

text \<open>Who may transfer a zone by the documentation, and who gets it in the code against the
  documentation.\<close>

definition xfr_documented :: "ZoneConfig \<Rightarrow> ip_addr \<Rightarrow> rtype \<Rightarrow> dname option \<Rightarrow> bool" where
  "xfr_documented cfg ip qtype key = (case client_entry cfg ip key of
      Some xc \<Rightarrow> documented_xfr (xc_strategy xc) qtype | None \<Rightarrow> False)"

definition xfr_undocumented :: "ZoneConfig \<Rightarrow> ip_addr \<Rightarrow> dname option \<Rightarrow> bool" where
  "xfr_undocumented cfg ip key = (case client_entry cfg ip key of
      Some xc \<Rightarrow> xc_strategy xc = StrategyNone | None \<Rightarrow> False)"

text \<open>The rule the code follows.\<close>

definition xfr_allowed :: "ZoneConfig \<Rightarrow> ip_addr \<Rightarrow> rtype \<Rightarrow> dname option \<Rightarrow> bool" where
  "xfr_allowed cfg ip qtype key \<longleftrightarrow> xfr_documented cfg ip qtype key \<or> xfr_undocumented cfg ip key"

lemma xfr_allowed_iff:
  "xfr_allowed cfg ip qtype key = (case sdc_src (zc_provide_xfr_to cfg) ip of
      None \<Rightarrow> False
    | Some xc \<Rightarrow> \<not> (qtype = Rtype_AXFR \<and> xc_strategy xc = IxfrOnly)
        \<and> \<not> (qtype = Rtype_IXFR \<and> xc_strategy xc = AxfrOnly)
        \<and> key = map_option fst (xc_tsig_key xc))"
proof (cases "sdc_src (zc_provide_xfr_to cfg) ip")
  case (Some xc)
  then show ?thesis
    by (cases "xc_strategy xc")
      (auto simp: xfr_allowed_def xfr_documented_def xfr_undocumented_def client_entry_def)
qed (simp add: xfr_allowed_def xfr_documented_def xfr_undocumented_def client_entry_def)

lemma mismatch_None_iff: "tsig_key_mismatch e a = None \<longleftrightarrow> e = a"
  by (cases "(e, a)" rule: tsig_key_mismatch.cases) auto

lemma src_empty: "sdc_is_empty c \<Longrightarrow> sdc_src c ip = None"
  by (simp add: sdc_is_empty_def sdc_src_def)

lemma xfr_data_Ok: "rrsets_nonempty D \<Longrightarrow> \<exists>d. xfr_data D from r xc m = Ok d \<and> xd_zone d = r"
  using read_soa_no_panic [of D "mz_store (zone_at m r)" "mz_apex_name (zone_at m r)"]
  by (auto simp: xfr_data_def diffs_for_zone_def split: option.splits outcome.splits)

text \<open>C17: a request for a transfer is served exactly when its only question names a zone that is
  there and has not expired, the configuration of the zone lists the client with this key, and its
  strategy allows this kind of transfer as documented, or is \<open>None\<close>: a client whose strategy is
  documented as no support of transfers at all is served every kind of transfer. What is served is
  the zone that was asked for. Otherwise the answer says which of these failed first.\<close>

theorem xfr_served_iff_allowed:
  assumes "rrsets_nonempty D"
  shows "case xq_question req of
      None \<Rightarrow> request_signed D req from m = Err XfrRefused
    | Some (n, c, t) \<Rightarrow>
       (case d_tree_find D (zm_loaded_arc m) n c of
          None \<Rightarrow> request_signed D req from m = Err XfrUnknownZone
        | Some r \<Rightarrow>
            if zi_expired (mz_info (zone_at m r))
            then request_signed D req from m = Err XfrTemporarilyUnavailable
            else if xfr_documented (config_at m r) (SocketAddr_ip (xq_client_addr req)) t (xq_key_name req)
              \<or> xfr_undocumented (config_at m r) (SocketAddr_ip (xq_client_addr req)) (xq_key_name req)
            then (\<exists>d. request_signed D req from m = Ok d \<and> xd_zone d = r)
            else request_signed D req from m = Err XfrRefused)"
proof (cases "xq_question req")
  case None
  then show ?thesis by (simp add: request_signed_def)
next
  case (Some q)
  obtain n c t where q: "q = (n, c, t)" by (cases q)
  show ?thesis
  proof (cases "d_tree_find D (zm_loaded_arc m) n c")
    case None
    then show ?thesis using Some q by (simp add: request_signed_def find_zone_def active_zone_def)
  next
    case r: (Some r)
    have find: "find_zone D n c m = (if zi_expired (mz_info (zone_at m r))
        then Err TemporarilyUnavailable else Ok (Some r))"
      using r by (simp add: find_zone_def active_zone_def is_active_def)
    have access: "(case check_xfr_access (mz_info (zone_at m r)) ip t of
          Ok xc \<Rightarrow> (case tsig_key_mismatch (map_option fst (xc_tsig_key xc)) key of
              Some reason \<Rightarrow> Err XfrRefused | None \<Rightarrow> xfr_data D from r xc m)
        | Err e \<Rightarrow> Err e | Panic \<Rightarrow> Panic) =
      (if xfr_allowed (config_at m r) ip t key
       then xfr_data D from r (the (sdc_src (zc_provide_xfr_to (config_at m r)) ip)) m
       else Err XfrRefused)" for ip key
      using src_empty [of "zc_provide_xfr_to (config_at m r)" ip]
        mismatch_None_iff [of "map_option fst (xc_tsig_key (the (sdc_src (zc_provide_xfr_to (config_at m r)) ip)))" key]
      by (auto simp: check_xfr_access_def xfr_allowed_iff config_at_def split: option.splits)
    show ?thesis
      using Some q r find access xfr_data_Ok [OF assms]
      by (simp add: request_signed_def xfr_allowed_def [symmetric])
  qed
qed

definition demo_xfr_config :: ZoneConfig where
  "demo_xfr_config = ZoneConfig_new_primary (add_src (V4 9)
     (XfrConfig_default\<lparr>xc_strategy := StrategyNone\<rparr>) SrcDstConfig_new) SrcDstConfig_new"

definition demo_request :: "rtype \<Rightarrow> xfr_request" where
  "demo_request t = \<lparr>xq_question = Some (''example'', 1, t), xq_client_addr = SocketAddrV4 9 1053,
     xq_key_name = None\<rparr>"

text \<open>The documented rule refuses this client, and the code serves it.\<close>

theorem xfr_served_iff_allowed_witness:
  "\<not> xfr_documented demo_xfr_config (V4 9) Rtype_AXFR None \<and>
   (\<exists>d. request_signed demo_api (demo_request Rtype_AXFR) None
      (demo_maintainer demo_xfr_config 5 (ZoneRefreshState_default 0)) = Ok d \<and> xd_zone d = 0)"
  using xfr_served_iff_allowed [OF demo_api_ok(3), of "demo_request Rtype_AXFR" None
      "demo_maintainer demo_xfr_config 5 (ZoneRefreshState_default 0)"]
  by (simp add: demo_request_def demo_maintainer_def demo_api_def zone_at_def demo_zone_def
      config_at_def xfr_documented_def xfr_undocumented_def client_entry_def demo_xfr_config_def
      ZoneConfig_new_primary_def ZoneConfig_new_def add_src_def SrcDstConfig_new_def sdc_src_def XfrConfig_default_def hm_insert_def)

section \<open>What an incremental client gets\<close>

text \<open>A zone after a sequence of commits, as the updater makes them.\<close>

definition commits :: "'t domain_api \<Rightarrow> nat \<Rightarrow> (token \<times> InMemoryZoneDiff) list
    \<Rightarrow> 't ZoneMaintainer \<Rightarrow> 't ZoneMaintainer" where
  "commits D r cs m = fold (\<lambda>(st, d). wmz_commit D r (st, Some d)) cs m"

lemma commit_frame:
  assumes "r < length (zm_heap m)"
  shows "length (zm_heap (wmz_commit D r (st, Some d) m)) = length (zm_heap m)"
    "zm_loaded_arc (wmz_commit D r (st, Some d) m) = zm_loaded_arc m"
    "zone_at (wmz_commit D r (st, Some d) m) r =
       (zone_at m r)\<lparr>mz_store := st, mz_info := add_diff (d_ccmp D) d (mz_info (zone_at m r))\<rparr>"
  using assms by (simp_all add: wmz_commit_def Let_def send_event_def set_zone_def zone_at_def map_info_def)

lemma commits_zone:
  assumes "r < length (zm_heap m)"
  shows "zm_loaded_arc (commits D r cs m) = zm_loaded_arc m \<and>
    zone_at (commits D r cs m) r = (zone_at m r)
      \<lparr>mz_store := last (mz_store (zone_at m r) # map fst cs),
       mz_info := (mz_info (zone_at m r))\<lparr>zi_diffs :=
         fold (diffs_add (d_ccmp D)) (map snd cs) (zi_diffs (mz_info (zone_at m r)))\<rparr>\<rparr>"
  using assms
proof (induction cs arbitrary: m)
  case Nil
  then show ?case by (simp add: commits_def)
next
  case (Cons c cs)
  obtain st d where c: "c = (st, d)" by (cases c)
  let ?m = "wmz_commit D r (st, Some d) m"
  note f = commit_frame [OF Cons.prems, of D st d]
  have "r < length (zm_heap ?m)" using f(1) Cons.prems by simp
  from Cons.IH [OF this] show ?case
    by (simp add: commits_def c f add_diff_def)
qed

text \<open>C21: an IXFR client that may transfer a zone gets exactly the changes that were committed after
  its serial, in their order, whatever the zone had before, as long as the serials rise without
  wrapping around.\<close>

theorem ixfr_serves_commits:
  assumes "canonical_order (d_ccmp D)" "serial_order (d_slt D)"
    and "r < length (zm_heap m)" "zi_diffs (mz_info (zone_at m r)) = []"
    and "map snd cs = old @ new" "diff_chain s0 old s" "diff_chain s new e" "rising (old @ new)"
    and "serial_window (insert s (insert e (diff_serials (old @ new))))"
    and "read_soa D (fst (last cs)) (mz_apex_name (zone_at m r)) = Ok (Some (soa, tt))" "soa_serial soa = e"
    and "cs \<noteq> []" "xq_question req = Some (n, c, Rtype_IXFR)" "d_tree_find D (zm_loaded_arc m) n c = Some r"
    and "is_active (zone_at m r)"
    and "xfr_allowed (config_at m r) (SocketAddr_ip (xq_client_addr req)) Rtype_IXFR (xq_key_name req)"
  shows "\<exists>d. request_signed D req (Some s) (commits D r cs m) = Ok d \<and> xd_zone d = r \<and> xd_diffs d = new"
proof -
  let ?m = "commits D r cs m"
  note z = commits_zone [OF assms(3), of D cs]
  have ris: "rising old" "rising new" using assms(8) by (auto simp: rising_def)
  note o = chain_rising [OF assms(6) ris(1)] and nw = chain_rising [OF assms(7) ris(2)]
  have dist: "distinct (map diff_start_serial c)" if "diff_chain a c b" "rising c" for a b c
    using that
  proof (induction a c b rule: diff_chain.induct)
    case (2 a d ds b)
    then have "rising ds" "diff_start_serial d < diff_end_serial d" by (auto simp: rising_def)
    with chain_rising [OF _ \<open>rising ds\<close>] 2 show ?case by fastforce
  qed simp
  have d: "distinct (map diff_start_serial (old @ new))"
    using dist [OF assms(6) ris(1)] dist [OF assms(7) ris(2)] o nw by fastforce
  have soa: "read_soa D (mz_store (zone_at ?m r)) (mz_apex_name (zone_at ?m r)) = Ok (Some (soa, tt))"
    using z assms(10,12) by (simp add: last_map)
  have "zi_diffs (mz_info (zone_at ?m r)) = diffs_of (d_ccmp D) (old @ new)"
    using z assms(4,5) by (simp add: diffs_of_def)
  moreover have "diffs_for_range (d_slt D) (diffs_of (d_ccmp D) (old @ new)) s e = new"
    by (rule diffs_of_range [OF assms(1,2) d assms(7) ris(2) _ order.refl])
       (use assms(9) o nw in \<open>auto simp: less_le_trans\<close>)
  ultimately have diffs: "diffs_for_zone D (Some s) r ?m = Ok new"
    using soa assms(11) by (simp add: diffs_for_zone_def)
  have find: "find_zone D n c ?m = Ok (Some r)"
    using assms(14,15) z by (simp add: find_zone_def active_zone_def is_active_def)
  have access: "sdc_src (zc_provide_xfr_to (zi_config (mz_info (zone_at ?m r)))) ip =
      sdc_src (zc_provide_xfr_to (config_at m r)) ip" for ip
    using z by (simp add: config_at_def)
  obtain xc where xc: "sdc_src (zc_provide_xfr_to (config_at m r)) (SocketAddr_ip (xq_client_addr req)) = Some xc"
    "xc_strategy xc \<noteq> AxfrOnly" "xq_key_name req = map_option fst (xc_tsig_key xc)"
    using assms(16) by (auto simp: xfr_allowed_iff split: option.splits)
  have "check_xfr_access (mz_info (zone_at ?m r)) (SocketAddr_ip (xq_client_addr req)) Rtype_IXFR = Ok xc"
    using xc src_empty access by (fastforce simp: check_xfr_access_def)
  then show ?thesis
    using assms(13) find xc(3) diffs mismatch_None_iff [of "xq_key_name req" "xq_key_name req"]
    by (simp add: request_signed_def xfr_data_def)
qed

definition demo_diff :: "serial \<Rightarrow> serial \<Rightarrow> InMemoryZoneDiff" where
  "demo_diff s e = \<lparr>diff_start_serial = s, diff_end_serial = e, diff_body = 0\<rparr>"

theorem ixfr_serves_commits_witness:
  "\<exists>d. request_signed demo_api (demo_request Rtype_IXFR) (Some 6)
      (commits demo_api 0 [(6, demo_diff 5 6), (8, demo_diff 6 8)]
        (demo_maintainer demo_xfr_config 5 (ZoneRefreshState_default 0))) = Ok d
    \<and> xd_zone d = 0 \<and> xd_diffs d = [demo_diff 6 8]"
  by (rule ixfr_serves_commits [of demo_api 0 _ _ "[demo_diff 5 6]" _ 5 _ 8 "demo_soa 8" 60 _ "''example''" 1])
     (simp_all add: demo_diff_def rising_def serial_window_def diff_serials_def demo_zone_def
      read_soa_def demo_query_def demo_soa_def demo_request_def is_active_def demo_maintainer_def demo_api_def
      xfr_allowed_iff demo_xfr_config_def ZoneConfig_new_primary_def ZoneConfig_new_def zone_at_def config_at_def
      add_src_def SrcDstConfig_new_def sdc_src_def XfrConfig_default_def hm_insert_def word_less_nat_alt)

end
