(* ===== verification/Key_Manager_Loop.thy ===== *)
theory Key_Manager_Loop
  imports Key_Manager
begin

text \<open>
  The loop of the key manager (\<open>KeyManager::run\<close> in \<open>units/key_manager.rs\<close>): ticks every five seconds and
  commands, in the order in which they come.
\<close>

section \<open>The loop\<close>

text \<open>An event is a tick with the unsigned zones, each with its environment, or what the queue gives, with
  whether the programs can be started.\<close>

datatype km_event =
    KmTick "(string \<times> tick_env) list"
  | KmCmd "bool \<times> bool" "ApplicationCommand option"

fun KeyManager_run :: "KeyManager \<Rightarrow> km_event list \<Rightarrow> km_world \<Rightarrow> (Terminated, unit) outcome \<times> km_world" where
  "KeyManager_run km [] w = (Ok (), w)"
| "KeyManager_run km (KmTick zones # es) w = (case tick km zones w of
      (Ok _, w1) \<Rightarrow> KeyManager_run km es w1
    | (_, w1) \<Rightarrow> (Panic, w1))"
| "KeyManager_run km (KmCmd env cmd # es) w = (case run_cmd km env cmd w of
      (Ok _, w1) \<Rightarrow> KeyManager_run km es w1
    | (res, w1) \<Rightarrow> (res, w1))"

section \<open>What concerns one zone\<close>

definition cron_cmd :: "KeyManager \<Rightarrow> string \<Rightarrow> string list" where
  "cron_cmd km n = keyset_cmd km n @ [''cron'']"

definition crons :: "KeyManager \<Rightarrow> string \<Rightarrow> km_world \<Rightarrow> nat" where
  "crons km n w = length (filter (\<lambda>c. c = cron_cmd km n) (kw_commands w))"

definition resigns :: "string \<Rightarrow> km_world \<Rightarrow> nat" where
  "resigns n w = length (filter (\<lambda>u. u = ResignZoneEvent n) (kw_updates w))"

text \<open>A name that is no absolute path: different zones have different files.\<close>

definition plain_name :: "string \<Rightarrow> bool" where
  "plain_name n \<longleftrightarrow> n \<noteq> [] \<and> hd n \<noteq> CHR ''/''"

lemma path_join_plain: "plain_name n \<Longrightarrow> path_join dir (n @ s) = (if dir = [] \<or> last dir = CHR ''/'' then dir @ n @ s else dir @ ''/'' @ n @ s)"
  by (cases n) (auto simp: plain_name_def split: list.splits char.splits bool.splits)

lemma cron_cmd_inj: "plain_name n \<Longrightarrow> plain_name m \<Longrightarrow> cron_cmd km n = cron_cmd km m \<longleftrightarrow> n = m"
  by (simp add: cron_cmd_def keyset_cmd_def path_join_plain del: path_join.simps)

text \<open>A tick of another zone, and a command, leave the zone alone.\<close>

lemma tick_zone_other:
  assumes "tick_zone km m env w = (res, w')" "m \<noteq> n" "plain_name m" "plain_name n"
  shows "hm_get (kw_ks_info w') n = hm_get (kw_ks_info w) n \<and> crons km n w' = crons km n w \<and> resigns n w' = resigns n w"
proof -
  have c: "keyset_cmd km m @ [''cron''] \<noteq> cron_cmd km n" using cron_cmd_inj [of m n km] assms(2-4) by (simp add: cron_cmd_def)
  show ?thesis using assms(1,2) c
    by (auto simp: tick_zone_def run_cron_def get_keyset_info_def set_info_def clear_cron_def start_cmd_def resign_def
        crons_def resigns_def Let_def split: if_splits option.splits bool.splits)
qed

lemma run_cmd_other:
  assumes "run_cmd km env cmd w = (res, w')"
  shows "kw_ks_info w' = kw_ks_info w \<and> crons km n w' = crons km n w \<and> kw_updates w' = kw_updates w"
proof -
  have i: "keyset_cmd km m @ [''init''] \<noteq> cron_cmd km n" for m by (simp add: cron_cmd_def)
  have l: "length (keyset_cmd km m @ [''create'', ''-n'', m, ''-s'', p]) \<noteq> length (cron_cmd km n)" for m p
    by (simp add: cron_cmd_def keyset_cmd_def)
  then have c: "keyset_cmd km m @ [''create'', ''-n'', m, ''-s'', p] \<noteq> cron_cmd km n" for m p by metis
  show ?thesis using assms i c
    by (cases "(km, env, cmd, w)" rule: run_cmd.cases) (auto simp: start_cmd_def crons_def Let_def split: if_splits)
qed

text \<open>The state of the key manager as far as a zone is concerned whose state file does not change.\<close>

definition cron_inv :: "KeyManager \<Rightarrow> unix_time \<Rightarrow> string \<Rightarrow> nat \<Rightarrow> nat \<Rightarrow> km_world \<Rightarrow> bool" where
  "cron_inv km t n b r w \<longleftrightarrow> crons km n w + cron_left n w \<le> b \<and> resigns n w = r
     \<and> (\<forall>info. hm_get (kw_ks_info w) n = Some info \<longrightarrow> ki_keyset_state_modified info = t \<and> unat (ki_retries info) < 5)"

fun event_ok :: "unix_time \<Rightarrow> string \<Rightarrow> km_event \<Rightarrow> bool" where
  "event_ok t n (KmTick zones) \<longleftrightarrow> (\<forall>(m, env) \<in> set zones. plain_name m \<and> (m = n \<longrightarrow> unchanged t env))"
| "event_ok t n (KmCmd env cmd) \<longleftrightarrow> True"

lemma cron_left_cong: "hm_get (kw_ks_info w') n = hm_get (kw_ks_info w) n \<Longrightarrow> cron_left n w' = cron_left n w"
  by (simp add: cron_left_def)

lemma tick_zone_inv:
  assumes "tick_zone km m env w = (res, w')" "cron_inv km t n b r w" "plain_name m" "plain_name n" "m = n \<longrightarrow> unchanged t env"
  shows "cron_inv km t n b r w'"
proof (cases "m = n")
  case True
  have u: "unchanged t env" using True assms(5) by blast
  have s: "tick_zone km n env w = (res, w')" using True assms(1) by simp
  note k = tick_zone_cron [OF u s]
  have known: "\<forall>info. hm_get (kw_ks_info w) n = Some info \<longrightarrow> ki_keyset_state_modified info = t \<and> unat (ki_retries info) < 5"
    using assms(2) by (simp add: cron_inv_def)
  obtain new where new: "kw_commands w' = kw_commands w @ new" "length new + cron_left n w' \<le> cron_left n w"
    using k(1) [OF known] by blast
  have "crons km n w' \<le> crons km n w + length new" using new(1) by (simp add: crons_def)
  then show ?thesis using assms(2) new(2) k(2) [OF known] k(3) [OF known] by (simp add: cron_inv_def resigns_def)
next
  case False
  from tick_zone_other [OF assms(1) False assms(3,4)] show ?thesis
    using assms(2) cron_left_cong [of w' n w] by (simp add: cron_inv_def)
qed

lemma tick_inv:
  assumes "tick km zones w = (res, w')" "cron_inv km t n b r w" "plain_name n" "event_ok t n (KmTick zones)"
  shows "cron_inv km t n b r w'"
  using assms(1,2,4)
proof (induction zones arbitrary: w)
  case (Cons z zones)
  obtain m env where z: "z = (m, env)" by fastforce
  obtain r1 w1 where s: "tick_zone km m env w = (r1, w1)" by fastforce
  have i: "cron_inv km t n b r w1" using tick_zone_inv [OF s Cons.prems(2) _ assms(3)] Cons.prems(3) z by auto
  show ?case
  proof (cases "r1 = Ok ()")
    case True
    then show ?thesis using Cons.IH [OF _ i] Cons.prems(1,3) z s by simp
  next
    case False
    then show ?thesis using Cons.prems(1) z s i by (cases r1) auto
  qed
qed simp

lemma KeyManager_run_inv:
  assumes "KeyManager_run km es w = (res, w')" "cron_inv km t n b r w" "plain_name n" "list_all (event_ok t n) es"
  shows "cron_inv km t n b r w'"
  using assms(1,2,4)
proof (induction es arbitrary: w)
  case (Cons e es)
  show ?case
  proof (cases e)
    case (KmTick zones)
    obtain r1 w1 where s: "tick km zones w = (r1, w1)" by fastforce
    have i: "cron_inv km t n b r w1" using tick_inv [OF s Cons.prems(2) assms(3)] Cons.prems(3) KmTick by simp
    show ?thesis
    proof (cases "r1 = Ok ()")
      case True
      then show ?thesis using Cons.IH [OF _ i] Cons.prems(1,3) KmTick s by simp
    next
      case False
      then show ?thesis using Cons.prems(1) KmTick s i by (cases r1) auto
    qed
  next
    case (KmCmd env cmd)
    obtain r1 w1 where s: "run_cmd km env cmd w = (r1, w1)" by fastforce
    have i: "cron_inv km t n b r w1"
      using run_cmd_other [OF s, of n] Cons.prems(2) cron_left_cong [of w1 n w] by (simp add: cron_inv_def resigns_def)
    show ?thesis
    proof (cases "r1 = Ok ()")
      case True
      then show ?thesis using Cons.IH [OF _ i] Cons.prems(1,3) KmCmd s by simp
    next
      case False
      then show ?thesis using Cons.prems(1) KmCmd s i by (cases r1) auto
    qed
  qed
qed simp

text \<open>C32: whatever commands and ticks the key manager gets, with whatever other zones, clocks and results: as
  long as the state file of a zone stays as it is, it runs the cron command for the zone at most five times
  and never asks for the zone to be signed again.\<close>

theorem loop_cron_bounded:
  assumes "KeyManager_run km es \<lparr>kw_ks_info = [], kw_commands = [], kw_updates = []\<rparr> = (res, w)"
    and "plain_name n" "list_all (event_ok t n) es"
  shows "crons km n w \<le> 5 \<and> ResignZoneEvent n \<notin> set (kw_updates w)"
proof -
  have "cron_inv km t n 5 0 \<lparr>kw_ks_info = [], kw_commands = [], kw_updates = []\<rparr>"
    by (simp add: cron_inv_def crons_def resigns_def cron_left_def)
  from KeyManager_run_inv [OF assms(1) this assms(2,3)] show ?thesis
    by (auto simp: cron_inv_def resigns_def filter_empty_conv)
qed

text \<open>A zone in two ticks, with a command in between.\<close>

theorem loop_cron_bounded_witness:
  "\<exists>w. KeyManager_run \<lparr>km_dnst_keyset_bin_path = ''dnst'', km_dnst_keyset_data_dir = ''/tmp/keyset''\<rparr>
       [KmTick [(''example'', demo_tick 9)], KmCmd (True, True) (Some (PublishSignedZone ''nl'' 3)), KmTick [(''example'', demo_tick 11)], KmCmd (True, True) None]
       \<lparr>kw_ks_info = [], kw_commands = [], kw_updates = []\<rparr> = (Err Terminated, w)
     \<and> length (kw_commands w) = 1 \<and> crons \<lparr>km_dnst_keyset_bin_path = ''dnst'', km_dnst_keyset_data_dir = ''/tmp/keyset''\<rparr> ''example'' w \<le> 5
     \<and> ResignZoneEvent ''example'' \<notin> set (kw_updates w)"
    (is "\<exists>w. KeyManager_run ?km ?es ?w0 = _ \<and> _")
proof -
  have m: "\<not> CRON_MAX_RETRIES \<le> (1 :: 32 word)" by (simp add: CRON_MAX_RETRIES_def word_le_nat_alt)
  obtain w where r: "KeyManager_run ?km ?es ?w0 = (Err Terminated, w)" "length (kw_commands w) = 1"
    using m by (simp add: tick_zone_def demo_tick_def run_cron_def get_keyset_info_def set_info_def hm_insert_def start_cmd_def Let_def)
  have "plain_name ''example''" by (simp add: plain_name_def)
  moreover have "list_all (event_ok 7 ''example'') ?es" by (simp add: unchanged_def demo_tick_def plain_name_def)
  ultimately show ?thesis using loop_cron_bounded [OF r(1)] r by blast
qed

end
