(* ===== verification/Pipeline_Claims.thy ===== *)
theory Pipeline_Claims
  imports Manager
begin

text \<open>
  Properties of the pipeline as a whole: what was reviewed before a zone is published, what was not,
  and what ends the program.
\<close>

section \<open>Reachable states\<close>

lemma start_inv:
  assumes D: "zone_tree_ok D" and "hooks1 \<noteq> []" "hooks2 \<noteq> []"
  shows "pl_inv D (pipeline_start D c hooks1 hooks2 listen)"
proof -
  have "d_tree_get D (d_tree_new D) n cl = None" for n cl using D by (simp add: zone_tree_ok_def)
  then show ?thesis using assms
    by (auto simp: pl_inv_def servers_ok_def pipeline_start_def in_signed_def in_published_def waiting_def
        ZoneServer_new_def split: if_splits)
qed

lemma pl_reachable_inv:
  assumes "pl_reachable P SP zs rp s0 s" "zone_tree_ok D" "si_api P = D" "sp_api SP = D" "pl_inv D s0"
  shows "pl_inv D s"
  using assms(1) by induction (use assms step_inv in blast)+

lemma spawned_inv:
  assumes "zone_tree_ok D" "si_api P = D" "sp_api SP = D" "spawn_units e = Ok units"
    and "pl_reachable P SP zs rp (spawned_pipeline D par units c) s"
  shows "pl_inv D s"
proof -
  obtain hooks1 hooks2 listen where "hooks1 \<noteq> []" "hooks2 \<noteq> []"
      "spawned_pipeline D par units c = pipeline_start D c hooks1 hooks2 listen"
    by (rule spawned_start [OF assms(4)])
  then have "pl_inv D (spawned_pipeline D par units c)" using start_inv [OF assms(1)] by simp
  then show ?thesis by (rule pl_reachable_inv [OF assms(5,1,2,3)])
qed

text \<open>C1: a zone is published only after some version of it was approved by the review server for
  unsigned zones and some version by the one for signed zones; every command to sign a version waits
  for the signer only if the first has approved exactly that version, and every command to publish one
  only if the second has.\<close>

theorem published_only_approved:
  assumes "zone_tree_ok D" "si_api P = D" "sp_api SP = D" "spawn_units e = Ok units"
    and "pl_reachable P SP zs rp (spawned_pipeline D par units c) s"
  shows "(\<forall>n. in_published D s n \<longrightarrow> reviewed s ''RS'' n \<and> reviewed s ''RS2'' n)
    \<and> (\<forall>u n sr. SignZone n (Some sr) \<in> waiting s u \<longrightarrow> approved s ''RS'' (n, sr))
    \<and> (\<forall>u n sr. PublishSignedZone n sr \<in> waiting s u \<longrightarrow> approved s ''RS2'' (n, sr))"
proof -
  have inv: "pl_inv D s" by (rule spawned_inv [OF assms])
  have key: "approved s v k" if "cmd \<in> waiting s u" "cmd_key cmd = Some (v, k)" for cmd u v k
    using pl_invD(3) [OF inv that(1)] that(2) by (simp add: cmd_ok_def backed_def)
  show ?thesis using pl_invD(5,6) [OF inv] by (auto intro: key)
qed

text \<open>C18: no registration of a zone ever waits for the key manager, which makes the key set of a zone when
  it gets one: only the loader is told of a new zone, so the keys have to be made by other means.\<close>

theorem keyset_never_created:
  assumes "zone_tree_ok D" "si_api P = D" "sp_api SP = D" "spawn_units e = Ok units"
    and "pl_reachable P SP zs rp (spawned_pipeline D par units c) s"
  shows "RegisterZone reg \<notin> waiting s ''KM''"
proof
  assume w: "RegisterZone reg \<in> waiting s ''KM''"
  have "pl_inv D s" by (rule spawned_inv [OF assms])
  from pl_invD(3) [OF this w] show False by (simp add: cmd_ok_def)
qed

section \<open>A run\<close>

text \<open>One event, from the update queue to the end of its handling, with empty queues otherwise.\<close>

lemma hm_insert_back: "hm_get m k = Some v \<Longrightarrow> hm_insert k v (hm_insert k w m) = m"
  by (induction m) (auto simp: hm_insert_def hm_get_def split: if_splits)

lemma forward_one: "hm_get txs u = Some (Some []) \<Longrightarrow> forward_app_cmds [(u, cmd)] txs = (Ok (), hm_insert u (Some [cmd]) txs)"
  by simp

lemma deliver:
  assumes "pl_reachable P SP zs rp s0 (s\<lparr>pl_cmds := [(u, cmd)]\<rparr>)" "pl_cmds s = []" "hm_get (pl_txs s) u = Some (Some [])"
  shows "pl_reachable P SP zs rp s0 (s\<lparr>pl_txs := hm_insert u (Some [cmd]) (pl_txs s)\<rparr>)"
proof -
  have "pl_step P SP zs rp (s\<lparr>pl_cmds := [(u, cmd)]\<rparr>) (s\<lparr>pl_txs := hm_insert u (Some [cmd]) (pl_txs s)\<rparr>)"
    using pl_step.Forward [of "s\<lparr>pl_cmds := [(u, cmd)]\<rparr>" "(u, cmd)" "[]"
        "hm_insert u (Some [cmd]) (pl_txs s)" P SP zs rp] assms(2,3)
    by (cases s) simp
  with assms(1) show ?thesis by (rule pl_reachable.step)
qed

lemma route_event:
  assumes "pl_reachable P SP zs rp s0 s" "pl_updates s = [ev]" "pl_cmds s = []" "direct_update ev = [(u, cmd)]"
    "hm_get (pl_txs s) u = Some (Some [])"
  shows "pl_reachable P SP zs rp s0 (set_updates [] s\<lparr>pl_txs := hm_insert u (Some [cmd]) (pl_txs s)\<rparr>)"
proof -
  have "pl_step P SP zs rp s (set_updates [] s\<lparr>pl_cmds := [(u, cmd)]\<rparr>)"
    using pl_step.Direct [of s ev "[]" P SP zs rp] assms by (cases s) (simp add: set_updates_def)
  with assms(1) have "pl_reachable P SP zs rp s0 (set_updates [] s\<lparr>pl_cmds := [(u, cmd)]\<rparr>)" by (rule pl_reachable.step)
  from deliver [OF this] show ?thesis using assms(3,5) by simp
qed

lemma serve_queued:
  assumes "pl_reachable P SP zs rp s0 (s\<lparr>pl_txs := hm_insert u (Some [cmd]) (pl_txs s)\<rparr>)"
    "hm_get (pl_txs s) u = Some (Some [])" "hm_get (pl_servers s) u = Some sv"
    "handle_command SP env cmd sv (server_view s) = (Ok (), sv', w')"
  shows "pl_reachable P SP zs rp s0 (after_server u sv' w' s)"
proof -
  have "pl_step P SP zs rp (s\<lparr>pl_txs := hm_insert u (Some [cmd]) (pl_txs s)\<rparr>) (after_server u sv' w' s)"
    using pl_step.Serve [of "s\<lparr>pl_txs := hm_insert u (Some [cmd]) (pl_txs s)\<rparr>" u sv cmd "[]" SP env "Ok ()" sv' w' P zs rp]
      assms(2-4) hm_insert_back [OF assms(2), of "Some [cmd]"]
    by (cases s) (simp add: server_view_def after_server_def set_queue_def set_updates_def)
  with assms(1) show ?thesis by (rule pl_reachable.step)
qed

lemma serve_event:
  assumes "pl_reachable P SP zs rp s0 s" "pl_updates s = [ev]" "pl_cmds s = []" "direct_update ev = [(u, cmd)]"
    "hm_get (pl_txs s) u = Some (Some [])" "hm_get (pl_servers s) u = Some sv"
    "handle_command SP env cmd sv (server_view (set_updates [] s)) = (Ok (), sv', w')"
  shows "pl_reachable P SP zs rp s0 (after_server u sv' w' s)"
proof -
  have "pl_reachable P SP zs rp s0 (after_server u sv' w' (set_updates [] s))"
    by (rule serve_queued [OF _ _ _ assms(7)]) (use route_event [OF assms(1-5)] assms(5,6) in simp_all)
  moreover have "after_server u sv' w' (set_updates [] s) = after_server u sv' w' s"
    by (cases s) (simp add: after_server_def set_updates_def)
  ultimately show ?thesis by simp
qed

lemma serve_http:
  assumes "pl_reachable P SP zs rp s0 s" "pl_cmds s = []" "http_sends rp [(u, cmd)]"
    "hm_get (pl_txs s) u = Some (Some [])" "hm_get (pl_servers s) u = Some sv"
    "handle_command SP env cmd sv (server_view s) = (Ok (), sv', w')"
  shows "pl_reachable P SP zs rp s0 (after_server u sv' w' s)"
proof -
  have "pl_step P SP zs rp s (s\<lparr>pl_cmds := [(u, cmd)]\<rparr>)"
    using pl_step.Http [OF assms(3), of P SP zs s] assms(2) by simp
  with assms(1) have "pl_reachable P SP zs rp s0 (s\<lparr>pl_cmds := [(u, cmd)]\<rparr>)" by (rule pl_reachable.step)
  from serve_queued [OF deliver [OF this assms(2,4)] assms(4-6)] show ?thesis .
qed

lemma sign_event:
  assumes "pl_reachable P SP zs rp s0 s" "pl_updates s = [ev]" "pl_cmds s = []" "direct_update ev = [(''ZS'', cmd)]"
    "hm_get (pl_txs s) ''ZS'' = Some (Some [])"
    "signer_command P zs env cmd (sign_view (set_updates [] s)) = (Ok True, w')"
  shows "pl_reachable P SP zs rp s0 (after_sign w' s)"
proof -
  let ?s = "set_updates [] s\<lparr>pl_txs := hm_insert ''ZS'' (Some [cmd]) (pl_txs s)\<rparr>"
  have "pl_step P SP zs rp ?s (after_sign w' s)"
    using pl_step.Sign [of ?s cmd "[]" P zs env "Ok True" w' SP rp] assms(5,6) hm_insert_back [OF assms(5), of "Some [cmd]"]
    by (cases s) (simp add: sign_view_def after_sign_def set_queue_def set_updates_def)
  with route_event [OF assms(1-5)] show ?thesis by (rule pl_reachable.step)
qed

text \<open>Signing version 6 of the example zone, as the signer does it in the run.\<close>

definition run_params :: "demo_tree signer_params" where
  "run_params = demo_signer_params\<lparr>si_finish := (\<lambda>st rs soa. unat (soa_serial (fst soa)))\<rparr>"

definition run_trees :: "demo_tree \<Rightarrow> demo_tree \<Rightarrow> demo_tree \<Rightarrow> demo_tree zone_trees" where
  "run_trees un sd pub = \<lparr>zt_unsigned_zones = un, zt_signed_zones = sd, zt_published_zones = pub\<rparr>"

definition at_store :: "nat \<Rightarrow> demo_tree" where
  "at_store r = [((''example'', Class_IN), r)]"

lemma at_store_simps [simp]:
  "d_tree_get demo_api (at_store r) ''example'' Class_IN = Some r"
  "d_tree_get demo_api [] n cl = None"
  "d_tree_insert demo_api ''example'' Class_IN r [] = Inr (at_store r)"
  "d_tree_remove demo_api ''example'' Class_IN (at_store r) = Inr []"
  "d_tree_remove demo_api n cl [] = Inl ()"
  by (simp_all add: at_store_def demo_api_def hm_insert_def hm_remove_def)

lemma run_soa: "get_zone_soa demo_api 6 ''example'' = Inr (demo_soa 6, 60)"
  by (simp add: get_zone_soa_def demo_api_def demo_query_def)

lemma run_write:
  assumes "ip_unsigned_rr_count p \<noteq> None" "ip_walk_time p \<noteq> None"
    "ip_sort_time p \<noteq> None" "ip_denial_rr_count p \<noteq> None" "ip_denial_time p \<noteq> None"
  shows "\<exists>st. write_signed run_params demo_signer env ''example'' 1 (demo_soa 6, 60) config keys []
     \<lparr>gw_center = c, gw_trees = t, gw_stores = [6, 0], gw_status = one_status (InProgress p), gw_updates = us\<rparr>
   = (Ok (), \<lparr>gw_center = c, gw_trees = t, gw_stores = [6, 6], gw_status = st,
        gw_updates = us @ [ZoneSignedEvent ''example'' 6]\<rparr>)"
proof -
  have d: "determine_signing_concurrency 4 0 = Ok (1, 0)" by (simp add: determine_signing_concurrency_def)
  have g: "generate_rrsigs 1 0 sign [] = ([[]], True)" for sign :: "'o \<Rightarrow> string + 'g list"
    by (simp add: generate_rrsigs_def sign_rr_chunk_def)
  let ?q = "p\<lparr>ip_threads_used := Some 1, ip_rrsig_count := Some 0,
      ip_rrsig_reused_count := Some 0, ip_rrsig_time := Some (sn_durations env 3),
      ip_insertion_time := Some (sn_durations env 4), ip_total_time := Some (sn_durations env 5)\<rparr>"
  have "ip_complete ?q" using assms by (simp add: ip_complete_def)
  note f = one_status_steps(4) [OF this, of "sn_finished_at env"]
  obtain st where f0: "zss_finish (sn_finished_at env) ''example'' (one_status (InProgress ?q)) = (Ok (), st)"
    using f by (metis prod.collapse)
  show ?thesis
    by (simp add: Let_def f0 [simplified] write_signed_def finish_signed_def run_params_def demo_signer_params_def
        demo_signer_def d [simplified] g [simplified] map_status_def set_store_def one_status_steps(1,2,3) demo_soa_def)
qed

lemma run_sign:
  assumes "\<not> ce_poisoned c" "hm_get (st_zones (ce_state c)) ''example'' = Some r0"
    "zst_policy (zn_state (ce_heap c ! r0)) = Some policy"
  shows "\<exists>st. sign_zone run_params demo_signer demo_sign_env ''example'' False
     \<lparr>gw_center = c, gw_trees = run_trees (at_store 0) [] pub, gw_stores = [6], gw_status = ZoneSignerStatus_default,
      gw_updates = us\<rparr>
   = (Ok (), \<lparr>gw_center = c, gw_trees = run_trees (at_store 0) (at_store 1) pub, gw_stores = [6, 6], gw_status = st,
      gw_updates = us @ [ZoneSignedEvent ''example'' 6]\<rparr>)"
  (is "\<exists>st. sign_zone _ _ _ _ _ ?w = (Ok (), ?w' st)")
proof -
  let ?W = "\<lambda>p. \<lparr>gw_center = c, gw_trees = run_trees (at_store 0) (at_store 1) pub, gw_stores = [6, 0],
      gw_status = one_status (InProgress p), gw_updates = us\<rparr>"
  have a: "si_api run_params = demo_api" "si_walk run_params = (\<lambda>st. [])"
    by (simp_all add: run_params_def demo_signer_params_def)
  have e: "sn_started_at demo_sign_env = 2" "sn_requested_at demo_sign_env = 1" "sn_durations demo_sign_env i = 0"
      "sn_timestamp demo_sign_env = 1000" for i
    by (simp_all add: demo_sign_env_def)
  have t: "zone_to_sign demo_api ''example'' False (run_trees (at_store 0) [] pub) = Some 0"
    by (simp add: zone_to_sign_def run_trees_def)
  let ?p = "InProgressStatus_new 2 \<lparr>rq_requested_at = 1\<rparr> (soa_serial (demo_soa 6))"
  have ins: "get_or_insert_signed_zone run_params demo_signer ''example''
      (map_status (zss_start 2 ''example'' (soa_serial (demo_soa 6))) (map_status (zss_enqueue 1 ''example'') ?w)) = (Ok 1, ?W ?p)"
    by (simp add: get_or_insert_signed_zone_def a map_status_def one_status_steps(1,2) run_trees_def Let_def)
       (simp add: run_params_def demo_signer_params_def)
  have pol: "policy_of_zone ''example'' (?W p) = (Ok policy, ?W p)" for p
    using assms by (simp add: policy_of_zone_def)
  have prep: "prepare_records run_params demo_sign_env ''example'' config [] (?W p) = (Ok (Some ([3], [])),
      ?W (p\<lparr>ip_sort_time := Some 0, ip_denial_rr_count := Some 0, ip_denial_time := Some 0\<rparr>))" for config p
    by (simp add: prepare_records_def load_file_key_def map_status_def one_status_steps(3) Let_def
      demo_sign_env_def demo_key_env_def demo_signer_params_def run_params_def)
  obtain st where wr: "write_signed run_params demo_signer demo_sign_env ''example'' 1 (demo_soa 6, 60)
      (signing_config 1000 policy) [3] [] (?W (?p\<lparr>ip_unsigned_rr_count := Some 0, ip_walk_time := Some 0,
        ip_sort_time := Some 0, ip_denial_rr_count := Some 0, ip_denial_time := Some 0\<rparr>)) = (Ok (), ?w' st)"
    using run_write [of "?p\<lparr>ip_unsigned_rr_count := Some 0, ip_walk_time := Some 0,
        ip_sort_time := Some 0, ip_denial_rr_count := Some 0, ip_denial_time := Some 0\<rparr>"] by fastforce
  have up: "map_status (zss_update ''example'' f) (?W p) = ?W (f p)" for f p
    by (simp add: map_status_def one_status_steps(3))
  have "sign_zone run_params demo_signer demo_sign_env ''example'' False ?w = (Ok (), ?w' st)"
    using ins by (simp add: sign_zone_def Let_def a t run_soa e pol collect_zone_def up prep wr del: One_nat_def)
  then show ?thesis by (rule exI [of _ st])
qed

text \<open>The run: version 5 is loaded and approved; version 6 replaces it before the signer starts.\<close>

definition run_parsers :: review_parsers where
  "run_parsers = \<lparr>rp_name = Some, rp_serial = (\<lambda>s. if s = ''5'' then Some 5 else Some 6)\<rparr>"

definition reviewer :: "Source \<Rightarrow> (review_key, token list) hmap \<Rightarrow> (review_key, instant) hmap \<Rightarrow> ZoneServer" where
  "reviewer source pending last_approvals = \<lparr>sv_mode = Prepublish, sv_source = source,
     sv_hooks = [if source = UnsignedZones then ''/tmp/approve_or_deny.sh'' else ''/tmp/approve_or_deny_signed.sh''],
     sv_listen = demo_listen,
     sv_pending_approvals = pending, sv_last_approvals = last_approvals\<rparr>"

definition run_state :: "demo_tree zone_trees \<Rightarrow> token list \<Rightarrow> ZoneSignerStatus \<Rightarrow> Update list
    \<Rightarrow> ZoneServer \<Rightarrow> ZoneServer \<Rightarrow> (demo_tree, token) pipeline" where
  "run_state trees stores status us rs rs2 = \<lparr>pl_center = demo_sign_center\<lparr>ce_updates := us\<rparr>, pl_trees = trees,
     pl_stores = stores, pl_status = status, pl_cmds = [],
     pl_txs = map (\<lambda>u. (u, Some [])) [''ZL'', ''RS'', ''KM'', ''ZS'', ''RS2'', ''PS'', ''HS''],
     pl_servers = [(''RS'', rs), (''RS2'', rs2), (''PS'', ZoneServer_new Publish PublishedZones [] demo_listen)]\<rparr>"

abbreviation run_start :: "(demo_tree, token) pipeline" where
  "run_start \<equiv> spawned_pipeline demo_api 8 demo_units demo_sign_center"

abbreviation run_reachable :: "(demo_tree, token) pipeline \<Rightarrow> bool" where
  "run_reachable s \<equiv> pl_reachable run_params demo_params demo_signer run_parsers run_start s"

lemma run_start: "run_reachable (run_state (run_trees [] [] []) [] ZoneSignerStatus_default []
    (reviewer UnsignedZones [] []) (reviewer SignedZones [] []))"
proof -
  have "run_start = run_state (run_trees [] [] []) [] ZoneSignerStatus_default []
    (reviewer UnsignedZones [] []) (reviewer SignedZones [] [])"
    by (simp add: spawned_pipeline_def demo_units_def server_unit_run_def spawn_rs_def spawn_rs2_def spawn_ps_def run_state_def run_trees_def reviewer_def ZoneServer_new_def demo_api_def)
  then show ?thesis using pl_reachable.start by metis
qed

lemma run_state_simps [simp]:
  "pl_updates (run_state trees stores status us rs rs2) = us" "pl_cmds (run_state trees stores status us rs rs2) = []"
  "pl_trees (run_state trees stores status us rs rs2) = trees" "pl_stores (run_state trees stores status us rs rs2) = stores"
  "hm_get (pl_txs (run_state trees stores status us rs rs2)) ''RS'' = Some (Some [])"
  "hm_get (pl_txs (run_state trees stores status us rs rs2)) ''RS2'' = Some (Some [])"
  "hm_get (pl_txs (run_state trees stores status us rs rs2)) ''PS'' = Some (Some [])"
  "hm_get (pl_txs (run_state trees stores status us rs rs2)) ''ZS'' = Some (Some [])"
  "hm_get (pl_servers (run_state trees stores status us rs rs2)) ''RS'' = Some rs"
  "hm_get (pl_servers (run_state trees stores status us rs rs2)) ''RS2'' = Some rs2"
  "hm_get (pl_servers (run_state trees stores status us rs rs2)) ''PS'' = Some (ZoneServer_new Publish PublishedZones [] demo_listen)"
  "server_view (run_state trees stores status us rs rs2) = \<lparr>sw_trees = trees, sw_updates = us, sw_replies = [], sw_pages = []\<rparr>"
  "set_updates us' (run_state trees stores status us rs rs2) = run_state trees stores status us' rs rs2"
  "after_server ''RS'' sv w (run_state trees stores status us rs rs2) = run_state (sw_trees w) stores status (sw_updates w) sv rs2"
  "after_server ''RS2'' sv w (run_state trees stores status us rs rs2) = run_state (sw_trees w) stores status (sw_updates w) rs sv"
  by (simp_all add: run_state_def server_view_def set_updates_def after_server_def hm_insert_def)

lemma run_load:
  assumes "run_reachable (run_state (run_trees un [] []) stores status us rs rs2)" "length stores \<le> length stores'"
  shows "run_reachable (run_state (run_trees un' [] []) stores' status us rs rs2)"
proof -
  have "pl_step run_params demo_params demo_signer run_parsers (run_state (run_trees un [] []) stores status us rs rs2)
      (run_state (run_trees un' [] []) stores' status us rs rs2)"
    using pl_step.Load [of run_params "run_state (run_trees un [] []) stores status us rs rs2" stores' demo_params
        demo_signer run_parsers un'] assms(2)
    by (simp add: run_params_def demo_signer_params_def demo_api_def demo_iter_def run_trees_def) (simp add: run_state_def)
  with assms(1) show ?thesis by (rule pl_reachable.step)
qed

lemma run_event:
  assumes "run_reachable (run_state trees stores status us rs rs2)" "outside_event ev"
  shows "run_reachable (run_state trees stores status (us @ [ev]) rs rs2)"
  using assms(1) pl_step.Event [OF assms(2), of run_params demo_params demo_signer run_parsers "run_state trees stores status us rs rs2"]
  by (simp add: pl_reachable.step)

text \<open>A hook is started for the version of an event, and its answer approves the version.\<close>

definition seek_cmd :: "string \<Rightarrow> serial \<Rightarrow> ApplicationCommand" where
  "seek_cmd u sr = (if u = ''RS'' then SeekApprovalForUnsignedZone ''example'' sr else SeekApprovalForSignedZone ''example'' sr)"

lemma run_seek:
  "handle_command demo_params (demo_server_env True) (SeekApprovalForUnsignedZone ''example'' sr) (reviewer src [] []) w
     = (Ok (), reviewer src [((''example'', sr), [1])] [], w)"
  "handle_command demo_params (demo_server_env True) (SeekApprovalForSignedZone ''example'' sr) (reviewer src [] []) w
     = (Ok (), reviewer src [((''example'', sr), [1])] [], w)"
  by (simp_all add: on_seek_approval_for_zone_cmd_def reviewer_def demo_server_env_def hm_insert_def)

lemma run_approve:
  assumes "approved_event src ''example'' sr = Ok ev"
  shows "handle_command demo_params (demo_server_env True) (HandleZoneReviewApi ''example'' sr ''a'' ''approve'' 0)
      (reviewer src [((''example'', sr), [1])] []) w
     = (Ok (), reviewer src [] [((''example'', sr), 0)], w\<lparr>sw_updates := sw_updates w @ [ev], sw_replies := sw_replies w @ [(0, True)]\<rparr>)"
  using assms
  by (simp add: on_zone_review_api_cmd_def process_request_def reviewer_def demo_server_env_def demo_params_def
      hm_insert_def hm_remove_def send_update_def Let_def)

lemma run_http: "u \<in> set [''RS'', ''RS2'', ''PS''] \<Longrightarrow>
    http_sends run_parsers [(u, HandleZoneReviewApi ''example'' (if sr = ''5'' then 5 else 6) ''a'' ''approve'' 0)]"
  by (rule http_sends.Review [of _ u "''approve''" "''a''" "[(''zone'', ''example''), (''serial'', sr)]" 0])
     (auto simp: review_request_def run_parsers_def)

lemma run_approved: "run_reachable (run_state (run_trees (at_store 0) [] []) [5] ZoneSignerStatus_default
    [UnsignedZoneApprovedEvent ''example'' 5] (reviewer UnsignedZones [] [((''example'', 5), 0)]) (reviewer SignedZones [] []))"
proof -
  let ?s = "\<lambda>us rs. run_state (run_trees (at_store 0) [] []) [5] ZoneSignerStatus_default us rs (reviewer SignedZones [] [])"
  have "run_reachable (?s [] (reviewer UnsignedZones [] []))" by (rule run_load [OF run_start]) simp
  from run_event [OF this, of "UnsignedZoneUpdatedEvent ''example'' 5"]
  have "run_reachable (?s [UnsignedZoneUpdatedEvent ''example'' 5] (reviewer UnsignedZones [] []))" by simp
  from serve_event [OF this, of "UnsignedZoneUpdatedEvent ''example'' 5" "''RS''", OF _ _ _ _ _ run_seek(1)]
  have "run_reachable (?s [] (reviewer UnsignedZones [((''example'', 5), [1])] []))" by simp
  note * = serve_http [OF this _ run_http [of "''RS''" "''5''"], unfolded if_P [OF refl], OF _ _ _ _ run_approve]
  show ?thesis using * by (simp add: approved_event_def)
qed

lemma run_published:
  "\<exists>status. run_reachable (run_state (run_trees (at_store 0) [] (at_store 1)) [6, 6] status []
    (reviewer UnsignedZones [] [((''example'', 5), 0)]) (reviewer SignedZones [] [((''example'', 6), 0)]))"
proof -
  let ?rs = "reviewer UnsignedZones [] [((''example'', 5), 0)]"
  let ?init = "run_state (run_trees (at_store 0) [] []) [6] ZoneSignerStatus_default
      [UnsignedZoneApprovedEvent ''example'' 5] ?rs (reviewer SignedZones [] [])"
  have s0: "run_reachable ?init" by (rule run_load [OF run_approved]) simp
  let ?c = "demo_sign_center\<lparr>ce_updates := []\<rparr>"
  have "\<not> ce_poisoned ?c" "hm_get (st_zones (ce_state ?c)) ''example'' = Some 0"
    "zst_policy (zn_state (ce_heap ?c ! 0)) = Some demo_sign_policy"
    by (simp_all add: demo_sign_center_def)
  from run_sign [OF this, of "[]" "[]"] obtain st where
    sz: "sign_zone run_params demo_signer demo_sign_env ''example'' False (sign_view (set_updates [] ?init))
      = (Ok (), \<lparr>gw_center = ?c, gw_trees = run_trees (at_store 0) (at_store 1) [], gw_stores = [6, 6], gw_status = st,
          gw_updates = [ZoneSignedEvent ''example'' 6]\<rparr>)" (is "_ = (_, ?w)")
    by (auto simp: sign_view_def run_state_def set_updates_def)
  let ?s = "\<lambda>us rs2. run_state (run_trees (at_store 0) (at_store 1) []) [6, 6] st us ?rs rs2"
  have sg: "signer_command run_params demo_signer demo_sign_env (SignZone ''example'' (Some 5)) (sign_view (set_updates [] ?init))
      = (Ok True, ?w)"
    using sz by simp
  have "run_reachable (after_sign ?w ?init)"
    using sign_event [OF s0, of "UnsignedZoneApprovedEvent ''example'' 5", OF _ _ _ _ sg] by simp
  moreover have "after_sign ?w ?init = ?s [ZoneSignedEvent ''example'' 6] (reviewer SignedZones [] [])"
    by (simp add: after_sign_def run_state_def)
  ultimately have "run_reachable (?s [ZoneSignedEvent ''example'' 6] (reviewer SignedZones [] []))" by (simp only:)
  from serve_event [OF this, of "ZoneSignedEvent ''example'' 6" "''RS2''", OF _ _ _ _ _ run_seek(2)]
  have "run_reachable (?s [] (reviewer SignedZones [((''example'', 6), [1])] []))" by simp
  note * = serve_http [OF this _ run_http [of "''RS2''" "''6''"], OF _ _ _ _ run_approve]
  have r2: "run_reachable (?s [SignedZoneApprovedEvent ''example'' 6] (reviewer SignedZones [] [((''example'', 6), 0)]))"
    using * by (simp add: approved_event_def)
  let ?pubd = "?s [SignedZoneApprovedEvent ''example'' 6] (reviewer SignedZones [] [((''example'', 6), 0)])"
  have pub: "handle_command demo_params (demo_server_env True) (PublishSignedZone ''example'' 6)
      (ZoneServer_new Publish PublishedZones [] demo_listen) (server_view (set_updates [] ?pubd))
    = (Ok (), ZoneServer_new Publish PublishedZones [] demo_listen,
       \<lparr>sw_trees = run_trees (at_store 0) [] (at_store 1), sw_updates = [], sw_replies = [], sw_pages = []\<rparr>)"
    by (simp add: on_publish_signed_zone_cmd_def demo_params_def run_trees_def Let_def)
  have "run_reachable (after_server ''PS'' (ZoneServer_new Publish PublishedZones [] demo_listen)
       \<lparr>sw_trees = run_trees (at_store 0) [] (at_store 1), sw_updates = [], sw_replies = [], sw_pages = []\<rparr> ?pubd)"
    using serve_event [OF r2, of "SignedZoneApprovedEvent ''example'' 6", OF _ _ _ _ _ pub] by simp
  moreover have "after_server ''PS'' (ZoneServer_new Publish PublishedZones [] demo_listen)
       \<lparr>sw_trees = run_trees (at_store 0) [] (at_store 1), sw_updates = [], sw_replies = [], sw_pages = []\<rparr> ?pubd
    = run_state (run_trees (at_store 0) [] (at_store 1)) [6, 6] st [] ?rs (reviewer SignedZones [] [((''example'', 6), 0)])"
    by (simp add: run_state_def after_server_def set_updates_def hm_insert_def)
  ultimately show ?thesis by (metis (no_types))
qed

section \<open>The properties on the run\<close>

lemma run_hyps: "zone_tree_ok demo_api" "si_api run_params = demo_api" "sp_api demo_params = demo_api" "spawn_units demo_spawn = Ok demo_units"
  by (simp_all add: demo_spawned run_params_def demo_signer_params_def demo_params_def)

theorem published_only_approved_witness:
  "\<exists>s. run_reachable s \<and> in_published demo_api s ''example''
    \<and> reviewed s ''RS'' ''example'' \<and> reviewed s ''RS2'' ''example''"
proof -
  obtain s where s: "run_reachable s" "pl_trees s = run_trees (at_store 0) [] (at_store 1)"
    using run_published by fastforce
  then have "in_published demo_api s ''example''" by (simp add: in_published_def run_trees_def)
  with published_only_approved [OF run_hyps s(1)] s(1) show ?thesis by blast
qed

definition run_add :: ZoneAdd where
  "run_add = \<lparr>za_name = ''example'', za_source = Zonefile ''f'', za_policy = ''p''\<rparr>"

theorem keyset_never_created_witness:
  "\<exists>s. run_reachable s \<and> RegisterZone run_add \<in> waiting s ''ZL'' \<and> RegisterZone run_add \<notin> waiting s ''KM''"
proof -
  let ?b = "run_state (run_trees [] [] []) [] ZoneSignerStatus_default []
    (reviewer UnsignedZones [] []) (reviewer SignedZones [] [])"
  let ?s = "?b\<lparr>pl_cmds := [(''ZL'', RegisterZone run_add)]\<rparr>"
  have "pl_step run_params demo_params demo_signer run_parsers ?b ?s"
    using pl_step.Http [OF http_sends.Add, of run_params demo_params demo_signer run_parsers ?b run_add] by simp
  with run_start have r: "run_reachable ?s" by (rule pl_reachable.step)
  moreover have "RegisterZone run_add \<in> waiting ?s ''ZL''" by (simp add: waiting_def)
  ultimately show ?thesis using keyset_never_created [OF run_hyps r, of run_add] by blast
qed

text \<open>C4: a version of a zone can be published that the review server for unsigned zones never approved:
  the signer takes the zone as it is when the command to sign is handled, whatever version was approved.\<close>

theorem published_without_review:
  "\<exists>s r soa. run_reachable s
    \<and> d_tree_get demo_api (zt_published_zones (pl_trees s)) ''example'' Class_IN = Some r
    \<and> get_zone_soa demo_api (pl_stores s ! r) ''example'' = Inr soa
    \<and> \<not> approved s ''RS'' (''example'', soa_serial (fst soa))"
proof -
  obtain st where s: "run_reachable (run_state (run_trees (at_store 0) [] (at_store 1)) [6, 6] st []
    (reviewer UnsignedZones [] [((''example'', 5), 0)]) (reviewer SignedZones [] [((''example'', 6), 0)]))"
    (is "run_reachable ?s")
    using run_published by blast
  have "\<not> approved ?s ''RS'' (''example'', soa_serial (demo_soa 6))"
    by (simp add: approved_def reviewer_def demo_soa_def)
  then show ?thesis using s
    by (intro exI [of _ ?s] exI [of _ 1] exI [of _ "(demo_soa 6, 60)"]) (simp add: run_trees_def run_soa)
qed

section \<open>A zone without a policy\<close>

lemma policy_panics: "zone_policy (gw_center w) n = None \<Longrightarrow> \<exists>w'. policy_of_zone n w = (Panic, w')"
  by (auto simp: policy_of_zone_def zone_policy_def Let_def split: option.splits)

lemma insert_center: "get_or_insert_signed_zone P zs n w = (res, w') \<Longrightarrow> gw_center w' = gw_center w \<and> (\<forall>e. res \<noteq> Err e)"
  by (auto simp: get_or_insert_signed_zone_def Let_def split: option.splits sum.splits)

lemma sign_without_policy:
  assumes "zone_policy (gw_center w) n = None" "zone_to_sign (si_api P) n (sr = None) (gw_trees w) = Some src"
    "get_zone_soa (si_api P) (gw_stores w ! src) n = Inr soa"
  shows "fst (signer_command P zs env (SignZone n sr) w) = Panic"
proof -
  let ?w = "map_status (zss_start (sn_started_at env) n (soa_serial (fst soa))) (map_status (zss_enqueue (sn_requested_at env) n) w)"
  obtain res w2 where i: "get_or_insert_signed_zone P zs n ?w = (res, w2)" by fastforce
  have c: "gw_center w2 = gw_center w" "\<And>e. res \<noteq> Err e" using insert_center [OF i] by simp_all
  obtain w3 where p: "policy_of_zone n w2 = (Panic, w3)" using policy_panics [of w2 n] assms(1) c by auto
  have "\<exists>w'. sign_zone P zs env n (sr = None) w = (Panic, w')"
    by (cases res) (use c(2) in \<open>simp_all add: sign_zone_def Let_def assms(2,3) i p\<close>)
  then show ?thesis by auto
qed

text \<open>C14: adding a zone with an unknown policy is answered as submitted, but leaves the zone without a
  policy; signing a zone without a policy, as after this or after its removal, ends the signer, and the
  next command for the signer then panics in the main loop of the program.\<close>

theorem unknown_policy_ends_program:
  assumes "alive c" "links_ok c" "hm_get (zones_of c) (za_name reg) = None" "hm_get (policies_of c) (za_policy reg) = None"
  shows "(\<exists>c'. http_zone_add reg c = (Ok \<lparr>zar_name = za_name reg, zar_status = ''Submitted''\<rparr>, c', [(''ZL'', RegisterZone reg)])
        \<and> zone_policy c' (za_name reg) = None)
    \<and> (\<forall>P zs env sr src soa (w :: ('t, 'k) sign_world). zone_policy (gw_center w) (za_name reg) = None \<longrightarrow>
        zone_to_sign (si_api P) (za_name reg) (sr = None) (gw_trees w) = Some src \<longrightarrow>
        get_zone_soa (si_api P) (gw_stores w ! src) (za_name reg) = Inr soa \<longrightarrow>
        fst (signer_command P zs env (SignZone (za_name reg) sr) w) = Panic)
    \<and> (\<forall>cmd cmds txs. fst (forward_app_cmds ((''ZS'', cmd) # cmds) (hm_insert ''ZS'' None txs)) = Panic)"
proof -
  obtain c1 where "http_zone_add reg c = (Ok \<lparr>zar_name = za_name reg, zar_status = ''Submitted''\<rparr>, c1, [(''ZL'', RegisterZone reg)])"
    and c1: "zone_policy c1 (za_name reg) = None"
    using http_zone_add_unknown_policy [OF assms] by blast
  with c1 show ?thesis using sign_without_policy by force
qed

theorem unknown_policy_ends_program_witness:
  "\<exists>c'. http_zone_add run_add (new_center :: token Center) = (Ok \<lparr>zar_name = ''example'', zar_status = ''Submitted''\<rparr>, c', [(''ZL'', RegisterZone run_add)])
    \<and> fst (signer_command run_params demo_signer demo_sign_env (SignZone ''example'' (Some 6))
        \<lparr>gw_center = c', gw_trees = run_trees (at_store 0) [] [], gw_stores = [6], gw_status = ZoneSignerStatus_default,
         gw_updates = []\<rparr>) = Panic"
proof -
  let ?c = "new_center :: token Center"
  have c: "alive ?c" "links_ok ?c" "hm_get (zones_of ?c) (za_name run_add) = None"
    "hm_get (policies_of ?c) (za_policy run_add) = None" "za_name run_add = ''example''"
    by (simp_all add: run_add_def)
  note u = unknown_policy_ends_program [OF c(1-4)]
  obtain c' where h: "http_zone_add run_add ?c = (Ok \<lparr>zar_name = ''example'', zar_status = ''Submitted''\<rparr>, c',
      [(''ZL'', RegisterZone run_add)])" "zone_policy c' ''example'' = None"
    using u unfolding c(5) by blast
  have panics: "zone_policy (gw_center w) ''example'' = None \<Longrightarrow>
      zone_to_sign (si_api P) ''example'' (sr = None) (gw_trees w) = Some src \<Longrightarrow>
      get_zone_soa (si_api P) (gw_stores w ! src) ''example'' = Inr soa \<Longrightarrow>
      fst (signer_command P zs env (SignZone ''example'' sr) w) = Panic" for w :: "(demo_tree, token) sign_world" and P zs env sr src soa
    using u unfolding c(5) by blast
  have "zone_to_sign (si_api run_params) ''example'' False (run_trees (at_store 0) [] []) = Some 0"
    by (simp add: zone_to_sign_def run_hyps run_trees_def)
  then have "fst (signer_command run_params demo_signer demo_sign_env (SignZone ''example'' (Some 6))
        \<lparr>gw_center = c', gw_trees = run_trees (at_store 0) [] [], gw_stores = [6], gw_status = ZoneSignerStatus_default,
         gw_updates = []\<rparr>) = Panic"
    using h(2) run_soa by (intro panics [of _ _ "Some 6" 0 "(demo_soa 6, 60)"]) (simp_all add: run_hyps)
  with h(1) show ?thesis by blast
qed

end
