(* ===== verification/Spec2Isabelle.thy ===== *)
theory Spec2Isabelle
  imports End_To_End Messages Arguments Xfr_Net Zone_Set Signer_Tasks Metrics_Raw Maintainer_Claims Xfr_Out Loader_Claims Key_Manager_Loop Pipeline_Claims Logging Shutdown Metrics Hsm
begin

text \<open>
  A model of Cascade (\<open>nameshed\<close>), a daemon that loads DNS zones, has them reviewed, signs them, has
  them reviewed again and publishes them. Paths below are relative to \<open>src/\<close> of the crate.

  \<^bold>\<open>The program.\<close> The units run concurrently and talk over queues; what they share is the
  \<open>Center\<close> (\<open>center.rs\<close>): the global state behind a lock (configuration, policies, zones, TSIG
  keys) and three collections of zones (unsigned, signed, published). The loader gets zones from
  files or, through the zone maintainer, from primaries, and announces each new version. The central
  command turns every event into a command for a unit: a new unsigned version goes to the first review
  server, an approved one to the signer, a signed one to the second review server, an approved signed
  one to the publication server. The key manager runs \<open>dnst keyset\<close> and asks for new signatures
  when the key set of a zone changed. The HTTP server adds and removes zones and passes reviews on.

  \<^bold>\<open>Conventions.\<close> Names follow the source. A struct is a record (fields with a short prefix), an
  enum a datatype, an integer a word of its width. \<open>Result\<close> together with a panic is
  \<open>outcome\<close>: \<open>Ok\<close>, \<open>Err\<close>, \<open>Panic\<close>. A \<open>HashMap\<close> is an association list with distinct
  keys, in an arbitrary iteration order. A lock that was held during a panic is poisoned, and the
  operations that lock it panic from then on. An \<open>Arc\<close> with a lock inside is an address in a heap.
  What the program takes from other crates and from the operating system is a parameter (a record of
  functions) with the documented laws the proofs need as predicates: the \<open>domain\<close> crate's trees of
  zones, questions, serial order, names and updates (\<open>domain_api\<close>, \<open>zone_tree_ok\<close>), keys and their
  serialisation (\<open>key_api\<close>), the environment of one operation (clock, files, answers of servers,
  tokens). Every such parameter has a concrete instance that satisfies its laws; the witnesses use it.

  \<^bold>\<open>The theories\<close>, from the ground up.

    \<^item> \<open>Prelude\<close>: outcomes, maps and sets, the interface of a map as a locale; \<open>Net_Types\<close>:
      addresses, durations, serial arithmetic.
    \<^item> \<open>Policy\<close> and \<open>Policy_File\<close> (\<open>policy/\<close>): policies, their file, and the reloading of the
      policy directory. Reloading is a refinement of a map from file names to contents; what an error
      in the middle leaves behind is stated as well.
    \<^item> \<open>Config\<close> and \<open>Config_File\<close> (\<open>config/\<close>): layered settings, arguments, environment and file,
      and the precedence at start-up. \<open>Arguments\<close> (\<open>config/args.rs\<close>): the command line, which
      accepts the values that the environment variables accept.
    \<^item> \<open>Zone_State_File\<close> (\<open>zone/state/\<close>), \<open>Tsig_File\<close> (\<open>tsig/file/\<close>), \<open>State_File\<close>
      (\<open>state/\<close>): the saved files. Round trips: what comes back, and what does not.
    \<^item> \<open>Global_State\<close>, \<open>Center\<close> (\<open>center.rs\<close>, \<open>zone/mod.rs\<close>, \<open>payload.rs\<close>): the state, the zones in
      a heap, and the three save mechanisms with their tasks.
    \<^item> \<open>Center_Ops\<close> (\<open>center.rs\<close>, \<open>zone/mod.rs\<close>, \<open>config/mod.rs\<close>) and \<open>Tsig\<close> (\<open>tsig/mod.rs\<close>,
      \<open>common/tsig.rs\<close>): the operations on zones, policies and keys. Zones and policies refer to
      each other; the invariant is that the two directions agree.
    \<^item> \<open>Daemon\<close> (\<open>main.rs\<close>): loading at start-up and the operations as a state machine. In every state
      reachable from a first start the agreement holds, and the operations on zones panic exactly when
      the lock of the state is poisoned, which only the signer does, by signing a zone that has been
      removed; the operations implement a table of zones, an added zone gets saved; after a restart
      from the saved files the agreement does not hold.
    \<^item> \<open>File_IO\<close> (\<open>util.rs\<close>, the \<open>load\<close> and \<open>save\<close> of every file): the files on disk. A save is a
      list of operations of the file system; stopped after any of them it leaves the old file or the new one.
    \<^item> \<open>Zone_Set\<close> (\<open>zone/mod.rs\<close>): zones compared by name and by address; the hash set of zones refines
      the map that the state is modelled with.
    \<^item> \<open>Logging\<close> (\<open>log.rs\<close>): the settings of the logger and the records it writes.
    \<^item> \<open>Zm_Types\<close>, \<open>Zm_Diffs\<close> (\<open>zonemaintenance/types.rs\<close>): configuration of a maintained zone,
      stored differences, refresh states, timers and reports.
    \<^item> \<open>Zm_World\<close>, \<open>Xfr_In\<close>, \<open>Maintainer\<close>, \<open>Xfr_Out\<close> (\<open>zonemaintenance/maintainer.rs\<close>): maintained
      zones; refreshing a zone from its primaries over UDP and TCP with retries and fallback; the
      event loop with timers, NOTIFY and refresh tasks as a step relation in which tasks, calls that
      insert zones and the pieces of the loop interleave; who may transfer a zone and what is sent,
      against what the strategies are documented to allow. \<open>Xfr_Props\<close>, \<open>Maintainer_Props\<close>,
      \<open>Maintainer_Heap\<close>, \<open>Maintainer_Run\<close>, \<open>Maintainer_Claims\<close>: a refresh touches only
      its zone; the loop of attempts is the table of transfers that the strategy asks for; expiry is final
      in every run. An insertion and the activation of a zone copy the set of zones, wait, and store the
      copy: as long as no two of these overlap and the inserted zones are new (\<open>orderly\<close>), timers
      and pending zones are consistent and no zone is forgotten; \<open>overlap_loses_zone\<close> and
      \<open>readded_zone\<close> are what happens otherwise. \<open>Xfr_Net\<close>: the
      connections, the progress reports in the log and the texts of the errors.
    \<^item> \<open>Commands\<close> (\<open>comms.rs\<close>, \<open>api.rs\<close>, \<open>common/net.rs\<close>, \<open>targets/central_command.rs\<close>,
      \<open>forward_app_cmds\<close> of \<open>manager.rs\<close>): messages and their routing.
    \<^item> \<open>Light_Weight_Zone\<close> (\<open>common/light_weight_zone.rs\<close>): the store of secondary zones refines a
      map from names and types to record sets; the contract of a store is a locale.
    \<^item> \<open>Zone_Loader\<close>, \<open>Loader_Claims\<close> (\<open>units/zone_loader.rs\<close>, \<open>common/xfr.rs\<close>): registering
      zones and the start with its two channels of capacity 10 (a send into a full channel that
      nobody empties is \<open>None\<close>). When the start returns, and which settings are used. \<open>Zone_File\<close>: reading
      a zone file, every way it fails, and a zone registered with one.
    \<^item> \<open>Zone_Server\<close>, \<open>Zone_Review\<close> (\<open>units/zone_server.rs\<close>): the review servers and the
      publication server; what an approval means in terms of the hooks.
    \<^item> \<open>Zone_Signer\<close>, \<open>Zone_Signing\<close> (\<open>units/zone_signer.rs\<close>): one signing operation with its status,
      keys and threads. The division of the owners among threads signs each exactly once; signing writes
      to a store that no published zone has (\<open>stores_apart\<close>).
    \<^item> \<open>Hsm\<close> (\<open>units/zone_signer.rs\<close>, \<open>manager.rs\<close>): the settings of HSM connections and the
      start of the signer. \<open>Signer_Tasks\<close>: the files of keys, and the task that inserts signatures
      in the order in which they arrive, which does not change the result.
    \<^item> \<open>Key_Manager\<close>, \<open>Key_Manager_Loop\<close> (\<open>units/key_manager.rs\<close>): ticks, re-signing and the bound on cron
      runs, for one zone and in the loop with the ticks of all zones and the commands.
    \<^item> \<open>Http_Server\<close>, \<open>Http_Api\<close> (\<open>units/http_server.rs\<close>, \<open>api.rs\<close>): zones and reviews over HTTP; the
      values on the wire, the routes and every handler behind them. That a request reaches the handler
      meant for it follows from the laws of a router (\<open>router_ok\<close>).
    \<^item> \<open>Manager\<close> (\<open>manager.rs\<close>, \<open>units/zone_server.rs\<close>): the units that are started, with their fixed
      settings and those from the environment; the addresses a review server logs lead back to it.
    \<^item> \<open>Client\<close> (\<open>cli/\<close>, \<open>bin/cascade.rs\<close>): the command line client with the server at the other end;
      which commands do what they say, and which report a failure after a success.
    \<^item> \<open>End_To_End\<close>: a zone added with the client, through the HTTP server and the loader to the
      zone maintainer and the first review: what becomes of a zone file, and what of an address.
    \<^item> \<open>Metrics\<close>, \<open>Metrics_Raw\<close> (\<open>metrics.rs\<close>): the collection of metrics and its output, and the format
      of the unit tests, whose keys come back as they were printed; no unit registers metrics yet.
    \<^item> \<open>Shutdown\<close> (\<open>main.rs\<close>): ending the units and saving everything, with HTTP requests in between.
    \<^item> \<open>Program\<close> (\<open>main.rs\<close>): the start from the arguments to the started units, and a shutdown
      followed by a start on the disk it left. \<open>Messages\<close>: the texts of errors; a start that fails
      says why.
    \<^item> \<open>Pipeline\<close>, \<open>Pipeline_Claims\<close>: the units together as a step relation over the center, the
      collections and the queues; a step is one event routed, one command forwarded, one handler, or
      something from outside, in any order. The invariant ties every command under way and every
      published zone to approvals. A concrete run to a published zone shows that the invariant is
      not empty, and that the approved version need not be the one that is signed.

  \<^bold>\<open>Bounds.\<close> There is no fuel: loops are recursion over the lists the code iterates over, splitting a
  string terminates by its length, and reachable states are those of runs of any length. Counters
  and serials have the width of the code and wrap around.

  \<^bold>\<open>Not modelled.\<close> Printing and parsing TOML and JSON, matching a path with the routes, parsing arguments,
  sockets and the runtime belong to other crates; left out are \<open>file_io\<close> (unused) and the unused copy of
  \<open>ListenAddr\<close> in \<open>units/listen.rs\<close>. Generating signatures and denial records, parsing zone files,
  and connections to HSMs belong to other crates. A handler of a unit is one step, so interleavings
  inside one handler are not modelled, except in the zone maintainer, whose refresh tasks, insertions
  and activations of zones are split where they wait. Theorems state the conditions they need
  of the environment, and others what happens without them.
\<close>

end
